(* ===== verification/Py_Prelude.thy ===== *)
theory Py_Prelude
  imports Main "HOL-Library.List_Lexorder" "HOL-Library.Char_ord" "HOL-Library.Product_Lexorder"
    "HOL-Library.Sublist"
begin

text \<open>
  Shared vocabulary of the development: Python exceptions as values, the string and list
  operations of Python that the toolkit uses, SQL tables as lists of rows, and the generic
  lemmas and fact collections the component theories rely on.

  Text is modelled as HOL strings. The case operations (\<open>lower\<close>, \<open>upper\<close>, \<open>casefold\<close>) and
  \<open>strip\<close> are those of Python on ASCII text.
\<close>

named_theorems sql_simps \<open>lookup, update and delete on tables\<close>
named_theorems guard_simps \<open>unfolding of guard chains\<close>

section \<open>Exceptions as values\<close>

text \<open>
  Every \<open>raise\<close> of the source is an \<open>Inl\<close> of this type; a transaction that raises is rolled
  back, so an operation that returns \<open>Inl\<close> leaves the stored state as it was.
\<close>

datatype py_exn =
    ValueError string
  | PermissionError string
  | KeyError string
  | RuntimeError string
  | IntegrityError string
  | RecursionError
  | AttributeError string
  | TypeError string
  | OverflowError string
  | NameError string
  | ConfigurationError string

type_synonym 'a res = "py_exn + 'a"

definition ok :: "'e + 'a \<Rightarrow> bool" where
  "ok r \<longleftrightarrow> (case r of Inl _ \<Rightarrow> False | Inr _ \<Rightarrow> True)"

lemma ok_simps [simp]: "ok (Inr x)" "\<not> ok (Inl e)"
  by (simp_all add: ok_def)

lemma ok_iff: "ok r \<longleftrightarrow> (\<exists>x. r = Inr x)"
  by (cases r) (auto simp: ok_def)

text \<open>Sequencing of fallible steps over a list, as a Python loop whose body may raise.\<close>

fun fold_res :: "('a \<Rightarrow> 's \<Rightarrow> 's res) \<Rightarrow> 'a list \<Rightarrow> 's \<Rightarrow> 's res" where
  "fold_res f [] s = Inr s"
| "fold_res f (x # xs) s = (case f x s of Inl e \<Rightarrow> Inl e | Inr s' \<Rightarrow> fold_res f xs s')"

lemma fold_res_invariant:
  assumes "fold_res f xs s = Inr t" and "P s"
    and "\<And>x s s'. x \<in> set xs \<Longrightarrow> f x s = Inr s' \<Longrightarrow> P s \<Longrightarrow> P s'"
  shows "P t"
  using assms
proof (induction xs arbitrary: s)
  case (Cons x xs)
  then show ?case by (fastforce split: sum.splits)
qed simp

section \<open>Strings\<close>

definition ascii_lower :: "char \<Rightarrow> char" where
  "ascii_lower c = (let n = (of_char c :: nat) in if 65 \<le> n \<and> n \<le> 90 then char_of (n + 32) else c)"

definition ascii_upper :: "char \<Rightarrow> char" where
  "ascii_upper c = (let n = (of_char c :: nat) in if 97 \<le> n \<and> n \<le> 122 then char_of (n - 32) else c)"

definition str_lower :: "string \<Rightarrow> string" where
  "str_lower s = map ascii_lower s"

definition str_upper :: "string \<Rightarrow> string" where
  "str_upper s = map ascii_upper s"

lemma ascii_lower_idem [simp]: "ascii_lower (ascii_lower c) = ascii_lower c"
  by (simp add: ascii_lower_def Let_def)

lemma str_lower_idem [simp]: "str_lower (str_lower s) = str_lower s"
  by (simp add: str_lower_def)

lemma str_lower_append [simp]: "str_lower (s @ t) = str_lower s @ str_lower t"
  by (simp add: str_lower_def)

definition is_space :: "char \<Rightarrow> bool" where
  "is_space c \<longleftrightarrow> (let n = (of_char c :: nat) in (9 \<le> n \<and> n \<le> 13) \<or> (28 \<le> n \<and> n \<le> 32))"

definition strip_by :: "(char \<Rightarrow> bool) \<Rightarrow> string \<Rightarrow> string" where
  "strip_by p s = rev (dropWhile p (rev (dropWhile p s)))"

definition str_strip :: "string \<Rightarrow> string" where
  "str_strip s = strip_by is_space s"

definition rstrip_char :: "char \<Rightarrow> string \<Rightarrow> string" where
  "rstrip_char c s = rev (dropWhile ((=) c) (rev s))"

definition strip_char :: "char \<Rightarrow> string \<Rightarrow> string" where
  "strip_char c s = strip_by ((=) c) s"

lemma str_strip_eq_Nil: "str_strip s = [] \<longleftrightarrow> (\<forall>c \<in> set s. is_space c)"
proof -
  have "strip_by p s = [] \<longleftrightarrow> (\<forall>c \<in> set s. p c)" for p :: "char \<Rightarrow> bool"
  proof (cases "dropWhile p s")
    case Nil
    have "strip_by p s = []" unfolding strip_by_def Nil by simp
    moreover have "\<forall>x \<in> set s. p x" using Nil by (simp only: dropWhile_eq_Nil_conv)
    ultimately show ?thesis by simp
  next
    case (Cons c cs)
    then have "\<not> p c" by (metis hd_dropWhile list.discI list.sel(1))
    then have "dropWhile p (rev (c # cs)) \<noteq> []" by (auto simp: dropWhile_eq_Nil_conv)
    then have "strip_by p s \<noteq> []" using Cons by (simp add: strip_by_def)
    moreover have "\<not> (\<forall>x \<in> set s. p x)"
      using Cons by (metis dropWhile_eq_Nil_conv list.distinct(1))
    ultimately show ?thesis by simp
  qed
  then show ?thesis by (simp add: str_strip_def)
qed

definition replace_char :: "char \<Rightarrow> char \<Rightarrow> string \<Rightarrow> string" where
  "replace_char a b s = map (\<lambda>c. if c = a then b else c) s"

lemma replace_char_notin [simp]: "a \<noteq> b \<Longrightarrow> a \<notin> set (replace_char a b s)"
  by (auto simp: replace_char_def)

lemma replace_char_id: "a \<notin> set s \<Longrightarrow> replace_char a b s = s"
  by (induction s) (auto simp: replace_char_def)

abbreviation slashes :: "string \<Rightarrow> string" where
  "slashes s \<equiv> replace_char (CHR 0x5C) (CHR ''/'') s"

definition starts_with :: "string \<Rightarrow> string \<Rightarrow> bool" where
  "starts_with p s \<longleftrightarrow> take (length p) s = p"

definition ends_with :: "string \<Rightarrow> string \<Rightarrow> bool" where
  "ends_with q s \<longleftrightarrow> starts_with (rev q) (rev s)"

lemma starts_with_iff: "starts_with p s \<longleftrightarrow> (\<exists>r. s = p @ r)"
  unfolding starts_with_def by (metis append_eq_conv_conj append_take_drop_id)

lemma starts_with_append [simp]: "starts_with p (p @ r)"
  by (simp add: starts_with_def)

lemma starts_with_Nil [simp]: "starts_with [] s"
  by (simp add: starts_with_def)

fun is_infix :: "string \<Rightarrow> string \<Rightarrow> bool" where
  "is_infix p [] = (p = [])"
| "is_infix p (c # cs) = (starts_with p (c # cs) \<or> is_infix p cs)"

lemma is_infix_iff: "is_infix p s \<longleftrightarrow> (\<exists>a b. s = a @ p @ b)"
proof (induction s)
  case (Cons c cs)
  have "(\<exists>a b. c # cs = a @ p @ b) \<longleftrightarrow>
      (\<exists>b. c # cs = p @ b) \<or> (\<exists>a b. cs = a @ p @ b)" (is "?L \<longleftrightarrow> ?R")
  proof
    assume ?L
    then obtain a b where ab: "c # cs = a @ p @ b" by blast
    then show ?R by (cases a) auto
  next
    assume ?R
    then show ?L
    proof
      assume "\<exists>b. c # cs = p @ b"
      then show ?L by (metis append_Nil)
    next
      assume "\<exists>a b. cs = a @ p @ b"
      then show ?L by (metis append_Cons)
    qed
  qed
  then show ?case by (simp add: Cons starts_with_iff)
qed auto

fun split_on :: "char \<Rightarrow> string \<Rightarrow> string list" where
  "split_on d [] = [[]]"
| "split_on d (c # cs) =
     (if c = d then [] # split_on d cs
      else (case split_on d cs of [] \<Rightarrow> [[c]] | w # ws \<Rightarrow> (c # w) # ws))"

fun join_with :: "string \<Rightarrow> string list \<Rightarrow> string" where
  "join_with d [] = []"
| "join_with d [w] = w"
| "join_with d (w # v # ws) = w @ d @ join_with d (v # ws)"

lemma split_on_ne [simp]: "split_on d s \<noteq> []"
  by (induction s) (auto split: list.splits)

lemma split_on_notin: "w \<in> set (split_on d s) \<Longrightarrow> d \<notin> set w"
proof (induction s arbitrary: w)
  case (Cons c cs)
  show ?case
  proof (cases "c = d")
    case True
    with Cons show ?thesis by auto
  next
    case False
    obtain v vs where "split_on d cs = v # vs" by (meson neq_Nil_conv split_on_ne)
    with Cons False show ?thesis by auto
  qed
qed simp

lemma split_on_no_sep: "d \<notin> set w \<Longrightarrow> split_on d w = [w]"
  by (induction w) auto

lemma split_on_append: "d \<notin> set w \<Longrightarrow> split_on d (w @ d # s) = w # split_on d s"
  by (induction w) auto

lemma split_join:
  "ws \<noteq> [] \<Longrightarrow> \<forall>w \<in> set ws. d \<notin> set w \<Longrightarrow> split_on d (join_with [d] ws) = ws"
  by (induction "[d]" ws rule: join_with.induct) (auto simp: split_on_no_sep split_on_append)

lemma join_split: "join_with [d] (split_on d s) = s"
proof (induction s)
  case (Cons c cs)
  obtain v vs where v: "split_on d cs = v # vs" by (meson neq_Nil_conv split_on_ne)
  with Cons have "join_with [d] (v # vs) = cs" by simp
  then show ?case using v by (cases vs) auto
qed simp

section \<open>Sorted sets of strings\<close>

text \<open>\<open>sorted(set(xs))\<close>: the ascending list of the distinct elements.\<close>

definition sorted_set :: "'a::linorder list \<Rightarrow> 'a list" where
  "sorted_set xs = sort (remdups xs)"

lemma set_sorted_set [simp]: "set (sorted_set xs) = set xs"
  by (simp add: sorted_set_def)

lemma sorted_sorted_set [simp]: "sorted (sorted_set xs)"
  by (simp add: sorted_set_def)

lemma distinct_sorted_set [simp]: "distinct (sorted_set xs)"
  by (simp add: sorted_set_def)

lemma sorted_set_eq_Nil [simp]: "sorted_set xs = [] \<longleftrightarrow> xs = []"
  by (metis set_empty set_sorted_set)

lemma sorted_set_Nil [simp]: "sorted_set [] = []"
  by (simp add: sorted_set_def)

lemma sorted_set_cong: "set xs = set ys \<Longrightarrow> sorted_set xs = sorted_set ys"
  by (rule sorted_distinct_set_unique) simp_all

text \<open>\<open>dict.fromkeys(xs)\<close> and \<open>unique_preserve_order\<close>: first occurrences, in order.\<close>

fun uniq :: "'a list \<Rightarrow> 'a list" where
  "uniq [] = []"
| "uniq (x # xs) = x # filter (\<lambda>y. y \<noteq> x) (uniq xs)"

lemma set_uniq [simp]: "set (uniq xs) = set xs"
  by (induction xs) auto

lemma distinct_uniq [simp]: "distinct (uniq xs)"
  by (induction xs) auto

lemma uniq_distinct: "distinct xs \<Longrightarrow> uniq xs = xs"
proof (induction xs)
  case (Cons x xs)
  then have "filter (\<lambda>y. y \<noteq> x) xs = xs"
    by (intro filter_True) auto
  with Cons show ?case by simp
qed simp

section \<open>SQL tables as lists of rows\<close>

definition tbl_get :: "('r \<Rightarrow> 'k) \<Rightarrow> 'k \<Rightarrow> 'r list \<Rightarrow> 'r option" where
  "tbl_get key k rows = find (\<lambda>r. key r = k) rows"

definition tbl_upd :: "('r \<Rightarrow> bool) \<Rightarrow> ('r \<Rightarrow> 'r) \<Rightarrow> 'r list \<Rightarrow> 'r list" where
  "tbl_upd p f rows = map (\<lambda>r. if p r then f r else r) rows"

definition tbl_del :: "('r \<Rightarrow> bool) \<Rightarrow> 'r list \<Rightarrow> 'r list" where
  "tbl_del p rows = filter (\<lambda>r. \<not> p r) rows"

definition rowcount :: "('r \<Rightarrow> bool) \<Rightarrow> 'r list \<Rightarrow> nat" where
  "rowcount p rows = length (filter p rows)"

definition unique_key :: "('r \<Rightarrow> 'k) \<Rightarrow> 'r list \<Rightarrow> bool" where
  "unique_key key rows \<longleftrightarrow> distinct (map key rows)"

lemma tbl_get_Some_in: "tbl_get key k rows = Some r \<Longrightarrow> r \<in> set rows \<and> key r = k"
  unfolding tbl_get_def by (auto simp: find_Some_iff)

lemma tbl_get_None: "tbl_get key k rows = None \<longleftrightarrow> k \<notin> key ` set rows"
  unfolding tbl_get_def by (auto simp: find_None_iff)

lemma tbl_get_unique:
  "unique_key key rows \<Longrightarrow> r \<in> set rows \<Longrightarrow> tbl_get key (key r) rows = Some r"
  unfolding unique_key_def tbl_get_def
  by (induction rows) (auto simp: image_iff)

lemma unique_key_eq:
  "unique_key key rows \<Longrightarrow> r \<in> set rows \<Longrightarrow> s \<in> set rows \<Longrightarrow> key r = key s \<Longrightarrow> r = s"
  unfolding unique_key_def by (auto simp: distinct_map inj_on_def)

lemma unique_key_snoc [simp]:
  "unique_key key (rows @ [r]) \<longleftrightarrow> unique_key key rows \<and> key r \<notin> key ` set rows"
  by (auto simp: unique_key_def)

lemma unique_key_Nil [simp]: "unique_key key []"
  by (simp add: unique_key_def)

lemma tbl_del_set [simp]: "set (tbl_del p rows) = {r \<in> set rows. \<not> p r}"
  by (auto simp: tbl_del_def)

lemma tbl_upd_in: "r \<in> set (tbl_upd p f rows) \<longleftrightarrow> (\<exists>q \<in> set rows. r = (if p q then f q else q))"
  by (auto simp: tbl_upd_def)

lemma tbl_updE:
  assumes "r \<in> set (tbl_upd p f rows)"
  obtains q where "q \<in> set rows" "p q" "r = f q" | "r \<in> set rows" "\<not> p r"
  using assms by (auto simp: tbl_upd_in split: if_splits)

lemma rowcount_0: "rowcount p rows = 0 \<longleftrightarrow> (\<forall>r \<in> set rows. \<not> p r)"
  by (simp add: rowcount_def filter_empty_conv)

lemma rowcount_pos: "rowcount p rows \<noteq> 0 \<longleftrightarrow> (\<exists>r \<in> set rows. p r)"
  by (simp add: rowcount_0)

text \<open>
  The contract every store relies on: a table whose rows are found by a primary key, and an
  update of its rows that never writes the key. The stores' lemmas are proved once here, and
  every kind of update of every store is an interpretation.
\<close>

locale keyed_table =
  fixes key :: "'r \<Rightarrow> 'k" and wr :: "'r \<Rightarrow> 'r"
  assumes key_wr: "key (wr r) = key r"
begin

lemma map_key_upd: "map key (tbl_upd p wr rows) = map key rows"
  by (simp add: tbl_upd_def key_wr)

lemma upd_unique: "unique_key key rows \<Longrightarrow> unique_key key (tbl_upd p wr rows)"
  by (simp add: unique_key_def map_key_upd)

lemma upd_keys: "key ` set (tbl_upd p wr rows) = key ` set rows"
  by (metis list.set_map map_key_upd)

lemma get_upd:
  "tbl_get key k (tbl_upd (\<lambda>r. key r = k') wr rows) =
     (if k = k' then map_option wr (tbl_get key k rows) else tbl_get key k rows)"
  by (induction rows) (auto simp: tbl_get_def tbl_upd_def key_wr)

lemma get_upd_other:
  "k \<noteq> k' \<Longrightarrow> tbl_get key k (tbl_upd (\<lambda>r. key r = k' \<and> q r) wr rows) = tbl_get key k rows"
  by (induction rows) (auto simp: tbl_get_def tbl_upd_def key_wr)

lemma get_upd_guarded:
  assumes "unique_key key rows" and "tbl_get key k rows = Some r"
  shows "tbl_get key k (tbl_upd (\<lambda>r. key r = k \<and> q r) wr rows) =
     Some (if q r then wr r else r)"
proof -
  have r: "r \<in> set rows" "key r = k" using tbl_get_Some_in [OF assms(2)] by auto
  let ?rows' = "tbl_upd (\<lambda>r. key r = k \<and> q r) wr rows"
  have mem: "(if q r then wr r else r) \<in> set ?rows'" using r by (auto simp: tbl_upd_in)
  have "key (if q r then wr r else r) = k" using r by (simp add: key_wr)
  then show ?thesis
    using tbl_get_unique [OF upd_unique [OF assms(1)] mem] by metis
qed

lemma rowcount_key:
  assumes "unique_key key rows" and "r \<in> set rows" and "q r"
  shows "rowcount (\<lambda>s. key s = key r \<and> q s) rows = 1"
  using assms unfolding unique_key_def rowcount_def
proof (induction rows)
  case (Cons s rows)
  show ?case
  proof (cases "s = r")
    case True
    with Cons.prems have none: "\<forall>t \<in> set rows. key t \<noteq> key r" by (auto simp: image_iff)
    then have "filter (\<lambda>s. key s = key r \<and> q s) rows = []" by (auto simp: filter_empty_conv)
    with True Cons.prems show ?thesis by simp
  next
    case False
    with Cons.prems have "r \<in> set rows" "key s \<noteq> key r" by (auto simp: image_iff)
    with Cons show ?thesis by simp
  qed
qed simp

end

lemmas guard_splits = if_splits option.splits sum.splits prod.splits

end
