(* ===== verification/Py_Value.thy ===== *)
theory Py_Value
  imports Py_Prelude
begin

text \<open>
  The JSON-like values the toolkit passes around as \<open>dict[str, Any]\<close>, their Python truth value
  and equality, and the canonical serialisation of \<open>toolkit/ztad/util.py\<close>
  (\<open>canonical_json\<close>, \<open>sha256_json\<close>), which every hash, seal and identity of the system is taken
  of. A dict is an association list in insertion order. Floats are not part of the model.

  The main results: canonical JSON decodes back to the value with its keys in order, so two
  values have the same canonical text exactly when they are equal as Python values up to the
  order of dict keys, and a collision-free digest identifies a value.
\<close>

section \<open>Values\<close>

datatype pyval =
    PNone
  | PBool bool
  | PInt int
  | PStr string
  | PList "pyval list"
  | PDict "(string \<times> pyval) list"

type_synonym pydict = "(string \<times> pyval) list"

definition dget :: "string \<Rightarrow> pydict \<Rightarrow> pyval" where
  "dget k d = (case map_of d k of None \<Rightarrow> PNone | Some v \<Rightarrow> v)"

definition dget_default :: "string \<Rightarrow> pyval \<Rightarrow> pydict \<Rightarrow> pyval" where
  "dget_default k dflt d = (case map_of d k of None \<Rightarrow> dflt | Some v \<Rightarrow> v)"

fun dset :: "string \<Rightarrow> pyval \<Rightarrow> pydict \<Rightarrow> pydict" where
  "dset k v [] = [(k, v)]"
| "dset k v ((k', w) # d) = (if k' = k then (k, v) # d else (k', w) # dset k v d)"

definition ddel :: "string \<Rightarrow> pydict \<Rightarrow> pydict" where
  "ddel k d = filter (\<lambda>(k', _). k' \<noteq> k) d"

definition dkeys :: "pydict \<Rightarrow> string list" where
  "dkeys d = map fst d"

fun truthy :: "pyval \<Rightarrow> bool" where
  "truthy PNone = False"
| "truthy (PBool b) = b"
| "truthy (PInt i) = (i \<noteq> 0)"
| "truthy (PStr s) = (s \<noteq> [])"
| "truthy (PList vs) = (vs \<noteq> [])"
| "truthy (PDict d) = (d \<noteq> [])"

text \<open>\<open>a or b\<close> on values.\<close>

definition py_or :: "pyval \<Rightarrow> pyval \<Rightarrow> pyval" where
  "py_or a b = (if truthy a then a else b)"

text \<open>\<open>value if isinstance(value, dict) else \<open>{}\<close>\<close>.\<close>

fun as_dict :: "pyval \<Rightarrow> pydict" where
  "as_dict (PDict d) = d"
| "as_dict _ = []"

fun as_list :: "pyval \<Rightarrow> pyval list" where
  "as_list (PList vs) = vs"
| "as_list _ = []"

fun is_str :: "pyval \<Rightarrow> bool" where
  "is_str (PStr _) = True"
| "is_str _ = False"

fun is_dict :: "pyval \<Rightarrow> bool" where
  "is_dict (PDict _) = True"
| "is_dict _ = False"

fun opt_str :: "string option \<Rightarrow> pyval" where
  "opt_str None = PNone"
| "opt_str (Some s) = PStr s"

lemma map_of_dset [simp]: "map_of (dset k v d) = (map_of d)(k \<mapsto> v)"
  by (induction d) (auto simp: fun_eq_iff)

lemma map_of_ddel [simp]: "map_of (ddel k d) = (map_of d)(k := None)"
  by (induction d) (auto simp: ddel_def fun_eq_iff)

lemma dget_dset [simp]: "dget j (dset k v d) = (if j = k then v else dget j d)"
  by (simp add: dget_def)

lemma dget_ddel [simp]: "dget j (ddel k d) = (if j = k then PNone else dget j d)"
  by (simp add: dget_def)

lemma set_dkeys_dset [simp]: "set (dkeys (dset k v d)) = insert k (set (dkeys d))"
  by (induction k v d rule: dset.induct) (auto simp: dkeys_def)

lemma distinct_dset: "distinct (dkeys d) \<Longrightarrow> distinct (dkeys (dset k v d))"
proof (induction k v d rule: dset.induct)
  case (2 k v k' w d)
  then have "k' \<noteq> k \<Longrightarrow> k' \<notin> set (dkeys (dset k v d))"
    unfolding set_dkeys_dset by (simp add: dkeys_def)
  with 2 show ?case by (auto simp: dkeys_def)
qed (simp add: dkeys_def)

section \<open>Numbers as text\<close>

definition digit :: "nat \<Rightarrow> char" where
  "digit n = char_of (n + 48)"

fun nat_str :: "nat \<Rightarrow> string" where
  "nat_str n = (if n < 10 then [digit n] else nat_str (n div 10) @ [digit (n mod 10)])"

declare nat_str.simps [simp del]

definition int_str :: "int \<Rightarrow> string" where
  "int_str i = (if i < 0 then CHR ''-'' # nat_str (nat (- i)) else nat_str (nat i))"

definition is_digit :: "char \<Rightarrow> bool" where
  "is_digit c \<longleftrightarrow> (let n = (of_char c :: nat) in 48 \<le> n \<and> n \<le> 57)"

definition nat_of_digits :: "string \<Rightarrow> nat" where
  "nat_of_digits ds = foldl (\<lambda>a c. 10 * a + (of_char c - 48)) 0 ds"

lemma of_char_digit [simp]: "n < 10 \<Longrightarrow> (of_char (digit n) :: nat) = n + 48"
  by (simp add: digit_def)

lemma is_digit_digit [simp]: "n < 10 \<Longrightarrow> is_digit (digit n)"
  by (simp add: is_digit_def)

lemma nat_str_digits: "\<forall>c \<in> set (nat_str n). is_digit c"
proof (induction n rule: nat_str.induct)
  case (1 n)
  then show ?case by (subst nat_str.simps) auto
qed

lemma nat_str_ne [simp]: "nat_str n \<noteq> []"
  by (subst nat_str.simps) simp

lemma nat_of_digits_nat_str [simp]: "nat_of_digits (nat_str n) = n"
proof (induction n rule: nat_str.induct)
  case (1 n)
  show ?case
  proof (cases "n < 10")
    case True
    then show ?thesis by (subst nat_str.simps) (simp add: nat_of_digits_def)
  next
    case False
    have "nat_of_digits (nat_str (n div 10) @ [digit (n mod 10)]) =
        10 * nat_of_digits (nat_str (n div 10)) + n mod 10"
      by (simp add: nat_of_digits_def)
    with 1 False show ?thesis by (subst nat_str.simps) simp
  qed
qed

section \<open>Canonical JSON\<close>

definition hex_digit :: "nat \<Rightarrow> char" where
  "hex_digit n = (if n < 10 then char_of (n + 48) else char_of (n + 87))"

definition json_esc :: "char \<Rightarrow> string" where
  "json_esc c =
     (if c = CHR 0x22 then [CHR 0x5C, CHR 0x22]
      else if c = CHR 0x5C then [CHR 0x5C, CHR 0x5C]
      else if c = CHR 0x0A then [CHR 0x5C, CHR ''n'']
      else if c = CHR 0x0D then [CHR 0x5C, CHR ''r'']
      else if c = CHR 0x09 then [CHR 0x5C, CHR ''t'']
      else if c = CHR 0x08 then [CHR 0x5C, CHR ''b'']
      else if c = CHR 0x0C then [CHR 0x5C, CHR ''f'']
      else if (of_char c :: nat) < 32 then
        [CHR 0x5C, CHR ''u'', CHR ''0'', CHR ''0'',
         hex_digit (of_char c div 16), hex_digit (of_char c mod 16)]
      else [c])"

text \<open>Printable characters first: how a witness evaluates \<open>json_esc\<close>.\<close>

definition json_esc_rare :: "char \<Rightarrow> string" where
  "json_esc_rare = json_esc"

lemma json_esc_rare_code [code]:
  "json_esc_rare c =
     (if c = CHR 0x22 then [CHR 0x5C, CHR 0x22]
      else if c = CHR 0x5C then [CHR 0x5C, CHR 0x5C]
      else if c = CHR 0x0A then [CHR 0x5C, CHR ''n'']
      else if c = CHR 0x0D then [CHR 0x5C, CHR ''r'']
      else if c = CHR 0x09 then [CHR 0x5C, CHR ''t'']
      else if c = CHR 0x08 then [CHR 0x5C, CHR ''b'']
      else if c = CHR 0x0C then [CHR 0x5C, CHR ''f'']
      else if (of_char c :: nat) < 32 then
        [CHR 0x5C, CHR ''u'', CHR ''0'', CHR ''0'',
         hex_digit (of_char c div 16), hex_digit (of_char c mod 16)]
      else [c])"
  unfolding json_esc_rare_def by (rule json_esc_def)

lemma json_esc_code [code]:
  "json_esc (Char b0 b1 b2 b3 b4 b5 b6 b7) =
     (if (b5 \<or> b6 \<or> b7) \<and> \<not> (b1 \<and> b5 \<and> \<not> (b0 \<or> b2 \<or> b3 \<or> b4 \<or> b6 \<or> b7)) \<and>
        \<not> (b2 \<and> b3 \<and> b4 \<and> b6 \<and> \<not> (b0 \<or> b1 \<or> b5 \<or> b7))
      then [Char b0 b1 b2 b3 b4 b5 b6 b7] else json_esc_rare (Char b0 b1 b2 b3 b4 b5 b6 b7))"
  unfolding json_esc_rare_def
  by (cases b0; cases b1; cases b2; cases b3; cases b4; cases b5; cases b6; cases b7) (simp_all add: json_esc_def)

definition json_str :: "string \<Rightarrow> string" where
  "json_str s = CHR 0x22 # concat (map json_esc s) @ [CHR 0x22]"

fun json_text :: "pyval \<Rightarrow> string" where
  "json_text PNone = ''null''"
| "json_text (PBool b) = (if b then ''true'' else ''false'')"
| "json_text (PInt i) = int_str i"
| "json_text (PStr s) = json_str s"
| "json_text (PList vs) = ''['' @ join_with '','' (map json_text vs) @ '']''"
| "json_text (PDict d) =
     ''{'' @ join_with '','' (map (\<lambda>(k, v). json_str k @ '':'' @ json_text v) d) @ ''}''"

text \<open>\<open>sort_keys=True\<close>: the keys of every dict in ascending order.\<close>

fun sort_keys :: "pyval \<Rightarrow> pyval" where
  "sort_keys (PList vs) = PList (map sort_keys vs)"
| "sort_keys (PDict d) = PDict (sort_key fst (map (\<lambda>(k, v). (k, sort_keys v)) d))"
| "sort_keys v = v"

definition canonical_json :: "pyval \<Rightarrow> string" where
  "canonical_json v = json_text (sort_keys v)"

text \<open>\<open>hashlib.sha256(...).hexdigest()\<close> is the parameter \<open>sha\<close>.\<close>

definition sha256_bytes :: "(string \<Rightarrow> string) \<Rightarrow> string \<Rightarrow> string" where
  "sha256_bytes sha t = ''sha256:'' @ sha t"

definition sha256_json :: "(string \<Rightarrow> string) \<Rightarrow> pyval \<Rightarrow> string" where
  "sha256_json sha v = sha256_bytes sha (canonical_json v)"

text \<open>Python's \<open>==\<close>: dicts ignore the order of their keys, and \<open>True == 1\<close>.\<close>

fun bool_as_int :: "pyval \<Rightarrow> pyval" where
  "bool_as_int (PBool b) = PInt (if b then 1 else 0)"
| "bool_as_int (PList vs) = PList (map bool_as_int vs)"
| "bool_as_int (PDict d) = PDict (map (\<lambda>(k, v). (k, bool_as_int v)) d)"
| "bool_as_int v = v"

definition py_eq :: "pyval \<Rightarrow> pyval \<Rightarrow> bool" where
  "py_eq v w \<longleftrightarrow> bool_as_int (sort_keys v) = bool_as_int (sort_keys w)"

lemma py_eq_refl [simp]: "py_eq v v"
  by (simp add: py_eq_def)

lemma py_eq_sym: "py_eq v w \<longleftrightarrow> py_eq w v"
  by (auto simp: py_eq_def)

lemma py_eq_trans: "py_eq u v \<Longrightarrow> py_eq v w \<Longrightarrow> py_eq u w"
  by (simp add: py_eq_def)

lemma py_eq_str [simp]: "py_eq (PStr s) (PStr t) \<longleftrightarrow> s = t"
  by (simp add: py_eq_def)

lemma py_eq_none_str [simp]: "\<not> py_eq PNone (PStr t)" "\<not> py_eq (PStr t) PNone"
  by (simp_all add: py_eq_def)

section \<open>Decoding canonical text\<close>

text \<open>
  A decoder for the texts \<open>json.dumps\<close> produces with compact separators. It is the inverse used
  to show that no two different values share a canonical text.
\<close>

definition hex_val :: "char \<Rightarrow> nat option" where
  "hex_val c = (let n = (of_char c :: nat) in
     if 48 \<le> n \<and> n \<le> 57 then Some (n - 48)
     else if 97 \<le> n \<and> n \<le> 102 then Some (n - 87) else None)"

definition esc_val :: "char \<Rightarrow> char option" where
  "esc_val e =
     (if e = CHR 0x22 \<or> e = CHR 0x5C then Some e
      else if e = CHR ''n'' then Some (CHR 0x0A)
      else if e = CHR ''r'' then Some (CHR 0x0D)
      else if e = CHR ''t'' then Some (CHR 0x09)
      else if e = CHR ''b'' then Some (CHR 0x08)
      else if e = CHR ''f'' then Some (CHR 0x0C) else None)"

fun unesc :: "string \<Rightarrow> (string \<times> string) option" where
  "unesc [] = None"
| "unesc (c # cs) =
     (if c = CHR 0x22 then Some ([], cs)
      else if c = CHR 0x5C then
        (case cs of
           [] \<Rightarrow> None
         | e # es \<Rightarrow>
             if e = CHR ''u'' then
               (case es of
                  z1 # z2 # h # l # r \<Rightarrow>
                    (case (hex_val h, hex_val l) of
                       (Some a, Some b) \<Rightarrow>
                         map_option (\<lambda>(s, t). (char_of (16 * a + b) # s, t)) (unesc r)
                     | _ \<Rightarrow> None)
                | _ \<Rightarrow> None)
             else
               (case esc_val e of
                  None \<Rightarrow> None
                | Some ch \<Rightarrow> map_option (\<lambda>(s, t). (ch # s, t)) (unesc es)))
      else map_option (\<lambda>(s, t). (c # s, t)) (unesc cs))"

definition dec_int :: "string \<Rightarrow> (pyval \<times> string) option" where
  "dec_int s =
     (let neg = (s \<noteq> [] \<and> hd s = CHR ''-''); t = (if neg then tl s else s);
          ds = takeWhile is_digit t; n = int (nat_of_digits ds)
      in if ds = [] then None
         else Some (PInt (if neg then - n else n), dropWhile is_digit t))"

fun dec_val :: "nat \<Rightarrow> string \<Rightarrow> (pyval \<times> string) option"
  and dec_items :: "nat \<Rightarrow> string \<Rightarrow> (pyval list \<times> string) option"
  and dec_members :: "nat \<Rightarrow> string \<Rightarrow> (pydict \<times> string) option" where
  "dec_val 0 s = None"
| "dec_val (Suc n) s =
     (if starts_with ''null'' s then Some (PNone, drop 4 s)
      else if starts_with ''true'' s then Some (PBool True, drop 4 s)
      else if starts_with ''false'' s then Some (PBool False, drop 5 s)
      else if starts_with [CHR 0x22] s then
        map_option (\<lambda>(t, r). (PStr t, r)) (unesc (drop 1 s))
      else if starts_with ''[]'' s then Some (PList [], drop 2 s)
      else if starts_with ''['' s then
        map_option (\<lambda>(vs, r). (PList vs, r)) (dec_items n (drop 1 s))
      else if starts_with ''{}'' s then Some (PDict [], drop 2 s)
      else if starts_with ''{'' s then
        map_option (\<lambda>(d, r). (PDict d, r)) (dec_members n (drop 1 s))
      else dec_int s)"
| "dec_items 0 s = None"
| "dec_items (Suc n) s =
     (case dec_val n s of
        Some (v, c # r) \<Rightarrow>
          if c = CHR '','' then map_option (\<lambda>(vs, q). (v # vs, q)) (dec_items n r)
          else if c = CHR '']'' then Some ([v], r) else None
      | _ \<Rightarrow> None)"
| "dec_members 0 s = None"
| "dec_members (Suc n) s =
     (if starts_with [CHR 0x22] s then
        (case unesc (drop 1 s) of
           Some (k, c # r) \<Rightarrow>
             if c = CHR '':'' then
               (case dec_val n r of
                  Some (v, c' # q) \<Rightarrow>
                    if c' = CHR '','' then map_option (\<lambda>(d, t). ((k, v) # d, t)) (dec_members n q)
                    else if c' = CHR ''}'' then Some ([(k, v)], q) else None
                | _ \<Rightarrow> None)
             else None
         | _ \<Rightarrow> None)
      else None)"

definition json_decode :: "string \<Rightarrow> pyval option" where
  "json_decode s = (case dec_val (length s) s of Some (v, []) \<Rightarrow> Some v | _ \<Rightarrow> None)"


lemma hex_val_digit: "n < 16 \<Longrightarrow> hex_val (hex_digit n) = Some n"
  by (auto simp: hex_val_def hex_digit_def)

lemma unesc_esc: "unesc (json_esc c @ t) = map_option (\<lambda>(s, r). (c # s, r)) (unesc t)"
proof (cases "(of_char c :: nat) < 32 \<and> c \<notin> {CHR 0x0A, CHR 0x0D, CHR 0x09, CHR 0x08, CHR 0x0C}")
  case True
  let ?n = "of_char c :: nat"
  from True have n: "?n div 16 < 16" "?n mod 16 < 16" "16 * (?n div 16) + ?n mod 16 = ?n"
    by auto
  have "c \<noteq> CHR 0x22" "c \<noteq> CHR 0x5C" using True by auto
  with True have "json_esc c = [CHR 0x5C, CHR ''u'', CHR ''0'', CHR ''0'', hex_digit (?n div 16), hex_digit (?n mod 16)]"
    by (auto simp: json_esc_def)
  then show ?thesis
    using n hex_val_digit [OF n(1)] hex_val_digit [OF n(2)] by simp
next
  case False
  then show ?thesis by (auto simp: json_esc_def esc_val_def)
qed

lemma unesc_json_str: "unesc (concat (map json_esc s) @ CHR 0x22 # r) = Some (s, r)"
  by (induction s) (auto simp: unesc_esc)

definition no_digit :: "string \<Rightarrow> bool" where
  "no_digit r \<longleftrightarrow> (r = [] \<or> \<not> is_digit (hd r))"

lemma digits_split:
  assumes "\<forall>c \<in> set ds. is_digit c" and "no_digit r"
  shows "takeWhile is_digit (ds @ r) = ds" and "dropWhile is_digit (ds @ r) = r"
proof -
  from assms(2) have "takeWhile is_digit r = []" "dropWhile is_digit r = r"
    by (cases r; simp add: no_digit_def)+
  then show "takeWhile is_digit (ds @ r) = ds" and "dropWhile is_digit (ds @ r) = r"
    using assms(1) by (simp_all add: takeWhile_append2 dropWhile_append2)
qed

lemma hd_nat_str: "is_digit (hd (nat_str n @ r))"
  using nat_str_digits [of n] by (cases "nat_str n") auto

lemma dec_int_str: "no_digit r \<Longrightarrow> dec_int (int_str i @ r) = Some (PInt i, r)"
proof (cases "i < 0")
  case True
  assume r: "no_digit r"
  with True show ?thesis
    using digits_split [OF nat_str_digits r]
    by (simp add: dec_int_def int_str_def)
next
  case False
  assume r: "no_digit r"
  have "hd (nat_str (nat i) @ r) \<noteq> CHR ''-''"
    using hd_nat_str [of "nat i" r] by (auto simp: is_digit_def)
  with False r show ?thesis
    using digits_split [OF nat_str_digits r]
    by (simp add: dec_int_def int_str_def Let_def)
qed

lemma int_str_hd: "\<exists>c cs. int_str i = c # cs \<and> (c = CHR ''-'' \<or> is_digit c)"
proof (cases "i < 0")
  case False
  have "is_digit (hd (nat_str (nat i)))" using hd_nat_str [of "nat i" "[]"] by simp
  with False show ?thesis by (cases "nat_str (nat i)") (auto simp: int_str_def)
qed (simp add: int_str_def)

fun jsize :: "pyval \<Rightarrow> nat" where
  "jsize (PList vs) = Suc (sum_list (map (\<lambda>v. Suc (jsize v)) vs))"
| "jsize (PDict d) = Suc (sum_list (map (\<lambda>(k, v). Suc (jsize v)) d))"
| "jsize v = 1"

lemma dec_items_text:
  assumes "\<And>v n r. v \<in> set vs \<Longrightarrow> jsize v \<le> n \<Longrightarrow> no_digit r \<Longrightarrow>
      dec_val n (json_text v @ r) = Some (v, r)"
    and "vs \<noteq> []" and "sum_list (map (\<lambda>v. Suc (jsize v)) vs) \<le> n"
  shows "dec_items n (join_with '','' (map json_text vs) @ '']'' @ r) = Some (vs, r)"
  using assms
proof (induction vs arbitrary: n)
  case (Cons v vs)
  then obtain m where n: "n = Suc m" by (cases n) auto
  show ?case
  proof (cases "vs = []")
    case True
    with Cons.prems n show ?thesis
      by (simp add: no_digit_def is_digit_def)
  next
    case False
    from False obtain w ws where ws: "vs = w # ws" by (meson neq_Nil_conv)
    let ?rest = "join_with '','' (map json_text vs) @ '']'' @ r"
    have v: "dec_val m (json_text v @ CHR '','' # ?rest) = Some (v, CHR '','' # ?rest)"
      using Cons.prems(1) [of v m] Cons.prems(3) n by (simp add: no_digit_def is_digit_def)
    have "dec_items m ?rest = Some (vs, r)"
      using Cons.prems False n by (intro Cons.IH) auto
    moreover have "join_with '','' (map json_text (v # vs)) @ '']'' @ r = json_text v @ CHR '','' # ?rest"
      using ws by simp
    ultimately show ?thesis using n v by simp
  qed
qed simp

lemma dec_members_text:
  assumes "\<And>k v n r. (k, v) \<in> set d \<Longrightarrow> jsize v \<le> n \<Longrightarrow> no_digit r \<Longrightarrow>
      dec_val n (json_text v @ r) = Some (v, r)"
    and "d \<noteq> []" and "sum_list (map (\<lambda>(k, v). Suc (jsize v)) d) \<le> n"
  shows "dec_members n (join_with '','' (map (\<lambda>(k, v). json_str k @ '':'' @ json_text v) d) @ ''}'' @ r)
    = Some (d, r)"
  using assms
proof (induction d arbitrary: n)
  case (Cons kv d)
  obtain k v where kv: "kv = (k, v)" by (cases kv)
  from Cons.prems kv obtain m where n: "n = Suc m" by (cases n) auto
  let ?t = "\<lambda>q. json_str k @ '':'' @ json_text v @ q"
  have key: "unesc (drop 1 (?t q)) = Some (k, CHR '':'' # json_text v @ q)" for q
    using unesc_json_str [of k "CHR '':'' # json_text v @ q"] by (simp add: json_str_def)
  have quote: "starts_with [CHR 0x22] (?t q)" for q
    by (simp add: json_str_def starts_with_def)
  show ?case
  proof (cases "d = []")
    case True
    have "dec_val m (json_text v @ CHR ''}'' # r) = Some (v, CHR ''}'' # r)"
      using Cons.prems(1) [of k v m] Cons.prems(3) n kv by (simp add: no_digit_def is_digit_def)
    with True n kv key [of "''}'' @ r"] quote [of "''}'' @ r"] show ?thesis by simp
  next
    case False
    from False obtain w ws where ws: "d = w # ws" by (meson neq_Nil_conv)
    let ?rest = "join_with '','' (map (\<lambda>(k, v). json_str k @ '':'' @ json_text v) d) @ ''}'' @ r"
    have v: "dec_val m (json_text v @ CHR '','' # ?rest) = Some (v, CHR '','' # ?rest)"
      using Cons.prems(1) [of k v m] Cons.prems(3) n kv by (simp add: no_digit_def is_digit_def)
    have "dec_members m ?rest = Some (d, r)"
      using Cons.prems False n kv by (intro Cons.IH) auto
    moreover have "join_with '','' (map (\<lambda>(k, v). json_str k @ '':'' @ json_text v) (kv # d)) @ ''}'' @ r
        = ?t (CHR '','' # ?rest)"
      using ws kv by simp
    ultimately show ?thesis using n v kv key [of "CHR '','' # ?rest"] quote [of "CHR '','' # ?rest"]
      by simp
  qed
qed simp


lemma json_text_hd: "\<exists>c cs. json_text v = c # cs \<and> c \<noteq> CHR '']'' \<and> c \<noteq> CHR '',''"
proof (cases v)
  case (PInt i)
  then show ?thesis using int_str_hd [of i] by (auto simp: is_digit_def)
qed (auto simp: json_str_def)

lemma int_str_first:
  assumes "int_str i = c # cs"
  shows "c \<notin> {CHR ''n'', CHR ''t'', CHR ''f'', CHR 0x22, CHR ''['', CHR ''{''}"
  using assms int_str_hd [of i] by (auto simp: is_digit_def)

lemma dec_val_int:
  assumes "no_digit r"
  shows "dec_val (Suc n) (int_str i @ r) = Some (PInt i, r)"
proof -
  obtain c cs where c: "int_str i = c # cs" using int_str_hd by blast
  have "\<not> starts_with p (int_str i @ r)"
    if "p \<in> {''null'', ''true'', ''false'', [CHR 0x22], ''[]'', ''['', ''{}'', ''{''}" for p
    using that int_str_first [OF c] c by (auto simp: starts_with_def)
  then show ?thesis using dec_int_str [OF assms] by simp
qed

lemma dec_val_text:
  "jsize v \<le> n \<Longrightarrow> no_digit r \<Longrightarrow> dec_val n (json_text v @ r) = Some (v, r)"
proof (induction v arbitrary: n r)
  case (PList vs)
  then obtain m where n: "n = Suc m" by (cases n) auto
  show ?case
  proof (cases vs)
    case Nil
    then show ?thesis using n by (simp add: starts_with_def)
  next
    case (Cons w ws)
    let ?in = "join_with '','' (map json_text vs) @ '']'' @ r"
    obtain c cs where "json_text w = c # cs" "c \<noteq> CHR '']''" using json_text_hd by blast
    then have "hd ?in \<noteq> CHR '']''" "?in \<noteq> []" using Cons by (cases ws; simp)+
    then have nb: "\<not> starts_with ''[]'' (CHR ''['' # ?in)" by (cases ?in) (auto simp: starts_with_def)
    have "dec_items m ?in = Some (vs, r)"
      using PList.IH PList.prems n Cons by (intro dec_items_text) auto
    then show ?thesis using n nb by (simp add: starts_with_def)
  qed
next
  case (PDict d)
  then obtain m where n: "n = Suc m" by (cases n) auto
  show ?case
  proof (cases d)
    case Nil
    then show ?thesis using n by (simp add: starts_with_def)
  next
    case (Cons w ws)
    let ?in = "join_with '','' (map (\<lambda>(k, v). json_str k @ '':'' @ json_text v) d) @ ''}'' @ r"
    have "hd ?in = CHR 0x22" "?in \<noteq> []"
      using Cons by (cases ws; cases w; simp add: json_str_def)+
    then have nb: "\<not> starts_with ''{}'' (CHR ''{'' # ?in)" by (cases ?in) (auto simp: starts_with_def)
    have "dec_members m ?in = Some (d, r)"
      using PDict.IH PDict.prems n Cons by (intro dec_members_text) fastforce+
    then show ?thesis using n nb by (simp add: starts_with_def)
  qed
next
  case (PStr t)
  then obtain m where "n = Suc m" by (cases n) auto
  then show ?case using unesc_json_str [of t r] by (simp add: json_str_def starts_with_def)
next
  case (PInt i)
  then obtain m where "n = Suc m" by (cases n) auto
  then show ?case using dec_val_int PInt.prems by simp
next
  case PNone
  then obtain m where "n = Suc m" by (cases n) auto
  then show ?case by (simp add: starts_with_def)
next
  case (PBool b)
  then obtain m where "n = Suc m" by (cases n) auto
  then show ?case by (simp add: starts_with_def)
qed

lemma length_join_bound:
  "ws \<noteq> [] \<Longrightarrow> Suc (length (join_with [c] ws)) = sum_list (map (\<lambda>w. Suc (length w)) ws)"
  by (induction "[c]" ws rule: join_with.induct) auto

lemma jsize_le_text: "jsize v \<le> length (json_text v)"
proof (induction v)
  case (PList vs)
  have "sum_list (map (\<lambda>v. Suc (jsize v)) vs) \<le> sum_list (map (\<lambda>v. Suc (length (json_text v))) vs)"
    using PList by (intro sum_list_mono) auto
  then show ?case
    using length_join_bound [of "map json_text vs" "CHR '',''"] by (cases "vs = []") (auto simp: comp_def)
next
  case (PDict d)
  let ?f = "\<lambda>(k, v). json_str k @ '':'' @ json_text v"
  have "sum_list (map (\<lambda>(k, v). Suc (jsize v)) d) \<le> sum_list (map (\<lambda>kv. Suc (length (?f kv))) d)"
    using PDict by (intro sum_list_mono) (fastforce intro: le_SucI trans_le_add2)
  then show ?case
    using length_join_bound [of "map ?f d" "CHR '',''"] by (cases "d = []") (auto simp: comp_def)
next
  case (PInt i)
  then show ?case using int_str_hd [of i] by auto
qed (auto simp: json_str_def)

lemma json_decode_text: "json_decode (json_text v) = Some v"
  using dec_val_text [OF jsize_le_text, of "[]" v] by (simp add: json_decode_def no_digit_def)

lemma json_text_inject [simp]: "json_text v = json_text w \<longleftrightarrow> v = w"
  using json_decode_text by (metis option.inject)

text \<open>The canonical text determines the value up to the order of dict keys.\<close>

lemma canonical_json_inject [simp]:
  "canonical_json v = canonical_json w \<longleftrightarrow> sort_keys v = sort_keys w"
  by (simp add: canonical_json_def)

lemma canonical_json_py_eq: "canonical_json v = canonical_json w \<Longrightarrow> py_eq v w"
  by (simp add: py_eq_def)

lemma sha256_json_cong: "sort_keys v = sort_keys w \<Longrightarrow> sha256_json sha v = sha256_json sha w"
  by (simp add: sha256_json_def canonical_json_def)

lemma sha256_json_inject: "inj sha \<Longrightarrow> sha256_json sha v = sha256_json sha w \<longleftrightarrow> sort_keys v = sort_keys w"
  by (auto simp: sha256_json_def sha256_bytes_def inj_eq)

lemma map_of_sort_key:
  assumes "distinct (map fst d)"
  shows "map_of (sort_key fst d) = map_of d"
proof -
  have "distinct (map fst (sort_key fst d))"
    using assms by (metis distinct_map distinct_sort set_sort)
  then show ?thesis
    using assms map_of_eqI [of "sort_key fst d" d]
    by (metis map_of_eq_dom map_of_inject_set set_sort)
qed

lemma sort_keys_lookup:
  assumes "sort_keys (PDict d) = sort_keys (PDict d')" and "distinct (dkeys d)" and "distinct (dkeys d')"
  shows "map_option sort_keys (map_of d k) = map_option sort_keys (map_of d' k)"
proof -
  let ?f = "\<lambda>(k :: string, v). (k, sort_keys v)"
  have f: "map_of (map ?f e) k = map_option sort_keys (map_of e k)" for e
    by (induction e) auto
  have g: "map_of (sort_key fst (map ?f e)) = map_of (map ?f e)" if "distinct (dkeys e)" for e
    by (rule map_of_sort_key) (use that in \<open>simp add: dkeys_def comp_def case_prod_beta\<close>)
  have "sort_key fst (map ?f d) = sort_key fst (map ?f d')" using assms(1) by simp
  then have "map_of (map ?f d) k = map_of (map ?f d') k"
    using g [OF assms(2)] g [OF assms(3)] by simp
  then show ?thesis by (simp only: f)
qed

lemma sort_keys_idem: "sort_keys (sort_keys v) = sort_keys v"
proof (induction v)
  case (PDict d)
  let ?f = "\<lambda>(k, v). (k, sort_keys v)"
  have keys: "fst (?f kv) = fst kv" for kv by (cases kv) simp
  have fix': "?f kv = kv" if "kv \<in> set (sort_key fst (map ?f d))" for kv
    using that PDict by (auto split: prod.splits)
  have "map ?f (sort_key fst (map ?f d)) = sort_key fst (map ?f d)"
    using fix' by (intro map_idI) blast
  then show ?case by (simp add: sort_key_id_if_sorted)
qed auto

text \<open>
  The decoded text is the value with sorted keys: what \<open>json.loads\<close> reads back from a stored
  \<open>canonical_json\<close> column hashes to the same digest.
\<close>

lemma json_decode_canonical: "json_decode (canonical_json v) = Some (sort_keys v)"
  by (simp add: canonical_json_def json_decode_text)

lemma canonical_json_stable: "canonical_json (sort_keys v) = canonical_json v"
  by (simp add: sort_keys_idem)

section \<open>Dynamic operations\<close>

text \<open>
  \<open>repr(v)\<close> and \<open>str(v)\<close> on ASCII text: \<open>repr\<close> of a text uses double quotes exactly when the text
  has a single quote and no double quote, and escapes control characters.
\<close>

definition repr_esc :: "char \<Rightarrow> char \<Rightarrow> string" where
  "repr_esc q c =
     (let n = (of_char c :: nat) in
      if c = q \<or> n = 92 then [CHR 0x5C, c]
      else if n = 10 then [CHR 0x5C, CHR ''n''] else if n = 13 then [CHR 0x5C, CHR ''r'']
      else if n = 9 then [CHR 0x5C, CHR ''t'']
      else if n < 32 \<or> n = 127 then [CHR 0x5C, CHR ''x'', hex_digit (n div 16), hex_digit (n mod 16)]
      else [c])"

definition repr_str :: "string \<Rightarrow> string" where
  "repr_str s =
     (let q = (if CHR 0x27 \<in> set s \<and> CHR 0x22 \<notin> set s then CHR 0x22 else CHR 0x27)
      in q # concat (map (repr_esc q) s) @ [q])"

fun py_repr :: "pyval \<Rightarrow> string" where
  "py_repr PNone = ''None''"
| "py_repr (PBool b) = (if b then ''True'' else ''False'')"
| "py_repr (PInt i) = int_str i"
| "py_repr (PStr s) = repr_str s"
| "py_repr (PList vs) = CHR ''['' # join_with '', '' (map py_repr vs) @ '']''"
| "py_repr (PDict d) = CHR ''{'' # join_with '', '' (map (\<lambda>(k, v). repr_str k @ '': '' @ py_repr v) d) @ ''}''"

fun py_str :: "pyval \<Rightarrow> string" where
  "py_str (PStr s) = s"
| "py_str v = py_repr v"

fun hashable :: "pyval \<Rightarrow> bool" where
  "hashable (PList _) = False"
| "hashable (PDict _) = False"
| "hashable _ = True"

text \<open>\<open>v in \<open>{\<dots>}\<close>\<close> for a set of names: a list or dict is not hashable.\<close>

definition in_names :: "pyval \<Rightarrow> string list \<Rightarrow> bool res" where
  "in_names v names =
     (if \<not> hashable v then Inl (TypeError ''unhashable type'')
      else Inr (case v of PStr s \<Rightarrow> s \<in> set names | _ \<Rightarrow> False))"

lemma in_names_True: "in_names v names = Inr True \<longleftrightarrow> (\<exists>s \<in> set names. v = PStr s)"
  by (cases v) (auto simp: in_names_def)

text \<open>\<open>set(v or \<open>{}\<close>)\<close>, as a list of its elements, and equality of such sets.\<close>

definition py_set :: "pyval \<Rightarrow> pyval list res" where
  "py_set v =
     (if \<not> truthy v then Inr []
      else case v of
        PDict d \<Rightarrow> Inr (map (\<lambda>(k, _). PStr k) d)
      | PList vs \<Rightarrow> if \<forall>x \<in> set vs. hashable x then Inr vs else Inl (TypeError ''unhashable type'')
      | PStr s \<Rightarrow> Inr (map (\<lambda>c. PStr [c]) s)
      | _ \<Rightarrow> Inl (TypeError ''object is not iterable''))"

definition py_set_eq :: "pyval list \<Rightarrow> pyval list \<Rightarrow> bool" where
  "py_set_eq xs ys \<longleftrightarrow> (\<forall>x \<in> set xs. \<exists>y \<in> set ys. py_eq x y) \<and> (\<forall>y \<in> set ys. \<exists>x \<in> set xs. py_eq x y)"

text \<open>Sequencing of a computation that may raise.\<close>

definition bind_res :: "'a res \<Rightarrow> ('a \<Rightarrow> 'b res) \<Rightarrow> 'b res" where
  "bind_res r f = (case r of Inl e \<Rightarrow> Inl e | Inr x \<Rightarrow> f x)"

lemma bind_res_simps [simp]: "bind_res (Inl e) f = Inl e" "bind_res (Inr x) f = f x"
  by (simp_all add: bind_res_def)

lemma bind_res_Inr: "bind_res r f = Inr y \<longleftrightarrow> (\<exists>x. r = Inr x \<and> f x = Inr y)"
  by (cases r) simp_all

text \<open>\<open>{**d, **e}\<close>.\<close>

definition dict_merge :: "pydict \<Rightarrow> pydict \<Rightarrow> pydict" where
  "dict_merge d e = foldl (\<lambda>d (k, v). dset k v d) d e"

text \<open>\<open>int(v)\<close>, on texts of an optional sign and decimal digits (no digit group underscores).\<close>

definition int_of_text :: "string \<Rightarrow> int res" where
  "int_of_text t =
     (let ds = (if t \<noteq> [] \<and> (hd t = CHR ''-'' \<or> hd t = CHR ''+'') then tl t else t);
          n = int (nat_of_digits ds)
      in if ds = [] \<or> \<not> (\<forall>c \<in> set ds. is_digit c) then Inl (ValueError ''invalid literal for int()'')
         else Inr (if hd t = CHR ''-'' then - n else n))"

definition py_int :: "pyval \<Rightarrow> int res" where
  "py_int v =
     (case v of
        PInt i \<Rightarrow> Inr i
      | PBool b \<Rightarrow> Inr (if b then 1 else 0)
      | PStr s \<Rightarrow> int_of_text (str_strip s)
      | _ \<Rightarrow> Inl (TypeError ''int() argument must be a string or a number''))"

text \<open>\<open>list(v)\<close>, and the members of \<open>set(v)\<close> when they are texts.\<close>

definition py_list :: "pyval \<Rightarrow> pyval list res" where
  "py_list v =
     (case v of
        PList vs \<Rightarrow> Inr vs
      | PDict d \<Rightarrow> Inr (map (\<lambda>(k, _). PStr k) d)
      | PStr s \<Rightarrow> Inr (map (\<lambda>c. PStr [c]) s)
      | _ \<Rightarrow> Inl (TypeError ''object is not iterable''))"

fun text_of :: "pyval \<Rightarrow> string" where
  "text_of (PStr s) = s"
| "text_of _ = []"

definition py_texts :: "pyval \<Rightarrow> string list res" where
  "py_texts v = bind_res (py_list v) (\<lambda>vs.
     if \<forall>x \<in> set vs. is_str x then Inr (map text_of vs) else Inl (TypeError ''texts expected''))"

section \<open>Revisions and digests\<close>

definition is_lower_hex :: "char \<Rightarrow> bool" where
  "is_lower_hex c \<longleftrightarrow> (let n = (of_char c :: nat) in (48 \<le> n \<and> n \<le> 57) \<or> (97 \<le> n \<and> n \<le> 102))"

text \<open>\<open>^[0-9a-f]{40,64}$\<close> and \<open>^sha256:[0-9a-f]{64}$\<close>.\<close>

definition sha_text :: "string \<Rightarrow> bool" where
  "sha_text s \<longleftrightarrow> 40 \<le> length s \<and> length s \<le> 64 \<and> (\<forall>c \<in> set s. is_lower_hex c)"

definition digest_text :: "string \<Rightarrow> bool" where
  "digest_text s \<longleftrightarrow> starts_with ''sha256:'' s \<and> length s = 71 \<and> (\<forall>c \<in> set (drop 7 s). is_lower_hex c)"

definition str_and :: "(string \<Rightarrow> bool) \<Rightarrow> pyval \<Rightarrow> bool" where
  "str_and P v \<longleftrightarrow> (case v of PStr s \<Rightarrow> P s | _ \<Rightarrow> False)"

lemma dget_Nil [simp]: "dget k [] = PNone"
  by (simp add: dget_def)

lemma dget_Cons [simp]: "dget k ((k', v) # d) = (if k' = k then v else dget k d)"
  by (simp add: dget_def)

section \<open>Error lists\<close>

definition err_if :: "bool \<Rightarrow> string \<Rightarrow> string list" where
  "err_if b e = (if b then [e] else [])"

lemma err_if_Nil [simp]: "err_if b e = [] \<longleftrightarrow> \<not> b"
  by (simp add: err_if_def)

section \<open>Dictionaries, key by key\<close>

lemma dkeys_simps [simp]: "dkeys [] = []" "dkeys ((k, v) # d) = k # dkeys d" "dkeys (d @ d') = dkeys d @ dkeys d'"
  by (simp_all add: dkeys_def)

lemma dget_append [simp]: "dget k (d @ d') = (if k \<in> set (dkeys d) then dget k d else dget k d')"
proof (cases "map_of d k")
  case None
  then have "k \<notin> set (dkeys d)" by (simp add: dkeys_def map_of_eq_None_iff)
  then show ?thesis using None by (simp add: dget_def map_add_def)
next
  case (Some v)
  then have "k \<in> set (dkeys d)" using map_of_SomeD by (force simp: dkeys_def)
  then show ?thesis using Some by (simp add: dget_def map_add_def)
qed

lemma dget_dict_merge: "k \<notin> set (dkeys e) \<Longrightarrow> dget k (dict_merge d e) = dget k d"
  unfolding dict_merge_def by (induction e arbitrary: d) (auto simp: dkeys_def split: prod.splits)

lemma sort_keys_dget:
  assumes "sort_keys (PDict d) = sort_keys (PDict d')" and "distinct (dkeys d)" and "distinct (dkeys d')"
  shows "sort_keys (dget k d) = sort_keys (dget k d')"
  using sort_keys_lookup [OF assms, of k] by (auto simp: dget_def split: option.splits)

end
