(* ===== verification/Loop_Guard.thy ===== *)
theory Loop_Guard
  imports Py_Value
begin

text \<open>
  \<open>toolkit/ztad/loop_guard.py\<close>: the fingerprint of an attempt, its signature, and the test of
  measurable progress between two attempts.
\<close>

record attempt_fingerprint =
  af_task_id :: string
  af_strategy_hash :: string
  af_prompt_hash :: string
  af_context_hash :: string
  af_head_sha :: string
  af_diff_hash :: string
  af_failing_evidence_hash :: string
  af_provider :: string
  af_model :: string

definition signature :: "(string \<Rightarrow> string) \<Rightarrow> attempt_fingerprint \<Rightarrow> string" where
  "signature sha f = sha256_json sha (PDict
     [(''task_id'', PStr (af_task_id f)),
      (''strategy_hash'', PStr (af_strategy_hash f)),
      (''prompt_hash'', PStr (af_prompt_hash f)),
      (''context_hash'', PStr (af_context_hash f)),
      (''head_sha'', PStr (af_head_sha f)),
      (''diff_hash'', PStr (af_diff_hash f)),
      (''failing_evidence_hash'', PStr (af_failing_evidence_hash f)),
      (''provider'', PStr (af_provider f)),
      (''model'', PStr (af_model f))])"

record progress_snapshot =
  ps_failing_checks :: int
  ps_blocking_findings :: int
  ps_unknowns :: int
  ps_evidence_count :: int
  ps_strategy_hash :: string
  ps_context_hash :: string
  ps_provider :: string
  ps_model :: string

record progress_verdict =
  pg_progress :: bool
  pg_reasons :: "string list"
  pg_decision :: string

definition evaluate_progress ::
  "progress_snapshot option \<Rightarrow> progress_snapshot \<Rightarrow> progress_verdict" where
  "evaluate_progress previous current =
     (case previous of
        None \<Rightarrow> \<lparr>pg_progress = True, pg_reasons = [''first_attempt''], pg_decision = ''CONTINUE''\<rparr>
      | Some p \<Rightarrow>
          (let reasons =
             (if ps_failing_checks current < ps_failing_checks p then [''fewer_failing_checks''] else []) @
             (if ps_blocking_findings current < ps_blocking_findings p then [''fewer_blocking_findings''] else []) @
             (if ps_unknowns current < ps_unknowns p then [''reduced_uncertainty''] else []) @
             (if ps_evidence_count current > ps_evidence_count p then [''new_evidence''] else []) @
             (if ps_strategy_hash current \<noteq> ps_strategy_hash p then [''new_strategy''] else []) @
             (if ps_context_hash current \<noteq> ps_context_hash p then [''expanded_or_changed_context''] else []) @
             (if (ps_provider current, ps_model current) \<noteq> (ps_provider p, ps_model p)
              then [''different_execution_resource''] else [])
           in \<lparr>pg_progress = (reasons \<noteq> []), pg_reasons = reasons,
               pg_decision = (if reasons \<noteq> [] then ''CONTINUE'' else ''NO_PROGRESS_CYCLE_ESCALATE'')\<rparr>))"

text \<open>
  The abstract notion of progress: something measurable got better, or something about how the
  task is attempted changed.
\<close>

definition measurably_better :: "progress_snapshot \<Rightarrow> progress_snapshot \<Rightarrow> bool" where
  "measurably_better p c \<longleftrightarrow>
     ps_failing_checks c < ps_failing_checks p \<or> ps_blocking_findings c < ps_blocking_findings p \<or>
     ps_unknowns c < ps_unknowns p \<or> ps_evidence_count p < ps_evidence_count c"

definition same_approach :: "progress_snapshot \<Rightarrow> progress_snapshot \<Rightarrow> bool" where
  "same_approach p c \<longleftrightarrow>
     ps_strategy_hash c = ps_strategy_hash p \<and> ps_context_hash c = ps_context_hash p \<and>
     ps_provider c = ps_provider p \<and> ps_model c = ps_model p"

lemma evaluate_progress_iff:
  "pg_progress (evaluate_progress (Some p) c) \<longleftrightarrow> measurably_better p c \<or> \<not> same_approach p c"
  unfolding evaluate_progress_def measurably_better_def same_approach_def by (auto simp: Let_def)

lemma evaluate_progress_decision:
  "pg_decision (evaluate_progress p c) =
     (if pg_progress (evaluate_progress p c) then ''CONTINUE'' else ''NO_PROGRESS_CYCLE_ESCALATE'')"
  by (cases p) (simp_all add: evaluate_progress_def Let_def)

text \<open>With an injective digest a signature identifies the attempt, field by field.\<close>

lemma signature_inject:
  assumes "inj sha"
  shows "signature sha f = signature sha g \<longleftrightarrow> f = g"
proof -
  have "sort_keys (PDict kvs) = PDict (sort_key fst kvs)" if "\<forall>kv \<in> set kvs. \<exists>s. snd kv = PStr s" for kvs
  proof -
    have "map (\<lambda>(k, v). (k, sort_keys v)) kvs = kvs"
      using that by (intro map_idI) (auto split: prod.splits)
    then show ?thesis by simp
  qed
  then show ?thesis
    unfolding signature_def
    by (auto simp: sha256_json_inject [OF assms] sort_key_def insort_key.simps)
qed

end
