(* ===== verification/Mesh_Store.thy ===== *)
theory Mesh_Store
  imports Loop_Guard
begin

text \<open>
  \<open>toolkit/ztad/mesh_store.py\<close>: the SQLite store of the mesh (nodes, dependencies, scope locks,
  attempts, artifacts). Tables are lists of rows; every operation is one \<open>BEGIN IMMEDIATE\<close>
  transaction, so it maps the tables to new tables or fails and changes nothing. Each reading of
  the clock (\<open>_now()\<close>, \<open>_future(s)\<close>) and each \<open>uuid4\<close> is an argument. Timestamps are the ISO
  texts of the columns, compared as SQLite compares TEXT.

  The table \<open>model_performance\<close> (sums of floats) and \<open>provider_health\<close> are not modelled.
\<close>

section \<open>Identifiers and scopes\<close>

definition is_alnum :: "char \<Rightarrow> bool" where
  "is_alnum c \<longleftrightarrow> (let n = (of_char c :: nat) in
     (48 \<le> n \<and> n \<le> 57) \<or> (65 \<le> n \<and> n \<le> 90) \<or> (97 \<le> n \<and> n \<le> 122))"

definition mesh_id_ok :: "string \<Rightarrow> bool" where
  "mesh_id_ok s \<longleftrightarrow> s \<noteq> [] \<and> is_alnum (hd s) \<and> length s \<le> 128 \<and>
     (\<forall>c \<in> set (tl s). is_alnum c \<or> c = CHR ''.'' \<or> c = CHR ''_'' \<or> c = CHR ''-'')"

definition has_glob :: "string \<Rightarrow> bool" where
  "has_glob part \<longleftrightarrow> (\<exists>c \<in> set part. c = CHR ''*'' \<or> c = CHR ''?'' \<or> c = CHR ''['')"

definition scope_root :: "string \<Rightarrow> string" where
  "scope_root pattern =
     (let value = str_lower (strip_char (CHR ''/'') (slashes pattern));
          root = join_with ''/'' (takeWhile (\<lambda>p. \<not> has_glob p) (split_on (CHR ''/'') value))
      in if root = [] then ''*'' else root)"

definition scopes_overlap :: "string \<Rightarrow> string \<Rightarrow> bool" where
  "scopes_overlap l r \<longleftrightarrow>
     (if l = ''*'' \<or> r = ''*'' then True
      else l = r \<or> starts_with (r @ ''/'') l \<or> starts_with (l @ ''/'') r)"

section \<open>Specifications and rows\<close>

record mesh_node_spec =
  sp_node_id :: string
  sp_task_id :: string
  sp_title :: string
  sp_task_family :: string
  sp_role :: string
  sp_risk :: string
  sp_write_access :: bool
  sp_scopes :: "string list"
  sp_prompt_path :: string
  sp_output_schema :: string
  sp_metadata :: pydict
  sp_priority :: int
  sp_dependencies :: "string list"
  sp_idempotency_key :: "string option"

definition create_spec :: "string \<Rightarrow> string option \<Rightarrow> mesh_node_spec \<Rightarrow> mesh_node_spec res" where
  "create_spec fresh node_id a =
     (let nid = (case node_id of Some i \<Rightarrow> if i \<noteq> [] then i else ''node-'' @ fresh
                 | None \<Rightarrow> ''node-'' @ fresh)
      in if \<not> mesh_id_ok nid then Inl (ValueError ''Mesh node_id must be a bounded path-free identifier'')
         else if sp_task_id a = [] \<or> length (sp_task_id a) > 256 \<or> CHR 0x00 \<in> set (sp_task_id a)
           then Inl (ValueError ''Mesh task_id is invalid'')
         else if str_strip (sp_title a) = [] \<or> length (sp_title a) > 512
           then Inl (ValueError ''Mesh node title is invalid'')
         else if sp_task_family a = [] \<or> sp_role a = []
           then Inl (ValueError ''Mesh task_family and role are required'')
         else Inr (a\<lparr>sp_node_id := nid, sp_scopes := sorted_set (sp_scopes a),
                     sp_dependencies := sorted_set (sp_dependencies a)\<rparr>))"

datatype mesh_state = MS_READY | MS_RETRY_READY | MS_RUNNING | MS_SUCCEEDED | MS_FAILED
  | MS_QUARANTINED | MS_CANCELLED | MS_SUPERSEDED

definition mesh_runnable :: "mesh_state \<Rightarrow> bool" where
  "mesh_runnable s \<longleftrightarrow> s = MS_READY \<or> s = MS_RETRY_READY"

definition mesh_terminal :: "mesh_state \<Rightarrow> bool" where
  "mesh_terminal s \<longleftrightarrow> s \<in> {MS_SUCCEEDED, MS_FAILED, MS_QUARANTINED, MS_CANCELLED, MS_SUPERSEDED}"

record mesh_row =
  mn_id :: string
  mn_key :: string
  mn_task :: string
  mn_title :: string
  mn_family :: string
  mn_role :: string
  mn_risk :: string
  mn_write :: bool
  mn_scopes :: "string list"
  mn_prompt :: string
  mn_schema :: string
  mn_metadata :: pydict
  mn_priority :: int
  mn_state :: mesh_state
  mn_owner :: "string option"
  mn_lease :: "string option"
  mn_next_run :: "string option"
  mn_attempts :: int
  mn_version :: int
  mn_registry :: "string option"
  mn_provider :: "string option"
  mn_last_run :: "string option"
  mn_last_error :: "string option"
  mn_created :: string
  mn_updated :: string

record scope_lock =
  lk_root :: string
  lk_node :: string
  lk_owner :: string
  lk_expires :: string

record attempt_row =
  at_id :: string
  at_node :: string
  at_signature :: string
  at_fingerprint :: attempt_fingerprint
  at_snapshot :: progress_snapshot
  at_progress :: progress_verdict
  at_created :: string

record artifact_row =
  ar_id :: string
  ar_node :: string
  ar_task :: string
  ar_type :: string
  ar_path :: string
  ar_sha256 :: string
  ar_metadata :: pydict
  ar_created :: string

record mesh_db =
  db_nodes :: "mesh_row list"
  db_deps :: "(string \<times> string) list"
  db_locks :: "scope_lock list"
  db_attempts :: "attempt_row list"
  db_artifacts :: "artifact_row list"

definition mesh_empty :: mesh_db where
  "mesh_empty = \<lparr>db_nodes = [], db_deps = [], db_locks = [], db_attempts = [], db_artifacts = []\<rparr>"

section \<open>Acyclicity of a submitted graph\<close>

text \<open>
  \<open>visit\<close>: the depth-first search, with the sets \<open>visiting\<close> and \<open>visited\<close> and the nodes still to
  be visited by the loop that calls it. \<open>visited\<close> is kept in the order of completion, newest first.
\<close>

type_synonym graph = "(string \<times> string list) list"

definition succs :: "graph \<Rightarrow> string \<Rightarrow> string list" where
  "succs g n = (case map_of g n of None \<Rightarrow> [] | Some ds \<Rightarrow> ds)"

function visit :: "graph \<Rightarrow> string list \<Rightarrow> string list \<Rightarrow> string list \<Rightarrow> string list res" where
  "visit g visiting visited [] = Inr visited"
| "visit g visiting visited (n # ns) =
     (if n \<in> set visiting then Inl (ValueError ''Mesh graph contains a cycle'')
      else if n \<in> set visited then visit g visiting visited ns
      else if n \<notin> fst ` set g then Inl (KeyError n)
      else (case visit g (n # visiting) visited (succs g n) of
              Inl e \<Rightarrow> Inl e
            | Inr visited' \<Rightarrow> visit g visiting (n # visited') ns))"
  by pat_completeness auto
termination
proof (relation "measures [\<lambda>(g, vg, vd, ns). card (fst ` set g - set vg), \<lambda>(g, vg, vd, ns). length ns]")
  fix g :: graph and vg vd :: "string list" and n ns
  assume "n \<notin> set vg" and "\<not> n \<notin> fst ` set g"
  then have "fst ` set g - set (n # vg) \<subset> fst ` set g - set vg" by auto
  then have "card (fst ` set g - set (n # vg)) < card (fst ` set g - set vg)"
    by (intro psubset_card_mono) auto
  then show "((g, n # vg, vd, succs g n), g, vg, vd, n # ns)
      \<in> measures [\<lambda>(g, vg, vd, ns). card (fst ` set g - set vg), \<lambda>(g, vg, vd, ns). length ns]"
    by simp
qed auto

definition spec_graph :: "mesh_node_spec list \<Rightarrow> graph" where
  "spec_graph items =
     map (\<lambda>i. (i, sp_dependencies (the (find (\<lambda>n. sp_node_id n = i) (rev items)))))
       (uniq (map sp_node_id items))"

fun check_edges :: "string list \<Rightarrow> graph \<Rightarrow> unit res" where
  "check_edges known [] = Inr ()"
| "check_edges known ((n, ds) # g) =
     (if \<exists>d \<in> set ds. d \<notin> set known then Inl (ValueError (''Node '' @ n @ '' has unknown dependencies''))
      else if n \<in> set ds then Inl (ValueError ''A node cannot depend on itself'')
      else check_edges known g)"

definition validate_acyclic :: "mesh_node_spec list \<Rightarrow> unit res" where
  "validate_acyclic items =
     (let g = spec_graph items; known = map fst g
      in case check_edges known g of
           Inl e \<Rightarrow> Inl e
         | Inr _ \<Rightarrow> (case visit g [] [] known of Inl e \<Rightarrow> Inl e | Inr _ \<Rightarrow> Inr ()))"

section \<open>Operations\<close>

definition str_list :: "string list \<Rightarrow> pyval" where
  "str_list xs = PList (map PStr xs)"

definition spec_key :: "(string \<Rightarrow> string) \<Rightarrow> mesh_node_spec \<Rightarrow> string" where
  "spec_key sha n =
     (let derived = sha256_json sha (PDict
        [(''task_id'', PStr (sp_task_id n)), (''title'', PStr (sp_title n)),
         (''family'', PStr (sp_task_family n)), (''role'', PStr (sp_role n)),
         (''scopes'', str_list (sp_scopes n)), (''dependencies'', str_list (sp_dependencies n)),
         (''metadata'', PDict (sp_metadata n))])
      in case sp_idempotency_key n of Some k \<Rightarrow> if k \<noteq> [] then k else derived | None \<Rightarrow> derived)"

definition new_row :: "string \<Rightarrow> string \<Rightarrow> mesh_node_spec \<Rightarrow> mesh_row" where
  "new_row key now n =
     \<lparr>mn_id = sp_node_id n, mn_key = key, mn_task = sp_task_id n, mn_title = sp_title n,
      mn_family = sp_task_family n, mn_role = sp_role n, mn_risk = sp_risk n,
      mn_write = sp_write_access n, mn_scopes = sp_scopes n, mn_prompt = sp_prompt_path n,
      mn_schema = sp_output_schema n, mn_metadata = sp_metadata n, mn_priority = sp_priority n,
      mn_state = MS_READY, mn_owner = None, mn_lease = None, mn_next_run = None, mn_attempts = 0,
      mn_version = 1, mn_registry = None, mn_provider = None, mn_last_run = None,
      mn_last_error = None, mn_created = now, mn_updated = now\<rparr>"

definition insert_or_ignore_node :: "mesh_row \<Rightarrow> mesh_row list \<Rightarrow> mesh_row list" where
  "insert_or_ignore_node r rows =
     (if \<exists>q \<in> set rows. mn_id q = mn_id r \<or> mn_key q = mn_key r then rows else rows @ [r])"

definition submit_node :: "(string \<Rightarrow> string) \<Rightarrow> string \<Rightarrow> mesh_node_spec \<Rightarrow> mesh_db \<Rightarrow> mesh_db res" where
  "submit_node sha now n db =
     (if sp_risk n \<notin> {''R0'', ''R1'', ''R2'', ''R3'', ''R4''} then Inl (ValueError ''Unknown risk'')
      else let key = spec_key sha n in
        (case tbl_get mn_key key (db_nodes db) of
           Some r \<Rightarrow>
             if mn_id r \<noteq> sp_node_id n then Inl (ValueError ''Idempotency key belongs to another node'')
             else Inr (db\<lparr>db_nodes := insert_or_ignore_node (new_row key now n) (db_nodes db)\<rparr>)
         | None \<Rightarrow> Inr (db\<lparr>db_nodes := insert_or_ignore_node (new_row key now n) (db_nodes db)\<rparr>)))"

definition insert_dep :: "string \<Rightarrow> string \<Rightarrow> mesh_db \<Rightarrow> mesh_db res" where
  "insert_dep n d db =
     (if n \<notin> mn_id ` set (db_nodes db) \<or> d \<notin> mn_id ` set (db_nodes db)
      then Inl (IntegrityError ''FOREIGN KEY constraint failed'')
      else if (n, d) \<in> set (db_deps db) then Inr db
      else Inr (db\<lparr>db_deps := db_deps db @ [(n, d)]\<rparr>))"

definition submit_deps :: "mesh_node_spec \<Rightarrow> mesh_db \<Rightarrow> mesh_db res" where
  "submit_deps n db = fold_res (insert_dep (sp_node_id n)) (sp_dependencies n) db"

definition get_node :: "mesh_db \<Rightarrow> string \<Rightarrow> (mesh_row \<times> string list) res" where
  "get_node db i =
     (case tbl_get mn_id i (db_nodes db) of
        None \<Rightarrow> Inl (KeyError i)
      | Some r \<Rightarrow> Inr (r, sort (map snd (filter (\<lambda>e. fst e = i) (db_deps db)))))"

definition submit_graph ::
  "(string \<Rightarrow> string) \<Rightarrow> string \<Rightarrow> mesh_node_spec list \<Rightarrow> mesh_db \<Rightarrow> mesh_db res" where
  "submit_graph sha now items db =
     (if items = [] then Inr db
      else (case validate_acyclic items of
              Inl e \<Rightarrow> Inl e
            | Inr _ \<Rightarrow>
                (case fold_res (submit_node sha now) items db of
                   Inl e \<Rightarrow> Inl e
                 | Inr db1 \<Rightarrow> fold_res submit_deps items db1)))"

definition list_nodes :: "mesh_db \<Rightarrow> string option \<Rightarrow> mesh_row list" where
  "list_nodes db task =
     sort_key (\<lambda>r. (- mn_priority r, mn_created r, mn_id r))
       (filter (\<lambda>r. case task of None \<Rightarrow> True | Some t \<Rightarrow> mn_task r = t) (db_nodes db))"

definition lease_expired :: "string \<Rightarrow> mesh_row \<Rightarrow> bool" where
  "lease_expired now r \<longleftrightarrow>
     mn_state r = MS_RUNNING \<and> (case mn_lease r of None \<Rightarrow> False | Some e \<Rightarrow> e \<le> now)"

definition recover_row :: "string \<Rightarrow> mesh_row \<Rightarrow> mesh_row" where
  "recover_row now r = r\<lparr>mn_state := MS_RETRY_READY, mn_owner := None, mn_lease := None,
     mn_last_error := Some ''lease_expired'', mn_version := mn_version r + 1, mn_updated := now\<rparr>"

definition recover_expired :: "string \<Rightarrow> mesh_db \<Rightarrow> mesh_db \<times> nat" where
  "recover_expired now db =
     (let expired = map mn_id (filter (lease_expired now) (db_nodes db)) in
      (db\<lparr>db_nodes := tbl_upd (\<lambda>r. mn_id r \<in> set expired) (recover_row now) (db_nodes db),
          db_locks := tbl_del (\<lambda>l. lk_expires l \<le> now)
            (tbl_del (\<lambda>l. lk_node l \<in> set expired) (db_locks db))\<rparr>,
       length expired))"

definition dependencies_satisfied :: "mesh_db \<Rightarrow> string \<Rightarrow> bool" where
  "dependencies_satisfied db i \<longleftrightarrow>
     length [(e, r). e \<leftarrow> db_deps db, r \<leftarrow> db_nodes db,
       fst e = i \<and> mn_id r = snd e \<and> mn_state r \<noteq> MS_SUCCEEDED] = 0"

definition can_lock :: "string \<Rightarrow> mesh_db \<Rightarrow> string list \<Rightarrow> bool" where
  "can_lock now db roots \<longleftrightarrow>
     \<not> (\<exists>r \<in> set roots. \<exists>l \<in> set (db_locks db). lk_expires l > now \<and> scopes_overlap r (lk_root l))"

definition claim_candidate :: "string \<Rightarrow> mesh_row \<Rightarrow> bool" where
  "claim_candidate now r \<longleftrightarrow> mesh_runnable (mn_state r) \<and>
     (case mn_next_run r of None \<Rightarrow> True | Some t \<Rightarrow> t \<le> now) \<and>
     (case mn_lease r of None \<Rightarrow> True | Some t \<Rightarrow> t \<le> now)"

definition claim_row :: "string \<Rightarrow> string \<Rightarrow> string \<Rightarrow> mesh_row \<Rightarrow> mesh_row" where
  "claim_row owner expires now r = r\<lparr>mn_state := MS_RUNNING, mn_owner := Some owner,
     mn_lease := Some expires, mn_version := mn_version r + 1, mn_updated := now\<rparr>"

definition node_roots :: "mesh_row \<Rightarrow> string list" where
  "node_roots r = (if mn_write r then sorted_set (map scope_root (mn_scopes r)) else [])"

definition insert_lock :: "scope_lock \<Rightarrow> mesh_db \<Rightarrow> mesh_db res" where
  "insert_lock l db =
     (if \<exists>k \<in> set (db_locks db). lk_root k = lk_root l \<and> lk_node k = lk_node l
      then Inl (IntegrityError ''UNIQUE constraint failed: mesh_scope_locks'')
      else Inr (db\<lparr>db_locks := db_locks db @ [l]\<rparr>))"

fun claim_loop :: "(string \<Rightarrow> string) \<Rightarrow> string \<Rightarrow> string \<Rightarrow> string \<Rightarrow> int \<Rightarrow> mesh_row list \<Rightarrow>
    mesh_db \<times> string list \<Rightarrow> (mesh_db \<times> string list) res" where
  "claim_loop lock_now owner now expires limit [] (db, claimed) = Inr (db, claimed)"
| "claim_loop lock_now owner now expires limit (r # rs) (db, claimed) =
     (if int (length claimed) \<ge> limit then Inr (db, claimed)
      else if \<not> dependencies_satisfied db (mn_id r)
        then claim_loop lock_now owner now expires limit rs (db, claimed)
      else if node_roots r \<noteq> [] \<and> \<not> can_lock (lock_now (mn_id r)) db (node_roots r)
        then claim_loop lock_now owner now expires limit rs (db, claimed)
      else if rowcount (\<lambda>q. mn_id q = mn_id r \<and> mn_version q = mn_version r) (db_nodes db) \<noteq> 1
        then claim_loop lock_now owner now expires limit rs
          (db\<lparr>db_nodes := tbl_upd (\<lambda>q. mn_id q = mn_id r \<and> mn_version q = mn_version r)
                (claim_row owner expires now) (db_nodes db)\<rparr>, claimed)
      else (case fold_res (\<lambda>root. insert_lock \<lparr>lk_root = root, lk_node = mn_id r, lk_owner = owner,
                                       lk_expires = expires\<rparr>)
                   (node_roots r)
                   (db\<lparr>db_nodes := tbl_upd (\<lambda>q. mn_id q = mn_id r \<and> mn_version q = mn_version r)
                         (claim_row owner expires now) (db_nodes db)\<rparr>) of
              Inl e \<Rightarrow> Inl e
            | Inr db' \<Rightarrow> claim_loop lock_now owner now expires limit rs (db', claimed @ [mn_id r])))"

definition claim_ready :: "string \<Rightarrow> string \<Rightarrow> (string \<Rightarrow> string) \<Rightarrow> string \<Rightarrow> int \<Rightarrow> mesh_db \<Rightarrow>
    (mesh_db \<times> string list) res" where
  "claim_ready now expires lock_now owner limit db =
     (if limit < 1 then Inr (db, [])
      else let db1 = db\<lparr>db_locks := tbl_del (\<lambda>l. lk_expires l \<le> now) (db_locks db)\<rparr>;
               candidates = sort_key (\<lambda>r. (- mn_priority r, mn_created r, mn_id r))
                 (filter (claim_candidate now) (db_nodes db1))
           in claim_loop lock_now owner now expires limit candidates (db1, []))"

record finish_args =
  fa_owner :: string
  fa_success :: bool
  fa_run_id :: string
  fa_registry :: string
  fa_provider :: string
  fa_error :: "string option"
  fa_retry_after :: int
  fa_quarantine :: bool

definition finish_row :: "(int \<Rightarrow> string) \<Rightarrow> string \<Rightarrow> finish_args \<Rightarrow> mesh_row \<Rightarrow> mesh_row" where
  "finish_row future now a r =
     (let (st, next_run) =
        (if fa_success a then (MS_SUCCEEDED, None)
         else if fa_quarantine a then (MS_QUARANTINED, Some (future (max (fa_retry_after a) 1800)))
         else (MS_RETRY_READY, if fa_retry_after a \<noteq> 0 then Some (future (fa_retry_after a)) else None));
        err = take 4000 (case fa_error a of None \<Rightarrow> [] | Some e \<Rightarrow> e)
      in r\<lparr>mn_state := st, mn_next_run := next_run, mn_owner := None, mn_lease := None,
           mn_attempts := mn_attempts r + 1, mn_registry := Some (fa_registry a),
           mn_provider := Some (fa_provider a), mn_last_run := Some (fa_run_id a),
           mn_last_error := (if err = [] then None else Some err),
           mn_version := mn_version r + 1, mn_updated := now\<rparr>)"

definition finish_node :: "(int \<Rightarrow> string) \<Rightarrow> string \<Rightarrow> string \<Rightarrow> finish_args \<Rightarrow> mesh_db \<Rightarrow> mesh_db res" where
  "finish_node future now i a db =
     (case tbl_get mn_id i (db_nodes db) of
        None \<Rightarrow> Inl (KeyError i)
      | Some r \<Rightarrow>
          if mn_owner r \<noteq> Some (fa_owner a)
          then Inl (PermissionError ''Only the lease owner can finish a mesh node'')
          else Inr (db\<lparr>db_nodes := tbl_upd (\<lambda>q. mn_id q = i) (finish_row future now a) (db_nodes db),
                       db_locks := tbl_del (\<lambda>l. lk_node l = i) (db_locks db)\<rparr>))"

definition latest_attempt :: "mesh_db \<Rightarrow> string \<Rightarrow> attempt_row option" where
  "latest_attempt db i =
     (case sort_key (\<lambda>a. (at_created a, at_id a)) (filter (\<lambda>a. at_node a = i) (db_attempts db)) of
        [] \<Rightarrow> None | a # as \<Rightarrow> Some (last (a # as)))"

text \<open>
  The row keeps the strategy and context hash of the fingerprint and the counts, provider and
  model of the snapshot; the snapshot of the previous attempt is read back from those columns.
\<close>

definition stored_snapshot :: "attempt_row \<Rightarrow> progress_snapshot" where
  "stored_snapshot a = (at_snapshot a)
     \<lparr>ps_strategy_hash := af_strategy_hash (at_fingerprint a),
      ps_context_hash := af_context_hash (at_fingerprint a)\<rparr>"

definition record_attempt :: "(string \<Rightarrow> string) \<Rightarrow> string \<Rightarrow> string \<Rightarrow> string \<Rightarrow> attempt_fingerprint \<Rightarrow>
    progress_snapshot \<Rightarrow> mesh_db \<Rightarrow> (mesh_db \<times> progress_verdict) res" where
  "record_attempt sha fresh now i fp snap db =
     (if \<exists>a \<in> set (db_attempts db). at_signature a = signature sha fp
      then Inl (ValueError ''Repeated attempt signature: no new strategy, context, diff, or failing evidence'')
      else let progress = evaluate_progress (map_option stored_snapshot (latest_attempt db i)) snap;
               aid = ''attempt-'' @ fresh
           in if aid \<in> at_id ` set (db_attempts db)
                then Inl (IntegrityError ''UNIQUE constraint failed: mesh_attempts.attempt_id'')
              else if i \<notin> mn_id ` set (db_nodes db)
                then Inl (IntegrityError ''FOREIGN KEY constraint failed'')
              else Inr (db\<lparr>db_attempts := db_attempts db @
                     [\<lparr>at_id = aid, at_node = i, at_signature = signature sha fp, at_fingerprint = fp,
                       at_snapshot = snap, at_progress = progress, at_created = now\<rparr>]\<rparr>, progress))"

definition direct_dependencies :: "mesh_db \<Rightarrow> string \<Rightarrow> string list res" where
  "direct_dependencies db i =
     (if i \<notin> mn_id ` set (db_nodes db) then Inl (KeyError i)
      else Inr (sort (map snd (filter (\<lambda>e. fst e = i) (db_deps db)))))"

text \<open>
  \<open>dependency_closure\<close>: the inner \<open>visit\<close> recurses without a \<open>visiting\<close> set, so its depth is
  bounded by the interpreter only; \<open>fuel\<close> is that recursion limit. \<open>visited\<close> and \<open>ordered\<close> always hold
  the same nodes, so one list stands for both.
\<close>

definition dep_succs :: "(string \<times> string) list \<Rightarrow> string \<Rightarrow> string list" where
  "dep_succs es i = sort (map snd (filter (\<lambda>e. fst e = i) es))"

fun closure_visit :: "nat \<Rightarrow> (string \<times> string) list \<Rightarrow> string list \<Rightarrow> string list \<Rightarrow> string list option" where
  "closure_visit fuel es [] ordered = Some ordered"
| "closure_visit 0 es (d # ds) ordered =
     (if d \<in> set ordered then closure_visit 0 es ds ordered else None)"
| "closure_visit (Suc fuel) es (d # ds) ordered =
     (if d \<in> set ordered then closure_visit (Suc fuel) es ds ordered
      else (case closure_visit fuel es (dep_succs es d) ordered of
              None \<Rightarrow> None
            | Some ordered' \<Rightarrow> closure_visit (Suc fuel) es ds (ordered' @ [d])))"

definition dependency_closure :: "nat \<Rightarrow> mesh_db \<Rightarrow> string \<Rightarrow> string list res" where
  "dependency_closure fuel db i =
     (if i \<notin> mn_id ` set (db_nodes db) then Inl (KeyError i)
      else (case closure_visit fuel (db_deps db) (dep_succs (db_deps db) i) [] of
              None \<Rightarrow> Inl RecursionError
            | Some ordered \<Rightarrow> Inr ordered))"

definition register_artifact :: "string \<Rightarrow> string \<Rightarrow> string \<Rightarrow> string \<Rightarrow> string \<Rightarrow> string \<Rightarrow> pydict \<Rightarrow>
    string option \<Rightarrow> mesh_db \<Rightarrow> (mesh_db \<times> artifact_row \<times> bool) res" where
  "register_artifact fresh now i ty path sha256 metadata artifact_id db =
     (if ty = [] \<or> path = [] \<or> \<not> starts_with ''sha256:'' sha256
      then Inl (ValueError ''Artifact type, path and sha256 are required'')
      else (case tbl_get mn_id i (db_nodes db) of
              None \<Rightarrow> Inl (KeyError i)
            | Some n \<Rightarrow>
                (case find (\<lambda>a. ar_node a = i \<and> ar_type a = ty \<and> ar_sha256 a = sha256) (db_artifacts db) of
                   Some a \<Rightarrow> Inr (db, a, True)
                 | None \<Rightarrow>
                     let aid = (case artifact_id of Some x \<Rightarrow> if x \<noteq> [] then x else ''artifact-'' @ fresh
                                | None \<Rightarrow> ''artifact-'' @ fresh);
                         a = \<lparr>ar_id = aid, ar_node = i, ar_task = mn_task n, ar_type = ty, ar_path = path,
                              ar_sha256 = sha256, ar_metadata = metadata, ar_created = now\<rparr>
                     in if aid \<in> ar_id ` set (db_artifacts db)
                        then Inl (IntegrityError ''UNIQUE constraint failed: mesh_artifacts.artifact_id'')
                        else Inr (db\<lparr>db_artifacts := db_artifacts db @ [a]\<rparr>, a, False))))"

definition list_artifacts :: "mesh_db \<Rightarrow> string option \<Rightarrow> string option \<Rightarrow> string option \<Rightarrow> artifact_row list" where
  "list_artifacts db node task ty =
     sort_key (\<lambda>a. (ar_created a, ar_id a))
       (filter (\<lambda>a. (case node of None \<Rightarrow> True | Some i \<Rightarrow> ar_node a = i) \<and>
                    (case task of None \<Rightarrow> True | Some t \<Rightarrow> ar_task a = t) \<and>
                    (case ty of None \<Rightarrow> True | Some t \<Rightarrow> ar_type a = t)) (db_artifacts db))"

definition latest_by_type :: "artifact_row list \<Rightarrow> artifact_row list" where
  "latest_by_type as =
     map (\<lambda>ty. the (find (\<lambda>a. ar_type a = ty) (rev as))) (sorted_set (map ar_type as))"

definition dependency_artifacts :: "nat \<Rightarrow> mesh_db \<Rightarrow> string \<Rightarrow> string list \<Rightarrow> bool \<Rightarrow> artifact_row list res" where
  "dependency_artifacts fuel db i allowed transitive =
     (case (if transitive then dependency_closure fuel db i else direct_dependencies db i) of
        Inl e \<Rightarrow> Inl e
      | Inr ds \<Rightarrow>
          let artifacts = concat (map (\<lambda>d. latest_by_type
                (filter (\<lambda>a. ar_type a \<in> set allowed) (list_artifacts db (Some d) None None))) ds);
              combined = filter (\<lambda>a. ar_type a = ''COMBINED_PATCH'') artifacts
          in if (''COMBINED_PATCH'' \<in> set allowed \<or> ''PATCH'' \<in> set allowed) \<and> combined \<noteq> []
             then Inr [last combined] else Inr artifacts)"

definition reactivated_row :: "string \<Rightarrow> string \<Rightarrow> string \<Rightarrow> string \<Rightarrow> mesh_row \<Rightarrow> mesh_row" where
  "reactivated_row token reason now now2 r =
     r\<lparr>mn_state := MS_RETRY_READY, mn_next_run := None, mn_last_error := None,
       mn_metadata := dset ''last_reactivated_at'' (PStr now)
         (dset ''last_reactivation_reason'' (PStr (str_strip reason))
           (dset ''last_reactivation_token'' (PStr token) (mn_metadata r))),
       mn_version := mn_version r + 1, mn_updated := now2\<rparr>"

definition reactivate_quarantined ::
  "string \<Rightarrow> string \<Rightarrow> string \<Rightarrow> string \<Rightarrow> string \<Rightarrow> mesh_db \<Rightarrow> mesh_db res" where
  "reactivate_quarantined now now2 i token reason db =
     (if token = [] \<or> length token > 512 \<or> (\<exists>c \<in> set token. (of_char c :: nat) < 32)
      then Inl (ValueError ''change_token must be a bounded printable value'')
      else if str_strip reason = [] \<or> length reason > 1000
      then Inl (ValueError ''reactivation reason is required and bounded'')
      else (case tbl_get mn_id i (db_nodes db) of
              None \<Rightarrow> Inl (KeyError i)
            | Some r \<Rightarrow>
                if mn_state r \<noteq> MS_QUARANTINED
                then Inl (ValueError ''Only a quarantined node can be reactivated'')
                else if dget ''last_reactivation_token'' (mn_metadata r) = PStr token
                then Inl (ValueError ''Reactivation change_token was already used'')
                else Inr (db\<lparr>db_nodes := tbl_upd (\<lambda>q. mn_id q = i)
                       (reactivated_row token reason now now2) (db_nodes db)\<rparr>)))"

record mesh_status =
  st_ready :: nat
  st_runnable_now :: nat
  st_delayed_retry :: nat
  st_quarantined :: nat
  st_running :: nat
  st_blocked_by_dependencies :: nat
  st_terminal :: nat
  st_active_scope_locks :: nat

definition count_state :: "mesh_state \<Rightarrow> mesh_db \<Rightarrow> nat" where
  "count_state st db = rowcount (\<lambda>r. mn_state r = st) (db_nodes db)"

definition status :: "string \<Rightarrow> mesh_db \<Rightarrow> mesh_status" where
  "status now db =
     \<lparr>st_ready = count_state MS_READY db + count_state MS_RETRY_READY db,
      st_runnable_now = rowcount (\<lambda>r. mesh_runnable (mn_state r) \<and>
         (case mn_next_run r of None \<Rightarrow> True | Some t \<Rightarrow> t \<le> now)) (db_nodes db),
      st_delayed_retry = rowcount (\<lambda>r. mn_state r = MS_RETRY_READY \<and>
         (case mn_next_run r of None \<Rightarrow> False | Some t \<Rightarrow> t > now)) (db_nodes db),
      st_quarantined = count_state MS_QUARANTINED db,
      st_running = count_state MS_RUNNING db,
      st_blocked_by_dependencies = length (remdups (map fst (filter
         (\<lambda>e. \<exists>r \<in> set (db_nodes db). mn_id r = snd e \<and> mn_state r \<noteq> MS_SUCCEEDED) (db_deps db)))),
      st_terminal = count_state MS_SUCCEEDED db + count_state MS_FAILED db + count_state MS_QUARANTINED db
         + count_state MS_CANCELLED db + count_state MS_SUPERSEDED db,
      st_active_scope_locks = rowcount (\<lambda>l. lk_expires l > now) (db_locks db)\<rparr>"

end
