(* ===== verification/Mesh_Graph.thy ===== *)
theory Mesh_Graph
  imports Mesh_Store
begin

text \<open>
  The dependency graph of the mesh: the depth-first search of \<open>submit_graph\<close> accepts exactly the
  acyclic graphs, and \<open>dependency_closure\<close> lists the transitive dependencies of a node in
  topological order whenever the stored graph is acyclic. Acyclicity of the stored graph is not
  an invariant of the store: a second submission can close a cycle.
\<close>

section \<open>Soundness and completeness of the search\<close>

definition graph_edges :: "graph \<Rightarrow> (string \<times> string) set" where
  "graph_edges g = {(a, b). b \<in> set (succs g a)}"

fun finished :: "graph \<Rightarrow> string list \<Rightarrow> bool" where
  "finished g [] = True"
| "finished g (n # v) = (set (succs g n) \<subseteq> set v \<and> n \<notin> set v \<and> finished g v)"

lemma visit_sound:
  "visit g vg vd ns = Inr vd' \<Longrightarrow> finished g vd \<Longrightarrow> set vg \<inter> set vd = {} \<Longrightarrow>
     finished g vd' \<and> set vd \<union> set ns \<subseteq> set vd' \<and> set vg \<inter> set vd' = {}"
proof (induction g vg vd ns arbitrary: vd' rule: visit.induct)
  case (2 g vg vd n ns)
  show ?case
  proof (cases "n \<in> set vd")
    case True
    with 2 show ?thesis by (auto split: if_splits)
  next
    case False
    with 2(4) obtain v where v: "visit g (n # vg) vd (succs g n) = Inr v"
      and rest: "visit g vg (n # v) ns = Inr vd'"
      and side: "n \<notin> set vg" "\<not> n \<notin> fst ` set g"
      by (auto split: if_splits sum.splits)
    have inner: "finished g v \<and> set vd \<union> set (succs g n) \<subseteq> set v \<and> set (n # vg) \<inter> set v = {}"
      using 2(2) [OF side(1) False side(2) v] 2(5,6) False by auto
    then have "finished g (n # v)" "set vg \<inter> set (n # v) = {}" using side by auto
    from 2(3) [OF side(1) False side(2) v rest this] inner show ?thesis by auto
  qed
qed auto

lemma finished_closed:
  "finished g v \<Longrightarrow> a \<in> set v \<Longrightarrow> (a, b) \<in> (graph_edges g)\<^sup>* \<Longrightarrow> b \<in> set v"
proof -
  assume v: "finished g v"
  have one: "a \<in> set v \<Longrightarrow> (a, b) \<in> graph_edges g \<Longrightarrow> b \<in> set v" for a b
    using v by (induction v) (auto simp: graph_edges_def)
  show "a \<in> set v \<Longrightarrow> (a, b) \<in> (graph_edges g)\<^sup>* \<Longrightarrow> b \<in> set v"
    by (rotate_tac, induction rule: rtrancl_induct) (auto intro: one)
qed

lemma finished_no_cycle: "finished g v \<Longrightarrow> a \<in> set v \<Longrightarrow> (a, a) \<notin> (graph_edges g)\<^sup>+"
proof (induction v)
  case (Cons n v)
  show ?case
  proof (cases "a \<in> set v")
    case True
    with Cons show ?thesis by simp
  next
    case False
    with Cons have "a = n" by simp
    show ?thesis
    proof
      assume "(a, a) \<in> (graph_edges g)\<^sup>+"
      then obtain m where "(a, m) \<in> graph_edges g" "(m, a) \<in> (graph_edges g)\<^sup>*"
        by (meson tranclD)
      moreover have "m \<in> set v"
        using \<open>a = n\<close> Cons.prems calculation(1) by (auto simp: graph_edges_def)
      ultimately have "a \<in> set v" using Cons.prems finished_closed by fastforce
      with False show False by simp
    qed
  qed
qed simp

lemma visit_complete:
  assumes "acyclic (graph_edges g)" and "\<And>n. n \<in> fst ` set g \<Longrightarrow> set (succs g n) \<subseteq> fst ` set g"
  shows "set ns \<subseteq> fst ` set g \<Longrightarrow> \<forall>m \<in> set vg. \<forall>n \<in> set ns. (m, n) \<in> (graph_edges g)\<^sup>+ \<Longrightarrow>
     \<exists>vd'. visit g vg vd ns = Inr vd'"
  using assms
proof (induction g vg vd ns rule: visit.induct)
  case (2 g vg vd n ns)
  have fresh: "n \<notin> set vg" using 2(4,5,6) by (auto simp: acyclic_def)
  have key: "n \<in> fst ` set g" using 2(4) by simp
  show ?case
  proof (cases "n \<in> set vd")
    case True
    with 2 fresh show ?thesis by auto
  next
    case False
    have step: "(n, s) \<in> graph_edges g" if "s \<in> set (succs g n)" for s
      using that by (simp add: graph_edges_def)
    have "\<forall>m \<in> set (n # vg). \<forall>s \<in> set (succs g n). (m, s) \<in> (graph_edges g)\<^sup>+"
      using 2(5) step by (auto intro: trancl_into_trancl)
    then obtain v where v: "visit g (n # vg) vd (succs g n) = Inr v"
      using 2(2) fresh False key 2(6,7) by blast
    have "\<exists>vd'. visit g vg (n # v) ns = Inr vd'"
      using 2(3) [OF fresh False _ v] key 2(4-7) by simp
    with v show ?thesis using fresh False key by auto
  qed
qed simp

lemma check_edges_iff:
  "check_edges known g = Inr () \<longleftrightarrow> (\<forall>(n, ds) \<in> set g. set ds \<subseteq> set known \<and> n \<notin> set ds)"
  by (induction known g rule: check_edges.induct) auto

lemma succs_distinct: "distinct (map fst g) \<Longrightarrow> (n, ds) \<in> set g \<Longrightarrow> succs g n = ds"
  by (simp add: succs_def)

lemma succs_Nil: "n \<notin> fst ` set g \<Longrightarrow> succs g n = []"
  by (simp add: succs_def map_of_eq_None_iff [symmetric])

lemma distinct_spec_graph: "distinct (map fst (spec_graph items))"
  by (simp add: spec_graph_def comp_def)

text \<open>The specification of \<open>_validate_acyclic\<close>: edges stay inside the submitted set, and no cycle.\<close>

lemma validate_acyclic_iff:
  "validate_acyclic items = Inr () \<longleftrightarrow>
     graph_edges (spec_graph items) \<subseteq> UNIV \<times> set (map sp_node_id items) \<and>
     acyclic (graph_edges (spec_graph items))"
proof -
  let ?g = "spec_graph items"
  have keys: "fst ` set ?g = set (map sp_node_id items)" by (auto simp: spec_graph_def image_iff)
  have all: "set (map fst ?g) = fst ` set ?g" by simp
  note dist = distinct_spec_graph [of items]
  show ?thesis
  proof
    assume v: "validate_acyclic items = Inr ()"
    then have ce: "check_edges (map fst ?g) ?g = Inr ()"
      and vis: "\<exists>w. visit ?g [] [] (map fst ?g) = Inr w"
      by (auto simp: validate_acyclic_def Let_def split: sum.splits)
    from vis obtain w where w: "visit ?g [] [] (map fst ?g) = Inr w" by blast
    from visit_sound [OF w] have fin: "finished ?g w" "set (map fst ?g) \<subseteq> set w" by auto
    have "(a, a) \<notin> (graph_edges ?g)\<^sup>+" for a
    proof (cases "a \<in> set w")
      case True
      then show ?thesis by (rule finished_no_cycle [OF fin(1)])
    next
      case False
      then have "succs ?g a = []" using fin(2) by (intro succs_Nil) auto
      then show ?thesis by (auto simp: graph_edges_def dest: tranclD)
    qed
    moreover have "b \<in> fst ` set ?g" if "(a, b) \<in> graph_edges ?g" for a b
    proof -
      from that have b: "b \<in> set (succs ?g a)" by (simp add: graph_edges_def)
      then have "a \<in> fst ` set ?g" using succs_Nil [of a ?g] by fastforce
      then obtain ds where ds: "(a, ds) \<in> set ?g" by auto
      with b ce succs_distinct [OF dist ds] show ?thesis by (auto simp: check_edges_iff)
    qed
    ultimately show "graph_edges ?g \<subseteq> UNIV \<times> set (map sp_node_id items) \<and> acyclic (graph_edges ?g)"
      using keys by (auto simp: acyclic_def)
  next
    assume r: "graph_edges ?g \<subseteq> UNIV \<times> set (map sp_node_id items) \<and> acyclic (graph_edges ?g)"
    have "set ds \<subseteq> set (map fst ?g) \<and> n \<notin> set ds" if "(n, ds) \<in> set ?g" for n ds
    proof -
      have e: "(n, d) \<in> graph_edges ?g" if "d \<in> set ds" for d
        using that succs_distinct [OF dist \<open>(n, ds) \<in> set ?g\<close>] by (simp add: graph_edges_def)
      have "set ds \<subseteq> set (map sp_node_id items)" using r e by blast
      moreover have "n \<notin> set ds" using r e by (auto simp: acyclic_def)
      ultimately show ?thesis using keys by simp
    qed
    then have ce: "check_edges (map fst ?g) ?g = Inr ()" by (auto simp: check_edges_iff)
    have "set (succs ?g n) \<subseteq> fst ` set ?g" for n
      using r keys by (auto simp: graph_edges_def)
    then obtain w where "visit ?g [] [] (map fst ?g) = Inr w"
      using visit_complete [of ?g "map fst ?g" "[]" "[]"] r by auto
    with ce show "validate_acyclic items = Inr ()"
      by (simp add: validate_acyclic_def Let_def)
  qed
qed

section \<open>The dependency closure\<close>

definition dep_step :: "(string \<times> string) list \<Rightarrow> string \<Rightarrow> string set" where
  "dep_step es d = {b. (d, b) \<in> set es}"

lemma set_dep_succs [simp]: "set (dep_succs es d) = {b. (d, b) \<in> set es}"
  by (force simp: dep_succs_def)

text \<open>\<open>topo es xs\<close>: every edge out of an element of \<open>xs\<close> leads to an earlier element.\<close>

definition topo :: "(string \<times> string) list \<Rightarrow> string list \<Rightarrow> bool" where
  "topo es xs \<longleftrightarrow> distinct xs \<and> (\<forall>a d b. xs = a @ d # b \<longrightarrow> {c. (d, c) \<in> set es} \<subseteq> set a)"

lemma topo_Nil [simp]: "topo es []"
  by (simp add: topo_def)

lemma topo_snoc:
  assumes "topo es xs" and "d \<notin> set xs" and "{c. (d, c) \<in> set es} \<subseteq> set xs"
  shows "topo es (xs @ [d])"
  unfolding topo_def
proof (intro conjI allI impI)
  show "distinct (xs @ [d])" using assms by (simp add: topo_def)
next
  fix a e b
  assume eq: "xs @ [d] = a @ e # b"
  show "{c. (e, c) \<in> set es} \<subseteq> set a"
  proof (cases b rule: rev_cases)
    case Nil
    with eq assms show ?thesis by simp
  next
    case (snoc b' z)
    with eq have "xs = a @ e # b'" by simp
    with assms(1) show ?thesis by (simp add: topo_def)
  qed
qed

lemma closure_visit_correct:
  assumes "acyclic (set es)"
  shows "closure_visit fuel es ds ord = Some ord' \<Longrightarrow> topo es ord \<Longrightarrow>
     topo es ord' \<and> set ord' = set ord \<union> {x. \<exists>d \<in> set ds - set ord. (d, x) \<in> (set es)\<^sup>* \<and> x \<notin> set ord}"
  using assms
proof (induction fuel es ds ord arbitrary: ord' rule: closure_visit.induct)
  case (1 fuel es ord)
  then show ?case by simp
next
  case (2 es d ds ord)
  then show ?case by (auto split: if_splits)
next
  case (3 fuel es d ds ord)
  have closed: "c \<in> set ord" if "x \<in> set ord" "(x, c) \<in> (set es)\<^sup>*" for x c
    using that(2,1)
  proof (induction rule: rtrancl_induct)
    case (step y z)
    then obtain a b where "ord = a @ y # b" by (meson split_list)
    with step 3(5) show ?case by (fastforce simp: topo_def)
  qed simp
  show ?case
  proof (cases "d \<in> set ord")
    case True
    then have run: "closure_visit (Suc fuel) es ds ord = Some ord'" using 3(4) by simp
    have "set ds - set ord = set (d # ds) - set ord" using True by auto
    then show ?thesis using 3(1) [OF True run 3(5,6)] by simp
  next
    case False
    with 3(4) obtain o1 where o1: "closure_visit fuel es (dep_succs es d) ord = Some o1"
      and rest: "closure_visit (Suc fuel) es ds (o1 @ [d]) = Some ord'"
      by (auto split: option.splits)
    let ?new = "{x. \<exists>c \<in> {b. (d, b) \<in> set es} - set ord. (c, x) \<in> (set es)\<^sup>* \<and> x \<notin> set ord}"
    have t1: "topo es o1" and s1: "set o1 = set ord \<union> ?new"
      using 3(2) [OF False o1 3(5,6)] by auto
    have new_trancl: "x \<in> ?new \<Longrightarrow> (d, x) \<in> (set es)\<^sup>+" for x by (auto intro: rtrancl_into_trancl2)
    have "d \<notin> set o1" using False s1 new_trancl 3(6) by (auto simp: acyclic_def)
    moreover have "{c. (d, c) \<in> set es} \<subseteq> set o1" using s1 by auto
    ultimately have t2: "topo es (o1 @ [d])" using t1 by (intro topo_snoc)
    have s2: "set (o1 @ [d]) = set ord \<union> {x. (d, x) \<in> (set es)\<^sup>* \<and> x \<notin> set ord}"
    proof -
      have "x \<in> insert d (set o1)" if "(d, x) \<in> (set es)\<^sup>*" "x \<notin> set ord" for x
      proof (cases "x = d")
        case False
        with that(1) obtain c where "(d, c) \<in> set es" "(c, x) \<in> (set es)\<^sup>*"
          by (auto elim: converse_rtranclE)
        with that(2) closed s1 show ?thesis by auto
      qed simp
      then show ?thesis using s1 new_trancl False by (auto dest: trancl_into_rtrancl)
    qed
    have "topo es ord' \<and> set ord' = set (o1 @ [d]) \<union>
        {x. \<exists>c \<in> set ds - set (o1 @ [d]). (c, x) \<in> (set es)\<^sup>* \<and> x \<notin> set (o1 @ [d])}"
      using 3(3) [OF False o1 rest t2 3(6)] .
    moreover have "set (o1 @ [d]) \<union>
        {x. \<exists>c \<in> set ds - set (o1 @ [d]). (c, x) \<in> (set es)\<^sup>* \<and> x \<notin> set (o1 @ [d])}
      = set ord \<union> {x. \<exists>c \<in> set (d # ds) - set ord. (c, x) \<in> (set es)\<^sup>* \<and> x \<notin> set ord}"
    proof -
      have "x \<in> set (o1 @ [d])" if "c \<in> set (o1 @ [d])" "(c, x) \<in> (set es)\<^sup>*" for c x
        using that s2 closed by (metis (mono_tags, lifting) Un_iff mem_Collect_eq rtrancl_trans)
      then show ?thesis using s2 False by (auto simp del: set_append)
    qed
    ultimately show ?thesis by simp
  qed
qed


text \<open>The recursion is as deep as the longest chain of dependencies, at most the number of edges.\<close>

lemma trancl_image_sub: "(set es)\<^sup>+ `` {x} \<subseteq> snd ` set es"
proof
  fix y
  assume "y \<in> (set es)\<^sup>+ `` {x}"
  then obtain z where "(z, y) \<in> set es" by (meson Image_singleton_iff tranclD2)
  then show "y \<in> snd ` set es" by force
qed

lemma finite_trancl_image: "finite ((set es)\<^sup>+ `` {x})"
  by (rule finite_subset [OF trancl_image_sub]) simp

lemma card_trancl_image: "card ((set es)\<^sup>+ `` {x}) \<le> length es"
proof -
  have "card ((set es)\<^sup>+ `` {x}) \<le> card (snd ` set es)"
    by (rule card_mono [OF _ trancl_image_sub]) simp
  also have "\<dots> \<le> length es" by (meson card_image_le card_length finite_set le_trans)
  finally show ?thesis .
qed

lemma card_trancl_step:
  assumes "acyclic (set es)" and "(d, c) \<in> set es"
  shows "card ((set es)\<^sup>+ `` {c}) < card ((set es)\<^sup>+ `` {d})"
proof (rule psubset_card_mono [OF finite_trancl_image])
  have "c \<in> (set es)\<^sup>+ `` {d}" using assms(2) by auto
  moreover have "c \<notin> (set es)\<^sup>+ `` {c}" using assms(1) by (auto simp: acyclic_def)
  moreover have "(set es)\<^sup>+ `` {c} \<subseteq> (set es)\<^sup>+ `` {d}"
    using assms(2) by (auto intro: trancl_into_trancl2)
  ultimately show "(set es)\<^sup>+ `` {c} \<subset> (set es)\<^sup>+ `` {d}" by blast
qed

lemma closure_visit_enough:
  assumes "acyclic (set es)"
  shows "\<forall>d \<in> set ds. card ((set es)\<^sup>+ `` {d}) < fuel \<Longrightarrow> \<exists>ord'. closure_visit fuel es ds ord = Some ord'"
  using assms
proof (induction fuel es ds ord rule: closure_visit.induct)
  case (3 fuel es d ds ord)
  show ?case
  proof (cases "d \<in> set ord")
    case False
    have "\<forall>c \<in> set (dep_succs es d). card ((set es)\<^sup>+ `` {c}) < fuel"
      using 3(4) card_trancl_step [OF 3(5)] by fastforce
    then obtain o1 where o1: "closure_visit fuel es (dep_succs es d) ord = Some o1"
      using 3(2) False 3(5) by blast
    then show ?thesis using 3(3) [OF False o1] 3(4,5) False by simp
  next
    case True
    with 3 show ?thesis by auto
  qed
qed auto

lemma dependency_closure_correct:
  assumes "acyclic (set (db_deps db))" and "i \<in> mn_id ` set (db_nodes db)" and "length (db_deps db) \<le> fuel"
  shows "\<exists>ordered. dependency_closure fuel db i = Inr ordered \<and> topo (db_deps db) ordered \<and>
     set ordered = {d. (i, d) \<in> (set (db_deps db))\<^sup>+}"
proof -
  let ?es = "db_deps db"
  have "card ((set ?es)\<^sup>+ `` {d}) < fuel" if "(i, d) \<in> set ?es" for d
    using card_trancl_step [OF assms(1) that] card_trancl_image [of ?es i] assms(3) by linarith
  then obtain ordered where run: "closure_visit fuel ?es (dep_succs ?es i) [] = Some ordered"
    using closure_visit_enough [OF assms(1), of "dep_succs ?es i" fuel "[]"] by auto
  from closure_visit_correct [OF assms(1) run]
  have "topo ?es ordered" and
    "set ordered = {x. \<exists>d \<in> set (dep_succs ?es i). (d, x) \<in> (set ?es)\<^sup>*}" by auto
  moreover have "{x. \<exists>d \<in> set (dep_succs ?es i). (d, x) \<in> (set ?es)\<^sup>*} = {d. (i, d) \<in> (set ?es)\<^sup>+}"
    by (auto intro: rtrancl_into_trancl2 dest: tranclD)
  ultimately show ?thesis using run assms(2) by (auto simp: dependency_closure_def)
qed

text \<open>On a cycle the recursion never returns: no recursion limit is enough.\<close>

lemma closure_visit_avoids:
  assumes "\<And>c. c \<in> C \<Longrightarrow> \<exists>d \<in> C. (c, d) \<in> set es"
  shows "closure_visit fuel es ds ord = Some ord' \<Longrightarrow> set ord \<inter> C = {} \<Longrightarrow>
    set ds \<inter> C = {} \<and> set ord' \<inter> C = {}"
  using assms
proof (induction fuel es ds ord arbitrary: ord' rule: closure_visit.induct)
  case (3 fuel es d ds ord)
  show ?case
  proof (cases "d \<in> set ord")
    case True
    with 3 show ?thesis by auto
  next
    case False
    with 3(4) obtain o1 where o1: "closure_visit fuel es (dep_succs es d) ord = Some o1"
      and rest: "closure_visit (Suc fuel) es ds (o1 @ [d]) = Some ord'"
      by (auto split: option.splits)
    from 3(2) [OF False o1 3(5,6)] have i1: "{b. (d, b) \<in> set es} \<inter> C = {}" "set o1 \<inter> C = {}"
      by auto
    then have "d \<notin> C" using 3(6) by blast
    with i1 have "set (o1 @ [d]) \<inter> C = {}" by auto
    from 3(3) [OF False o1 rest this 3(6)] \<open>d \<notin> C\<close> show ?thesis by auto
  qed
qed (auto split: if_splits)

lemma dependency_closure_cycle:
  assumes "i \<in> mn_id ` set (db_nodes db)" and "(i, c) \<in> set (db_deps db)" and "(c, c) \<in> (set (db_deps db))\<^sup>+"
  shows "dependency_closure fuel db i = Inl RecursionError"
proof -
  let ?E = "set (db_deps db)"
  let ?C = "{x. (c, x) \<in> ?E\<^sup>* \<and> (x, c) \<in> ?E\<^sup>+}"
  have step: "\<exists>d \<in> ?C. (x, d) \<in> ?E" if "x \<in> ?C" for x
  proof -
    from that obtain d where d: "(x, d) \<in> ?E" "(d, c) \<in> ?E\<^sup>*" by (auto dest: tranclD)
    have "(d, c) \<in> ?E\<^sup>+" using d(2) assms(3) by (rule rtrancl_trancl_trancl)
    moreover have "(c, d) \<in> ?E\<^sup>*" using that d(1) by auto
    ultimately show ?thesis using d(1) by auto
  qed
  have "c \<in> set (dep_succs (db_deps db) i) \<inter> ?C" using assms(2,3) by auto
  then have "closure_visit fuel (db_deps db) (dep_succs (db_deps db) i) [] = None"
    using closure_visit_avoids [of ?C "db_deps db" fuel "dep_succs (db_deps db) i" "[]", OF step]
    by (cases "closure_visit fuel (db_deps db) (dep_succs (db_deps db) i) []") auto
  then show ?thesis using assms(1) by (simp add: dependency_closure_def)
qed

end
