(* ===== verification/Mesh_Locks.thy ===== *)
theory Mesh_Locks
  imports Mesh_Graph
begin

text \<open>
  The mesh store as a state machine: one step per transaction, the clock never going back. The
  invariant ties the scope locks to the running nodes and gives the mutual exclusion of writers;
  the order of a run respects the dependencies; a succeeded node never changes again.
\<close>

section \<open>Row updates keep the primary key\<close>

interpretation recover_wr: keyed_table mn_id "recover_row now" for now
  by unfold_locales (simp add: recover_row_def)

interpretation claim_wr: keyed_table mn_id "claim_row owner expires now" for owner expires now
  by unfold_locales (simp add: claim_row_def)

interpretation finish_wr: keyed_table mn_id "finish_row future now a" for future now a
  by unfold_locales (simp add: finish_row_def Let_def split: prod.splits)

interpretation reactivate_wr: keyed_table mn_id "reactivated_row token reason now now2"
  for token reason now now2
  by unfold_locales (simp add: reactivated_row_def)

section \<open>Scopes\<close>

definition under :: "string \<Rightarrow> string \<Rightarrow> bool" where
  "under root p \<longleftrightarrow> root = ''*'' \<or> p = root \<or> starts_with (root @ ''/'') p"

lemma scopes_overlap_sym: "scopes_overlap l r \<longleftrightarrow> scopes_overlap r l"
  by (auto simp: scopes_overlap_def)

lemma under_prefix: "under a p \<Longrightarrow> a \<noteq> ''*'' \<Longrightarrow> prefix (a @ ''/'') (p @ ''/'')"
  by (auto simp: under_def starts_with_iff prefix_def)

text \<open>Roots that do not overlap have no path in common.\<close>

lemma under_both_overlap:
  assumes "under a p" and "under b p"
  shows "scopes_overlap a b"
proof (cases "a = ''*'' \<or> b = ''*''")
  case False
  then have "prefix (a @ ''/'') (p @ ''/'')" "prefix (b @ ''/'') (p @ ''/'')"
    using assms under_prefix by auto
  then have "prefix (a @ ''/'') (b @ ''/'') \<or> prefix (b @ ''/'') (a @ ''/'')"
    by (metis prefix_same_cases)
  moreover have "x = y \<or> starts_with (x @ ''/'') y" if "prefix (x @ ''/'') (y @ ''/'')" for x y
  proof -
    from that obtain t where t: "y @ ''/'' = (x @ ''/'') @ t" by (auto simp: prefix_def)
    show ?thesis
    proof (cases t rule: rev_cases)
      case Nil
      with t show ?thesis by simp
    next
      case (snoc t' c)
      with t have "y = x @ ''/'' @ t'" by (metis append.assoc append1_eq_conv)
      then show ?thesis by (auto simp: starts_with_iff)
    qed
  qed
  ultimately show ?thesis using False by (auto simp: scopes_overlap_def)
qed (auto simp: scopes_overlap_def)

section \<open>Steps\<close>

inductive mesh_step :: "(string \<Rightarrow> string) \<Rightarrow> string \<Rightarrow> mesh_db \<Rightarrow> string \<Rightarrow> mesh_db \<Rightarrow> bool"
  for sha :: "string \<Rightarrow> string" where
  ms_submit: "t \<le> now \<Longrightarrow> submit_graph sha now items db = Inr db' \<Longrightarrow> mesh_step sha t db now db'"
| ms_recover: "t \<le> now \<Longrightarrow> mesh_step sha t db now (fst (recover_expired now db))"
| ms_claim: "t \<le> now \<Longrightarrow> now \<le> t' \<Longrightarrow> (\<And>i. now \<le> lock_now i \<and> lock_now i \<le> t') \<Longrightarrow>
    claim_ready now expires lock_now owner limit db = Inr (db', claimed) \<Longrightarrow> mesh_step sha t db t' db'"
| ms_finish: "t \<le> now \<Longrightarrow> finish_node future now i a db = Inr db' \<Longrightarrow> mesh_step sha t db now db'"
| ms_attempt: "t \<le> now \<Longrightarrow> record_attempt sha fresh now i fp snap db = Inr (db', v) \<Longrightarrow>
    mesh_step sha t db now db'"
| ms_artifact: "t \<le> now \<Longrightarrow>
    register_artifact fresh now i ty path sha256 metadata aid db = Inr (db', a, replay) \<Longrightarrow>
    mesh_step sha t db now db'"
| ms_reactivate: "t \<le> now \<Longrightarrow> reactivate_quarantined now now2 i token reason db = Inr db' \<Longrightarrow>
    mesh_step sha t db now db'"

inductive_cases mesh_stepE: "mesh_step sha t db t' db'"

inductive mesh_reach :: "(string \<Rightarrow> string) \<Rightarrow> string \<Rightarrow> mesh_db \<Rightarrow> bool" for sha where
  mr_start: "mesh_reach sha [] mesh_empty"
| mr_step: "mesh_reach sha t db \<Longrightarrow> mesh_step sha t db t' db' \<Longrightarrow> mesh_reach sha t' db'"

section \<open>The invariant\<close>

definition lock_held :: "scope_lock \<Rightarrow> mesh_row list \<Rightarrow> bool" where
  "lock_held l rows \<longleftrightarrow>
     (\<exists>r \<in> set rows. mn_id r = lk_node l \<and> mn_state r = MS_RUNNING \<and> mn_lease r = Some (lk_expires l))"

definition lease_locked :: "string \<Rightarrow> mesh_row \<Rightarrow> scope_lock list \<Rightarrow> bool" where
  "lease_locked t r locks \<longleftrightarrow>
     (\<exists>e ow. mn_lease r = Some e \<and> mn_owner r = Some ow \<and>
        (t < e \<longrightarrow> (\<forall>root \<in> set (node_roots r).
            \<exists>l \<in> set locks. lk_root l = root \<and> lk_node l = mn_id r \<and> lk_expires l = e)))"

definition locks_exclusive :: "string \<Rightarrow> scope_lock list \<Rightarrow> bool" where
  "locks_exclusive t locks \<longleftrightarrow>
     (\<forall>k \<in> set locks. \<forall>l \<in> set locks. lk_node k \<noteq> lk_node l \<and> t < lk_expires k \<and> t < lk_expires l
        \<longrightarrow> \<not> scopes_overlap (lk_root k) (lk_root l))"

definition mesh_inv :: "string \<Rightarrow> mesh_db \<Rightarrow> bool" where
  "mesh_inv t db \<longleftrightarrow>
     unique_key mn_id (db_nodes db) \<and>
     locks_exclusive t (db_locks db) \<and>
     (\<forall>r \<in> set (db_nodes db). mn_state r = MS_RUNNING \<longrightarrow> lease_locked t r (db_locks db)) \<and>
     (\<forall>l \<in> set (db_locks db). t < lk_expires l \<longrightarrow> lock_held l (db_nodes db))"

lemma mesh_inv_mono: "mesh_inv t db \<Longrightarrow> t \<le> t' \<Longrightarrow> mesh_inv t' db"
  unfolding mesh_inv_def locks_exclusive_def lease_locked_def
  by (meson le_less_trans)

lemma mesh_inv_empty: "mesh_inv t mesh_empty"
  by (simp add: mesh_inv_def mesh_empty_def locks_exclusive_def)

text \<open>Steps that add rows which hold nothing, and leave the locks alone.\<close>

lemma mesh_inv_same:
  "mesh_inv t db \<Longrightarrow> db_nodes db' = db_nodes db \<Longrightarrow> db_locks db' = db_locks db \<Longrightarrow> mesh_inv t db'"
  by (simp add: mesh_inv_def)

lemma submit_node_inv:
  assumes "submit_node sha now n db = Inr db'" and "mesh_inv t db"
  shows "mesh_inv t db'"
proof -
  have db': "db' = db\<lparr>db_nodes := insert_or_ignore_node (new_row (spec_key sha n) now n) (db_nodes db)\<rparr>"
    using assms(1) by (auto simp: submit_node_def Let_def split: guard_splits)
  show ?thesis
    using assms(2) unfolding db' mesh_inv_def insert_or_ignore_node_def
    by (auto simp: new_row_def lock_held_def)
qed

lemma submit_deps_frame:
  assumes "submit_deps n db = Inr db'"
  shows "db_nodes db' = db_nodes db \<and> db_locks db' = db_locks db"
  using assms unfolding submit_deps_def
  by (rule fold_res_invariant) (auto simp: insert_dep_def split: guard_splits)

lemma submit_graph_inv:
  assumes "submit_graph sha now items db = Inr db'" and "mesh_inv t db"
  shows "mesh_inv t db'"
proof (cases "items = []")
  case False
  with assms(1) obtain db1 where 1: "fold_res (submit_node sha now) items db = Inr db1"
    and 2: "fold_res submit_deps items db1 = Inr db'"
    by (auto simp: submit_graph_def split: guard_splits)
  have "mesh_inv t db1" using 1 assms(2) by (rule fold_res_invariant) (rule submit_node_inv)
  with 2 show ?thesis
    by (rule fold_res_invariant) (meson mesh_inv_same submit_deps_frame)
qed (use assms in \<open>simp add: submit_graph_def\<close>)


lemma recover_row_state [simp]: "mn_state (recover_row now r) = MS_RETRY_READY"
  by (simp add: recover_row_def)

lemma lock_heldI:
  "q \<in> set rows \<Longrightarrow> mn_id q = lk_node l \<Longrightarrow> mn_state q = MS_RUNNING \<Longrightarrow>
     mn_lease q = Some (lk_expires l) \<Longrightarrow> lock_held l rows"
  by (auto simp: lock_held_def)

lemma in_tbl_upd: "q \<in> set rows \<Longrightarrow> \<not> p q \<Longrightarrow> q \<in> set (tbl_upd p f rows)"
  by (auto simp: tbl_upd_in)

lemma lease_locked_mono:
  assumes "lease_locked t r L"
    and "\<And>l. l \<in> set L \<Longrightarrow> lk_node l = mn_id r \<Longrightarrow> t < lk_expires l \<Longrightarrow> l \<in> set L'"
  shows "lease_locked t r L'"
  using assms(1) unfolding lease_locked_def by (metis assms(2))

lemma lock_held_mono:
  assumes "lock_held l rows"
    and "\<And>q. q \<in> set rows \<Longrightarrow> mn_id q = lk_node l \<Longrightarrow> mn_state q = MS_RUNNING \<Longrightarrow> q \<in> set rows'"
  shows "lock_held l rows'"
  using assms(1) unfolding lock_held_def by (metis assms(2))

lemma recover_expired_nodes:
  "db_nodes (fst (recover_expired now db)) =
     tbl_upd (\<lambda>r. mn_id r \<in> mn_id ` {r \<in> set (db_nodes db). lease_expired now r}) (recover_row now) (db_nodes db)"
  by (auto simp: recover_expired_def Let_def)

lemma recover_inv:
  assumes "mesh_inv t db" and "t \<le> now"
  shows "mesh_inv now (fst (recover_expired now db))"
proof -
  define X where "X = mn_id ` {r \<in> set (db_nodes db). lease_expired now r}"
  let ?db = "fst (recover_expired now db)"
  have inv: "mesh_inv now db" using assms by (rule mesh_inv_mono)
  have nodes: "db_nodes ?db = tbl_upd (\<lambda>r. mn_id r \<in> X) (recover_row now) (db_nodes db)"
    and locks: "set (db_locks ?db) = {l \<in> set (db_locks db). lk_node l \<notin> X \<and> \<not> lk_expires l \<le> now}"
    by (auto simp: X_def recover_expired_def Let_def)
  have u: "unique_key mn_id (db_nodes ?db)"
    using inv by (simp add: nodes mesh_inv_def recover_wr.upd_unique)
  have run: "lease_locked now r (db_locks ?db)"
    if "r \<in> set (db_nodes ?db)" "mn_state r = MS_RUNNING" for r
  proof -
    from that(1) have "r \<in> set (tbl_upd (\<lambda>r. mn_id r \<in> X) (recover_row now) (db_nodes db))"
      by (simp only: nodes)
    then have r: "r \<in> set (db_nodes db) \<and> mn_id r \<notin> X"
    proof (cases rule: tbl_updE)
      case (1 q)
      from \<open>r = recover_row now q\<close> that(2) show ?thesis by simp
    qed blast
    then have "lease_locked now r (db_locks db)" using inv that(2) by (simp add: mesh_inv_def)
    then show ?thesis by (rule lease_locked_mono) (use r in \<open>simp add: locks\<close>)
  qed
  have held: "lock_held l (db_nodes ?db)" if "l \<in> set (db_locks ?db)" for l
  proof -
    from that have l: "now < lk_expires l" "lk_node l \<notin> X" "l \<in> set (db_locks db)"
      by (auto simp: locks)
    then have "lock_held l (db_nodes db)" using inv by (simp add: mesh_inv_def)
    then show ?thesis
      by (rule lock_held_mono) (use l(2) in \<open>simp add: nodes in_tbl_upd\<close>)
  qed
  show ?thesis
    using inv u run held by (auto simp: mesh_inv_def locks_exclusive_def locks)
qed

lemma finish_inv:
  assumes "finish_node future now i a db = Inr db'" and "mesh_inv t db"
  shows "mesh_inv t db'"
proof -
  have db': "db' = db\<lparr>db_nodes := tbl_upd (\<lambda>q. mn_id q = i) (finish_row future now a) (db_nodes db),
      db_locks := tbl_del (\<lambda>l. lk_node l = i) (db_locks db)\<rparr>"
    using assms(1) by (auto simp: finish_node_def split: guard_splits)
  have fin: "mn_state (finish_row future now a q) \<noteq> MS_RUNNING" for q
    by (simp add: finish_row_def Let_def split: prod.splits)
  have u: "unique_key mn_id (db_nodes db')"
    using assms(2) by (simp add: db' mesh_inv_def finish_wr.upd_unique)
  have run: "lease_locked t r (db_locks db')"
    if "r \<in> set (db_nodes db')" "mn_state r = MS_RUNNING" for r
  proof -
    from that(1) have "r \<in> set (db_nodes db)" "mn_id r \<noteq> i"
      unfolding db' by (simp, elim tbl_updE; use that(2) fin in blast)+
    then show ?thesis using assms(2) that(2) by (fastforce simp: mesh_inv_def lease_locked_def db')
  qed
  have held: "lock_held l (db_nodes db')" if "l \<in> set (db_locks db')" "t < lk_expires l" for l
  proof -
    have l: "l \<in> set (db_locks db)" "lk_node l \<noteq> i" using that(1) by (simp_all add: db')
    then have "lock_held l (db_nodes db)" using that(2) assms(2) by (simp add: mesh_inv_def)
    then obtain q where "q \<in> set (db_nodes db)" "mn_id q = lk_node l" "mn_state q = MS_RUNNING"
        "mn_lease q = Some (lk_expires l)" by (auto simp: lock_held_def)
    then show ?thesis using l(2) by (intro lock_heldI [of q]) (simp_all add: db' in_tbl_upd)
  qed
  show ?thesis
    using assms(2) u run held by (auto simp: mesh_inv_def locks_exclusive_def db')
qed

lemma reactivate_inv:
  assumes "reactivate_quarantined now now2 i token reason db = Inr db'" and "mesh_inv t db"
  shows "mesh_inv t db'"
proof -
  obtain r where r: "tbl_get mn_id i (db_nodes db) = Some r" "mn_state r = MS_QUARANTINED"
    and db': "db' = db\<lparr>db_nodes := tbl_upd (\<lambda>q. mn_id q = i)
      (reactivated_row token reason now now2) (db_nodes db)\<rparr>"
    using assms(1) by (auto simp: reactivate_quarantined_def split: guard_splits)
  have u: "unique_key mn_id (db_nodes db)" using assms(2) by (simp add: mesh_inv_def)
  have ri: "q = r" if "q \<in> set (db_nodes db)" "mn_id q = i" for q
    using that tbl_get_Some_in [OF r(1)] unique_key_eq [OF u] by blast
  have run: "lease_locked t q (db_locks db')"
    if "q \<in> set (db_nodes db')" "mn_state q = MS_RUNNING" for q
    using that assms(2) by (auto simp: db' tbl_upd_in mesh_inv_def reactivated_row_def split: if_splits)
  have held: "lock_held l (db_nodes db')" if l: "l \<in> set (db_locks db')" "t < lk_expires l" for l
  proof -
    from l assms(2) obtain q where q: "q \<in> set (db_nodes db)" "mn_id q = lk_node l"
      "mn_state q = MS_RUNNING" "mn_lease q = Some (lk_expires l)"
      by (auto simp: mesh_inv_def lock_held_def db')
    then have "mn_id q \<noteq> i" using ri r(2) by auto
    then have "q \<in> set (db_nodes db')" unfolding db' by (simp add: in_tbl_upd q(1))
    then show ?thesis using q(2,3,4) by (rule lock_heldI)
  qed
  show ?thesis
    using assms(2) run held reactivate_wr.upd_unique [OF u] by (auto simp: mesh_inv_def db')
qed

section \<open>Claiming\<close>

text \<open>
  The loop over the candidates keeps, besides the invariant, that the remaining candidates are
  stored rows that do not run, and that every lock belongs to a running node.
\<close>

definition claim_pending :: "mesh_row list \<Rightarrow> mesh_db \<Rightarrow> bool" where
  "claim_pending rs db \<longleftrightarrow> distinct (map mn_id rs) \<and> set rs \<subseteq> set (db_nodes db) \<and>
     (\<forall>r \<in> set rs. mn_state r \<noteq> MS_RUNNING) \<and>
     (\<forall>l \<in> set (db_locks db). lock_held l (db_nodes db))"

lemma insert_locks:
  assumes "distinct roots" and "\<forall>k \<in> set (db_locks db). lk_node k \<noteq> i \<or> lk_root k \<notin> set roots"
  shows "fold_res (\<lambda>root. insert_lock \<lparr>lk_root = root, lk_node = i, lk_owner = ow, lk_expires = e\<rparr>) roots db
    = Inr (db\<lparr>db_locks := db_locks db @
        map (\<lambda>root. \<lparr>lk_root = root, lk_node = i, lk_owner = ow, lk_expires = e\<rparr>) roots\<rparr>)"
  using assms
proof (induction roots arbitrary: db)
  case (Cons root roots)
  let ?l = "\<lparr>lk_root = root, lk_node = i, lk_owner = ow, lk_expires = e\<rparr>"
  have "insert_lock ?l db = Inr (db\<lparr>db_locks := db_locks db @ [?l]\<rparr>)"
    using Cons.prems by (auto simp: insert_lock_def)
  moreover have "fold_res (\<lambda>root. insert_lock \<lparr>lk_root = root, lk_node = i, lk_owner = ow, lk_expires = e\<rparr>)
      roots (db\<lparr>db_locks := db_locks db @ [?l]\<rparr>) = Inr (db\<lparr>db_locks := (db_locks db @ [?l]) @
        map (\<lambda>root. \<lparr>lk_root = root, lk_node = i, lk_owner = ow, lk_expires = e\<rparr>) roots\<rparr>)"
    using Cons.prems by (subst Cons.IH) auto
  ultimately show ?case by simp
qed simp

definition claimed_db :: "string \<Rightarrow> string \<Rightarrow> string \<Rightarrow> mesh_row \<Rightarrow> mesh_db \<Rightarrow> mesh_db" where
  "claimed_db owner now e r db = db\<lparr>
     db_nodes := tbl_upd (\<lambda>q. mn_id q = mn_id r \<and> mn_version q = mn_version r)
       (claim_row owner e now) (db_nodes db),
     db_locks := db_locks db @
       map (\<lambda>root. \<lparr>lk_root = root, lk_node = mn_id r, lk_owner = owner, lk_expires = e\<rparr>) (node_roots r)\<rparr>"

lemma distinct_node_roots [simp]: "distinct (node_roots r)"
  by (simp add: node_roots_def)

text \<open>One turn of the loop: the candidate is skipped or claimed, and no insertion can fail.\<close>

lemma claim_loop_Cons:
  assumes "claim_pending (r # rs) db" and "unique_key mn_id (db_nodes db)"
  shows "claim_loop lock_now owner now e limit (r # rs) (db, claimed) =
    (if int (length claimed) \<ge> limit then Inr (db, claimed)
     else if dependencies_satisfied db (mn_id r) \<and>
       (node_roots r = [] \<or> can_lock (lock_now (mn_id r)) db (node_roots r))
     then claim_loop lock_now owner now e limit rs (claimed_db owner now e r db, claimed @ [mn_id r])
     else claim_loop lock_now owner now e limit rs (db, claimed))"
proof -
  have r: "r \<in> set (db_nodes db)" "mn_state r \<noteq> MS_RUNNING" using assms(1) by (auto simp: claim_pending_def)
  have one: "rowcount (\<lambda>q. mn_id q = mn_id r \<and> mn_version q = mn_version r) (db_nodes db) = 1"
    using claim_wr.rowcount_key [OF assms(2) r(1), of "\<lambda>q. mn_version q = mn_version r"] by simp
  have "lk_node k \<noteq> mn_id r" if "k \<in> set (db_locks db)" for k
  proof -
    have "lock_held k (db_nodes db)" using assms(1) that by (simp add: claim_pending_def)
    then obtain q where "q \<in> set (db_nodes db)" "mn_id q = lk_node k" "mn_state q = MS_RUNNING"
      by (auto simp: lock_held_def)
    then show ?thesis using unique_key_eq [OF assms(2) r(1)] r(2) by metis
  qed
  then show ?thesis
    using one by (simp add: insert_locks claimed_db_def)
qed

text \<open>A claim changes one row; the other candidates stay stored and pending.\<close>

lemma claimed_nodes:
  assumes "r \<in> set (db_nodes db)" and "unique_key mn_id (db_nodes db)"
  shows "db_nodes (claimed_db owner now e r db) =
    tbl_upd (\<lambda>q. mn_id q = mn_id r) (claim_row owner e now) (db_nodes db)"
  unfolding claimed_db_def tbl_upd_def
  by (auto simp: dest: unique_key_eq [OF assms(2) assms(1)])

lemma claim_row_simps [simp]:
  "mn_id (claim_row ow e now r) = mn_id r" "mn_state (claim_row ow e now r) = MS_RUNNING"
  "mn_lease (claim_row ow e now r) = Some e" "mn_owner (claim_row ow e now r) = Some ow"
  "mn_write (claim_row ow e now r) = mn_write r" "mn_scopes (claim_row ow e now r) = mn_scopes r"
  "node_roots (claim_row ow e now r) = node_roots r"
  by (simp_all add: claim_row_def node_roots_def)

lemma claimed_pending:
  assumes p: "claim_pending (r # rs) db" and u: "unique_key mn_id (db_nodes db)"
  shows "claim_pending rs (claimed_db owner now e r db)"
proof -
  let ?db = "claimed_db owner now e r db"
  have r: "r \<in> set (db_nodes db)" "mn_state r \<noteq> MS_RUNNING" using p by (auto simp: claim_pending_def)
  have nodes: "db_nodes ?db = tbl_upd (\<lambda>q. mn_id q = mn_id r) (claim_row owner e now) (db_nodes db)"
    using r(1) u by (rule claimed_nodes)
  have rr: "claim_row owner e now r \<in> set (db_nodes ?db)"
    using r(1) by (auto simp: nodes tbl_upd_in intro!: bexI [of _ r])
  have "q \<in> set (db_nodes ?db)" if "q \<in> set rs" for q
  proof -
    have "mn_id q \<noteq> mn_id r" "q \<in> set (db_nodes db)"
      using that p by (auto simp: claim_pending_def image_iff)
    then show ?thesis by (simp add: nodes in_tbl_upd)
  qed
  moreover have "lock_held l (db_nodes ?db)" if "l \<in> set (db_locks ?db)" for l
  proof (cases "l \<in> set (db_locks db)")
    case True
    then have "lock_held l (db_nodes db)" using p by (simp add: claim_pending_def)
    then show ?thesis
    proof (rule lock_held_mono)
      fix q
      assume q: "q \<in> set (db_nodes db)" "mn_state q = MS_RUNNING"
      then have "mn_id q \<noteq> mn_id r" using unique_key_eq [OF u r(1), of q] r(2) by metis
      then show "q \<in> set (db_nodes ?db)" unfolding nodes using q(1) by (simp add: in_tbl_upd)
    qed
  next
    case False
    with that have "lk_node l = mn_id r" "lk_expires l = e" by (auto simp: claimed_db_def)
    then show ?thesis by (intro lock_heldI [OF rr]) simp_all
  qed
  ultimately show ?thesis using p by (auto simp: claim_pending_def)
qed

lemma claimed_inv:
  assumes inv: "mesh_inv t db" and p: "claim_pending (r # rs) db"
    and free: "node_roots r = [] \<or> can_lock lnow db (node_roots r)" and "lnow \<le> t"
  shows "mesh_inv t (claimed_db owner now e r db)"
proof -
  let ?db = "claimed_db owner now e r db"
  have u: "unique_key mn_id (db_nodes db)" using inv by (simp add: mesh_inv_def)
  have r: "r \<in> set (db_nodes db)" "mn_state r \<noteq> MS_RUNNING" using p by (auto simp: claim_pending_def)
  have nodes: "db_nodes ?db = tbl_upd (\<lambda>q. mn_id q = mn_id r) (claim_row owner e now) (db_nodes db)"
    using r(1) u by (rule claimed_nodes)
  have apart: "\<not> scopes_overlap root (lk_root k)"
    if "root \<in> set (node_roots r)" "k \<in> set (db_locks db)" "t < lk_expires k" for root k
  proof -
    have "lnow < lk_expires k" using that(3) assms(4) by (rule le_less_trans [rotated])
    with that free show ?thesis by (auto simp: can_lock_def)
  qed
  have "locks_exclusive t (db_locks ?db)"
    using inv apart scopes_overlap_sym unfolding mesh_inv_def locks_exclusive_def claimed_db_def
    by auto
  moreover have "lease_locked t q (db_locks ?db)"
    if "q \<in> set (db_nodes ?db)" "mn_state q = MS_RUNNING" for q
    using that(1) unfolding nodes
  proof (cases rule: tbl_updE)
    case (1 s)
    then have "s = r" using unique_key_eq [OF u r(1), of s] by simp
    with 1(3) show ?thesis by (auto simp: lease_locked_def claimed_db_def bex_Un)
  next
    case 2
    then have "lease_locked t q (db_locks db)" using inv that(2) by (simp add: mesh_inv_def)
    then show ?thesis by (rule lease_locked_mono) (simp add: claimed_db_def)
  qed
  moreover have "\<forall>l \<in> set (db_locks ?db). lock_held l (db_nodes ?db)"
    using claimed_pending [OF p u] by (simp add: claim_pending_def)
  moreover have "unique_key mn_id (db_nodes ?db)" unfolding nodes using u by (rule claim_wr.upd_unique)
  ultimately show ?thesis by (simp add: mesh_inv_def)
qed

lemma claim_pending_tl: "claim_pending (r # rs) db \<Longrightarrow> claim_pending rs db"
  by (simp add: claim_pending_def)

lemma claim_loop_inv:
  assumes "mesh_inv t db" and "claim_pending rs db" and "\<And>i. lock_now i \<le> t"
  shows "\<exists>db' cl. claim_loop lock_now owner now e limit rs (db, claimed) = Inr (db', cl) \<and> mesh_inv t db'"
  using assms
proof (induction rs arbitrary: db claimed)
  case (Cons r rs)
  have u: "unique_key mn_id (db_nodes db)" using Cons.prems(1) by (simp add: mesh_inv_def)
  note rest = Cons.IH [OF _ _ Cons.prems(3)]
  have skip: "\<exists>db' cl. claim_loop lock_now owner now e limit rs (db, claimed) = Inr (db', cl) \<and> mesh_inv t db'"
    using Cons.prems(1) claim_pending_tl [OF Cons.prems(2)] by (rule rest)
  have "\<exists>db' cl. claim_loop lock_now owner now e limit rs
      (claimed_db owner now e r db, claimed @ [mn_id r]) = Inr (db', cl) \<and> mesh_inv t db'"
    if "node_roots r = [] \<or> can_lock (lock_now (mn_id r)) db (node_roots r)"
    using claimed_inv [OF Cons.prems(1,2) that Cons.prems(3)] claimed_pending [OF Cons.prems(2) u]
    by (rule rest)
  with skip Cons.prems(1) show ?case
    unfolding claim_loop_Cons [OF Cons.prems(2) u] by simp
qed simp

lemma claim_start:
  assumes "mesh_inv t db" and "t \<le> now"
  defines "db1 \<equiv> db\<lparr>db_locks := tbl_del (\<lambda>l. lk_expires l \<le> now) (db_locks db)\<rparr>"
  shows "mesh_inv now db1"
    and "claim_pending (sort_key f (filter (claim_candidate now) (db_nodes db1))) db1"
proof -
  have inv: "mesh_inv now db" using assms(1,2) by (rule mesh_inv_mono)
  have nodes: "db_nodes db1 = db_nodes db"
    and locks: "set (db_locks db1) = {l \<in> set (db_locks db). now < lk_expires l}"
    by (auto simp: db1_def)
  have "lease_locked now q (db_locks db1)" if "q \<in> set (db_nodes db)" "mn_state q = MS_RUNNING" for q
  proof -
    have "lease_locked now q (db_locks db)" using inv that by (simp add: mesh_inv_def)
    then show ?thesis by (rule lease_locked_mono) (simp add: locks)
  qed
  then show "mesh_inv now db1"
    using inv by (simp add: mesh_inv_def locks_exclusive_def nodes locks)
  then show "claim_pending (sort_key f (filter (claim_candidate now) (db_nodes db1))) db1"
    by (auto simp: claim_pending_def mesh_inv_def unique_key_def locks distinct_map inj_on_def
        claim_candidate_def mesh_runnable_def)
qed

lemma claim_ready_ok:
  assumes "mesh_inv t db" and "t \<le> now" and "now \<le> t'" and "\<And>i. lock_now i \<le> t'"
  shows "\<exists>db' cl. claim_ready now e lock_now owner limit db = Inr (db', cl) \<and> mesh_inv t' db'"
proof (cases "limit < 1")
  case True
  then show ?thesis using assms by (auto simp: claim_ready_def intro: mesh_inv_mono order_trans)
next
  case False
  then show ?thesis
    using claim_loop_inv [OF mesh_inv_mono [OF claim_start(1) assms(3)] claim_start(2) assms(4)]
      assms(1,2) by (simp add: claim_ready_def Let_def)
qed

lemma record_attempt_frame:
  "record_attempt sha fresh now i fp snap db = Inr (db', v) \<Longrightarrow>
     db_nodes db' = db_nodes db \<and> db_locks db' = db_locks db \<and> db_deps db' = db_deps db"
  by (auto simp: record_attempt_def Let_def split: guard_splits)

lemma register_artifact_frame:
  "register_artifact fresh now i ty path sha256 metadata aid db = Inr (db', a, replay) \<Longrightarrow>
     db_nodes db' = db_nodes db \<and> db_locks db' = db_locks db \<and> db_deps db' = db_deps db"
  by (auto simp: register_artifact_def Let_def split: guard_splits)

lemma mesh_step_inv:
  assumes "mesh_step sha t db t' db'" and "mesh_inv t db"
  shows "mesh_inv t' db'"
  using assms
proof (cases rule: mesh_step.cases)
  case (ms_submit items)
  then show ?thesis using assms(2) submit_graph_inv mesh_inv_mono by blast
next
  case (ms_recover)
  then show ?thesis using assms(2) recover_inv by simp
next
  case (ms_claim now lock_now expires owner limit claimed)
  then show ?thesis using claim_ready_ok [OF assms(2), of now t' lock_now expires owner limit] by auto
next
  case (ms_finish future i a)
  then show ?thesis using assms(2) finish_inv mesh_inv_mono by blast
next
  case (ms_attempt fresh i fp snap v)
  then show ?thesis using assms(2) record_attempt_frame mesh_inv_same mesh_inv_mono by metis
next
  case (ms_artifact fresh i ty path sha256 metadata aid a replay)
  then show ?thesis using assms(2) register_artifact_frame mesh_inv_same mesh_inv_mono by metis
next
  case (ms_reactivate now2 i token reason)
  then show ?thesis using assms(2) reactivate_inv mesh_inv_mono by blast
qed

lemma mesh_reach_inv: "mesh_reach sha t db \<Longrightarrow> mesh_inv t db"
  by (induction rule: mesh_reach.induct) (auto intro: mesh_inv_empty mesh_step_inv)

section \<open>What a claim does\<close>

lemma dependencies_satisfied_iff:
  "dependencies_satisfied db i \<longleftrightarrow> (\<forall>d r. (i, d) \<in> set (db_deps db) \<longrightarrow> r \<in> set (db_nodes db) \<longrightarrow>
     mn_id r = d \<longrightarrow> mn_state r = MS_SUCCEEDED)"
proof -
  have len: "length [(e, r). e \<leftarrow> es, r \<leftarrow> rs, P e r] = 0 \<longleftrightarrow> (\<forall>e \<in> set es. \<forall>r \<in> set rs. \<not> P e r)"
    for P :: "string \<times> string \<Rightarrow> mesh_row \<Rightarrow> bool" and es rs
    by (simp only: length_0_conv concat_eq_Nil_conv set_map ball_simps list.distinct if_bool_eq_conj simp_thms) simp
  show ?thesis unfolding dependencies_satisfied_def len by auto
qed

lemma claimed_deps:
  assumes "dependencies_satisfied (claimed_db owner now e r db) i"
  shows "dependencies_satisfied db i"
  unfolding dependencies_satisfied_iff
proof (intro allI impI)
  fix d q
  assume d: "(i, d) \<in> set (db_deps db)" "q \<in> set (db_nodes db)" "mn_id q = d"
  let ?q = "if mn_id q = mn_id r \<and> mn_version q = mn_version r then claim_row owner e now q else q"
  have "?q \<in> set (db_nodes (claimed_db owner now e r db))"
    using d(2) by (auto simp: claimed_db_def tbl_upd_def)
  moreover have "(i, d) \<in> set (db_deps (claimed_db owner now e r db))" "mn_id ?q = d"
    using d by (simp_all add: claimed_db_def)
  ultimately have "mn_state ?q = MS_SUCCEEDED" using assms by (simp only: dependencies_satisfied_iff)
  then show "mn_state q = MS_SUCCEEDED" by (simp split: if_splits)
qed

lemma claimed_unique:
  "r \<in> set (db_nodes db) \<Longrightarrow> unique_key mn_id (db_nodes db) \<Longrightarrow>
     unique_key mn_id (db_nodes (claimed_db owner now e r db))"
  by (simp add: claimed_nodes claim_wr.upd_unique)

text \<open>The lock rows a claim inserts for a node: one per root of its scopes.\<close>

definition node_locks :: "string \<Rightarrow> string \<Rightarrow> mesh_row list \<Rightarrow> string \<Rightarrow> scope_lock list" where
  "node_locks owner e rows i =
     (case tbl_get mn_id i rows of
        None \<Rightarrow> []
      | Some r \<Rightarrow> map (\<lambda>root. \<lparr>lk_root = root, lk_node = i, lk_owner = owner, lk_expires = e\<rparr>) (node_roots r))"

definition claim_effect :: "string \<Rightarrow> string \<Rightarrow> string \<Rightarrow> string list \<Rightarrow> mesh_db \<Rightarrow> mesh_db \<Rightarrow> bool" where
  "claim_effect owner now e new db db' \<longleftrightarrow>
     (\<forall>i \<in> set new. dependencies_satisfied db i) \<and>
     db' = db\<lparr>db_nodes := tbl_upd (\<lambda>q. mn_id q \<in> set new) (claim_row owner e now) (db_nodes db),
              db_locks := db_locks db @ concat (map (node_locks owner e (db_nodes db)) new)\<rparr>"

lemma claim_effect_refl: "claim_effect owner now e [] db db"
  by (simp add: claim_effect_def tbl_upd_def)

lemma claim_effect_nodes:
  assumes "claim_effect owner now e new db db'"
  shows "db_nodes db' = tbl_upd (\<lambda>q. mn_id q \<in> set new) (claim_row owner e now) (db_nodes db)" and "db_deps db' = db_deps db"
  using assms by (simp_all add: claim_effect_def)

lemma tbl_get_claimed:
  "i \<noteq> j \<Longrightarrow> tbl_get mn_id i (tbl_upd (\<lambda>q. mn_id q = j) (claim_row owner e now) rows) = tbl_get mn_id i rows"
  by (induction rows) (auto simp: tbl_get_def tbl_upd_def claim_row_def)

lemma node_locks_claimed:
  assumes "r \<in> set (db_nodes db)" and "unique_key mn_id (db_nodes db)" and "i \<noteq> mn_id r"
  shows "node_locks owner e (db_nodes (claimed_db owner' now e' r db)) i = node_locks owner e (db_nodes db) i"
proof -
  have "tbl_get mn_id i (tbl_upd (\<lambda>q. mn_id q = mn_id r) (claim_row owner' e' now) (db_nodes db)) = tbl_get mn_id i (db_nodes db)"
    using assms(3) by (rule tbl_get_claimed)
  then show ?thesis unfolding node_locks_def claimed_nodes [OF assms(1,2)] by simp
qed

lemma claim_effect_Cons:
  assumes "claim_effect owner now e new (claimed_db owner now e r db) db'"
    and "r \<in> set (db_nodes db)" "unique_key mn_id (db_nodes db)" "dependencies_satisfied db (mn_id r)"
    and "mn_id r \<notin> set new"
  shows "claim_effect owner now e (mn_id r # new) db db'"
proof -
  let ?db = "claimed_db owner now e r db"
  have nodes: "tbl_upd (\<lambda>q. mn_id q \<in> set new) (claim_row owner e now) (db_nodes ?db) =
      tbl_upd (\<lambda>q. mn_id q \<in> set (mn_id r # new)) (claim_row owner e now) (db_nodes db)"
    unfolding claimed_nodes [OF assms(2,3)] using assms(5) by (auto simp: tbl_upd_def)
  have others: "map (node_locks owner e (db_nodes ?db)) new = map (node_locks owner e (db_nodes db)) new"
    using node_locks_claimed [OF assms(2,3)] assms(5) by (intro map_cong) metis+
  have "node_locks owner e (db_nodes db) (mn_id r) =
      map (\<lambda>root. \<lparr>lk_root = root, lk_node = mn_id r, lk_owner = owner, lk_expires = e\<rparr>) (node_roots r)"
    using tbl_get_unique [OF assms(3,2)] by (simp add: node_locks_def)
  then have "db_locks ?db @ concat (map (node_locks owner e (db_nodes ?db)) new) =
      db_locks db @ concat (map (node_locks owner e (db_nodes db)) (mn_id r # new))"
    unfolding others by (simp add: claimed_db_def)
  moreover have "db' = ?db\<lparr>db_nodes := tbl_upd (\<lambda>q. mn_id q \<in> set new) (claim_row owner e now) (db_nodes ?db),
      db_locks := db_locks ?db @ concat (map (node_locks owner e (db_nodes ?db)) new)\<rparr>"
    using assms(1) by (simp add: claim_effect_def)
  ultimately have "db' = ?db\<lparr>db_nodes := tbl_upd (\<lambda>q. mn_id q \<in> set (mn_id r # new)) (claim_row owner e now) (db_nodes db),
      db_locks := db_locks db @ concat (map (node_locks owner e (db_nodes db)) (mn_id r # new))\<rparr>"
    unfolding nodes by simp
  then have "db' = db\<lparr>db_nodes := tbl_upd (\<lambda>q. mn_id q \<in> set (mn_id r # new)) (claim_row owner e now) (db_nodes db),
      db_locks := db_locks db @ concat (map (node_locks owner e (db_nodes db)) (mn_id r # new))\<rparr>" by (simp add: claimed_db_def)
  then show ?thesis using assms(1,4) claimed_deps unfolding claim_effect_def by auto
qed

lemma subseq_set: "subseq xs ys \<Longrightarrow> set xs \<subseteq> set ys"
  by (induction rule: list_emb.induct) auto

lemma claim_loop_effect:
  assumes "claim_loop lock_now owner now e limit rs (db, claimed) = Inr (db', cl)"
    and "claim_pending rs db" and "unique_key mn_id (db_nodes db)"
  shows "\<exists>new. cl = claimed @ new \<and> subseq new (map mn_id rs) \<and>
    (int (length claimed) \<le> limit \<longrightarrow> int (length cl) \<le> limit) \<and> claim_effect owner now e new db db'"
  using assms
proof (induction rs arbitrary: db claimed)
  case Nil
  then show ?case by (auto intro: claim_effect_refl)
next
  case (Cons r rs)
  have r: "r \<in> set (db_nodes db)" "mn_id r \<notin> mn_id ` set rs"
    using Cons.prems(2) by (auto simp: claim_pending_def)
  note loop = Cons.prems(1) [unfolded claim_loop_Cons [OF Cons.prems(2,3)]]
  let ?take = "dependencies_satisfied db (mn_id r) \<and>
    (node_roots r = [] \<or> can_lock (lock_now (mn_id r)) db (node_roots r))"
  consider "int (length claimed) \<ge> limit" | "int (length claimed) < limit" ?take
    | "int (length claimed) < limit" "\<not> ?take" by linarith
  then show ?case
  proof cases
    case 1
    then show ?thesis using loop by (auto intro: claim_effect_refl)
  next
    case 2
    then have "claim_loop lock_now owner now e limit rs
        (claimed_db owner now e r db, claimed @ [mn_id r]) = Inr (db', cl)" using loop by simp
    from Cons.IH [OF this claimed_pending [OF Cons.prems(2,3)] claimed_unique [OF r(1) Cons.prems(3)]]
    obtain new where
      new: "cl = (claimed @ [mn_id r]) @ new" "subseq new (map mn_id rs)"
        "int (length (claimed @ [mn_id r])) \<le> limit \<longrightarrow> int (length cl) \<le> limit"
        "claim_effect owner now e new (claimed_db owner now e r db) db'"
      by blast
    moreover have "mn_id r \<notin> set new" using subseq_set [OF new(2)] r(2) by auto
    then have "claim_effect owner now e (mn_id r # new) db db'"
      using claim_effect_Cons [OF new(4) r(1) Cons.prems(3)] 2(2) by blast
    ultimately show ?thesis using 2(1) by (intro exI [of _ "mn_id r # new"]) simp
  next
    case 3
    then have "claim_loop lock_now owner now e limit rs (db, claimed) = Inr (db', cl)"
      using loop by auto
    from Cons.IH [OF this claim_pending_tl [OF Cons.prems(2)] Cons.prems(3)]
    show ?thesis by (auto intro: list_emb_Cons)
  qed
qed

text \<open>A loop that claims nothing has found no candidate that could be claimed.\<close>

lemma claim_loop_none:
  assumes "claim_loop lock_now owner now e limit rs (db, claimed) = Inr (db', claimed)"
    and "claim_pending rs db" "unique_key mn_id (db_nodes db)" "int (length claimed) < limit"
    and "r \<in> set rs" "dependencies_satisfied db (mn_id r)"
  shows "node_roots r \<noteq> [] \<and> \<not> can_lock (lock_now (mn_id r)) db (node_roots r)"
  using assms
proof (induction rs)
  case (Cons q rs)
  note loop = Cons.prems(1) [unfolded claim_loop_Cons [OF Cons.prems(2,3)]]
  have taken: "claim_loop lock_now owner now e limit rs (claimed_db owner now e q db, claimed @ [mn_id q])
      \<noteq> Inr (db', claimed)"
  proof
    assume "claim_loop lock_now owner now e limit rs
      (claimed_db owner now e q db, claimed @ [mn_id q]) = Inr (db', claimed)"
    moreover have "q \<in> set (db_nodes db)" using Cons.prems(2) by (simp add: claim_pending_def)
    ultimately obtain new where "claimed = (claimed @ [mn_id q]) @ new"
      using claim_loop_effect claimed_pending [OF Cons.prems(2,3)] claimed_unique Cons.prems(3) by blast
    then show False by simp
  qed
  show ?case
  proof (cases "dependencies_satisfied db (mn_id q) \<and>
      (node_roots q = [] \<or> can_lock (lock_now (mn_id q)) db (node_roots q))")
    case True
    then show ?thesis using loop taken Cons.prems(4) by simp
  next
    case False
    then have "claim_loop lock_now owner now e limit rs (db, claimed) = Inr (db', claimed)"
      using loop Cons.prems(4) by auto
    note rest = Cons.IH [OF this claim_pending_tl [OF Cons.prems(2)] Cons.prems(3,4)]
    show ?thesis
    proof (cases "r = q")
      case True
      then show ?thesis using False Cons.prems(6) by auto
    next
      case False
      then show ?thesis using rest Cons.prems(5,6) by simp
    qed
  qed
qed simp

text \<open>The same for the whole transaction.\<close>

definition candidates :: "string \<Rightarrow> mesh_db \<Rightarrow> mesh_row list" where
  "candidates now db = sort_key (\<lambda>r. (- mn_priority r, mn_created r, mn_id r))
     (filter (claim_candidate now) (db_nodes db))"

lemma dependencies_satisfied_cong:
  "db_nodes db1 = db_nodes db \<Longrightarrow> db_deps db1 = db_deps db \<Longrightarrow>
     dependencies_satisfied db1 i \<longleftrightarrow> dependencies_satisfied db i"
  by (simp add: dependencies_satisfied_def)

lemma claim_ready_loop:
  assumes "claim_ready now e lock_now owner limit db = Inr (db', cl)" and "1 \<le> limit"
  shows "claim_loop lock_now owner now e limit (candidates now db)
    (db\<lparr>db_locks := tbl_del (\<lambda>l. lk_expires l \<le> now) (db_locks db)\<rparr>, []) = Inr (db', cl)"
  using assms by (simp add: claim_ready_def candidates_def Let_def)

lemma claim_ready_effect:
  assumes "claim_ready now e lock_now owner limit db = Inr (db', cl)"
    and "mesh_inv t db" and "t \<le> now" and "1 \<le> limit"
  shows "subseq cl (map mn_id (candidates now db)) \<and> int (length cl) \<le> limit \<and>
    claim_effect owner now e cl (db\<lparr>db_locks := tbl_del (\<lambda>l. lk_expires l \<le> now) (db_locks db)\<rparr>) db'"
proof -
  let ?db1 = "db\<lparr>db_locks := tbl_del (\<lambda>l. lk_expires l \<le> now) (db_locks db)\<rparr>"
  have u: "unique_key mn_id (db_nodes ?db1)" using assms(2) by (simp add: mesh_inv_def)
  from claim_loop_effect [OF claim_ready_loop [OF assms(1)] _ u] assms(4) claim_start(2) [OF assms(2,3)]
  show ?thesis unfolding candidates_def by fastforce
qed

lemma claim_ready_none: "limit < 1 \<Longrightarrow> claim_ready now e lock_now owner limit db = Inr (db', cl) \<Longrightarrow> db' = db \<and> cl = []"
  by (simp add: claim_ready_def)

text \<open>What a claim does to the nodes, whatever its limit.\<close>

lemma claim_ready_nodes:
  assumes "claim_ready now e lock_now owner limit db = Inr (db', cl)" and "mesh_inv t db" and "t \<le> now"
  shows "set cl \<subseteq> mn_id ` set (candidates now db)" and "db_deps db' = db_deps db"
    and "db_nodes db' = tbl_upd (\<lambda>q. mn_id q \<in> set cl) (claim_row owner e now) (db_nodes db)"
proof -
  have "set cl \<subseteq> mn_id ` set (candidates now db) \<and> db_deps db' = db_deps db \<and>
    db_nodes db' = tbl_upd (\<lambda>q. mn_id q \<in> set cl) (claim_row owner e now) (db_nodes db)"
  proof (cases "limit < 1")
    case True
    then show ?thesis using claim_ready_none [OF True assms(1)] by (simp add: tbl_upd_def)
  next
    case False
    with claim_ready_effect [OF assms] have "subseq cl (map mn_id (candidates now db))"
      and "claim_effect owner now e cl (db\<lparr>db_locks := tbl_del (\<lambda>l. lk_expires l \<le> now) (db_locks db)\<rparr>) db'" by auto
    then show ?thesis using subseq_set claim_effect_nodes by fastforce
  qed
  then show "set cl \<subseteq> mn_id ` set (candidates now db)" "db_deps db' = db_deps db"
    "db_nodes db' = tbl_upd (\<lambda>q. mn_id q \<in> set cl) (claim_row owner e now) (db_nodes db)" by auto
qed

lemma claim_ready_progress:
  assumes "claim_ready now e lock_now owner limit db = Inr (db', [])"
    and "mesh_inv t db" and "t \<le> now" and "1 \<le> limit"
    and "r \<in> set (db_nodes db)" and "claim_candidate now r" and "dependencies_satisfied db (mn_id r)"
  shows "\<exists>root \<in> set (node_roots r). \<exists>l \<in> set (db_locks db).
    now < lk_expires l \<and> lock_now (mn_id r) < lk_expires l \<and> scopes_overlap root (lk_root l)"
proof -
  let ?db1 = "db\<lparr>db_locks := tbl_del (\<lambda>l. lk_expires l \<le> now) (db_locks db)\<rparr>"
  have "claim_pending (candidates now db) ?db1"
    unfolding candidates_def using claim_start(2) [OF assms(2,3)] by simp
  moreover have "unique_key mn_id (db_nodes ?db1)" using assms(2) by (simp add: mesh_inv_def)
  moreover have "r \<in> set (candidates now db)" using assms(5,6) by (simp add: candidates_def)
  moreover have "dependencies_satisfied ?db1 (mn_id r)"
    using assms(7) dependencies_satisfied_cong [of ?db1 db] by simp
  ultimately have "\<not> can_lock (lock_now (mn_id r)) ?db1 (node_roots r)"
    using claim_loop_none [OF claim_ready_loop [OF assms(1,4)], of r] assms(4) by simp
  then show ?thesis by (auto simp: can_lock_def not_le)
qed

section \<open>Rows under a step\<close>

text \<open>Only a running node has an owner, so nobody can finish a node that does not run.\<close>

definition idle_unowned :: "mesh_db \<Rightarrow> bool" where
  "idle_unowned db \<longleftrightarrow> (\<forall>r \<in> set (db_nodes db). mn_state r \<noteq> MS_RUNNING \<longrightarrow> mn_owner r = None)"

lemma submit_graph_deps:
  assumes "submit_graph sha now items db = Inr db'"
  shows "set (db_deps db) \<subseteq> set (db_deps db')"
proof (cases "items = []")
  case False
  with assms obtain db1 where 1: "fold_res (submit_node sha now) items db = Inr db1"
    and 2: "fold_res submit_deps items db1 = Inr db'"
    by (auto simp: submit_graph_def split: guard_splits)
  have "db_deps db1 = db_deps db"
    using 1 by (rule fold_res_invariant) (auto simp: submit_node_def Let_def split: guard_splits)
  moreover have "set (db_deps db1) \<subseteq> set (db_deps db')"
    using 2
  proof (rule fold_res_invariant)
    fix n s s'
    assume s: "submit_deps n s = Inr s'" "set (db_deps db1) \<subseteq> set (db_deps s)"
    have "set (db_deps s) \<subseteq> set (db_deps s')"
      using s(1) unfolding submit_deps_def
      by (rule fold_res_invariant) (auto simp: insert_dep_def split: guard_splits)
    with s(2) show "set (db_deps db1) \<subseteq> set (db_deps s')" by blast
  qed simp
  ultimately show ?thesis by simp
qed (use assms in \<open>simp add: submit_graph_def\<close>)

lemma submit_graph_nodes:
  assumes "submit_graph sha now items db = Inr db'"
  shows "\<exists>new. db_nodes db' = db_nodes db @ new \<and> (\<forall>r \<in> set new. mn_state r = MS_READY \<and> mn_owner r = None)"
proof (cases "items = []")
  case False
  let ?P = "\<lambda>d. \<exists>new. db_nodes d = db_nodes db @ new \<and> (\<forall>r \<in> set new. mn_state r = MS_READY \<and> mn_owner r = None)"
  from False assms obtain db1 where 1: "fold_res (submit_node sha now) items db = Inr db1"
    and 2: "fold_res submit_deps items db1 = Inr db'"
    by (auto simp: submit_graph_def split: guard_splits)
  have "?P db1"
    using 1
  proof (rule fold_res_invariant)
    fix n s s'
    assume s': "submit_node sha now n s = Inr s'" and "?P s"
    then obtain new where "db_nodes s = db_nodes db @ new"
      "\<forall>r \<in> set new. mn_state r = MS_READY \<and> mn_owner r = None" by blast
    moreover have "db_nodes s' = insert_or_ignore_node (new_row (spec_key sha n) now n) (db_nodes s)"
      using s' by (auto simp: submit_node_def Let_def split: guard_splits)
    ultimately show "?P s'" by (auto simp: insert_or_ignore_node_def new_row_def)
  qed simp
  with 2 show ?thesis by (rule fold_res_invariant) (metis submit_deps_frame)
qed (use assms in \<open>simp add: submit_graph_def\<close>)

definition row_write :: "mesh_row \<Rightarrow> mesh_row \<Rightarrow> bool" where
  "row_write r r' \<longleftrightarrow>
     (mn_state r = MS_RUNNING \<or> mn_owner r \<noteq> None \<or> mn_state r = MS_QUARANTINED \<or> mesh_runnable (mn_state r)) \<and>
     (mn_state r' = MS_RUNNING \<or> mn_owner r' = None \<or> mn_state r = MS_QUARANTINED \<and> mn_owner r' = mn_owner r) \<and>
     mn_id r' = mn_id r \<and> mn_key r' = mn_key r"

definition rows_grow :: "mesh_row list \<Rightarrow> mesh_row list \<Rightarrow> bool" where
  "rows_grow rows rows' \<longleftrightarrow>
     (\<exists>new. rows' = rows @ new \<and> (\<forall>r \<in> set new. mn_state r = MS_READY \<and> mn_owner r = None))"

definition rows_written :: "mesh_row list \<Rightarrow> mesh_row list \<Rightarrow> bool" where
  "rows_written rows rows' \<longleftrightarrow>
     (\<exists>p f. rows' = tbl_upd p f rows \<and> (\<forall>r \<in> set rows. p r \<longrightarrow> row_write r (f r)))"

lemma rows_writtenI:
  "rows' = tbl_upd p f rows \<Longrightarrow> (\<And>r. r \<in> set rows \<Longrightarrow> p r \<Longrightarrow> row_write r (f r)) \<Longrightarrow> rows_written rows rows'"
  unfolding rows_written_def by blast

lemma mesh_step_nodes:
  assumes "mesh_step sha t db t' db'" and "mesh_inv t db"
  shows "rows_grow (db_nodes db) (db_nodes db') \<or> rows_written (db_nodes db) (db_nodes db')"
    (is "?grow \<or> ?upd")
  using assms(1)
proof (cases rule: mesh_step.cases)
  case (ms_submit items)
  then show ?thesis using submit_graph_nodes by (auto simp: rows_grow_def)
next
  case (ms_recover)
  have "rows_written (db_nodes db) (db_nodes (fst (recover_expired t' db)))"
  proof (rule rows_writtenI [OF recover_expired_nodes])
    fix r
    assume "r \<in> set (db_nodes db)" "mn_id r \<in> mn_id ` {r \<in> set (db_nodes db). lease_expired t' r}"
    then have "lease_expired t' r"
      using assms(2) by (auto simp: mesh_inv_def dest: unique_key_eq)
    then show "row_write r (recover_row t' r)"
      by (simp add: row_write_def lease_expired_def) (simp add: recover_row_def)
  qed
  with ms_recover show ?thesis by simp
next
  case (ms_claim now lock_now expires owner limit claimed)
  note e = claim_ready_nodes [OF ms_claim(4) assms(2) ms_claim(1)]
  have "mn_key (claim_row owner expires now q) = mn_key q" for q by (simp add: claim_row_def)
  moreover have "db_nodes db' = tbl_upd (\<lambda>q. mn_id q \<in> set claimed) (claim_row owner expires now) (db_nodes db)" by (rule e(3))
  moreover have "mesh_runnable (mn_state r)" if r: "r \<in> set (db_nodes db)" and cl: "mn_id r \<in> set claimed" for r
  proof -
    have "mn_id r \<in> mn_id ` set (candidates now db)"
      using e(1) cl by blast
    then obtain q where q: "q \<in> set (candidates now db)" "mn_id q = mn_id r" by auto
    then have "q = r" using r assms(2) unique_key_eq [of mn_id "db_nodes db" q r]
      by (simp add: candidates_def mesh_inv_def)
    with q show ?thesis by (simp add: candidates_def claim_candidate_def)
  qed
  ultimately have ?upd by (elim rows_writtenI) (auto simp: row_write_def)
  then show ?thesis ..
next
  case (ms_finish future i a)
  then obtain r where r: "tbl_get mn_id i (db_nodes db) = Some r" "mn_owner r = Some (fa_owner a)"
    and "db_nodes db' = tbl_upd (\<lambda>q. mn_id q = i) (finish_row future t' a) (db_nodes db)"
    by (auto simp: finish_node_def split: guard_splits)
  moreover have "mn_owner q \<noteq> None" if "q \<in> set (db_nodes db)" "mn_id q = i" for q
    using unique_key_eq [of mn_id "db_nodes db" q r] tbl_get_Some_in [OF r(1)] r(2) that assms(2)
    by (simp add: mesh_inv_def)
  moreover have "mn_owner (finish_row future t' a q) = None \<and> mn_key (finish_row future t' a q) = mn_key q \<and>
      mn_id (finish_row future t' a q) = mn_id q" for q
    by (simp add: finish_row_def Let_def split: prod.splits)
  ultimately have ?upd by (elim rows_writtenI) (auto simp: row_write_def)
  then show ?thesis ..
next
  case (ms_attempt fresh i fp snap v)
  then have "db_nodes db' = db_nodes db" using record_attempt_frame by blast
  then show ?thesis by (simp add: rows_grow_def)
next
  case (ms_artifact fresh i ty path sha256 metadata aid a replay)
  then have "db_nodes db' = db_nodes db" using register_artifact_frame by blast
  then show ?thesis by (simp add: rows_grow_def)
next
  case (ms_reactivate now2 i token reason)
  then obtain r where r: "tbl_get mn_id i (db_nodes db) = Some r" "mn_state r = MS_QUARANTINED"
    and "db_nodes db' = tbl_upd (\<lambda>q. mn_id q = i) (reactivated_row token reason t' now2) (db_nodes db)"
    by (auto simp: reactivate_quarantined_def split: guard_splits)
  moreover have "mn_state q = MS_QUARANTINED" if "q \<in> set (db_nodes db)" "mn_id q = i" for q
    using unique_key_eq [of mn_id "db_nodes db" q r] tbl_get_Some_in [OF r(1)] r(2) that assms(2)
    by (simp add: mesh_inv_def)
  moreover have "mn_owner (reactivated_row token reason t' now2 q) = mn_owner q \<and>
      mn_key (reactivated_row token reason t' now2 q) = mn_key q \<and> mn_id (reactivated_row token reason t' now2 q) = mn_id q" for q
    by (simp add: reactivated_row_def)
  ultimately have ?upd by (elim rows_writtenI) (auto simp: row_write_def)
  then show ?thesis ..
qed

lemma mesh_step_idle:
  assumes "mesh_step sha t db t' db'" and "mesh_inv t db" and "idle_unowned db"
  shows "idle_unowned db'"
  using mesh_step_nodes [OF assms(1,2)]
proof
  assume "rows_grow (db_nodes db) (db_nodes db')"
  then show ?thesis using assms(3) by (auto simp: rows_grow_def idle_unowned_def)
next
  assume "rows_written (db_nodes db) (db_nodes db')"
  then obtain p f where nodes: "db_nodes db' = tbl_upd p f (db_nodes db)"
    and w: "\<And>r. r \<in> set (db_nodes db) \<Longrightarrow> p r \<Longrightarrow> row_write r (f r)"
    unfolding rows_written_def by blast
  have "mn_owner r = None" if "r \<in> set (db_nodes db')" "mn_state r \<noteq> MS_RUNNING" for r
    using that(1) unfolding nodes
  proof (cases rule: tbl_updE)
    case (1 q)
    then show ?thesis using w [of q] assms(3) that(2) by (auto simp: row_write_def idle_unowned_def)
  next
    case 2
    then show ?thesis using assms(3) that(2) by (simp add: idle_unowned_def)
  qed
  then show ?thesis by (simp add: idle_unowned_def)
qed

lemma mesh_reach_idle: "mesh_reach sha t db \<Longrightarrow> idle_unowned db"
proof (induction rule: mesh_reach.induct)
  case mr_start
  then show ?case by (simp add: idle_unowned_def mesh_empty_def)
next
  case (mr_step t db t' db')
  then show ?case using mesh_step_idle mesh_reach_inv by blast
qed

text \<open>No step takes a node, its key or an edge away.\<close>

definition identities :: "mesh_row list \<Rightarrow> (string \<times> string) list" where
  "identities rows = map (\<lambda>r. (mn_key r, mn_id r)) rows"

lemma identities_upd:
  assumes "\<And>r. r \<in> set rows \<Longrightarrow> p r \<Longrightarrow> mn_id (f r) = mn_id r \<and> mn_key (f r) = mn_key r"
  shows "identities (tbl_upd p f rows) = identities rows"
  using assms by (auto simp: identities_def tbl_upd_def)

lemma mesh_step_identities:
  assumes "mesh_step sha t db t' db'" and "mesh_inv t db"
  shows "prefix (identities (db_nodes db)) (identities (db_nodes db'))"
  using mesh_step_nodes [OF assms]
proof
  assume "rows_written (db_nodes db) (db_nodes db')"
  then obtain p f where "db_nodes db' = tbl_upd p f (db_nodes db)"
    and "\<And>r. r \<in> set (db_nodes db) \<Longrightarrow> p r \<Longrightarrow> row_write r (f r)" unfolding rows_written_def by blast
  then show ?thesis using identities_upd [of "db_nodes db" p f] by (simp add: row_write_def)
qed (auto simp: rows_grow_def identities_def)

lemma mesh_step_deps:
  assumes "mesh_step sha t db t' db'" and "mesh_inv t db"
  shows "set (db_deps db) \<subseteq> set (db_deps db')"
  using assms(1)
proof (cases rule: mesh_step.cases)
  case (ms_submit items)
  then show ?thesis using submit_graph_deps by blast
next
  case (ms_claim now lock_now expires owner limit claimed)
  then show ?thesis using claim_ready_nodes(2) [OF ms_claim(4) assms(2) ms_claim(1)] by simp
qed (auto simp: recover_expired_def finish_node_def record_attempt_def register_artifact_def reactivate_quarantined_def Let_def
    bind_res_Inr split: guard_splits prod.splits)

text \<open>The stores reached from a store.\<close>

inductive mesh_later :: "(string \<Rightarrow> string) \<Rightarrow> string \<Rightarrow> mesh_db \<Rightarrow> string \<Rightarrow> mesh_db \<Rightarrow> bool" for sha t db where
  ml_refl: "mesh_later sha t db t db"
| ml_step: "mesh_later sha t db t1 db1 \<Longrightarrow> mesh_step sha t1 db1 t2 db2 \<Longrightarrow> mesh_later sha t db t2 db2"

lemma mesh_later_keeps:
  assumes "mesh_later sha t db t' db'" and "mesh_inv t db"
  shows "mesh_inv t' db' \<and> prefix (identities (db_nodes db)) (identities (db_nodes db')) \<and> set (db_deps db) \<subseteq> set (db_deps db')"
  using assms
proof (induction rule: mesh_later.induct)
  case (ml_step t1 db1 t2 db2)
  then have "mesh_inv t1 db1" by blast
  with ml_step show ?case
    using mesh_step_inv [OF ml_step.hyps(2)] mesh_step_identities [OF ml_step.hyps(2)] mesh_step_deps [OF ml_step.hyps(2)]
    by (meson order.trans prefix_order.trans)
qed simp

end
