(* ===== verification/Mesh_Props.thy ===== *)
theory Mesh_Props
  imports Mesh_Locks
begin

text \<open>
  The properties of the mesh store (\<open>mesh_store.py\<close>) and of its progress guard
  (\<open>loop_guard.py\<close>), with the concrete runs that witness them.
\<close>

section \<open>A concrete run\<close>

definition demo_spec :: "string \<Rightarrow> string list \<Rightarrow> string list \<Rightarrow> mesh_node_spec" where
  "demo_spec i scopes deps =
     \<lparr>sp_node_id = i, sp_task_id = ''task'', sp_title = ''work'', sp_task_family = ''code'',
      sp_role = ''implementer'', sp_risk = ''R1'', sp_write_access = True, sp_scopes = scopes,
      sp_prompt_path = [], sp_output_schema = [], sp_metadata = [], sp_priority = 5,
      sp_dependencies = deps, sp_idempotency_key = Some (''key-'' @ i)\<rparr>"

definition demo_items :: "mesh_node_spec list" where
  "demo_items = [demo_spec ''a'' [''src/api/**''] [], demo_spec ''b'' [''docs/*.md''] [],
     demo_spec ''c'' [''src/api/x.py''] [''a'']]"

definition demo_db :: "mesh_db" where
  "demo_db = (case submit_graph (\<lambda>s. s) ''t0'' demo_items mesh_empty of Inl _ \<Rightarrow> mesh_empty | Inr db \<Rightarrow> db)"

definition demo_claimed :: "mesh_db" where
  "demo_claimed = (case claim_ready ''t1'' ''t5'' (\<lambda>_. ''t1'') ''w'' 4 demo_db of
     Inl _ \<Rightarrow> mesh_empty | Inr (db, _) \<Rightarrow> db)"

lemma demo_submit: "submit_graph (\<lambda>s. s) ''t0'' demo_items mesh_empty = Inr demo_db"
  by code_simp

lemma demo_claim: "claim_ready ''t1'' ''t5'' (\<lambda>_. ''t1'') ''w'' 4 demo_db = Inr (demo_claimed, [''a'', ''b''])"
  by code_simp

lemma demo_reach: "mesh_reach (\<lambda>s. s) ''t0'' demo_db"
  by (rule mr_step [OF mr_start ms_submit [OF _ demo_submit]]) simp

section \<open>Submitting\<close>

lemma fold_res_fixed: "(\<And>x. x \<in> set xs \<Longrightarrow> f x s = Inr s) \<Longrightarrow> fold_res f xs s = Inr s"
  by (induction xs) simp_all

lemma insert_deps_result:
  "fold_res (insert_dep n) ds db = Inr db' \<Longrightarrow>
     db_nodes db' = db_nodes db \<and> set (db_deps db') = set (db_deps db) \<union> {n} \<times> set ds \<and>
     (\<forall>d \<in> set ds. n \<in> mn_id ` set (db_nodes db) \<and> d \<in> mn_id ` set (db_nodes db))"
proof (induction ds arbitrary: db)
  case (Cons d ds)
  then obtain db1 where 1: "insert_dep n d db = Inr db1" "fold_res (insert_dep n) ds db1 = Inr db'"
    by (auto split: sum.splits)
  moreover have "db_nodes db1 = db_nodes db \<and> set (db_deps db1) = insert (n, d) (set (db_deps db)) \<and>
      n \<in> mn_id ` set (db_nodes db) \<and> d \<in> mn_id ` set (db_nodes db)"
    using 1(1) by (auto simp: insert_dep_def split: if_splits)
  ultimately show ?case using Cons.IH [of db1] by auto
qed simp

definition item_edges :: "mesh_node_spec list \<Rightarrow> (string \<times> string) set" where
  "item_edges items = {(sp_node_id n, d) |n d. n \<in> set items \<and> d \<in> set (sp_dependencies n)}"

lemma item_edges_iff:
  "(a, b) \<in> item_edges items \<longleftrightarrow> (\<exists>n \<in> set items. sp_node_id n = a \<and> b \<in> set (sp_dependencies n))"
  by (auto simp: item_edges_def)

lemma submit_deps_result:
  "fold_res submit_deps items db = Inr db' \<Longrightarrow>
     db_nodes db' = db_nodes db \<and> set (db_deps db') = set (db_deps db) \<union> item_edges items \<and>
     (\<forall>(n, d) \<in> item_edges items. n \<in> mn_id ` set (db_nodes db) \<and> d \<in> mn_id ` set (db_nodes db))"
proof (induction items arbitrary: db)
  case (Cons n items)
  then obtain db1 where 0: "submit_deps n db = Inr db1" and 2: "fold_res submit_deps items db1 = Inr db'"
    by (auto split: sum.splits)
  note 1 = insert_deps_result [OF 0 [unfolded submit_deps_def]]
  have "item_edges (n # items) = {sp_node_id n} \<times> set (sp_dependencies n) \<union> item_edges items"
    by (auto simp: item_edges_def)
  with 1 Cons.IH [OF 2] show ?case by auto
qed (simp add: item_edges_def)

lemma submit_graph_split:
  assumes "submit_graph sha now items db = Inr db'" and "items \<noteq> []"
  obtains db1 where "validate_acyclic items = Inr ()" "fold_res (submit_node sha now) items db = Inr db1"
    "fold_res submit_deps items db1 = Inr db'"
  using assms by (auto simp: submit_graph_def split: guard_splits)

lemma submit_node_result:
  "submit_node sha now n db = Inr db' \<longleftrightarrow>
     sp_risk n \<in> {''R0'', ''R1'', ''R2'', ''R3'', ''R4''} \<and>
     (\<forall>r. tbl_get mn_key (spec_key sha n) (db_nodes db) = Some r \<longrightarrow> mn_id r = sp_node_id n) \<and>
     db' = db\<lparr>db_nodes := insert_or_ignore_node (new_row (spec_key sha n) now n) (db_nodes db)\<rparr>"
  by (auto simp: submit_node_def Let_def split: option.splits)

lemma new_row_simps [simp]:
  "mn_id (new_row key now n) = sp_node_id n" "mn_key (new_row key now n) = key"
  by (simp_all add: new_row_def)

lemma tbl_get_append:
  "tbl_get key k (xs @ ys) = (case tbl_get key k xs of Some r \<Rightarrow> Some r | None \<Rightarrow> tbl_get key k ys)"
  by (induction xs) (auto simp: tbl_get_def)

lemma tbl_get_single: "tbl_get key k [r] = (if key r = k then Some r else None)"
  by (simp add: tbl_get_def)

lemma insert_or_ignore_id:
  "\<exists>q \<in> set rows. mn_id q = mn_id r \<or> mn_key q = mn_key r \<Longrightarrow> insert_or_ignore_node r rows = rows"
  by (simp add: insert_or_ignore_node_def)

lemma tbl_get_insert:
  "tbl_get mn_key key (insert_or_ignore_node r rows) =
     (case tbl_get mn_key key rows of Some q \<Rightarrow> Some q
      | None \<Rightarrow> if mn_key r = key \<and> mn_id r \<notin> mn_id ` set rows then Some r else None)"
proof (cases "tbl_get mn_key key rows")
  case None
  then have "\<forall>q \<in> set rows. mn_key q \<noteq> key" by (auto simp: tbl_get_None)
  then show ?thesis
    using None by (auto simp: insert_or_ignore_node_def tbl_get_append tbl_get_single intro: rev_image_eqI)
next
  case (Some q)
  then show ?thesis by (simp add: insert_or_ignore_node_def tbl_get_append)
qed

lemma submit_nodes_keep:
  assumes "fold_res (submit_node sha now) items db = Inr db1"
  shows "set (db_nodes db) \<subseteq> set (db_nodes db1)"
    and "key \<notin> spec_key sha ` set items \<Longrightarrow>
      tbl_get mn_key key (db_nodes db1) = tbl_get mn_key key (db_nodes db)"
  using assms
proof (induction items arbitrary: db)
  case (Cons n items)
  {
    case 1
    then obtain db2 where db2: "submit_node sha now n db = Inr db2" "fold_res (submit_node sha now) items db2 = Inr db1"
      by (auto split: sum.splits)
    then have "set (db_nodes db) \<subseteq> set (db_nodes db2)"
      by (auto simp: submit_node_result insert_or_ignore_node_def)
    with Cons.IH(1) [OF db2(2)] show ?case by blast
  next
    case 2
    then obtain db2 where db2: "submit_node sha now n db = Inr db2" "fold_res (submit_node sha now) items db2 = Inr db1"
      by (auto split: sum.splits)
    then have "tbl_get mn_key key (db_nodes db2) = tbl_get mn_key key (db_nodes db)"
      using 2(1) by (auto simp: submit_node_result tbl_get_insert split: option.splits)
    with Cons.IH(2) [OF _ db2(2)] 2(1) show ?case by simp
  }
qed simp_all

lemma find_prefix: "find P xs = Some x \<Longrightarrow> find P (xs @ ys) = Some x"
  by (induction xs) (auto split: if_splits)

lemma tbl_get_identities:
  assumes "prefix (identities rows) (identities rows')" and "tbl_get mn_key k rows = Some r"
  shows "\<exists>r'. tbl_get mn_key k rows' = Some r' \<and> mn_id r' = mn_id r"
proof -
  have find: "map_option mn_id (tbl_get mn_key k xs) = map_option snd (find (\<lambda>p. fst p = k) (identities xs))" for xs
    by (induction xs) (auto simp: tbl_get_def identities_def)
  from assms(1) obtain zs where "identities rows' = identities rows @ zs" by (auto simp: prefix_def)
  moreover obtain p where "find (\<lambda>p. fst p = k) (identities rows) = Some p" "snd p = mn_id r"
    using find [of rows] assms(2) by (cases "find (\<lambda>p. fst p = k) (identities rows)") auto
  ultimately have "map_option mn_id (tbl_get mn_key k rows') = Some (mn_id r)"
    unfolding find by (simp add: find_prefix)
  then show ?thesis by auto
qed

lemma identities_ids: "prefix (identities rows) (identities rows') \<Longrightarrow> mn_id ` set rows \<subseteq> mn_id ` set rows'"
  by (force simp: identities_def prefix_def dest: arg_cong [of _ _ "\<lambda>xs. snd ` set xs"])

text \<open>A node is stored under the key of its specification.\<close>

definition stored_as :: "(string \<Rightarrow> string) \<Rightarrow> mesh_node_spec \<Rightarrow> mesh_db \<Rightarrow> bool" where
  "stored_as sha n db \<longleftrightarrow> (\<exists>r. tbl_get mn_key (spec_key sha n) (db_nodes db) = Some r \<and> mn_id r = sp_node_id n)"

lemma submit_node_stored:
  assumes "stored_as sha n db" and "sp_risk n \<in> {''R0'', ''R1'', ''R2'', ''R3'', ''R4''}"
  shows "submit_node sha now n db = Inr db"
proof -
  from assms(1) obtain r where r: "tbl_get mn_key (spec_key sha n) (db_nodes db) = Some r" "mn_id r = sp_node_id n"
    by (auto simp: stored_as_def)
  then have "insert_or_ignore_node (new_row (spec_key sha n) now n) (db_nodes db) = db_nodes db"
    using tbl_get_Some_in [OF r(1)] by (intro insert_or_ignore_id) auto
  then show ?thesis using r assms(2) by (simp add: submit_node_def)
qed

lemma submit_nodes_stored:
  assumes "fold_res (submit_node sha now) items db = Inr db1" and "distinct (map sp_node_id items)"
    and "\<And>n r. n \<in> set items \<Longrightarrow> r \<in> set (db_nodes db) \<Longrightarrow> mn_id r = sp_node_id n \<Longrightarrow> mn_key r = spec_key sha n"
  shows "\<forall>n \<in> set items. stored_as sha n db1 \<and> sp_risk n \<in> {''R0'', ''R1'', ''R2'', ''R3'', ''R4''}"
    and "prefix (identities (db_nodes db)) (identities (db_nodes db1))"
proof -
  have "(\<forall>n \<in> set items. stored_as sha n db1 \<and> sp_risk n \<in> {''R0'', ''R1'', ''R2'', ''R3'', ''R4''}) \<and>
    prefix (identities (db_nodes db)) (identities (db_nodes db1))"
    using assms
  proof (induction items arbitrary: db)
    case (Cons n items)
    then obtain db2 where db2: "submit_node sha now n db = Inr db2" "fold_res (submit_node sha now) items db2 = Inr db1"
      by (auto split: sum.splits)
    note row = db2(1) [unfolded submit_node_result]
    have nodes: "db_nodes db2 = insert_or_ignore_node (new_row (spec_key sha n) now n) (db_nodes db)" using row by simp
    have pre: "prefix (identities (db_nodes db)) (identities (db_nodes db2))"
      unfolding nodes by (auto simp: insert_or_ignore_node_def identities_def)
    have "stored_as sha n db2"
    proof (cases "tbl_get mn_key (spec_key sha n) (db_nodes db)")
      case None
      then have "mn_id r \<noteq> sp_node_id n" if "r \<in> set (db_nodes db)" for r
        using Cons.prems(3) [of n r] that by (force simp: tbl_get_None)
      then have "sp_node_id n \<notin> mn_id ` set (db_nodes db)" by (metis imageE)
      with None show ?thesis unfolding stored_as_def nodes tbl_get_insert by simp
    next
      case (Some r)
      then show ?thesis using row unfolding stored_as_def nodes tbl_get_insert by simp
    qed
    then obtain r where r: "tbl_get mn_key (spec_key sha n) (db_nodes db2) = Some r" "mn_id r = sp_node_id n"
      unfolding stored_as_def by blast
    have "mn_key q = spec_key sha m" if "m \<in> set items" "q \<in> set (db_nodes db2)" "mn_id q = sp_node_id m" for m q
      using that Cons.prems(2,3) unfolding nodes by (auto simp: insert_or_ignore_node_def split: if_splits)
    with Cons.prems(2) have IH: "\<forall>m \<in> set items. stored_as sha m db1 \<and> sp_risk m \<in> {''R0'', ''R1'', ''R2'', ''R3'', ''R4''}"
      and pre2: "prefix (identities (db_nodes db2)) (identities (db_nodes db1))" using Cons.IH [OF db2(2)] by auto
    have "stored_as sha n db1" using tbl_get_identities [OF pre2 r(1)] r(2) unfolding stored_as_def by metis
    moreover have "sp_risk n \<in> {''R0'', ''R1'', ''R2'', ''R3'', ''R4''}" using row by blast
    ultimately show ?case using IH prefix_order.trans [OF pre pre2] by (simp only: list.set ball_simps insert_iff)
  qed simp
  then show "\<forall>n \<in> set items. stored_as sha n db1 \<and> sp_risk n \<in> {''R0'', ''R1'', ''R2'', ''R3'', ''R4''}"
    "prefix (identities (db_nodes db)) (identities (db_nodes db1))" by auto
qed

text \<open>
  C27. A batch with distinct node ids, none of them already stored under another key, that was
  accepted can be submitted again, at any later time, in any store that operations of the mesh
  reach from the one it left: the repetition is accepted and changes nothing.
\<close>

theorem submit_graph_idempotent:
  assumes "mesh_reach sha t db" and "t \<le> now" and "submit_graph sha now items db = Inr db'" and "mesh_later sha now db' t' db''"
    and "distinct (map sp_node_id items)"
    and "\<And>n r. n \<in> set items \<Longrightarrow> r \<in> set (db_nodes db) \<Longrightarrow> mn_id r = sp_node_id n \<Longrightarrow> mn_key r = spec_key sha n"
  shows "submit_graph sha now' items db'' = Inr db''"
proof (cases "items = []")
  case False
  then obtain db1 where v: "validate_acyclic items = Inr ()"
    and 1: "fold_res (submit_node sha now) items db = Inr db1" and 2: "fold_res submit_deps items db1 = Inr db'"
    using submit_graph_split [OF assms(3)] by blast
  note deps = submit_deps_result [OF 2] and stored = submit_nodes_stored(1) [OF 1 assms(5,6)]
  have "mesh_inv now db'" using mesh_step_inv [OF ms_submit [OF assms(2,3)]] mesh_reach_inv [OF assms(1)] by blast
  note later = mesh_later_keeps [OF assms(4) this]
  have pre: "prefix (identities (db_nodes db1)) (identities (db_nodes db''))" using later deps by simp
  have "submit_node sha now' n db'' = Inr db''" if "n \<in> set items" for n
  proof (rule submit_node_stored)
    from stored that obtain r where r: "tbl_get mn_key (spec_key sha n) (db_nodes db1) = Some r" "mn_id r = sp_node_id n"
      unfolding stored_as_def by blast
    from tbl_get_identities [OF pre r(1)] r(2) show "stored_as sha n db''" unfolding stored_as_def by metis
    show "sp_risk n \<in> {''R0'', ''R1'', ''R2'', ''R3'', ''R4''}" using stored that by blast
  qed
  moreover have "submit_deps n db'' = Inr db''" if "n \<in> set items" for n
    unfolding submit_deps_def
  proof (rule fold_res_fixed)
    fix d
    assume "d \<in> set (sp_dependencies n)"
    with that have "(sp_node_id n, d) \<in> item_edges items" by (auto simp: item_edges_def)
    then have "(sp_node_id n, d) \<in> set (db_deps db'')" "sp_node_id n \<in> mn_id ` set (db_nodes db'')" "d \<in> mn_id ` set (db_nodes db'')"
      using deps later identities_ids [OF pre] by blast+
    then show "insert_dep (sp_node_id n) d db'' = Inr db''" by (auto simp: insert_dep_def)
  qed
  ultimately show ?thesis using False v by (simp add: submit_graph_def fold_res_fixed)
qed (use assms in \<open>simp add: submit_graph_def\<close>)

theorem submit_graph_idempotent_witness:
  "submit_graph (\<lambda>s. s) ''t9'' demo_items demo_claimed = Inr demo_claimed"
proof (rule submit_graph_idempotent [OF mr_start _ demo_submit])
  show "mesh_later (\<lambda>s. s) ''t0'' demo_db ''t1'' demo_claimed" by (rule ml_step [OF ml_refl ms_claim [OF _ _ _ demo_claim]]) simp_all
qed (code_simp | simp add: mesh_empty_def)+

text \<open>
  The depth-first search of _validate_acyclic accepts a batch exactly when every dependency
  names a node of the batch and the dependency relation has no cycle: the recursive traversal
  decides the declarative specification.
\<close>

theorem submission_acyclic:
  "validate_acyclic items = Inr () \<longleftrightarrow>
     graph_edges (spec_graph items) \<subseteq> UNIV \<times> set (map sp_node_id items) \<and>
     acyclic (graph_edges (spec_graph items))"
  by (rule validate_acyclic_iff)

lemma spec_graph_edges:
  assumes "distinct (map sp_node_id items)"
  shows "graph_edges (spec_graph items) = item_edges items"
proof -
  have found: "find (\<lambda>n. sp_node_id n = sp_node_id m) (rev items) = Some m" if m: "m \<in> set items" for m
    using tbl_get_unique [of sp_node_id "rev items" m] m assms
    by (simp add: tbl_get_def unique_key_def rev_map [symmetric])
  have g: "spec_graph items = map (\<lambda>n. (sp_node_id n, sp_dependencies n)) items"
    unfolding spec_graph_def uniq_distinct [OF assms] map_map
    by (rule map_cong [OF refl]) (simp only: comp_def found option.sel)
  have d: "distinct (map fst (spec_graph items))" by (rule distinct_spec_graph)
  show ?thesis
  proof (rule set_eqI, clarify)
    fix a b
    show "(a, b) \<in> graph_edges (spec_graph items) \<longleftrightarrow> (a, b) \<in> item_edges items"
    proof (cases "a \<in> fst ` set (spec_graph items)")
      case True
      then obtain n where n: "n \<in> set items" "a = sp_node_id n" by (auto simp: g)
      have succ: "succs (spec_graph items) a = sp_dependencies n" using n
        by (intro succs_distinct [OF d]) (auto simp: g)
      have only: "m = n" if "m \<in> set items" "sp_node_id m = a" for m
        using that n assms by (auto simp: distinct_map inj_on_def)
      have "(a, b) \<in> item_edges items \<longleftrightarrow> b \<in> set (sp_dependencies n)"
        unfolding item_edges_iff using only n by metis
      then show ?thesis by (simp add: graph_edges_def succ)
    next
      case False
      then have "(a, b) \<notin> item_edges items" by (force simp: g item_edges_def)
      with False show ?thesis by (simp add: graph_edges_def succs_Nil)
    qed
  qed
qed

text \<open>
  After a graph is submitted to an empty store, dependency_closure of a node ends (fuel is
  the number of dependency rows) and returns exactly the nodes it transitively depends on, each
  after its own dependencies.
\<close>

theorem submitted_closure:
  assumes "submit_graph sha now items mesh_empty = Inr db" and "distinct (map sp_node_id items)"
    and "i \<in> mn_id ` set (db_nodes db)" and "length (db_deps db) \<le> fuel"
  shows "\<exists>ordered. dependency_closure fuel db i = Inr ordered \<and> topo (db_deps db) ordered \<and>
    set ordered = {d. (i, d) \<in> (item_edges items)\<^sup>+}"
proof (cases "items = []")
  case True
  with assms(1,3) show ?thesis by (auto simp: submit_graph_def mesh_empty_def)
next
  case False
  obtain db1 where v: "validate_acyclic items = Inr ()"
    and 1: "fold_res (submit_node sha now) items mesh_empty = Inr db1"
    and 2: "fold_res submit_deps items db1 = Inr db"
    using submit_graph_split [OF assms(1) False] by blast
  have "db_deps db1 = []"
    using 1 by (rule fold_res_invariant) (auto simp: mesh_empty_def submit_node_result)
  then have e: "set (db_deps db) = item_edges items" using submit_deps_result [OF 2] by simp
  have "acyclic (set (db_deps db))"
    using v by (simp add: e validate_acyclic_iff spec_graph_edges [OF assms(2), symmetric])
  from dependency_closure_correct [OF this assms(3,4)] show ?thesis by (simp add: e)
qed

theorem submitted_closure_witness:
  "\<exists>ordered. dependency_closure 9 demo_db ''c'' = Inr ordered \<and> topo (db_deps demo_db) ordered \<and>
    set ordered = {d. (''c'', d) \<in> (item_edges demo_items)\<^sup>+}"
  by (rule submitted_closure [OF demo_submit]) code_simp+

text \<open>
  Two submissions, each acyclic by itself, are both accepted although together they close a
  cycle between stored nodes, after which dependency_closure recurses without end for every fuel.
\<close>

theorem resubmission_cycle:
  "\<exists>db1 db2. submit_graph (\<lambda>s. s) ''t0'' [demo_spec ''a'' [] [''b''], demo_spec ''b'' [] []] mesh_empty = Inr db1 \<and>
     submit_graph (\<lambda>s. s) ''t1'' [demo_spec ''b'' [] [''a''], demo_spec ''a'' [] []] db1 = Inr db2 \<and>
     (\<forall>fuel. dependency_closure fuel db2 ''a'' = Inl RecursionError)"
proof -
  let ?r1 = "submit_graph (\<lambda>s. s) ''t0'' [demo_spec ''a'' [] [''b''], demo_spec ''b'' [] []] mesh_empty"
  define db1 where "db1 = (case ?r1 of Inl _ \<Rightarrow> mesh_empty | Inr db \<Rightarrow> db)"
  let ?r2 = "submit_graph (\<lambda>s. s) ''t1'' [demo_spec ''b'' [] [''a''], demo_spec ''a'' [] []] db1"
  define db2 where "db2 = (case ?r2 of Inl _ \<Rightarrow> mesh_empty | Inr db \<Rightarrow> db)"
  have 1: "?r1 = Inr db1" unfolding db1_def by code_simp
  have 2: "?r2 = Inr db2" unfolding db2_def db1_def by code_simp
  have deps: "db_deps db2 = [(''a'', ''b''), (''b'', ''a'')]" "''a'' \<in> mn_id ` set (db_nodes db2)"
    unfolding db2_def db1_def by code_simp+
  have "(''b'', ''b'') \<in> (set (db_deps db2))\<^sup>+"
    by (rule trancl_into_trancl2 [of _ "''a''"]) (auto simp: deps)
  then have "dependency_closure fuel db2 ''a'' = Inl RecursionError" for fuel
    using dependency_closure_cycle [OF deps(2)] by (auto simp: deps)
  with 1 2 show ?thesis by blast
qed

section \<open>Claiming\<close>

lemma mesh_reach_unique: "mesh_reach sha t db \<Longrightarrow> unique_key mn_id (db_nodes db)"
  using mesh_reach_inv by (auto simp: mesh_inv_def)

text \<open>
  C8. In every reachable store, two nodes that run under leases that have not expired never both
  cover a path: when a scope root of one is the path itself or one of its ancestors, no scope root
  of the other is.
\<close>

theorem mesh_writers_exclusive:
  assumes "mesh_reach sha t db"
    and "r \<in> set (db_nodes db)" "mn_state r = MS_RUNNING" "mn_lease r = Some e" "t < e"
    and "s \<in> set (db_nodes db)" "mn_state s = MS_RUNNING" "mn_lease s = Some f" "t < f"
    and "mn_id r \<noteq> mn_id s"
    and "a \<in> set (node_roots r)" "under a p" "b \<in> set (node_roots s)"
  shows "\<not> under b p"
proof
  assume "under b p"
  have inv: "mesh_inv t db" using assms(1) by (rule mesh_reach_inv)
  have "lease_locked t r (db_locks db)" "lease_locked t s (db_locks db)"
    using inv assms by (simp_all add: mesh_inv_def)
  then obtain k l where "k \<in> set (db_locks db)" "lk_root k = a" "lk_node k = mn_id r" "lk_expires k = e"
    and "l \<in> set (db_locks db)" "lk_root l = b" "lk_node l = mn_id s" "lk_expires l = f"
    using assms by (fastforce simp: lease_locked_def)
  then have "\<not> scopes_overlap a b" using inv assms(5,9,10) by (fastforce simp: mesh_inv_def locks_exclusive_def)
  with under_both_overlap [OF assms(12) \<open>under b p\<close>] show False by blast
qed

lemma demo_reach_claimed: "mesh_reach (\<lambda>s. s) ''t1'' demo_claimed"
  by (rule mr_step [OF demo_reach ms_claim [OF _ _ _ demo_claim]]) simp_all

definition demo_row :: "string \<Rightarrow> mesh_row" where
  "demo_row i = the (tbl_get mn_id i (db_nodes demo_claimed))"

lemma demo_rows:
  "demo_row ''a'' \<in> set (db_nodes demo_claimed)" "demo_row ''b'' \<in> set (db_nodes demo_claimed)"
  "mn_state (demo_row ''a'') = MS_RUNNING" "mn_lease (demo_row ''a'') = Some ''t5''"
  "mn_state (demo_row ''b'') = MS_RUNNING" "mn_lease (demo_row ''b'') = Some ''t5''"
  "mn_id (demo_row ''a'') \<noteq> mn_id (demo_row ''b'')" "(''t1'' :: string) < ''t5''"
  "''src/api'' \<in> set (node_roots (demo_row ''a''))" "under ''src/api'' ''src/api/y.py''"
  "''docs'' \<in> set (node_roots (demo_row ''b''))"
  by code_simp+

theorem mesh_writers_exclusive_witness: "\<not> under ''docs'' ''src/api/y.py''"
  by (rule mesh_writers_exclusive [OF demo_reach_claimed demo_rows(1,3,4,8) demo_rows(2,5,6,8) demo_rows(7,9,10,11)])

text \<open>
  C36. In a reachable store a claim never raises. With a limit below one it does nothing.
  Otherwise it first removes the expired locks and then takes at most limit candidates, in their
  order of priority: the nodes it takes had all their dependencies satisfied and become running
  under the new owner and lease, the lock table gains exactly one row of the owner per scope root
  of each of them, and nothing else in the store changes.
\<close>

theorem claim_ready_correct:
  assumes "mesh_reach sha t db" and "t \<le> now" and "now \<le> t'" and "\<And>i. lock_now i \<le> t'"
  shows "\<exists>db' cl. claim_ready now e lock_now owner limit db = Inr (db', cl) \<and>
    (if limit < 1 then db' = db \<and> cl = []
     else subseq cl (map mn_id (candidates now db)) \<and> int (length cl) \<le> limit \<and>
       claim_effect owner now e cl (db\<lparr>db_locks := tbl_del (\<lambda>l. lk_expires l \<le> now) (db_locks db)\<rparr>) db')"
proof -
  have inv: "mesh_inv t db" using assms(1) by (rule mesh_reach_inv)
  from claim_ready_ok [where lock_now = lock_now and e = e and owner = owner and limit = limit, OF inv assms(2,3,4)]
  obtain db' cl where c: "claim_ready now e lock_now owner limit db = Inr (db', cl)" by blast
  show ?thesis
  proof (cases "limit < 1")
    case True
    then show ?thesis using c claim_ready_none [OF True c] by simp
  next
    case False
    with claim_ready_effect [OF c inv assms(2)] c show ?thesis by auto
  qed
qed

theorem claim_ready_correct_witness:
  "\<exists>db' cl. claim_ready ''t1'' ''t5'' (\<lambda>_. ''t1'') ''w'' 4 demo_db = Inr (db', cl) \<and>
    subseq cl (map mn_id (candidates ''t1'' demo_db)) \<and> int (length cl) \<le> 4 \<and>
    claim_effect ''w'' ''t1'' ''t5'' cl (demo_db\<lparr>db_locks := tbl_del (\<lambda>l. lk_expires l \<le> ''t1'') (db_locks demo_db)\<rparr>) db'"
  using claim_ready_correct [OF demo_reach, of "''t1''" "''t1''" "\<lambda>_. ''t1''" "''t5''" "''w''" 4] by simp

text \<open>
  When a claim with a positive limit comes back empty although a node is claimable and its
  dependencies are satisfied, that node is blocked by an unexpired lock on an overlapping scope
  root which belongs to a running node: work is only withheld because of a conflicting writer.
\<close>

theorem claim_ready_finds_work:
  assumes "mesh_reach sha t db" and "t \<le> now" and "1 \<le> limit"
    and "claim_ready now e lock_now owner limit db = Inr (db', [])"
    and "r \<in> set (db_nodes db)" and "claim_candidate now r" and "dependencies_satisfied db (mn_id r)"
  shows "\<exists>l q. l \<in> set (db_locks db) \<and> now < lk_expires l \<and>
    (\<exists>root \<in> set (node_roots r). scopes_overlap root (lk_root l)) \<and>
    q \<in> set (db_nodes db) \<and> mn_id q = lk_node l \<and> mn_state q = MS_RUNNING"
proof -
  have inv: "mesh_inv t db" using assms(1) by (rule mesh_reach_inv)
  from claim_ready_progress [OF assms(4) inv assms(2,3,5,6,7)]
  obtain root l where l: "root \<in> set (node_roots r)" "l \<in> set (db_locks db)" "now < lk_expires l"
    "scopes_overlap root (lk_root l)" by blast
  then have "t < lk_expires l" using assms(2) by simp
  then have "lock_held l (db_nodes db)" using inv l(2) by (simp add: mesh_inv_def)
  then show ?thesis using l by (auto simp: lock_held_def)
qed

definition demo_blocked :: "mesh_db" where
  "demo_blocked = (case submit_graph (\<lambda>s. s) ''t1'' [demo_spec ''d'' [''src''] []] demo_claimed of
     Inl _ \<Rightarrow> mesh_empty | Inr db \<Rightarrow> db)"

definition demo_blocked_row :: "mesh_row" where
  "demo_blocked_row = the (tbl_get mn_id ''d'' (db_nodes demo_blocked))"

definition demo_blocked_after :: "mesh_db" where
  "demo_blocked_after = (case claim_ready ''t2'' ''t6'' (\<lambda>_. ''t2'') ''v'' 1 demo_blocked of
     Inl _ \<Rightarrow> mesh_empty | Inr (db, _) \<Rightarrow> db)"

lemma demo_blocked_submit: "submit_graph (\<lambda>s. s) ''t1'' [demo_spec ''d'' [''src''] []] demo_claimed = Inr demo_blocked"
  by code_simp

lemma demo_blocked_reach: "mesh_reach (\<lambda>s. s) ''t1'' demo_blocked"
  by (rule mr_step [OF demo_reach_claimed ms_submit [OF _ demo_blocked_submit]]) simp

theorem claim_ready_finds_work_witness:
  "\<exists>l q. l \<in> set (db_locks demo_blocked) \<and> ''t2'' < lk_expires l \<and>
    (\<exists>root \<in> set (node_roots demo_blocked_row). scopes_overlap root (lk_root l)) \<and>
    q \<in> set (db_nodes demo_blocked) \<and> mn_id q = lk_node l \<and> mn_state q = MS_RUNNING"
  by (rule claim_ready_finds_work [OF demo_blocked_reach, of _ 1 "''t6''" "\<lambda>_. ''t2''" "''v''" demo_blocked_after])
    code_simp+

section \<open>Outcomes\<close>

text \<open>
  Whatever the store does next, a node in a terminal state other than QUARANTINED keeps its
  row unchanged.
\<close>

theorem mesh_terminal_final:
  assumes "mesh_reach sha t db" and "mesh_step sha t db t' db'"
    and "r \<in> set (db_nodes db)" and "mesh_terminal (mn_state r)" and "mn_state r \<noteq> MS_QUARANTINED"
  shows "r \<in> set (db_nodes db')"
  using mesh_step_nodes [OF assms(2) mesh_reach_inv [OF assms(1)]]
proof
  assume "rows_grow (db_nodes db) (db_nodes db')"
  then show ?thesis using assms(3) by (auto simp: rows_grow_def)
next
  assume "rows_written (db_nodes db) (db_nodes db')"
  then obtain p f where nodes: "db_nodes db' = tbl_upd p f (db_nodes db)"
    and w: "\<And>r. r \<in> set (db_nodes db) \<Longrightarrow> p r \<Longrightarrow> row_write r (f r)"
    unfolding rows_written_def by blast
  have "mn_owner r = None"
    using mesh_reach_idle [OF assms(1)] assms(3,4) by (auto simp: idle_unowned_def mesh_terminal_def)
  then have "\<not> row_write r (f r)"
    using assms(4,5) by (auto simp: row_write_def mesh_terminal_def mesh_runnable_def)
  then show ?thesis using w assms(3) unfolding nodes by (intro in_tbl_upd) auto
qed

definition demo_finish :: "finish_args" where
  "demo_finish = \<lparr>fa_owner = ''w'', fa_success = True, fa_run_id = ''run'', fa_registry = ''reg'',
     fa_provider = ''p'', fa_error = None, fa_retry_after = 0, fa_quarantine = False\<rparr>"

definition demo_done :: "mesh_db" where
  "demo_done = (case finish_node (\<lambda>_. ''t9'') ''t2'' ''a'' demo_finish demo_claimed of
     Inl _ \<Rightarrow> mesh_empty | Inr db \<Rightarrow> db)"

definition demo_done_row :: "mesh_row" where
  "demo_done_row = the (tbl_get mn_id ''a'' (db_nodes demo_done))"

lemma demo_done_finish: "finish_node (\<lambda>_. ''t9'') ''t2'' ''a'' demo_finish demo_claimed = Inr demo_done"
  by code_simp

lemma demo_done_reach: "mesh_reach (\<lambda>s. s) ''t2'' demo_done"
  by (rule mr_step [OF demo_reach_claimed ms_finish [OF _ demo_done_finish]]) simp

theorem mesh_terminal_final_witness:
  "demo_done_row \<in> set (db_nodes (fst (recover_expired ''t7'' demo_done)))"
proof (rule mesh_terminal_final [OF demo_done_reach])
  show "mesh_step (\<lambda>s. s) ''t2'' demo_done ''t7'' (fst (recover_expired ''t7'' demo_done))"
    by (rule ms_recover) simp
qed code_simp+

text \<open>
  C37. Only the lease owner can finish a node. A finished node leaves RUNNING, has no owner, lease
  or lock any more, has one more attempt and version, and its state follows from the outcome; no
  other node changes.
\<close>

theorem finish_node_owner:
  assumes "mesh_reach sha t db" and "tbl_get mn_id i (db_nodes db) = Some r"
  shows "(case finish_node future now i a db of
     Inl e \<Rightarrow> e = PermissionError ''Only the lease owner can finish a mesh node'' \<and> mn_owner r \<noteq> Some (fa_owner a)
   | Inr db' \<Rightarrow> mn_owner r = Some (fa_owner a) \<and> mn_state r = MS_RUNNING \<and>
       (\<forall>l \<in> set (db_locks db'). lk_node l \<noteq> i) \<and>
       (\<exists>r'. tbl_get mn_id i (db_nodes db') = Some r' \<and> mn_owner r' = None \<and> mn_lease r' = None \<and>
          mn_attempts r' = mn_attempts r + 1 \<and> mn_version r' = mn_version r + 1 \<and>
          mn_state r' = (if fa_success a then MS_SUCCEEDED
                         else if fa_quarantine a then MS_QUARANTINED else MS_RETRY_READY)) \<and>
       (\<forall>j. j \<noteq> i \<longrightarrow> tbl_get mn_id j (db_nodes db') = tbl_get mn_id j (db_nodes db)))"
proof (cases "mn_owner r = Some (fa_owner a)")
  case True
  have "mn_state r = MS_RUNNING"
    using mesh_reach_idle [OF assms(1)] tbl_get_Some_in [OF assms(2)] True by (auto simp: idle_unowned_def)
  then show ?thesis
    using True assms(2) by (auto simp: finish_node_def finish_wr.get_upd finish_row_def)
qed (use assms(2) in \<open>simp add: finish_node_def\<close>)

theorem finish_node_owner_witness:
  "(case finish_node (\<lambda>_. ''t9'') ''t2'' ''a'' demo_finish demo_claimed of
     Inl e \<Rightarrow> e = PermissionError ''Only the lease owner can finish a mesh node'' \<and>
       mn_owner (demo_row ''a'') \<noteq> Some (fa_owner demo_finish)
   | Inr db' \<Rightarrow> mn_owner (demo_row ''a'') = Some (fa_owner demo_finish) \<and> mn_state (demo_row ''a'') = MS_RUNNING \<and>
       (\<forall>l \<in> set (db_locks db'). lk_node l \<noteq> ''a'') \<and>
       (\<exists>r'. tbl_get mn_id ''a'' (db_nodes db') = Some r' \<and> mn_owner r' = None \<and> mn_lease r' = None \<and>
          mn_attempts r' = mn_attempts (demo_row ''a'') + 1 \<and> mn_version r' = mn_version (demo_row ''a'') + 1 \<and>
          mn_state r' = (if fa_success demo_finish then MS_SUCCEEDED
                         else if fa_quarantine demo_finish then MS_QUARANTINED else MS_RETRY_READY)) \<and>
       (\<forall>j. j \<noteq> ''a'' \<longrightarrow> tbl_get mn_id j (db_nodes db') = tbl_get mn_id j (db_nodes demo_claimed)))"
  by (rule finish_node_owner [OF demo_reach_claimed]) code_simp

text \<open>
  Recovery returns exactly the nodes whose lease has expired to RETRY_READY, reports their
  number, keeps every other node, and removes exactly the expired locks.
\<close>

theorem recover_expired_correct:
  assumes "mesh_reach sha t db" and "t \<le> now" and "recover_expired now db = (db', n)"
  shows "n = rowcount (lease_expired now) (db_nodes db) \<and>
    (\<forall>r \<in> set (db_nodes db'). \<not> lease_expired now r) \<and>
    (\<forall>r \<in> set (db_nodes db). if lease_expired now r then recover_row now r \<in> set (db_nodes db') else r \<in> set (db_nodes db')) \<and>
    (\<forall>l \<in> set (db_locks db). l \<in> set (db_locks db') \<longleftrightarrow> now < lk_expires l)"
proof -
  have inv: "mesh_inv now db" using mesh_reach_inv [OF assms(1)] assms(2) by (rule mesh_inv_mono)
  have u: "unique_key mn_id (db_nodes db)" using assms(1) by (rule mesh_reach_unique)
  have db': "db' = fst (recover_expired now db)" and n: "n = rowcount (lease_expired now) (db_nodes db)"
    using assms(3) by (auto simp: recover_expired_def rowcount_def Let_def)
  have in_exp: "mn_id r \<in> mn_id ` {r \<in> set (db_nodes db). lease_expired now r} \<longleftrightarrow> lease_expired now r"
    if "r \<in> set (db_nodes db)" for r
    using that u by (auto dest: unique_key_eq)
  note nodes = recover_expired_nodes [of now db, folded db']
  have gone: "\<not> lease_expired now r" if "r \<in> set (db_nodes db')" for r
    using that unfolding nodes
  proof (cases rule: tbl_updE)
    case (1 q)
    then show ?thesis by (simp add: lease_expired_def)
  next
    case 2
    then show ?thesis using in_exp by blast
  qed
  have each: "if lease_expired now r then recover_row now r \<in> set (db_nodes db') else r \<in> set (db_nodes db')"
    if "r \<in> set (db_nodes db)" for r
    unfolding nodes tbl_upd_in using that in_exp [OF that] by auto
  have lock: "l \<in> set (db_locks db') \<longleftrightarrow> now < lk_expires l" if l: "l \<in> set (db_locks db)" for l
  proof (cases "now < lk_expires l")
    case True
    then have "lock_held l (db_nodes db)" using inv l by (simp add: mesh_inv_def)
    then obtain q where q: "q \<in> set (db_nodes db)" "mn_id q = lk_node l" "mn_lease q = Some (lk_expires l)"
      by (auto simp: lock_held_def)
    then have "\<not> lease_expired now q" using True by (simp add: lease_expired_def not_le)
    then have "lk_node l \<notin> mn_id ` {r \<in> set (db_nodes db). lease_expired now r}"
      using in_exp [OF q(1)] q(2) by simp
    then show ?thesis using True l by (auto simp: db' recover_expired_def Let_def)
  qed (auto simp: db' recover_expired_def Let_def)
  show ?thesis using n gone each lock by blast
qed

theorem recover_expired_correct_witness:
  "snd (recover_expired ''t6'' demo_claimed) = rowcount (lease_expired ''t6'') (db_nodes demo_claimed) \<and>
    demo_row ''a'' \<in> set (db_nodes demo_claimed) \<and> lease_expired ''t6'' (demo_row ''a'') \<and>
    recover_row ''t6'' (demo_row ''a'') \<in> set (db_nodes (fst (recover_expired ''t6'' demo_claimed)))"
proof -
  have "''t1'' \<le> ''t6''" by simp
  note r = recover_expired_correct [OF demo_reach_claimed this prod.collapse [symmetric]]
  have "demo_row ''a'' \<in> set (db_nodes demo_claimed)" "lease_expired ''t6'' (demo_row ''a'')" by code_simp+
  with r show ?thesis by fastforce
qed

section \<open>Attempts\<close>

lemma mesh_step_attempts:
  assumes "mesh_step sha t db t' db'"
  shows "db_attempts db' = db_attempts db \<or>
    (\<exists>a. db_attempts db' = db_attempts db @ [a] \<and> at_signature a = signature sha (at_fingerprint a) \<and>
       at_signature a \<notin> at_signature ` set (db_attempts db))"
  using assms
proof (cases rule: mesh_step.cases)
  case (ms_submit items)
  have "db_attempts db' = db_attempts db"
  proof (cases "items = []")
    case False
    then obtain db1 where 1: "fold_res (submit_node sha t') items db = Inr db1"
      and 2: "fold_res submit_deps items db1 = Inr db'" using submit_graph_split [OF ms_submit(2)] by blast
    have "db_attempts db1 = db_attempts db"
      using 1 by (rule fold_res_invariant) (auto simp: submit_node_result)
    with 2 show ?thesis
    proof (rule fold_res_invariant)
      fix n s s'
      assume "submit_deps n s = Inr s'" "db_attempts s = db_attempts db"
      then show "db_attempts s' = db_attempts db"
        unfolding submit_deps_def by (rule fold_res_invariant) (auto simp: insert_dep_def split: if_splits)
    qed
  qed (use ms_submit in \<open>simp add: submit_graph_def\<close>)
  then show ?thesis ..
next
  case (ms_claim now lock_now expires owner limit claimed)
  have "db_attempts d' = db_attempts db"
    if "claim_loop lock_now owner now expires limit rs (d, cl) = Inr (d', cl')" "db_attempts d = db_attempts db"
    for rs d cl d' cl'
    using that
  proof (induction lock_now owner now expires limit rs "(d, cl)" arbitrary: d cl rule: claim_loop.induct)
    case (2 lock_now owner now expires limit r rs d cl)
    have "db_attempts d2 = db_attempts d1"
      if "fold_res (\<lambda>root. insert_lock (l root)) roots d1 = Inr d2" for l roots d1 d2
      using that by (rule fold_res_invariant) (auto simp: insert_lock_def split: if_splits)
    then show ?case using 2 by (fastforce split: if_splits sum.splits)
  qed simp
  then show ?thesis using ms_claim(4) by (auto simp: claim_ready_def Let_def split: if_splits)
next
  case (ms_attempt fresh i fp snap v)
  from ms_attempt(2) have new: "\<not> (\<exists>a \<in> set (db_attempts db). at_signature a = signature sha fp)"
    by (intro notI) (simp add: record_attempt_def)
  with ms_attempt(2) have "\<exists>a. db_attempts db' = db_attempts db @ [a] \<and> at_signature a = signature sha (at_fingerprint a) \<and>
      at_signature a = signature sha fp"
    by (auto simp: record_attempt_def Let_def split: if_splits)
  then obtain a where a: "db_attempts db' = db_attempts db @ [a]" "at_signature a = signature sha (at_fingerprint a)"
    "at_signature a = signature sha fp" by blast
  have "at_signature a \<notin> at_signature ` set (db_attempts db)"
    unfolding a(3) using new by (metis imageE)
  with a(1,2) show ?thesis by blast
qed (auto simp: recover_expired_def finish_node_def record_attempt_def register_artifact_def
      reactivate_quarantined_def Let_def split: guard_splits)

text \<open>
  In every reachable store no two recorded attempts have the same signature and, for a
  collision-free hash, no two have the same fingerprint: the guard against repeating an identical
  attempt cannot be bypassed.
\<close>

theorem attempts_never_repeat:
  assumes "mesh_reach sha t db"
  shows "distinct (map at_signature (db_attempts db)) \<and>
    (inj sha \<longrightarrow> distinct (map at_fingerprint (db_attempts db)))"
proof -
  have "distinct (map at_signature (db_attempts db)) \<and>
      (\<forall>a \<in> set (db_attempts db). at_signature a = signature sha (at_fingerprint a))"
    using assms
  proof (induction rule: mesh_reach.induct)
    case (mr_step t db t' db')
    then show ?case using mesh_step_attempts [OF mr_step.hyps(2)] by auto
  qed (simp add: mesh_empty_def)
  then show ?thesis by (auto simp: distinct_map inj_on_def)
qed

definition demo_fp :: "attempt_fingerprint" where
  "demo_fp = \<lparr>af_task_id = ''task'', af_strategy_hash = ''s'', af_prompt_hash = ''p'', af_context_hash = ''c'',
     af_head_sha = ''h'', af_diff_hash = ''d'', af_failing_evidence_hash = ''f'', af_provider = ''pr'', af_model = ''m''\<rparr>"

definition demo_snap :: "progress_snapshot" where
  "demo_snap = \<lparr>ps_failing_checks = 1, ps_blocking_findings = 0, ps_unknowns = 0, ps_evidence_count = 0,
     ps_strategy_hash = ''s'', ps_context_hash = ''c'', ps_provider = ''pr'', ps_model = ''m''\<rparr>"

definition demo_attempted :: "mesh_db" where
  "demo_attempted = (case record_attempt (\<lambda>s. s) ''1'' ''t2'' ''a'' demo_fp demo_snap demo_claimed of
     Inl _ \<Rightarrow> mesh_empty | Inr (db, _) \<Rightarrow> db)"

lemma demo_attempted_step:
  "record_attempt (\<lambda>s. s) ''1'' ''t2'' ''a'' demo_fp demo_snap demo_claimed =
     Inr (demo_attempted, \<lparr>pg_progress = True, pg_reasons = [''first_attempt''], pg_decision = ''CONTINUE''\<rparr>)"
  by code_simp

theorem attempts_never_repeat_witness:
  "length (db_attempts demo_attempted) = 1 \<and> distinct (map at_signature (db_attempts demo_attempted)) \<and>
    distinct (map at_fingerprint (db_attempts demo_attempted))"
proof -
  have "mesh_reach (\<lambda>s. s) ''t2'' demo_attempted"
    by (rule mr_step [OF demo_reach_claimed ms_attempt [OF _ demo_attempted_step]]) simp
  note r = attempts_never_repeat [OF this]
  have "length (db_attempts demo_attempted) = 1" "inj (\<lambda>s :: string. s)" by code_simp simp
  with r show ?thesis by blast
qed

text \<open>
  evaluate_progress lets a cycle continue exactly when there is no earlier snapshot, a
  measured quantity improved, or the approach changed, and escalates otherwise.
\<close>

theorem progress_decision:
  "pg_decision (evaluate_progress previous c) =
     (case previous of None \<Rightarrow> ''CONTINUE''
      | Some p \<Rightarrow> if same_approach p c \<and> \<not> measurably_better p c then ''NO_PROGRESS_CYCLE_ESCALATE'' else ''CONTINUE'')"
  by (cases previous) (simp_all add: evaluate_progress_decision evaluate_progress_iff, simp add: evaluate_progress_def)

section \<open>Reactivation\<close>

definition demo_quarantine :: "string \<Rightarrow> mesh_db \<Rightarrow> mesh_db res" where
  "demo_quarantine t db = (case claim_ready t ''t9'' (\<lambda>_. t) ''w'' 1 db of
     Inl e \<Rightarrow> Inl e
   | Inr (db', _) \<Rightarrow> finish_node (\<lambda>_. t) t ''a''
       \<lparr>fa_owner = ''w'', fa_success = False, fa_run_id = ''run'', fa_registry = ''reg'', fa_provider = ''p'',
        fa_error = Some ''boom'', fa_retry_after = 0, fa_quarantine = True\<rparr> db')"

definition demo_reactivate :: "string \<Rightarrow> string \<Rightarrow> mesh_db \<Rightarrow> mesh_db res" where
  "demo_reactivate t token db = reactivate_quarantined t t ''a'' token ''fixed'' db"

text \<open>
  A reactivation token that was used before the most recent one is accepted again, although
  using the most recent one twice is refused: only the last token is remembered.
\<close>

theorem reactivation_token_replayed:
  "ok (fold_res (\<lambda>op. op)
     [submit_graph (\<lambda>s. s) ''t0'' [demo_spec ''a'' [] []], demo_quarantine ''t1'', demo_reactivate ''t2'' ''A'',
      demo_quarantine ''t3'', demo_reactivate ''t4'' ''B'', demo_quarantine ''t5'', demo_reactivate ''t6'' ''A'']
     mesh_empty) \<and>
   \<not> ok (fold_res (\<lambda>op. op)
     [submit_graph (\<lambda>s. s) ''t0'' [demo_spec ''a'' [] []], demo_quarantine ''t1'', demo_reactivate ''t2'' ''A'',
      demo_quarantine ''t3'', demo_reactivate ''t4'' ''A''] mesh_empty)"
  by code_simp

end
