(* ===== verification/Subject.thy ===== *)
theory Subject
  imports Py_Value
begin

text \<open>
  \<open>toolkit/ztad/subject.py\<close>: the identity of what is delivered. A record of any vintage is read
  as a canonical subject; its fingerprint is the digest of that subject; a material change starts
  a new epoch, retires the evidence gathered so far and withdraws states that rested on it.
\<close>

section \<open>The canonical subject\<close>

definition material_fields :: "string list" where
  "material_fields = [''repository'', ''delivery_model'', ''delivery_model_proof_digest'', ''protected_base_sha'',
     ''pr_head_sha'', ''reviewed_diff_hash'', ''merged_main_sha'', ''merge_method'', ''merge_provenance'',
     ''post_merge_ci_run_id'', ''change_contract_hash'', ''policy_bundle_hash'', ''toolchain_hash'',
     ''artifact_digest'', ''release_fingerprint'', ''sbom_digest'', ''provenance_digest'', ''attestation_digest'',
     ''production_release_id'', ''deployed_revision'', ''artifact_identity'']"

definition subject_fields :: "string list" where
  "subject_fields = material_fields @ [''subject_epoch'', ''subject_version'']"

definition delivery_models :: "string list" where
  "delivery_models = [''PACKAGE_OR_PLUGIN'', ''HOSTED_RUNTIME_SERVICE'', ''HYBRID'']"

definition field_or :: "pydict \<Rightarrow> string \<Rightarrow> string \<Rightarrow> pyval" where
  "field_or r k legacy = (if dget k r = PNone then dget legacy r else dget k r)"

definition head_of :: "pydict \<Rightarrow> pyval" where
  "head_of r = (if dget ''pr_head_sha'' r = PNone \<and> dget ''merged_main_sha'' r = PNone then dget ''head_sha'' r
     else dget ''pr_head_sha'' r)"

definition model_entries :: "pydict \<Rightarrow> pydict" where
  "model_entries r = (let model = dget ''delivery_model'' r; proof = dget ''delivery_model_proof_digest'' r in
     if model = PNone \<and> proof = PNone then []
     else [(''delivery_model'', model), (''delivery_model_proof_digest'', proof)])"

definition subject_entries :: "pydict \<Rightarrow> int \<Rightarrow> int \<Rightarrow> pydict" where
  "subject_entries r epoch version =
     [(''repository'', dget ''repository'' r)] @ model_entries r @
     [(''protected_base_sha'', field_or r ''protected_base_sha'' ''base_sha''),
      (''pr_head_sha'', head_of r),
      (''reviewed_diff_hash'', field_or r ''reviewed_diff_hash'' ''diff_hash''),
      (''merged_main_sha'', dget ''merged_main_sha'' r),
      (''merge_method'', dget ''merge_method'' r),
      (''merge_provenance'', dget ''merge_provenance'' r),
      (''post_merge_ci_run_id'', dget ''post_merge_ci_run_id'' r),
      (''change_contract_hash'', dget ''change_contract_hash'' r),
      (''policy_bundle_hash'', dget ''policy_bundle_hash'' r),
      (''toolchain_hash'', dget ''toolchain_hash'' r),
      (''artifact_digest'', dget ''artifact_digest'' r),
      (''release_fingerprint'', dget ''release_fingerprint'' r),
      (''sbom_digest'', dget ''sbom_digest'' r),
      (''provenance_digest'', dget ''provenance_digest'' r),
      (''attestation_digest'', dget ''attestation_digest'' r),
      (''production_release_id'', dget ''production_release_id'' r),
      (''deployed_revision'', dget ''deployed_revision'' r),
      (''artifact_identity'', dget ''artifact_identity'' r),
      (''subject_epoch'', PInt epoch),
      (''subject_version'', PInt version)]"

definition subject_from_record :: "pydict \<Rightarrow> pydict res" where
  "subject_from_record r =
     bind_res (py_int (py_or (dget ''subject_epoch'' r) (PInt 0))) (\<lambda>epoch.
     bind_res (py_int (py_or (dget ''subject_version'' r) (PInt 1))) (\<lambda>version.
       Inr (subject_entries r epoch version)))"

definition active_revision :: "pydict \<Rightarrow> pyval res" where
  "active_revision r = bind_res (subject_from_record r)
     (\<lambda>s. Inr (py_or (dget ''merged_main_sha'' s) (dget ''pr_head_sha'' s)))"

definition subject_fingerprint :: "(string \<Rightarrow> string) \<Rightarrow> pydict \<Rightarrow> string res" where
  "subject_fingerprint sha r = bind_res (subject_from_record r) (\<lambda>s. Inr (sha256_json sha (PDict s)))"

section \<open>Validation\<close>

definition revision_fields :: "string list" where
  "revision_fields = [''protected_base_sha'', ''pr_head_sha'', ''merged_main_sha'', ''deployed_revision'']"

definition digest_fields :: "string list" where
  "digest_fields = [''reviewed_diff_hash'', ''change_contract_hash'', ''policy_bundle_hash'', ''toolchain_hash'',
     ''artifact_digest'', ''release_fingerprint'', ''sbom_digest'', ''provenance_digest'', ''attestation_digest'']"

definition merge_methods :: "string list" where
  "merge_methods = [''MERGE'', ''SQUASH'', ''REBASE'', ''FAST_FORWARD'']"

definition none_or_in :: "pyval \<Rightarrow> string list \<Rightarrow> bool res" where
  "none_or_in v names = (if v = PNone then Inr True else in_names v names)"

definition provenance_errors :: "pydict \<Rightarrow> string list" where
  "provenance_errors s =
     (if truthy (dget ''merged_main_sha'' s) then
        (case dget ''merge_provenance'' s of
           PDict p \<Rightarrow>
             concat (map (\<lambda>f. err_if (\<not> truthy (dget f p)) (''merge_provenance.'' @ f @ '' is required''))
               [''pr_head_sha'', ''reviewed_diff_hash'', ''merged_main_sha'', ''transformation'']) @
             concat (map (\<lambda>f. err_if (\<not> py_eq (dget f p) (dget f s)) (''merge_provenance.'' @ f @ '' mismatch''))
               [''pr_head_sha'', ''reviewed_diff_hash'', ''merged_main_sha''])
         | _ \<Rightarrow> [''Merged-main subject requires merge_provenance'']) @
        err_if (\<not> truthy (dget ''post_merge_ci_run_id'' s)) ''Merged-main subject requires post_merge_ci_run_id''
      else [])"

definition subject_errors :: "pydict \<Rightarrow> bool \<Rightarrow> string list res" where
  "subject_errors s require_provenance =
     bind_res (none_or_in (dget ''delivery_model'' s) delivery_models) (\<lambda>model_ok.
     bind_res (none_or_in (dget ''merge_method'' s) merge_methods) (\<lambda>method_ok.
       let active = py_or (dget ''merged_main_sha'' s) (dget ''pr_head_sha'' s);
           deployed = dget ''deployed_revision'' s; proof = dget ''delivery_model_proof_digest'' s
       in Inr (sorted_set (
         err_if (\<not> str_and (\<lambda>t. str_strip t \<noteq> []) (dget ''repository'' s)) ''Subject repository is required'' @
         err_if (\<not> model_ok) ''Subject delivery_model is unsupported'' @
         err_if (proof \<noteq> PNone \<and> \<not> str_and digest_text proof)
           ''Subject delivery_model_proof_digest must be a sha256 digest'' @
         concat (map (\<lambda>f. err_if (dget f s \<noteq> PNone \<and> \<not> str_and sha_text (dget f s))
           (''Subject '' @ f @ '' must be a lowercase hexadecimal revision'')) revision_fields) @
         concat (map (\<lambda>f. err_if (dget f s \<noteq> PNone \<and> \<not> str_and digest_text (dget f s))
           (''Subject '' @ f @ '' must be a sha256 digest'')) digest_fields) @
         err_if (\<not> method_ok) ''Subject merge_method is unsupported'' @
         err_if (dget ''merge_provenance'' s \<noteq> PNone \<and> \<not> is_dict (dget ''merge_provenance'' s))
           ''Subject merge_provenance must be an object'' @
         err_if (dget ''artifact_identity'' s \<noteq> PNone \<and> str_strip (py_str (dget ''artifact_identity'' s)) = [])
           ''Subject artifact_identity must be non-empty'' @
         err_if (case dget ''subject_epoch'' s of PInt i \<Rightarrow> i < 0 | _ \<Rightarrow> False)
           ''Subject subject_epoch cannot be negative'' @
         err_if (truthy (dget ''merged_main_sha'' s) \<and> \<not> truthy (dget ''pr_head_sha'' s))
           ''Merged-main subject requires the reviewed PR head'' @
         err_if (truthy deployed \<and> truthy active \<and> \<not> py_eq deployed active)
           ''deployed_revision must equal the active merged-main or candidate revision'' @
         (if require_provenance then provenance_errors s else [])))))"

definition validate_subject :: "(string \<Rightarrow> string) \<Rightarrow> pydict \<Rightarrow> bool \<Rightarrow> (string list \<times> string) res" where
  "validate_subject sha r require_provenance =
     bind_res (subject_from_record r) (\<lambda>s.
     bind_res (subject_errors s require_provenance) (\<lambda>errors.
     bind_res (subject_fingerprint sha s) (\<lambda>fp. Inr (errors, fp))))"

section \<open>Changes and epochs\<close>

definition material_subject_changes :: "pydict \<Rightarrow> pydict \<Rightarrow> pydict res" where
  "material_subject_changes old new =
     bind_res (subject_from_record old) (\<lambda>p. bind_res (subject_from_record new) (\<lambda>c.
       Inr (map (\<lambda>f. (f, PDict [(''old'', dget f p), (''new'', dget f c)]))
         (filter (\<lambda>f. \<not> py_eq (dget f p) (dget f c)) material_fields))))"

definition meets :: "string list \<Rightarrow> string list \<Rightarrow> bool" where
  "meets changed names \<longleftrightarrow> (\<exists>f \<in> set changed. f \<in> set names)"

definition artifact_fields :: "string list" where
  "artifact_fields = [''artifact_digest'', ''release_fingerprint'', ''sbom_digest'', ''provenance_digest'',
     ''attestation_digest'', ''artifact_identity'']"

definition production_fields :: "string list" where
  "production_fields = [''production_release_id'', ''deployed_revision'']"

definition earliest_revalidation_state :: "string list \<Rightarrow> string" where
  "earliest_revalidation_state changed =
     (if meets changed production_fields then ''ROLLBACK_REQUIRED''
      else if meets changed artifact_fields then ''CI_PASS''
      else ''CHANGE_PLANNED'')"

record epoch_rule =
  eu_category :: string
  eu_fields :: "string list"
  eu_increments :: bool
  eu_survives :: "string list"
  eu_invalidated :: "string list"
  eu_retained :: "string option"
  eu_revalidation :: "string option"

text \<open>\<open>SUBJECT_TRANSITION_POLICY\<close>, in the order of precedence of \<open>subject_epoch_transition_policy\<close>.\<close>

definition policy_entry :: "string \<Rightarrow> string list \<times> string list \<times> string" where
  "policy_entry category =
     (if category = ''production_identity'' then
        ([''immutable_prior_ledger_history''], [''all_production_and_downstream_subject_bound_evidence_refs''], ''ROLLBACK_REQUIRED'')
      else if category = ''artifact_release'' then
        ([''pre_artifact_subject_provenance'', ''immutable_prior_ledger_history''],
         [''artifact_and_downstream_subject_bound_evidence_refs''], ''CI_PASS'')
      else if category = ''merge_identity'' then
        ([''pre_merge_review_provenance'', ''immutable_prior_ledger_history''],
         [''pre_merge_subject_bound_execution_and_release_refs''], ''CHANGE_PLANNED'')
      else if category = ''delivery_model'' then
        ([''immutable_prior_ledger_history''], [''all_current_subject_bound_evidence_refs''], ''CHANGE_PLANNED'')
      else ([''non_subject_problem_intake'', ''immutable_prior_ledger_history''],
            [''all_current_subject_bound_evidence_refs''], ''CHANGE_PLANNED''))"

definition change_category :: "string list \<Rightarrow> string" where
  "change_category changed =
     (if meets changed production_fields then ''production_identity''
      else if meets changed artifact_fields then ''artifact_release''
      else if meets changed [''merged_main_sha'', ''merge_method'', ''merge_provenance'', ''post_merge_ci_run_id'']
      then ''merge_identity''
      else if meets changed [''protected_base_sha'', ''pr_head_sha'', ''reviewed_diff_hash''] then ''candidate_identity''
      else if meets changed [''delivery_model'', ''delivery_model_proof_digest''] then ''delivery_model''
      else ''contract_policy_toolchain'')"

definition subject_epoch_transition_policy :: "string list \<Rightarrow> epoch_rule" where
  "subject_epoch_transition_policy changed =
     (if changed = [] then
        \<lparr>eu_category = ''NO_CHANGE'', eu_fields = [], eu_increments = False, eu_survives = [],
         eu_invalidated = [], eu_retained = None, eu_revalidation = None\<rparr>
      else let category = change_category changed; (survives, invalidated, retained) = policy_entry category
        in \<lparr>eu_category = category, eu_fields = sorted_set changed, eu_increments = True,
            eu_survives = survives, eu_invalidated = invalidated, eu_retained = Some retained,
            eu_revalidation = Some (earliest_revalidation_state changed)\<rparr>)"

definition validate_subject_epoch_transition :: "(string \<Rightarrow> string) \<Rightarrow> pydict \<Rightarrow> pydict \<Rightarrow> string list res" where
  "validate_subject_epoch_transition sha old new =
     bind_res (subject_from_record old) (\<lambda>p. bind_res (subject_from_record new) (\<lambda>c.
     bind_res (material_subject_changes p c) (\<lambda>changes.
     bind_res (py_int (py_or (dget ''subject_epoch'' p) (PInt 0))) (\<lambda>old_epoch.
     bind_res (py_int (py_or (dget ''subject_epoch'' c) (PInt 0))) (\<lambda>new_epoch.
     bind_res (subject_fingerprint sha c) (\<lambda>fp.
       Inr (sorted_set (
         err_if (changes \<noteq> [] \<and> new_epoch \<noteq> old_epoch + 1)
           ''Material subject change must increment subject_epoch exactly once'' @
         err_if (changes = [] \<and> new_epoch \<noteq> old_epoch)
           ''subject_epoch cannot change without a material subject mutation'' @
         err_if (changes \<noteq> [] \<and> \<not> py_eq (dget ''subject_fingerprint'' new) (PStr fp))
           ''Material subject change must recompute subject_fingerprint'' @
         err_if (changes \<noteq> [] \<and> eu_category (subject_epoch_transition_policy (dkeys changes)) = ''production_identity'' \<and>
             py_str (py_or (dget ''state'' new) (PStr [])) \<notin> {''ROLLBACK_REQUIRED'', ''BLOCKED'', ''CHANGE_PLANNED''})
           ''Production identity changes require rollback or blocked revalidation''))))))))"

section \<open>Applying an update\<close>

definition post_production_states :: "string list" where
  "post_production_states = [''PRODUCTION_RELEASED'', ''POST_DEPLOY_VERIFIED'', ''CLOSED'', ''ROLLBACK_REQUIRED'']"

definition package_release_states :: "string list" where
  "package_release_states = [''PACKAGE_RELEASED'', ''RELEASE_ARTIFACT_VERIFIED'', ''CONSUMER_VALIDATION_PASS'']"

definition early_states :: "string list" where
  "early_states = [''UNVERIFIED_REPORT'', ''SOURCE_OF_TRUTH_RESOLVED'', ''ISSUE_CLASSIFIED'', ''BUG_REPRODUCED'',
     ''ROOT_CAUSE_PROVEN'', ''BLAST_RADIUS_MAPPED'', ''CHANGE_PLANNED'', ''BLOCKED'']"

definition has_key :: "string \<Rightarrow> pydict \<Rightarrow> bool" where
  "has_key k d \<longleftrightarrow> k \<in> set (dkeys d)"

definition with_updates :: "pydict \<Rightarrow> pydict \<Rightarrow> pydict" where
  "with_updates result updates =
     (let r1 = dict_merge result updates;
          r2 = (if has_key ''protected_base_sha'' updates
                then dset ''base_sha'' (dget ''protected_base_sha'' updates) r1 else r1);
          r3 = (if has_key ''pr_head_sha'' updates
                then let h = dset ''head_sha'' (dget ''pr_head_sha'' updates) r2
                     in dset ''diff_hash'' (dget_default ''reviewed_diff_hash'' (dget ''diff_hash'' h) updates) h
                else r2);
          r4 = (if has_key ''reviewed_diff_hash'' updates
                then dset ''diff_hash'' (dget ''reviewed_diff_hash'' updates) r3 else r3)
      in if has_key ''merged_main_sha'' updates \<and> truthy (dget ''merged_main_sha'' updates)
         then dset ''head_sha'' (dget ''merged_main_sha'' updates) r4 else r4)"

definition archive_refs :: "string \<times> pyval \<Rightarrow> pydict \<Rightarrow> pydict res" where
  "archive_refs entry historical =
     (case entry of (ty, refs) \<Rightarrow>
        bind_res (py_texts (dget_default ty (PList []) historical)) (\<lambda>old.
        bind_res (py_texts (py_or refs (PList []))) (\<lambda>new.
          Inr (dset ty (PList (map PStr (sorted_set (old @ new)))) historical))))"

definition ref_ids :: "pydict \<Rightarrow> string list res" where
  "ref_ids refs = bind_res (fold_res (\<lambda>(_, rs) ids. bind_res (py_texts (py_or rs (PList []))) (\<lambda>new. Inr (ids @ new))) refs [])
     (\<lambda>ids. Inr (sorted_set ids))"

definition dict_or_raise :: "pyval \<Rightarrow> pydict res" where
  "dict_or_raise v = (case v of PDict d \<Rightarrow> Inr d | _ \<Rightarrow> Inl (AttributeError ''items''))"

definition withdraw :: "string list \<Rightarrow> pydict \<Rightarrow> pydict" where
  "withdraw changed r =
     (let current = py_str (py_or (dget ''state'' r) (PStr []));
          fields_text = ''Changed subject fields: '' @ join_with '', '' (sorted_set changed);
          stop = (\<lambda>st resume blockers. dset ''final_state'' PNone (dset ''blockers'' (PList (map PStr blockers))
            (dset ''blocked_target'' (PStr current) (dset ''resume_state'' (PStr resume) (dset ''state'' (PStr st) r)))))
      in if current \<in> set post_production_states
         then stop ''ROLLBACK_REQUIRED'' ''ROLLBACK_REQUIRED''
           [''Subject changed after production exposure; rollback or containment is required'']
         else if current \<in> set package_release_states
         then stop ''BLOCKED'' ''CI_PASS''
           [''Package release subject changed after publication; revoke or replace the affected package before revalidation'',
            fields_text]
         else if current \<notin> set early_states
         then stop ''BLOCKED'' (earliest_revalidation_state changed)
           [''Material subject change invalidated downstream evidence; revalidation is required'', fields_text]
         else r)"

definition unsealed :: "pydict \<Rightarrow> pydict" where
  "unsealed r = ddel ''store_binding'' (ddel ''store_record_hash'' (ddel ''store_version''
     (dset ''authority_store'' PNone (dset ''authoritative_lifecycle'' (PBool False) r))))"

definition current_refs :: "pydict \<Rightarrow> pydict res" where
  "current_refs r = dict_or_raise (py_or (dget ''evidence_refs'' r) (PDict []))"

definition retire_refs :: "pydict \<Rightarrow> pydict res" where
  "retire_refs r =
     (let historical = py_or (dget ''historical_evidence_refs'' r) (PDict []) in
      bind_res (current_refs r) (\<lambda>existing.
        if existing = [] then Inr (dset ''historical_evidence_refs'' historical r)
        else bind_res (dict_or_raise historical) (\<lambda>h.
             bind_res (fold_res archive_refs existing h) (\<lambda>h'.
               Inr (dset ''historical_evidence_refs'' (PDict h') (dset ''evidence_refs'' (PDict []) r))))))"

definition open_epoch :: "(string \<Rightarrow> string) \<Rightarrow> string \<Rightarrow> string \<Rightarrow> pydict \<Rightarrow> pydict \<Rightarrow> string list \<Rightarrow> pydict res" where
  "open_epoch sha now reason before r1 changed =
     bind_res (py_int (py_or (dget ''subject_epoch'' before) (PInt 0))) (\<lambda>old_epoch.
     bind_res (py_int (py_or (dget ''subject_version'' r1) (PInt 1))) (\<lambda>version.
       let r2 = dset ''subject_version'' (PInt (max version 1)) (dset ''subject_epoch'' (PInt (old_epoch + 1)) r1) in
     bind_res (subject_fingerprint sha r2) (\<lambda>fp.
       let r3 = dset ''subject_fingerprint'' (PStr fp) r2 in
     bind_res (current_refs r3) (\<lambda>existing.
     bind_res (retire_refs r3) (\<lambda>r4.
     bind_res (subject_fingerprint sha before) (\<lambda>old_fp.
     bind_res (ref_ids existing) (\<lambda>ids.
     bind_res (py_list (py_or (dget ''subject_mutations'' r4) (PList []))) (\<lambda>history.
       let invalidation = PDict [(''subject_epoch'', PInt (old_epoch + 1)), (''occurred_at'', PStr now),
             (''reason'', PStr reason), (''changed_fields'', PList (map PStr (sorted_set changed))),
             (''old_subject_fingerprint'', PStr old_fp), (''new_subject_fingerprint'', PStr fp),
             (''invalidated_evidence_ids'', PList (map PStr ids))]
       in Inr (withdraw changed (dset ''subject_mutations'' (PList (history @ [invalidation])) r4))))))))))"

definition apply_subject_update :: "(string \<Rightarrow> string) \<Rightarrow> string \<Rightarrow> pydict \<Rightarrow> pydict \<Rightarrow> string \<Rightarrow> pydict res" where
  "apply_subject_update sha now r updates reason =
     (let unsupported = sorted_set (filter (\<lambda>k. k \<notin> set material_fields) (dkeys updates));
          r0 = unsealed r; r1 = with_updates r0 updates
      in if unsupported \<noteq> []
      then Inl (ValueError (''Subject updates may change only material subject fields: '' @ join_with '', '' unsupported))
      else bind_res (subject_from_record r0) (\<lambda>before.
         bind_res (subject_from_record r1) (\<lambda>after.
         bind_res (validate_subject sha after (truthy (dget ''merged_main_sha'' after))) (\<lambda>(errors, _).
         if errors \<noteq> [] then Inl (ValueError (''Invalid subject update: '' @ join_with ''; '' errors))
         else bind_res (material_subject_changes before after) (\<lambda>changes.
         if changes = [] then bind_res (subject_fingerprint sha r1) (\<lambda>fp. Inr (dset ''subject_fingerprint'' (PStr fp) r1))
         else open_epoch sha now reason before r1 (dkeys changes))))))"

record epoch_description =
  ed_rule :: epoch_rule
  ed_old :: int
  ed_new :: int
  ed_changed :: "string list"

definition describe_subject_transition :: "pydict \<Rightarrow> pydict \<Rightarrow> epoch_description res" where
  "describe_subject_transition old new =
     bind_res (subject_from_record old) (\<lambda>p. bind_res (subject_from_record new) (\<lambda>c.
     bind_res (material_subject_changes p c) (\<lambda>changes.
     bind_res (py_int (py_or (dget ''subject_epoch'' p) (PInt 0))) (\<lambda>old_epoch.
     bind_res (py_int (py_or (dget ''subject_epoch'' c) (PInt 0))) (\<lambda>new_epoch.
       Inr \<lparr>ed_rule = subject_epoch_transition_policy (dkeys changes), ed_old = old_epoch, ed_new = new_epoch,
            ed_changed = sorted_set (dkeys changes)\<rparr>)))))"

end
