(* ===== verification/Subject_Props.thy ===== *)
theory Subject_Props
  imports Subject
begin

text \<open>
  What the subject of \<open>subject.py\<close> promises: the canonical form is stable, its fingerprint
  identifies the delivered content, and a material change opens a new epoch in which nothing that
  rested on the old content still counts.
\<close>

section \<open>The canonical form\<close>

text \<open>The keys of a record that its subject reads.\<close>

definition identity_inputs :: "string list" where
  "identity_inputs = material_fields @ [''base_sha'', ''head_sha'', ''diff_hash'']"

definition subject_inputs :: "string list" where
  "subject_inputs = identity_inputs @ [''subject_epoch'', ''subject_version'']"

lemma subject_entries_cong:
  assumes "\<forall>k \<in> set identity_inputs. dget k r = dget k r'"
  shows "subject_entries r e v = subject_entries r' e v"
proof -
  have "head_of r = head_of r'" "model_entries r = model_entries r'"
    "field_or r ''protected_base_sha'' ''base_sha'' = field_or r' ''protected_base_sha'' ''base_sha''"
    "field_or r ''reviewed_diff_hash'' ''diff_hash'' = field_or r' ''reviewed_diff_hash'' ''diff_hash''"
    using assms by (simp_all add: identity_inputs_def material_fields_def head_of_def model_entries_def field_or_def)
  then show ?thesis
    using assms by (simp add: subject_entries_def identity_inputs_def material_fields_def)
qed

lemma subject_from_record_cong:
  assumes "\<forall>k \<in> set subject_inputs. dget k r = dget k r'"
  shows "subject_from_record r = subject_from_record r'"
proof -
  have "dget ''subject_epoch'' r = dget ''subject_epoch'' r'" "dget ''subject_version'' r = dget ''subject_version'' r'"
    "\<forall>k \<in> set identity_inputs. dget k r = dget k r'"
    using assms by (simp_all add: subject_inputs_def)
  then show ?thesis by (simp add: subject_from_record_def subject_entries_cong [of r r'])
qed

lemma subject_fingerprint_cong:
  assumes "\<forall>k \<in> set subject_inputs. dget k r = dget k r'"
  shows "subject_fingerprint sha r = subject_fingerprint sha r'"
  by (simp add: subject_fingerprint_def subject_from_record_cong [OF assms])

lemma model_entries_keys: "dkeys (model_entries r) = [] \<or>
    dkeys (model_entries r) = [''delivery_model'', ''delivery_model_proof_digest'']"
  by (simp add: model_entries_def Let_def)

lemma model_entries_dget:
  "k \<in> set (dkeys (model_entries r)) \<Longrightarrow> dget k (model_entries r) = dget k r"
  by (auto simp: model_entries_def Let_def split: if_splits)

text \<open>Every entry of the subject under its name.\<close>

lemma dget_subject_entries:
  "dget ''repository'' (subject_entries r e v) = dget ''repository'' r"
  "dget ''delivery_model'' (subject_entries r e v) = dget ''delivery_model'' r"
  "dget ''delivery_model_proof_digest'' (subject_entries r e v) = dget ''delivery_model_proof_digest'' r"
  "dget ''protected_base_sha'' (subject_entries r e v) = field_or r ''protected_base_sha'' ''base_sha''"
  "dget ''pr_head_sha'' (subject_entries r e v) = head_of r"
  "dget ''reviewed_diff_hash'' (subject_entries r e v) = field_or r ''reviewed_diff_hash'' ''diff_hash''"
  "dget ''merged_main_sha'' (subject_entries r e v) = dget ''merged_main_sha'' r"
  "dget ''merge_method'' (subject_entries r e v) = dget ''merge_method'' r"
  "dget ''merge_provenance'' (subject_entries r e v) = dget ''merge_provenance'' r"
  "dget ''post_merge_ci_run_id'' (subject_entries r e v) = dget ''post_merge_ci_run_id'' r"
  "dget ''change_contract_hash'' (subject_entries r e v) = dget ''change_contract_hash'' r"
  "dget ''policy_bundle_hash'' (subject_entries r e v) = dget ''policy_bundle_hash'' r"
  "dget ''toolchain_hash'' (subject_entries r e v) = dget ''toolchain_hash'' r"
  "dget ''artifact_digest'' (subject_entries r e v) = dget ''artifact_digest'' r"
  "dget ''release_fingerprint'' (subject_entries r e v) = dget ''release_fingerprint'' r"
  "dget ''sbom_digest'' (subject_entries r e v) = dget ''sbom_digest'' r"
  "dget ''provenance_digest'' (subject_entries r e v) = dget ''provenance_digest'' r"
  "dget ''attestation_digest'' (subject_entries r e v) = dget ''attestation_digest'' r"
  "dget ''production_release_id'' (subject_entries r e v) = dget ''production_release_id'' r"
  "dget ''deployed_revision'' (subject_entries r e v) = dget ''deployed_revision'' r"
  "dget ''artifact_identity'' (subject_entries r e v) = dget ''artifact_identity'' r"
  "dget ''subject_epoch'' (subject_entries r e v) = PInt e"
  "dget ''subject_version'' (subject_entries r e v) = PInt v"
  "dget ''base_sha'' (subject_entries r e v) = PNone"
  "dget ''head_sha'' (subject_entries r e v) = PNone"
  "dget ''diff_hash'' (subject_entries r e v) = PNone"
  by (simp_all add: subject_entries_def model_entries_def Let_def)

lemma subject_entries_again: "subject_entries (subject_entries r e v) e' v' = subject_entries r e' v'"
proof -
  have "model_entries (subject_entries r e v) = model_entries r" "head_of (subject_entries r e v) = head_of r"
    "field_or (subject_entries r e v) ''protected_base_sha'' ''base_sha'' = field_or r ''protected_base_sha'' ''base_sha''"
    "field_or (subject_entries r e v) ''reviewed_diff_hash'' ''diff_hash'' = field_or r ''reviewed_diff_hash'' ''diff_hash''"
    by (simp_all add: model_entries_def [of "subject_entries r e v"] head_of_def [of "subject_entries r e v"]
        field_or_def [of "subject_entries r e v"] dget_subject_entries Let_def model_entries_def [of r] head_of_def [of r])
  then show ?thesis
    by (simp add: subject_entries_def [of "subject_entries r e v"] subject_entries_def [of r e'] dget_subject_entries)
qed

lemma distinct_subject_entries: "distinct (dkeys (subject_entries r e v))"
  using model_entries_keys [of r] by (auto simp: subject_entries_def)

lemma subject_from_record_Inr:
  "subject_from_record r = Inr s \<longleftrightarrow> (\<exists>e v. py_int (py_or (dget ''subject_epoch'' r) (PInt 0)) = Inr e \<and>
     py_int (py_or (dget ''subject_version'' r) (PInt 1)) = Inr v \<and> s = subject_entries r e v)"
  by (auto simp: subject_from_record_def bind_res_Inr)

lemma py_or_int [simp]: "py_or (PInt i) (PInt j) = PInt (if i = 0 then j else i)"
  by (simp add: py_or_def)

lemma py_int_int [simp]: "py_int (PInt i) = Inr i"
  by (simp add: py_int_def)

lemma subject_from_record_again:
  assumes "subject_from_record r = Inr s"
  shows "subject_from_record s = Inr s \<longleftrightarrow> dget ''subject_version'' s \<noteq> PInt 0"
proof -
  from assms obtain e v where s: "s = subject_entries r e v" by (auto simp: subject_from_record_Inr)
  have "subject_from_record s = Inr (subject_entries r e (if v = 0 then 1 else v))"
    unfolding s by (simp add: subject_from_record_def dget_subject_entries subject_entries_again)
  moreover have "subject_entries r e 1 \<noteq> subject_entries r e 0"
    using dget_subject_entries(23) [of r e 1] dget_subject_entries(23) [of r e 0] by auto
  ultimately show ?thesis by (simp add: s dget_subject_entries)
qed

text \<open>
  Reading a canonical subject again gives the same subject, except in one case: a
  subject_version given as a text of value 0 is read as version 0 and then as version 1.
\<close>

theorem canonical_subject_stable:
  assumes "subject_from_record r = Inr s"
  shows "(subject_from_record s = Inr s \<longleftrightarrow> dget ''subject_version'' s \<noteq> PInt 0) \<and>
    (dget ''subject_version'' s = PInt 0 \<longleftrightarrow>
       (\<exists>t. dget ''subject_version'' r = PStr t \<and> int_of_text (str_strip t) = Inr 0))"
proof
  show "subject_from_record s = Inr s \<longleftrightarrow> dget ''subject_version'' s \<noteq> PInt 0"
    using assms by (rule subject_from_record_again)
  from assms obtain version where v: "py_int (py_or (dget ''subject_version'' r) (PInt 1)) = Inr version"
    "dget ''subject_version'' s = PInt version"
    by (auto simp: subject_from_record_Inr dget_subject_entries)
  then show "dget ''subject_version'' s = PInt 0 \<longleftrightarrow>
      (\<exists>t. dget ''subject_version'' r = PStr t \<and> int_of_text (str_strip t) = Inr 0)"
    by (cases "dget ''subject_version'' r")
      (auto simp: py_or_def py_int_def int_of_text_def str_strip_def strip_by_def split: if_splits)
qed

definition demo_record :: pydict where
  "demo_record = [(''repository'', PStr ''acme/shop''), (''head_sha'', PStr (replicate 40 (CHR ''a''))),
     (''base_sha'', PStr (replicate 40 (CHR ''b''))), (''subject_epoch'', PInt 2), (''state'', PStr ''CI_PASS''),
     (''evidence_refs'', PDict [(''TESTS'', PList [PStr ''e1'', PStr ''e2''])])]"

definition demo_subject :: pydict where
  "demo_subject = (case subject_from_record demo_record of Inl _ \<Rightarrow> [] | Inr s \<Rightarrow> s)"

lemma demo_subject: "subject_from_record demo_record = Inr demo_subject"
  by code_simp

theorem canonical_subject_stable_witness:
  "subject_from_record demo_subject = Inr demo_subject \<and> dget ''pr_head_sha'' demo_subject = PStr (replicate 40 (CHR ''a''))"
proof -
  have "dget ''subject_version'' demo_subject \<noteq> PInt 0"
    "dget ''pr_head_sha'' demo_subject = PStr (replicate 40 (CHR ''a''))" by code_simp+
  then show ?thesis using canonical_subject_stable [OF demo_subject] by blast
qed

section \<open>The fingerprint\<close>

lemma sort_keys_int [simp]: "sort_keys v = PInt i \<longleftrightarrow> v = PInt i"
  by (cases v) auto

lemma same_fingerprint:
  assumes "inj sha" and "subject_from_record r = Inr s" and "subject_from_record r' = Inr s'"
  shows "subject_fingerprint sha r = subject_fingerprint sha r' \<longleftrightarrow> sort_keys (PDict s) = sort_keys (PDict s')"
  using assms by (simp add: subject_fingerprint_def sha256_json_inject del: sort_keys.simps)

text \<open>
  C31. Records with equal fingerprints (for a hash without collisions) have the same subject:
  every field compares equal, epoch and version are the same, and no material change lies between
  them.
\<close>

theorem fingerprint_identifies:
  assumes "inj sha" and "subject_fingerprint sha r = Inr f" and "subject_fingerprint sha r' = Inr f"
  shows "\<exists>s s'. subject_from_record r = Inr s \<and> subject_from_record r' = Inr s' \<and>
    (\<forall>k. py_eq (dget k s) (dget k s')) \<and> dget ''subject_epoch'' s = dget ''subject_epoch'' s' \<and>
    dget ''subject_version'' s = dget ''subject_version'' s' \<and> material_subject_changes r r' = Inr []"
proof -
  from assms(2,3) obtain s s' where s: "subject_from_record r = Inr s" and s': "subject_from_record r' = Inr s'"
    by (auto simp: subject_fingerprint_def bind_res_Inr)
  have "sort_keys (PDict s) = sort_keys (PDict s')"
    using same_fingerprint [OF assms(1) s s'] assms(2,3) by simp
  moreover from s obtain e v where s2: "dget ''subject_epoch'' s = PInt e" "dget ''subject_version'' s = PInt v"
    "distinct (dkeys s)"
    by (auto simp: subject_from_record_Inr dget_subject_entries distinct_subject_entries)
  moreover from s' obtain e' v' where s2': "dget ''subject_epoch'' s' = PInt e'" "dget ''subject_version'' s' = PInt v'"
    "distinct (dkeys s')"
    by (auto simp: subject_from_record_Inr dget_subject_entries distinct_subject_entries)
  ultimately have k: "sort_keys (dget k s) = sort_keys (dget k s')" for k
    by (intro sort_keys_dget)
  then have eq: "py_eq (dget k s) (dget k s')" for k by (simp add: py_eq_def)
  then have "material_subject_changes r r' = Inr []" using s s' by (simp add: material_subject_changes_def)
  then show ?thesis
    using s s' eq k [of "''subject_epoch''"] k [of "''subject_version''"] s2 s2' by auto
qed

theorem fingerprint_identifies_witness:
  "\<exists>s s'. subject_from_record demo_record = Inr s \<and> subject_from_record demo_subject = Inr s' \<and>
    (\<forall>k. py_eq (dget k s) (dget k s')) \<and> dget ''subject_epoch'' s = dget ''subject_epoch'' s' \<and>
    dget ''subject_version'' s = dget ''subject_version'' s' \<and> material_subject_changes demo_record demo_subject = Inr []"
proof -
  have "subject_fingerprint (\<lambda>s. s) demo_record = subject_fingerprint (\<lambda>s. s) demo_subject" by code_simp
  then obtain f where "subject_fingerprint (\<lambda>s. s) demo_record = Inr f" "subject_fingerprint (\<lambda>s. s) demo_subject = Inr f"
    using demo_subject by (auto simp: subject_fingerprint_def)
  from fingerprint_identifies [OF _ this] show ?thesis by simp
qed

section \<open>Applying an update\<close>

lemma material_entries:
  "f \<in> set material_fields \<Longrightarrow> dget f (subject_entries r e v) = dget f (subject_entries r e' v')"
  by (auto simp: material_fields_def dget_subject_entries)

lemma material_changes_of:
  assumes "subject_from_record r = Inr (subject_entries p e v)" and "subject_from_record r' = Inr (subject_entries c e' v')"
  shows "material_subject_changes r r' = Inr (map (\<lambda>f. (f, PDict [(''old'', dget f (subject_entries p 0 1)),
      (''new'', dget f (subject_entries c 0 1))]))
    (filter (\<lambda>f. \<not> py_eq (dget f (subject_entries p 0 1)) (dget f (subject_entries c 0 1))) material_fields))"
proof -
  have "filter (\<lambda>f. \<not> py_eq (dget f (subject_entries p e v)) (dget f (subject_entries c e' v'))) material_fields =
      filter (\<lambda>f. \<not> py_eq (dget f (subject_entries p 0 1)) (dget f (subject_entries c 0 1))) material_fields"
    by (intro filter_cong refl) (metis material_entries)
  then show ?thesis
    unfolding material_subject_changes_def using assms
    by (auto intro!: map_cong dest: material_entries [where r = p and e = e and v = v and e' = 0 and v' = 1]
        material_entries [where r = c and e = e' and v = v' and e' = 0 and v' = 1])
qed

lemma material_changes_again:
  assumes "subject_from_record r = Inr s" and "subject_from_record r' = Inr s'"
  shows "material_subject_changes s s' = material_subject_changes r r'"
proof -
  from assms obtain e v e' v' where s: "s = subject_entries r e v" "s' = subject_entries r' e' v'"
    by (auto simp: subject_from_record_Inr)
  have again: "\<exists>e2 v2. subject_from_record (subject_entries q e v) = Inr (subject_entries q e2 v2)" for q e v
    by (simp add: subject_from_record_def dget_subject_entries subject_entries_again) blast
  from again obtain e2 v2 where a: "subject_from_record s = Inr (subject_entries r e2 v2)" unfolding s by blast
  from again obtain e3 v3 where b: "subject_from_record s' = Inr (subject_entries r' e3 v3)" unfolding s by blast
  show ?thesis
    using material_changes_of [OF a b] material_changes_of [of r r e v r' r' e' v'] assms s by simp
qed

lemma dget_withdraw:
  "k \<notin> {''state'', ''resume_state'', ''blocked_target'', ''blockers'', ''final_state''} \<Longrightarrow> dget k (withdraw changed r) = dget k r"
  by (simp add: withdraw_def Let_def)

lemma withdraw_state:
  "py_str (py_or (dget ''state'' (withdraw changed r)) (PStr [])) \<in> set (''ROLLBACK_REQUIRED'' # early_states)"
  by (auto simp: withdraw_def Let_def early_states_def post_production_states_def py_or_def)

lemma retire_refs_result:
  assumes "retire_refs r = Inr r'"
  shows "\<not> truthy (dget ''evidence_refs'' r') \<and>
    (\<forall>k. k \<notin> {''evidence_refs'', ''historical_evidence_refs''} \<longrightarrow> dget k r' = dget k r)"
  using assms
  by (auto simp: retire_refs_def current_refs_def dict_or_raise_def bind_res_Inr Let_def py_or_def
      split: if_splits pyval.splits)

text \<open>The record after a material change, key by key.\<close>

lemma open_epoch_result:
  assumes "open_epoch sha now reason before r1 changed = Inr r'"
  obtains old_epoch fp where
    "py_int (py_or (dget ''subject_epoch'' before) (PInt 0)) = Inr old_epoch"
    "dget ''subject_epoch'' r' = PInt (old_epoch + 1)"
    "\<forall>k \<in> set identity_inputs. dget k r' = dget k r1"
    "subject_fingerprint sha r' = Inr fp" "dget ''subject_fingerprint'' r' = PStr fp"
    "\<not> truthy (dget ''evidence_refs'' r')"
    "py_str (py_or (dget ''state'' r') (PStr [])) \<in> set (''ROLLBACK_REQUIRED'' # early_states)"
    "dget ''authoritative_lifecycle'' r' = dget ''authoritative_lifecycle'' r1"
proof -
  from assms obtain old_epoch version fp r3 r4 ms where
    e: "py_int (py_or (dget ''subject_epoch'' before) (PInt 0)) = Inr old_epoch"
    and r3: "r3 = dset ''subject_version'' (PInt (max version 1)) (dset ''subject_epoch'' (PInt (old_epoch + 1)) r1)"
    and fp: "subject_fingerprint sha r3 = Inr fp"
    and r4: "retire_refs (dset ''subject_fingerprint'' (PStr fp) r3) = Inr r4"
    and r': "r' = withdraw changed (dset ''subject_mutations'' ms r4)"
    by (auto simp: open_epoch_def bind_res_Inr Let_def)
  note k4 = retire_refs_result [OF r4]
  have same: "dget k r' = dget k r3"
    if "k \<notin> {''state'', ''resume_state'', ''blocked_target'', ''blockers'', ''final_state'', ''subject_mutations'',
        ''evidence_refs'', ''historical_evidence_refs'', ''subject_fingerprint''}" for k
    using that k4 unfolding r' by (simp add: dget_withdraw)
  have "subject_fingerprint sha r' = subject_fingerprint sha r3"
    by (rule subject_fingerprint_cong)
      (simp add: subject_inputs_def identity_inputs_def material_fields_def same)
  moreover have "py_str (py_or (dget ''state'' r') (PStr [])) \<in> set (''ROLLBACK_REQUIRED'' # early_states)"
    unfolding r' by (rule withdraw_state)
  ultimately show thesis
    using e fp k4 by (intro that [of old_epoch fp])
      (simp_all add: same r' dget_withdraw r3 identity_inputs_def material_fields_def)
qed

lemma unsealed_inputs: "k \<in> set subject_inputs \<Longrightarrow> dget k (unsealed r) = dget k r"
  by (auto simp: unsealed_def subject_inputs_def identity_inputs_def material_fields_def)

lemma unsealed_subject: "subject_from_record (unsealed r) = subject_from_record r"
  by (rule subject_from_record_cong) (simp add: unsealed_inputs)

lemma with_updates_frame:
  assumes "set (dkeys updates) \<subseteq> set material_fields" and "k \<notin> set identity_inputs"
  shows "dget k (with_updates r updates) = dget k r"
proof -
  have "k \<notin> set (dkeys updates)" using assms by (auto simp: identity_inputs_def)
  then show ?thesis
    using assms(2) by (auto simp: with_updates_def Let_def identity_inputs_def dget_dict_merge)
qed

text \<open>
  C22. apply_subject_update returns a record without lifecycle authority whose fingerprint is that
  of its subject. If no material field changed, epoch, state and evidence stay; otherwise the
  epoch is one higher, no current evidence is left, and the state is an early one, BLOCKED or
  ROLLBACK_REQUIRED: nothing that rested on the old content still counts.
\<close>

theorem update_opens_epoch:
  assumes "apply_subject_update sha now r updates reason = Inr r'"
  shows "\<exists>changes fp. material_subject_changes r r' = Inr changes \<and>
    subject_fingerprint sha r' = Inr fp \<and> dget ''subject_fingerprint'' r' = PStr fp \<and>
    dget ''authoritative_lifecycle'' r' = PBool False \<and>
    (if changes = [] then dget ''subject_epoch'' r' = dget ''subject_epoch'' r \<and> dget ''state'' r' = dget ''state'' r \<and>
         dget ''evidence_refs'' r' = dget ''evidence_refs'' r
     else (\<exists>n. py_int (py_or (dget ''subject_epoch'' r) (PInt 0)) = Inr n \<and> dget ''subject_epoch'' r' = PInt (n + 1)) \<and>
         \<not> truthy (dget ''evidence_refs'' r') \<and>
         py_str (py_or (dget ''state'' r') (PStr [])) \<in> set (''ROLLBACK_REQUIRED'' # early_states))"
proof -
  let ?r1 = "with_updates (unsealed r) updates"
  from assms obtain before after changes where keys: "set (dkeys updates) \<subseteq> set material_fields"
    and b: "subject_from_record r = Inr before" and a: "subject_from_record ?r1 = Inr after"
    and c: "material_subject_changes before after = Inr changes"
    and res: "if changes = [] then \<exists>fp. subject_fingerprint sha ?r1 = Inr fp \<and> r' = dset ''subject_fingerprint'' (PStr fp) ?r1
       else open_epoch sha now reason before ?r1 (dkeys changes) = Inr r'"
    by (auto simp: apply_subject_update_def bind_res_Inr Let_def unsealed_subject subset_iff filter_empty_conv
        split: if_splits)
  note frame = with_updates_frame [OF keys, of _ "unsealed r"]
  have lifecycle: "dget ''authoritative_lifecycle'' ?r1 = PBool False" "dget ''subject_epoch'' ?r1 = dget ''subject_epoch'' r"
    "dget ''state'' ?r1 = dget ''state'' r" "dget ''evidence_refs'' ?r1 = dget ''evidence_refs'' r"
    by (subst frame; simp add: identity_inputs_def material_fields_def unsealed_def)+
  have mc: "material_subject_changes r ?r1 = Inr changes" using material_changes_again [OF b a] c by simp
  show ?thesis
  proof (cases "changes = []")
    case True
    then obtain fp where fp: "subject_fingerprint sha ?r1 = Inr fp" and r': "r' = dset ''subject_fingerprint'' (PStr fp) ?r1"
      using res by auto
    have "subject_from_record r' = subject_from_record ?r1" unfolding r'
      by (rule subject_from_record_cong) (simp add: subject_inputs_def identity_inputs_def material_fields_def)
    then have "material_subject_changes r r' = Inr changes" "subject_fingerprint sha r' = Inr fp"
      using mc fp by (simp_all add: material_subject_changes_def subject_fingerprint_def)
    then show ?thesis using True lifecycle by (auto simp: r')
  next
    case False
    then have "open_epoch sha now reason before ?r1 (dkeys changes) = Inr r'" using res by simp
    then show ?thesis
    proof (rule open_epoch_result)
      fix old_epoch fp
      assume e: "py_int (py_or (dget ''subject_epoch'' before) (PInt 0)) = Inr old_epoch"
        and k: "\<forall>k \<in> set identity_inputs. dget k r' = dget k ?r1"
        and rest: "dget ''subject_epoch'' r' = PInt (old_epoch + 1)" "subject_fingerprint sha r' = Inr fp"
          "dget ''subject_fingerprint'' r' = PStr fp" "\<not> truthy (dget ''evidence_refs'' r')"
          "py_str (py_or (dget ''state'' r') (PStr [])) \<in> set (''ROLLBACK_REQUIRED'' # early_states)"
          "dget ''authoritative_lifecycle'' r' = dget ''authoritative_lifecycle'' ?r1"
      from rest(2) obtain s' where s': "subject_from_record r' = Inr s'" by (auto simp: subject_fingerprint_def bind_res_Inr)
      have "material_subject_changes r r' = material_subject_changes r ?r1"
        using s' a b subject_entries_cong [OF k, of 0 1] by (auto simp: subject_from_record_Inr material_changes_of)
      then show ?thesis
        using mc rest e b lifecycle False by (auto simp: subject_from_record_Inr dget_subject_entries)
    qed
  qed
qed

definition demo_digest :: pyval where
  "demo_digest = PStr (''sha256:'' @ replicate 64 (CHR ''0''))"

definition demo_updated :: pydict where
  "demo_updated = (case apply_subject_update (\<lambda>_. ''h'') ''t1'' demo_record [(''reviewed_diff_hash'', demo_digest)] ''review'' of
     Inl _ \<Rightarrow> [] | Inr r \<Rightarrow> r)"

lemma demo_updated: "apply_subject_update (\<lambda>_. ''h'') ''t1'' demo_record [(''reviewed_diff_hash'', demo_digest)] ''review'' =
    Inr demo_updated"
  by code_simp

theorem update_opens_epoch_witness:
  "(\<exists>changes. changes \<noteq> [] \<and> material_subject_changes demo_record demo_updated = Inr changes) \<and>
    dget ''subject_epoch'' demo_updated = PInt 3 \<and> \<not> truthy (dget ''evidence_refs'' demo_updated) \<and>
    py_str (py_or (dget ''state'' demo_updated) (PStr [])) \<in> set (''ROLLBACK_REQUIRED'' # early_states)"
proof -
  have "material_subject_changes demo_record demo_updated = Inr [(''reviewed_diff_hash'', PDict [(''old'', PNone), (''new'', demo_digest)])]"
    by code_simp
  moreover have "py_int (py_or (dget ''subject_epoch'' demo_record) (PInt 0)) = Inr 2" by code_simp
  ultimately show ?thesis using update_opens_epoch [OF demo_updated] by auto
qed

end
