(* ===== verification/Trust.thy ===== *)
theory Trust
  imports Py_Value
begin

text \<open>
  Who is trusted to sign: the trust-root snapshots of \<open>trust.py\<close> and the signature check of
  \<open>crypto.py\<close>. The key library is a parameter: it reads a PEM text as a key or an error, and an
  Ed25519 key answers whether a signature of a payload is its own.
\<close>

section \<open>Trust-root authorities\<close>

record trust_authority =
  ta_roots :: pydict
  ta_source :: string
  ta_host_accepted :: bool
  ta_digest :: string
  ta_acceptance :: string

text \<open>\<open>token\<close>: the caller presented the private host token.\<close>

definition make_authority ::
  "(string \<Rightarrow> string) \<Rightarrow> bool \<Rightarrow> pydict \<Rightarrow> string \<Rightarrow> bool \<Rightarrow> string \<Rightarrow> string \<Rightarrow> trust_authority res" where
  "make_authority sha token roots source host digest acceptance =
     (if (host \<or> source = ''HOST_ACCEPTED'') \<and> \<not> token
      then Inl (PermissionError ''Only the host trust-root loader may create host-accepted authority'')
      else if sha256_json sha (PDict roots) \<noteq> digest
      then Inl (ValueError ''Trust-root configuration digest does not match its immutable contents'')
      else if host \<and> source \<noteq> ''HOST_ACCEPTED''
      then Inl (ValueError ''Only HOST_ACCEPTED trust roots may claim host acceptance'')
      else if host \<and> str_strip acceptance = []
      then Inl (ValueError ''Host-accepted trust roots require an acceptance identity'')
      else Inr \<lparr>ta_roots = roots, ta_source = source, ta_host_accepted = host, ta_digest = digest,
                ta_acceptance = acceptance\<rparr>)"

definition from_host_accepted ::
  "(string \<Rightarrow> string) \<Rightarrow> bool \<Rightarrow> pydict \<Rightarrow> string \<Rightarrow> string \<Rightarrow> trust_authority res" where
  "from_host_accepted sha token roots accepted acceptance =
     (if \<not> token
      then Inl (PermissionError ''Only the host trust-root loader may create host-accepted authority; local callers can create verification fixtures but cannot self-authorize'')
      else let actual = sha256_json sha (PDict roots) in
        if actual \<noteq> accepted
        then Inl (PermissionError ''Host-accepted trust-root digest does not match the supplied configuration'')
        else if str_strip acceptance = []
        then Inl (PermissionError ''Host trust-root acceptance identity is required'')
        else make_authority sha True roots ''HOST_ACCEPTED'' True actual acceptance)"

definition from_test_fixture :: "(string \<Rightarrow> string) \<Rightarrow> pydict \<Rightarrow> trust_authority res" where
  "from_test_fixture sha roots =
     make_authority sha False roots ''TEST_FIXTURE'' False (sha256_json sha (PDict roots)) ''test-fixture''"

definition is_authoritative :: "bool \<Rightarrow> trust_authority \<Rightarrow> bool" where
  "is_authoritative allow_test_fixture a \<longleftrightarrow>
     ta_host_accepted a \<or> (allow_test_fixture \<and> ta_source a = ''TEST_FIXTURE'')"

text \<open>A file as the loader sees it, and the errors of its content against the schema of trust roots.\<close>

record root_file =
  rf_symlink :: bool
  rf_regular :: bool
  rf_suffix :: string
  rf_value :: pyval

definition load_host_accepted_trust_roots ::
  "(string \<Rightarrow> string) \<Rightarrow> (pyval \<Rightarrow> string list) \<Rightarrow> bool \<Rightarrow> root_file \<Rightarrow> string \<Rightarrow> string \<Rightarrow> trust_authority res" where
  "load_host_accepted_trust_roots sha schema_errors token file accepted acceptance =
     (if \<not> token
      then Inl (PermissionError ''Trust-root custody is HOST_CAPABILITY_UNPROVEN; only a host-owned acceptance boundary may authorize roots'')
      else if rf_symlink file \<or> \<not> rf_regular file
      then Inl (ConfigurationError ''Host trust roots must be a regular non-symlink JSON file'')
      else if str_lower (rf_suffix file) \<noteq> ''.json'' then Inl (ConfigurationError ''Host trust roots must use JSON'')
      else case rf_value file of
        PDict roots \<Rightarrow>
          let errors = schema_errors (PDict roots) in
          if errors \<noteq> [] then Inl (ConfigurationError (''Invalid host trust roots: '' @ join_with ''; '' errors))
          else from_host_accepted sha token roots accepted acceptance
      | _ \<Rightarrow> Inl (ConfigurationError ''Host trust roots must be an object''))"

datatype trust_value = TV_Authority trust_authority | TV_Mapping pydict | TV_Other

fun trust_root_payload :: "trust_value \<Rightarrow> pydict option" where
  "trust_root_payload (TV_Authority a) = Some (ta_roots a)"
| "trust_root_payload (TV_Mapping d) = Some d"
| "trust_root_payload TV_Other = None"

fun is_host_accepted_trust_roots :: "trust_value \<Rightarrow> bool" where
  "is_host_accepted_trust_roots (TV_Authority a) = ta_host_accepted a"
| "is_host_accepted_trust_roots _ = False"

lemma make_authority_Inr:
  "make_authority sha token roots source host digest acceptance = Inr a \<longleftrightarrow>
     (host \<or> source = ''HOST_ACCEPTED'' \<longrightarrow> token) \<and> sha256_json sha (PDict roots) = digest \<and>
     (host \<longrightarrow> source = ''HOST_ACCEPTED'' \<and> str_strip acceptance \<noteq> []) \<and>
     a = \<lparr>ta_roots = roots, ta_source = source, ta_host_accepted = host, ta_digest = digest, ta_acceptance = acceptance\<rparr>"
  by (auto simp: make_authority_def)

section \<open>Signatures\<close>

definition b64_val :: "char \<Rightarrow> nat option" where
  "b64_val c =
     (let n = (of_char c :: nat) in
      if 65 \<le> n \<and> n \<le> 90 then Some (n - 65) else if 97 \<le> n \<and> n \<le> 122 then Some (n - 71)
      else if 48 \<le> n \<and> n \<le> 57 then Some (n + 4) else if n = 43 then Some 62 else if n = 47 then Some 63 else None)"

fun b64_bytes :: "nat list \<Rightarrow> string" where
  "b64_bytes (a # b # c # d # r) =
     char_of (a * 4 + b div 16) # char_of ((b mod 16) * 16 + c div 4) # char_of ((c mod 4) * 64 + d) # b64_bytes r"
| "b64_bytes [a, b, c] = [char_of (a * 4 + b div 16), char_of ((b mod 16) * 16 + c div 4)]"
| "b64_bytes [a, b] = [char_of (a * 4 + b div 16)]"
| "b64_bytes _ = []"

text \<open>\<open>base64.b64decode(text, validate=True)\<close>.\<close>

definition b64_decode :: "string \<Rightarrow> string option" where
  "b64_decode s =
     (let body = takeWhile (\<lambda>c. c \<noteq> CHR ''='') s; pad = drop (length body) s in
      if length s mod 4 \<noteq> 0 \<or> pad \<notin> {[], ''='', ''==''} \<or> (\<exists>c \<in> set body. b64_val c = None) then None
      else Some (b64_bytes (map (\<lambda>c. the (b64_val c)) body)))"

datatype pem_key = Bad_Key string | Other_Key | Ed_Key "string \<Rightarrow> string \<Rightarrow> bool"

definition evidence_signing_payload :: "pydict \<Rightarrow> string" where
  "evidence_signing_payload r = canonical_json (PDict (dset ''signature_or_attestation'' PNone r))"

definition matches_constraint :: "string \<Rightarrow> pyval list \<Rightarrow> bool" where
  "matches_constraint value allowed \<longleftrightarrow> PStr ''*'' \<in> set allowed \<or> PStr value \<in> set allowed"

definition cut_at :: "char \<Rightarrow> string \<Rightarrow> (string \<times> string) option" where
  "cut_at c s = (case dropWhile (\<lambda>x. x \<noteq> c) s of [] \<Rightarrow> None | _ # r \<Rightarrow> Some (takeWhile (\<lambda>x. x \<noteq> c) s, r))"

lemma cut_at_Some:
  assumes "cut_at c s = Some (a, r)"
  shows "s = a @ c # r"
proof -
  obtain x where d: "dropWhile (\<lambda>x. x \<noteq> c) s = x # r" and a: "a = takeWhile (\<lambda>x. x \<noteq> c) s"
    using assms by (auto simp: cut_at_def split: list.splits)
  then have "x = c" using hd_dropWhile [of "\<lambda>x. x \<noteq> c" s] by simp
  then show ?thesis using takeWhile_dropWhile_id [of "\<lambda>x. x \<noteq> c" s] d a by simp
qed

text \<open>\<open>token.split(":", 2)\<close> when it has three parts.\<close>

definition split3 :: "string \<Rightarrow> (string \<times> string \<times> string) option" where
  "split3 s =
     (case cut_at (CHR '':'') s of
        None \<Rightarrow> None
      | Some (a, r) \<Rightarrow> map_option (\<lambda>(b, c). (a, b, c)) (cut_at (CHR '':'') r))"

lemma split3_Some: "split3 s = Some (a, b, c) \<Longrightarrow> s = a @ '':'' @ b @ '':'' @ c"
  by (auto simp: split3_def dest!: cut_at_Some split: option.splits)

definition text_field :: "string \<Rightarrow> pydict \<Rightarrow> string" where
  "text_field k r = py_str (dget_default k (PStr []) r)"

definition key_errors :: "pydict \<Rightarrow> string \<Rightarrow> pydict \<Rightarrow> string list res" where
  "key_errors record key_id key =
     bind_res (in_names (dget_default ''status'' (PStr ''ACTIVE'') key) [''ACTIVE'', ''VERIFY_ONLY'']) (\<lambda>trusted.
     bind_res (py_list (dget_default ''allowed_trust_levels'' (PList []) key)) (\<lambda>levels.
     bind_res (py_list (dget_default ''allowed_producers'' (PList []) key)) (\<lambda>producers.
     bind_res (py_list (dget_default ''allowed_types'' (PList [PStr ''*'']) key)) (\<lambda>types.
     bind_res (py_list (dget_default ''allowed_environments'' (PList [PStr ''*'']) key)) (\<lambda>environments.
       Inr (err_if (\<not> trusted) (''Evidence signing key is not trusted for verification: '' @ key_id) @
            err_if (\<not> matches_constraint (text_field ''trust_level'' record) levels)
              ''Signing key is not authorized for this trust level'' @
            err_if (\<not> matches_constraint (text_field ''producer'' record) producers)
              ''Signing key is not authorized for this producer'' @
            err_if (\<not> matches_constraint (text_field ''type'' record) types)
              ''Signing key is not authorized for this evidence type'' @
            err_if (\<not> matches_constraint (text_field ''environment'' record) environments)
              ''Signing key is not authorized for this environment''))))))"

definition check_signature :: "(string \<Rightarrow> pem_key) \<Rightarrow> pydict \<Rightarrow> string \<Rightarrow> pydict \<Rightarrow> string \<Rightarrow> string list" where
  "check_signature load_pem record key_id key encoded =
     (case b64_decode encoded of
        None \<Rightarrow> [''Evidence signature is not valid base64'']
      | Some signature \<Rightarrow>
          (case dget ''public_key_pem'' key of
             PStr pem \<Rightarrow>
               if str_strip pem = [] then [''Trust root '' @ key_id @ '' lacks public_key_pem'']
               else (case load_pem pem of
                       Bad_Key e \<Rightarrow> [''Invalid trust-root public key: '' @ e]
                     | Other_Key \<Rightarrow> [''Only Ed25519 public keys are supported'']
                     | Ed_Key verify \<Rightarrow>
                         if verify signature (evidence_signing_payload record) then []
                         else [''Evidence signature verification failed''])
           | _ \<Rightarrow> [''Trust root '' @ key_id @ '' lacks public_key_pem'']))"

definition verify_evidence_signature :: "(string \<Rightarrow> pem_key) \<Rightarrow> pydict \<Rightarrow> pydict \<Rightarrow> string list res" where
  "verify_evidence_signature load_pem record roots =
     (case dget ''signature_or_attestation'' record of
        PStr token \<Rightarrow>
          if token = [] then Inr [''Authoritative evidence lacks a signature'']
          else (case split3 token of
                  Some (algorithm, key_id, encoded) \<Rightarrow>
                    if algorithm \<noteq> ''ed25519'' then Inr [''Unsupported evidence signature format'']
                    else (case dget_default ''keys'' (PDict []) roots of
                            PDict keys \<Rightarrow>
                              (case dget key_id keys of
                                 PDict key \<Rightarrow> bind_res (key_errors record key_id key) (\<lambda>errors.
                                   if errors \<noteq> [] then Inr errors
                                   else Inr (check_signature load_pem record key_id key encoded))
                               | _ \<Rightarrow> Inr [''Unknown evidence signing key: '' @ key_id])
                          | _ \<Rightarrow> Inr [''Unknown evidence signing key: '' @ key_id])
                | None \<Rightarrow> Inr [''Unsupported evidence signature format''])
      | _ \<Rightarrow> Inr [''Authoritative evidence lacks a signature''])"

text \<open>What an accepted signature shows.\<close>

definition signed_by :: "(string \<Rightarrow> pem_key) \<Rightarrow> pydict \<Rightarrow> pydict \<Rightarrow> bool" where
  "signed_by load_pem roots record \<longleftrightarrow>
     (\<exists>key_id encoded keys key pem verify signature levels producers.
        dget ''signature_or_attestation'' record = PStr (''ed25519:'' @ key_id @ '':'' @ encoded) \<and>
        dget_default ''keys'' (PDict []) roots = PDict keys \<and> dget key_id keys = PDict key \<and>
        dget_default ''status'' (PStr ''ACTIVE'') key \<in> {PStr ''ACTIVE'', PStr ''VERIFY_ONLY''} \<and>
        py_list (dget_default ''allowed_trust_levels'' (PList []) key) = Inr levels \<and>
        matches_constraint (text_field ''trust_level'' record) levels \<and>
        py_list (dget_default ''allowed_producers'' (PList []) key) = Inr producers \<and>
        matches_constraint (text_field ''producer'' record) producers \<and>
        dget ''public_key_pem'' key = PStr pem \<and> load_pem pem = Ed_Key verify \<and>
        b64_decode encoded = Some signature \<and> verify signature (evidence_signing_payload record))"

lemma accepted_signature:
  assumes "verify_evidence_signature load_pem record roots = Inr []"
  shows "signed_by load_pem roots record"
  using assms
  by (fastforce simp: verify_evidence_signature_def signed_by_def key_errors_def check_signature_def bind_res_Inr in_names_True
      split: pyval.splits option.splits if_splits prod.splits pem_key.splits dest!: split3_Some)

end
