(* ===== verification/Iso_Time.thy ===== *)
theory Iso_Time
  imports Py_Value
begin

text \<open>
  Timestamps: \<open>datetime.fromisoformat\<close> on calendar dates (ISO week dates are not accepted by this
  model), and \<open>_parse_time\<close> of \<open>evidence.py\<close> on top of it. An instant is the number of
  microseconds since the first day of year 1 in UTC.
\<close>

definition is_leap :: "int \<Rightarrow> bool" where
  "is_leap y \<longleftrightarrow> y mod 4 = 0 \<and> (y mod 100 \<noteq> 0 \<or> y mod 400 = 0)"

definition month_days :: "int \<Rightarrow> int \<Rightarrow> int" where
  "month_days y m = (if m = 2 then if is_leap y then 29 else 28 else if m \<in> {4, 6, 9, 11} then 30 else 31)"

text \<open>Days before a date, counted from 0001-01-01.\<close>

definition days_before_year :: "int \<Rightarrow> int" where
  "days_before_year y = (y - 1) * 365 + (y - 1) div 4 - (y - 1) div 100 + (y - 1) div 400"

definition day_number :: "int \<Rightarrow> int \<Rightarrow> int \<Rightarrow> int" where
  "day_number y m d = days_before_year y + sum_list (map (month_days y) [1..m - 1]) + (d - 1)"

definition int_of_digits :: "string \<Rightarrow> int" where
  "int_of_digits s = foldl (\<lambda>n c. n * 10 + (int (of_char c) - 48)) 0 s"

definition digits_of :: "nat \<Rightarrow> string \<Rightarrow> (int \<times> string) option" where
  "digits_of n s =
     (let ds = take n s in if length ds = n \<and> (\<forall>c \<in> set ds. is_digit c) then Some (int_of_digits ds, drop n s) else None)"

definition iso_date :: "string \<Rightarrow> (int \<times> string) option" where
  "iso_date s =
     (case digits_of 4 s of
        None \<Rightarrow> None
      | Some (y, r) \<Rightarrow>
          let dashed = (r \<noteq> [] \<and> hd r = CHR ''-'') in
          (case digits_of 2 (if dashed then tl r else r) of
             None \<Rightarrow> None
           | Some (m, r2) \<Rightarrow>
               if dashed \<and> (r2 = [] \<or> hd r2 \<noteq> CHR ''-'') then None
               else (case digits_of 2 (if dashed then tl r2 else r2) of
                       None \<Rightarrow> None
                     | Some (d, r3) \<Rightarrow>
                         if 1 \<le> y \<and> 1 \<le> m \<and> m \<le> 12 \<and> 1 \<le> d \<and> d \<le> month_days y m
                         then Some (day_number y m d, r3) else None)))"

definition fraction :: "string \<Rightarrow> int option" where
  "fraction s = (if s \<noteq> [] \<and> (\<forall>c \<in> set s. is_digit c) then Some (int_of_digits (take 6 (s @ ''00000''))) else None)"

text \<open>\<open>HH[:MM[:SS[.ffffff]]]\<close>, with or without the colons.\<close>

definition iso_clock :: "string \<Rightarrow> (int \<times> int \<times> int \<times> int) option" where
  "iso_clock s =
     (case digits_of 2 s of
        None \<Rightarrow> None
      | Some (h, r) \<Rightarrow>
          if r = [] then Some (h, 0, 0, 0)
          else let colon = (hd r = CHR '':'') in
          (case digits_of 2 (if colon then tl r else r) of
             None \<Rightarrow> None
           | Some (m, r2) \<Rightarrow>
               if r2 = [] then Some (h, m, 0, 0)
               else if colon \<and> hd r2 \<noteq> CHR '':'' then None
               else (case digits_of 2 (if colon then tl r2 else r2) of
                       None \<Rightarrow> None
                     | Some (sec, r3) \<Rightarrow>
                         if r3 = [] then Some (h, m, sec, 0)
                         else if hd r3 = CHR ''.'' \<or> hd r3 = CHR '',''
                         then map_option (\<lambda>us. (h, m, sec, us)) (fraction (tl r3)) else None)))"

definition clock_micros :: "int \<times> int \<times> int \<times> int \<Rightarrow> int" where
  "clock_micros c = (case c of (h, m, s, us) \<Rightarrow> ((h * 60 + m) * 60 + s) * 1000000 + us)"

definition day_micros :: int where
  "day_micros = 86400000000"

definition iso_offset :: "string \<Rightarrow> int option" where
  "iso_offset s =
     (if s = [] then None
      else case iso_clock (tl s) of
        None \<Rightarrow> None
      | Some c \<Rightarrow> if clock_micros c < day_micros
                  then Some (if hd s = CHR ''-'' then - clock_micros c else clock_micros c) else None)"

text \<open>The local time and, when there is one, the offset from UTC.\<close>

definition from_iso :: "string \<Rightarrow> (int \<times> int option) option" where
  "from_iso s =
     (case iso_date s of
        None \<Rightarrow> None
      | Some (day, r) \<Rightarrow>
          if length r \<le> 1 then Some (day * day_micros, None)
          else let time = tl r;
                   clock = takeWhile (\<lambda>c. c \<noteq> CHR ''+'' \<and> c \<noteq> CHR ''-'') time;
                   zone = drop (length clock) time
          in (case iso_clock clock of
                None \<Rightarrow> None
              | Some (h, m, sec, us) \<Rightarrow>
                  if 24 \<le> h \<or> 60 \<le> m \<or> 60 \<le> sec then None
                  else let local = day * day_micros + clock_micros (h, m, sec, us) in
                    if zone = [] then Some (local, None)
                    else map_option (\<lambda>off. (local, Some off)) (iso_offset zone)))"

definition max_instant :: int where
  "max_instant = (day_number 9999 12 31 + 1) * day_micros"

definition parse_time :: "pyval \<Rightarrow> int option res" where
  "parse_time v =
     (case v of
        PStr s \<Rightarrow>
          if s = [] then Inr None
          else (case from_iso (concat (map (\<lambda>c. if c = CHR ''Z'' then ''+00:00'' else [c]) s)) of
                  Some (local, Some off) \<Rightarrow>
                    if 0 \<le> local - off \<and> local - off < max_instant then Inr (Some (local - off))
                    else Inl (OverflowError ''date value out of range'')
                | _ \<Rightarrow> Inr None)
      | _ \<Rightarrow> Inr None)"

end
