(* ===== verification/Evidence.thy ===== *)
theory Evidence
  imports Subject Trust Iso_Time "HOL-Library.AList"
begin

text \<open>
  \<open>evidence.py\<close>: when an evidence record supports a gate. A record must be of sufficient trust,
  bound to the subject, not expired, produced by a registered executor when it claims a machine
  run, and from level E3 on signed by a key of the configured trust roots. The JSON Schema
  validator and the key library are parameters.
\<close>

section \<open>Trust levels and fields\<close>

definition trust_order :: "(string \<times> int) list" where
  "trust_order = [(''E0'', 0), (''E1'', 1), (''E2'', 2), (''E3'', 3), (''E4'', 4), (''E5'', 5), (''E6'', 6)]"

definition trust_or :: "string \<Rightarrow> int \<Rightarrow> int" where
  "trust_or level dflt = (case map_of trust_order level of None \<Rightarrow> dflt | Some n \<Rightarrow> n)"

definition affirmative_statuses :: "string list" where
  "affirmative_statuses = [''PASSED'', ''SUCCESS'', ''VERIFIED'', ''APPROVED'', ''COMPLETED'', ''READY'', ''ACTIVE'']"

definition subject_required_fields :: "string list" where
  "subject_required_fields = [''repository'', ''protected_base_sha'', ''pr_head_sha'', ''reviewed_diff_hash'',
     ''change_contract_hash'', ''policy_bundle_hash'', ''toolchain_hash'']"

definition subject_optional_fields :: "string list" where
  "subject_optional_fields = [''delivery_model'', ''delivery_model_proof_digest'', ''artifact_digest'',
     ''release_fingerprint'', ''sbom_digest'', ''provenance_digest'', ''attestation_digest'', ''production_release_id'',
     ''deployed_revision'', ''artifact_identity'', ''merged_main_sha'', ''merge_method'', ''merge_provenance'',
     ''post_merge_ci_run_id'', ''subject_epoch'', ''subject_version'']"

section \<open>The subject of the evidence\<close>

definition none_or :: "(pyval \<Rightarrow> bool) \<Rightarrow> pyval \<Rightarrow> bool" where
  "none_or P v \<longleftrightarrow> v = PNone \<or> P v"

definition evidence_subject_errors :: "pydict \<Rightarrow> string list res" where
  "evidence_subject_errors s =
     bind_res (none_or_in (dget ''merge_method'' s) merge_methods) (\<lambda>method_ok.
       let missing = filter (\<lambda>f. \<not> truthy (dget f s)) subject_required_fields;
           active = py_or (dget ''merged_main_sha'' s) (dget ''pr_head_sha'' s);
           deployed = dget ''deployed_revision'' s;
           extra = sorted_set (filter (\<lambda>k. k \<notin> set (subject_required_fields @ subject_optional_fields)) (dkeys s))
       in Inr (sorted_set (
         err_if (missing \<noteq> []) (''Evidence subject lacks required fields: '' @ join_with '', '' missing) @
         err_if (\<not> none_or is_str (dget ''repository'' s)) ''Evidence subject repository must be a string'' @
         concat (map (\<lambda>f. err_if (\<not> none_or (str_and sha_text) (dget f s))
           (''Evidence subject '' @ f @ '' must be an exact lowercase hexadecimal revision'')) revision_fields) @
         concat (map (\<lambda>f. err_if (\<not> none_or (str_and digest_text) (dget f s))
           (''Evidence subject '' @ f @ '' must be a sha256 digest'')) digest_fields) @
         err_if (\<not> none_or (str_and (\<lambda>t. str_strip t \<noteq> [])) (dget ''artifact_identity'' s))
           ''Evidence subject artifact_identity must be a non-empty string'' @
         err_if (\<not> method_ok) ''Evidence subject merge_method is unsupported'' @
         (if truthy (dget ''merged_main_sha'' s) then
            err_if (\<not> is_dict (dget ''merge_provenance'' s)) ''Merged-main evidence requires merge_provenance'' @
            err_if (\<not> truthy (dget ''post_merge_ci_run_id'' s)) ''Merged-main evidence requires post_merge_ci_run_id''
          else []) @
         err_if (truthy deployed \<and> truthy active \<and> \<not> py_eq deployed active)
           ''Evidence subject deployed_revision must equal the active merged-main or candidate revision'' @
         err_if (case dget ''subject_epoch'' s of PNone \<Rightarrow> False | PInt i \<Rightarrow> i < 0 | PBool _ \<Rightarrow> False | _ \<Rightarrow> True)
           ''Evidence subject subject_epoch must be a non-negative integer'' @
         err_if (extra \<noteq> []) (''Evidence subject has unsupported fields: '' @ join_with '', '' extra))))"

definition validate_evidence_subject :: "pyval \<Rightarrow> string list res" where
  "validate_evidence_subject v =
     (case v of
        PDict d \<Rightarrow> bind_res (subject_from_record d) evidence_subject_errors
      | _ \<Rightarrow> Inr [''Evidence subject must be an object''])"

section \<open>Machine evidence\<close>

definition machine_types :: "string list" where
  "machine_types = [''REGRESSION_RED_GREEN_PROVEN'', ''TARGETED_VALIDATION_PASSED'',
     ''FULL_REGRESSION_VALIDATION_PASSED'', ''DIFF_FORENSICS_PASSED'',
     ''SECURITY_VALIDATION_PASSED'', ''SECRETS_SCAN_PASSED'', ''FAIL_CLOSED_BOUNDARY_PASSED'',
     ''MIGRATION_NECESSITY_PROVEN'', ''MIGRATION_LEDGER_HISTORY_GUARD_PASSED'',
     ''FRESH_DB_REBUILD_PASSED'', ''DATABASE_RECOVERY_PLAN_VERIFIED'',
     ''OLD_APP_NEW_SCHEMA_COMPATIBILITY'', ''NEW_APP_OLD_SCHEMA_COMPATIBILITY'',
     ''RLS_TENANT_DATA_SAFETY_PASSED'', ''BOUNDED_MIGRATION_BACKFILL_PASSED'',
     ''AUTHZ_TENANT_MATRIX_PASSED'', ''SERVER_SIDE_AUTHORIZATION_PASSED'',
     ''TENANT_CROSSING_DENIED'', ''ID_TAMPERING_DENIED'', ''PROTECTED_DATA_LEAKAGE_CHECK_PASSED'',
     ''FINANCIAL_INVARIANTS_PASSED'', ''IDEMPOTENCY_PASSED'', ''CONCURRENCY_INVARIANTS_PASSED'',
     ''LEDGER_CONSISTENCY_PASSED'', ''NO_DUPLICATE_FINANCIAL_SIDE_EFFECT'',
     ''ROUNDING_TAX_VAT_ZERO_VALUE_PASSED'', ''FINAL_STATE_REFUND_SEMANTICS_PASSED'',
     ''ZATCA_INVARIANTS_PASSED'', ''ZATCA_LEGAL_STATE_MACHINE_PASSED'',
     ''ZATCA_DUPLICATE_PREVENTION_PASSED'', ''ZATCA_IMMUTABILITY_PASSED'',
     ''ZATCA_SANDBOX_ONLY_TEST_PASSED'', ''ZATCA_CLEARANCE_REPORTING_RETRY_CERTIFICATE_PASSED'',
     ''ZATCA_SIGNED_DOCUMENT_CUTOVER_PASSED'', ''PROVIDER_SEMANTICS_PASSED'',
     ''PROVIDER_STATE_RECONCILIATION_PASSED'', ''PROVIDER_IDEMPOTENCY_PASSED'',
     ''PROVIDER_SAFE_OUTAGE_PASSED'', ''PROVIDER_CONTRACT_FAILURE_RECONCILIATION_PASSED'',
     ''PARALLEL_REPRODUCTION_PASSED'', ''NO_DUPLICATE_DURABLE_SIDE_EFFECT'',
     ''CONSUMER_INSTALLATION_VALIDATED'', ''PACKAGED_REGRESSIONS_PASSED'',
     ''PACKAGE_CONTENT_SECURITY_VERIFIED'']"

definition registered_producers :: "string list" where
  "registered_producers = [''controller:test-executor'', ''controller:validation'', ''platform:protected-ci'',
     ''platform:protected-validation'']"

definition provenance_fields :: "string list" where
  "provenance_fields = [''executor_id'', ''command_id'', ''argv_fingerprint'', ''working_directory'', ''start_at'',
     ''end_at'', ''exit_code'', ''stdout_hash'', ''stderr_hash'', ''check_configuration_hash'', ''toolchain_hash'',
     ''receipt_id'', ''producer_identity'', ''result_artifact_hash'', ''subject_fingerprint'', ''subject_epoch'']"

definition metadata_of :: "pydict \<Rightarrow> pydict" where
  "metadata_of r = (case dget ''metadata'' r of PDict m \<Rightarrow> m | _ \<Rightarrow> [])"

definition agrees :: "string \<Rightarrow> pydict \<Rightarrow> pydict \<Rightarrow> bool" where
  "agrees k r m \<longleftrightarrow> dget k r = PNone \<or> py_eq (dget k m) (dget k r)"

definition validate_machine_evidence_provenance ::
  "(string \<Rightarrow> string) \<Rightarrow> pydict \<Rightarrow> pydict option \<Rightarrow> string list res" where
  "validate_machine_evidence_provenance sha r subject =
     (let ty = py_str (py_or (dget ''type'' r) (PStr [])) in
      if ty \<notin> set machine_types then Inr []
      else let producer = py_str (py_or (dget ''producer'' r) (PStr [])); m = metadata_of r in
        bind_res (parse_time (dget ''start_at'' m)) (\<lambda>start.
        bind_res (parse_time (dget ''end_at'' m)) (\<lambda>stop.
        bind_res (case subject of
            None \<Rightarrow> Inr []
          | Some s \<Rightarrow> bind_res (subject_fingerprint sha s) (\<lambda>fp.
              bind_res (py_int (py_or (dget ''subject_epoch'' s) (PInt 0))) (\<lambda>epoch.
                Inr (err_if (\<not> py_eq (dget ''subject_fingerprint'' m) (PStr fp))
                       ''Machine evidence subject_fingerprint mismatch'' @
                     err_if (\<not> py_eq (dget ''subject_epoch'' m) (PInt epoch))
                       ''Machine evidence subject_epoch mismatch'')))) (\<lambda>subject_errors.
          Inr (sorted_set (
            err_if (producer \<notin> set registered_producers)
              ''Machine evidence must come from a registered deterministic executor/controller'' @
            concat (map (\<lambda>f. err_if (dget f m = PNone \<or> dget f m = PStr [])
              (''Machine evidence requires immutable provenance field '' @ f)) provenance_fields) @
            err_if (\<not> py_eq (dget ''exit_code'' m) (dget ''exit_code'' r))
              ''Machine evidence exit_code does not match the receipt'' @
            err_if (case dget ''exit_code'' m of PInt _ \<Rightarrow> False | _ \<Rightarrow> True)
              ''Machine evidence exit_code must be an integer'' @
            err_if (\<not> agrees ''command_id'' r m) ''Machine evidence command_id does not match the receipt'' @
            err_if (\<not> py_eq (dget ''producer_identity'' m) (PStr producer))
              ''Machine evidence producer_identity does not match the producer'' @
            err_if (\<not> agrees ''toolchain_hash'' r m)
              ''Machine evidence toolchain_hash does not match the subject record'' @
            concat (map (\<lambda>f. err_if (dget f m \<noteq> PNone \<and> \<not> digest_text (py_str (dget f m)))
              (''Machine evidence '' @ f @ '' must be a sha256 digest''))
              [''argv_fingerprint'', ''stdout_hash'', ''stderr_hash'', ''check_configuration_hash'',
               ''result_artifact_hash'', ''toolchain_hash'']) @
            err_if (start = None) ''Machine evidence start_at is invalid'' @
            err_if (stop = None) ''Machine evidence end_at is invalid'' @
            err_if (case (start, stop) of (Some s, Some e) \<Rightarrow> e < s | _ \<Rightarrow> False)
              ''Machine evidence end_at must not precede start_at'' @
            subject_errors @
            err_if (\<not> agrees ''subject_fingerprint'' r m)
              ''Machine evidence record and metadata subject_fingerprint mismatch'' @
            err_if (dget ''manual'' m = PBool True \<or> dget ''model_authored'' m = PBool True)
              ''Model-authored or manually authored machine evidence is not authoritative''))))))"

section \<open>Evidence records\<close>

definition evidence_affirms :: "pydict \<Rightarrow> bool" where
  "evidence_affirms r =
     (let status = str_upper (text_field ''status'' r)
      in if ends_with ''_APPROVAL'' (text_field ''type'' r) then status = ''APPROVED''
         else status \<in> set affirmative_statuses)"

record evidence_check =
  ec_schema :: "(pydict \<Rightarrow> string list) option"
  ec_subject :: "pydict option"
  ec_minimum :: string
  ec_roots :: "trust_value option"
  ec_affirmative :: bool
  ec_now :: int

definition evidence_trust :: "pydict \<Rightarrow> string" where
  "evidence_trust r = py_str (dget_default ''trust_level'' (PStr ''E0'') r)"

definition field_mismatch :: "pydict \<Rightarrow> pydict \<Rightarrow> pydict \<Rightarrow> string \<Rightarrow> string list" where
  "field_mismatch evidence actual expected key =
     (let e = dget key expected; raw = dget key evidence; trust = evidence_trust evidence in
      if e = PNone then []
      else if key \<in> {''delivery_model'', ''delivery_model_proof_digest''} \<and> raw = PNone \<and>
              py_eq (dget ''delivery_model'' expected) (PStr ''HOSTED_RUNTIME_SERVICE'') then []
      else if key \<in> {''subject_epoch'', ''subject_version''} \<and> raw = PNone
      then err_if (3 \<le> trust_or trust 0)
             (''Evidence subject mismatch for '' @ key @ '': the protected record must carry the field explicitly'')
      else err_if (\<not> py_eq (dget key actual) e)
             (''Evidence subject mismatch for '' @ key @ '': expected '' @ py_str e @ '', got '' @ py_str (dget key actual)))"

definition binding_errors :: "(string \<Rightarrow> string) \<Rightarrow> pydict \<Rightarrow> pydict option \<Rightarrow> string list res" where
  "binding_errors sha r subject =
     (let fp = dget ''subject_fingerprint'' r in
      case subject of
        Some (kv # kvs) \<Rightarrow>
          bind_res (subject_from_record (kv # kvs)) (\<lambda>expected.
          bind_res (subject_from_record r) (\<lambda>actual.
          bind_res (subject_fingerprint sha expected) (\<lambda>expected_fp.
          bind_res (subject_fingerprint sha actual) (\<lambda>actual_fp.
            Inr (concat (map (field_mismatch r actual expected) subject_fields) @
                 (if 3 \<le> trust_or (evidence_trust r) (-1) \<and> \<not> py_eq fp (PStr expected_fp)
                  then [''Evidence subject_fingerprint must match the exact protected subject'']
                  else err_if (\<not> none_or (py_eq (PStr actual_fp)) fp)
                    ''Evidence subject_fingerprint does not match the evidence subject''))))))
      | _ \<Rightarrow>
          if fp = PNone then Inr []
          else bind_res (subject_from_record r) (\<lambda>actual.
               bind_res (subject_fingerprint sha actual) (\<lambda>actual_fp.
                 Inr (err_if (\<not> py_eq fp (PStr actual_fp))
                   ''Evidence subject_fingerprint does not match the evidence subject''))))"

definition lifetime_errors :: "pydict \<Rightarrow> int \<Rightarrow> string list res" where
  "lifetime_errors r now =
     bind_res (parse_time (dget ''created_at'' r)) (\<lambda>created.
     bind_res (parse_time (dget ''expires_at'' r)) (\<lambda>expires.
       Inr ((case created of
               None \<Rightarrow> [''Evidence created_at is invalid'']
             | Some c \<Rightarrow> err_if (c > now - now mod 1000000 + 300000000) ''Evidence created_at is implausibly in the future'') @
            (if truthy (dget ''expires_at'' r) \<and> expires = None then [''Evidence expires_at is invalid'']
             else case expires of None \<Rightarrow> [] | Some e \<Rightarrow> err_if (e \<le> now) ''Evidence is expired'') @
            (case (created, expires) of
               (Some c, Some e) \<Rightarrow> err_if (e \<le> c) ''Evidence expires_at must be later than created_at''
             | _ \<Rightarrow> []))))"

definition authority_check :: "(string \<Rightarrow> pem_key) \<Rightarrow> pydict \<Rightarrow> trust_value option \<Rightarrow> string list res" where
  "authority_check load_pem r roots =
     (if trust_or (evidence_trust r) 0 < 3 then Inr []
      else case roots of
        None \<Rightarrow> Inr [''Authoritative evidence cannot be accepted without configured trust roots'']
      | Some v \<Rightarrow>
          (case trust_root_payload v of
             None \<Rightarrow> Inr [''Configured trust roots are not a usable root set'']
           | Some payload \<Rightarrow> verify_evidence_signature load_pem r payload))"

definition validate_evidence_record ::
  "(string \<Rightarrow> string) \<Rightarrow> (string \<Rightarrow> pem_key) \<Rightarrow> evidence_check \<Rightarrow> pydict \<Rightarrow> string list res" where
  "validate_evidence_record sha load_pem c r =
     (case map_of trust_order (ec_minimum c) of
        None \<Rightarrow> Inr [''Unknown minimum evidence trust level: '' @ ec_minimum c]
      | Some minimum \<Rightarrow>
          let trust = evidence_trust r; exit_code = dget ''exit_code'' r in
          bind_res (binding_errors sha r (ec_subject c)) (\<lambda>bound.
          bind_res (validate_machine_evidence_provenance sha r (ec_subject c)) (\<lambda>machine.
          bind_res (lifetime_errors r (ec_now c)) (\<lambda>lifetime.
          bind_res (authority_check load_pem r (ec_roots c)) (\<lambda>authority.
            Inr (sorted_set (
              (case ec_schema c of None \<Rightarrow> [] | Some schema \<Rightarrow> schema r) @
              err_if (truthy (dget ''invalidated_by'' r)) ''Evidence is invalidated'' @
              err_if (trust_or trust (-1) < minimum)
                (''Evidence trust level '' @ trust @ '' is below required '' @ ec_minimum c) @
              bound @
              err_if (starts_with ''agent:'' (text_field ''producer'' r) \<and> 3 \<le> trust_or trust 0)
                ''Agent-produced evidence cannot have authoritative trust'' @
              err_if (exit_code \<noteq> PNone \<and> \<not> py_eq exit_code (PInt 0) \<and>
                  str_upper (text_field ''status'' r) \<in> set affirmative_statuses)
                ''Affirmative evidence cannot have a non-zero exit code'' @
              err_if (ec_affirmative c \<and> \<not> evidence_affirms r)
                ''Evidence status is not affirmative for the asserted gate claim'' @
              machine @ lifetime @ authority)))))))"

section \<open>Required evidence\<close>

record evidence_scan =
  es_valid :: "(string \<times> string list) list"
  es_invalid :: "(string \<times> string list) list"
  es_seen :: "string list"
  es_duplicates :: "string list"
  es_receipts :: "(string \<times> string) list"
  es_duplicate_receipts :: "string list"

definition scan_empty :: evidence_scan where
  "scan_empty = \<lparr>es_valid = [], es_invalid = [], es_seen = [], es_duplicates = [], es_receipts = [],
     es_duplicate_receipts = []\<rparr>"

definition evidence_name :: "pydict \<Rightarrow> string" where
  "evidence_name r = py_str (dget_default ''evidence_id'' (PStr ''<missing>'') r)"

definition receipt_key :: "pydict \<Rightarrow> (string \<times> string) option" where
  "receipt_key r =
     (let v = dget ''receipt_id'' (metadata_of r)
      in if v = PNone \<or> v = PStr [] then None else Some (py_str v, py_str (py_or (dget ''type'' r) (PStr []))))"

definition lookup_ids :: "string \<Rightarrow> (string \<times> string list) list \<Rightarrow> string list" where
  "lookup_ids k d = (case map_of d k of None \<Rightarrow> [] | Some ids \<Rightarrow> ids)"

definition scan_record ::
  "(string \<Rightarrow> string) \<Rightarrow> (string \<Rightarrow> pem_key) \<Rightarrow> evidence_check \<Rightarrow> pydict \<Rightarrow> evidence_scan \<Rightarrow> evidence_scan res" where
  "scan_record sha load_pem c r st =
     (let i = evidence_name r;
          st1 = st\<lparr>es_duplicates := (if i \<in> set (es_seen st) then es_duplicates st @ [i] else es_duplicates st),
                   es_seen := i # es_seen st\<rparr>;
          st2 = (case receipt_key r of
                   None \<Rightarrow> st1
                 | Some k \<Rightarrow> st1\<lparr>es_duplicate_receipts :=
                       (if k \<in> set (es_receipts st) then es_duplicate_receipts st @ [fst k] else es_duplicate_receipts st),
                     es_receipts := k # es_receipts st\<rparr>)
      in bind_res (validate_evidence_record sha load_pem (c\<lparr>ec_affirmative := True\<rparr>) r) (\<lambda>errors.
           if errors \<noteq> [] then Inr (st2\<lparr>es_invalid := AList.update i errors (es_invalid st)\<rparr>)
           else let ty = py_str (dget ''type'' r)
             in Inr (st2\<lparr>es_valid := AList.update ty (lookup_ids ty (es_valid st) @ [i]) (es_valid st)\<rparr>)))"

record evidence_report =
  ev_passed :: bool
  ev_missing :: "string list"
  ev_valid :: "(string \<times> string list) list"
  ev_invalid :: "(string \<times> string list) list"
  ev_duplicates :: "string list"
  ev_duplicate_receipts :: "string list"

definition evaluate_required_evidence ::
  "(string \<Rightarrow> string) \<Rightarrow> (string \<Rightarrow> pem_key) \<Rightarrow> evidence_check \<Rightarrow> pydict list \<Rightarrow> string list \<Rightarrow> evidence_report res" where
  "evaluate_required_evidence sha load_pem c records required =
     bind_res (fold_res (scan_record sha load_pem c) records scan_empty) (\<lambda>st.
       let missing = filter (\<lambda>ty. lookup_ids ty (es_valid st) = []) required;
           dup = sorted_set (es_duplicates st); dupr = sorted_set (es_duplicate_receipts st);
           inv1 = (if dup = [] then es_invalid st
                   else AList.update ''<duplicates>'' [''Duplicate evidence IDs: '' @ join_with '', '' dup] (es_invalid st));
           inv2 = (if dupr = [] then inv1
                   else AList.update ''<duplicate_receipts>''
                     [''Duplicate machine receipt IDs: '' @ join_with '', '' dupr] inv1)
       in Inr \<lparr>ev_passed = (missing = [] \<and> dup = [] \<and> dupr = []), ev_missing = missing, ev_valid = es_valid st,
               ev_invalid = inv2, ev_duplicates = dup, ev_duplicate_receipts = dupr\<rparr>)"

text \<open>\<open>evidence_index\<close>, and the record that \<open>create_local_untrusted_evidence\<close> writes.\<close>

definition evidence_index :: "pydict list \<Rightarrow> (string \<times> pydict) list" where
  "evidence_index records = fold (\<lambda>r d. AList.update (py_str (dget ''evidence_id'' r)) r d)
     (filter (\<lambda>r. truthy (dget ''evidence_id'' r)) records) []"

definition local_evidence :: "pydict \<Rightarrow> pydict res" where
  "local_evidence r =
     (let producer = py_str (py_or (dget ''producer'' r) (PStr ''local:ztad'')) in
      bind_res (py_list (py_or (dget ''invalidated_by'' r) (PList []))) (\<lambda>invalidated.
      bind_res (case py_or (dget ''metadata'' r) (PDict []) of PDict m \<Rightarrow> Inr m | _ \<Rightarrow> Inl (TypeError ''dict expected'')) (\<lambda>m.
        Inr (dset ''metadata'' (PDict (dict_merge m [(''authority'', PStr ''LOCAL_NON_AUTHORITATIVE''),
               (''can_grant_merge_release_or_production'', PBool False)]))
            (dset ''invalidated_by'' (PList invalidated) (dset ''signature_or_attestation'' PNone
            (dset ''producer'' (PStr (if starts_with ''local:'' producer then producer else ''local:'' @ producer))
            (dset ''trust_level'' (PStr ''E2'') r)))))))) "

end
