(* ===== verification/Gate.thy ===== *)
theory Gate
  imports Evidence
begin

text \<open>
  \<open>state_machine.py\<close>: the transition policy. A policy is a JSON object with the known states, the
  edges and, per target state and risk, the evidence and approvals a transition needs; a record
  counts only when it validates against the subject.
\<close>

section \<open>Requirements of a gate\<close>

text \<open>\<open>(d.get(k) or \<open>{}\<close>)\<close> on which a further \<open>get\<close> is called, and \<open>(d.get(k) or [])\<close> as texts.\<close>

definition sub_dict :: "string \<Rightarrow> pydict \<Rightarrow> pydict res" where
  "sub_dict k d = dict_or_raise (py_or (dget k d) (PDict []))"

definition sub_texts :: "string \<Rightarrow> pydict \<Rightarrow> string list res" where
  "sub_texts k d = py_texts (py_or (dget k d) (PList []))"

record requirements =
  rq_minimum :: string
  rq_evidence :: "string list"
  rq_approvals :: "string list"

definition gate_requirements :: "pydict \<Rightarrow> string \<Rightarrow> string \<Rightarrow> requirements res" where
  "gate_requirements policy requested risk =
     bind_res (sub_dict ''gates'' policy) (\<lambda>gates.
     bind_res (sub_dict requested gates) (\<lambda>gate.
     bind_res (sub_dict ''by_risk'' gate) (\<lambda>by_risk.
     bind_res (sub_texts ''required_evidence'' gate) (\<lambda>base.
     bind_res (sub_texts ''required_approvals'' gate) (\<lambda>approvals.
       let minimum = dget_default ''minimum_trust'' (PStr ''E0'') gate in
       case py_or (dget risk by_risk) (PDict []) of
         PDict rg \<Rightarrow>
           bind_res (sub_texts ''required_evidence'' rg) (\<lambda>more.
           bind_res (sub_texts ''required_approvals'' rg) (\<lambda>more_approvals.
             Inr \<lparr>rq_minimum = py_str (dget_default ''minimum_trust'' minimum rg),
                  rq_evidence = sorted_set (base @ more), rq_approvals = sorted_set (approvals @ more_approvals)\<rparr>))
       | v \<Rightarrow> bind_res (py_texts v) (\<lambda>more.
             Inr \<lparr>rq_minimum = py_str minimum, rq_evidence = sorted_set (base @ more),
                  rq_approvals = sorted_set approvals\<rparr>))))))"

section \<open>The decision over validated types\<close>

record gate_decision =
  gd_allowed :: bool
  gd_current :: string
  gd_requested :: string
  gd_risk :: string
  gd_minimum :: string
  gd_missing_evidence :: "string list"
  gd_missing_approvals :: "string list"
  gd_reasons :: "string list"

definition evaluate_transition_validated ::
  "pydict \<Rightarrow> string \<Rightarrow> string \<Rightarrow> string \<Rightarrow> string list \<Rightarrow> string list \<Rightarrow> gate_decision res" where
  "evaluate_transition_validated policy current requested risk types approvals =
     bind_res (sub_texts ''states'' policy) (\<lambda>states.
       if current \<notin> set states \<or> requested \<notin> set states
       then Inr \<lparr>gd_allowed = False, gd_current = current, gd_requested = requested, gd_risk = risk, gd_minimum = ''E0'',
                 gd_missing_evidence = [], gd_missing_approvals = [], gd_reasons = [''Unknown state'']\<rparr>
       else
         bind_res (sub_dict ''transitions'' policy) (\<lambda>transitions.
         bind_res (sub_texts current transitions) (\<lambda>edges.
         bind_res (gate_requirements policy requested risk) (\<lambda>q.
           let missing = sorted_set (filter (\<lambda>t. t \<notin> set types) (rq_evidence q));
               missing_approvals = sorted_set (filter (\<lambda>t. t \<notin> set approvals) (rq_approvals q));
               reasons = err_if (requested \<notin> set edges)
                   (''Transition '' @ current @ '' -> '' @ requested @ '' is not allowed'') @
                 err_if (missing \<noteq> []) (''Missing evidence: '' @ join_with '', '' missing) @
                 err_if (missing_approvals \<noteq> []) (''Missing approvals: '' @ join_with '', '' missing_approvals)
           in Inr \<lparr>gd_allowed = (reasons = []), gd_current = current, gd_requested = requested, gd_risk = risk,
                   gd_minimum = rq_minimum q, gd_missing_evidence = missing,
                   gd_missing_approvals = missing_approvals, gd_reasons = reasons\<rparr>))))"

section \<open>Validation of records\<close>

record gate_context =
  gc_schema :: "pydict \<Rightarrow> string list"
  gc_subject :: "pydict option"
  gc_roots :: "trust_value option"
  gc_now :: int

record gate_validation =
  gv_types :: "string list"
  gv_approvals :: "string list"
  gv_ids :: "string list"
  gv_invalid :: "(string \<times> string list) list"
  gv_duplicates :: "string list"

definition approval_prefix :: string where
  "approval_prefix = ''STRONG_SUPERVISOR_''"

definition check_of :: "gate_context \<Rightarrow> string \<Rightarrow> evidence_check" where
  "check_of g minimum = \<lparr>ec_schema = Some (gc_schema g), ec_subject = gc_subject g, ec_minimum = minimum,
     ec_roots = gc_roots g, ec_affirmative = True, ec_now = gc_now g\<rparr>"

definition record_errors ::
  "(string \<Rightarrow> string) \<Rightarrow> (string \<Rightarrow> pem_key) \<Rightarrow> gate_context \<Rightarrow> string \<Rightarrow> pydict \<Rightarrow> string list res" where
  "record_errors sha load_pem g minimum r =
     bind_res (validate_evidence_record sha load_pem (check_of g minimum) r) (\<lambda>errors.
       if errors = [] \<and> starts_with approval_prefix (text_field ''type'' r)
       then Inr (err_if (evidence_trust r \<noteq> ''E6'') ''Supervisor approval-controller evidence must have trust level E6'' @
                 err_if (\<not> starts_with ''platform:approval-controller'' (text_field ''producer'' r))
                   ''Supervisor approval-controller evidence has an unauthorized producer'')
       else Inr errors)"

definition gate_scan ::
  "(string \<Rightarrow> string) \<Rightarrow> (string \<Rightarrow> pem_key) \<Rightarrow> gate_context \<Rightarrow> string \<Rightarrow> pydict \<Rightarrow> string list \<times> gate_validation \<Rightarrow>
   (string list \<times> gate_validation) res" where
  "gate_scan sha load_pem g minimum r st =
     (case st of (seen, v) \<Rightarrow>
       let i = evidence_name r; ty = text_field ''type'' r;
           v1 = (if i \<in> set seen then v\<lparr>gv_duplicates := gv_duplicates v @ [i]\<rparr> else v)
       in bind_res (record_errors sha load_pem g minimum r) (\<lambda>errors.
            Inr (i # seen,
              if errors \<noteq> [] then v1\<lparr>gv_invalid := AList.update i (sorted_set errors) (gv_invalid v1)\<rparr>
              else v1\<lparr>gv_ids := gv_ids v1 @ [i], gv_types := gv_types v1 @ [ty],
                      gv_approvals := gv_approvals v1 @ (if starts_with approval_prefix ty then [ty] else [])\<rparr>)))"

definition validation_empty :: gate_validation where
  "validation_empty = \<lparr>gv_types = [], gv_approvals = [], gv_ids = [], gv_invalid = [], gv_duplicates = []\<rparr>"

definition subject_value :: "pydict option \<Rightarrow> pyval" where
  "subject_value s = (case s of None \<Rightarrow> PNone | Some d \<Rightarrow> PDict d)"

definition validate_records_for_gate ::
  "(string \<Rightarrow> string) \<Rightarrow> (string \<Rightarrow> pem_key) \<Rightarrow> gate_context \<Rightarrow> string \<Rightarrow> pydict list \<Rightarrow> gate_validation res" where
  "validate_records_for_gate sha load_pem g minimum records =
     bind_res (if records = [] then Inr [] else validate_evidence_subject (subject_value (gc_subject g))) (\<lambda>subject_errors.
       if subject_errors \<noteq> []
       then Inr (validation_empty\<lparr>gv_invalid := [(''<subject>'', subject_errors)]\<rparr>)
       else bind_res (fold_res (gate_scan sha load_pem g minimum) records ([], validation_empty)) (\<lambda>(_, v).
         let dup = sorted_set (gv_duplicates v) in
         Inr \<lparr>gv_types = sorted_set (gv_types v), gv_approvals = sorted_set (gv_approvals v),
              gv_ids = sort (gv_ids v),
              gv_invalid = (if dup = [] then gv_invalid v
                else AList.update ''<duplicates>'' [''Duplicate evidence IDs: '' @ join_with '', '' dup] (gv_invalid v)),
              gv_duplicates = dup\<rparr>))"

section \<open>Transitions from records\<close>

definition evaluate_transition_from_records ::
  "(string \<Rightarrow> string) \<Rightarrow> (string \<Rightarrow> pem_key) \<Rightarrow> gate_context \<Rightarrow> pydict \<Rightarrow> string \<Rightarrow> string \<Rightarrow> string \<Rightarrow>
   pydict list \<Rightarrow> (gate_decision \<times> gate_validation) res" where
  "evaluate_transition_from_records sha load_pem g policy current requested risk records =
     bind_res (gate_requirements policy requested risk) (\<lambda>q.
     bind_res (validate_records_for_gate sha load_pem g (rq_minimum q) records) (\<lambda>v.
     bind_res (evaluate_transition_validated policy current requested risk (gv_types v) (gv_approvals v)) (\<lambda>d.
       Inr (if gv_duplicates v \<noteq> []
            then d\<lparr>gd_allowed := False,
                   gd_reasons := sorted_set (gd_reasons d @ [''Duplicate evidence IDs are prohibited''])\<rparr>
            else d, v))))"

record next_actions =
  na_permitted :: "string list"
  na_blocked :: "(string \<times> string list) list"
  na_decision :: string

definition actions_of :: "gate_decision list \<Rightarrow> next_actions" where
  "actions_of ds =
     (let permitted = map gd_requested (filter gd_allowed ds)
      in \<lparr>na_permitted = permitted,
          na_blocked = fold (\<lambda>d b. AList.update (gd_requested d) (gd_reasons d) b) (filter (\<lambda>d. \<not> gd_allowed d) ds) [],
          na_decision = (if permitted \<noteq> [] then ''PROCEED'' else ''CONTAIN_TASK_AND_CONTINUE_SCHEDULER'')\<rparr>)"

definition candidates_of :: "pydict \<Rightarrow> string \<Rightarrow> string list res" where
  "candidates_of policy current = bind_res (sub_dict ''transitions'' policy) (sub_texts current)"

definition map_res :: "('a \<Rightarrow> 'b res) \<Rightarrow> 'a list \<Rightarrow> 'b list res" where
  "map_res f xs = fold_res (\<lambda>x ys. bind_res (f x) (\<lambda>y. Inr (ys @ [y]))) xs []"

definition evaluate_next_actions_validated ::
  "pydict \<Rightarrow> string \<Rightarrow> string \<Rightarrow> string list \<Rightarrow> string list \<Rightarrow> next_actions res" where
  "evaluate_next_actions_validated policy current risk types approvals =
     bind_res (candidates_of policy current) (\<lambda>cs.
     bind_res (map_res (\<lambda>s. evaluate_transition_validated policy current s risk types approvals) cs) (\<lambda>ds.
       Inr (actions_of ds)))"

definition evaluate_next_actions_from_records ::
  "(string \<Rightarrow> string) \<Rightarrow> (string \<Rightarrow> pem_key) \<Rightarrow> gate_context \<Rightarrow> pydict \<Rightarrow> string \<Rightarrow> string \<Rightarrow> pydict list \<Rightarrow> next_actions res" where
  "evaluate_next_actions_from_records sha load_pem g policy current risk records =
     bind_res (candidates_of policy current) (\<lambda>cs.
     bind_res (map_res (\<lambda>s. evaluate_transition_from_records sha load_pem g policy current s risk records) cs) (\<lambda>ds.
       Inr (actions_of (map fst ds))))"

end
