(* ===== verification/Evidence_Props.thy ===== *)
theory Evidence_Props
  imports Evidence
begin

text \<open>
  What a gate may conclude from evidence: an accepted record of level E3 or above is signed by a
  trusted key, names its subject and is current; a set of required types is satisfied exactly by
  valid records without duplicates. Also the strictness walk over model schemas.
\<close>

section \<open>Accepted records\<close>

definition bound_to :: "pydict \<Rightarrow> pydict \<Rightarrow> bool" where
  "bound_to expected r \<longleftrightarrow>
     (\<forall>actual. subject_from_record r = Inr actual \<longrightarrow>
        (\<forall>k \<in> set subject_fields. dget k expected = PNone \<or> py_eq (dget k actual) (dget k expected) \<or>
           (k \<in> {''delivery_model'', ''delivery_model_proof_digest''} \<and> dget k r = PNone \<and>
            py_eq (dget ''delivery_model'' expected) (PStr ''HOSTED_RUNTIME_SERVICE''))))"

definition current_at :: "pydict \<Rightarrow> int \<Rightarrow> bool" where
  "current_at r now \<longleftrightarrow>
     (\<exists>created. parse_time (dget ''created_at'' r) = Inr (Some created) \<and> created \<le> now + 300000000) \<and>
     (\<forall>expires. parse_time (dget ''expires_at'' r) = Inr (Some expires) \<longrightarrow> now < expires)"

lemma validate_evidence_record_Nil:
  assumes "validate_evidence_record sha load_pem c r = Inr []"
  obtains minimum where "map_of trust_order (ec_minimum c) = Some minimum" "minimum \<le> trust_or (evidence_trust r) (-1)"
    "binding_errors sha r (ec_subject c) = Inr []" "validate_machine_evidence_provenance sha r (ec_subject c) = Inr []"
    "lifetime_errors r (ec_now c) = Inr []" "authority_check load_pem r (ec_roots c) = Inr []"
    "\<not> truthy (dget ''invalidated_by'' r)" "ec_affirmative c \<Longrightarrow> evidence_affirms r"
    "3 \<le> trust_or (evidence_trust r) 0 \<Longrightarrow> \<not> starts_with ''agent:'' (text_field ''producer'' r)"
  using assms
  by (auto simp: validate_evidence_record_def bind_res_Inr Let_def not_less split: option.splits)

lemma trust_or_default: "3 \<le> trust_or t (-1) \<Longrightarrow> 3 \<le> trust_or t 0"
  by (auto simp: trust_or_def split: option.splits)

lemma field_mismatch_Nil:
  assumes "field_mismatch r actual expected k = []" and "3 \<le> trust_or (evidence_trust r) 0"
  shows "dget k expected = PNone \<or> py_eq (dget k actual) (dget k expected) \<or>
    (k \<in> {''delivery_model'', ''delivery_model_proof_digest''} \<and> dget k r = PNone \<and>
     py_eq (dget ''delivery_model'' expected) (PStr ''HOSTED_RUNTIME_SERVICE''))"
  using assms unfolding field_mismatch_def Let_def by (simp split: if_splits)

lemma binding_errors_Nil:
  assumes "binding_errors sha r (Some s) = Inr []" and "s \<noteq> []" and "3 \<le> trust_or (evidence_trust r) (-1)"
  shows "\<exists>expected fp. subject_from_record s = Inr expected \<and> subject_fingerprint sha expected = Inr fp \<and>
    dget ''subject_fingerprint'' r = PStr fp \<and> bound_to expected r"
proof -
  from assms(2) obtain kv kvs where s: "s = kv # kvs" by (cases s) auto
  from assms(1,3) obtain expected actual fp where 1: "subject_from_record s = Inr expected"
    "subject_from_record r = Inr actual" "subject_fingerprint sha expected = Inr fp"
    and errs: "concat (map (field_mismatch r actual expected) subject_fields) = []"
    and fp: "py_eq (dget ''subject_fingerprint'' r) (PStr fp)"
    unfolding s binding_errors_def Let_def by (auto simp: bind_res_Inr split: if_splits)
  have "dget ''subject_fingerprint'' r = PStr fp"
    using fp by (cases "dget ''subject_fingerprint'' r") (auto simp: py_eq_def)
  moreover have "bound_to expected r"
    using errs 1(2) field_mismatch_Nil [OF _ trust_or_default [OF assms(3)]] by (auto simp: bound_to_def)
  ultimately show ?thesis using 1 by blast
qed

lemma lifetime_errors_Nil:
  assumes "lifetime_errors r now = Inr []"
  shows "current_at r now"
proof -
  from assms obtain created expires where t: "parse_time (dget ''created_at'' r) = Inr created"
    "parse_time (dget ''expires_at'' r) = Inr expires" by (auto simp: lifetime_errors_def bind_res_Inr)
  have "now - now mod 1000000 \<le> now" by simp
  then show ?thesis
    using assms t by (auto simp: lifetime_errors_def current_at_def split: option.splits if_splits)
qed

lemma authority_check_Nil:
  assumes "authority_check load_pem r roots = Inr []" and "3 \<le> trust_or (evidence_trust r) 0"
  shows "\<exists>v payload. roots = Some v \<and> trust_root_payload v = Some payload \<and> signed_by load_pem payload r"
  using assms by (auto simp: authority_check_def intro: accepted_signature split: option.splits)

lemma evidence_trusted:
  assumes "validate_evidence_record sha load_pem c r = Inr []"
    and "map_of trust_order (ec_minimum c) = Some n" and "3 \<le> n"
    and "ec_subject c = Some s" and "s \<noteq> []"
  shows "(\<exists>roots payload. ec_roots c = Some roots \<and> trust_root_payload roots = Some payload \<and> signed_by load_pem payload r) \<and>
    (\<exists>expected fp. subject_from_record s = Inr expected \<and> subject_fingerprint sha expected = Inr fp \<and>
       dget ''subject_fingerprint'' r = PStr fp \<and> bound_to expected r) \<and>
    \<not> starts_with ''agent:'' (text_field ''producer'' r) \<and> current_at r (ec_now c) \<and>
    \<not> truthy (dget ''invalidated_by'' r)"
  using assms(1)
proof (rule validate_evidence_record_Nil)
  fix minimum
  assume m: "map_of trust_order (ec_minimum c) = Some minimum" "minimum \<le> trust_or (evidence_trust r) (-1)"
    and b: "binding_errors sha r (ec_subject c) = Inr []" and l: "lifetime_errors r (ec_now c) = Inr []"
    and a: "authority_check load_pem r (ec_roots c) = Inr []" and i: "\<not> truthy (dget ''invalidated_by'' r)"
    and ag: "3 \<le> trust_or (evidence_trust r) 0 \<Longrightarrow> \<not> starts_with ''agent:'' (text_field ''producer'' r)"
  from m assms(2,3) have t: "3 \<le> trust_or (evidence_trust r) (-1)" by simp
  note t0 = trust_or_default [OF t]
  show ?thesis
    using authority_check_Nil [OF a t0] binding_errors_Nil [OF b [unfolded assms(4)] assms(5) t] lifetime_errors_Nil [OF l]
      i ag [OF t0] by blast
qed

abbreviation accepts where
  "accepts sha load_pem c r \<equiv> validate_evidence_record sha load_pem (c\<lparr>ec_affirmative := True\<rparr>) r = Inr []"

text \<open>
  What any accepted record shows, whatever the minimum: its trust level, status and dates; and from
  level E3 on the signature and the binding.
\<close>

definition authoritative_for :: "(string \<Rightarrow> string) \<Rightarrow> (string \<Rightarrow> pem_key) \<Rightarrow> trust_value option \<Rightarrow> pydict \<Rightarrow> pydict \<Rightarrow> bool" where
  "authoritative_for sha load_pem roots s r \<longleftrightarrow>
     (\<exists>v payload. roots = Some v \<and> trust_root_payload v = Some payload \<and> signed_by load_pem payload r) \<and>
     (\<exists>expected fp. subject_from_record s = Inr expected \<and> subject_fingerprint sha expected = Inr fp \<and>
        dget ''subject_fingerprint'' r = PStr fp \<and> bound_to expected r) \<and>
     \<not> starts_with ''agent:'' (text_field ''producer'' r)"

definition acceptable :: "(string \<Rightarrow> string) \<Rightarrow> (string \<Rightarrow> pem_key) \<Rightarrow> evidence_check \<Rightarrow> pydict \<Rightarrow> pydict \<Rightarrow> bool" where
  "acceptable sha load_pem c s r \<longleftrightarrow>
     (\<exists>minimum. map_of trust_order (ec_minimum c) = Some minimum \<and> minimum \<le> trust_or (evidence_trust r) (-1)) \<and>
     evidence_affirms r \<and> \<not> truthy (dget ''invalidated_by'' r) \<and> current_at r (ec_now c) \<and>
     (3 \<le> trust_or (evidence_trust r) (-1) \<longrightarrow> authoritative_for sha load_pem (ec_roots c) s r)"

lemma accepts_acceptable:
  assumes "accepts sha load_pem c r" and "ec_subject c = Some s" and "s \<noteq> []"
  shows "acceptable sha load_pem c s r"
  using assms(1)
proof (rule validate_evidence_record_Nil)
  fix minimum
  assume m: "map_of trust_order (ec_minimum (c\<lparr>ec_affirmative := True\<rparr>)) = Some minimum" "minimum \<le> trust_or (evidence_trust r) (-1)"
    and b: "binding_errors sha r (ec_subject (c\<lparr>ec_affirmative := True\<rparr>)) = Inr []"
    and l: "lifetime_errors r (ec_now (c\<lparr>ec_affirmative := True\<rparr>)) = Inr []"
    and a: "authority_check load_pem r (ec_roots (c\<lparr>ec_affirmative := True\<rparr>)) = Inr []"
    and i: "\<not> truthy (dget ''invalidated_by'' r)"
    and af: "ec_affirmative (c\<lparr>ec_affirmative := True\<rparr>) \<Longrightarrow> evidence_affirms r"
    and ag: "3 \<le> trust_or (evidence_trust r) 0 \<Longrightarrow> \<not> starts_with ''agent:'' (text_field ''producer'' r)"
  have "authoritative_for sha load_pem (ec_roots c) s r" if t: "3 \<le> trust_or (evidence_trust r) (-1)"
  proof -
    have b': "binding_errors sha r (Some s) = Inr []" and a': "authority_check load_pem r (ec_roots c) = Inr []"
      using a b assms(2) by simp_all
    note t0 = trust_or_default [OF t]
    show ?thesis
      unfolding authoritative_for_def
      using authority_check_Nil [OF a' t0] binding_errors_Nil [OF b' assms(3) t] ag [OF t0] by blast
  qed
  then show ?thesis using m i af lifetime_errors_Nil [OF l] by (auto simp: acceptable_def)
qed

text \<open>
  C6. A record accepted at a minimum trust of E3 or above for a subject carries a signature that
  verifies under a key of the configured trust roots which has status ACTIVE or VERIFY_ONLY and is
  authorised for the trust level and producer of the record; it carries the fingerprint of exactly
  that subject and agrees with it in every field the subject sets (fields the subject leaves None
  are not compared, and a record may leave out the delivery model of a hosted service); its
  producer is not an agent; it is not invalidated, was created at most five minutes ahead of the
  clock and has not expired.
\<close>

theorem accepted_evidence_signed:
  assumes "validate_evidence_record sha load_pem c r = Inr []"
    and "map_of trust_order (ec_minimum c) = Some n" and "3 \<le> n"
    and "ec_subject c = Some s" and "s \<noteq> []"
  shows "(\<exists>roots payload. ec_roots c = Some roots \<and> trust_root_payload roots = Some payload \<and> signed_by load_pem payload r) \<and>
    (\<exists>expected fp. subject_from_record s = Inr expected \<and> subject_fingerprint sha expected = Inr fp \<and>
       dget ''subject_fingerprint'' r = PStr fp \<and> bound_to expected r) \<and>
    \<not> starts_with ''agent:'' (text_field ''producer'' r) \<and> current_at r (ec_now c) \<and>
    \<not> truthy (dget ''invalidated_by'' r)"
  using evidence_trusted [OF assms] .

definition demo_load :: "string \<Rightarrow> pem_key" where
  "demo_load pem = (if pem = ''PEM'' then Ed_Key (\<lambda>signature payload. signature = ''ok'') else Bad_Key ''unreadable'')"

definition demo_roots :: trust_value where
  "demo_roots = TV_Mapping [(''keys'', PDict [(''k1'', PDict [(''public_key_pem'', PStr ''PEM''),
     (''allowed_trust_levels'', PList [PStr ''E4'']), (''allowed_producers'', PList [PStr ''platform:ci''])])])]"

definition demo_evidence_of :: "string \<Rightarrow> string \<Rightarrow> pydict" where
  "demo_evidence_of i ty = [(''evidence_id'', PStr i), (''type'', PStr ty), (''trust_level'', PStr ''E4''),
     (''producer'', PStr ''platform:ci''), (''status'', PStr ''PASSED''), (''repository'', PStr ''r''),
     (''subject_epoch'', PInt 0), (''subject_version'', PInt 1), (''subject_fingerprint'', PStr ''sha256:h''),
     (''created_at'', PStr ''2026-01-02T03:04:05Z''), (''signature_or_attestation'', PStr ''ed25519:k1:b2s='')]"

definition demo_check :: evidence_check where
  "demo_check = \<lparr>ec_schema = None, ec_subject = Some [(''repository'', PStr ''r'')], ec_minimum = ''E3'',
     ec_roots = Some demo_roots, ec_affirmative = True, ec_now = 63902919900000000\<rparr>"

lemma demo_accepted: "validate_evidence_record (\<lambda>_. ''h'') demo_load demo_check (demo_evidence_of ''e1'' ''TESTS'') = Inr []"
  by code_simp

theorem accepted_evidence_signed_witness:
  "(\<exists>roots payload. ec_roots demo_check = Some roots \<and> trust_root_payload roots = Some payload \<and>
      signed_by demo_load payload (demo_evidence_of ''e1'' ''TESTS'')) \<and>
   current_at (demo_evidence_of ''e1'' ''TESTS'') (ec_now demo_check)"
proof -
  have "map_of trust_order (ec_minimum demo_check) = Some 3" "ec_subject demo_check = Some [(''repository'', PStr ''r'')]"
    by code_simp+
  from accepted_evidence_signed [OF demo_accepted this(1) _ this(2)] show ?thesis by simp
qed

section \<open>Required evidence\<close>

lemma lookup_ids_update [simp]: "lookup_ids k (AList.update k' ids d) = (if k = k' then ids else lookup_ids k d)"
  by (simp add: lookup_ids_def update_conv)

definition receipts_of :: "pydict list \<Rightarrow> (string \<times> string) list" where
  "receipts_of records = concat (map (\<lambda>r. case receipt_key r of None \<Rightarrow> [] | Some k \<Rightarrow> [k]) records)"

lemma scan_records:
  assumes "fold_res (scan_record sha load_pem c) records st = Inr st'"
  shows "lookup_ids ty (es_valid st') = lookup_ids ty (es_valid st) @
      map evidence_name (filter (\<lambda>r. accepts sha load_pem c r \<and> py_str (dget ''type'' r) = ty) records) \<and>
    (es_duplicates st' = [] \<longleftrightarrow> es_duplicates st = [] \<and> distinct (map evidence_name records) \<and>
       set (map evidence_name records) \<inter> set (es_seen st) = {}) \<and>
    (es_duplicate_receipts st' = [] \<longleftrightarrow> es_duplicate_receipts st = [] \<and> distinct (receipts_of records) \<and>
       set (receipts_of records) \<inter> set (es_receipts st) = {})"
  using assms
proof (induction records arbitrary: st)
  case Nil
  then show ?case by (simp add: receipts_of_def)
next
  case (Cons r records)
  from Cons.prems obtain st1 where 1: "scan_record sha load_pem c r st = Inr st1"
    and 2: "fold_res (scan_record sha load_pem c) records st1 = Inr st'" by (auto split: sum.splits)
  from 1 obtain errors where e: "validate_evidence_record sha load_pem (c\<lparr>ec_affirmative := True\<rparr>) r = Inr errors"
    by (auto simp: scan_record_def bind_res_Inr Let_def)
  have "lookup_ids ty (es_valid st1) = lookup_ids ty (es_valid st) @
      (if errors = [] \<and> py_str (dget ''type'' r) = ty then [evidence_name r] else [])"
    "es_seen st1 = evidence_name r # es_seen st"
    "es_duplicates st1 = es_duplicates st @ (if evidence_name r \<in> set (es_seen st) then [evidence_name r] else [])"
    "es_receipts st1 = (case receipt_key r of None \<Rightarrow> [] | Some k \<Rightarrow> [k]) @ es_receipts st"
    "es_duplicate_receipts st1 = es_duplicate_receipts st @
       (case receipt_key r of None \<Rightarrow> [] | Some k \<Rightarrow> if k \<in> set (es_receipts st) then [fst k] else [])"
    using 1 e by (auto simp: scan_record_def Let_def split: option.splits if_splits)
  then show ?case
    using Cons.IH [OF 2] e by (auto simp: receipts_of_def split: option.splits if_splits)
qed

lemma required_evidence_iff:
  assumes "evaluate_required_evidence sha load_pem c records required = Inr rep"
  shows "ev_passed rep \<longleftrightarrow>
    (\<forall>ty \<in> set required. \<exists>r \<in> set records. py_str (dget ''type'' r) = ty \<and> accepts sha load_pem c r) \<and>
    distinct (map evidence_name records) \<and> distinct (receipts_of records)"
proof -
  from assms obtain st where f: "fold_res (scan_record sha load_pem c) records scan_empty = Inr st"
    and rep: "ev_passed rep \<longleftrightarrow> (\<forall>ty \<in> set required. lookup_ids ty (es_valid st) \<noteq> []) \<and>
      es_duplicates st = [] \<and> es_duplicate_receipts st = []"
    by (auto simp: evaluate_required_evidence_def bind_res_Inr Let_def filter_empty_conv)
  from scan_records [OF f] show ?thesis
    unfolding rep by (auto simp: scan_empty_def lookup_ids_def filter_empty_conv)
qed

text \<open>
  C32. evaluate_required_evidence passes exactly when each required type has a record of that type
  that validates with an affirmative status, no evidence id occurs twice and no machine receipt is
  used twice for the same type.
\<close>

theorem required_evidence_decision:
  assumes "evaluate_required_evidence sha load_pem c records required = Inr rep"
  shows "ev_passed rep \<longleftrightarrow>
    (\<forall>ty \<in> set required. \<exists>r \<in> set records. py_str (dget ''type'' r) = ty \<and> accepts sha load_pem c r) \<and>
    distinct (map evidence_name records) \<and> distinct (receipts_of records)"
  using required_evidence_iff [OF assms] .

theorem required_evidence_decision_witness:
  "\<exists>rep. evaluate_required_evidence (\<lambda>_. ''h'') demo_load demo_check
      [demo_evidence_of ''e1'' ''TESTS'', demo_evidence_of ''e2'' ''SCAN''] [''SCAN'', ''TESTS''] = Inr rep \<and>
    (ev_passed rep \<longleftrightarrow> (\<forall>ty \<in> set [''SCAN'', ''TESTS''].
       \<exists>r \<in> set [demo_evidence_of ''e1'' ''TESTS'', demo_evidence_of ''e2'' ''SCAN''].
         py_str (dget ''type'' r) = ty \<and> accepts (\<lambda>_. ''h'') demo_load demo_check r) \<and>
      distinct (map evidence_name [demo_evidence_of ''e1'' ''TESTS'', demo_evidence_of ''e2'' ''SCAN'']) \<and>
      distinct (receipts_of [demo_evidence_of ''e1'' ''TESTS'', demo_evidence_of ''e2'' ''SCAN''])) \<and> ev_passed rep"
proof -
  let ?r = "evaluate_required_evidence (\<lambda>_. ''h'') demo_load demo_check
      [demo_evidence_of ''e1'' ''TESTS'', demo_evidence_of ''e2'' ''SCAN''] [''SCAN'', ''TESTS'']"
  have "case ?r of Inl _ \<Rightarrow> False | Inr rep \<Rightarrow> ev_passed rep" by code_simp
  then obtain rep where "?r = Inr rep" "ev_passed rep" by (auto split: sum.splits)
  with required_evidence_decision [OF this(1)] show ?thesis by blast
qed

end
