(* ===== verification/Gate_Props.thy ===== *)
theory Gate_Props
  imports Gate Evidence_Props
begin

text \<open>
  The transition gate of \<open>state_machine.py\<close> decides exactly on valid records: what it allows is an
  edge of the policy whose required evidence and approvals are all carried by accepted records.
\<close>

definition gate_accepts ::
  "(string \<Rightarrow> string) \<Rightarrow> (string \<Rightarrow> pem_key) \<Rightarrow> gate_context \<Rightarrow> string \<Rightarrow> pydict \<Rightarrow> bool" where
  "gate_accepts sha load_pem g minimum r \<longleftrightarrow> record_errors sha load_pem g minimum r = Inr []"

definition edge_of :: "pydict \<Rightarrow> string \<Rightarrow> string \<Rightarrow> bool" where
  "edge_of policy current requested \<longleftrightarrow>
     (\<exists>states edges. sub_texts ''states'' policy = Inr states \<and> current \<in> set states \<and> requested \<in> set states \<and>
        candidates_of policy current = Inr edges \<and> requested \<in> set edges)"

definition usable_subject :: "gate_context \<Rightarrow> pydict list \<Rightarrow> bool" where
  "usable_subject g records \<longleftrightarrow> records = [] \<or> validate_evidence_subject (subject_value (gc_subject g)) = Inr []"

lemma gate_scan_records:
  assumes "fold_res (gate_scan sha load_pem g m) records (seen, v) = Inr (seen', v')"
  shows "gv_types v' = gv_types v @ map (text_field ''type'') (filter (gate_accepts sha load_pem g m) records) \<and>
    gv_approvals v' = gv_approvals v @ filter (starts_with approval_prefix)
      (map (text_field ''type'') (filter (gate_accepts sha load_pem g m) records)) \<and>
    (gv_duplicates v' = [] \<longleftrightarrow> gv_duplicates v = [] \<and> distinct (map evidence_name records) \<and>
       set (map evidence_name records) \<inter> set seen = {})"
  using assms
proof (induction records arbitrary: seen v)
  case (Cons r records)
  from Cons.prems obtain seen1 v1 where 1: "gate_scan sha load_pem g m r (seen, v) = Inr (seen1, v1)"
    and 2: "fold_res (gate_scan sha load_pem g m) records (seen1, v1) = Inr (seen', v')" by (auto split: sum.splits)
  from 1 obtain errors where e: "record_errors sha load_pem g m r = Inr errors"
    by (auto simp: gate_scan_def bind_res_Inr Let_def)
  have "gv_types v1 = gv_types v @ (if errors = [] then [text_field ''type'' r] else [])"
    "gv_approvals v1 = gv_approvals v @
       (if errors = [] then filter (starts_with approval_prefix) [text_field ''type'' r] else [])"
    "seen1 = evidence_name r # seen"
    "gv_duplicates v1 = gv_duplicates v @ (if evidence_name r \<in> set seen then [evidence_name r] else [])"
    using 1 e by (auto simp: gate_scan_def Let_def split: if_splits)
  then show ?case
    using Cons.IH [OF 2] e by (auto simp: gate_accepts_def)
qed simp

lemma validated_records:
  assumes "validate_records_for_gate sha load_pem g m records = Inr v"
  shows "if usable_subject g records
    then set (gv_types v) = text_field ''type'' ` {r \<in> set records. gate_accepts sha load_pem g m r} \<and>
      set (gv_approvals v) = {ty \<in> set (gv_types v). starts_with approval_prefix ty} \<and>
      (gv_duplicates v = [] \<longleftrightarrow> distinct (map evidence_name records))
    else gv_types v = [] \<and> gv_approvals v = [] \<and> gv_duplicates v = []"
proof (cases "usable_subject g records")
  case True
  then obtain seen' v' where f: "fold_res (gate_scan sha load_pem g m) records ([], validation_empty) = Inr (seen', v')"
    and v: "gv_types v = sorted_set (gv_types v')" "gv_approvals v = sorted_set (gv_approvals v')"
      "gv_duplicates v = sorted_set (gv_duplicates v')"
    using assms by (auto simp: validate_records_for_gate_def usable_subject_def bind_res_Inr Let_def split: if_splits)
  from gate_scan_records [OF f] v True show ?thesis by (auto simp: validation_empty_def)
next
  case False
  then show ?thesis
    using assms by (auto simp: validate_records_for_gate_def usable_subject_def validation_empty_def bind_res_Inr split: if_splits)
qed

lemma approval_accepted:
  assumes "gate_accepts sha load_pem g m r" and "starts_with approval_prefix (text_field ''type'' r)"
  shows "evidence_trust r = ''E6'' \<and> starts_with ''platform:approval-controller'' (text_field ''producer'' r)"
  using assms by (auto simp: gate_accepts_def record_errors_def bind_res_Inr split: if_splits)

text \<open>What the records of a decision must contain.\<close>

definition records_suffice ::
  "(string \<Rightarrow> string) \<Rightarrow> (string \<Rightarrow> pem_key) \<Rightarrow> gate_context \<Rightarrow> requirements \<Rightarrow> pydict list \<Rightarrow> bool" where
  "records_suffice sha load_pem g q records \<longleftrightarrow>
     (\<forall>ty \<in> set (rq_evidence q). \<exists>r \<in> set records. text_field ''type'' r = ty \<and>
        gate_accepts sha load_pem g (rq_minimum q) r) \<and>
     (\<forall>ty \<in> set (rq_approvals q). starts_with approval_prefix ty \<and> (\<exists>r \<in> set records. text_field ''type'' r = ty \<and>
        gate_accepts sha load_pem g (rq_minimum q) r \<and> evidence_trust r = ''E6'')) \<and>
     distinct (map evidence_name records)"

lemma validated_decision:
  assumes "evaluate_transition_validated policy current requested risk types approvals = Inr d"
    and "gate_requirements policy requested risk = Inr q"
  shows "gd_allowed d \<longleftrightarrow> edge_of policy current requested \<and>
    set (rq_evidence q) \<subseteq> set types \<and> set (rq_approvals q) \<subseteq> set approvals"
proof -
  from assms(1) obtain states where s: "sub_texts ''states'' policy = Inr states"
    by (auto simp: evaluate_transition_validated_def bind_res_Inr)
  show ?thesis
  proof (cases "current \<in> set states \<and> requested \<in> set states")
    case True
    then obtain transitions edges where t: "sub_dict ''transitions'' policy = Inr transitions"
      "sub_texts current transitions = Inr edges"
      using assms(1) s by (auto simp: evaluate_transition_validated_def bind_res_Inr)
    have "gd_allowed d \<longleftrightarrow> requested \<in> set edges \<and> (\<forall>t \<in> set (rq_evidence q). t \<in> set types) \<and>
        (\<forall>t \<in> set (rq_approvals q). t \<in> set approvals)"
      using assms True s t by (auto simp: evaluate_transition_validated_def Let_def filter_empty_conv)
    then show ?thesis using True s t by (auto simp: edge_of_def candidates_of_def)
  next
    case False
    then show ?thesis using assms(1) s by (auto simp: evaluate_transition_validated_def edge_of_def)
  qed
qed

text \<open>
  C5. evaluate_transition_from_records allows a transition exactly when it is an edge between
  known states of the policy and, for a usable subject, every required evidence type is carried by
  an accepted record, every required approval by an accepted record of trust level E6, and no
  evidence id occurs twice; without a usable subject only a transition that requires nothing is
  allowed.
\<close>

theorem transition_gate_exact:
  assumes "evaluate_transition_from_records sha load_pem g policy current requested risk records = Inr (d, v)"
    and "gate_requirements policy requested risk = Inr q"
  shows "gd_allowed d \<longleftrightarrow> edge_of policy current requested \<and>
    (if usable_subject g records then records_suffice sha load_pem g q records
     else rq_evidence q = [] \<and> rq_approvals q = [])"
proof -
  from assms obtain d0 where val: "validate_records_for_gate sha load_pem g (rq_minimum q) records = Inr v"
    and d0: "evaluate_transition_validated policy current requested risk (gv_types v) (gv_approvals v) = Inr d0"
    and dd: "d = (if gv_duplicates v \<noteq> []
            then d0\<lparr>gd_allowed := False,
                   gd_reasons := sorted_set (gd_reasons d0 @ [''Duplicate evidence IDs are prohibited''])\<rparr>
            else d0)"
    unfolding evaluate_transition_from_records_def bind_res_Inr by auto
  have d: "gd_allowed d \<longleftrightarrow> gd_allowed d0 \<and> gv_duplicates v = []" unfolding dd by simp
  note allowed = validated_decision [OF d0 assms(2)]
  note vr = validated_records [OF val]
  show ?thesis
  proof (cases "usable_subject g records")
    case True
    then have types: "set (gv_types v) = text_field ''type'' ` {r \<in> set records. gate_accepts sha load_pem g (rq_minimum q) r}"
      and approvals: "set (gv_approvals v) = {ty \<in> set (gv_types v). starts_with approval_prefix ty}"
      and dup: "gv_duplicates v = [] \<longleftrightarrow> distinct (map evidence_name records)" using vr by simp_all
    have A: "set (rq_evidence q) \<subseteq> set (gv_types v) \<longleftrightarrow> (\<forall>ty \<in> set (rq_evidence q). \<exists>r \<in> set records.
        text_field ''type'' r = ty \<and> gate_accepts sha load_pem g (rq_minimum q) r)"
      unfolding types by fastforce
    have B: "ty \<in> set (gv_approvals v) \<longleftrightarrow> starts_with approval_prefix ty \<and> (\<exists>r \<in> set records.
        text_field ''type'' r = ty \<and> gate_accepts sha load_pem g (rq_minimum q) r \<and> evidence_trust r = ''E6'')" for ty
      unfolding approvals types using approval_accepted [of sha load_pem g "rq_minimum q"] by fastforce
    show ?thesis using True unfolding d allowed dup records_suffice_def A B [symmetric] by auto
  next
    case False
    then show ?thesis using vr unfolding d allowed by simp
  qed
qed

definition demo_policy :: pydict where
  "demo_policy = [(''states'', PList [PStr ''PLANNING'', PStr ''MERGE_READY'']),
     (''transitions'', PDict [(''PLANNING'', PList [PStr ''MERGE_READY''])]),
     (''gates'', PDict [(''MERGE_READY'', PDict [(''minimum_trust'', PStr ''E3''),
        (''required_evidence'', PList [PStr ''TESTS''])])])]"

definition demo_full_subject :: pydict where
  "demo_full_subject = [(''repository'', PStr ''r''), (''protected_base_sha'', PStr (replicate 40 (CHR ''a''))),
     (''pr_head_sha'', PStr (replicate 40 (CHR ''b''))), (''reviewed_diff_hash'', PStr (''sha256:'' @ replicate 64 (CHR ''0''))),
     (''change_contract_hash'', PStr (''sha256:'' @ replicate 64 (CHR ''1''))),
     (''policy_bundle_hash'', PStr (''sha256:'' @ replicate 64 (CHR ''2''))),
     (''toolchain_hash'', PStr (''sha256:'' @ replicate 64 (CHR ''3'')))]"

definition demo_context :: gate_context where
  "demo_context = \<lparr>gc_schema = (\<lambda>_. []), gc_subject = Some demo_full_subject, gc_roots = Some demo_roots,
     gc_now = 63902919900000000\<rparr>"

definition demo_records :: "pydict list" where
  "demo_records = [demo_full_subject @ demo_evidence_of ''e1'' ''TESTS'']"

theorem transition_gate_exact_witness:
  "(\<exists>d v. evaluate_transition_from_records (\<lambda>_. ''h'') demo_load demo_context demo_policy ''PLANNING'' ''MERGE_READY''
      ''R1'' demo_records = Inr (d, v) \<and> gd_allowed d) \<and>
   edge_of demo_policy ''PLANNING'' ''MERGE_READY'' \<and> usable_subject demo_context demo_records \<and>
   records_suffice (\<lambda>_. ''h'') demo_load demo_context \<lparr>rq_minimum = ''E3'', rq_evidence = [''TESTS''], rq_approvals = []\<rparr>
     demo_records"
proof -
  let ?r = "evaluate_transition_from_records (\<lambda>_. ''h'') demo_load demo_context demo_policy ''PLANNING'' ''MERGE_READY''
      ''R1'' demo_records"
  have "case ?r of Inl _ \<Rightarrow> False | Inr (d, v) \<Rightarrow> gd_allowed d" by code_simp
  then obtain d v where r: "?r = Inr (d, v)" "gd_allowed d" by (auto split: sum.splits)
  have q: "gate_requirements demo_policy ''MERGE_READY'' ''R1'' =
      Inr \<lparr>rq_minimum = ''E3'', rq_evidence = [''TESTS''], rq_approvals = []\<rparr>" by code_simp
  have "validate_evidence_subject (subject_value (gc_subject demo_context)) = Inr []" by code_simp
  then have "usable_subject demo_context demo_records" by (simp add: usable_subject_def)
  with transition_gate_exact [OF r(1) q] r show ?thesis by auto
qed

end
