(* ===== verification/Work_Origin.thy ===== *)
theory Work_Origin
  imports Py_Value
begin

text \<open>
  \<open>validate_work_origin\<close> of \<open>toolkit/ztad/bug_protocol.py\<close>: which contracts may enter the generic
  scheduler, and the checks of a handoff from the controller-owned bug lifecycle. A value of the
  wrong type can make the function raise, so the result is the list of errors or an exception.
\<close>

definition owned_store :: string where
  "owned_store = ''controller-owned-sqlite''"

definition handoff_states :: "string list" where
  "handoff_states = [''HANDOFF_READY'', ''CHANGE_PLANNED'']"

definition work_origin :: "pydict \<Rightarrow> string" where
  "work_origin contract = str_upper (py_str (py_or (dget ''origin'' contract) (PStr [])))"

definition valid_handoff :: "pyval \<Rightarrow> bool res" where
  "valid_handoff h =
     (case h of
        PDict d \<Rightarrow>
          if \<not> truthy (dget ''case_id'' d) \<or> \<not> truthy (dget ''problem_case_fingerprint'' d) then Inr False
          else bind_res (in_names (dget ''state'' d) handoff_states)
            (\<lambda>st. Inr (st \<and> py_eq (dget ''authority_store'' d) (PStr owned_store)))
      | _ \<Rightarrow> Inr False)"

text \<open>The handoff against the record of the authoritative store.\<close>

definition authority_errors :: "pydict \<Rightarrow> pydict option \<Rightarrow> string list res" where
  "authority_errors handoff authority =
     (case authority of
        None \<Rightarrow> Inr [''REPORTED_DEFECT handoff must be verified against the controller-owned lifecycle store'']
      | Some a \<Rightarrow>
          bind_res (in_names (dget ''state'' a) handoff_states) (\<lambda>planned. Inr (
            (if \<not> py_eq (dget ''authority_store'' a) (PStr owned_store)
             then [''REPORTED_DEFECT handoff is not backed by the controller-owned lifecycle store''] else []) @
            (if dget ''authoritative_lifecycle'' a \<noteq> PBool True
             then [''REPORTED_DEFECT handoff is not authoritative''] else []) @
            (if \<not> py_eq (dget ''case_id'' a) (dget ''case_id'' handoff)
             then [''REPORTED_DEFECT lifecycle store case ID mismatch''] else []) @
            (if \<not> py_eq (dget ''problem_case_fingerprint'' a) (dget ''problem_case_fingerprint'' handoff)
             then [''REPORTED_DEFECT lifecycle handoff fingerprint mismatch''] else []) @
            (if \<not> planned then [''REPORTED_DEFECT lifecycle handoff is not at CHANGE_PLANNED''] else []))))"

definition scope_errors :: "pydict \<Rightarrow> string list res" where
  "scope_errors contract =
     (let scope = as_dict (dget ''scope'' contract);
          err = [''REPORTED_DEFECT Change Contracts require per-file file_reasons'']
      in if \<not> is_dict (dget ''file_reasons'' scope) then Inr err
         else bind_res (py_set (dget ''file_reasons'' scope)) (\<lambda>reasons.
              bind_res (py_set (dget ''expected_components'' scope)) (\<lambda>expected.
                Inr (if py_set_eq reasons expected then [] else err))))"

definition validate_work_origin :: "pydict \<Rightarrow> bool \<Rightarrow> pydict option \<Rightarrow> string list res" where
  "validate_work_origin contract lifecycle_handoff authority =
     (let origin = work_origin contract;
          handoff = dget ''authoritative_lifecycle_handoff'' contract
      in bind_res (valid_handoff handoff) (\<lambda>valid.
         bind_res (if origin = ''REPORTED_DEFECT'' \<and> valid
                   then bind_res (authority_errors (as_dict handoff) authority) (\<lambda>es.
                        bind_res (scope_errors contract) (\<lambda>ss. Inr (es @
                          (if \<not> py_eq (dget ''bug_lifecycle_case_id'' contract) (dget ''case_id'' (as_dict handoff))
                           then [''REPORTED_DEFECT lifecycle handoff case ID mismatch''] else []) @ ss)))
                   else Inr []) (\<lambda>bound.
         Inr (sorted_set (
           (if origin = [] then [''Work origin is required; missing origin cannot default to FEATURE''] else []) @
           (if origin \<notin> {''FEATURE'', ''REPORTED_DEFECT'', ''INCIDENT'', ''MAINTENANCE'', ''REFACTOR'', ''OTHER''}
            then [''Unsupported work origin''] else []) @
           (if origin \<noteq> ''REPORTED_DEFECT'' \<and>
               (truthy (dget ''bug_lifecycle_case_id'' contract) \<or> is_dict handoff)
            then [''Authoritative bug lifecycle fields require origin REPORTED_DEFECT''] else []) @
           (if origin = ''REPORTED_DEFECT'' \<and> \<not> valid
            then [''REPORTED_DEFECT cannot enter generic autopilot without an authoritative lifecycle handoff'']
            else []) @
           bound @
           (if origin = ''INCIDENT'' \<and> \<not> (lifecycle_handoff \<or> truthy (dget ''incident_id'' contract) \<or>
               truthy (dget ''containment_plan'' contract))
            then [''INCIDENT work requires incident containment context before generic implementation'']
            else []))))))"

text \<open>What an accepted contract guarantees.\<close>

definition backed_handoff :: "pydict \<Rightarrow> pydict option \<Rightarrow> bool" where
  "backed_handoff contract authority \<longleftrightarrow>
     (\<exists>h a. dget ''authoritative_lifecycle_handoff'' contract = PDict h \<and> authority = Some a \<and>
        truthy (dget ''case_id'' h) \<and>
        py_eq (dget ''bug_lifecycle_case_id'' contract) (dget ''case_id'' h) \<and>
        py_eq (dget ''case_id'' a) (dget ''case_id'' h) \<and>
        py_eq (dget ''problem_case_fingerprint'' a) (dget ''problem_case_fingerprint'' h) \<and>
        py_eq (dget ''authority_store'' a) (PStr owned_store) \<and>
        dget ''authoritative_lifecycle'' a = PBool True \<and>
        (\<exists>s \<in> set handoff_states. dget ''state'' a = PStr s))"

lemma authority_errors_Nil:
  assumes "authority_errors h authority = Inr []"
  obtains a where "authority = Some a"
    "py_eq (dget ''case_id'' a) (dget ''case_id'' h)"
    "py_eq (dget ''problem_case_fingerprint'' a) (dget ''problem_case_fingerprint'' h)"
    "py_eq (dget ''authority_store'' a) (PStr owned_store)"
    "dget ''authoritative_lifecycle'' a = PBool True"
    "\<exists>s \<in> set handoff_states. dget ''state'' a = PStr s"
  using assms
  by (auto simp: authority_errors_def bind_res_Inr in_names_True [symmetric] split: option.splits if_splits)

lemma valid_handoff_True:
  "valid_handoff v = Inr True \<Longrightarrow> \<exists>h. v = PDict h \<and> truthy (dget ''case_id'' h)"
  by (cases v) (auto simp: valid_handoff_def bind_res_Inr split: if_splits)

lemma accepted_defect_backed:
  assumes "validate_work_origin contract flag authority = Inr []" and "work_origin contract = ''REPORTED_DEFECT''"
  shows "backed_handoff contract authority"
proof -
  obtain valid where v: "valid_handoff (dget ''authoritative_lifecycle_handoff'' contract) = Inr valid"
    using assms(1) by (auto simp: validate_work_origin_def Let_def bind_res_Inr)
  with assms have "valid" by (auto simp: validate_work_origin_def Let_def bind_res_Inr split: if_splits)
  with v obtain h where h: "dget ''authoritative_lifecycle_handoff'' contract = PDict h" "truthy (dget ''case_id'' h)"
    using valid_handoff_True by auto
  from assms v \<open>valid\<close> h obtain es ss where
    "authority_errors h authority = Inr es" "es @
       (if \<not> py_eq (dget ''bug_lifecycle_case_id'' contract) (dget ''case_id'' h)
        then [''REPORTED_DEFECT lifecycle handoff case ID mismatch''] else []) @ ss = []"
    by (auto simp: validate_work_origin_def Let_def bind_res_Inr split: if_splits)
  then have es: "authority_errors h authority = Inr []"
    and cid: "py_eq (dget ''bug_lifecycle_case_id'' contract) (dget ''case_id'' h)"
    by (auto split: if_splits)
  show ?thesis
    by (rule authority_errors_Nil [OF es]) (use h cid in \<open>auto simp: backed_handoff_def\<close>)
qed

lemma accepted_origin:
  "validate_work_origin contract flag authority = Inr [] \<Longrightarrow>
     work_origin contract \<in> {''FEATURE'', ''REPORTED_DEFECT'', ''INCIDENT'', ''MAINTENANCE'', ''REFACTOR'', ''OTHER''}"
  by (auto simp: validate_work_origin_def Let_def bind_res_Inr split: if_splits)

lemma accepted_generic_unbound:
  "validate_work_origin contract flag authority = Inr [] \<Longrightarrow> work_origin contract \<noteq> ''REPORTED_DEFECT'' \<Longrightarrow>
     \<not> truthy (dget ''bug_lifecycle_case_id'' contract) \<and>
     \<not> is_dict (dget ''authoritative_lifecycle_handoff'' contract)"
  by (auto simp: validate_work_origin_def Let_def bind_res_Inr split: if_splits)

end
