(* ===== verification/Task_Store.thy ===== *)
theory Task_Store
  imports Work_Origin
begin

text \<open>
  \<open>toolkit/ztad/orchestrator.py\<close>: the durable store of the scheduler. The state table and the
  failure routing are pure functions; each method of \<open>ContinuityStore\<close> is one transaction on the
  tables \<open>tasks\<close>, \<open>task_events\<close>, \<open>model_runs\<close>, \<open>evidence_registry\<close> and \<open>approvals\<close>. Clock readings
  (\<open>_iso_now\<close>, \<open>_future\<close>), fresh uuids and the digest are arguments; a JSON column holds the value
  that \<open>json.loads\<close> reads back, which is the written value with sorted keys.
\<close>

section \<open>States\<close>

datatype task_state = BACKLOG | READY | PLANNING | WORKER_IMPLEMENTING | MACHINE_CHECKS
  | SUPERVISOR_REVIEW | AUTO_REPAIR | AUTO_REPLAN | SUPERVISOR_TAKEOVER | CLOSURE_REVIEW
  | CLEAN_RECONSTRUCTION | WAITING_RETRY | WAITING_EXTERNAL_DEPENDENCY | QUARANTINED | MERGE_READY
  | MERGE_QUEUED | MERGED | ARTIFACT_VERIFIED | STAGING | CANARY | ROLLBACK | ROLLED_BACK_RETRYABLE
  | PRODUCTION_VERIFIED | INTERNAL_EXECUTION_COMPLETE | DONE | CANCELLED | SUPERSEDED

fun state_name :: "task_state \<Rightarrow> string" where
  "state_name BACKLOG = ''BACKLOG''"
| "state_name READY = ''READY''"
| "state_name PLANNING = ''PLANNING''"
| "state_name WORKER_IMPLEMENTING = ''WORKER_IMPLEMENTING''"
| "state_name MACHINE_CHECKS = ''MACHINE_CHECKS''"
| "state_name SUPERVISOR_REVIEW = ''SUPERVISOR_REVIEW''"
| "state_name AUTO_REPAIR = ''AUTO_REPAIR''"
| "state_name AUTO_REPLAN = ''AUTO_REPLAN''"
| "state_name SUPERVISOR_TAKEOVER = ''SUPERVISOR_TAKEOVER''"
| "state_name CLOSURE_REVIEW = ''CLOSURE_REVIEW''"
| "state_name CLEAN_RECONSTRUCTION = ''CLEAN_RECONSTRUCTION''"
| "state_name WAITING_RETRY = ''WAITING_RETRY''"
| "state_name WAITING_EXTERNAL_DEPENDENCY = ''WAITING_EXTERNAL_DEPENDENCY''"
| "state_name QUARANTINED = ''QUARANTINED''"
| "state_name MERGE_READY = ''MERGE_READY''"
| "state_name MERGE_QUEUED = ''MERGE_QUEUED''"
| "state_name MERGED = ''MERGED''"
| "state_name ARTIFACT_VERIFIED = ''ARTIFACT_VERIFIED''"
| "state_name STAGING = ''STAGING''"
| "state_name CANARY = ''CANARY''"
| "state_name ROLLBACK = ''ROLLBACK''"
| "state_name ROLLED_BACK_RETRYABLE = ''ROLLED_BACK_RETRYABLE''"
| "state_name PRODUCTION_VERIFIED = ''PRODUCTION_VERIFIED''"
| "state_name INTERNAL_EXECUTION_COMPLETE = ''INTERNAL_EXECUTION_COMPLETE''"
| "state_name DONE = ''DONE''"
| "state_name CANCELLED = ''CANCELLED''"
| "state_name SUPERSEDED = ''SUPERSEDED''"

definition all_states :: "task_state list" where
  "all_states = [BACKLOG, READY, PLANNING, WORKER_IMPLEMENTING, MACHINE_CHECKS, SUPERVISOR_REVIEW,
     AUTO_REPAIR, AUTO_REPLAN, SUPERVISOR_TAKEOVER, CLOSURE_REVIEW, CLEAN_RECONSTRUCTION, WAITING_RETRY,
     WAITING_EXTERNAL_DEPENDENCY, QUARANTINED, MERGE_READY, MERGE_QUEUED, MERGED, ARTIFACT_VERIFIED,
     STAGING, CANARY, ROLLBACK, ROLLED_BACK_RETRYABLE, PRODUCTION_VERIFIED, INTERNAL_EXECUTION_COMPLETE,
     DONE, CANCELLED, SUPERSEDED]"

definition state_of :: "string \<Rightarrow> task_state option" where
  "state_of s = find (\<lambda>st. state_name st = s) all_states"

definition runnable_states :: "task_state list" where
  "runnable_states = [READY, PLANNING, WORKER_IMPLEMENTING, MACHINE_CHECKS, SUPERVISOR_REVIEW,
     AUTO_REPAIR, AUTO_REPLAN, SUPERVISOR_TAKEOVER, CLOSURE_REVIEW, CLEAN_RECONSTRUCTION, MERGE_READY,
     MERGE_QUEUED, MERGED, ARTIFACT_VERIFIED, STAGING, CANARY, PRODUCTION_VERIFIED, ROLLBACK]"

definition delayed_states :: "task_state list" where
  "delayed_states = [WAITING_RETRY, WAITING_EXTERNAL_DEPENDENCY, QUARANTINED, ROLLED_BACK_RETRYABLE]"

definition terminal_states :: "task_state list" where
  "terminal_states = [DONE, INTERNAL_EXECUTION_COMPLETE, CANCELLED, SUPERSEDED]"

text \<open>\<open>TRANSITIONS\<close>.\<close>

fun allowed_next :: "task_state \<Rightarrow> task_state list" where
  "allowed_next BACKLOG = [READY, CANCELLED, SUPERSEDED]"
| "allowed_next READY = [PLANNING, WORKER_IMPLEMENTING, WAITING_EXTERNAL_DEPENDENCY, CANCELLED]"
| "allowed_next PLANNING = [WORKER_IMPLEMENTING, AUTO_REPLAN, WAITING_RETRY, QUARANTINED]"
| "allowed_next WORKER_IMPLEMENTING =
     [MACHINE_CHECKS, AUTO_REPAIR, AUTO_REPLAN, SUPERVISOR_TAKEOVER, WAITING_RETRY, QUARANTINED]"
| "allowed_next MACHINE_CHECKS = [SUPERVISOR_REVIEW, AUTO_REPAIR, AUTO_REPLAN, WAITING_RETRY, QUARANTINED]"
| "allowed_next SUPERVISOR_REVIEW =
     [MERGE_READY, AUTO_REPAIR, AUTO_REPLAN, SUPERVISOR_TAKEOVER, WAITING_RETRY, QUARANTINED]"
| "allowed_next AUTO_REPAIR =
     [WORKER_IMPLEMENTING, MACHINE_CHECKS, AUTO_REPLAN, SUPERVISOR_TAKEOVER, WAITING_RETRY, QUARANTINED]"
| "allowed_next AUTO_REPLAN =
     [WORKER_IMPLEMENTING, SUPERVISOR_TAKEOVER, CLEAN_RECONSTRUCTION, WAITING_RETRY, QUARANTINED]"
| "allowed_next SUPERVISOR_TAKEOVER =
     [MACHINE_CHECKS, CLOSURE_REVIEW, CLEAN_RECONSTRUCTION, WAITING_RETRY, QUARANTINED]"
| "allowed_next CLOSURE_REVIEW = [MERGE_READY, AUTO_REPAIR, AUTO_REPLAN, CLEAN_RECONSTRUCTION, QUARANTINED]"
| "allowed_next CLEAN_RECONSTRUCTION = [PLANNING, WORKER_IMPLEMENTING, WAITING_RETRY, QUARANTINED]"
| "allowed_next WAITING_RETRY =
     [WORKER_IMPLEMENTING, AUTO_REPLAN, SUPERVISOR_TAKEOVER, CLEAN_RECONSTRUCTION, QUARANTINED, CANCELLED]"
| "allowed_next WAITING_EXTERNAL_DEPENDENCY = [READY, AUTO_REPLAN, QUARANTINED, CANCELLED]"
| "allowed_next QUARANTINED = [AUTO_REPLAN, CLEAN_RECONSTRUCTION, WAITING_RETRY, CANCELLED, SUPERSEDED]"
| "allowed_next MERGE_READY = [MERGE_QUEUED, STAGING, WAITING_RETRY, QUARANTINED]"
| "allowed_next MERGE_QUEUED = [MERGED, AUTO_REPLAN, WAITING_RETRY, QUARANTINED]"
| "allowed_next MERGED = [ARTIFACT_VERIFIED, ROLLBACK, QUARANTINED]"
| "allowed_next ARTIFACT_VERIFIED = [STAGING, CANARY, ROLLBACK, QUARANTINED]"
| "allowed_next STAGING = [CANARY, PRODUCTION_VERIFIED, ROLLBACK, WAITING_RETRY, QUARANTINED]"
| "allowed_next CANARY = [PRODUCTION_VERIFIED, ROLLBACK, WAITING_RETRY, QUARANTINED]"
| "allowed_next ROLLBACK = [ROLLED_BACK_RETRYABLE, DONE, QUARANTINED]"
| "allowed_next ROLLED_BACK_RETRYABLE = [AUTO_REPLAN, CLEAN_RECONSTRUCTION, WAITING_RETRY, QUARANTINED]"
| "allowed_next PRODUCTION_VERIFIED = [INTERNAL_EXECUTION_COMPLETE, DONE, ROLLBACK]"
| "allowed_next INTERNAL_EXECUTION_COMPLETE = []"
| "allowed_next DONE = []"
| "allowed_next CANCELLED = []"
| "allowed_next SUPERSEDED = []"

section \<open>Failure routing\<close>

definition transient_failures :: "string list" where
  "transient_failures = [''MODEL_TIMEOUT'', ''MODEL_RATE_LIMIT'', ''MODEL_UNAVAILABLE'', ''CI_UNAVAILABLE'',
     ''MODEL_PROVIDER_UNAVAILABLE'', ''NETWORK_TRANSIENT'', ''LEASE_EXPIRED'', ''LOCK_CONTENTION'',
     ''RUNNER_UNAVAILABLE'']"

definition external_failures :: "string list" where
  "external_failures = [''MISSING_CREDENTIAL'', ''EXTERNAL_DEPENDENCY'', ''BUSINESS_DECISION_REQUIRED'',
     ''SERVICE_PERMISSION_MISSING'', ''ENVIRONMENT_NOT_PROVISIONED'']"

definition non_retryable_failures :: "string list" where
  "non_retryable_failures = [''POLICY_VIOLATION'', ''SECRET_EXPOSURE_ATTEMPT'', ''DESTRUCTIVE_UNREVERSIBLE'',
     ''CONTROL_PLANE_CORRUPTION'', ''EVIDENCE_FABRICATION'', ''REQUIREMENT_CONTRADICTION'']"

record failure_decision =
  fd_next :: task_state
  fd_retry :: int
  fd_delta :: int
  fd_reason :: string

text \<open>The counts are non-negative (the columns start at 0 and grow).\<close>

definition backoff :: "int \<Rightarrow> int \<Rightarrow> int" where
  "backoff base attempts = min (base * 2 ^ nat (min attempts 8)) 3600"

definition decide_failure :: "string \<Rightarrow> string \<Rightarrow> int \<Rightarrow> int \<Rightarrow> int \<Rightarrow> int \<Rightarrow> failure_decision" where
  "decide_failure failure_class role worker supervisor attempts base =
     (let fc = str_upper failure_class; ro = str_lower role in
      if fc \<in> set non_retryable_failures then
        \<lparr>fd_next = QUARANTINED, fd_retry = 3600, fd_delta = 1,
         fd_reason = ''Unsafe or logically non-retryable failure was contained''\<rparr>
      else if fc \<in> set external_failures then
        \<lparr>fd_next = WAITING_EXTERNAL_DEPENDENCY, fd_retry = 900, fd_delta = 0,
         fd_reason = ''External prerequisite is absent; other tasks remain schedulable''\<rparr>
      else if fc \<in> set transient_failures then
        \<lparr>fd_next = WAITING_RETRY, fd_retry = backoff base attempts, fd_delta = 0,
         fd_reason = ''Transient failure scheduled with bounded exponential backoff''\<rparr>
      else if ro = ''worker'' then
        (if worker \<le> 1 then \<lparr>fd_next = AUTO_REPAIR, fd_retry = 0, fd_delta = 0,
           fd_reason = ''First worker failure receives a targeted repair pass''\<rparr>
         else if worker = 2 then \<lparr>fd_next = AUTO_REPLAN, fd_retry = 0, fd_delta = 1,
           fd_reason = ''Repeated worker failure changes the strategy''\<rparr>
         else if worker = 3 then \<lparr>fd_next = SUPERVISOR_TAKEOVER, fd_retry = 0, fd_delta = 1,
           fd_reason = ''Strong supervisor takes over implementation''\<rparr>
         else if worker = 4 then \<lparr>fd_next = CLEAN_RECONSTRUCTION, fd_retry = 0, fd_delta = 1,
           fd_reason = ''Rebuild from a clean baseline with a new strategy''\<rparr>
         else \<lparr>fd_next = QUARANTINED, fd_retry = 1800, fd_delta = 1,
           fd_reason = ''Repeated failure is contained while the scheduler continues other work''\<rparr>)
      else if ro \<in> {''supervisor'', ''closure''} then
        (if supervisor \<le> 1 then \<lparr>fd_next = AUTO_REPLAN, fd_retry = 0, fd_delta = 1,
           fd_reason = ''Fresh supervisor context must re-plan''\<rparr>
         else if supervisor = 2 then \<lparr>fd_next = CLEAN_RECONSTRUCTION, fd_retry = 0, fd_delta = 1,
           fd_reason = ''Review failure triggers clean reconstruction''\<rparr>
         else \<lparr>fd_next = QUARANTINED, fd_retry = 1800, fd_delta = 1,
           fd_reason = ''Repeated strong-model failure is contained''\<rparr>)
      else \<lparr>fd_next = WAITING_RETRY, fd_retry = backoff base attempts, fd_delta = 0,
         fd_reason = ''Unknown execution role receives a bounded retry''\<rparr>)"

definition decision_dict :: "failure_decision \<Rightarrow> pydict" where
  "decision_dict d = [(''next_state'', PStr (state_name (fd_next d))),
     (''retry_after_seconds'', PInt (fd_retry d)), (''strategy_delta'', PInt (fd_delta d)),
     (''reason'', PStr (fd_reason d))]"

section \<open>Tables\<close>

record task_row =
  tk_id :: string
  tk_key :: string
  tk_repository :: string
  tk_title :: string
  tk_contract :: pydict
  tk_risk :: string
  tk_priority :: int
  tk_state :: task_state
  tk_strategy :: int
  tk_total :: int
  tk_worker :: int
  tk_supervisor :: int
  tk_next_run :: "string option"
  tk_owner :: "string option"
  tk_lease :: "string option"
  tk_version :: int
  tk_last_failure :: "string option"
  tk_last_error :: "string option"
  tk_created :: string
  tk_updated :: string

record event_row =
  ev_seq :: nat
  ev_task :: string
  ev_key :: string
  ev_type :: string
  ev_created :: string
  ev_prev :: string
  ev_payload :: pydict
  ev_hash :: string

record run_row =
  rn_id :: string
  rn_task :: string
  rn_role :: string
  rn_session :: "string option"
  rn_model :: string
  rn_effort :: "string option"
  rn_prompt :: string
  rn_context :: string
  rn_head :: "string option"
  rn_status :: string
  rn_input :: "int option"
  rn_output :: "int option"
  rn_output_hash :: "string option"
  rn_created :: string
  rn_completed :: "string option"

record approval_row =
  ap_id :: string
  ap_task :: string
  ap_role :: string
  ap_session :: string
  ap_head :: string
  ap_diff :: string
  ap_refs :: "string list"
  ap_decision :: string
  ap_epoch :: int
  ap_fingerprint :: "string option"
  ap_policy :: "string option"
  ap_toolchain :: "string option"
  ap_created :: string

record evidence_row =
  er_id :: string
  er_task :: string
  er_head :: string
  er_type :: string
  er_trust :: string
  er_status :: string
  er_producer :: string
  er_payload :: pydict
  er_hash :: string
  er_created :: string

record task_db =
  td_tasks :: "task_row list"
  td_events :: "event_row list"
  td_runs :: "run_row list"
  td_approvals :: "approval_row list"
  td_evidence :: "evidence_row list"

definition store_empty :: task_db where
  "store_empty = \<lparr>td_tasks = [], td_events = [], td_runs = [], td_approvals = [], td_evidence = []\<rparr>"

text \<open>\<open>_task_row\<close>: the flag it adds.\<close>

definition authoritative :: "task_row \<Rightarrow> bool" where
  "authoritative r \<longleftrightarrow>
     truthy (dget ''authoritative_bug_lifecycle'' (tk_contract r)) \<or>
     truthy (dget ''bug_lifecycle_case_id'' (tk_contract r)) \<or>
     py_eq (dget ''protocol'' (tk_contract r)) (PStr ''WorkshopOS-Fail-Closed-Bug-to-Production-v1'')"

definition read_back :: "pydict \<Rightarrow> pydict" where
  "read_back d = as_dict (sort_keys (PDict d))"

section \<open>The event chain\<close>

definition zero_hash :: string where
  "zero_hash = ''sha256:'' @ replicate 64 (CHR ''0'')"

definition event_material :: "event_row \<Rightarrow> pyval" where
  "event_material e = PDict
     [(''sequence'', PInt (int (ev_seq e))), (''task_id'', PStr (ev_task e)),
      (''idempotency_key'', PStr (ev_key e)), (''event_type'', PStr (ev_type e)),
      (''created_at'', PStr (ev_created e)), (''previous_hash'', PStr (ev_prev e)),
      (''payload'', PDict (ev_payload e))]"

definition event_digest :: "(string \<Rightarrow> string) \<Rightarrow> event_row \<Rightarrow> string" where
  "event_digest sha e = sha256_json sha (event_material e)"

definition append_event :: "(string \<Rightarrow> string) \<Rightarrow> string \<Rightarrow> string \<Rightarrow> string \<Rightarrow> pydict \<Rightarrow> string \<Rightarrow> task_db \<Rightarrow> task_db res" where
  "append_event sha now task ty payload key db =
     (case find (\<lambda>e. ev_key e = key) (td_events db) of
        Some _ \<Rightarrow> Inr db
      | None \<Rightarrow>
          if task \<notin> tk_id ` set (td_tasks db) then Inl (IntegrityError ''FOREIGN KEY constraint failed'')
          else let previous = (if td_events db = [] then zero_hash else ev_hash (last (td_events db)));
                   seq = Suc (fold max (map ev_seq (td_events db)) 0);
                   e = \<lparr>ev_seq = seq, ev_task = task, ev_key = key, ev_type = ty, ev_created = now,
                        ev_prev = previous, ev_payload = read_back payload, ev_hash = ''PENDING''\<rparr>;
                   h = event_digest sha (e\<lparr>ev_payload := payload\<rparr>)
               in if h \<in> ev_hash ` set (td_events db)
                  then Inl (IntegrityError ''UNIQUE constraint failed: task_events.record_hash'')
                  else Inr (db\<lparr>td_events := td_events db @ [e\<lparr>ev_hash := h\<rparr>]\<rparr>))"

fun chain_errors :: "(string \<Rightarrow> string) \<Rightarrow> string \<Rightarrow> nat \<Rightarrow> event_row list \<Rightarrow> string list" where
  "chain_errors sha previous expected [] = []"
| "chain_errors sha previous expected (e # es) =
     (if ev_seq e \<noteq> expected then [''Sequence gap at '' @ nat_str (ev_seq e) @ ''; expected '' @ nat_str expected] else []) @
     (if ev_prev e \<noteq> previous then [''Previous hash mismatch at '' @ nat_str (ev_seq e)] else []) @
     (if event_digest sha e \<noteq> ev_hash e then [''Record hash mismatch at '' @ nat_str (ev_seq e)] else []) @
     chain_errors sha (ev_hash e) (Suc expected) es"

record chain_report =
  cr_valid :: bool
  cr_events :: nat
  cr_head :: string
  cr_errors :: "string list"

definition verify_event_chain :: "(string \<Rightarrow> string) \<Rightarrow> task_db \<Rightarrow> chain_report" where
  "verify_event_chain sha db =
     (let rows = sort_key ev_seq (td_events db); errors = chain_errors sha zero_hash 1 rows
      in \<lparr>cr_valid = (errors = []), cr_events = length rows,
          cr_head = (if rows = [] then zero_hash else ev_hash (last rows)), cr_errors = errors\<rparr>)"

section \<open>Submitting and claiming\<close>

record submit_args =
  sb_repository :: string
  sb_title :: string
  sb_contract :: pydict
  sb_risk :: string
  sb_priority :: int
  sb_key :: "string option"
  sb_task :: "string option"

definition default_to :: "string \<Rightarrow> string option \<Rightarrow> string" where
  "default_to d given = (case given of None \<Rightarrow> d | Some s \<Rightarrow> if s = [] then d else s)"

text \<open>
  \<open>authority\<close> is \<open>LifecycleStore(self.bug_lifecycle_store).get(case, verify=True)\<close>, absent when no
  such store is configured.
\<close>

definition submit_authority :: "(string \<Rightarrow> pydict res) option \<Rightarrow> pydict \<Rightarrow> pydict option res" where
  "submit_authority authority contract =
     (case authority of
        None \<Rightarrow> Inr None
      | Some get \<Rightarrow>
          if truthy (dget ''bug_lifecycle_case_id'' contract)
          then bind_res (get (py_str (dget ''bug_lifecycle_case_id'' contract))) (\<lambda>a. Inr (Some a))
          else Inr None)"

definition submit_task :: "(string \<Rightarrow> string) \<Rightarrow> (string \<Rightarrow> pydict res) option \<Rightarrow> string \<Rightarrow> string \<Rightarrow> string \<Rightarrow>
    submit_args \<Rightarrow> task_db \<Rightarrow> (task_db \<times> task_row \<times> bool) res" where
  "submit_task sha authority fresh now enow a db =
     (let contract = sb_contract a in
      if sb_risk a \<notin> {''R0'', ''R1'', ''R2'', ''R3'', ''R4''} then Inl (ValueError ''Unknown risk'')
      else bind_res (submit_authority authority contract) (\<lambda>lifecycle.
           bind_res (validate_work_origin contract
               (truthy (py_or (dget ''bug_lifecycle_case_id'' contract)
                  (dget ''authoritative_lifecycle_handoff'' contract))) lifecycle) (\<lambda>origin_errors.
      if origin_errors \<noteq> [] then Inl (PermissionError ''Work-origin gate blocked task submission'')
      else let tid = default_to (''task-'' @ fresh) (sb_task a);
               key = default_to (sha256_json sha (PDict [(''repository'', PStr (sb_repository a)),
                 (''title'', PStr (sb_title a)), (''contract'', PDict contract)])) (sb_key a)
           in (case tbl_get tk_key key (td_tasks db) of
                 Some r \<Rightarrow> Inr (db, r, True)
               | None \<Rightarrow>
                   if tid \<in> tk_id ` set (td_tasks db)
                   then Inl (IntegrityError ''UNIQUE constraint failed: tasks.task_id'')
                   else let r = \<lparr>tk_id = tid, tk_key = key, tk_repository = sb_repository a,
                       tk_title = sb_title a, tk_contract = read_back contract, tk_risk = sb_risk a,
                       tk_priority = sb_priority a, tk_state = READY, tk_strategy = 1, tk_total = 0,
                       tk_worker = 0, tk_supervisor = 0, tk_next_run = None, tk_owner = None, tk_lease = None,
                       tk_version = 1, tk_last_failure = None, tk_last_error = None, tk_created = now,
                       tk_updated = now\<rparr>
                     in bind_res (append_event sha enow tid ''TASK_SUBMITTED''
                          [(''state'', PStr ''READY''), (''risk'', PStr (sb_risk a)), (''priority'', PInt (sb_priority a))]
                          (''submit:'' @ key) (db\<lparr>td_tasks := td_tasks db @ [r]\<rparr>))
                        (\<lambda>db'. Inr (db', r, False))))))"

definition get_task :: "task_db \<Rightarrow> string \<Rightarrow> task_row res" where
  "get_task db i = (case tbl_get tk_id i (td_tasks db) of None \<Rightarrow> Inl (KeyError i) | Some r \<Rightarrow> Inr r)"

definition list_tasks :: "task_db \<Rightarrow> task_state list \<Rightarrow> task_row list" where
  "list_tasks db sts = sort_key (\<lambda>r. (- tk_priority r, tk_created r))
     (filter (\<lambda>r. sts = [] \<or> tk_state r \<in> set sts) (td_tasks db))"

definition task_lease_expired :: "string \<Rightarrow> task_row \<Rightarrow> bool" where
  "task_lease_expired now r \<longleftrightarrow> (case tk_lease r of None \<Rightarrow> False | Some t \<Rightarrow> t \<le> now)"

definition recovered_row :: "string \<Rightarrow> string \<Rightarrow> task_row \<Rightarrow> task_row" where
  "recovered_row soon now r = r\<lparr>tk_state := WAITING_RETRY, tk_next_run := Some soon, tk_owner := None,
     tk_lease := None, tk_last_failure := Some ''LEASE_EXPIRED'', tk_last_error := Some ''Worker lease expired'',
     tk_version := tk_version r + 1, tk_updated := now\<rparr>"

definition recover_one :: "(string \<Rightarrow> string) \<Rightarrow> (string \<Rightarrow> string) \<Rightarrow> (string \<Rightarrow> string) \<Rightarrow> string \<Rightarrow>
    task_row \<Rightarrow> task_db \<Rightarrow> task_db res" where
  "recover_one sha soon clock now r db =
     append_event sha (clock (tk_id r)) (tk_id r) ''LEASE_RECOVERED''
       [(''previous_owner'', opt_str (tk_owner r)), (''previous_state'', PStr (state_name (tk_state r)))]
       (''lease-recovered:'' @ tk_id r @ '':'' @ int_str (tk_version r))
       (db\<lparr>td_tasks := tbl_upd (\<lambda>q. tk_id q = tk_id r \<and> tk_version q = tk_version r)
          (recovered_row (soon (tk_id r)) now) (td_tasks db)\<rparr>)"

definition recover_expired_leases :: "(string \<Rightarrow> string) \<Rightarrow> (string \<Rightarrow> string) \<Rightarrow> (string \<Rightarrow> string) \<Rightarrow> string \<Rightarrow>
    task_db \<Rightarrow> (task_db \<times> nat) res" where
  "recover_expired_leases sha soon clock now db =
     (let rows = filter (task_lease_expired now) (td_tasks db)
      in bind_res (fold_res (recover_one sha soon clock now) rows db) (\<lambda>db'. Inr (db', length rows)))"

definition due :: "string \<Rightarrow> task_row \<Rightarrow> bool" where
  "due now r \<longleftrightarrow> tk_state r \<in> set delayed_states \<and> (case tk_next_run r of None \<Rightarrow> False | Some t \<Rightarrow> t \<le> now)"

definition promote_target :: "task_state \<Rightarrow> task_state" where
  "promote_target st =
     (if st = WAITING_EXTERNAL_DEPENDENCY then READY
      else if st = QUARANTINED \<or> st = ROLLED_BACK_RETRYABLE then AUTO_REPLAN
      else WORKER_IMPLEMENTING)"

definition promoted_row :: "string \<Rightarrow> task_state \<Rightarrow> task_row \<Rightarrow> task_row" where
  "promoted_row now target r = r\<lparr>tk_state := target, tk_next_run := None,
     tk_version := tk_version r + 1, tk_updated := now\<rparr>"

definition promote_one :: "(string \<Rightarrow> string) \<Rightarrow> (string \<Rightarrow> string) \<Rightarrow> string \<Rightarrow> task_row \<Rightarrow> task_db \<Rightarrow> task_db res" where
  "promote_one sha clock now r db =
     append_event sha (clock (tk_id r)) (tk_id r) ''DELAY_EXPIRED''
       [(''from'', PStr (state_name (tk_state r))), (''to'', PStr (state_name (promote_target (tk_state r))))]
       (''delay-expired:'' @ tk_id r @ '':'' @ int_str (tk_version r))
       (db\<lparr>td_tasks := tbl_upd (\<lambda>q. tk_id q = tk_id r \<and> tk_version q = tk_version r)
          (promoted_row now (promote_target (tk_state r))) (td_tasks db)\<rparr>)"

definition promote_due :: "(string \<Rightarrow> string) \<Rightarrow> (string \<Rightarrow> string) \<Rightarrow> string \<Rightarrow> task_db \<Rightarrow> task_db res" where
  "promote_due sha clock now db = fold_res (promote_one sha clock now) (filter (due now) (td_tasks db)) db"

definition claimable :: "string \<Rightarrow> task_row \<Rightarrow> bool" where
  "claimable now r \<longleftrightarrow> tk_state r \<in> set runnable_states \<and>
     (case tk_next_run r of None \<Rightarrow> True | Some t \<Rightarrow> t \<le> now) \<and>
     (case tk_lease r of None \<Rightarrow> True | Some t \<Rightarrow> t \<le> now)"

definition leased_row :: "string \<Rightarrow> string \<Rightarrow> string \<Rightarrow> task_row \<Rightarrow> task_row" where
  "leased_row owner expires now r = r\<lparr>tk_owner := Some owner, tk_lease := Some expires,
     tk_version := tk_version r + 1, tk_updated := now\<rparr>"

text \<open>Rows equal in priority and creation time are taken in the order of insertion.\<close>

definition claim_next :: "(string \<Rightarrow> string) \<Rightarrow> (string \<Rightarrow> string) \<Rightarrow> string \<Rightarrow> string \<Rightarrow> string \<Rightarrow> string \<Rightarrow>
    task_db \<Rightarrow> (task_db \<times> task_row option) res" where
  "claim_next sha clock now expires enow worker db =
     bind_res (promote_due sha clock now db) (\<lambda>db1.
       (case sort_key (\<lambda>r. (- tk_priority r, tk_created r)) (filter (claimable now) (td_tasks db1)) of
          [] \<Rightarrow> Inr (db1, None)
        | r # _ \<Rightarrow>
            if rowcount (\<lambda>q. tk_id q = tk_id r \<and> tk_version q = tk_version r) (td_tasks db1) \<noteq> 1
            then Inr (db, None)
            else bind_res (append_event sha enow (tk_id r) ''TASK_CLAIMED''
                   [(''worker_id'', PStr worker), (''lease_expires_at'', PStr expires),
                    (''state'', PStr (state_name (tk_state r)))]
                   (''claim:'' @ tk_id r @ '':'' @ int_str (tk_version r + 1) @ '':'' @ worker)
                   (db1\<lparr>td_tasks := tbl_upd (\<lambda>q. tk_id q = tk_id r \<and> tk_version q = tk_version r)
                      (leased_row worker expires now) (td_tasks db1)\<rparr>))
                 (\<lambda>db2. bind_res (get_task db2 (tk_id r)) (\<lambda>r'. Inr (db2, Some r')))))"

definition renewed_row :: "string \<Rightarrow> string \<Rightarrow> task_row \<Rightarrow> task_row" where
  "renewed_row expires now r = r\<lparr>tk_lease := Some expires, tk_version := tk_version r + 1, tk_updated := now\<rparr>"

definition heartbeat :: "(string \<Rightarrow> string) \<Rightarrow> string \<Rightarrow> string \<Rightarrow> string \<Rightarrow> string \<Rightarrow> string \<Rightarrow> task_db \<Rightarrow> task_db res" where
  "heartbeat sha now expires enow i worker db =
     (case tbl_get tk_id i (td_tasks db) of
        None \<Rightarrow> Inl (KeyError i)
      | Some r \<Rightarrow>
          if tk_owner r \<noteq> Some worker then Inl (PermissionError ''Lease owner mismatch'')
          else append_event sha enow i ''LEASE_HEARTBEAT''
                 [(''worker_id'', PStr worker), (''lease_expires_at'', PStr expires)]
                 (''heartbeat:'' @ i @ '':'' @ int_str (tk_version r + 1))
                 (db\<lparr>td_tasks := tbl_upd (\<lambda>q. tk_id q = i \<and> tk_version q = tk_version r)
                    (renewed_row expires now) (td_tasks db)\<rparr>))"

section \<open>Transitions and failures\<close>

record transition_args =
  ta_actor :: string
  ta_expected :: "int option"
  ta_payload :: pydict
  ta_release :: bool
  ta_next_run :: "string option"
  ta_key :: "string option"

definition moved_row :: "task_state \<Rightarrow> transition_args \<Rightarrow> string \<Rightarrow> task_row \<Rightarrow> task_row" where
  "moved_row st a now r = r\<lparr>tk_state := st, tk_next_run := ta_next_run a,
     tk_owner := (if ta_release a then None else tk_owner r),
     tk_lease := (if ta_release a then None else tk_lease r),
     tk_version := tk_version r + 1, tk_updated := now\<rparr>"

definition transition :: "(string \<Rightarrow> string) \<Rightarrow> string \<Rightarrow> string \<Rightarrow> string \<Rightarrow> string \<Rightarrow> transition_args \<Rightarrow>
    task_db \<Rightarrow> task_db res" where
  "transition sha now enow i requested a db =
     (case state_of requested of
        None \<Rightarrow> Inl (ValueError ''Unknown state'')
      | Some st \<Rightarrow>
          (case tbl_get tk_id i (td_tasks db) of
             None \<Rightarrow> Inl (KeyError i)
           | Some r \<Rightarrow>
               if (case ta_expected a of None \<Rightarrow> False | Some v \<Rightarrow> tk_version r \<noteq> v)
               then Inl (RuntimeError ''Optimistic concurrency conflict'')
               else if authoritative r \<and> requested = ''DONE''
               then Inl (PermissionError ''Internal scheduler DONE is not a bug-lifecycle closure'')
               else if st \<notin> set (allowed_next (tk_state r)) then Inl (ValueError ''Transition is not allowed'')
               else if rowcount (\<lambda>q. tk_id q = i \<and> tk_version q = tk_version r) (td_tasks db) \<noteq> 1
               then Inl (RuntimeError ''Optimistic concurrency conflict'')
               else append_event sha enow i ''STATE_TRANSITION''
                      (dict_merge [(''from'', PStr (state_name (tk_state r))), (''to'', PStr requested),
                         (''actor'', PStr (ta_actor a))] (ta_payload a))
                      (default_to (''transition:'' @ i @ '':'' @ int_str (tk_version r) @ '':'' @ requested) (ta_key a))
                      (db\<lparr>td_tasks := tbl_upd (\<lambda>q. tk_id q = i \<and> tk_version q = tk_version r)
                         (moved_row st a now) (td_tasks db)\<rparr>)))"

definition failed_row :: "failure_decision \<Rightarrow> int \<Rightarrow> int \<Rightarrow> int \<Rightarrow> string option \<Rightarrow> string \<Rightarrow> string \<Rightarrow> string \<Rightarrow>
    task_row \<Rightarrow> task_row" where
  "failed_row d attempts worker supervisor next_run failure_class err now r =
     r\<lparr>tk_state := fd_next d, tk_strategy := tk_strategy r + fd_delta d, tk_total := attempts,
       tk_worker := worker, tk_supervisor := supervisor, tk_next_run := next_run, tk_owner := None,
       tk_lease := None, tk_last_failure := Some (str_upper failure_class),
       tk_last_error := Some (take 4000 err), tk_version := tk_version r + 1, tk_updated := now\<rparr>"

definition record_failure :: "(string \<Rightarrow> string) \<Rightarrow> (int \<Rightarrow> string) \<Rightarrow> string \<Rightarrow> string \<Rightarrow> string \<Rightarrow> string \<Rightarrow>
    string \<Rightarrow> string \<Rightarrow> string \<Rightarrow> string \<Rightarrow> task_db \<Rightarrow> (task_db \<times> task_row \<times> pyval \<times> bool) res" where
  "record_failure sha future now enow i role failure_class err actor key db =
     (case find (\<lambda>e. ev_key e = key) (td_events db) of
        Some e \<Rightarrow> bind_res (get_task db i) (\<lambda>r. Inr (db, r, dget ''decision'' (ev_payload e), True))
      | None \<Rightarrow>
          (case tbl_get tk_id i (td_tasks db) of
             None \<Rightarrow> Inl (KeyError i)
           | Some r \<Rightarrow>
               let attempts = tk_total r + 1;
                   worker = tk_worker r + (if str_lower role = ''worker'' then 1 else 0);
                   supervisor = tk_supervisor r + (if str_lower role \<in> {''supervisor'', ''closure''} then 1 else 0);
                   d = decide_failure failure_class role worker supervisor attempts 30;
                   next_run = (if fd_retry d \<noteq> 0 then Some (future (fd_retry d)) else None)
               in bind_res (append_event sha enow i ''FAILURE_ROUTED''
                    [(''role'', PStr role), (''failure_class'', PStr (str_upper failure_class)),
                     (''error'', PStr (take 1000 err)), (''decision'', PDict (decision_dict d)), (''actor'', PStr actor)] key
                    (db\<lparr>td_tasks := tbl_upd (\<lambda>q. tk_id q = i \<and> tk_version q = tk_version r)
                       (failed_row d attempts worker supervisor next_run failure_class err now) (td_tasks db)\<rparr>))
                  (\<lambda>db'. bind_res (get_task db' i) (\<lambda>r'. Inr (db', r', PDict (decision_dict d), False)))))"

section \<open>Model runs\<close>

definition record_model_run :: "string \<Rightarrow> string \<Rightarrow> string \<Rightarrow> string option \<Rightarrow> run_row \<Rightarrow> task_db \<Rightarrow>
    (task_db \<times> run_row) res" where
  "record_model_run fresh now now2 run_id a db =
     (let r = a\<lparr>rn_id := default_to (''run-'' @ fresh) run_id, rn_created := now,
        rn_completed := (if rn_status a \<in> {''COMPLETED'', ''FAILED''} then Some now2 else None)\<rparr>
      in if rn_id r \<in> rn_id ` set (td_runs db)
         then Inl (IntegrityError ''UNIQUE constraint failed: model_runs.run_id'')
         else if rn_task r \<notin> tk_id ` set (td_tasks db)
         then Inl (IntegrityError ''FOREIGN KEY constraint failed'')
         else Inr (db\<lparr>td_runs := td_runs db @ [r]\<rparr>, r))"

definition get_model_run :: "task_db \<Rightarrow> string \<Rightarrow> run_row res" where
  "get_model_run db i = (case tbl_get rn_id i (td_runs db) of None \<Rightarrow> Inl (KeyError i) | Some r \<Rightarrow> Inr r)"

definition list_model_runs :: "task_db \<Rightarrow> string \<Rightarrow> string option \<Rightarrow> string option \<Rightarrow> run_row list" where
  "list_model_runs db task role head = sort_key (\<lambda>r. (rn_created r, rn_id r))
     (filter (\<lambda>r. rn_task r = task \<and> (case role of None \<Rightarrow> True | Some x \<Rightarrow> rn_role r = x) \<and>
        (case head of None \<Rightarrow> True | Some x \<Rightarrow> rn_head r = Some x)) (td_runs db))"

section \<open>Evidence\<close>

record evidence_args =
  ea_id :: string
  ea_task :: string
  ea_head :: string
  ea_type :: string
  ea_trust :: string
  ea_status :: string
  ea_producer :: string
  ea_payload :: pydict

definition evidence_material :: "evidence_args \<Rightarrow> pyval" where
  "evidence_material a = PDict
     [(''evidence_id'', PStr (ea_id a)), (''task_id'', PStr (ea_task a)), (''head_sha'', PStr (ea_head a)),
      (''evidence_type'', PStr (ea_type a)), (''trust_level'', PStr (ea_trust a)),
      (''status'', PStr (ea_status a)), (''producer'', PStr (ea_producer a)), (''payload'', PDict (ea_payload a))]"

definition trust_levels :: "string list" where
  "trust_levels = [''E0'', ''E1'', ''E2'', ''E3'', ''E4'', ''E5'', ''E6'']"

definition register_evidence :: "(string \<Rightarrow> string) \<Rightarrow> string \<Rightarrow> evidence_args \<Rightarrow> task_db \<Rightarrow>
    (task_db \<times> evidence_row \<times> bool) res" where
  "register_evidence sha now a db =
     (if ea_trust a \<notin> set trust_levels then Inl (ValueError ''Unknown evidence trust level'')
      else if ea_status a \<notin> {''PASSED'', ''APPROVED'', ''FAILED'', ''INCONCLUSIVE'', ''REVOKED''}
      then Inl (ValueError ''Unknown evidence status'')
      else let h = sha256_json sha (evidence_material a) in
        (case tbl_get er_id (ea_id a) (td_evidence db) of
           Some e \<Rightarrow>
             if er_hash e \<noteq> h
             then Inl (ValueError ''Evidence identifier already exists with different material'')
             else Inr (db, e, True)
         | None \<Rightarrow>
             if ea_task a \<notin> tk_id ` set (td_tasks db) then Inl (KeyError (ea_task a))
             else let e = \<lparr>er_id = ea_id a, er_task = ea_task a, er_head = ea_head a, er_type = ea_type a,
                    er_trust = ea_trust a, er_status = ea_status a, er_producer = ea_producer a,
                    er_payload = read_back (ea_payload a), er_hash = h, er_created = now\<rparr>
                  in Inr (db\<lparr>td_evidence := td_evidence db @ [e]\<rparr>, e, False)))"

definition list_evidence :: "task_db \<Rightarrow> string \<Rightarrow> string option \<Rightarrow> evidence_row list" where
  "list_evidence db task head = sort_key (\<lambda>e. (er_created e, er_id e))
     (filter (\<lambda>e. er_task e = task \<and> (case head of None \<Rightarrow> True | Some h \<Rightarrow> er_head e = h)) (td_evidence db))"

text \<open>\<open>int(trust_level.removeprefix("E"))\<close> on texts of decimal digits; anything else raises.\<close>

definition rank_of :: "string \<Rightarrow> nat option" where
  "rank_of level =
     (let t = (if starts_with ''E'' level then drop 1 level else level)
      in if t \<noteq> [] \<and> (\<forall>c \<in> set t. is_digit c) then Some (nat_of_digits t) else None)"

definition evidence_rank :: "string \<Rightarrow> nat res" where
  "evidence_rank level =
     (case rank_of level of None \<Rightarrow> Inl (ValueError ''Invalid evidence trust level'') | Some n \<Rightarrow> Inr n)"

section \<open>Approvals\<close>

record approval_args =
  aa_task :: string
  aa_role :: string
  aa_session :: string
  aa_head :: string
  aa_diff :: string
  aa_refs :: "string list"
  aa_decision :: string
  aa_epoch :: int
  aa_fingerprint :: "string option"
  aa_policy :: "string option"
  aa_toolchain :: "string option"

definition implementer_conflict :: "task_db \<Rightarrow> approval_args \<Rightarrow> bool" where
  "implementer_conflict db a \<longleftrightarrow> (\<exists>r \<in> set (td_runs db). rn_task r = aa_task a \<and>
     rn_session r = Some (aa_session a) \<and> rn_head r = Some (aa_head a) \<and>
     rn_role r \<in> {''worker'', ''supervisor_takeover''} \<and> rn_status r = ''COMPLETED'')"

definition taken_over :: "task_db \<Rightarrow> approval_args \<Rightarrow> bool" where
  "taken_over db a \<longleftrightarrow> (\<exists>r \<in> set (td_runs db). rn_task r = aa_task a \<and> rn_head r = Some (aa_head a) \<and>
     rn_role r = ''supervisor_takeover'' \<and> rn_status r = ''COMPLETED'')"

definition reviewer_run :: "task_db \<Rightarrow> approval_args \<Rightarrow> bool" where
  "reviewer_run db a \<longleftrightarrow> (\<exists>r \<in> set (td_runs db). rn_task r = aa_task a \<and> rn_role r = aa_role a \<and>
     rn_session r = Some (aa_session a) \<and> rn_head r = Some (aa_head a) \<and> rn_status r = ''COMPLETED'')"

definition evidence_invalid :: "approval_args \<Rightarrow> evidence_row \<Rightarrow> bool res" where
  "evidence_invalid a e =
     (if er_task e \<noteq> aa_task a \<or> er_head e \<noteq> aa_head a \<or> er_status e \<noteq> ''PASSED'' then Inr True
      else bind_res (evidence_rank (er_trust e)) (\<lambda>n. Inr (n < 3)))"

definition check_refs :: "task_db \<Rightarrow> approval_args \<Rightarrow> string list \<Rightarrow> unit res" where
  "check_refs db a refs =
     (let rows = filter (\<lambda>e. er_id e \<in> set refs) (td_evidence db)
      in if refs = [] then Inl (ValueError ''Approval requires registered evidence'')
         else if \<exists>r \<in> set refs. r \<notin> er_id ` set rows then Inl (ValueError ''Unknown evidence references'')
         else bind_res (fold_res (\<lambda>e bad. bind_res (evidence_invalid a e) (\<lambda>b. Inr (bad \<or> b))) rows False)
           (\<lambda>bad. if bad then Inl (ValueError ''Approval evidence must be PASSED, E3+, and bound to the exact task and head SHA'')
             else if \<not> reviewer_run db a
             then Inl (PermissionError ''Approval identity must match a stored completed reviewer run'')
             else Inr ()))"

definition record_approval :: "string \<Rightarrow> string \<Rightarrow> approval_args \<Rightarrow> task_db \<Rightarrow> (task_db \<times> approval_row) res" where
  "record_approval fresh now a db =
     (if aa_decision a \<notin> {''APPROVE'', ''REPAIR'', ''REPLAN'', ''TAKEOVER'', ''ROLLBACK'', ''QUARANTINE''}
      then Inl (ValueError ''Unsupported approval decision'')
      else if implementer_conflict db a \<and> aa_role a \<in> {''supervisor'', ''closure''} \<and> aa_decision a = ''APPROVE''
      then Inl (PermissionError ''The implementing session cannot independently approve the same SHA'')
      else if taken_over db a \<and> aa_decision a = ''APPROVE'' \<and> aa_role a \<noteq> ''closure''
      then Inl (PermissionError ''A fresh closure reviewer must approve a SHA implemented during supervisor takeover'')
      else let refs = sorted_set (aa_refs a) in
        bind_res (if aa_decision a = ''APPROVE'' then check_refs db a refs else Inr ()) (\<lambda>_.
          let p = \<lparr>ap_id = ''approval-'' @ fresh, ap_task = aa_task a, ap_role = aa_role a,
                ap_session = aa_session a, ap_head = aa_head a, ap_diff = aa_diff a, ap_refs = refs,
                ap_decision = aa_decision a, ap_epoch = aa_epoch a, ap_fingerprint = aa_fingerprint a,
                ap_policy = aa_policy a, ap_toolchain = aa_toolchain a, ap_created = now\<rparr>
          in if ap_id p \<in> ap_id ` set (td_approvals db) \<or>
                (\<exists>q \<in> set (td_approvals db). ap_task q = ap_task p \<and> ap_role q = ap_role p \<and>
                   ap_session q = ap_session p \<and> ap_head q = ap_head p \<and> ap_diff q = ap_diff p)
             then Inl (IntegrityError ''UNIQUE constraint failed: approvals'')
             else if ap_task p \<notin> tk_id ` set (td_tasks db)
             then Inl (IntegrityError ''FOREIGN KEY constraint failed'')
             else Inr (db\<lparr>td_approvals := td_approvals db @ [p]\<rparr>, p)))"

definition record_approval_from_run :: "string \<Rightarrow> string \<Rightarrow> string \<Rightarrow> approval_args \<Rightarrow> task_db \<Rightarrow>
    (task_db \<times> approval_row) res" where
  "record_approval_from_run fresh now run_id a db =
     bind_res (get_model_run db run_id) (\<lambda>r.
       if rn_status r \<noteq> ''COMPLETED'' then Inl (ValueError ''Reviewer run is not completed'')
       else if rn_head r \<noteq> Some (aa_head a) then Inl (ValueError ''Reviewer run head SHA mismatch'')
       else if rn_role r \<notin> {''supervisor'', ''closure'', ''security_reviewer'', ''data_reviewer'',
            ''release_advisor'', ''plan_adjudicator''}
       then Inl (PermissionError ''Model run role is not authorized to issue this decision'')
       else (case rn_session r of
               None \<Rightarrow> Inl (ValueError ''Reviewer run lacks a durable session identity'')
             | Some s \<Rightarrow>
                 if s = [] then Inl (ValueError ''Reviewer run lacks a durable session identity'')
                 else record_approval fresh now
                   (a\<lparr>aa_task := rn_task r, aa_role := rn_role r, aa_session := s\<rparr>) db))"

record current_subject =
  cs_head :: string
  cs_diff :: string
  cs_epoch :: "int option"
  cs_fingerprint :: "string option"
  cs_policy :: "string option"
  cs_toolchain :: "string option"

definition ref_errors :: "task_db \<Rightarrow> approval_row \<Rightarrow> string \<Rightarrow> string \<Rightarrow> string list res" where
  "ref_errors db p head i =
     (case tbl_get er_id i (td_evidence db) of
        None \<Rightarrow> Inr [''Evidence disappeared: '' @ i]
      | Some e \<Rightarrow>
          bind_res (if er_status e \<noteq> ''PASSED'' then Inr True
                    else bind_res (evidence_rank (er_trust e)) (\<lambda>n. Inr (n < 3))) (\<lambda>weak.
            Inr ((if er_task e \<noteq> ap_task p \<or> er_head e \<noteq> head
                  then [''Evidence is stale or cross-task: '' @ i] else []) @
                 (if weak then [''Evidence is no longer authoritative: '' @ i] else []))))"

definition validate_approval :: "task_db \<Rightarrow> string \<Rightarrow> current_subject \<Rightarrow> (bool \<times> approval_row \<times> string list) res" where
  "validate_approval db i c =
     (case tbl_get ap_id i (td_approvals db) of
        None \<Rightarrow> Inl (KeyError i)
      | Some p \<Rightarrow>
          bind_res (fold_res (\<lambda>r es. bind_res (ref_errors db p (cs_head c) r) (\<lambda>es'. Inr (es @ es')))
            (ap_refs p)
            ((if ap_head p \<noteq> cs_head c then [''Approval head SHA is stale''] else []) @
             (if ap_diff p \<noteq> cs_diff c then [''Approval diff hash is stale''] else []) @
             (if cs_epoch c \<noteq> None \<and> Some (ap_epoch p) \<noteq> cs_epoch c then [''Approval subject epoch is stale''] else []) @
             (if cs_fingerprint c \<noteq> None \<and> ap_fingerprint p \<noteq> cs_fingerprint c
              then [''Approval subject fingerprint is stale''] else []) @
             (if cs_policy c \<noteq> None \<and> ap_policy p \<noteq> cs_policy c then [''Approval policy bundle is stale''] else []) @
             (if cs_toolchain c \<noteq> None \<and> ap_toolchain p \<noteq> cs_toolchain c
              then [''Approval toolchain is stale''] else [])))
            (\<lambda>errors. Inr (errors = [], p, errors)))"

section \<open>Status\<close>

record store_status =
  ss_counts :: "(task_state \<times> nat) list"
  ss_runnable :: nat
  ss_delayed :: nat
  ss_terminal :: nat
  ss_blocked :: bool

definition state_count :: "task_db \<Rightarrow> task_state \<Rightarrow> nat" where
  "state_count db st = rowcount (\<lambda>r. tk_state r = st) (td_tasks db)"

definition system_status :: "task_db \<Rightarrow> store_status" where
  "system_status db =
     (let counts = filter (\<lambda>(_, n). n \<noteq> 0) (map (\<lambda>st. (st, state_count db st)) all_states);
          total_of = (\<lambda>sts. sum_list (map (state_count db) sts))
      in \<lparr>ss_counts = counts, ss_runnable = total_of runnable_states, ss_delayed = total_of delayed_states,
          ss_terminal = total_of terminal_states,
          ss_blocked = (total_of runnable_states = 0 \<and> total_of delayed_states = 0 \<and>
            sum_list (map snd counts) > total_of terminal_states)\<rparr>)"

end
