(* ===== verification/Hash_Chain.thy ===== *)
theory Hash_Chain
  imports Py_Value
begin

text \<open>
  Append-only logs whose records carry the hash of their own material and of the previous record,
  as the task events of \<open>orchestrator.py\<close> and the lifecycle events of \<open>lifecycle_store.py\<close>. The
  interface is what a log needs of its records; its clients are append and verification.
\<close>

fun chain_from :: "('e \<Rightarrow> nat) \<Rightarrow> ('e \<Rightarrow> string) \<Rightarrow> ('e \<Rightarrow> string) \<Rightarrow> ('e \<Rightarrow> string) \<Rightarrow> string \<Rightarrow> nat \<Rightarrow> 'e list \<Rightarrow> bool" where
  "chain_from seq prev rec digest p n [] = True"
| "chain_from seq prev rec digest p n (e # es) =
     (seq e = n \<and> prev e = p \<and> rec e = digest e \<and> chain_from seq prev rec digest (rec e) (Suc n) es)"

fun chain_head :: "('e \<Rightarrow> string) \<Rightarrow> string \<Rightarrow> 'e list \<Rightarrow> string" where
  "chain_head rec p [] = p"
| "chain_head rec p (e # es) = chain_head rec (rec e) es"

lemma chain_head_last: "chain_head rec p es = (if es = [] then p else rec (last es))"
  by (induction es arbitrary: p) auto

lemma chain_from_snoc:
  "chain_from seq prev rec digest p n (es @ [x]) \<longleftrightarrow>
     chain_from seq prev rec digest p n es \<and> seq x = n + length es \<and> prev x = chain_head rec p es \<and> rec x = digest x"
  by (induction es arbitrary: p n) auto

lemma chain_from_seqs:
  "chain_from seq prev rec digest p n es \<Longrightarrow> map seq es = [n ..< n + length es]"
proof (induction es arbitrary: p n)
  case (Cons e es)
  then have "chain_from seq prev rec digest (rec e) (Suc n) es" by auto
  from Cons.IH [OF this] Cons.prems show ?case by (simp add: upt_conv_Cons del: upt_Suc)
qed simp

locale event_chain =
  fixes seq :: "'e \<Rightarrow> nat" and prev rec digest :: "'e \<Rightarrow> string" and seal :: "string \<Rightarrow> 'e \<Rightarrow> 'e"
    and collision_free :: bool
  assumes seq_seal: "seq (seal h e) = seq e"
    and prev_seal: "prev (seal h e) = prev e"
    and rec_seal: "rec (seal h e) = h"
    and digest_seal: "digest (seal h e) = digest e"
    and digest_prev: "collision_free \<Longrightarrow> digest x = digest y \<Longrightarrow> prev x = prev y"
begin

lemma append_sealed:
  assumes "chain_from seq prev rec digest p n es" and "seq e = n + length es" and "prev e = chain_head rec p es"
  shows "chain_from seq prev rec digest p n (es @ [seal (digest e) e])"
  using assms by (simp add: chain_from_snoc seq_seal prev_seal rec_seal digest_seal)

text \<open>The head hash commits to the whole log.\<close>

lemma head_commits:
  assumes "collision_free" and "chain_from seq prev rec digest p n es" and "chain_from seq prev rec digest p n fs"
    and "length es = length fs" and "chain_head rec p es = chain_head rec p fs"
  shows "list_all2 (\<lambda>x y. digest x = digest y \<and> rec x = rec y) es fs"
  using assms(2-5)
proof (induction es arbitrary: fs rule: rev_induct)
  case (snoc x es)
  then obtain y gs where fs: "fs = gs @ [y]" by (cases fs rule: rev_cases) auto
  have "digest x = digest y \<and> rec x = rec y"
    using snoc.prems by (simp add: fs chain_from_snoc chain_head_last)
  moreover from this have "prev x = prev y" using digest_prev [OF assms(1)] by blast
  ultimately show ?case
    using snoc by (auto simp: fs chain_from_snoc list_all2_append)
qed simp

text \<open>Changing what one record says, however the log after it is continued, changes the head.\<close>

lemma tampering_shows:
  assumes "collision_free"
    and "chain_from seq prev rec digest p n (es @ x # fs)" and "chain_from seq prev rec digest p n (es @ y # gs)"
    and "digest x \<noteq> digest y" and "length fs = length gs"
  shows "chain_head rec p (es @ x # fs) \<noteq> chain_head rec p (es @ y # gs)"
proof
  assume "chain_head rec p (es @ x # fs) = chain_head rec p (es @ y # gs)"
  with head_commits [OF assms(1,2,3)] assms(5)
  have "list_all2 (\<lambda>x y. digest x = digest y \<and> rec x = rec y) (es @ x # fs) (es @ y # gs)" by simp
  with assms(4) show False by (simp add: list_all2_append)
qed

end

end
