(* ===== verification/Task_Inv.thy ===== *)
theory Task_Inv
  imports Task_Store Hash_Chain
begin

text \<open>
  The task store as a transition system: one step per public method of \<open>ContinuityStore\<close>. The
  invariants cover the tasks, the event log, and the approvals with the evidence they rest on.
\<close>

section \<open>The event log\<close>

lemma event_digest_cong: "event_digest sha (e\<lparr>ev_hash := h\<rparr>) = event_digest sha e"
  by (simp add: event_digest_def event_material_def)

lemma sort_keys_read_back: "sort_keys (PDict (read_back d)) = sort_keys (PDict d)"
proof -
  have "PDict (read_back d) = sort_keys (PDict d)" by (simp add: read_back_def)
  then show ?thesis by (simp only: sort_keys_idem)
qed

lemma event_digest_read_back:
  "event_digest sha (e\<lparr>ev_payload := read_back d\<rparr>) = event_digest sha (e\<lparr>ev_payload := d\<rparr>)" for d e
  unfolding event_digest_def event_material_def
  by (rule sha256_json_cong) (simp add: sort_keys_read_back [simplified])

text \<open>Equal canonical texts have equal entries.\<close>

lemma event_digest_inject:
  assumes "inj sha" and "event_digest sha x = event_digest sha y"
  shows "ev_seq x = ev_seq y \<and> ev_task x = ev_task y \<and> ev_key x = ev_key y \<and> ev_type x = ev_type y \<and>
    ev_created x = ev_created y \<and> ev_prev x = ev_prev y \<and>
    sort_keys (PDict (ev_payload x)) = sort_keys (PDict (ev_payload y))"
proof -
  let ?d = "\<lambda>e. [(''sequence'', PInt (int (ev_seq e))), (''task_id'', PStr (ev_task e)),
      (''idempotency_key'', PStr (ev_key e)), (''event_type'', PStr (ev_type e)),
      (''created_at'', PStr (ev_created e)), (''previous_hash'', PStr (ev_prev e)),
      (''payload'', PDict (ev_payload e))]"
  have "sort_keys (PDict (?d x)) = sort_keys (PDict (?d y))"
    using assms by (simp only: event_digest_def event_material_def sha256_json_inject)
  from sort_keys_lookup [OF this]
  have k: "map_option sort_keys (map_of (?d x) k) = map_option sort_keys (map_of (?d y) k)" for k
    by (simp add: dkeys_def)
  have "ev_seq x = ev_seq y" using k [of "''sequence''"] by simp
  moreover have "ev_task x = ev_task y" using k [of "''task_id''"] by simp
  moreover have "ev_key x = ev_key y" using k [of "''idempotency_key''"] by simp
  moreover have "ev_type x = ev_type y" using k [of "''event_type''"] by simp
  moreover have "ev_created x = ev_created y" using k [of "''created_at''"] by simp
  moreover have "ev_prev x = ev_prev y" using k [of "''previous_hash''"] by simp
  moreover have "sort_keys (PDict (ev_payload x)) = sort_keys (PDict (ev_payload y))"
    using k [of "''payload''"] by (simp del: sort_keys.simps)
  ultimately show ?thesis by blast
qed

interpretation task_log: event_chain ev_seq ev_prev ev_hash "event_digest sha" "\<lambda>h e. e\<lparr>ev_hash := h\<rparr>" "inj sha"
  for sha
  by unfold_locales (simp_all add: event_digest_cong, blast dest: event_digest_inject)

definition log_ok :: "(string \<Rightarrow> string) \<Rightarrow> event_row list \<Rightarrow> bool" where
  "log_ok sha es \<longleftrightarrow> chain_from ev_seq ev_prev ev_hash (event_digest sha) zero_hash 1 es"

lemma chain_errors_Nil:
  "chain_errors sha p n es = [] \<longleftrightarrow> chain_from ev_seq ev_prev ev_hash (event_digest sha) p n es"
  by (induction es arbitrary: p n) auto

lemma log_ok_seqs: "log_ok sha es \<Longrightarrow> map ev_seq es = [1 ..< Suc (length es)]"
  unfolding log_ok_def using chain_from_seqs [of ev_seq ev_prev ev_hash "event_digest sha" zero_hash 1 es] by simp

lemma verify_event_chain_valid:
  assumes "log_ok sha (td_events db)"
  shows "verify_event_chain sha db = \<lparr>cr_valid = True, cr_events = length (td_events db),
    cr_head = chain_head ev_hash zero_hash (td_events db), cr_errors = []\<rparr>"
proof -
  have "sorted (map ev_seq (td_events db))" unfolding log_ok_seqs [OF assms] by (rule sorted_upt)
  then have "sort_key ev_seq (td_events db) = td_events db" by (rule sort_key_id_if_sorted)
  moreover have "chain_errors sha zero_hash 1 (td_events db) = []"
    using assms by (simp only: chain_errors_Nil log_ok_def)
  ultimately show ?thesis by (simp add: verify_event_chain_def chain_head_last Let_def)
qed

text \<open>An append leaves everything but the log alone, and keeps the log verifiable.\<close>

definition same_but_log :: "task_db \<Rightarrow> task_db \<Rightarrow> bool" where
  "same_but_log db db' \<longleftrightarrow> td_tasks db' = td_tasks db \<and> td_runs db' = td_runs db \<and>
     td_approvals db' = td_approvals db \<and> td_evidence db' = td_evidence db"

lemma append_event_frame: "append_event sha now task ty payload key db = Inr db' \<Longrightarrow> same_but_log db db'"
  by (auto simp: append_event_def same_but_log_def Let_def split: guard_splits)

lemma fold_max_upt: "fold max [1 ..< Suc n] 0 = n"
  by (induction n) auto

lemma append_event_log:
  assumes "append_event sha now task ty payload key db = Inr db'" and "log_ok sha (td_events db)"
  shows "log_ok sha (td_events db') \<and>
    (if \<exists>e \<in> set (td_events db). ev_key e = key then td_events db' = td_events db
     else \<exists>e. td_events db' = td_events db @ [e] \<and> ev_key e = key \<and> ev_task e = task \<and> ev_type e = ty \<and>
       ev_created e = now \<and> ev_payload e = read_back payload)"
proof (cases "find (\<lambda>e. ev_key e = key) (td_events db)")
  case (Some e)
  then have "\<exists>e \<in> set (td_events db). ev_key e = key" by (auto simp: find_Some_iff)
  with Some assms show ?thesis by (simp add: append_event_def)
next
  case None
  let ?e = "\<lparr>ev_seq = Suc (length (td_events db)), ev_task = task, ev_key = key, ev_type = ty, ev_created = now,
     ev_prev = chain_head ev_hash zero_hash (td_events db), ev_payload = read_back payload, ev_hash = ''PENDING''\<rparr>"
  have none: "\<not> (\<exists>e \<in> set (td_events db). ev_key e = key)" using None by (simp add: find_None_iff)
  have seq: "fold max (map ev_seq (td_events db)) 0 = length (td_events db)"
    unfolding log_ok_seqs [OF assms(2)] by (rule fold_max_upt)
  have "event_digest sha (?e\<lparr>ev_payload := payload\<rparr>) = event_digest sha ?e"
    using event_digest_read_back [of sha payload ?e] by simp
  then have ev: "td_events db' = td_events db @ [?e\<lparr>ev_hash := event_digest sha ?e\<rparr>]"
    using assms(1) None by (auto simp: append_event_def Let_def seq chain_head_last split: if_splits)
  moreover have "log_ok sha (td_events db @ [?e\<lparr>ev_hash := event_digest sha ?e\<rparr>])"
    using assms(2) unfolding log_ok_def by (rule task_log.append_sealed) simp_all
  ultimately show ?thesis using none by auto
qed

section \<open>Steps\<close>

inductive task_step :: "(string \<Rightarrow> string) \<Rightarrow> (string \<Rightarrow> pydict res) option \<Rightarrow> task_db \<Rightarrow> task_db \<Rightarrow> bool"
  for sha authority where
  ts_submit: "submit_task sha authority fresh now enow a db = Inr (db', r, replay) \<Longrightarrow> task_step sha authority db db'"
| ts_recover: "recover_expired_leases sha soon clock now db = Inr (db', n) \<Longrightarrow> task_step sha authority db db'"
| ts_claim: "claim_next sha clock now expires enow worker db = Inr (db', r) \<Longrightarrow> task_step sha authority db db'"
| ts_heartbeat: "heartbeat sha now expires enow i worker db = Inr db' \<Longrightarrow> task_step sha authority db db'"
| ts_transition: "transition sha now enow i requested ta db = Inr db' \<Longrightarrow> task_step sha authority db db'"
| ts_failure: "record_failure sha future now enow i role fc err actor key db = Inr (db', r, d, replay) \<Longrightarrow>
    task_step sha authority db db'"
| ts_run: "record_model_run fresh now now2 rid run db = Inr (db', r') \<Longrightarrow> task_step sha authority db db'"
| ts_evidence: "register_evidence sha now ea db = Inr (db', e, replay) \<Longrightarrow> task_step sha authority db db'"
| ts_approval: "record_approval fresh now aa db = Inr (db', p) \<Longrightarrow> task_step sha authority db db'"
| ts_approval_run: "record_approval_from_run fresh now rid aa db = Inr (db', p) \<Longrightarrow> task_step sha authority db db'"

inductive task_reach :: "(string \<Rightarrow> string) \<Rightarrow> (string \<Rightarrow> pydict res) option \<Rightarrow> task_db \<Rightarrow> bool" for sha authority where
  tr_start: "task_reach sha authority store_empty"
| tr_step: "task_reach sha authority db \<Longrightarrow> task_step sha authority db db' \<Longrightarrow> task_reach sha authority db'"

section \<open>The invariant of the tasks\<close>

definition good_task :: "task_row \<Rightarrow> bool" where
  "good_task r \<longleftrightarrow> tk_state r \<noteq> BACKLOG \<and> (authoritative r \<longrightarrow> tk_state r \<noteq> DONE)"

definition good_tasks :: "task_row list \<Rightarrow> bool" where
  "good_tasks rows \<longleftrightarrow> unique_key tk_id rows \<and> (\<forall>r \<in> set rows. good_task r)"

text \<open>Every update of a row is one of these writes.\<close>

interpretation recovered_wr: keyed_table tk_id "recovered_row soon now" for soon now
  by unfold_locales (simp add: recovered_row_def)

interpretation promoted_wr: keyed_table tk_id "promoted_row now target" for now target
  by unfold_locales (simp add: promoted_row_def)

interpretation leased_wr: keyed_table tk_id "leased_row owner expires now" for owner expires now
  by unfold_locales (simp add: leased_row_def)

interpretation renewed_wr: keyed_table tk_id "renewed_row expires now" for expires now
  by unfold_locales (simp add: renewed_row_def)

interpretation moved_wr: keyed_table tk_id "moved_row st a now" for st a now
  by unfold_locales (simp add: moved_row_def)

interpretation failed_wr: keyed_table tk_id "failed_row d n w s next fc err now" for d n w s "next" fc err now
  by unfold_locales (simp add: failed_row_def)

lemmas task_writes = recovered_row_def promoted_row_def leased_row_def renewed_row_def moved_row_def failed_row_def

lemma good_tasks_upd:
  assumes "good_tasks rows" and "unique_key tk_id (tbl_upd p f rows)"
    and "\<And>r. r \<in> set rows \<Longrightarrow> p r \<Longrightarrow> good_task r \<Longrightarrow> good_task (f r)"
  shows "good_tasks (tbl_upd p f rows)"
  using assms unfolding good_tasks_def by (auto elim!: tbl_updE)

lemma decide_failure_state: "fd_next (decide_failure fc role w s n base) \<notin> {BACKLOG, DONE}"
  by (simp add: decide_failure_def Let_def)

lemma promote_target_state: "promote_target st \<notin> {BACKLOG, DONE}"
  by (simp add: promote_target_def)

lemma good_tasks_unique: "good_tasks rows \<Longrightarrow> unique_key tk_id rows"
  by (simp add: good_tasks_def)

lemma allowed_next_BACKLOG: "BACKLOG \<notin> set (allowed_next st)"
  by (cases st) simp_all

lemma state_of_name: "state_of s = Some st \<Longrightarrow> state_name st = s"
  unfolding state_of_def by (auto simp: find_Some_iff)

definition store_inv :: "(string \<Rightarrow> string) \<Rightarrow> task_db \<Rightarrow> bool" where
  "store_inv sha db \<longleftrightarrow> good_tasks (td_tasks db) \<and> log_ok sha (td_events db)"

lemma append_event_inv:
  assumes "append_event sha now task ty payload key db = Inr db'"
    and "good_tasks (td_tasks db)" and "log_ok sha (td_events db)"
  shows "store_inv sha db'"
  using append_event_frame [OF assms(1)] append_event_log [OF assms(1,3)] assms(2)
  by (simp add: store_inv_def same_but_log_def)

lemma fold_append_inv:
  assumes "fold_res f xs db = Inr db'" and "store_inv sha db"
    and "\<And>x db db'. f x db = Inr db' \<Longrightarrow> store_inv sha db \<Longrightarrow> store_inv sha db'"
  shows "store_inv sha db'"
  using assms(1,2) by (rule fold_res_invariant) (rule assms(3))

lemma recover_one_inv:
  assumes "recover_one sha soon clock now r db = Inr db'" and "store_inv sha db"
  shows "store_inv sha db'"
proof (rule append_event_inv [OF assms(1) [unfolded recover_one_def]])
  have g: "good_tasks (td_tasks db)" using assms(2) by (simp add: store_inv_def)
  show "good_tasks (td_tasks (db\<lparr>td_tasks := tbl_upd (\<lambda>q. tk_id q = tk_id r \<and> tk_version q = tk_version r)
      (recovered_row (soon (tk_id r)) now) (td_tasks db)\<rparr>))"
    using good_tasks_upd [OF g recovered_wr.upd_unique [OF good_tasks_unique [OF g]]]
    by (simp add: recovered_row_def good_task_def)
qed (use assms(2) in \<open>simp add: store_inv_def\<close>)

lemma promote_one_inv:
  assumes "promote_one sha clock now r db = Inr db'" and "store_inv sha db"
  shows "store_inv sha db'"
proof (rule append_event_inv [OF assms(1) [unfolded promote_one_def]])
  have g: "good_tasks (td_tasks db)" using assms(2) by (simp add: store_inv_def)
  show "good_tasks (td_tasks (db\<lparr>td_tasks := tbl_upd (\<lambda>q. tk_id q = tk_id r \<and> tk_version q = tk_version r)
      (promoted_row now (promote_target (tk_state r))) (td_tasks db)\<rparr>))"
    using good_tasks_upd [OF g promoted_wr.upd_unique [OF good_tasks_unique [OF g]]] promote_target_state [of "tk_state r"]
    by (simp add: promoted_row_def good_task_def)
qed (use assms(2) in \<open>simp add: store_inv_def\<close>)

lemma promote_due_inv: "promote_due sha clock now db = Inr db' \<Longrightarrow> store_inv sha db \<Longrightarrow> store_inv sha db'"
  unfolding promote_due_def by (rule fold_append_inv, assumption, assumption, rule promote_one_inv)

lemma recover_leases_inv:
  assumes "recover_expired_leases sha soon clock now db = Inr (db', n)" and "store_inv sha db"
  shows "store_inv sha db'"
proof -
  have "fold_res (recover_one sha soon clock now) (filter (task_lease_expired now) (td_tasks db)) db = Inr db'"
    using assms(1) by (auto simp: recover_expired_leases_def Let_def bind_res_Inr)
  then show ?thesis using assms(2) by (rule fold_append_inv) (rule recover_one_inv)
qed

lemma claim_next_inv:
  assumes "claim_next sha clock now expires enow worker db = Inr (db', r)" and "store_inv sha db"
  shows "store_inv sha db'"
proof -
  obtain db1 where p: "promote_due sha clock now db = Inr db1"
    using assms(1) by (auto simp: claim_next_def bind_res_Inr)
  note inv1 = promote_due_inv [OF p assms(2)]
  then have g: "good_tasks (td_tasks db1)" by (simp add: store_inv_def)
  let ?rows = "sort_key (\<lambda>r. (- tk_priority r, tk_created r)) (filter (claimable now) (td_tasks db1))"
  show ?thesis
  proof (cases ?rows)
    case Nil
    with assms(1) p inv1 show ?thesis by (simp add: claim_next_def)
  next
    case (Cons q qs)
    let ?upd = "db1\<lparr>td_tasks := tbl_upd (\<lambda>x. tk_id x = tk_id q \<and> tk_version x = tk_version q)
      (leased_row worker expires now) (td_tasks db1)\<rparr>"
    have "good_tasks (td_tasks ?upd)"
      using good_tasks_upd [OF g leased_wr.upd_unique [OF good_tasks_unique [OF g]]]
      by (simp add: leased_row_def good_task_def authoritative_def)
    moreover have "db' = db \<or> append_event sha enow (tk_id q) ''TASK_CLAIMED''
         [(''worker_id'', PStr worker), (''lease_expires_at'', PStr expires), (''state'', PStr (state_name (tk_state q)))]
         (''claim:'' @ tk_id q @ '':'' @ int_str (tk_version q + 1) @ '':'' @ worker) ?upd = Inr db'"
      using assms(1) p Cons by (auto simp: claim_next_def bind_res_Inr split: if_splits)
    ultimately show ?thesis
      using assms(2) inv1 append_event_inv [of sha enow _ _ _ _ ?upd db'] by (auto simp: store_inv_def)
  qed
qed

lemma heartbeat_inv:
  assumes "heartbeat sha now expires enow i worker db = Inr db'" and "store_inv sha db"
  shows "store_inv sha db'"
proof -
  have g: "good_tasks (td_tasks db)" using assms(2) by (simp add: store_inv_def)
  obtain r where r: "tbl_get tk_id i (td_tasks db) = Some r"
    using assms(1) by (cases "tbl_get tk_id i (td_tasks db)") (auto simp: heartbeat_def)
  with assms(1) have a: "append_event sha enow i ''LEASE_HEARTBEAT''
      [(''worker_id'', PStr worker), (''lease_expires_at'', PStr expires)]
      (''heartbeat:'' @ i @ '':'' @ int_str (tk_version r + 1))
      (db\<lparr>td_tasks := tbl_upd (\<lambda>q. tk_id q = i \<and> tk_version q = tk_version r) (renewed_row expires now) (td_tasks db)\<rparr>) = Inr db'"
    by (simp add: heartbeat_def split: if_splits)
  show ?thesis
  proof (rule append_event_inv [OF a])
    show "good_tasks (td_tasks (db\<lparr>td_tasks := tbl_upd (\<lambda>q. tk_id q = i \<and> tk_version q = tk_version r)
        (renewed_row expires now) (td_tasks db)\<rparr>))"
      using good_tasks_upd [OF g renewed_wr.upd_unique [OF good_tasks_unique [OF g]]]
      by (simp add: renewed_row_def good_task_def authoritative_def)
  qed (use assms(2) in \<open>simp add: store_inv_def\<close>)
qed

lemma transition_cases:
  assumes "transition sha now enow i requested a db = Inr db'"
  obtains st r where "state_of requested = Some st" "tbl_get tk_id i (td_tasks db) = Some r"
    "\<forall>v. ta_expected a = Some v \<longrightarrow> tk_version r = v"
    "\<not> (authoritative r \<and> requested = ''DONE'')" "st \<in> set (allowed_next (tk_state r))"
    "append_event sha enow i ''STATE_TRANSITION''
       (dict_merge [(''from'', PStr (state_name (tk_state r))), (''to'', PStr requested), (''actor'', PStr (ta_actor a))]
          (ta_payload a))
       (default_to (''transition:'' @ i @ '':'' @ int_str (tk_version r) @ '':'' @ requested) (ta_key a))
       (db\<lparr>td_tasks := tbl_upd (\<lambda>q. tk_id q = i \<and> tk_version q = tk_version r) (moved_row st a now) (td_tasks db)\<rparr>) = Inr db'"
proof -
  obtain st where st: "state_of requested = Some st"
    using assms by (cases "state_of requested") (auto simp: transition_def)
  obtain r where r: "tbl_get tk_id i (td_tasks db) = Some r"
    using assms st by (cases "tbl_get tk_id i (td_tasks db)") (auto simp: transition_def)
  show thesis
  proof (rule that [OF st r])
    show "\<forall>v. ta_expected a = Some v \<longrightarrow> tk_version r = v"
      using assms by (auto simp add: transition_def st r split: if_splits)
  qed (use assms in \<open>simp_all add: transition_def st r split: if_splits\<close>)
qed

lemma transition_inv:
  assumes "transition sha now enow i requested a db = Inr db'" and "store_inv sha db"
  shows "store_inv sha db'"
proof -
  from assms(1) obtain st r where st: "state_of requested = Some st" and r: "tbl_get tk_id i (td_tasks db) = Some r"
    and auth: "\<not> (authoritative r \<and> requested = ''DONE'')" and al: "st \<in> set (allowed_next (tk_state r))"
    and ev: "append_event sha enow i ''STATE_TRANSITION''
       (dict_merge [(''from'', PStr (state_name (tk_state r))), (''to'', PStr requested), (''actor'', PStr (ta_actor a))]
          (ta_payload a))
       (default_to (''transition:'' @ i @ '':'' @ int_str (tk_version r) @ '':'' @ requested) (ta_key a))
       (db\<lparr>td_tasks := tbl_upd (\<lambda>q. tk_id q = i \<and> tk_version q = tk_version r) (moved_row st a now) (td_tasks db)\<rparr>) = Inr db'"
    by (rule transition_cases)
  have g: "good_tasks (td_tasks db)" using assms(2) by (simp add: store_inv_def)
  note u = good_tasks_unique [OF g]
  show ?thesis
  proof (rule append_event_inv [OF ev])
    have "good_task (moved_row st a now q)" if "q \<in> set (td_tasks db)" "tk_id q = i" for q
    proof -
      have "q = r" using unique_key_eq [OF u that(1), of r] tbl_get_Some_in [OF r] that(2) by simp
      moreover have "st \<noteq> BACKLOG" using al allowed_next_BACKLOG by metis
      moreover have "st = DONE \<Longrightarrow> requested = ''DONE''" using state_of_name [OF st] by auto
      ultimately show ?thesis using auth by (auto simp: good_task_def moved_row_def authoritative_def)
    qed
    then show "good_tasks (td_tasks (db\<lparr>td_tasks := tbl_upd (\<lambda>q. tk_id q = i \<and> tk_version q = tk_version r)
        (moved_row st a now) (td_tasks db)\<rparr>))"
      by (auto intro!: good_tasks_upd [OF g moved_wr.upd_unique [OF u]])
  qed (use assms(2) in \<open>simp add: store_inv_def\<close>)
qed

definition failure_of :: "task_row \<Rightarrow> string \<Rightarrow> string \<Rightarrow> failure_decision" where
  "failure_of r role fc = decide_failure fc role (tk_worker r + (if str_lower role = ''worker'' then 1 else 0))
     (tk_supervisor r + (if str_lower role \<in> {''supervisor'', ''closure''} then 1 else 0)) (tk_total r + 1) 30"

lemma record_failure_cases:
  assumes "record_failure sha future now enow i role fc err actor key db = Inr (db', r', d, replay)"
  obtains (replayed) "db' = db" "replay"
  | (routed) r where "tbl_get tk_id i (td_tasks db) = Some r" "\<not> replay"
    "\<not> (\<exists>e \<in> set (td_events db). ev_key e = key)"
    "append_event sha enow i ''FAILURE_ROUTED''
       [(''role'', PStr role), (''failure_class'', PStr (str_upper fc)), (''error'', PStr (take 1000 err)),
        (''decision'', PDict (decision_dict (failure_of r role fc))), (''actor'', PStr actor)] key
       (db\<lparr>td_tasks := tbl_upd (\<lambda>q. tk_id q = i \<and> tk_version q = tk_version r)
          (failed_row (failure_of r role fc) (tk_total r + 1)
             (tk_worker r + (if str_lower role = ''worker'' then 1 else 0))
             (tk_supervisor r + (if str_lower role \<in> {''supervisor'', ''closure''} then 1 else 0))
             (if fd_retry (failure_of r role fc) \<noteq> 0 then Some (future (fd_retry (failure_of r role fc))) else None)
             fc err now) (td_tasks db)\<rparr>) = Inr db'"
proof (cases "find (\<lambda>e. ev_key e = key) (td_events db)")
  case (Some e)
  then show thesis using assms replayed by (auto simp: record_failure_def bind_res_Inr)
next
  case None
  then have no: "\<not> (\<exists>e \<in> set (td_events db). ev_key e = key)" by (simp add: find_None_iff)
  obtain r where r: "tbl_get tk_id i (td_tasks db) = Some r"
    using assms None by (cases "tbl_get tk_id i (td_tasks db)") (auto simp: record_failure_def)
  show thesis
    by (rule routed [OF r _ no])
      (use assms None r in \<open>auto simp: record_failure_def failure_of_def Let_def bind_res_Inr\<close>)
qed

lemma record_failure_inv:
  assumes "record_failure sha future now enow i role fc err actor key db = Inr (db', r', d, replay)"
    and "store_inv sha db"
  shows "store_inv sha db'"
  using assms(1)
proof (cases rule: record_failure_cases)
  case (routed r)
  have g: "good_tasks (td_tasks db)" using assms(2) by (simp add: store_inv_def)
  show ?thesis
  proof (rule append_event_inv [OF routed(4)], goal_cases)
    case 1
    have "good_task (failed_row (failure_of r role fc) n w s nr fc err now q)" for n w s nr q
      using decide_failure_state by (simp add: failed_row_def good_task_def failure_of_def)
    then show ?case using good_tasks_upd [OF g failed_wr.upd_unique [OF good_tasks_unique [OF g]]] by simp
  qed (use assms(2) in \<open>simp add: store_inv_def\<close>)
qed (use assms(2) in simp)

lemma submit_task_cases:
  assumes "submit_task sha authority fresh now enow a db = Inr (db', r, replay)"
  obtains (replayed) "db' = db" "replay" "r \<in> set (td_tasks db)"
  | (created) lifecycle where "\<not> replay" "tk_id r \<notin> tk_id ` set (td_tasks db)" "tk_state r = READY"
    "tk_contract r = read_back (sb_contract a)" "tk_lease r = None" "tk_next_run r = None" "tk_version r = 1"
    "submit_authority authority (sb_contract a) = Inr lifecycle"
    "\<exists>flag. validate_work_origin (sb_contract a) flag lifecycle = Inr []"
    "append_event sha enow (tk_id r) ''TASK_SUBMITTED''
       [(''state'', PStr ''READY''), (''risk'', PStr (sb_risk a)), (''priority'', PInt (sb_priority a))]
       (''submit:'' @ tk_key r) (db\<lparr>td_tasks := td_tasks db @ [r]\<rparr>) = Inr db'"
proof -
  let ?key = "default_to (sha256_json sha (PDict [(''repository'', PStr (sb_repository a)),
                 (''title'', PStr (sb_title a)), (''contract'', PDict (sb_contract a))])) (sb_key a)"
  from assms obtain lifecycle where l: "submit_authority authority (sb_contract a) = Inr lifecycle"
    by (auto simp: submit_task_def Let_def bind_res_Inr split: if_splits)
  with assms obtain flag where v: "validate_work_origin (sb_contract a) flag lifecycle = Inr []"
    by (auto simp: submit_task_def Let_def bind_res_Inr split: if_splits)
  show thesis
  proof (cases "tbl_get tk_key ?key (td_tasks db)")
    case (Some q)
    then show thesis
      using assms replayed tbl_get_Some_in [OF Some]
      by (auto simp: submit_task_def Let_def bind_res_Inr split: if_splits)
  next
    case None
    then show thesis
      using assms by (intro created [OF _ _ _ _ _ _ _ l exI [of _ flag]])
        (auto simp: submit_task_def Let_def bind_res_Inr v split: if_splits)
  qed
qed

lemma submit_task_inv:
  assumes "submit_task sha authority fresh now enow a db = Inr (db', r, replay)" and "store_inv sha db"
  shows "store_inv sha db'"
  using assms(1)
proof (cases rule: submit_task_cases)
  case (created lifecycle)
  show ?thesis
    by (rule append_event_inv [OF created(10)])
      (use assms(2) created in \<open>simp_all add: store_inv_def good_tasks_def good_task_def\<close>)
qed (use assms(2) in simp)

lemma store_frames:
  "record_model_run fresh now now2 rid run db = Inr (db', r') \<Longrightarrow> td_tasks db' = td_tasks db \<and> td_events db' = td_events db"
  "register_evidence sha now ea db = Inr (db', e, replay) \<Longrightarrow> td_tasks db' = td_tasks db \<and> td_events db' = td_events db"
  "record_approval fresh now aa db = Inr (db', p) \<Longrightarrow> td_tasks db' = td_tasks db \<and> td_events db' = td_events db"
  by (auto simp: record_model_run_def register_evidence_def record_approval_def Let_def bind_res_Inr split: guard_splits)

lemma store_inv_frame:
  "td_tasks db' = td_tasks db \<and> td_events db' = td_events db \<Longrightarrow> store_inv sha db \<Longrightarrow> store_inv sha db'"
  by (simp add: store_inv_def)

lemma record_approval_from_run_is:
  assumes "record_approval_from_run fresh now rid aa db = Inr (db', p)"
  shows "\<exists>aa'. record_approval fresh now aa' db = Inr (db', p)"
  using assms by (auto simp: record_approval_from_run_def bind_res_Inr split: guard_splits)

lemma task_step_inv: "task_step sha authority db db' \<Longrightarrow> store_inv sha db \<Longrightarrow> store_inv sha db'"
proof (induction rule: task_step.induct)
  case (ts_approval_run fresh now rid aa db db' p)
  then show ?case using record_approval_from_run_is store_frames(3) store_inv_frame by metis
qed (blast intro: submit_task_inv recover_leases_inv claim_next_inv heartbeat_inv transition_inv record_failure_inv
      store_inv_frame dest: store_frames)+

lemma store_inv_empty: "store_inv sha store_empty"
  by (simp add: store_inv_def good_tasks_def store_empty_def log_ok_def)

lemma task_reach_inv: "task_reach sha authority db \<Longrightarrow> store_inv sha db"
proof (induction rule: task_reach.induct)
  case (tr_step db db')
  then show ?case by (blast intro: task_step_inv)
qed (rule store_inv_empty)

section \<open>The invariant of evidence and approvals\<close>

definition backs :: "approval_row \<Rightarrow> evidence_row \<Rightarrow> bool" where
  "backs p e \<longleftrightarrow> er_task e = ap_task p \<and> er_head e = ap_head p \<and> er_status e = ''PASSED'' \<and>
     (\<exists>n. rank_of (er_trust e) = Some n \<and> 3 \<le> n)"

definition approval_backed :: "task_db \<Rightarrow> approval_row \<Rightarrow> bool" where
  "approval_backed db p \<longleftrightarrow> (ap_decision p = ''APPROVE'' \<longrightarrow>
     ap_refs p \<noteq> [] \<and> (\<forall>i \<in> set (ap_refs p). \<exists>e \<in> set (td_evidence db). er_id e = i \<and> backs p e) \<and>
     (\<exists>r \<in> set (td_runs db). rn_task r = ap_task p \<and> rn_role r = ap_role p \<and> rn_session r = Some (ap_session p) \<and>
        rn_head r = Some (ap_head p) \<and> rn_status r = ''COMPLETED''))"

definition approvals_inv :: "task_db \<Rightarrow> bool" where
  "approvals_inv db \<longleftrightarrow> unique_key er_id (td_evidence db) \<and> unique_key ap_id (td_approvals db) \<and>
     (\<forall>p \<in> set (td_approvals db). approval_backed db p)"

lemma check_fold:
  "fold_res (\<lambda>e bad. bind_res (f e) (\<lambda>b. Inr (bad \<or> b))) es bad = Inr False \<Longrightarrow>
     \<not> bad \<and> (\<forall>e \<in> set es. f e = Inr False)"
proof (induction es arbitrary: bad)
  case (Cons e es)
  then show ?case by (cases "f e") (auto split: sum.splits)
qed simp

lemma check_refs_ok:
  assumes "check_refs db a refs = Inr ()"
  shows "refs \<noteq> [] \<and> reviewer_run db a \<and> (\<forall>i \<in> set refs. \<exists>e \<in> set (td_evidence db). er_id e = i) \<and>
    (\<forall>e \<in> set (td_evidence db). er_id e \<in> set refs \<longrightarrow> er_task e = aa_task a \<and> er_head e = aa_head a \<and>
       er_status e = ''PASSED'' \<and> (\<exists>n. rank_of (er_trust e) = Some n \<and> 3 \<le> n))"
proof -
  let ?rows = "filter (\<lambda>e. er_id e \<in> set refs) (td_evidence db)"
  have ne: "refs \<noteq> []" "\<forall>i \<in> set refs. i \<in> er_id ` set ?rows"
    using assms by (auto simp: check_refs_def Let_def split: if_splits)
  have f: "fold_res (\<lambda>e bad. bind_res (evidence_invalid a e) (\<lambda>b. Inr (bad \<or> b))) ?rows False = Inr False"
    and rv: "reviewer_run db a"
    using assms by (auto simp: check_refs_def Let_def bind_res_Inr split: if_splits)
  have "\<forall>e \<in> set ?rows. evidence_invalid a e = Inr False" using check_fold [OF f] by blast
  moreover have "er_task e = aa_task a \<and> er_head e = aa_head a \<and> er_status e = ''PASSED'' \<and>
      (\<exists>n. rank_of (er_trust e) = Some n \<and> 3 \<le> n)" if "evidence_invalid a e = Inr False" for e
    using that by (auto simp: evidence_invalid_def evidence_rank_def bind_res_Inr not_less split: if_splits option.splits)
  ultimately show ?thesis using ne rv by auto
qed

lemma record_approval_cases:
  assumes "record_approval fresh now a db = Inr (db', p)"
  shows "db' = db\<lparr>td_approvals := td_approvals db @ [p]\<rparr> \<and> ap_id p \<notin> ap_id ` set (td_approvals db) \<and>
    ap_task p = aa_task a \<and> ap_role p = aa_role a \<and> ap_session p = aa_session a \<and> ap_head p = aa_head a \<and>
    ap_diff p = aa_diff a \<and> ap_decision p = aa_decision a \<and> ap_refs p = sorted_set (aa_refs a) \<and>
    (aa_decision a = ''APPROVE'' \<longrightarrow> check_refs db a (sorted_set (aa_refs a)) = Inr () \<and>
       \<not> (implementer_conflict db a \<and> aa_role a \<in> {''supervisor'', ''closure''}) \<and>
       (taken_over db a \<longrightarrow> aa_role a = ''closure''))"
  using assms unfolding record_approval_def
  by (auto simp: Let_def bind_res_Inr simp del: set_sorted_set split: if_splits)

lemma approval_backed_mono:
  "approval_backed db p \<Longrightarrow> set (td_evidence db) \<subseteq> set (td_evidence db') \<Longrightarrow> set (td_runs db) \<subseteq> set (td_runs db') \<Longrightarrow>
     approval_backed db' p"
  unfolding approval_backed_def by blast

lemma approvals_inv_mono:
  assumes "approvals_inv db" and "td_approvals db' = td_approvals db" and "unique_key er_id (td_evidence db')"
    and "set (td_evidence db) \<subseteq> set (td_evidence db')" "set (td_runs db) \<subseteq> set (td_runs db')"
  shows "approvals_inv db'"
  using assms approval_backed_mono unfolding approvals_inv_def by auto

lemma record_approval_inv:
  assumes "record_approval fresh now a db = Inr (db', p)" and "approvals_inv db"
  shows "approvals_inv db'"
proof -
  note r = record_approval_cases [OF assms(1)]
  have id: "ap_task p = aa_task a" "ap_role p = aa_role a" "ap_session p = aa_session a" "ap_head p = aa_head a"
    using r by blast+
  have "approval_backed db p"
    unfolding approval_backed_def
  proof
    assume "ap_decision p = ''APPROVE''"
    then have c: "check_refs db a (ap_refs p) = Inr ()" using r by simp
    note ok = check_refs_ok [OF c]
    have "\<exists>e \<in> set (td_evidence db). er_id e = i \<and> backs p e" if i: "i \<in> set (ap_refs p)" for i
    proof -
      from ok i obtain e where e: "e \<in> set (td_evidence db)" "er_id e = i" by blast
      with ok i have "er_task e = aa_task a \<and> er_head e = aa_head a \<and> er_status e = ''PASSED'' \<and>
          (\<exists>n. rank_of (er_trust e) = Some n \<and> 3 \<le> n)" by blast
      then have "er_id e = i \<and> backs p e" unfolding backs_def id using e(2) by blast
      with e(1) show ?thesis by blast
    qed
    then show "ap_refs p \<noteq> [] \<and>
        (\<forall>i \<in> set (ap_refs p). \<exists>e \<in> set (td_evidence db). er_id e = i \<and> backs p e) \<and>
        (\<exists>r \<in> set (td_runs db). rn_task r = ap_task p \<and> rn_role r = ap_role p \<and>
           rn_session r = Some (ap_session p) \<and> rn_head r = Some (ap_head p) \<and> rn_status r = ''COMPLETED'')"
      using ok unfolding reviewer_run_def id by blast
  qed
  then have "approval_backed db' q" if "q \<in> set (td_approvals db')" for q
    using that r assms(2) approval_backed_mono [of db q db'] by (auto simp: approvals_inv_def)
  then show ?thesis using r assms(2) by (simp add: approvals_inv_def)
qed

lemma append_event_approvals:
  assumes "append_event sha now task ty payload key db = Inr db'" and "approvals_inv db"
  shows "approvals_inv db'"
proof -
  have "same_but_log db db'" using assms(1) by (rule append_event_frame)
  moreover have "unique_key er_id (td_evidence db)" using assms(2) by (simp add: approvals_inv_def)
  ultimately show ?thesis by (intro approvals_inv_mono [OF assms(2)]) (simp_all add: same_but_log_def)
qed

lemma approvals_inv_tasks [simp]: "approvals_inv (db\<lparr>td_tasks := rows\<rparr>) \<longleftrightarrow> approvals_inv db"
  by (simp add: approvals_inv_def approval_backed_def)

lemma fold_append_approvals:
  assumes "fold_res f xs db = Inr db'" and "approvals_inv db"
    and "\<And>x db db'. f x db = Inr db' \<Longrightarrow> approvals_inv db \<Longrightarrow> approvals_inv db'"
  shows "approvals_inv db'"
  using assms(1,2) by (rule fold_res_invariant) (rule assms(3))

lemma claim_next_approvals:
  assumes "claim_next sha clock now expires enow worker db = Inr (db', r)" and "approvals_inv db"
  shows "approvals_inv db'"
proof -
  obtain db1 where p: "promote_due sha clock now db = Inr db1"
    using assms(1) by (auto simp: claim_next_def bind_res_Inr)
  then have a1: "approvals_inv db1" unfolding promote_due_def
    by (rule fold_append_approvals) (use assms(2) in \<open>auto simp: promote_one_def dest: append_event_approvals\<close>)
  have "db' = db \<or> db' = db1 \<or> (\<exists>t rows ty pl k. append_event sha enow t ty pl k (db1\<lparr>td_tasks := rows\<rparr>) = Inr db')"
    using assms(1) p by (auto simp: claim_next_def bind_res_Inr split: list.splits if_splits)
  then show ?thesis using a1 assms(2) append_event_approvals by auto
qed

lemma task_step_approvals:
  assumes "task_step sha authority db db'" and "approvals_inv db"
  shows "approvals_inv db'"
  using assms
proof (cases rule: task_step.cases)
  case (ts_submit fresh now enow a r replay)
  then show ?thesis using assms(2)
    by (cases rule: submit_task_cases [OF ts_submit]) (auto dest: append_event_approvals)
next
  case (ts_recover soon clock now n)
  then have "fold_res (recover_one sha soon clock now) (filter (task_lease_expired now) (td_tasks db)) db = Inr db'"
    by (auto simp: recover_expired_leases_def Let_def bind_res_Inr)
  then show ?thesis using assms(2)
    by (rule fold_append_approvals) (auto simp: recover_one_def dest: append_event_approvals)
next
  case (ts_claim clock now expires enow worker r)
  then show ?thesis using assms(2) by (rule claim_next_approvals)
next
  case (ts_heartbeat now expires enow i worker)
  then show ?thesis using assms(2)
    by (auto simp: heartbeat_def split: guard_splits dest: append_event_approvals)
next
  case (ts_transition now enow i requested ta)
  then show ?thesis using assms(2) by (auto elim!: transition_cases dest: append_event_approvals)
next
  case (ts_failure future now enow i role fc err actor key r d replay)
  then show ?thesis using assms(2)
    by (cases rule: record_failure_cases [OF ts_failure]) (auto dest: append_event_approvals)
next
  case (ts_run fresh now now2 rid run r')
  then show ?thesis using assms(2)
    by (intro approvals_inv_mono [OF assms(2)])
      (auto simp: record_model_run_def Let_def approvals_inv_def split: if_splits)
next
  case (ts_evidence now ea e replay)
  then show ?thesis using assms(2)
    by (intro approvals_inv_mono [OF assms(2)])
      (auto simp: register_evidence_def Let_def approvals_inv_def tbl_get_None split: guard_splits)
next
  case (ts_approval fresh now aa p)
  then show ?thesis using assms(2) by (rule record_approval_inv)
next
  case (ts_approval_run fresh now rid aa p)
  then show ?thesis using assms(2) record_approval_from_run_is record_approval_inv by blast
qed

lemma task_reach_approvals: "task_reach sha authority db \<Longrightarrow> approvals_inv db"
proof (induction rule: task_reach.induct)
  case tr_start
  then show ?case by (simp add: approvals_inv_def store_empty_def)
qed (blast intro: task_step_approvals)

end
