(* ===== verification/Scheduler.thy ===== *)
theory Scheduler
  imports Gate Task_Inv
begin

text \<open>
  \<open>scheduler.py\<close>: one tick recovers expired leases, claims a task, lets a runner work on it and
  routes the outcome back into the task store, through an optional transition gate. The runner is
  an argument: it may change the store (by its own calls) and returns a result or raises.
\<close>

section \<open>The gate over registered evidence\<close>

definition gate_rank :: "string \<Rightarrow> int" where
  "gate_rank level =
     (case int_of_text (str_strip (if starts_with ''E'' level then drop 1 level else level)) of Inr n \<Rightarrow> n | Inl _ \<Rightarrow> -1)"

definition counts_for_gate :: "int \<Rightarrow> evidence_row \<Rightarrow> bool" where
  "counts_for_gate minimum e \<longleftrightarrow>
     er_status e \<in> {''PASSED'', ''APPROVED''} \<and> minimum \<le> gate_rank (er_trust e) \<and>
     (gate_rank (er_trust e) < 3 \<or> truthy (dget ''authoritative_record_validated'' (er_payload e)))"

definition registered_gate :: "pydict \<Rightarrow> task_db \<Rightarrow> task_row \<Rightarrow> string \<Rightarrow> pydict \<Rightarrow> pydict res" where
  "registered_gate policy db task requested result =
     bind_res (gate_requirements policy requested (tk_risk task)) (\<lambda>q.
       let head = py_str (py_or (dget ''head_sha'' result) (PStr []));
           rows = list_evidence db (tk_id task) (if head = [] then None else Some head);
           good = filter (counts_for_gate (gate_rank (rq_minimum q))) rows;
           types = map er_type good;
           approvals = filter (starts_with approval_prefix) types;
           missing = sorted_set (filter (\<lambda>t. t \<notin> set types) (rq_evidence q));
           missing_approvals = sorted_set (filter (\<lambda>t. t \<notin> set approvals) (rq_approvals q));
           texts = (\<lambda>ts. PList (map PStr ts))
       in Inr [(''allowed'', PBool (missing = [] \<and> missing_approvals = [])), (''requested_state'', PStr requested),
               (''minimum_trust'', PStr (rq_minimum q)), (''valid_evidence_types'', texts (sorted_set types)),
               (''missing_evidence'', texts missing), (''missing_approvals'', texts missing_approvals),
               (''rejected_evidence_ids'', texts (map er_id (filter (\<lambda>e. \<not> counts_for_gate (gate_rank (rq_minimum q)) e) rows))),
               (''claim_boundary'',
                PStr ''Only controller-registered and validation-marked evidence can advance the durable scheduler.'')])"

section \<open>Roles and routes\<close>

definition role_for_state :: "task_state \<Rightarrow> string" where
  "role_for_state st =
     (if st \<in> {READY, PLANNING, SUPERVISOR_REVIEW, AUTO_REPLAN, SUPERVISOR_TAKEOVER, MERGE_READY, MERGE_QUEUED, MERGED,
               ARTIFACT_VERIFIED, STAGING, CANARY, PRODUCTION_VERIFIED, ROLLBACK} then ''supervisor''
      else if st = CLOSURE_REVIEW then ''closure'' else ''worker'')"

fun default_success_state :: "task_state \<Rightarrow> string \<Rightarrow> task_state" where
  "default_success_state READY role = PLANNING"
| "default_success_state PLANNING role = WORKER_IMPLEMENTING"
| "default_success_state WORKER_IMPLEMENTING role = MACHINE_CHECKS"
| "default_success_state AUTO_REPAIR role = MACHINE_CHECKS"
| "default_success_state AUTO_REPLAN role = WORKER_IMPLEMENTING"
| "default_success_state SUPERVISOR_TAKEOVER role = CLOSURE_REVIEW"
| "default_success_state CLEAN_RECONSTRUCTION role = PLANNING"
| "default_success_state MACHINE_CHECKS role = SUPERVISOR_REVIEW"
| "default_success_state SUPERVISOR_REVIEW role = MERGE_READY"
| "default_success_state CLOSURE_REVIEW role = MERGE_READY"
| "default_success_state MERGE_READY role = MERGE_QUEUED"
| "default_success_state MERGE_QUEUED role = MERGED"
| "default_success_state MERGED role = ARTIFACT_VERIFIED"
| "default_success_state ARTIFACT_VERIFIED role = STAGING"
| "default_success_state STAGING role = CANARY"
| "default_success_state CANARY role = PRODUCTION_VERIFIED"
| "default_success_state PRODUCTION_VERIFIED role = DONE"
| "default_success_state ROLLBACK role = ROLLED_BACK_RETRYABLE"
| "default_success_state _ role = (if role = ''worker'' then SUPERVISOR_REVIEW else WORKER_IMPLEMENTING)"

section \<open>One tick\<close>

text \<open>The clock readings of a tick, in the order of the calls that take them.\<close>

record tick_clock =
  tc_recover_now :: string
  tc_soon :: "string \<Rightarrow> string"
  tc_recovered :: "string \<Rightarrow> string"
  tc_claim_now :: string
  tc_promoted :: "string \<Rightarrow> string"
  tc_expires :: string
  tc_claimed :: string
  tc_now :: string
  tc_event_now :: string
  tc_future :: "int \<Rightarrow> string"

record tick_result =
  ti_worker :: string
  ti_action :: string
  ti_task :: "string option"
  ti_state :: "task_state option"
  ti_detail :: pydict

type_synonym gate = "task_db \<Rightarrow> task_row \<Rightarrow> string \<Rightarrow> pydict \<Rightarrow> pydict res"

definition requested_state :: "task_row \<Rightarrow> string \<Rightarrow> pydict \<Rightarrow> string" where
  "requested_state task role result =
     (let requested = py_str (py_or (dget ''next_state'' result)
            (PStr (state_name (default_success_state (tk_state task) role))))
      in if authoritative task \<and> requested = ''DONE'' then ''INTERNAL_EXECUTION_COMPLETE'' else requested)"

definition run_id_of :: "task_row \<Rightarrow> pydict \<Rightarrow> string" where
  "run_id_of task result = py_str (dget_default ''run_id'' (PStr (tk_id task)) result)"

definition advance_args :: "string \<Rightarrow> task_row \<Rightarrow> string \<Rightarrow> pydict \<Rightarrow> transition_args" where
  "advance_args worker task requested result =
     \<lparr>ta_actor = ''scheduler:'' @ worker, ta_expected = Some (tk_version task), ta_payload = [], ta_release = True,
      ta_next_run = None, ta_key = Some (''success:'' @ run_id_of task result @ '':'' @ requested)\<rparr>"

definition route_failure ::
  "(string \<Rightarrow> string) \<Rightarrow> tick_clock \<Rightarrow> string \<Rightarrow> task_row \<Rightarrow> string \<Rightarrow> string \<Rightarrow> string \<Rightarrow> string \<Rightarrow> task_db \<Rightarrow>
   (task_db \<times> task_row \<times> pyval) res" where
  "route_failure sha k worker task role failure_class err key db =
     bind_res (record_failure sha (tc_future k) (tc_now k) (tc_event_now k) (tk_id task) role failure_class err
         (''scheduler:'' @ worker) key db) (\<lambda>(db', r, decision, _). Inr (db', r, decision))"

definition settle ::
  "(string \<Rightarrow> string) \<Rightarrow> tick_clock \<Rightarrow> gate option \<Rightarrow> string \<Rightarrow> task_row \<Rightarrow> string \<Rightarrow> pydict \<Rightarrow> task_db \<Rightarrow>
   (task_db \<times> tick_result) res" where
  "settle sha k gate worker task role result db =
     (let i = tk_id task; run = run_id_of task result; version = int_str (tk_version task) in
      if truthy (dget ''success'' result) then
        let requested = requested_state task role result in
        bind_res (case gate of
            None \<Rightarrow> Inr [(''allowed'', PBool True),
              (''claim_boundary'', PStr ''Ungated scheduler mode is not production-authoritative.'')]
          | Some evaluate \<Rightarrow> evaluate db task requested result) (\<lambda>g.
          if \<not> truthy (dget ''allowed'' g) then
            bind_res (route_failure sha k worker task role ''EVIDENCE_MISSING''
                (''Transition gate rejected advancement: '' @ py_str (PDict g))
                (''gate:'' @ run @ '':'' @ requested @ '':'' @ version) db) (\<lambda>(db', r, _).
              Inr (db', \<lparr>ti_worker = worker, ti_action = ''TRANSITION_BLOCKED_CONTAINED'', ti_task = Some i, ti_state = Some (tk_state r),
                ti_detail = [(''gate'', PDict g), (''run'', PDict result)]\<rparr>))
          else
            bind_res (transition sha (tc_now k) (tc_event_now k) i requested (advance_args worker task requested result) db)
              (\<lambda>db'. bind_res (get_task db' i) (\<lambda>r.
                Inr (db', \<lparr>ti_worker = worker, ti_action = ''ADVANCED'', ti_task = Some i, ti_state = Some (tk_state r),
                  ti_detail = [(''run'', PDict result), (''gate'', PDict g)]\<rparr>))))
      else
        let failure_class = py_str (dget_default ''failure_class'' (PStr ''UNKNOWN'') result) in
        bind_res (route_failure sha k worker task role failure_class
            (py_str (dget_default ''error'' (PStr ''model run failed'') result))
            (''failure:'' @ run @ '':'' @ failure_class @ '':'' @ version) db) (\<lambda>(db', r, decision).
          Inr (db', \<lparr>ti_worker = worker, ti_action = ''CONTAINED_FAILURE'', ti_task = Some i, ti_state = Some (tk_state r),
            ti_detail = dict_merge (as_dict decision) result\<rparr>)))"

text \<open>A runner changes the store and returns its result, or the text of the exception it raised.\<close>

type_synonym runner = "task_row \<Rightarrow> string \<Rightarrow> task_db \<Rightarrow> task_db \<times> (string + pydict)"

definition run_result :: "string + pydict \<Rightarrow> pydict" where
  "run_result r = (case r of
     Inl e \<Rightarrow> [(''success'', PBool False), (''failure_class'', PStr ''MODEL_PROVIDER_UNAVAILABLE''), (''error'', PStr e)]
   | Inr result \<Rightarrow> result)"

text \<open>The store after the tick, with the result or the exception that ended it.\<close>

definition tick ::
  "(string \<Rightarrow> string) \<Rightarrow> tick_clock \<Rightarrow> gate option \<Rightarrow> runner \<Rightarrow> string \<Rightarrow> task_db \<Rightarrow> task_db \<times> tick_result res" where
  "tick sha k gate run worker db =
     (case recover_expired_leases sha (tc_soon k) (tc_recovered k) (tc_recover_now k) db of
        Inl e \<Rightarrow> (db, Inl e)
      | Inr (db1, _) \<Rightarrow>
          (case claim_next sha (tc_promoted k) (tc_claim_now k) (tc_expires k) (tc_claimed k) worker db1 of
             Inl e \<Rightarrow> (db1, Inl e)
           | Inr (db2, None) \<Rightarrow>
               (db2, Inr \<lparr>ti_worker = worker, ti_action = ''IDLE_NO_RUNNABLE_TASK'', ti_task = None, ti_state = None, ti_detail = []\<rparr>)
           | Inr (db2, Some task) \<Rightarrow>
               let role = role_for_state (tk_state task); (db3, outcome) = run task role db2
               in (case settle sha k gate worker task role (run_result outcome) db3 of
                     Inl e \<Rightarrow> (db3, Inl e)
                   | Inr (db4, r) \<Rightarrow> (db4, Inr r))))"

section \<open>The interface of a gate\<close>

text \<open>
  What the scheduler relies on: a gate that answers \<open>allowed\<close> has the evidence its policy asks for.
\<close>

locale transition_gate =
  fixes evaluate :: gate and justified :: "task_db \<Rightarrow> task_row \<Rightarrow> string \<Rightarrow> pydict \<Rightarrow> bool"
  assumes allowed_justified: "evaluate db task requested result = Inr g \<Longrightarrow> truthy (dget ''allowed'' g) \<Longrightarrow>
    justified db task requested result"
begin

lemma settle_advanced:
  assumes "settle sha k (Some evaluate) worker task role result db = Inr (db', r)" and "ti_action r = ''ADVANCED''"
  shows "justified db task (requested_state task role result) result \<and>
    transition sha (tc_now k) (tc_event_now k) (tk_id task) (requested_state task role result)
      (advance_args worker task (requested_state task role result) result) db = Inr db'"
  using assms by (auto simp: settle_def Let_def bind_res_Inr split: if_splits dest: allowed_justified)

lemma tick_advanced:
  assumes "tick sha k (Some evaluate) run worker db = (db', Inr r)" and "ti_action r = ''ADVANCED''"
  shows "\<exists>db1 n db2 task db3 result requested. recover_expired_leases sha (tc_soon k) (tc_recovered k) (tc_recover_now k) db = Inr (db1, n) \<and>
    claim_next sha (tc_promoted k) (tc_claim_now k) (tc_expires k) (tc_claimed k) worker db1 = Inr (db2, Some task) \<and>
    run task (role_for_state (tk_state task)) db2 = (db3, Inr result) \<and> truthy (dget ''success'' result) \<and>
    requested = requested_state task (role_for_state (tk_state task)) result \<and> justified db3 task requested result \<and>
    transition sha (tc_now k) (tc_event_now k) (tk_id task) requested (advance_args worker task requested result) db3 = Inr db'"
proof -
  from assms obtain db1 n db2 task db3 outcome where
    recovered: "recover_expired_leases sha (tc_soon k) (tc_recovered k) (tc_recover_now k) db = Inr (db1, n)"
    and claimed: "claim_next sha (tc_promoted k) (tc_claim_now k) (tc_expires k) (tc_claimed k) worker db1 = Inr (db2, Some task)"
    and ran: "run task (role_for_state (tk_state task)) db2 = (db3, outcome)"
    and settled: "settle sha k (Some evaluate) worker task (role_for_state (tk_state task)) (run_result outcome) db3 = Inr (db', r)"
    by (auto simp: tick_def Let_def split: sum.splits prod.splits option.splits)
  have success: "truthy (dget ''success'' (run_result outcome))"
    using settled assms(2) by (auto simp: settle_def Let_def bind_res_Inr split: if_splits)
  then obtain result where "outcome = Inr result" by (cases outcome) (auto simp: run_result_def)
  with recovered claimed ran success settle_advanced [OF settled assms(2)] show ?thesis
    by (intro exI conjI) (auto simp: run_result_def)
qed

end

definition registered_enough :: "pydict \<Rightarrow> task_db \<Rightarrow> task_row \<Rightarrow> string \<Rightarrow> pydict \<Rightarrow> bool" where
  "registered_enough policy db task requested result \<longleftrightarrow>
     (\<exists>q. gate_requirements policy requested (tk_risk task) = Inr q \<and>
        (\<forall>ty \<in> set (rq_evidence q) \<union> set (rq_approvals q). \<exists>e \<in> set (td_evidence db).
           er_task e = tk_id task \<and> er_type e = ty \<and> counts_for_gate (gate_rank (rq_minimum q)) e \<and>
           (truthy (dget ''head_sha'' result) \<longrightarrow> er_head e = py_str (dget ''head_sha'' result))))"

lemma py_str_truthy: "py_str (py_or v (PStr [])) = [] \<longleftrightarrow> \<not> truthy v"
  by (cases v) (auto simp: py_or_def int_str_def)

interpretation registered: transition_gate "registered_gate policy" "registered_enough policy" for policy
proof
  fix db task requested result g
  assume g: "registered_gate policy db task requested result = Inr g" and allowed: "truthy (dget ''allowed'' g)"
  let ?head = "py_str (py_or (dget ''head_sha'' result) (PStr []))"
  let ?rows = "list_evidence db (tk_id task) (if ?head = [] then None else Some ?head)"
  from g obtain q where q: "gate_requirements policy requested (tk_risk task) = Inr q"
    by (auto simp: registered_gate_def bind_res_Inr)
  have all: "\<forall>ty \<in> set (rq_evidence q) \<union> set (rq_approvals q). ty \<in> er_type ` set (filter (counts_for_gate (gate_rank (rq_minimum q))) ?rows)"
    using g allowed q by (auto simp: registered_gate_def Let_def filter_empty_conv)
  have rows: "e \<in> set (td_evidence db) \<and> er_task e = tk_id task \<and>
      (truthy (dget ''head_sha'' result) \<longrightarrow> er_head e = py_str (dget ''head_sha'' result))" if "e \<in> set ?rows" for e
    using that py_str_truthy [of "dget ''head_sha'' result"]
    by (auto simp: list_evidence_def py_or_def split: if_splits)
  show "registered_enough policy db task requested result"
    unfolding registered_enough_def
  proof (intro exI [of _ q] conjI q ballI)
    fix ty assume "ty \<in> set (rq_evidence q) \<union> set (rq_approvals q)"
    with all have "ty \<in> er_type ` set (filter (counts_for_gate (gate_rank (rq_minimum q))) ?rows)" by (rule bspec)
    then obtain e where "e \<in> set (filter (counts_for_gate (gate_rank (rq_minimum q))) ?rows)" "ty = er_type e" by (rule imageE)
    then have "e \<in> set ?rows" "counts_for_gate (gate_rank (rq_minimum q)) e" "er_type e = ty"
      by (simp_all only: set_filter mem_Collect_eq)
    with rows show "\<exists>e \<in> set (td_evidence db). er_task e = tk_id task \<and> er_type e = ty \<and>
        counts_for_gate (gate_rank (rq_minimum q)) e \<and>
        (truthy (dget ''head_sha'' result) \<longrightarrow> er_head e = py_str (dget ''head_sha'' result))" by blast
  qed
qed

end
