(* ===== verification/Task_Props.thy ===== *)
theory Task_Props
  imports Task_Inv
begin

text \<open>
  The properties of the durable task store (\<open>orchestrator.py\<close>) and of the work-origin gate it
  applies (\<open>bug_protocol.validate_work_origin\<close>), with concrete runs that witness them.
\<close>

section \<open>Batches of row updates\<close>

lemma fold_row_updates:
  assumes step: "\<And>r db db'. one r db = Inr db' \<Longrightarrow>
      td_tasks db' = tbl_upd (\<lambda>q. tk_id q = tk_id r \<and> tk_version q = tk_version r) (w r) (td_tasks db)"
    and key: "\<And>r q. tk_id (w r q) = tk_id q"
    and "fold_res one rs db = Inr db1" and "distinct (map tk_id rs)" and "set rs \<subseteq> set (td_tasks db)"
    and "unique_key tk_id (td_tasks db)"
  shows "td_tasks db1 = map (\<lambda>q. if tk_id q \<in> tk_id ` set rs then w q q else q) (td_tasks db)"
  using assms(3-6)
proof (induction rs arbitrary: db)
  case (Cons r rs)
  then obtain db2 where 1: "one r db = Inr db2" and 2: "fold_res one rs db2 = Inr db1"
    by (auto split: sum.splits)
  have r: "r \<in> set (td_tasks db)" "tk_id r \<notin> tk_id ` set rs" using Cons.prems by auto
  have only: "q = r" if "q \<in> set (td_tasks db)" "tk_id q = tk_id r" for q
    using unique_key_eq [OF Cons.prems(4) that(1) r(1) that(2)] .
  have nodes: "td_tasks db2 = map (\<lambda>q. if tk_id q = tk_id r then w r q else q) (td_tasks db)"
    using step [OF 1] only by (auto simp: tbl_upd_def)
  have "td_tasks db1 = map (\<lambda>q. if tk_id q \<in> tk_id ` set rs then w q q else q) (td_tasks db2)"
  proof (rule Cons.IH [OF 2])
    show "distinct (map tk_id rs)" using Cons.prems by simp
    show "set rs \<subseteq> set (td_tasks db2)"
    proof
      fix q
      assume q: "q \<in> set rs"
      then have "tk_id q \<noteq> tk_id r" "q \<in> set (td_tasks db)" using r(2) Cons.prems(3) by (auto simp: image_iff)
      then show "q \<in> set (td_tasks db2)" unfolding nodes by (auto intro!: image_eqI [of _ _ q])
    qed
    show "unique_key tk_id (td_tasks db2)"
      using Cons.prems(4) by (simp add: nodes unique_key_def comp_def key if_distrib cong: if_cong)
  qed
  also have "\<dots> = map (\<lambda>q. if tk_id q \<in> tk_id ` set (r # rs) then w q q else q) (td_tasks db)"
    unfolding nodes using r(2) only by (auto simp: key)
  finally show ?case .
qed simp

lemma promote_one_tasks:
  "promote_one sha clock now r db = Inr db' \<Longrightarrow>
     td_tasks db' = tbl_upd (\<lambda>q. tk_id q = tk_id r \<and> tk_version q = tk_version r)
       (promoted_row now (promote_target (tk_state r))) (td_tasks db)"
  unfolding promote_one_def using append_event_frame by (fastforce simp: same_but_log_def)

lemma promote_due_tasks:
  assumes "promote_due sha clock now db = Inr db1" and "unique_key tk_id (td_tasks db)"
  shows "td_tasks db1 =
    map (\<lambda>q. if due now q then promoted_row now (promote_target (tk_state q)) q else q) (td_tasks db)"
proof -
  let ?rs = "filter (due now) (td_tasks db)"
  have "td_tasks db1 = map (\<lambda>q. if tk_id q \<in> tk_id ` set ?rs then promoted_row now (promote_target (tk_state q)) q else q) (td_tasks db)"
  proof (rule fold_row_updates [OF promote_one_tasks])
    show "fold_res (promote_one sha clock now) ?rs db = Inr db1" using assms(1) by (simp add: promote_due_def)
    show "distinct (map tk_id ?rs)" using assms(2) by (simp add: unique_key_def distinct_map_filter)
  qed (use assms(2) in \<open>auto simp: promoted_row_def\<close>)
  also have "\<dots> = map (\<lambda>q. if due now q then promoted_row now (promote_target (tk_state q)) q else q) (td_tasks db)"
    using assms(2) by (intro map_cong) (auto dest: unique_key_eq)
  finally show ?thesis .
qed

lemma promoted_claimable:
  assumes "due now r" and "tk_lease r = None \<or> (\<exists>t. tk_lease r = Some t \<and> t \<le> now)"
  shows "claimable now (promoted_row now (promote_target (tk_state r)) r)"
  using assms by (auto simp: due_def delayed_states_def claimable_def promoted_row_def promote_target_def runnable_states_def)

section \<open>A concrete run\<close>

text \<open>The runs below digest a text to its length, which is enough to tell their events apart.\<close>

definition len_sha :: "string \<Rightarrow> string" where
  "len_sha s = nat_str (length s)"

definition demo_submit_args :: "string \<Rightarrow> submit_args" where
  "demo_submit_args i = \<lparr>sb_repository = ''r'', sb_title = ''t'', sb_contract = [(''origin'', PStr ''FEATURE'')],
     sb_risk = ''R1'', sb_priority = 0, sb_key = Some (''k'' @ i), sb_task = Some i\<rparr>"

definition task_db_of :: "(task_db \<times> 'b) res \<Rightarrow> task_db" where
  "task_db_of r = (case r of Inl _ \<Rightarrow> store_empty | Inr (db, _) \<Rightarrow> db)"

definition demo_store :: task_db where
  "demo_store = task_db_of (submit_task len_sha None ''f'' ''t0'' ''t0'' (demo_submit_args ''a'') store_empty)"

definition demo_task :: task_row where
  "demo_task = the (tbl_get tk_id ''a'' (td_tasks demo_store))"

lemma demo_store_submit:
  "submit_task len_sha None ''f'' ''t0'' ''t0'' (demo_submit_args ''a'') store_empty = Inr (demo_store, demo_task, False)"
  by code_simp

lemma demo_store_reach: "task_reach len_sha None demo_store"
  by (rule tr_step [OF tr_start ts_submit [OF demo_store_submit]])

definition demo_leased :: task_db where
  "demo_leased = task_db_of (claim_next len_sha (\<lambda>_. ''t1'') ''t1'' ''t5'' ''t1'' ''w'' demo_store)"

definition demo_leased_task :: task_row where
  "demo_leased_task = the (tbl_get tk_id ''a'' (td_tasks demo_leased))"

lemma demo_leased_claim:
  "claim_next len_sha (\<lambda>_. ''t1'') ''t1'' ''t5'' ''t1'' ''w'' demo_store = Inr (demo_leased, Some demo_leased_task)"
  by code_simp

lemma demo_leased_reach: "task_reach len_sha None demo_leased"
  by (rule tr_step [OF demo_store_reach ts_claim [OF demo_leased_claim]])

section \<open>The event log\<close>

text \<open>
  C13. In every reachable task store the integrity check of the event log succeeds, and reports
  the number of events and the hash of the last one: no sequence of operations of the store can
  break the chain that verify_event_chain checks.
\<close>

theorem event_log_verifies:
  assumes "task_reach sha authority db"
  shows "verify_event_chain sha db = \<lparr>cr_valid = True, cr_events = length (td_events db),
    cr_head = chain_head ev_hash zero_hash (td_events db), cr_errors = []\<rparr>"
  using task_reach_inv [OF assms] by (intro verify_event_chain_valid) (simp add: store_inv_def)

theorem event_log_verifies_witness:
  "verify_event_chain len_sha demo_leased = \<lparr>cr_valid = True, cr_events = length (td_events demo_leased),
     cr_head = chain_head ev_hash zero_hash (td_events demo_leased), cr_errors = []\<rparr> \<and>
   length (td_events demo_leased) = 2"
  using event_log_verifies [OF demo_leased_reach] by (simp, code_simp)

definition same_event :: "event_row \<Rightarrow> event_row \<Rightarrow> bool" where
  "same_event x y \<longleftrightarrow> ev_seq x = ev_seq y \<and> ev_task x = ev_task y \<and> ev_key x = ev_key y \<and> ev_type x = ev_type y \<and>
     ev_created x = ev_created y \<and> ev_prev x = ev_prev y \<and> ev_hash x = ev_hash y \<and>
     canonical_json (PDict (ev_payload x)) = canonical_json (PDict (ev_payload y))"

text \<open>
  Two logs that both verify, have the same length and the same head hash record the same
  events, field by field, with payloads of the same canonical JSON: the head hash commits to the
  whole log, so any rewritten, dropped or reordered event shows (for a hash function without
  collisions).
\<close>

theorem event_head_commits:
  assumes "inj sha"
    and "cr_valid (verify_event_chain sha db)" and "cr_valid (verify_event_chain sha db')"
    and "cr_events (verify_event_chain sha db) = cr_events (verify_event_chain sha db')"
    and "cr_head (verify_event_chain sha db) = cr_head (verify_event_chain sha db')"
  shows "list_all2 same_event (sort_key ev_seq (td_events db)) (sort_key ev_seq (td_events db'))"
proof -
  let ?es = "sort_key ev_seq (td_events db)" and ?fs = "sort_key ev_seq (td_events db')"
  have chain: "chain_from ev_seq ev_prev ev_hash (event_digest sha) zero_hash 1 ?es"
    "chain_from ev_seq ev_prev ev_hash (event_digest sha) zero_hash 1 ?fs"
    using assms(2,3) by (simp_all add: verify_event_chain_def Let_def chain_errors_Nil)
  have "length ?es = length ?fs" "chain_head ev_hash zero_hash ?es = chain_head ev_hash zero_hash ?fs"
    using assms(4,5) by (auto simp: verify_event_chain_def Let_def chain_head_last)
  from task_log.head_commits [OF assms(1) chain this]
  have "list_all2 (\<lambda>x y. event_digest sha x = event_digest sha y \<and> ev_hash x = ev_hash y) ?es ?fs" .
  then show ?thesis
    by (rule list_all2_mono) (auto simp: same_event_def dest!: event_digest_inject [OF assms(1)])
qed

definition demo_inj_store :: task_db where
  "demo_inj_store = task_db_of (submit_task (\<lambda>s. s) None ''f'' ''t0'' ''t0'' (demo_submit_args ''a'') store_empty)"

theorem event_head_commits_witness:
  "list_all2 same_event (sort_key ev_seq (td_events demo_inj_store)) (sort_key ev_seq (td_events demo_inj_store)) \<and>
   td_events demo_inj_store \<noteq> []"
proof
  show "list_all2 same_event (sort_key ev_seq (td_events demo_inj_store)) (sort_key ev_seq (td_events demo_inj_store))"
    by (rule event_head_commits [of "\<lambda>s. s"]) (simp, code_simp, code_simp, simp_all)
  show "td_events demo_inj_store \<noteq> []" by code_simp
qed

section \<open>States\<close>

text \<open>
  C14. In every reachable store a task that is governed by the bug lifecycle is not DONE: the
  scheduler cannot close what only the lifecycle store may close.
\<close>

theorem authoritative_never_done:
  assumes "task_reach sha authority db" and "r \<in> set (td_tasks db)" and "authoritative r"
  shows "tk_state r \<noteq> DONE"
  using task_reach_inv [OF assms(1)] assms(2,3) by (simp add: store_inv_def good_tasks_def good_task_def)

definition demo_auth_store :: task_db where
  "demo_auth_store = task_db_of (submit_task len_sha None ''f'' ''t0'' ''t0''
     ((demo_submit_args ''a'')\<lparr>sb_contract := [(''origin'', PStr ''FEATURE''),
        (''protocol'', PStr ''WorkshopOS-Fail-Closed-Bug-to-Production-v1'')]\<rparr>) store_empty)"

definition demo_auth_task :: task_row where
  "demo_auth_task = the (tbl_get tk_id ''a'' (td_tasks demo_auth_store))"

lemma demo_auth_submit: "submit_task len_sha None ''f'' ''t0'' ''t0''
     ((demo_submit_args ''a'')\<lparr>sb_contract := [(''origin'', PStr ''FEATURE''),
        (''protocol'', PStr ''WorkshopOS-Fail-Closed-Bug-to-Production-v1'')]\<rparr>) store_empty =
     Inr (demo_auth_store, demo_auth_task, False)"
  by code_simp

theorem authoritative_never_done_witness: "tk_state demo_auth_task \<noteq> DONE"
proof (rule authoritative_never_done [OF tr_step [OF tr_start ts_submit [OF demo_auth_submit]]])
  show "demo_auth_task \<in> set (td_tasks demo_auth_store)" by code_simp
  show "authoritative demo_auth_task" by code_simp
qed

lemma rowcount_partition:
  assumes "\<And>r. r \<in> set rows \<Longrightarrow> f r \<in> set sts" and "distinct sts"
  shows "sum_list (map (\<lambda>st. rowcount (\<lambda>r. f r = st) rows) sts) = length rows"
  using assms(1)
proof (induction rows)
  case (Cons r rows)
  have "sum_list (map (\<lambda>st. rowcount (\<lambda>q. f q = st) (r # rows)) sts) =
      sum_list (map (\<lambda>st. (if f r = st then 1 else 0) + rowcount (\<lambda>q. f q = st) rows) sts)"
    by (intro arg_cong [where f = sum_list] map_cong) (simp_all add: rowcount_def)
  also have "\<dots> = sum_list (map (\<lambda>st. if f r = st then 1 else 0) sts) + length rows"
    using Cons by (simp add: sum_list_addf)
  also have "sum_list (map (\<lambda>st. if f r = st then (1::nat) else 0) sts) = 1"
    using Cons.prems [of r] assms(2) by (simp add: sum_list_distinct_conv_sum_set sum.If_cases)
  finally show ?case by simp
qed (simp add: rowcount_def)

lemma all_states_complete: "st \<in> set all_states"
  by (cases st) (simp_all add: all_states_def)

text \<open>
  In every reachable store system_status counts each task in exactly one of the runnable,
  delayed and terminal groups, and therefore never reports the store as globally blocked: the flag
  can not become true.
\<close>

theorem never_globally_blocked:
  assumes "task_reach sha authority db"
  shows "ss_blocked (system_status db) = False \<and>
    ss_runnable (system_status db) + ss_delayed (system_status db) + ss_terminal (system_status db) = length (td_tasks db)"
proof -
  have good: "tk_state r \<noteq> BACKLOG" if "r \<in> set (td_tasks db)" for r
    using task_reach_inv [OF assms] that by (simp add: store_inv_def good_tasks_def good_task_def)
  have "tk_state r \<in> set (runnable_states @ delayed_states @ terminal_states)" if "r \<in> set (td_tasks db)" for r
    using good [OF that] by (cases "tk_state r") (simp_all add: runnable_states_def delayed_states_def terminal_states_def)
  from rowcount_partition [of "td_tasks db" tk_state, OF this]
  have sum: "sum_list (map (state_count db) runnable_states) + sum_list (map (state_count db) delayed_states) +
      sum_list (map (state_count db) terminal_states) = length (td_tasks db)"
    by (simp add: state_count_def runnable_states_def delayed_states_def terminal_states_def)
  have filt: "sum_list (map snd (filter (\<lambda>(_, n). n \<noteq> 0) (map (\<lambda>st. (st, state_count db st)) sts))) =
      sum_list (map (state_count db) sts)" for sts
    by (induction sts) auto
  have "sum_list (map (state_count db) all_states) = length (td_tasks db)"
    using rowcount_partition [of "td_tasks db" tk_state all_states] all_states_complete
    by (simp add: state_count_def all_states_def)
  then show ?thesis
    using sum unfolding system_status_def Let_def filt by (auto simp del: sum_list_eq_0_iff)
qed

theorem never_globally_blocked_witness:
  "ss_blocked (system_status demo_leased) = False \<and>
    ss_runnable (system_status demo_leased) + ss_delayed (system_status demo_leased) + ss_terminal (system_status demo_leased)
      = length (td_tasks demo_leased)"
  by (rule never_globally_blocked [OF demo_leased_reach])

text \<open>
  C16. A transition that succeeds moved exactly one task along one edge of the state table, from
  the version the caller expected, to the requested state, and changed no other task.
\<close>

theorem transition_guarded:
  assumes "task_reach sha authority db" and "transition sha now enow i requested a db = Inr db'"
  shows "\<exists>r st. tbl_get tk_id i (td_tasks db) = Some r \<and> state_name st = requested \<and> st \<in> set (allowed_next (tk_state r)) \<and>
    (\<forall>v. ta_expected a = Some v \<longrightarrow> tk_version r = v) \<and>
    tbl_get tk_id i (td_tasks db') = Some (moved_row st a now r) \<and>
    (\<forall>j. j \<noteq> i \<longrightarrow> tbl_get tk_id j (td_tasks db') = tbl_get tk_id j (td_tasks db))"
proof -
  from assms(2) obtain st r where st: "state_of requested = Some st" and r: "tbl_get tk_id i (td_tasks db) = Some r"
    and v: "\<forall>v. ta_expected a = Some v \<longrightarrow> tk_version r = v"
    and auth: "\<not> (authoritative r \<and> requested = ''DONE'')" and al: "st \<in> set (allowed_next (tk_state r))"
    and ev: "append_event sha enow i ''STATE_TRANSITION''
       (dict_merge [(''from'', PStr (state_name (tk_state r))), (''to'', PStr requested), (''actor'', PStr (ta_actor a))]
          (ta_payload a))
       (default_to (''transition:'' @ i @ '':'' @ int_str (tk_version r) @ '':'' @ requested) (ta_key a))
       (db\<lparr>td_tasks := tbl_upd (\<lambda>q. tk_id q = i \<and> tk_version q = tk_version r) (moved_row st a now) (td_tasks db)\<rparr>) = Inr db'"
    by (rule transition_cases)
  have tasks: "td_tasks db' = tbl_upd (\<lambda>q. tk_id q = i \<and> tk_version q = tk_version r) (moved_row st a now) (td_tasks db)"
    using append_event_frame [OF ev] by (simp add: same_but_log_def)
  have u: "unique_key tk_id (td_tasks db)"
    using task_reach_inv [OF assms(1)] by (simp add: store_inv_def good_tasks_def)
  have "tbl_get tk_id i (td_tasks db') = Some (moved_row st a now r)"
    using moved_wr.get_upd_guarded [OF u r, of "\<lambda>q. tk_version q = tk_version r"] by (simp add: tasks)
  moreover have "tbl_get tk_id j (td_tasks db') = tbl_get tk_id j (td_tasks db)" if "j \<noteq> i" for j
    unfolding tasks by (rule moved_wr.get_upd_other [OF that])
  ultimately show ?thesis using r state_of_name [OF st] al v by blast
qed

definition demo_move :: transition_args where
  "demo_move = \<lparr>ta_actor = ''s'', ta_expected = Some 2, ta_payload = [], ta_release = True, ta_next_run = None, ta_key = None\<rparr>"

definition demo_moved :: task_db where
  "demo_moved = (case transition len_sha ''t2'' ''t2'' ''a'' ''PLANNING'' demo_move demo_leased of
     Inl _ \<Rightarrow> store_empty | Inr db \<Rightarrow> db)"

theorem transition_guarded_witness:
  "\<exists>r st. tbl_get tk_id ''a'' (td_tasks demo_leased) = Some r \<and> state_name st = ''PLANNING'' \<and>
    st \<in> set (allowed_next (tk_state r)) \<and> (\<forall>v. ta_expected demo_move = Some v \<longrightarrow> tk_version r = v) \<and>
    tbl_get tk_id ''a'' (td_tasks demo_moved) = Some (moved_row st demo_move ''t2'' r) \<and>
    (\<forall>j. j \<noteq> ''a'' \<longrightarrow> tbl_get tk_id j (td_tasks demo_moved) = tbl_get tk_id j (td_tasks demo_leased))"
  by (rule transition_guarded [OF demo_leased_reach, where now = "''t2''" and enow = "''t2''"]) code_simp

section \<open>Failures\<close>

lemma decide_failure_bounds:
  assumes "0 < base"
  shows "let d = decide_failure fc role w s attempts base in
    fd_next d \<in> set (runnable_states @ delayed_states) \<and> 0 \<le> fd_retry d \<and> fd_retry d \<le> 3600 \<and>
    (fd_next d \<in> set delayed_states \<longleftrightarrow> fd_retry d > 0) \<and> fd_delta d \<in> {0, 1}"
proof -
  have b: "0 < backoff base attempts" "backoff base attempts \<le> 3600"
    using assms by (simp_all add: backoff_def)
  show ?thesis
    unfolding decide_failure_def Let_def
    using b by (simp add: runnable_states_def delayed_states_def)
qed

text \<open>
  The row of a task whose failure was routed: released, one attempt and one version further, and
  either runnable at once or delayed until a date between a second and an hour ahead.
\<close>

definition routed_row :: "(int \<Rightarrow> string) \<Rightarrow> task_row \<Rightarrow> task_row \<Rightarrow> bool" where
  "routed_row future r r' \<longleftrightarrow>
     tk_owner r' = None \<and> tk_lease r' = None \<and> tk_total r' = tk_total r + 1 \<and> tk_version r' = tk_version r + 1 \<and>
     tk_strategy r' - tk_strategy r \<in> {0, 1} \<and>
     (if tk_state r' \<in> set delayed_states then \<exists>n. 1 \<le> n \<and> n \<le> 3600 \<and> tk_next_run r' = Some (future n)
      else tk_state r' \<in> set runnable_states \<and> tk_next_run r' = None)"

lemma failed_contained:
  "routed_row future r (failed_row (failure_of r role fc) (tk_total r + 1) w s
     (if fd_retry (failure_of r role fc) \<noteq> 0 then Some (future (fd_retry (failure_of r role fc))) else None) fc err now r)"
proof -
  have "fd_next (failure_of r role fc) \<in> set (runnable_states @ delayed_states) \<and> 0 \<le> fd_retry (failure_of r role fc) \<and>
    fd_retry (failure_of r role fc) \<le> 3600 \<and> (fd_next (failure_of r role fc) \<in> set delayed_states \<longleftrightarrow> fd_retry (failure_of r role fc) > 0) \<and>
    fd_delta (failure_of r role fc) \<in> {0, 1}"
    using decide_failure_bounds [of 30] by (simp only: failure_of_def Let_def)
  then show ?thesis
    unfolding routed_row_def failed_row_def
    by (cases "fd_next (failure_of r role fc) \<in> set delayed_states") (auto intro!: exI [of _ "fd_retry (failure_of r role fc)"])
qed

lemma record_failure_contained:
  assumes "store_inv sha db" and "record_failure sha future now enow i role fc err actor key db = Inr (db', r', v, replay)"
  shows "if \<exists>e \<in> set (td_events db). ev_key e = key then db' = db \<and> replay
    else \<not> replay \<and> tbl_get tk_id i (td_tasks db') = Some r' \<and>
      (\<exists>r. tbl_get tk_id i (td_tasks db) = Some r \<and> routed_row future r r' \<and>
         v = PDict (decision_dict (failure_of r role fc)) \<and> tk_state r' = fd_next (failure_of r role fc)) \<and>
      (\<forall>j. j \<noteq> i \<longrightarrow> tbl_get tk_id j (td_tasks db') = tbl_get tk_id j (td_tasks db))"
  using assms(2)
proof (cases rule: record_failure_cases)
  case replayed
  then have "\<exists>e \<in> set (td_events db). ev_key e = key"
    using assms(2) by (cases "find (\<lambda>e. ev_key e = key) (td_events db)")
      (auto simp: record_failure_def find_Some_iff Let_def bind_res_Inr split: option.splits)
  with replayed show ?thesis by simp
next
  case (routed r)
  let ?row = "failed_row (failure_of r role fc) (tk_total r + 1) (tk_worker r + (if str_lower role = ''worker'' then 1 else 0))
    (tk_supervisor r + (if str_lower role \<in> {''supervisor'', ''closure''} then 1 else 0))
    (if fd_retry (failure_of r role fc) \<noteq> 0 then Some (future (fd_retry (failure_of r role fc))) else None) fc err now"
  have tasks: "td_tasks db' = tbl_upd (\<lambda>q. tk_id q = i \<and> tk_version q = tk_version r) ?row (td_tasks db)"
    using append_event_frame [OF routed(4)] by (simp add: same_but_log_def)
  have u: "unique_key tk_id (td_tasks db)" using assms(1) by (simp add: store_inv_def good_tasks_def)
  have get: "tbl_get tk_id i (td_tasks db') = Some (?row r)"
    using failed_wr.get_upd_guarded [OF u routed(1), of "\<lambda>q. tk_version q = tk_version r"] by (simp add: tasks)
  have no: "find (\<lambda>e. ev_key e = key) (td_events db) = None" using routed(3) by (simp add: find_None_iff)
  have "r' = ?row r" "v = PDict (decision_dict (failure_of r role fc))"
    using assms(2) routed(1) get no
    by (auto simp: record_failure_def failure_of_def Let_def bind_res_Inr get_task_def routed(4) [unfolded failure_of_def])
  moreover have "tbl_get tk_id j (td_tasks db') = tbl_get tk_id j (td_tasks db)" if "j \<noteq> i" for j
    unfolding tasks by (rule failed_wr.get_upd_other [OF that])
  moreover have "tk_state (?row r) = fd_next (failure_of r role fc)" by (simp add: failed_row_def)
  ultimately show ?thesis using routed get failed_contained by auto
qed

text \<open>
  C38. record_failure in a reachable store: under a key that is already in the event log it
  changes nothing. Under a new key the task loses its owner and lease, its attempts and version
  grow by one and its strategy version by at most one, and it gets the state the failure table
  decides: a runnable state without a date, or a delayed one with a date between one second and
  one hour ahead; all other tasks stay as they are.
\<close>

theorem failure_contained:
  assumes "task_reach sha authority db" and "record_failure sha future now enow i role fc err actor key db = Inr (db', r', v, replay)"
  shows "if \<exists>e \<in> set (td_events db). ev_key e = key then db' = db \<and> replay
    else \<not> replay \<and> tbl_get tk_id i (td_tasks db') = Some r' \<and>
      (\<exists>r. tbl_get tk_id i (td_tasks db) = Some r \<and> routed_row future r r' \<and>
         v = PDict (decision_dict (failure_of r role fc)) \<and> tk_state r' = fd_next (failure_of r role fc)) \<and>
      (\<forall>j. j \<noteq> i \<longrightarrow> tbl_get tk_id j (td_tasks db') = tbl_get tk_id j (td_tasks db))"
  by (rule record_failure_contained [OF task_reach_inv [OF assms(1)] assms(2)])

lemma demo_fails:
  "\<exists>db' r' v. record_failure len_sha (\<lambda>_. ''t9'') ''t2'' ''t2'' ''a'' ''worker'' ''model_timeout'' ''down'' ''w'' ''k9'' demo_leased =
     Inr (db', r', v, False)"
proof -
  have "case record_failure len_sha (\<lambda>_. ''t9'') ''t2'' ''t2'' ''a'' ''worker'' ''model_timeout'' ''down'' ''w'' ''k9'' demo_leased of
    Inr (_, _, _, b) \<Rightarrow> \<not> b | _ \<Rightarrow> False" by code_simp
  then show ?thesis by (auto split: sum.splits)
qed

theorem failure_contained_witness:
  "\<exists>(db' :: task_db) r r'. tbl_get tk_id ''a'' (td_tasks demo_leased) = Some r \<and> tbl_get tk_id ''a'' (td_tasks db') = Some r' \<and>
     routed_row (\<lambda>_. ''t9'') r r'"
proof -
  obtain db' r' v where run: "record_failure len_sha (\<lambda>_. ''t9'') ''t2'' ''t2'' ''a'' ''worker'' ''model_timeout'' ''down'' ''w'' ''k9''
    demo_leased = Inr (db', r', v, False)" using demo_fails by (elim exE)
  note all = failure_contained [OF demo_leased_reach run, unfolded if_bool_eq_conj]
  have new: "\<not> (\<exists>e \<in> set (td_events demo_leased). ev_key e = ''k9'')" using all by meson
  note got = mp [OF conjunct2 [OF all] new]
  from got obtain r where r: "tbl_get tk_id ''a'' (td_tasks demo_leased) = Some r" "routed_row (\<lambda>_. ''t9'') r r'" by (elim conjE exE) rule
  show ?thesis
    by (rule exI [of _ db'], rule exI [of _ r], rule exI [of _ r'], intro conjI r conjunct1 [OF conjunct2 [OF got]])
qed

text \<open>The routing escalates: every further failure of a role gets a later stage.\<close>

fun escalation :: "task_state \<Rightarrow> nat" where
  "escalation AUTO_REPAIR = 1"
| "escalation AUTO_REPLAN = 2"
| "escalation SUPERVISOR_TAKEOVER = 3"
| "escalation CLEAN_RECONSTRUCTION = 4"
| "escalation QUARANTINED = 5"
| "escalation _ = 0"

text \<open>
  For a failure class the decision table does not name, more failed attempts of workers or
  supervisors never route the task to a lower stage: the route from worker to supervisor to
  closure is monotone in the counters.
\<close>

theorem failure_escalates:
  assumes "str_upper fc \<notin> set non_retryable_failures \<union> set external_failures \<union> set transient_failures"
    and "str_lower role \<in> {''worker'', ''supervisor'', ''closure''}"
    and "w \<le> w'" and "s \<le> s'"
  shows "escalation (fd_next (decide_failure fc role w s n base)) \<le>
    escalation (fd_next (decide_failure fc role w' s' n' base'))"
  using assms by (auto simp: decide_failure_def Let_def)

theorem failure_escalates_witness:
  "escalation (fd_next (decide_failure ''TEST_FAILED'' ''worker'' 2 0 2 30)) \<le>
    escalation (fd_next (decide_failure ''TEST_FAILED'' ''worker'' 4 0 4 30))"
  by (rule failure_escalates) (code_simp | simp)+

section \<open>Claiming\<close>

lemma claim_next_result:
  assumes "task_reach sha authority db"
    and "claim_next sha clock now expires enow worker db = Inr (db', res)"
  shows "case res of
      None \<Rightarrow> (\<forall>r \<in> set (td_tasks db). \<not> claimable now r \<and>
        \<not> (due now r \<and> (tk_lease r = None \<or> (\<exists>t. tk_lease r = Some t \<and> t \<le> now))))
    | Some r' \<Rightarrow> \<exists>r \<in> set (td_tasks db). tk_id r' = tk_id r \<and>
        (tk_lease r = None \<or> (\<exists>t. tk_lease r = Some t \<and> t \<le> now)) \<and>
        tk_owner r' = Some worker \<and> tk_lease r' = Some expires \<and> tk_state r' \<in> set runnable_states \<and>
        tbl_get tk_id (tk_id r') (td_tasks db') = Some r' \<and>
        (\<forall>q \<in> set (td_tasks db). claimable now q \<longrightarrow> tk_priority q \<le> tk_priority r')"
proof -
  have u: "unique_key tk_id (td_tasks db)"
    using task_reach_inv [OF assms(1)] by (simp add: store_inv_def good_tasks_def)
  obtain db1 where p: "promote_due sha clock now db = Inr db1"
    using assms(2) by (auto simp: claim_next_def bind_res_Inr)
  note t1 = promote_due_tasks [OF p u]
  have kept: "q \<in> set (td_tasks db1)" if "q \<in> set (td_tasks db)" "claimable now q" for q
  proof -
    have "\<not> due now q" using that(2)
      by (auto simp: claimable_def due_def runnable_states_def delayed_states_def)
    then show ?thesis using that(1) by (auto simp: t1 intro!: image_eqI [of _ _ q])
  qed
  have prom: "promoted_row now (promote_target (tk_state q)) q \<in> set (td_tasks db1)"
    if "q \<in> set (td_tasks db)" "due now q" for q
    using that by (auto simp: t1 intro!: image_eqI [of _ _ q])
  let ?rows = "sort_key (\<lambda>r. (- tk_priority r, tk_created r)) (filter (claimable now) (td_tasks db1))"
  have u1: "unique_key tk_id (td_tasks db1)"
    using u by (simp add: t1 unique_key_def comp_def promoted_row_def if_distrib cong: if_cong)
  show ?thesis
  proof (cases ?rows)
    case Nil
    then have no: "\<not> claimable now q" if "q \<in> set (td_tasks db1)" for q
      using that by (metis (no_types, lifting) empty_iff list.set(1) mem_Collect_eq set_filter set_sort)
    then have "\<not> (due now q \<and> (tk_lease q = None \<or> (\<exists>t. tk_lease q = Some t \<and> t \<le> now)))"
      if "q \<in> set (td_tasks db)" for q
      using that prom promoted_claimable by blast
    moreover have "\<not> claimable now q" if "q \<in> set (td_tasks db)" for q using that no kept by blast
    moreover have "res = None" using assms(2) p Nil by (simp add: claim_next_def)
    ultimately show ?thesis by simp
  next
    case (Cons r rs)
    have r: "r \<in> set (td_tasks db1)" "claimable now r"
      using Cons by (metis (no_types, lifting) list.set_intros(1) mem_Collect_eq set_filter set_sort)+
    have top: "tk_priority q \<le> tk_priority r" if "q \<in> set (td_tasks db1)" "claimable now q" for q
    proof -
      have "sorted (map (\<lambda>r. (- tk_priority r, tk_created r)) (r # rs))"
        unfolding Cons [symmetric] by (rule sorted_sort_key)
      moreover have "q \<in> set (r # rs)" unfolding Cons [symmetric] using that by simp
      ultimately show ?thesis by (auto simp: less_eq_prod_def)
    qed
    let ?upd = "db1\<lparr>td_tasks := tbl_upd (\<lambda>q. tk_id q = tk_id r \<and> tk_version q = tk_version r)
      (leased_row worker expires now) (td_tasks db1)\<rparr>"
    have one: "rowcount (\<lambda>q. tk_id q = tk_id r \<and> tk_version q = tk_version r) (td_tasks db1) = 1"
      using leased_wr.rowcount_key [OF u1 r(1), of "\<lambda>q. tk_version q = tk_version r"] by simp
    from assms(2) p Cons one obtain db2 r' where
      ev: "append_event sha enow (tk_id r) ''TASK_CLAIMED''
         [(''worker_id'', PStr worker), (''lease_expires_at'', PStr expires), (''state'', PStr (state_name (tk_state r)))]
         (''claim:'' @ tk_id r @ '':'' @ int_str (tk_version r + 1) @ '':'' @ worker) ?upd = Inr db2"
      and res: "get_task db2 (tk_id r) = Inr r'" "res = Some r'" "db' = db2"
      by (auto simp: claim_next_def bind_res_Inr)
    have "tbl_get tk_id (tk_id r) (td_tasks ?upd) = Some (leased_row worker expires now r)"
      using leased_wr.get_upd_guarded [OF u1 tbl_get_unique [OF u1 r(1)], of "\<lambda>q. tk_version q = tk_version r"] by simp
    then have g: "tbl_get tk_id (tk_id r) (td_tasks db') = Some (leased_row worker expires now r)"
      using append_event_frame [OF ev] res(3) by (simp add: same_but_log_def)
    then have r': "r' = leased_row worker expires now r" using res by (simp add: get_task_def)
    from r(1) obtain q where q: "q \<in> set (td_tasks db)"
      "r = (if due now q then promoted_row now (promote_target (tk_state q)) q else q)"
      by (auto simp: t1)
    then have "tk_id q = tk_id r" "tk_lease q = tk_lease r" "tk_priority q = tk_priority r"
      by (auto simp: promoted_row_def)
    with q(1) r(2) g top kept show ?thesis
      by (auto simp: res r' leased_row_def claimable_def split: option.splits intro!: bexI [of _ q])
  qed
qed

text \<open>
  A claim that returns nothing found no claimable task and no due task; a claim that returns
  a task found it without a live lease, made the worker its owner until the given time, in a
  runnable state, and no claimable task has a higher priority.
\<close>

theorem claim_next_correct:
  assumes "task_reach sha authority db"
    and "claim_next sha clock now expires enow worker db = Inr (db', res)"
  shows "case res of
      None \<Rightarrow> (\<forall>r \<in> set (td_tasks db). \<not> claimable now r \<and>
        \<not> (due now r \<and> (tk_lease r = None \<or> (\<exists>t. tk_lease r = Some t \<and> t \<le> now))))
    | Some r' \<Rightarrow> \<exists>r \<in> set (td_tasks db). tk_id r' = tk_id r \<and>
        (tk_lease r = None \<or> (\<exists>t. tk_lease r = Some t \<and> t \<le> now)) \<and>
        tk_owner r' = Some worker \<and> tk_lease r' = Some expires \<and> tk_state r' \<in> set runnable_states \<and>
        tbl_get tk_id (tk_id r') (td_tasks db') = Some r' \<and>
        (\<forall>q \<in> set (td_tasks db). claimable now q \<longrightarrow> tk_priority q \<le> tk_priority r')"
  using assms by (rule claim_next_result)

theorem claim_next_correct_witness:
  "case Some demo_leased_task of
      None \<Rightarrow> (\<forall>r \<in> set (td_tasks demo_store). \<not> claimable ''t1'' r \<and>
        \<not> (due ''t1'' r \<and> (tk_lease r = None \<or> (\<exists>t. tk_lease r = Some t \<and> t \<le> ''t1''))))
    | Some r' \<Rightarrow> \<exists>r \<in> set (td_tasks demo_store). tk_id r' = tk_id r \<and>
        (tk_lease r = None \<or> (\<exists>t. tk_lease r = Some t \<and> t \<le> ''t1'')) \<and>
        tk_owner r' = Some ''w'' \<and> tk_lease r' = Some ''t5'' \<and> tk_state r' \<in> set runnable_states \<and>
        tbl_get tk_id (tk_id r') (td_tasks demo_leased) = Some r' \<and>
        (\<forall>q \<in> set (td_tasks demo_store). claimable ''t1'' q \<longrightarrow> tk_priority q \<le> tk_priority r')"
  by (rule claim_next_correct [OF demo_store_reach demo_leased_claim])

lemma in_row_upd: "q \<in> set rows \<Longrightarrow> \<not> p q \<Longrightarrow> q \<in> set (tbl_upd p f rows)"
  by (auto simp: tbl_upd_in)

lemma recover_one_tasks:
  "recover_one sha soon clock now r db = Inr db' \<Longrightarrow>
     td_tasks db' = tbl_upd (\<lambda>q. tk_id q = tk_id r \<and> tk_version q = tk_version r)
       (recovered_row (soon (tk_id r)) now) (td_tasks db)"
  unfolding recover_one_def using append_event_frame by (fastforce simp: same_but_log_def)

lemma recover_tasks:
  assumes "recover_expired_leases sha soon clock now db = Inr (db', n)" and "unique_key tk_id (td_tasks db)"
  shows "td_tasks db' = map (\<lambda>q. if task_lease_expired now q then recovered_row (soon (tk_id q)) now q else q) (td_tasks db)"
proof -
  let ?rs = "filter (task_lease_expired now) (td_tasks db)"
  have "td_tasks db' = map (\<lambda>q. if tk_id q \<in> tk_id ` set ?rs then recovered_row (soon (tk_id q)) now q else q) (td_tasks db)"
  proof (rule fold_row_updates [OF recover_one_tasks])
    show "fold_res (recover_one sha soon clock now) ?rs db = Inr db'"
      using assms(1) by (auto simp: recover_expired_leases_def Let_def bind_res_Inr)
    show "distinct (map tk_id ?rs)" using assms(2) by (simp add: unique_key_def distinct_map_filter)
  qed (use assms(2) in \<open>auto simp: recovered_row_def\<close>)
  also have "\<dots> = map (\<lambda>q. if task_lease_expired now q then recovered_row (soon (tk_id q)) now q else q) (td_tasks db)"
    using assms(2) by (intro map_cong) (auto dest: unique_key_eq)
  finally show ?thesis .
qed

lemma claim_next_keeps:
  assumes "claim_next sha clock now expires enow worker db = Inr (db', res)" and "unique_key tk_id (td_tasks db)"
    and "r \<in> set (td_tasks db)" and "\<not> due now r" and "\<not> claimable now r"
  shows "r \<in> set (td_tasks db')"
proof -
  obtain db1 where p: "promote_due sha clock now db = Inr db1"
    using assms(1) by (auto simp: claim_next_def bind_res_Inr)
  have r1: "r \<in> set (td_tasks db1)"
    using assms(3,4) by (auto simp: promote_due_tasks [OF p assms(2)] intro!: image_eqI [of _ _ r])
  have u1: "unique_key tk_id (td_tasks db1)"
    using assms(2) by (simp add: promote_due_tasks [OF p assms(2)] unique_key_def comp_def promoted_row_def if_distrib cong: if_cong)
  show ?thesis
  proof (cases "sort_key (\<lambda>r. (- tk_priority r, tk_created r)) (filter (claimable now) (td_tasks db1))")
    case Nil
    then show ?thesis using assms(1) p r1 by (simp add: claim_next_def)
  next
    case (Cons q qs)
    have q: "q \<in> set (td_tasks db1)" "claimable now q"
      using Cons by (metis (no_types, lifting) list.set_intros(1) mem_Collect_eq set_filter set_sort)+
    then have "tk_id r \<noteq> tk_id q" using unique_key_eq [OF u1 r1 q(1)] assms(5) by auto
    then have "r \<in> set (tbl_upd (\<lambda>x. tk_id x = tk_id q \<and> tk_version x = tk_version q) (leased_row worker expires now) (td_tasks db1))"
      using r1 by (simp add: in_row_upd)
    moreover have "td_tasks db' = td_tasks db \<or> td_tasks db' =
        tbl_upd (\<lambda>x. tk_id x = tk_id q \<and> tk_version x = tk_version q) (leased_row worker expires now) (td_tasks db1)"
      using assms(1) p Cons append_event_frame
      by (fastforce simp: claim_next_def bind_res_Inr same_but_log_def split: if_splits)
    ultimately show ?thesis using assms(3) by auto
  qed
qed

text \<open>
  A task in a delayed state without next_run_at and without a lease is left alone by recovery
  and never returned by a claim: an undated delay is permanent until an operator intervenes.
\<close>

theorem undated_delay_is_permanent:
  assumes "task_reach sha authority db" and "r \<in> set (td_tasks db)" and "tk_state r \<in> set delayed_states"
    and "tk_next_run r = None" and "tk_lease r = None"
  shows "(recover_expired_leases sha soon clock now db = Inr (db', n) \<longrightarrow> r \<in> set (td_tasks db')) \<and>
    (claim_next sha clock now expires enow worker db = Inr (db', res) \<longrightarrow> r \<in> set (td_tasks db') \<and> res \<noteq> Some r)"
proof (intro conjI impI)
  have u: "unique_key tk_id (td_tasks db)"
    using task_reach_inv [OF assms(1)] by (simp add: store_inv_def good_tasks_def)
  show "r \<in> set (td_tasks db')" if "recover_expired_leases sha soon clock now db = Inr (db', n)"
    using assms(2,5) by (auto simp: recover_tasks [OF that u] task_lease_expired_def intro!: image_eqI [of _ _ r])
  have no: "\<not> due now r" "\<not> claimable now r"
    using assms(3,4) by (auto simp: due_def claimable_def delayed_states_def runnable_states_def)
  assume c: "claim_next sha clock now expires enow worker db = Inr (db', res)"
  show "r \<in> set (td_tasks db')" using c u assms(2) no by (rule claim_next_keeps)
  show "res \<noteq> Some r"
    using claim_next_result [OF assms(1) c] assms(5) by auto
qed

definition demo_wait :: transition_args where
  "demo_wait = \<lparr>ta_actor = ''s'', ta_expected = None, ta_payload = [], ta_release = True, ta_next_run = None, ta_key = None\<rparr>"

definition demo_waiting :: task_db where
  "demo_waiting = (case transition len_sha ''t2'' ''t2'' ''a'' ''WAITING_EXTERNAL_DEPENDENCY'' demo_wait demo_leased of
     Inl _ \<Rightarrow> store_empty | Inr db \<Rightarrow> db)"

definition demo_waiting_task :: task_row where
  "demo_waiting_task = the (tbl_get tk_id ''a'' (td_tasks demo_waiting))"

lemma demo_waiting_move:
  "transition len_sha ''t2'' ''t2'' ''a'' ''WAITING_EXTERNAL_DEPENDENCY'' demo_wait demo_leased = Inr demo_waiting"
  by code_simp

theorem undated_delay_is_permanent_witness:
  "recover_expired_leases len_sha (\<lambda>_. ''t9'') (\<lambda>_. ''t9'') ''t9'' demo_waiting = Inr (demo_waiting, 0) \<and>
   claim_next len_sha (\<lambda>_. ''t9'') ''t9'' ''u5'' ''t9'' ''w'' demo_waiting = Inr (demo_waiting, None) \<and>
   demo_waiting_task \<in> set (td_tasks demo_waiting)"
proof -
  have r: "recover_expired_leases len_sha (\<lambda>_. ''t9'') (\<lambda>_. ''t9'') ''t9'' demo_waiting = Inr (demo_waiting, 0)"
    by code_simp
  have c: "claim_next len_sha (\<lambda>_. ''t9'') ''t9'' ''u5'' ''t9'' ''w'' demo_waiting = Inr (demo_waiting, None)"
    by code_simp
  have "(recover_expired_leases len_sha (\<lambda>_. ''t9'') (\<lambda>_. ''t9'') ''t9'' demo_waiting = Inr (demo_waiting, 0) \<longrightarrow>
      demo_waiting_task \<in> set (td_tasks demo_waiting)) \<and>
    (claim_next len_sha (\<lambda>_. ''t9'') ''t9'' ''u5'' ''t9'' ''w'' demo_waiting = Inr (demo_waiting, None) \<longrightarrow>
      demo_waiting_task \<in> set (td_tasks demo_waiting) \<and> None \<noteq> Some demo_waiting_task)"
    by (rule undated_delay_is_permanent [OF tr_step [OF demo_leased_reach ts_transition [OF demo_waiting_move]]]) code_simp+
  with r c show ?thesis by blast
qed

section \<open>Approvals\<close>

lemma fold_ref_errors:
  "fold_res (\<lambda>r es. bind_res (f r) (\<lambda>es'. Inr (es @ es'))) rs es0 = Inr es \<Longrightarrow>
     es = [] \<longleftrightarrow> es0 = [] \<and> (\<forall>r \<in> set rs. f r = Inr [])"
proof (induction rs arbitrary: es0)
  case (Cons r rs)
  then obtain es' where "f r = Inr es'" by (cases "f r") (auto split: sum.splits)
  with Cons.IH [of "es0 @ es'"] Cons.prems show ?case by auto
qed auto

lemma fold_ref_errors_ok:
  "(\<And>r. r \<in> set rs \<Longrightarrow> f r = Inr []) \<Longrightarrow> fold_res (\<lambda>r es. bind_res (f r) (\<lambda>es'. Inr (es @ es'))) rs es0 = Inr es0"
  by (induction rs) simp_all

definition subject_matches :: "approval_row \<Rightarrow> current_subject \<Rightarrow> bool" where
  "subject_matches p c \<longleftrightarrow> ap_head p = cs_head c \<and> ap_diff p = cs_diff c \<and>
     (\<forall>x. cs_epoch c = Some x \<longrightarrow> ap_epoch p = x) \<and> (\<forall>x. cs_fingerprint c = Some x \<longrightarrow> ap_fingerprint p = Some x) \<and>
     (\<forall>x. cs_policy c = Some x \<longrightarrow> ap_policy p = Some x) \<and> (\<forall>x. cs_toolchain c = Some x \<longrightarrow> ap_toolchain p = Some x)"

lemma ref_errors_Nil:
  "ref_errors db p h i = Inr [] \<longleftrightarrow> (\<exists>e. tbl_get er_id i (td_evidence db) = Some e \<and> er_task e = ap_task p \<and>
     er_head e = h \<and> er_status e = ''PASSED'' \<and> (\<exists>n. rank_of (er_trust e) = Some n \<and> 3 \<le> n))"
  by (auto simp: ref_errors_def evidence_rank_def bind_res_Inr not_less split: option.splits if_splits)

lemma subject_errors_Nil:
  "(if ap_head p \<noteq> cs_head c then [''Approval head SHA is stale''] else []) @
     (if ap_diff p \<noteq> cs_diff c then [''Approval diff hash is stale''] else []) @
     (if cs_epoch c \<noteq> None \<and> Some (ap_epoch p) \<noteq> cs_epoch c then [''Approval subject epoch is stale''] else []) @
     (if cs_fingerprint c \<noteq> None \<and> ap_fingerprint p \<noteq> cs_fingerprint c
      then [''Approval subject fingerprint is stale''] else []) @
     (if cs_policy c \<noteq> None \<and> ap_policy p \<noteq> cs_policy c then [''Approval policy bundle is stale''] else []) @
     (if cs_toolchain c \<noteq> None \<and> ap_toolchain p \<noteq> cs_toolchain c
      then [''Approval toolchain is stale''] else []) = [] \<longleftrightarrow> subject_matches p c"
  by (auto simp: subject_matches_def)

lemma validate_approval_iff:
  assumes "tbl_get ap_id i (td_approvals db) = Some p"
  shows "validate_approval db i c = Inr (True, p, []) \<longleftrightarrow>
    subject_matches p c \<and> (\<forall>r \<in> set (ap_refs p). ref_errors db p (cs_head c) r = Inr [])"
proof -
  let ?es0 = "(if ap_head p \<noteq> cs_head c then [''Approval head SHA is stale''] else []) @
     (if ap_diff p \<noteq> cs_diff c then [''Approval diff hash is stale''] else []) @
     (if cs_epoch c \<noteq> None \<and> Some (ap_epoch p) \<noteq> cs_epoch c then [''Approval subject epoch is stale''] else []) @
     (if cs_fingerprint c \<noteq> None \<and> ap_fingerprint p \<noteq> cs_fingerprint c
      then [''Approval subject fingerprint is stale''] else []) @
     (if cs_policy c \<noteq> None \<and> ap_policy p \<noteq> cs_policy c then [''Approval policy bundle is stale''] else []) @
     (if cs_toolchain c \<noteq> None \<and> ap_toolchain p \<noteq> cs_toolchain c
      then [''Approval toolchain is stale''] else [])"
  let ?fold = "fold_res (\<lambda>r es. bind_res (ref_errors db p (cs_head c) r) (\<lambda>es'. Inr (es @ es'))) (ap_refs p) ?es0"
  have v: "validate_approval db i c = Inr (True, p, []) \<longleftrightarrow> ?fold = Inr []"
    unfolding validate_approval_def assms option.case by (cases ?fold) auto
  show ?thesis
  proof
    assume "validate_approval db i c = Inr (True, p, [])"
    then have f: "?fold = Inr []" using v by blast
    from fold_ref_errors [OF this] have "?es0 = [] \<and> (\<forall>r \<in> set (ap_refs p). ref_errors db p (cs_head c) r = Inr [])"
      by blast
    then show "subject_matches p c \<and> (\<forall>r \<in> set (ap_refs p). ref_errors db p (cs_head c) r = Inr [])"
      unfolding subject_errors_Nil .
  next
    assume m: "subject_matches p c \<and> (\<forall>r \<in> set (ap_refs p). ref_errors db p (cs_head c) r = Inr [])"
    then have "?es0 = []" unfolding subject_errors_Nil by blast
    moreover have "?fold = Inr ?es0" by (rule fold_ref_errors_ok) (use m in blast)
    ultimately show "validate_approval db i c = Inr (True, p, [])" using v by simp
  qed
qed

text \<open>
  C39. In every reachable store a recorded approval with decision APPROVE validates against a
  candidate exactly when its head and diff are those of the candidate and each of subject epoch,
  fingerprint, policy bundle and toolchain that the caller gives is the recorded one: the evidence
  it rests on stays valid by itself.
\<close>

theorem approval_bound_to_subject:
  assumes "task_reach sha authority db" and "p \<in> set (td_approvals db)" and "ap_decision p = ''APPROVE''"
  shows "validate_approval db (ap_id p) c = Inr (True, p, []) \<longleftrightarrow> subject_matches p c"
proof -
  have inv: "approvals_inv db" using assms(1) by (rule task_reach_approvals)
  have get: "tbl_get ap_id (ap_id p) (td_approvals db) = Some p"
    using inv assms(2) by (intro tbl_get_unique) (auto simp: approvals_inv_def)
  have backed: "approval_backed db p" using inv assms(2) by (simp add: approvals_inv_def)
  have "ref_errors db p (ap_head p) i = Inr []" if i: "i \<in> set (ap_refs p)" for i
  proof -
    from backed assms(3) i obtain e where e: "e \<in> set (td_evidence db)" "er_id e = i" "backs p e"
      unfolding approval_backed_def by blast
    have "tbl_get er_id (er_id e) (td_evidence db) = Some e"
      using inv e(1) by (intro tbl_get_unique) (auto simp: approvals_inv_def)
    then show ?thesis using e(2,3) unfolding ref_errors_Nil backs_def by metis
  qed
  then show ?thesis
    unfolding validate_approval_iff [OF get] by (auto simp: subject_matches_def)
qed

definition demo_run :: run_row where
  "demo_run = \<lparr>rn_id = [], rn_task = ''a'', rn_role = ''supervisor'', rn_session = Some ''s1'', rn_model = ''m'',
     rn_effort = None, rn_prompt = ''p'', rn_context = ''c'', rn_head = Some ''h1'', rn_status = ''COMPLETED'',
     rn_input = None, rn_output = None, rn_output_hash = None, rn_created = [], rn_completed = None\<rparr>"

definition demo_evidence :: evidence_args where
  "demo_evidence = \<lparr>ea_id = ''e1'', ea_task = ''a'', ea_head = ''h1'', ea_type = ''CI'', ea_trust = ''E3'',
     ea_status = ''PASSED'', ea_producer = ''ci'', ea_payload = []\<rparr>"

definition demo_approve :: approval_args where
  "demo_approve = \<lparr>aa_task = ''a'', aa_role = ''supervisor'', aa_session = ''s1'', aa_head = ''h1'', aa_diff = ''d1'',
     aa_refs = [''e1''], aa_decision = ''APPROVE'', aa_epoch = 0, aa_fingerprint = None, aa_policy = None, aa_toolchain = None\<rparr>"

definition demo_s1 :: task_db where
  "demo_s1 = task_db_of (record_model_run ''f'' ''t1'' ''t1'' (Some ''r1'') demo_run demo_store)"

definition demo_s2 :: task_db where
  "demo_s2 = task_db_of (register_evidence len_sha ''t1'' demo_evidence demo_s1)"

definition demo_s3 :: task_db where
  "demo_s3 = task_db_of (record_approval ''f'' ''t1'' demo_approve demo_s2)"

definition demo_approval :: approval_row where
  "demo_approval = hd (td_approvals demo_s3)"

lemma demo_s1_step: "record_model_run ''f'' ''t1'' ''t1'' (Some ''r1'') demo_run demo_store = Inr (demo_s1, hd (td_runs demo_s1))"
  by code_simp

lemma demo_s2_step: "register_evidence len_sha ''t1'' demo_evidence demo_s1 = Inr (demo_s2, hd (td_evidence demo_s2), False)"
  by code_simp

lemma demo_s3_step: "record_approval ''f'' ''t1'' demo_approve demo_s2 = Inr (demo_s3, demo_approval)"
  by code_simp

lemma demo_s2_reach: "task_reach len_sha None demo_s2"
  by (rule tr_step [OF tr_step [OF demo_store_reach ts_run [OF demo_s1_step]] ts_evidence [OF demo_s2_step]])

lemma demo_s3_reach: "task_reach len_sha None demo_s3"
  by (rule tr_step [OF demo_s2_reach ts_approval [OF demo_s3_step]])

theorem approval_bound_to_subject_witness:
  "\<forall>c. validate_approval demo_s3 (ap_id demo_approval) c = Inr (True, demo_approval, []) \<longleftrightarrow> subject_matches demo_approval c"
  by (rule allI, rule approval_bound_to_subject [OF demo_s3_reach]) code_simp+

text \<open>
  C15. record_approval with decision APPROVE appends exactly the approval it was asked for, and
  only if: a completed run with the same task, role, session and head is recorded; for the roles
  supervisor and closure the approving session has no completed worker or takeover run of the task
  at that head; where a takeover run of that head is completed the role is closure; and it names
  at least one evidence record, each of which is registered as PASSED at trust E3 or above for the
  same task and head.
\<close>

theorem approval_separation:
  assumes "record_approval fresh now a db = Inr (db', p)" and "aa_decision a = ''APPROVE''"
  shows "td_approvals db' = td_approvals db @ [p] \<and> ap_task p = aa_task a \<and> ap_role p = aa_role a \<and>
    ap_session p = aa_session a \<and> ap_head p = aa_head a \<and> ap_decision p = ''APPROVE'' \<and> reviewer_run db a \<and>
    (aa_role a \<in> {''supervisor'', ''closure''} \<longrightarrow> \<not> implementer_conflict db a) \<and>
    (taken_over db a \<longrightarrow> aa_role a = ''closure'') \<and>
    aa_refs a \<noteq> [] \<and>
    (\<forall>i \<in> set (aa_refs a). \<exists>e \<in> set (td_evidence db). er_id e = i \<and> er_task e = aa_task a \<and> er_head e = aa_head a \<and>
       er_status e = ''PASSED'' \<and> (\<exists>n. rank_of (er_trust e) = Some n \<and> 3 \<le> n))"
proof -
  note r = record_approval_cases [OF assms(1)]
  then have c: "check_refs db a (sorted_set (aa_refs a)) = Inr ()" using assms(2) by blast
  note ok = check_refs_ok [OF c, unfolded sorted_set_eq_Nil set_sorted_set]
  have "\<exists>e \<in> set (td_evidence db). er_id e = i \<and> er_task e = aa_task a \<and> er_head e = aa_head a \<and>
       er_status e = ''PASSED'' \<and> (\<exists>n. rank_of (er_trust e) = Some n \<and> 3 \<le> n)" if i: "i \<in> set (aa_refs a)" for i
  proof -
    from ok i obtain e where e: "e \<in> set (td_evidence db)" "er_id e = i" by blast
    with i have "er_id e \<in> set (aa_refs a)" by simp
    with ok e show ?thesis by blast
  qed
  moreover have "td_approvals db' = td_approvals db @ [p] \<and> ap_task p = aa_task a \<and> ap_role p = aa_role a \<and>
    ap_session p = aa_session a \<and> ap_head p = aa_head a \<and> ap_decision p = ''APPROVE''" using r assms(2) by simp
  moreover have "(aa_role a \<in> {''supervisor'', ''closure''} \<longrightarrow> \<not> implementer_conflict db a) \<and> (taken_over db a \<longrightarrow> aa_role a = ''closure'')"
    using r assms(2) by blast
  ultimately show ?thesis using ok by simp
qed

theorem approval_separation_witness:
  "reviewer_run demo_s2 demo_approve \<and> aa_role demo_approve = ''supervisor'' \<and> \<not> implementer_conflict demo_s2 demo_approve \<and>
    aa_refs demo_approve \<noteq> [] \<and>
    (\<exists>e \<in> set (td_evidence demo_s2). er_id e = hd (aa_refs demo_approve) \<and> er_status e = ''PASSED'')"
proof -
  have "aa_role demo_approve = ''supervisor''" "aa_decision demo_approve = ''APPROVE''" by code_simp+
  with approval_separation [OF demo_s3_step] show ?thesis
    by (cases "aa_refs demo_approve") auto
qed

section \<open>Evidence and submission\<close>

definition row_material :: "evidence_row \<Rightarrow> pyval" where
  "row_material e = evidence_material \<lparr>ea_id = er_id e, ea_task = er_task e, ea_head = er_head e, ea_type = er_type e,
     ea_trust = er_trust e, ea_status = er_status e, ea_producer = er_producer e, ea_payload = er_payload e\<rparr>"

definition evidence_grows :: "(string \<Rightarrow> string) \<Rightarrow> task_db \<Rightarrow> task_db \<Rightarrow> bool" where
  "evidence_grows sha db db' \<longleftrightarrow> td_evidence db' = td_evidence db \<or>
     (\<exists>e. td_evidence db' = td_evidence db @ [e] \<and> er_hash e = sha256_json sha (row_material e))"

lemma register_evidence_grows:
  assumes "register_evidence sha now a db = Inr (db', e, replay)"
  shows "evidence_grows sha db db'"
proof -
  have "sha256_json sha (evidence_material (a\<lparr>ea_payload := read_back (ea_payload a)\<rparr>)) = sha256_json sha (evidence_material a)"
    by (rule sha256_json_cong) (simp add: evidence_material_def sort_keys_read_back [simplified])
  then have h: "sha256_json sha (evidence_material \<lparr>ea_id = ea_id a, ea_task = ea_task a, ea_head = ea_head a, ea_type = ea_type a,
     ea_trust = ea_trust a, ea_status = ea_status a, ea_producer = ea_producer a, ea_payload = read_back (ea_payload a)\<rparr>) =
     sha256_json sha (evidence_material a)" by (cases a) simp
  show ?thesis
  proof (cases "tbl_get er_id (ea_id a) (td_evidence db)")
    case None
    then have "db' = db\<lparr>td_evidence := td_evidence db @ [e]\<rparr> \<and>
        e = \<lparr>er_id = ea_id a, er_task = ea_task a, er_head = ea_head a, er_type = ea_type a, er_trust = ea_trust a,
          er_status = ea_status a, er_producer = ea_producer a, er_payload = read_back (ea_payload a),
          er_hash = sha256_json sha (evidence_material a), er_created = now\<rparr>"
      using assms by (clarsimp simp: register_evidence_def Let_def split: if_splits)
    then show ?thesis by (simp add: evidence_grows_def row_material_def h)
  next
    case (Some q)
    then show ?thesis using assms by (simp add: register_evidence_def Let_def evidence_grows_def split: if_splits)
  qed
qed

lemma evidence_same: "td_evidence db' = td_evidence db \<Longrightarrow> evidence_grows sha db db'"
  by (simp add: evidence_grows_def)

lemma task_step_evidence: "task_step sha authority db db' \<Longrightarrow> evidence_grows sha db db'"
proof (induction rule: task_step.induct)
  case (ts_submit fresh now enow a db db' r replay)
  then show ?case
    by (intro evidence_same, cases rule: submit_task_cases [OF ts_submit(1)])
      (auto dest!: append_event_frame simp: same_but_log_def)
next
  case (ts_recover soon clock now db db' n)
  then have f: "fold_res (recover_one sha soon clock now) (filter (task_lease_expired now) (td_tasks db)) db = Inr db'"
    by (auto simp: recover_expired_leases_def Let_def bind_res_Inr)
  have "td_evidence db' = td_evidence db" using f
    by (rule fold_res_invariant) (auto simp: recover_one_def same_but_log_def dest!: append_event_frame)
  then show ?case by (rule evidence_same)
next
  case (ts_claim clock now expires enow worker db db' r)
  then obtain db1 where p: "promote_due sha clock now db = Inr db1" by (auto simp: claim_next_def bind_res_Inr)
  then have "td_evidence db1 = td_evidence db" unfolding promote_due_def
    by (rule fold_res_invariant) (auto simp: promote_one_def same_but_log_def dest!: append_event_frame)
  then show ?case using ts_claim p
    by (intro evidence_same)
      (auto simp: claim_next_def bind_res_Inr same_but_log_def split: list.splits if_splits dest!: append_event_frame)
next
  case (ts_transition now enow i requested ta db db')
  then show ?case
    by (intro evidence_same) (auto elim!: transition_cases dest!: append_event_frame simp: same_but_log_def)
next
  case (ts_failure future now enow i role fc err actor key db db' r d replay)
  then show ?case
    by (intro evidence_same, cases rule: record_failure_cases [OF ts_failure(1)])
      (auto dest!: append_event_frame simp: same_but_log_def)
next
  case (ts_evidence now ea db db' e replay)
  then show ?case by (rule register_evidence_grows)
next
  case (ts_approval_run fresh now rid aa db db' p)
  then obtain aa' where "record_approval fresh now aa' db = Inr (db', p)" using record_approval_from_run_is by blast
  from record_approval_cases [OF this] show ?case by (intro evidence_same) simp
qed (auto simp: heartbeat_def record_model_run_def Let_def same_but_log_def
      intro!: evidence_same dest!: append_event_frame record_approval_cases split: guard_splits)

lemma evidence_hashed:
  "task_reach sha authority db \<Longrightarrow> e \<in> set (td_evidence db) \<Longrightarrow> er_hash e = sha256_json sha (row_material e)"
proof (induction arbitrary: e rule: task_reach.induct)
  case (tr_step db db')
  then show ?case using task_step_evidence [OF tr_step.hyps(2)] by (auto simp: evidence_grows_def)
qed (simp add: store_empty_def)

text \<open>Registered evidence stays registered along runs.\<close>

lemma task_steps_evidence:
  assumes "(task_step sha authority)\<^sup>*\<^sup>* db db'" and "task_reach sha authority db"
  shows "task_reach sha authority db' \<and> set (td_evidence db) \<subseteq> set (td_evidence db')"
  using assms
proof (induction rule: rtranclp_induct)
  case (step db1 db2)
  then show ?case using tr_step task_step_evidence [OF step.hyps(2)] by (fastforce simp: evidence_grows_def)
qed simp

text \<open>
  C17. A registered evidence record is still there, unchanged, after any sequence of operations of
  the task store. Registering its identifier again, when it is accepted at all, is a replay: it
  changes nothing, returns the stored record, and the material it was given has the digest of the
  stored one, so with a digest without collisions it is the same material.
\<close>

theorem evidence_immutable:
  assumes "task_reach sha authority db" and "(task_step sha authority)\<^sup>*\<^sup>* db db'" and "e \<in> set (td_evidence db)"
    and "register_evidence sha now b db' = Inr (db'', e', replay)" and "ea_id b = er_id e"
  shows "e \<in> set (td_evidence db') \<and> e' = e \<and> replay \<and> db'' = db' \<and>
    sha256_json sha (evidence_material b) = sha256_json sha (row_material e) \<and>
    (inj sha \<longrightarrow> canonical_json (evidence_material b) = canonical_json (row_material e))"
proof -
  from task_steps_evidence [OF assms(2,1)] have r: "task_reach sha authority db'" and e: "e \<in> set (td_evidence db')"
    using assms(3) by auto
  then have u: "unique_key er_id (td_evidence db')" using task_reach_approvals by (auto simp: approvals_inv_def)
  have "tbl_get er_id (ea_id b) (td_evidence db') = Some e"
    using tbl_get_unique [OF u e] assms(5) by simp
  then have "e' = e \<and> replay \<and> db'' = db' \<and> er_hash e = sha256_json sha (evidence_material b)"
    using assms(4) by (auto simp: register_evidence_def Let_def split: if_splits)
  then show ?thesis using e evidence_hashed [OF r e] by (auto simp: sha256_json_inject)
qed

definition demo_i1 :: task_db where
  "demo_i1 = task_db_of (register_evidence (\<lambda>s. s) ''t1'' demo_evidence demo_inj_store)"

definition demo_i2 :: task_db where
  "demo_i2 = task_db_of (record_model_run ''f'' ''t1'' ''t1'' (Some ''r1'') demo_run demo_i1)"

definition demo_inj_task :: task_row where
  "demo_inj_task = the (tbl_get tk_id ''a'' (td_tasks demo_inj_store))"

lemma demo_inj_steps:
  "submit_task (\<lambda>s. s) None ''f'' ''t0'' ''t0'' (demo_submit_args ''a'') store_empty = Inr (demo_inj_store, demo_inj_task, False)"
  "register_evidence (\<lambda>s. s) ''t1'' demo_evidence demo_inj_store = Inr (demo_i1, hd (td_evidence demo_i1), False)"
  "record_model_run ''f'' ''t1'' ''t1'' (Some ''r1'') demo_run demo_i1 = Inr (demo_i2, hd (td_runs demo_i2))"
  "register_evidence (\<lambda>s. s) ''t1'' demo_evidence demo_i2 = Inr (demo_i2, hd (td_evidence demo_i1), True)"
  by code_simp+

theorem evidence_immutable_witness:
  "hd (td_evidence demo_i1) \<in> set (td_evidence demo_i2) \<and>
    canonical_json (evidence_material demo_evidence) = canonical_json (row_material (hd (td_evidence demo_i1)))"
proof -
  have "task_reach (\<lambda>s. s) None demo_i1"
    by (rule tr_step [OF tr_step [OF tr_start ts_submit [OF demo_inj_steps(1)]] ts_evidence [OF demo_inj_steps(2)]])
  moreover have "(task_step (\<lambda>s. s) None)\<^sup>*\<^sup>* demo_i1 demo_i2" 
    using ts_run [OF demo_inj_steps(3)] by blast
  moreover have "hd (td_evidence demo_i1) \<in> set (td_evidence demo_i1)" by code_simp
  moreover have "ea_id demo_evidence = er_id (hd (td_evidence demo_i1))" by code_simp
  ultimately show ?thesis using evidence_immutable [OF _ _ _ demo_inj_steps(4)] by simp
qed

text \<open>
  A submitted task declares one of the known work origins; a reported defect is accepted only
  with a lifecycle record that the authoritative store returns for its case and that backs the
  handoff, and any other origin may not name a lifecycle case.
\<close>

theorem defect_submission_backed:
  assumes "submit_task sha authority fresh now enow a db = Inr (db', r, False)"
  shows "work_origin (sb_contract a) \<in> {''FEATURE'', ''REPORTED_DEFECT'', ''INCIDENT'', ''MAINTENANCE'', ''REFACTOR'', ''OTHER''} \<and>
    (work_origin (sb_contract a) = ''REPORTED_DEFECT'' \<longrightarrow>
       (\<exists>get l. authority = Some get \<and> get (py_str (dget ''bug_lifecycle_case_id'' (sb_contract a))) = Inr l \<and>
          backed_handoff (sb_contract a) (Some l))) \<and>
    (work_origin (sb_contract a) \<noteq> ''REPORTED_DEFECT'' \<longrightarrow> \<not> truthy (dget ''bug_lifecycle_case_id'' (sb_contract a)))"
  using assms
proof (cases rule: submit_task_cases)
  case (created lifecycle)
  from created(9) obtain flag where v: "validate_work_origin (sb_contract a) flag lifecycle = Inr []" by blast
  have "\<exists>get l. authority = Some get \<and> get (py_str (dget ''bug_lifecycle_case_id'' (sb_contract a))) = Inr l \<and>
      backed_handoff (sb_contract a) (Some l)" if "work_origin (sb_contract a) = ''REPORTED_DEFECT''"
  proof -
    have b: "backed_handoff (sb_contract a) lifecycle" using v that by (rule accepted_defect_backed)
    then obtain l where "lifecycle = Some l" by (auto simp: backed_handoff_def)
    with b created(8) show ?thesis
      by (auto simp: submit_authority_def bind_res_Inr split: option.splits if_splits)
  qed
  then show ?thesis using accepted_origin [OF v] accepted_generic_unbound [OF v] by blast
qed simp

definition demo_lifecycle :: pydict where
  "demo_lifecycle = [(''authority_store'', PStr ''controller-owned-sqlite''), (''authoritative_lifecycle'', PBool True),
     (''case_id'', PStr ''c1''), (''problem_case_fingerprint'', PStr ''fp''), (''state'', PStr ''CHANGE_PLANNED'')]"

definition demo_authority :: "string \<Rightarrow> pydict res" where
  "demo_authority i = Inr demo_lifecycle"

definition demo_defect :: submit_args where
  "demo_defect = (demo_submit_args ''a'')\<lparr>sb_contract := [(''origin'', PStr ''reported_defect''), (''bug_lifecycle_case_id'', PStr ''c1''),
     (''authoritative_lifecycle_handoff'', PDict [(''case_id'', PStr ''c1''), (''problem_case_fingerprint'', PStr ''fp''),
        (''state'', PStr ''HANDOFF_READY''), (''authority_store'', PStr ''controller-owned-sqlite'')]),
     (''scope'', PDict [(''file_reasons'', PDict [(''x.py'', PStr ''bug'')]), (''expected_components'', PList [PStr ''x.py''])])]\<rparr>"

definition demo_defect_store :: task_db where
  "demo_defect_store = task_db_of (submit_task len_sha (Some demo_authority) ''f'' ''t0'' ''t0'' demo_defect store_empty)"

theorem defect_submission_backed_witness:
  "work_origin (sb_contract demo_defect) = ''REPORTED_DEFECT'' \<and>
    (\<exists>get l. Some demo_authority = Some get \<and> get (py_str (dget ''bug_lifecycle_case_id'' (sb_contract demo_defect))) = Inr l \<and>
       backed_handoff (sb_contract demo_defect) (Some l))"
proof -
  have "submit_task len_sha (Some demo_authority) ''f'' ''t0'' ''t0'' demo_defect store_empty =
      Inr (demo_defect_store, the (tbl_get tk_id ''a'' (td_tasks demo_defect_store)), False)" by code_simp
  note r = defect_submission_backed [OF this]
  have "work_origin (sb_contract demo_defect) = ''REPORTED_DEFECT''" by code_simp
  with r show ?thesis by blast
qed

section \<open>A lost event\<close>

definition demo_reused :: transition_args where
  "demo_reused = \<lparr>ta_actor = ''s'', ta_expected = None, ta_payload = [], ta_release = True, ta_next_run = None,
     ta_key = Some ''submit:ka''\<rparr>"

definition demo_silent :: task_db where
  "demo_silent = (case transition len_sha ''t3'' ''t3'' ''a'' ''PLANNING'' demo_reused demo_store of
     Inl _ \<Rightarrow> store_empty | Inr db \<Rightarrow> db)"

text \<open>
  A transition called with an idempotency key that an earlier event already used moves the
  task but appends no event: the state change is missing from the log.
\<close>

theorem transition_without_event:
  "transition len_sha ''t3'' ''t3'' ''a'' ''PLANNING'' demo_reused demo_store = Inr demo_silent \<and>
     td_events demo_silent = td_events demo_store \<and> map tk_state (td_tasks demo_store) = [READY] \<and>
     map tk_state (td_tasks demo_silent) = [PLANNING]"
  by code_simp

end
