(* ===== verification/Scheduler_Props.thy ===== *)
theory Scheduler_Props
  imports Scheduler Task_Props
begin

text \<open>
  What a tick of \<open>scheduler.py\<close> does to the task store: it only takes steps of the store, it
  advances a task only on registered evidence, and what happens when the runner asks for a state
  the table does not allow.
\<close>

section \<open>A tick is a sequence of store steps\<close>

lemma settle_steps:
  assumes "settle sha k gate worker task role result db = Inr (db', r)"
  shows "task_step sha authority db db'"
  using assms
  by (auto simp: settle_def route_failure_def Let_def bind_res_Inr split: if_splits intro: ts_transition ts_failure)

definition runner_keeps :: "(string \<Rightarrow> string) \<Rightarrow> (string \<Rightarrow> pydict res) option \<Rightarrow> runner \<Rightarrow> bool" where
  "runner_keeps sha authority run \<longleftrightarrow>
     (\<forall>task role db. task_reach sha authority db \<longrightarrow> task_reach sha authority (fst (run task role db)))"

lemma tick_parts:
  assumes "tick sha k gate run worker db = (db', Inr r)"
  shows "\<exists>db1 n db2 claimed. recover_expired_leases sha (tc_soon k) (tc_recovered k) (tc_recover_now k) db = Inr (db1, n) \<and>
    claim_next sha (tc_promoted k) (tc_claim_now k) (tc_expires k) (tc_claimed k) worker db1 = Inr (db2, claimed) \<and>
    (case claimed of
       None \<Rightarrow> db' = db2 \<and> ti_action r = ''IDLE_NO_RUNNABLE_TASK'' \<and> ti_task r = None
     | Some task \<Rightarrow> \<exists>db3 outcome. run task (role_for_state (tk_state task)) db2 = (db3, outcome) \<and>
         settle sha k gate worker task (role_for_state (tk_state task)) (run_result outcome) db3 = Inr (db', r))"
  using assms by (auto simp: tick_def Let_def split: sum.splits prod.splits option.splits)

text \<open>The idempotency keys under which a tick routes a refused and a failed run.\<close>

definition refusal_key :: "task_row \<Rightarrow> string \<Rightarrow> pydict \<Rightarrow> string" where
  "refusal_key task requested result =
     ''gate:'' @ run_id_of task result @ '':'' @ requested @ '':'' @ int_str (tk_version task)"

definition failure_key :: "task_row \<Rightarrow> pydict \<Rightarrow> string" where
  "failure_key task result = ''failure:'' @ run_id_of task result @ '':'' @
     py_str (dget_default ''failure_class'' (PStr ''UNKNOWN'') result) @ '':'' @ int_str (tk_version task)"

text \<open>
  A routed failure: the store is the one the run left (if the failure is already in its log) or
  differs from it in the row of the task, which is released and routed.
\<close>

definition failure_settled :: "tick_clock \<Rightarrow> string \<Rightarrow> string \<Rightarrow> task_row \<Rightarrow> string \<Rightarrow> task_db \<Rightarrow> task_db \<Rightarrow> tick_result \<Rightarrow> bool" where
  "failure_settled k role fc task key db db' r \<longleftrightarrow>
     ti_task r = Some (tk_id task) \<and>
     (if \<exists>e \<in> set (td_events db). ev_key e = key then db' = db
      else (\<exists>row row'. tbl_get tk_id (tk_id task) (td_tasks db) = Some row \<and> tbl_get tk_id (tk_id task) (td_tasks db') = Some row' \<and>
          routed_row (tc_future k) row row' \<and> tk_state row' = fd_next (failure_of row role fc) \<and> ti_state r = Some (tk_state row')) \<and>
        (\<forall>j. j \<noteq> tk_id task \<longrightarrow> tbl_get tk_id j (td_tasks db') = tbl_get tk_id j (td_tasks db)))"

lemma route_failure_settled:
  assumes "route_failure sha k worker task role fc err key db = Inr (db', row', v)" and "store_inv sha db"
    and "ti_task r = Some (tk_id task)" and "ti_state r = Some (tk_state row')"
  shows "failure_settled k role fc task key db db' r"
proof -
  from assms(1) obtain replay where "record_failure sha (tc_future k) (tc_now k) (tc_event_now k) (tk_id task) role fc err
      (''scheduler:'' @ worker) key db = Inr (db', row', v, replay)" by (auto simp: route_failure_def bind_res_Inr)
  from record_failure_contained [OF assms(2) this] show ?thesis
    unfolding failure_settled_def assms(3,4) by (cases "\<exists>e \<in> set (td_events db). ev_key e = key") auto
qed

lemma settle_cases:
  assumes "settle sha k gate worker task role result db = Inr (db', r)" and "store_inv sha db"
  shows "if \<not> truthy (dget ''success'' result) then ti_action r = ''CONTAINED_FAILURE'' \<and>
      failure_settled k role (py_str (dget_default ''failure_class'' (PStr ''UNKNOWN'') result)) task (failure_key task result) db db' r
    else if \<exists>evaluate g. gate = Some evaluate \<and> evaluate db task (requested_state task role result) result = Inr g \<and> \<not> truthy (dget ''allowed'' g)
    then ti_action r = ''TRANSITION_BLOCKED_CONTAINED'' \<and>
      failure_settled k role ''EVIDENCE_MISSING'' task (refusal_key task (requested_state task role result) result) db db' r
    else ti_action r = ''ADVANCED'' \<and> ti_task r = Some (tk_id task) \<and>
      transition sha (tc_now k) (tc_event_now k) (tk_id task) (requested_state task role result)
        (advance_args worker task (requested_state task role result) result) db = Inr db'"
proof (cases "truthy (dget ''success'' result)")
  case False
  then obtain row v where route: "route_failure sha k worker task role (py_str (dget_default ''failure_class'' (PStr ''UNKNOWN'') result))
      (py_str (dget_default ''error'' (PStr ''model run failed'') result)) (failure_key task result) db = Inr (db', row, v)"
    and r: "ti_action r = ''CONTAINED_FAILURE''" "ti_task r = Some (tk_id task)" "ti_state r = Some (tk_state row)"
    using assms(1) unfolding settle_def Let_def failure_key_def by (auto simp: bind_res_Inr)
  show ?thesis using False r(1) route_failure_settled [OF route assms(2) r(2,3)] by simp
next
  case True
  let ?req = "requested_state task role result"
  note run = assms(1) [unfolded settle_def Let_def if_P [OF True], folded refusal_key_def]
  from iffD1 [OF bind_res_Inr run] obtain g where g: "(case gate of None \<Rightarrow> Inr [(''allowed'', PBool True),
        (''claim_boundary'', PStr ''Ungated scheduler mode is not production-authoritative.'')]
      | Some evaluate \<Rightarrow> evaluate db task ?req result) = Inr g"
    and rest: "(if \<not> truthy (dget ''allowed'' g) then
            bind_res (route_failure sha k worker task role ''EVIDENCE_MISSING''
                (''Transition gate rejected advancement: '' @ py_str (PDict g)) (refusal_key task ?req result) db) (\<lambda>(db', r, _).
              Inr (db', \<lparr>ti_worker = worker, ti_action = ''TRANSITION_BLOCKED_CONTAINED'', ti_task = Some (tk_id task), ti_state = Some (tk_state r),
                ti_detail = [(''gate'', PDict g), (''run'', PDict result)]\<rparr>))
          else
            bind_res (transition sha (tc_now k) (tc_event_now k) (tk_id task) ?req (advance_args worker task ?req result) db)
              (\<lambda>db'. bind_res (get_task db' (tk_id task)) (\<lambda>r.
                Inr (db', \<lparr>ti_worker = worker, ti_action = ''ADVANCED'', ti_task = Some (tk_id task), ti_state = Some (tk_state r),
                  ti_detail = [(''run'', PDict result), (''gate'', PDict g)]\<rparr>)))) = Inr (db', r)"
    by (elim exE conjE) rule
  show ?thesis
  proof (cases "truthy (dget ''allowed'' g)")
    case allowed: True
    then have "ti_action r = ''ADVANCED''" "ti_task r = Some (tk_id task)"
      "transition sha (tc_now k) (tc_event_now k) (tk_id task) ?req (advance_args worker task ?req result) db = Inr db'"
      using rest by (auto simp: bind_res_Inr)
    moreover have "\<not> (\<exists>evaluate g. gate = Some evaluate \<and> evaluate db task ?req result = Inr g \<and> \<not> truthy (dget ''allowed'' g))"
      using g allowed by auto
    ultimately show ?thesis using True by simp
  next
    case refused: False
    then obtain evaluate where ev: "gate = Some evaluate" "evaluate db task ?req result = Inr g"
      using g by (cases gate) auto
    from rest refused obtain row v where route: "route_failure sha k worker task role ''EVIDENCE_MISSING''
        (''Transition gate rejected advancement: '' @ py_str (PDict g)) (refusal_key task ?req result) db = Inr (db', row, v)"
      and r: "ti_action r = ''TRANSITION_BLOCKED_CONTAINED''" "ti_task r = Some (tk_id task)" "ti_state r = Some (tk_state row)"
      by (auto simp: bind_res_Inr)
    show ?thesis using True ev refused r(1) route_failure_settled [OF route assms(2) r(2,3)] by auto
  qed
qed

text \<open>
  C35. A tick of the scheduler that returns recovered expired leases and claimed at most one task,
  and what it answers is what it did, for any gate and any runner that keeps the task store
  reachable. Without a task it changed nothing more. If the run failed, or raised, the task was
  released and routed by the failure table to a runnable state or to a delayed state with a date,
  unless that failure was already in the log, and the answer is CONTAINED_FAILURE; if the gate
  refused the requested state, the same happened with the class EVIDENCE_MISSING and the answer is
  TRANSITION_BLOCKED_CONTAINED; other tasks stay as the run left them. Only otherwise it is
  ADVANCED, and the store is the result of the transition to the requested state.
\<close>

theorem tick_contains_failures:
  assumes "task_reach sha authority db" and "runner_keeps sha authority run" and "tick sha k gate run worker db = (db', Inr r)"
  shows "\<exists>db1 n db2 claimed. recover_expired_leases sha (tc_soon k) (tc_recovered k) (tc_recover_now k) db = Inr (db1, n) \<and>
    claim_next sha (tc_promoted k) (tc_claim_now k) (tc_expires k) (tc_claimed k) worker db1 = Inr (db2, claimed) \<and>
    (case claimed of
       None \<Rightarrow> db' = db2 \<and> ti_action r = ''IDLE_NO_RUNNABLE_TASK'' \<and> ti_task r = None
     | Some task \<Rightarrow> \<exists>db3 outcome. run task (role_for_state (tk_state task)) db2 = (db3, outcome) \<and>
         (if \<not> truthy (dget ''success'' (run_result outcome)) then ti_action r = ''CONTAINED_FAILURE'' \<and>
            failure_settled k (role_for_state (tk_state task)) (py_str (dget_default ''failure_class'' (PStr ''UNKNOWN'') (run_result outcome)))
              task (failure_key task (run_result outcome)) db3 db' r
          else if \<exists>evaluate g. gate = Some evaluate \<and>
            evaluate db3 task (requested_state task (role_for_state (tk_state task)) (run_result outcome)) (run_result outcome) = Inr g \<and>
            \<not> truthy (dget ''allowed'' g)
          then ti_action r = ''TRANSITION_BLOCKED_CONTAINED'' \<and>
            failure_settled k (role_for_state (tk_state task)) ''EVIDENCE_MISSING'' task
              (refusal_key task (requested_state task (role_for_state (tk_state task)) (run_result outcome)) (run_result outcome)) db3 db' r
          else ti_action r = ''ADVANCED'' \<and> ti_task r = Some (tk_id task) \<and>
            transition sha (tc_now k) (tc_event_now k) (tk_id task)
              (requested_state task (role_for_state (tk_state task)) (run_result outcome))
              (advance_args worker task (requested_state task (role_for_state (tk_state task)) (run_result outcome)) (run_result outcome))
              db3 = Inr db'))"
proof -
  from tick_parts [OF assms(3)] obtain db1 n db2 claimed where
    rec: "recover_expired_leases sha (tc_soon k) (tc_recovered k) (tc_recover_now k) db = Inr (db1, n)"
    and claim: "claim_next sha (tc_promoted k) (tc_claim_now k) (tc_expires k) (tc_claimed k) worker db1 = Inr (db2, claimed)"
    and rest: "case claimed of
       None \<Rightarrow> db' = db2 \<and> ti_action r = ''IDLE_NO_RUNNABLE_TASK'' \<and> ti_task r = None
     | Some task \<Rightarrow> \<exists>db3 outcome. run task (role_for_state (tk_state task)) db2 = (db3, outcome) \<and>
         settle sha k gate worker task (role_for_state (tk_state task)) (run_result outcome) db3 = Inr (db', r)" by blast
  have r2: "task_reach sha authority db2" using tr_step [OF tr_step [OF assms(1) ts_recover [OF rec]] ts_claim [OF claim]] .
  show ?thesis
  proof (cases claimed)
    case None
    then show ?thesis using rec claim rest by (intro exI conjI) auto
  next
    case (Some task)
    with rest obtain db3 outcome where ran: "run task (role_for_state (tk_state task)) db2 = (db3, outcome)"
      and s: "settle sha k gate worker task (role_for_state (tk_state task)) (run_result outcome) db3 = Inr (db', r)" by auto
    have "task_reach sha authority db3" using assms(2) r2 ran unfolding runner_keeps_def by (metis fst_conv)
    note settled = settle_cases [OF s task_reach_inv [OF this]]
    show ?thesis
      by (rule exI [of _ db1], rule exI [of _ n], rule exI [of _ db2], rule exI [of _ claimed], intro conjI rec claim, unfold Some option.case)
        (rule exI [of _ db3], rule exI [of _ outcome], rule conjI [OF ran settled])
  qed
qed

definition demo_clock :: tick_clock where
  "demo_clock = \<lparr>tc_recover_now = ''t1'', tc_soon = (\<lambda>_. ''t2''), tc_recovered = (\<lambda>_. ''t1''), tc_claim_now = ''t1'',
     tc_promoted = (\<lambda>_. ''t1''), tc_expires = ''t5'', tc_claimed = ''t1'', tc_now = ''t1'', tc_event_now = ''t1'',
     tc_future = (\<lambda>_. ''t9'')\<rparr>"

definition demo_down :: runner where
  "demo_down task role db = (db, Inl ''provider is down'')"

theorem tick_contains_failures_witness:
  "\<exists>db' r (db3 :: task_db) (task :: task_row) row row'. tick len_sha demo_clock None demo_down ''w'' demo_store = (db', Inr r) \<and>
     ti_action r = ''CONTAINED_FAILURE'' \<and> tbl_get tk_id (tk_id task) (td_tasks db3) = Some row \<and>
     tbl_get tk_id (tk_id task) (td_tasks db') = Some row' \<and> routed_row (tc_future demo_clock) row row' \<and>
     tk_state row' = WAITING_RETRY"
proof -
  let ?t = "tick len_sha demo_clock None demo_down ''w'' demo_store"
  have action: "case snd ?t of Inl _ \<Rightarrow> False | Inr r \<Rightarrow> ti_action r = ''CONTAINED_FAILURE'' \<and> ti_state r = Some WAITING_RETRY" by code_simp
  then obtain r where r: "?t = (fst ?t, Inr r)" "ti_action r = ''CONTAINED_FAILURE''" "ti_state r = Some WAITING_RETRY"
    by (cases ?t) (auto split: sum.splits)
  have keeps: "runner_keeps len_sha None demo_down" by (simp add: runner_keeps_def demo_down_def)
  have rec: "recover_expired_leases len_sha (tc_soon demo_clock) (tc_recovered demo_clock) (tc_recover_now demo_clock) demo_store =
      Inr (demo_store, 0)" by code_simp
  have claim: "claim_next len_sha (tc_promoted demo_clock) (tc_claim_now demo_clock) (tc_expires demo_clock) (tc_claimed demo_clock)
      ''w'' demo_store = Inr (demo_leased, Some demo_leased_task)"
    using demo_leased_claim by (simp add: demo_clock_def)
  define out where "out = run_result (Inl ''provider is down'' :: string + pydict)"
  have failed: "\<not> truthy (dget ''success'' out)" unfolding out_def by code_simp
  have new: "\<not> (\<exists>e \<in> set (td_events demo_leased). ev_key e = failure_key demo_leased_task out)" unfolding out_def by code_simp
  from tick_contains_failures [OF demo_store_reach keeps r(1)] rec claim
  have "failure_settled demo_clock (role_for_state (tk_state demo_leased_task))
      (py_str (dget_default ''failure_class'' (PStr ''UNKNOWN'') out)) demo_leased_task (failure_key demo_leased_task out) demo_leased (fst ?t) r"
    using failed by (auto simp: demo_down_def out_def)
  from this [unfolded failure_settled_def if_not_P [OF new]] obtain row row' where
    got: "tbl_get tk_id (tk_id demo_leased_task) (td_tasks demo_leased) = Some row"
      "tbl_get tk_id (tk_id demo_leased_task) (td_tasks (fst ?t)) = Some row'" "routed_row (tc_future demo_clock) row row'"
      "ti_state r = Some (tk_state row')" by (elim conjE exE) rule
  have state: "tk_state row' = WAITING_RETRY" using got(4) r(3) by simp
  show ?thesis
    by (rule exI [of _ "fst ?t"], rule exI [of _ r], rule exI [of _ demo_leased], rule exI [of _ demo_leased_task],
      rule exI [of _ row], rule exI [of _ row'], intro conjI r(1,2) got(1-3) state)
qed

section \<open>Gated advancement\<close>

text \<open>
  C10. When a tick of the scheduler advances a task behind the registered-evidence gate, then it
  claimed that task after recovering expired leases, its runner reported success, and in the store
  the runner left there was, for each evidence and approval type the policy requires of the
  requested state, a passed or approved record of the task of at least the minimum trust (marked
  as validated from E3 on), for the reported head if one is reported; and the store after the tick
  is the result of the transition of that task to the requested state, along an edge of the state
  table from the claimed version, never to DONE for a task governed by the bug lifecycle.
\<close>

theorem advance_needs_evidence:
  assumes "tick sha k (Some (registered_gate policy)) run worker db = (db', Inr r)" and "ti_action r = ''ADVANCED''"
  shows "\<exists>db1 n db2 task db3 result requested st row.
    recover_expired_leases sha (tc_soon k) (tc_recovered k) (tc_recover_now k) db = Inr (db1, n) \<and>
    claim_next sha (tc_promoted k) (tc_claim_now k) (tc_expires k) (tc_claimed k) worker db1 = Inr (db2, Some task) \<and>
    run task (role_for_state (tk_state task)) db2 = (db3, Inr result) \<and> truthy (dget ''success'' result) \<and>
    requested = requested_state task (role_for_state (tk_state task)) result \<and> registered_enough policy db3 task requested result \<and>
    transition sha (tc_now k) (tc_event_now k) (tk_id task) requested (advance_args worker task requested result) db3 = Inr db' \<and>
    state_of requested = Some st \<and> tbl_get tk_id (tk_id task) (td_tasks db3) = Some row \<and>
    tk_version row = tk_version task \<and> st \<in> set (allowed_next (tk_state row)) \<and> \<not> (authoritative row \<and> st = DONE)"
proof -
  from registered.tick_advanced [OF assms] obtain db1 n db2 task db3 result requested where
    tick: "recover_expired_leases sha (tc_soon k) (tc_recovered k) (tc_recover_now k) db = Inr (db1, n)"
      "claim_next sha (tc_promoted k) (tc_claim_now k) (tc_expires k) (tc_claimed k) worker db1 = Inr (db2, Some task)"
      "run task (role_for_state (tk_state task)) db2 = (db3, Inr result)" "truthy (dget ''success'' result)"
      "requested = requested_state task (role_for_state (tk_state task)) result" "registered_enough policy db3 task requested result"
    and t: "transition sha (tc_now k) (tc_event_now k) (tk_id task) requested (advance_args worker task requested result) db3 = Inr db'"
    by blast
  from t obtain st row where st: "state_of requested = Some st"
    and row: "tbl_get tk_id (tk_id task) (td_tasks db3) = Some row" "tk_version row = tk_version task"
      "st \<in> set (allowed_next (tk_state row))"
    and no: "\<not> (authoritative row \<and> requested = ''DONE'')"
    by (rule transition_cases) (auto simp: advance_args_def)
  have "st = DONE \<Longrightarrow> requested = ''DONE''" using state_of_name [OF st] by simp
  then show ?thesis using tick t st row no by blast
qed

definition demo_gate_policy :: pydict where
  "demo_gate_policy = [(''gates'', PDict [(''PLANNING'', PDict [(''minimum_trust'', PStr ''E2''),
     (''required_evidence'', PList [PStr ''TESTS''])])])]"

definition demo_gated_store :: task_db where
  "demo_gated_store = demo_store\<lparr>td_evidence := [\<lparr>er_id = ''e1'', er_task = ''a'', er_head = ''h1'', er_type = ''TESTS'',
     er_trust = ''E2'', er_status = ''PASSED'', er_producer = ''ci'', er_payload = [], er_hash = ''x'', er_created = ''t0''\<rparr>]\<rparr>"

definition demo_success :: runner where
  "demo_success task role db = (db, Inr [(''success'', PBool True), (''head_sha'', PStr ''h1'')])"

theorem advance_needs_evidence_witness:
  "\<exists>db' r task db3 result requested. tick len_sha demo_clock (Some (registered_gate demo_gate_policy)) demo_success ''w'' demo_gated_store =
     (db', Inr r) \<and> ti_action r = ''ADVANCED'' \<and> registered_enough demo_gate_policy db3 task requested result \<and>
     transition len_sha (tc_now demo_clock) (tc_event_now demo_clock) (tk_id task) requested (advance_args ''w'' task requested result) db3 = Inr db'"
proof -
  let ?t = "tick len_sha demo_clock (Some (registered_gate demo_gate_policy)) demo_success ''w'' demo_gated_store"
  have "case snd ?t of Inl _ \<Rightarrow> False | Inr r \<Rightarrow> ti_action r = ''ADVANCED''" by code_simp
  then obtain r where r: "?t = (fst ?t, Inr r)" "ti_action r = ''ADVANCED''"
    by (cases ?t) (auto split: sum.splits)
  from advance_needs_evidence [OF r] r show ?thesis by metis
qed

section \<open>An unknown next state\<close>

text \<open>
  When a successful run names a next state that the table does not allow, an ungated tick
  raises ValueError and leaves the claimed task leased to the worker until the lease expires: the
  failure is not contained by the scheduler.
\<close>

theorem bad_next_state_raises:
  assumes "task_reach sha authority db"
    and "recover_expired_leases sha (tc_soon k) (tc_recovered k) (tc_recover_now k) db = Inr (db1, n)"
    and "claim_next sha (tc_promoted k) (tc_claim_now k) (tc_expires k) (tc_claimed k) worker db1 = Inr (db2, Some task)"
    and "run task (role_for_state (tk_state task)) db2 = (db2, Inr result)" and "truthy (dget ''success'' result)"
    and "\<And>st. state_of (requested_state task (role_for_state (tk_state task)) result) = Some st \<Longrightarrow>
      st \<notin> set (allowed_next (tk_state task))"
  shows "\<exists>e. tick sha k None run worker db = (db2, Inl (ValueError e)) \<and>
    tbl_get tk_id (tk_id task) (td_tasks db2) = Some task \<and> tk_owner task = Some worker \<and> tk_lease task = Some (tc_expires k)"
proof -
  let ?req = "requested_state task (role_for_state (tk_state task)) result"
  have r1: "task_reach sha authority db1" using assms(1) ts_recover [OF assms(2)] by (rule tr_step)
  from claim_next_result [OF r1 assms(3)]
  have task: "tbl_get tk_id (tk_id task) (td_tasks db2) = Some task" "tk_owner task = Some worker"
    "tk_lease task = Some (tc_expires k)" by auto
  have "?req \<noteq> ''DONE'' \<or> \<not> authoritative task" by (auto simp: requested_state_def Let_def)
  then have "\<exists>e. transition sha (tc_now k) (tc_event_now k) (tk_id task) ?req (advance_args worker task ?req result) db2 =
      Inl (ValueError e)"
    using task(1) assms(6) by (auto simp: transition_def advance_args_def split: option.splits)
  then show ?thesis
    using assms(2-5) task by (auto simp: tick_def settle_def run_result_def Let_def)
qed

definition demo_skip :: runner where
  "demo_skip task role db = (db, Inr [(''success'', PBool True), (''next_state'', PStr ''MERGED'')])"

theorem bad_next_state_raises_witness:
  "\<exists>e. tick len_sha demo_clock None demo_skip ''w'' demo_store = (demo_leased, Inl (ValueError e)) \<and>
    tbl_get tk_id (tk_id demo_leased_task) (td_tasks demo_leased) = Some demo_leased_task \<and>
    tk_owner demo_leased_task = Some ''w'' \<and> tk_lease demo_leased_task = Some (tc_expires demo_clock)"
proof (rule bad_next_state_raises [OF demo_store_reach])
  show "recover_expired_leases len_sha (tc_soon demo_clock) (tc_recovered demo_clock) (tc_recover_now demo_clock) demo_store =
      Inr (demo_store, 0)" by code_simp
  show "claim_next len_sha (tc_promoted demo_clock) (tc_claim_now demo_clock) (tc_expires demo_clock) (tc_claimed demo_clock)
      ''w'' demo_store = Inr (demo_leased, Some demo_leased_task)"
    using demo_leased_claim by (simp add: demo_clock_def)
  show "demo_skip demo_leased_task (role_for_state (tk_state demo_leased_task)) demo_leased =
      (demo_leased, Inr [(''success'', PBool True), (''next_state'', PStr ''MERGED'')])" by (simp add: demo_skip_def)
  show "truthy (dget ''success'' [(''success'', PBool True), (''next_state'', PStr ''MERGED'')])" by simp
  have "tk_state demo_leased_task = READY" by code_simp
  moreover have "state_of ''MERGED'' = Some MERGED" by code_simp
  moreover have "requested_state demo_leased_task (role_for_state (tk_state demo_leased_task))
      [(''success'', PBool True), (''next_state'', PStr ''MERGED'')] = ''MERGED''"
    by (simp add: requested_state_def py_or_def)
  ultimately show "st \<notin> set (allowed_next (tk_state demo_leased_task))"
    if "state_of (requested_state demo_leased_task (role_for_state (tk_state demo_leased_task))
      [(''success'', PBool True), (''next_state'', PStr ''MERGED'')]) = Some st" for st using that by auto
qed

section \<open>The default route\<close>

definition next_default :: "task_state \<Rightarrow> task_state" where
  "next_default st = default_success_state st (role_for_state st)"

text \<open>The states a task passes through when every run succeeds without naming a state.\<close>

primrec default_path :: "nat \<Rightarrow> task_state \<Rightarrow> task_state list" where
  "default_path 0 st = [st]"
| "default_path (Suc n) st = (if st \<in> set runnable_states then st # default_path n (next_default st) else [st])"

text \<open>
  From every runnable state the default successors form a path of allowed edges that ends
  after at most twelve advances in DONE or in ROLLED_BACK_RETRYABLE.
\<close>

theorem default_route:
  "list_all (\<lambda>st. last (default_path 12 st) \<in> {DONE, ROLLED_BACK_RETRYABLE} \<and>
     list_all (\<lambda>(s, t). t \<in> set (allowed_next s)) (zip (default_path 12 st) (tl (default_path 12 st)))) runnable_states"
  by (simp add: eval_nat_numeral runnable_states_def next_default_def role_for_state_def)

end
