(* ===== verification/Delivery.thy ===== *)
theory Delivery
  imports Py_Value
begin

text \<open>
  \<open>progressive_delivery.py\<close>: promotion of an artifact in ascending percentages, with a metrics
  check after each step and a rollback otherwise. The deployment adapter is a parameter: each of
  its calls changes the world and returns a value or raises. The measured numbers are those of any
  linear order (floating point without NaN is one), and \<open>float(...)\<close> of a reported value may raise.
\<close>

section \<open>Metrics\<close>

record 'n metrics_report =
  mr_complete :: bool
  mr_conclusive :: bool
  mr_error_rate :: "'n res"
  mr_latency :: "'n res"
  mr_success :: "'n res"

record 'n metric_policy =
  mp_max_error :: 'n
  mp_max_latency :: 'n
  mp_min_success :: 'n
  mp_inconclusive :: int

datatype verdict = HEALTHY | UNHEALTHY | INCONCLUSIVE

definition evaluate_metrics :: "'n::linorder metric_policy \<Rightarrow> 'n metrics_report \<Rightarrow> verdict res" where
  "evaluate_metrics p m =
     (if \<not> mr_complete m then Inr INCONCLUSIVE
      else if \<not> mr_conclusive m then Inr INCONCLUSIVE
      else bind_res (mr_error_rate m) (\<lambda>e.
        if \<not> e \<le> mp_max_error p then Inr UNHEALTHY
        else bind_res (mr_latency m) (\<lambda>l.
          if \<not> l \<le> mp_max_latency p then Inr UNHEALTHY
          else bind_res (mr_success m) (\<lambda>s.
            Inr (if mp_min_success p \<le> s then HEALTHY else UNHEALTHY)))))"

definition within_limits :: "'n::linorder metric_policy \<Rightarrow> 'n metrics_report \<Rightarrow> bool" where
  "within_limits p m \<longleftrightarrow> mr_complete m \<and> mr_conclusive m \<and>
     (\<exists>e l s. mr_error_rate m = Inr e \<and> e \<le> mp_max_error p \<and> mr_latency m = Inr l \<and> l \<le> mp_max_latency p \<and>
       mr_success m = Inr s \<and> mp_min_success p \<le> s)"

lemma healthy_iff: "evaluate_metrics p m = Inr HEALTHY \<longleftrightarrow> within_limits p m"
  by (auto simp: evaluate_metrics_def within_limits_def bind_res_def split: sum.splits)

section \<open>The controller\<close>

definition check_steps :: "int list \<Rightarrow> int list res" where
  "check_steps steps =
     (if steps = [] \<or> last steps \<noteq> 100 \<or> (\<exists>s \<in> set steps. s \<le> 0 \<or> s > 100)
      then Inl (ValueError ''Promotion steps must be positive percentages ending at 100'')
      else if sorted_set steps \<noteq> steps then Inl (ValueError ''Promotion steps must be unique and ascending'')
      else Inr steps)"

text \<open>
  The calls of an adapter: \<open>deploy\<close> of an artifact to an environment at a percentage, \<open>metrics\<close> of an
  artifact in an environment and \<open>rollback\<close> of an environment to a stable artifact. \<open>deploy\<close> and
  \<open>rollback\<close> answer a dict.
\<close>

record ('w, 'n) adapter =
  ad_deploy :: "string \<Rightarrow> string \<Rightarrow> int \<Rightarrow> 'w \<Rightarrow> 'w \<times> pydict res"
  ad_metrics :: "string \<Rightarrow> string \<Rightarrow> 'w \<Rightarrow> 'w \<times> 'n metrics_report res"
  ad_rollback :: "string \<Rightarrow> string \<Rightarrow> 'w \<Rightarrow> 'w \<times> pydict res"

record 'n history_entry =
  he_step :: int
  he_deploy :: pydict
  he_metrics :: "('n metrics_report \<times> verdict) option"
  he_extended :: "('n metrics_report \<times> verdict) option"

record 'n rollout =
  ro_decision :: string
  ro_reason :: "string option"
  ro_artifact :: "string option"
  ro_rollback :: "pydict option"
  ro_history :: "'n history_entry list"

text \<open>The arguments of \<open>run\<close>.\<close>

record delivery =
  dl_artifact :: string
  dl_stable :: string
  dl_environment :: string

definition rolled_back :: "('w, 'n) adapter \<Rightarrow> delivery \<Rightarrow> string \<Rightarrow> 'n history_entry list \<Rightarrow> 'w \<Rightarrow> 'w \<times> 'n rollout res" where
  "rolled_back a dl reason history w =
     (case ad_rollback a (dl_environment dl) (dl_stable dl) w of
        (w', Inl e) \<Rightarrow> (w', Inl e)
      | (w', Inr answer) \<Rightarrow> (w', Inr \<lparr>ro_decision = ''ROLLED_BACK'', ro_reason = Some reason, ro_artifact = None,
          ro_rollback = Some answer, ro_history = history\<rparr>))"

text \<open>\<open>self.adapter.metrics(...)\<close> and the verdict on it.\<close>

definition observe :: "('w, 'n::linorder) adapter \<Rightarrow> 'n metric_policy \<Rightarrow> delivery \<Rightarrow> 'w \<Rightarrow>
    'w \<times> ('n metrics_report \<times> verdict) res" where
  "observe a p dl w = (case ad_metrics a (dl_environment dl) (dl_artifact dl) w of
     (w', r) \<Rightarrow> (w', bind_res r (\<lambda>m. bind_res (evaluate_metrics p m) (\<lambda>v. Inr (m, v)))))"

fun run_steps :: "('w, 'n::linorder) adapter \<Rightarrow> 'n metric_policy \<Rightarrow> delivery \<Rightarrow> int \<Rightarrow> 'n history_entry list \<Rightarrow> int list \<Rightarrow> 'w \<Rightarrow>
    'w \<times> 'n rollout res" where
  "run_steps a p dl inconclusive history [] w =
     (w, Inr \<lparr>ro_decision = ''PROMOTED'', ro_reason = None, ro_artifact = Some (dl_artifact dl), ro_rollback = None,
       ro_history = history\<rparr>)"
| "run_steps a p dl inconclusive history (percentage # steps) w =
     (case ad_deploy a (dl_artifact dl) (dl_environment dl) percentage w of
        (w1, Inl e) \<Rightarrow> (w1, Inl e)
      | (w1, Inr deployed) \<Rightarrow>
          if \<not> truthy (dget ''success'' deployed) then
            rolled_back a dl ''deployment_step_failed''
              (history @ [\<lparr>he_step = percentage, he_deploy = deployed, he_metrics = None, he_extended = None\<rparr>]) w1
          else
          (case observe a p dl w1 of
             (w2, Inl e) \<Rightarrow> (w2, Inl e)
           | (w2, Inr (m, verdict)) \<Rightarrow>
               let entry = \<lparr>he_step = percentage, he_deploy = deployed, he_metrics = Some (m, verdict), he_extended = None\<rparr> in
               if verdict = HEALTHY then run_steps a p dl 0 (history @ [entry]) steps w2
               else if verdict = INCONCLUSIVE \<and> inconclusive < mp_inconclusive p then
                 (case observe a p dl w2 of
                    (w3, Inl e) \<Rightarrow> (w3, Inl e)
                  | (w3, Inr (m', retry)) \<Rightarrow>
                      let entry' = entry\<lparr>he_extended := Some (m', retry)\<rparr> in
                      if retry = HEALTHY then run_steps a p dl (inconclusive + 1) (history @ [entry']) steps w3
                      else rolled_back a dl ''unhealthy_or_inconclusive_metrics'' (history @ [entry']) w3)
               else rolled_back a dl ''unhealthy_or_inconclusive_metrics'' (history @ [entry]) w2))"

definition run_delivery :: "('w, 'n::linorder) adapter \<Rightarrow> 'n metric_policy \<Rightarrow> int list \<Rightarrow> delivery \<Rightarrow> 'w \<Rightarrow>
    'w \<times> 'n rollout res" where
  "run_delivery a p steps dl w =
     (case check_steps steps of Inl e \<Rightarrow> (w, Inl e) | Inr steps \<Rightarrow> run_steps a p dl 0 [] steps w)"

section \<open>What a rollout guarantees\<close>

text \<open>An entry of the history says what the adapter answered for this artifact and environment.\<close>

definition entry_answered :: "('w, 'n::linorder) adapter \<Rightarrow> 'n metric_policy \<Rightarrow> delivery \<Rightarrow> 'n history_entry \<Rightarrow> bool" where
  "entry_answered a p dl e \<longleftrightarrow>
     (\<exists>w w'. ad_deploy a (dl_artifact dl) (dl_environment dl) (he_step e) w = (w', Inr (he_deploy e))) \<and>
     (\<forall>mv \<in> set_option (he_metrics e) \<union> set_option (he_extended e). \<exists>w w'.
        ad_metrics a (dl_environment dl) (dl_artifact dl) w = (w', Inr (fst mv)) \<and> evaluate_metrics p (fst mv) = Inr (snd mv))"

text \<open>A step passed: it was deployed, and the metrics of the observation that decided were within the limits.\<close>

definition stage_passed :: "'n::linorder metric_policy \<Rightarrow> 'n history_entry \<Rightarrow> bool" where
  "stage_passed p e \<longleftrightarrow> truthy (dget ''success'' (he_deploy e)) \<and>
     ((\<exists>m. he_metrics e = Some (m, HEALTHY) \<and> within_limits p m) \<or>
      (\<exists>m m'. he_metrics e = Some (m, INCONCLUSIVE) \<and> he_extended e = Some (m', HEALTHY) \<and> within_limits p m'))"

definition rollout_shape :: "('w, 'n::linorder) adapter \<Rightarrow> 'n metric_policy \<Rightarrow> delivery \<Rightarrow> 'n history_entry list \<Rightarrow> int list \<Rightarrow>
    'w \<Rightarrow> 'n rollout \<Rightarrow> bool" where
  "rollout_shape a p dl history steps w' r \<longleftrightarrow> (\<exists>entries. ro_history r = history @ entries \<and>
    (\<forall>e \<in> set entries. entry_answered a p dl e) \<and>
    (if ro_decision r = ''PROMOTED'' then map he_step entries = steps \<and> (\<forall>e \<in> set entries. stage_passed p e) \<and>
       ro_artifact r = Some (dl_artifact dl) \<and> ro_rollback r = None
     else ro_decision r = ''ROLLED_BACK'' \<and> entries \<noteq> [] \<and> prefix (map he_step entries) steps \<and>
       (\<forall>e \<in> set (butlast entries). stage_passed p e) \<and> \<not> stage_passed p (last entries) \<and>
       (\<exists>w0 answer. ad_rollback a (dl_environment dl) (dl_stable dl) w0 = (w', Inr answer) \<and> ro_rollback r = Some answer)))"

lemma observe_Inr:
  assumes "observe a p dl w = (w', Inr mv)"
  shows "ad_metrics a (dl_environment dl) (dl_artifact dl) w = (w', Inr (fst mv)) \<and> evaluate_metrics p (fst mv) = Inr (snd mv)"
  using assms by (auto simp: observe_def bind_res_Inr split: prod.splits)

lemma rolled_back_result:
  assumes "rolled_back a dl reason (history @ [e]) w = (w', Inr r)" and "\<not> stage_passed p e" and "he_step e = s"
    and "entry_answered a p dl e"
  shows "rollout_shape a p dl history (s # steps) w' r"
  using assms unfolding rollout_shape_def
  by (intro exI [of _ "[e]"]) (auto simp: rolled_back_def split: prod.splits sum.splits)

lemma rollout_shape_Cons:
  assumes "rollout_shape a p dl (history @ [e]) steps w' r" and "stage_passed p e" and "he_step e = s"
    and "entry_answered a p dl e"
  shows "rollout_shape a p dl history (s # steps) w' r"
proof -
  from assms(1) obtain entries where "ro_history r = history @ (e # entries)" and "\<forall>e \<in> set entries. entry_answered a p dl e"
    and "if ro_decision r = ''PROMOTED'' then map he_step entries = steps \<and> (\<forall>e \<in> set entries. stage_passed p e) \<and>
       ro_artifact r = Some (dl_artifact dl) \<and> ro_rollback r = None
     else ro_decision r = ''ROLLED_BACK'' \<and> entries \<noteq> [] \<and> prefix (map he_step entries) steps \<and>
       (\<forall>e \<in> set (butlast entries). stage_passed p e) \<and> \<not> stage_passed p (last entries) \<and>
       (\<exists>w0 answer. ad_rollback a (dl_environment dl) (dl_stable dl) w0 = (w', Inr answer) \<and> ro_rollback r = Some answer)"
    by (auto simp: rollout_shape_def)
  then show ?thesis
    using assms(2-4) unfolding rollout_shape_def
    by (intro exI [of _ "e # entries"]) (auto split: if_splits)
qed

lemma run_steps_result:
  assumes "run_steps a p dl n history steps w = (w', Inr r)"
  shows "rollout_shape a p dl history steps w' r"
  using assms
proof (induction steps arbitrary: n history w)
  case Nil
  then show ?case by (auto simp: rollout_shape_def)
next
  case (Cons s steps)
  obtain w1 d where d: "ad_deploy a (dl_artifact dl) (dl_environment dl) s w = (w1, Inr d)"
    using Cons.prems by (auto split: prod.splits sum.splits)
  show ?case
  proof (cases "truthy (dget ''success'' d)")
    case False
    with d have "entry_answered a p dl \<lparr>he_step = s, he_deploy = d, he_metrics = None, he_extended = None\<rparr>"
      by (auto simp: entry_answered_def)
    with Cons.prems d False show ?thesis by (auto elim!: rolled_back_result simp: stage_passed_def)
  next
    case True
    obtain w2 m v where v: "observe a p dl w1 = (w2, Inr (m, v))"
      using Cons.prems d True by (auto split: prod.splits sum.splits)
    note o = observe_Inr [OF v, unfolded fst_conv snd_conv]
    let ?e = "\<lparr>he_step = s, he_deploy = d, he_metrics = Some (m, v), he_extended = None\<rparr>"
    have ans: "entry_answered a p dl ?e" using d o by (auto simp: entry_answered_def)
    consider "v = HEALTHY" | "v = INCONCLUSIVE" "n < mp_inconclusive p" | "v \<noteq> HEALTHY" "\<not> (v = INCONCLUSIVE \<and> n < mp_inconclusive p)"
      by blast
    then show ?thesis
    proof cases
      case 1
      then have "run_steps a p dl 0 (history @ [?e]) steps w2 = (w', Inr r)" using Cons.prems d True v by (simp add: Let_def)
      from Cons.IH [OF this] show ?thesis
        by (rule rollout_shape_Cons) (use 1 o ans True in \<open>auto simp: stage_passed_def healthy_iff\<close>)
    next
      case 2
      obtain w3 m' v' where v': "observe a p dl w2 = (w3, Inr (m', v'))"
        using Cons.prems d True v 2 by (auto simp: Let_def split: prod.splits sum.splits)
      note o' = observe_Inr [OF v', unfolded fst_conv snd_conv]
      let ?e' = "?e\<lparr>he_extended := Some (m', v')\<rparr>"
      have ans': "entry_answered a p dl ?e'" using d o o' by (auto simp: entry_answered_def)
      show ?thesis
      proof (cases "v' = HEALTHY")
        case True
        then have "run_steps a p dl (n + 1) (history @ [?e']) steps w3 = (w', Inr r)"
          using Cons.prems d \<open>truthy (dget ''success'' d)\<close> v 2 v' by (simp add: Let_def)
        from Cons.IH [OF this] show ?thesis
          by (rule rollout_shape_Cons) (use 2 True o' ans' \<open>truthy (dget ''success'' d)\<close> in \<open>auto simp: stage_passed_def healthy_iff\<close>)
      next
        case False
        then have "rolled_back a dl ''unhealthy_or_inconclusive_metrics'' (history @ [?e']) w3 = (w', Inr r)"
          using Cons.prems d True v 2 v' by (simp add: Let_def)
        then show ?thesis by (rule rolled_back_result) (use False 2 ans' in \<open>auto simp: stage_passed_def\<close>)
      qed
    next
      case 3
      have "rolled_back a dl ''unhealthy_or_inconclusive_metrics'' (history @ [?e]) w2 = (w', Inr r)"
        using Cons.prems d True v 3(1) by (simp add: Let_def if_not_P [OF 3(2)])
      then show ?thesis by (rule rolled_back_result) (use 3 ans in \<open>auto simp: stage_passed_def\<close>)
    qed
  qed
qed

lemma check_steps_Inr:
  assumes "check_steps steps = Inr steps'"
  shows "steps' = steps \<and> steps \<noteq> [] \<and> last steps = 100 \<and> sorted_wrt (<) steps \<and> (\<forall>s \<in> set steps. 0 < s \<and> s \<le> 100)"
proof -
  have eq: "sorted_set steps = steps" and "steps \<noteq> []" "last steps = 100" "steps' = steps"
    and "\<forall>s \<in> set steps. 0 < s \<and> s \<le> 100"
    using assms by (auto simp: check_steps_def not_le not_less split: if_splits)
  moreover have "sorted steps" "distinct steps" using eq by (metis sorted_sorted_set, metis distinct_sorted_set)
  ultimately show ?thesis by (simp add: strict_sorted_iff)
qed

text \<open>A controller whose adapter never raises ends with a decision, whatever the metrics say.\<close>

lemma run_steps_total:
  assumes "\<And>x e s w. ok (snd (ad_deploy a x e s w))" and "\<And>w. ok (snd (observe a p dl w))"
    and "\<And>e x w. ok (snd (ad_rollback a e x w))"
  shows "ok (snd (run_steps a p dl n history steps w))"
proof -
  have rb: "ok (snd (rolled_back a dl reason h v))" for reason h v
    using assms(3) [of "dl_environment dl" "dl_stable dl" v] by (auto simp: rolled_back_def split: prod.splits sum.splits)
  show ?thesis
  proof (induction steps arbitrary: n history w)
    case (Cons s steps)
    obtain w1 d where d: "ad_deploy a (dl_artifact dl) (dl_environment dl) s w = (w1, Inr d)"
      using assms(1) [of "dl_artifact dl" "dl_environment dl" s w] by (metis ok_iff prod.collapse)
    obtain w2 m v where v: "observe a p dl w1 = (w2, Inr (m, v))" using assms(2) [of w1] by (metis ok_iff prod.collapse)
    obtain w3 m' v' where v': "observe a p dl w2 = (w3, Inr (m', v'))" using assms(2) [of w2] by (metis ok_iff prod.collapse)
    show ?case using d v v' rb Cons by (simp add: Let_def)
  qed simp
qed

lemma run_steps_healthy:
  assumes "\<And>x e s w. \<exists>d. snd (ad_deploy a x e s w) = Inr d \<and> truthy (dget ''success'' d)"
    and "\<And>w. \<exists>m. snd (observe a p dl w) = Inr (m, HEALTHY)"
  shows "\<exists>r. snd (run_steps a p dl n history steps w) = Inr r \<and> ro_decision r = ''PROMOTED'' \<and> ro_artifact r = Some (dl_artifact dl)"
proof (induction steps arbitrary: n history w)
  case (Cons s steps)
  obtain w1 d where d: "ad_deploy a (dl_artifact dl) (dl_environment dl) s w = (w1, Inr d)" "truthy (dget ''success'' d)"
    using assms(1) [of "dl_artifact dl" "dl_environment dl" s w] by (metis prod.collapse)
  obtain w2 m where v: "observe a p dl w1 = (w2, Inr (m, HEALTHY))" using assms(2) [of w1] by (metis prod.collapse)
  show ?case using d v Cons by (simp add: Let_def)
qed simp

section \<open>The guarantees of a rollout\<close>

text \<open>
  C23. A rollout that returns went through strictly ascending percentages that end at 100, and its
  history holds what the adapter answered for this artifact and environment. It says PROMOTED only
  if every step was deployed and the metrics that decided it (after one inconclusive observation
  those of the repetition) were complete, conclusive and within the limits. Otherwise it says
  ROLLED_BACK, stopped at the first step that did not pass, and the last call it made was rollback
  of this environment to the stable artifact, whose answer is returned as it is: whether that
  rollback succeeded is not checked.
\<close>

theorem rollout_correct:
  assumes "run_delivery a p steps dl w = (w', Inr r)"
  shows "last steps = 100 \<and> sorted_wrt (<) steps \<and> (\<forall>e \<in> set (ro_history r). entry_answered a p dl e) \<and>
    (if ro_decision r = ''PROMOTED'' then map he_step (ro_history r) = steps \<and> (\<forall>e \<in> set (ro_history r). stage_passed p e) \<and>
       ro_artifact r = Some (dl_artifact dl) \<and> ro_rollback r = None
     else ro_decision r = ''ROLLED_BACK'' \<and> ro_history r \<noteq> [] \<and> prefix (map he_step (ro_history r)) steps \<and>
       (\<forall>e \<in> set (butlast (ro_history r)). stage_passed p e) \<and> \<not> stage_passed p (last (ro_history r)) \<and>
       (\<exists>w0 answer. ad_rollback a (dl_environment dl) (dl_stable dl) w0 = (w', Inr answer) \<and> ro_rollback r = Some answer))"
proof -
  from assms obtain "check_steps steps = Inr steps" and "run_steps a p dl 0 [] steps w = (w', Inr r)"
    using check_steps_Inr by (fastforce simp: run_delivery_def split: sum.splits)
  then show ?thesis
    using check_steps_Inr [of steps steps] run_steps_result [of a p dl 0 "[]" steps w w' r] by (auto simp: rollout_shape_def)
qed

text \<open>
  A run over a world that records the calls made: every observation is healthy until 50 percent,
  where the error rate (in thousandths) is too high; and the rollback that follows answers that it
  did not succeed.
\<close>

definition demo_adapter :: "(string list, int) adapter" where
  "demo_adapter = \<lparr>
     ad_deploy = (\<lambda>x e s w. (w @ [''deploy '' @ int_str s], Inr [(''success'', PBool True)])),
     ad_metrics = (\<lambda>e x w. (w @ [''metrics''],
       Inr \<lparr>mr_complete = True, mr_conclusive = True,
         mr_error_rate = Inr (if last w = ''deploy 50'' then 90 else 2), mr_latency = Inr 1000, mr_success = Inr 990\<rparr>)),
     ad_rollback = (\<lambda>e x w. (w @ [''rollback '' @ x], Inr [(''success'', PBool False)]))\<rparr>"

definition demo_metric_policy :: "int metric_policy" where
  "demo_metric_policy = \<lparr>mp_max_error = 10, mp_max_latency = 1200, mp_min_success = 980, mp_inconclusive = 1\<rparr>"

definition demo_delivery :: delivery where
  "demo_delivery = \<lparr>dl_artifact = ''new'', dl_stable = ''old'', dl_environment = ''production''\<rparr>"

lemma demo_rollout:
  "case run_delivery demo_adapter demo_metric_policy [25, 50, 100] demo_delivery [] of
     (w, Inr r) \<Rightarrow> w = [''deploy 25'', ''metrics'', ''deploy 50'', ''metrics'', ''rollback old''] \<and>
       ro_decision r = ''ROLLED_BACK'' \<and> map he_step (ro_history r) = [25, 50] \<and>
       ro_rollback r = Some [(''success'', PBool False)]
   | _ \<Rightarrow> False"
  by code_simp

theorem rollout_correct_witness:
  "\<exists>w r. run_delivery demo_adapter demo_metric_policy [25, 50, 100] demo_delivery [] = (w, Inr r) \<and>
     ro_decision r = ''ROLLED_BACK'' \<and> stage_passed demo_metric_policy (hd (ro_history r)) \<and>
     \<not> stage_passed demo_metric_policy (last (ro_history r)) \<and>
     (\<exists>w0. ad_rollback demo_adapter ''production'' ''old'' w0 = (w, Inr [(''success'', PBool False)]))"
proof -
  from demo_rollout obtain w r where r: "run_delivery demo_adapter demo_metric_policy [25, 50, 100] demo_delivery [] = (w, Inr r)"
    and d: "ro_decision r = ''ROLLED_BACK''" "map he_step (ro_history r) = [25, 50]" "ro_rollback r = Some [(''success'', PBool False)]"
    by (auto split: prod.splits sum.splits)
  from d(2) obtain x y where h: "ro_history r = [x, y]" by (auto simp: map_eq_Cons_conv)
  from rollout_correct [OF r] d(1,3) r show ?thesis by (auto simp: h demo_delivery_def)
qed

text \<open>
  With an adapter that never raises, a rollout over valid percentages ends with a decision
  whatever the metrics say, and it promotes if every deployment succeeds and every observation is
  healthy.
\<close>

theorem rollout_always_decides:
  assumes "check_steps steps = Inr steps"
    and "\<And>x e s w. ok (snd (ad_deploy a x e s w))" and "\<And>w. ok (snd (observe a p dl w))"
    and "\<And>e x w. ok (snd (ad_rollback a e x w))"
  shows "ok (snd (run_delivery a p steps dl w)) \<and>
    ((\<forall>x e s w. \<exists>d. snd (ad_deploy a x e s w) = Inr d \<and> truthy (dget ''success'' d)) \<and>
      (\<forall>w. \<exists>m. snd (observe a p dl w) = Inr (m, HEALTHY)) \<longrightarrow>
      (\<exists>r. snd (run_delivery a p steps dl w) = Inr r \<and> ro_decision r = ''PROMOTED'' \<and> ro_artifact r = Some (dl_artifact dl)))"
  using assms run_steps_total [of a p dl] run_steps_healthy [of a p dl] by (simp add: run_delivery_def)

theorem rollout_always_decides_witness:
  "ok (snd (run_delivery demo_adapter demo_metric_policy [1, 10, 25, 50, 100] demo_delivery [])) \<and>
   check_steps [1, 10, 25, 50, 100] = Inr [1, 10, 25, 50, 100]"
proof
  show steps: "check_steps [1, 10, 25, 50, 100] = Inr [1, 10, 25, 50, 100]" by code_simp
  show "ok (snd (run_delivery demo_adapter demo_metric_policy [1, 10, 25, 50, 100] demo_delivery []))"
    using rollout_always_decides [OF steps, of demo_adapter demo_metric_policy demo_delivery "[]"]
    by (simp add: demo_adapter_def observe_def evaluate_metrics_def)
qed

end
