(* ===== verification/Ledger.thy ===== *)
theory Ledger
  imports Hash_Chain
begin

text \<open>
  \<open>ledger.py\<close>: the append-only ledger of records, each carrying the hash of its content and of
  its predecessor, with idempotent appends, external checkpoints of the head and verification of
  the stored file. A stored payload is canonical JSON text and is decoded when a row is read.
  \<open>AUTOINCREMENT\<close> is a counter of the state; a transaction that raises leaves the state alone.
  Row numbers are natural numbers.
\<close>

section \<open>State\<close>

definition ledger_genesis :: string where
  "ledger_genesis = ''sha256:'' @ replicate 64 (CHR ''0'')"

record ledger_row =
  lr_seq :: nat
  lr_created :: string
  lr_task :: "string option"
  lr_key :: string
  lr_prev :: string
  lr_payload :: string
  lr_hash :: string

record checkpoint_row =
  cp_id :: string
  cp_created :: string
  cp_seq :: nat
  cp_head :: string
  cp_json :: pyval

record ledger =
  lg_rows :: "ledger_row list"
  lg_autoinc :: nat
  lg_checkpoints :: "checkpoint_row list"

definition empty_ledger :: ledger where
  "empty_ledger = \<lparr>lg_rows = [], lg_autoinc = 0, lg_checkpoints = []\<rparr>"

section \<open>Records\<close>

record ledger_record =
  le_seq :: nat
  le_created :: string
  le_task :: "string option"
  le_key :: string
  le_prev :: string
  le_payload :: pyval
  le_hash :: string

definition row_to_record :: "ledger_row \<Rightarrow> ledger_record res" where
  "row_to_record row =
     (case json_decode (lr_payload row) of
        None \<Rightarrow> Inl (ValueError ''JSONDecodeError'')
      | Some p \<Rightarrow> Inr \<lparr>le_seq = lr_seq row, le_created = lr_created row, le_task = lr_task row, le_key = lr_key row,
          le_prev = lr_prev row, le_payload = p, le_hash = lr_hash row\<rparr>)"

definition unhashed :: "ledger_record \<Rightarrow> pyval" where
  "unhashed r = PDict
     [(''sequence'', PInt (int (le_seq r))), (''created_at'', PStr (le_created r)), (''task_id'', opt_str (le_task r)),
      (''idempotency_key'', PStr (le_key r)), (''previous_hash'', PStr (le_prev r)), (''payload'', le_payload r)]"

definition ledger_hash :: "(string \<Rightarrow> string) \<Rightarrow> ledger_record \<Rightarrow> string" where
  "ledger_hash sha r = sha256_json sha (unhashed r)"

section \<open>Append\<close>

definition max_row :: "ledger_row list \<Rightarrow> ledger_row option" where
  "max_row rows = (case sort_key lr_seq rows of [] \<Rightarrow> None | s # ss \<Rightarrow> Some (last (s # ss)))"

definition row_of :: "ledger_record \<Rightarrow> ledger_row" where
  "row_of r = \<lparr>lr_seq = le_seq r, lr_created = le_created r, lr_task = le_task r, lr_key = le_key r, lr_prev = le_prev r,
     lr_payload = canonical_json (le_payload r), lr_hash = le_hash r\<rparr>"

definition next_record :: "string \<Rightarrow> pyval \<Rightarrow> string \<Rightarrow> string option \<Rightarrow> ledger \<Rightarrow> ledger_record" where
  "next_record now payload key task lg =
     \<lparr>le_seq = Suc (fold max (map lr_seq (lg_rows lg)) (lg_autoinc lg)), le_created = now, le_task = task, le_key = key,
       le_prev = (case max_row (lg_rows lg) of None \<Rightarrow> ledger_genesis | Some p \<Rightarrow> lr_hash p),
       le_payload = payload, le_hash = ''PENDING''\<rparr>"

definition append_key :: "(string \<Rightarrow> string) \<Rightarrow> pyval \<Rightarrow> string option \<Rightarrow> string" where
  "append_key sha payload key = (case key of Some (c # cs) \<Rightarrow> c # cs | _ \<Rightarrow> sha256_json sha payload)"

definition append_record ::
  "(string \<Rightarrow> string) \<Rightarrow> string \<Rightarrow> pyval \<Rightarrow> string option \<Rightarrow> string option \<Rightarrow> ledger \<Rightarrow> (ledger \<times> ledger_record \<times> bool) res" where
  "append_record sha now payload key task lg =
     (if \<not> is_dict payload then Inl (ValueError ''Ledger payload must be a mapping'')
      else case tbl_get lr_key (append_key sha payload key) (lg_rows lg) of
          Some existing \<Rightarrow> bind_res (row_to_record existing) (\<lambda>r. Inr (lg, r, True))
        | None \<Rightarrow>
            let r = next_record now payload (append_key sha payload key) task lg; h = ledger_hash sha r in
            if le_hash r \<in> lr_hash ` set (lg_rows lg) \<or> h \<in> lr_hash ` set (lg_rows lg)
            then Inl (IntegrityError ''UNIQUE constraint failed: ledger_entries.record_hash'')
            else Inr (lg\<lparr>lg_rows := lg_rows lg @ [row_of (r\<lparr>le_hash := h\<rparr>)], lg_autoinc := le_seq r\<rparr>, r\<lparr>le_hash := h\<rparr>, False))"

section \<open>Checkpoints\<close>

definition checkpoint_dict :: "(string \<Rightarrow> string) \<Rightarrow> string \<Rightarrow> string \<Rightarrow> nat \<Rightarrow> string \<Rightarrow> pydict" where
  "checkpoint_dict sha now location seq head =
     (let d = [(''schema_version'', PInt 1), (''created_at'', PStr now), (''ledger'', PStr location),
        (''sequence'', PInt (int seq)), (''head_hash'', PStr head)] in
      d @ [(''checkpoint_id'', PStr (sha256_json sha (PDict d)))])"

text \<open>
  The second component is the value written to the checkpoint file; \<open>checkpoint_json\<close> is kept as the
  value serialised.
\<close>

definition create_checkpoint :: "(string \<Rightarrow> string) \<Rightarrow> string \<Rightarrow> string \<Rightarrow> ledger \<Rightarrow> ledger \<times> pyval" where
  "create_checkpoint sha now location lg =
     (let (seq, head) = (case max_row (lg_rows lg) of None \<Rightarrow> (0, ledger_genesis) | Some p \<Rightarrow> (lr_seq p, lr_hash p));
          d = checkpoint_dict sha now location seq head; cid = text_of (dget ''checkpoint_id'' d) in
      (lg\<lparr>lg_checkpoints := tbl_del (\<lambda>c. cp_id c = cid) (lg_checkpoints lg) @
          [\<lparr>cp_id = cid, cp_created = now, cp_seq = seq, cp_head = head, cp_json = sort_keys (PDict d)\<rparr>]\<rparr>, PDict d))"

section \<open>Verification\<close>

record ledger_report =
  vr_valid :: bool
  vr_records :: nat
  vr_errors :: "string list"
  vr_head :: string
  vr_matches :: "bool option"

fun map_res :: "('a \<Rightarrow> 'b res) \<Rightarrow> 'a list \<Rightarrow> 'b list res" where
  "map_res f [] = Inr []"
| "map_res f (x # xs) = bind_res (f x) (\<lambda>y. bind_res (map_res f xs) (\<lambda>ys. Inr (y # ys)))"

fun ledger_errors :: "(string \<Rightarrow> string) \<Rightarrow> string \<Rightarrow> nat \<Rightarrow> ledger_record list \<Rightarrow> string list" where
  "ledger_errors sha prev expected [] = []"
| "ledger_errors sha prev expected (r # rs) =
     err_if (le_seq r \<noteq> expected) (''sequence gap: expected '' @ nat_str expected @ '', got '' @ nat_str (le_seq r)) @
     err_if (le_prev r \<noteq> prev) (''sequence '' @ nat_str (le_seq r) @ '': previous_hash mismatch'') @
     err_if (le_hash r \<noteq> ledger_hash sha r) (''sequence '' @ nat_str (le_seq r) @ '': record_hash mismatch'') @
     ledger_errors sha (le_hash r) (Suc (le_seq r)) rs"

definition checkpoint_mismatch :: string where
  "checkpoint_mismatch = ''Ledger head does not match the external checkpoint; truncation or divergence detected''"

text \<open>
  The checkpoint argument: no path given, or the outcome of reading and parsing the file, which
  is the text of an \<open>OSError\<close> or \<open>JSONDecodeError\<close>, or the value read.
\<close>

definition checkpoint_check :: "nat \<Rightarrow> string \<Rightarrow> (string + pyval) option \<Rightarrow> (string list \<times> bool option) res" where
  "checkpoint_check count head cp =
     (case cp of
        None \<Rightarrow> Inr ([], None)
      | Some (Inl e) \<Rightarrow> Inr ([''Invalid checkpoint: '' @ e], Some False)
      | Some (Inr (PDict d)) \<Rightarrow>
          let m = py_eq (dget ''sequence'' d) (PInt (int count)) \<and> py_eq (dget ''head_hash'' d) (PStr head) in
          Inr (err_if (\<not> m) checkpoint_mismatch, Some m)
      | Some (Inr _) \<Rightarrow> Inl (AttributeError ''get''))"

definition verify_ledger :: "(string \<Rightarrow> string) \<Rightarrow> (string + pyval) option \<Rightarrow> ledger option \<Rightarrow> ledger_report res" where
  "verify_ledger sha cp lg =
     (case lg of
        None \<Rightarrow> Inr \<lparr>vr_valid = (cp = None), vr_records = 0,
          vr_errors = err_if (cp \<noteq> None) ''Ledger missing while checkpoint was supplied'', vr_head = [], vr_matches = None\<rparr>
      | Some lg \<Rightarrow>
          bind_res (map_res row_to_record (sort_key lr_seq (lg_rows lg))) (\<lambda>rs.
          let head = chain_head le_hash ledger_genesis rs; errs = ledger_errors sha ledger_genesis 1 rs in
          bind_res (checkpoint_check (length rs) head cp) (\<lambda>(cerrs, m).
          Inr \<lparr>vr_valid = (errs @ cerrs = []), vr_records = length rs, vr_errors = errs @ cerrs, vr_head = head, vr_matches = m\<rparr>)))"

section \<open>The chain of records\<close>

definition records_of :: "ledger \<Rightarrow> ledger_record list res" where
  "records_of lg = map_res row_to_record (sort_key lr_seq (lg_rows lg))"

definition ledger_chain :: "(string \<Rightarrow> string) \<Rightarrow> ledger_record list \<Rightarrow> bool" where
  "ledger_chain sha rs \<longleftrightarrow> chain_from le_seq le_prev le_hash (ledger_hash sha) ledger_genesis 1 rs"

lemma ledger_errors_Nil:
  "ledger_errors sha p n rs = [] \<longleftrightarrow> chain_from le_seq le_prev le_hash (ledger_hash sha) p n rs"
  by (induction rs arbitrary: p n) auto

lemma ledger_hash_inject:
  assumes "inj sha" and "ledger_hash sha x = ledger_hash sha y"
  shows "le_seq x = le_seq y \<and> le_created x = le_created y \<and> le_task x = le_task y \<and> le_key x = le_key y \<and>
    le_prev x = le_prev y \<and> sort_keys (le_payload x) = sort_keys (le_payload y)"
proof -
  have eq: "sort_keys (unhashed x) = sort_keys (unhashed y)"
    using assms by (simp add: ledger_hash_def sha256_json_inject)
  have field: "sort_keys (dget k (as_dict (unhashed x))) = sort_keys (dget k (as_dict (unhashed y)))" for k
    using sort_keys_dget [of "as_dict (unhashed x)" "as_dict (unhashed y)" k] eq by (simp add: unhashed_def)
  have "opt_str (le_task x) = opt_str (le_task y)"
    using field [of "''task_id''"] by (cases "le_task x"; cases "le_task y") (simp_all add: unhashed_def)
  then have "le_task x = le_task y" by (cases "le_task x"; cases "le_task y") simp_all
  then show ?thesis
    using field [of "''sequence''"] field [of "''created_at''"] field [of "''idempotency_key''"]
      field [of "''previous_hash''"] field [of "''payload''"]
    by (simp add: unhashed_def)
qed

interpretation ledger_log: event_chain le_seq le_prev le_hash "ledger_hash sha" "\<lambda>h r. r\<lparr>le_hash := h\<rparr>" "inj sha"
  for sha
  by unfold_locales (simp_all add: ledger_hash_def unhashed_def, blast dest: ledger_hash_inject [unfolded ledger_hash_def unhashed_def])

lemma map_res_append:
  "map_res f (xs @ ys) = bind_res (map_res f xs) (\<lambda>us. bind_res (map_res f ys) (\<lambda>vs. Inr (us @ vs)))"
  by (induction xs) (auto simp: bind_res_def split: sum.splits)

lemma map_res_length: "map_res f xs = Inr ys \<Longrightarrow> length ys = length xs"
  by (induction xs arbitrary: ys) (auto simp: bind_res_Inr)

lemma map_res_take: "map_res f xs = Inr ys \<Longrightarrow> map_res f (take k xs) = Inr (take k ys)"
proof (induction xs arbitrary: ys k)
  case (Cons x xs)
  then show ?case by (cases k) (auto simp: bind_res_Inr)
qed simp

lemma row_to_record_fields:
  assumes "map_res row_to_record rows = Inr rs"
  shows "map le_seq rs = map lr_seq rows \<and> map le_hash rs = map lr_hash rows \<and> map le_key rs = map lr_key rows"
  using assms
  by (induction rows arbitrary: rs) (auto simp: bind_res_Inr row_to_record_def split: option.splits)

definition ledger_inv :: "(string \<Rightarrow> string) \<Rightarrow> ledger \<Rightarrow> bool" where
  "ledger_inv sha lg \<longleftrightarrow> map lr_seq (lg_rows lg) = [1 ..< Suc (length (lg_rows lg))] \<and>
     lg_autoinc lg = length (lg_rows lg) \<and> unique_key lr_key (lg_rows lg) \<and>
     (\<exists>rs. map_res row_to_record (lg_rows lg) = Inr rs \<and> ledger_chain sha rs)"

lemma ledger_sorted:
  assumes "map lr_seq rows = [1 ..< Suc (length rows)]"
  shows "sort_key lr_seq rows = rows"
proof -
  have "sorted (map lr_seq rows)" unfolding assms by (rule sorted_upt)
  then show ?thesis by (rule sort_key_id_if_sorted)
qed

lemma max_row_inv:
  assumes "ledger_inv sha lg" and "map_res row_to_record (lg_rows lg) = Inr rs"
  shows "(case max_row (lg_rows lg) of None \<Rightarrow> (0, ledger_genesis) | Some p \<Rightarrow> (lr_seq p, lr_hash p)) =
    (length rs, chain_head le_hash ledger_genesis rs)"
proof (cases "lg_rows lg" rule: rev_cases)
  case Nil
  with assms(2) show ?thesis by (simp add: max_row_def)
next
  case (snoc rows r)
  have seqs: "map lr_seq (lg_rows lg) = [1 ..< Suc (length (lg_rows lg))]"
    using assms(1) by (simp add: ledger_inv_def)
  then have "lr_seq r = length (lg_rows lg)" by (simp add: snoc)
  moreover have "max_row (lg_rows lg) = Some r"
    using ledger_sorted [OF seqs] by (simp add: max_row_def snoc split: list.splits) (metis last_ConsR last_snoc list.distinct(1) snoc_eq_iff_butlast)
  moreover have "rs \<noteq> []" "le_hash (last rs) = lr_hash r"
    using row_to_record_fields [OF assms(2)] map_res_length [OF assms(2)] unfolding snoc
    by (auto, metis last_map last_snoc list.map_disc_iff map_append snoc_eq_iff_butlast list.simps(9) list.simps(8))
  ultimately show ?thesis
    using map_res_length [OF assms(2)] by (simp add: chain_head_last)
qed

lemma ledger_hash_payload [simp]:
  "ledger_hash sha (r\<lparr>le_payload := sort_keys p\<rparr>) = ledger_hash sha (r\<lparr>le_payload := p\<rparr>)"
  unfolding ledger_hash_def by (rule sha256_json_cong) (simp add: unhashed_def sort_keys_idem)

lemma ledger_hash_no_hash [simp]: "ledger_hash sha (r\<lparr>le_hash := h\<rparr>) = ledger_hash sha r"
  by (simp add: ledger_hash_def unhashed_def)

lemma row_of_simps [simp]:
  "lr_seq (row_of r) = le_seq r" "lr_key (row_of r) = le_key r" "lr_hash (row_of r) = le_hash r"
  "row_to_record (row_of r) = Inr (r\<lparr>le_payload := sort_keys (le_payload r)\<rparr>)"
  by (simp_all add: row_of_def row_to_record_def json_decode_canonical)

lemma fold_max_bound: "\<forall>x \<in> set xs. x \<le> (n :: nat) \<Longrightarrow> fold max xs n = n"
  by (induction xs) (auto simp: max_def)

lemma next_record_inv:
  assumes "ledger_inv sha lg" and "map_res row_to_record (lg_rows lg) = Inr rs"
  shows "le_seq (next_record now payload key task lg) = Suc (length rs) \<and>
    le_prev (next_record now payload key task lg) = chain_head le_hash ledger_genesis rs"
proof -
  have seqs: "map lr_seq (lg_rows lg) = [1 ..< Suc (length (lg_rows lg))]" and n: "lg_autoinc lg = length (lg_rows lg)"
    using assms(1) by (simp_all add: ledger_inv_def)
  have "fold max (map lr_seq (lg_rows lg)) (lg_autoinc lg) = length rs"
    using map_res_length [OF assms(2)] unfolding n seqs by (simp add: fold_max_bound)
  then show ?thesis
    using max_row_inv [OF assms] by (auto simp: next_record_def split: option.splits)
qed

lemma append_record_cases:
  assumes "append_record sha now payload key task lg = Inr (lg', r, replay)"
  shows "if replay then lg' = lg \<and> (\<exists>row. tbl_get lr_key (append_key sha payload key) (lg_rows lg) = Some row \<and> row_to_record row = Inr r)
    else tbl_get lr_key (append_key sha payload key) (lg_rows lg) = None \<and>
      r = (next_record now payload (append_key sha payload key) task lg)\<lparr>le_hash :=
        ledger_hash sha (next_record now payload (append_key sha payload key) task lg)\<rparr> \<and>
      lg' = lg\<lparr>lg_rows := lg_rows lg @ [row_of r], lg_autoinc := le_seq r\<rparr>"
  using assms by (auto simp: append_record_def Let_def bind_res_Inr split: if_splits option.splits)

lemma append_record_inv:
  assumes "ledger_inv sha lg" and "append_record sha now payload key task lg = Inr (lg', r, replay)"
  shows "ledger_inv sha lg'"
proof (cases replay)
  case True
  then show ?thesis using append_record_cases [OF assms(2)] assms(1) by simp
next
  case False
  let ?r = "next_record now payload (append_key sha payload key) task lg"
  have new: "tbl_get lr_key (append_key sha payload key) (lg_rows lg) = None" "r = ?r\<lparr>le_hash := ledger_hash sha ?r\<rparr>"
    and lg': "lg' = lg\<lparr>lg_rows := lg_rows lg @ [row_of r], lg_autoinc := le_seq r\<rparr>"
    using append_record_cases [OF assms(2)] False by simp_all
  from assms(1) obtain rs where rs: "map_res row_to_record (lg_rows lg) = Inr rs" "ledger_chain sha rs"
    by (auto simp: ledger_inv_def)
  note next' = next_record_inv [OF assms(1) rs(1), of now payload "append_key sha payload key" task]
  note len = map_res_length [OF rs(1)]
  let ?x = "r\<lparr>le_payload := sort_keys (le_payload r)\<rparr>"
  have "map_res row_to_record (lg_rows lg') = Inr (rs @ [?x])" using rs(1) by (simp add: lg' map_res_append)
  moreover have "ledger_hash sha ?x = ledger_hash sha ?r" by (simp add: new(2))
  then have "ledger_chain sha (rs @ [?x])"
    using rs(2) next' by (simp add: ledger_chain_def chain_from_snoc new(2))
  moreover have "unique_key lr_key (lg_rows lg')"
    using assms(1) new by (simp add: ledger_inv_def lg' tbl_get_None next_record_def)
  moreover have "map lr_seq (lg_rows lg') = [1 ..< Suc (length (lg_rows lg'))]"
    using assms(1) next' len by (simp add: ledger_inv_def lg' new(2))
  ultimately show ?thesis using next' len by (auto simp: ledger_inv_def lg' new(2))
qed

lemma create_checkpoint_inv: "ledger_inv sha lg \<Longrightarrow> ledger_inv sha (fst (create_checkpoint sha now location lg))"
  by (simp add: create_checkpoint_def ledger_inv_def Let_def del: upt_Suc split: option.splits)

inductive ledger_reach :: "(string \<Rightarrow> string) \<Rightarrow> ledger \<Rightarrow> bool" for sha where
  reach_empty: "ledger_reach sha empty_ledger"
| reach_append: "ledger_reach sha lg \<Longrightarrow> append_record sha now payload key task lg = Inr (lg', r, replay) \<Longrightarrow> ledger_reach sha lg'"
| reach_checkpoint: "ledger_reach sha lg \<Longrightarrow> ledger_reach sha (fst (create_checkpoint sha now location lg))"

lemma ledger_reach_inv: "ledger_reach sha lg \<Longrightarrow> ledger_inv sha lg"
  by (induction rule: ledger_reach.induct)
    (auto simp: append_record_inv create_checkpoint_inv, simp add: ledger_inv_def empty_ledger_def ledger_chain_def)

text \<open>Verification reads the chain, and decides it together with the checkpoint.\<close>

definition checkpoint_matches :: "ledger_record list \<Rightarrow> (string + pyval) option \<Rightarrow> bool" where
  "checkpoint_matches rs cp \<longleftrightarrow> (case cp of None \<Rightarrow> True | Some (Inl _) \<Rightarrow> False
     | Some (Inr v) \<Rightarrow> py_eq (dget ''sequence'' (as_dict v)) (PInt (int (length rs))) \<and>
         py_eq (dget ''head_hash'' (as_dict v)) (PStr (chain_head le_hash ledger_genesis rs)))"

lemma checkpoint_check_Nil:
  assumes "checkpoint_check (length rs) (chain_head le_hash ledger_genesis rs) cp = Inr (errs, m)"
  shows "errs = [] \<longleftrightarrow> checkpoint_matches rs cp"
  using assms
  by (auto simp: checkpoint_check_def checkpoint_matches_def Let_def split: option.splits sum.splits pyval.splits)

lemma verify_ledger_valid:
  assumes "verify_ledger sha cp (Some lg) = Inr rep"
  shows "\<exists>rs. records_of lg = Inr rs \<and> vr_records rep = length rs \<and> vr_head rep = chain_head le_hash ledger_genesis rs \<and>
    (vr_valid rep \<longleftrightarrow> vr_errors rep = []) \<and> (vr_valid rep \<longleftrightarrow> ledger_chain sha rs \<and> checkpoint_matches rs cp)"
proof -
  from assms obtain rs errs m where rs: "records_of lg = Inr rs"
    and cp: "checkpoint_check (length rs) (chain_head le_hash ledger_genesis rs) cp = Inr (errs, m)"
    and rep: "rep = \<lparr>vr_valid = (ledger_errors sha ledger_genesis 1 rs @ errs = []), vr_records = length rs,
        vr_errors = ledger_errors sha ledger_genesis 1 rs @ errs, vr_head = chain_head le_hash ledger_genesis rs, vr_matches = m\<rparr>"
    by (auto simp: verify_ledger_def records_of_def bind_res_Inr Let_def)
  then show ?thesis
    using checkpoint_check_Nil [OF cp] by (simp add: ledger_errors_Nil ledger_chain_def)
qed

lemma records_of_take:
  assumes "ledger_inv sha lg"
  shows "\<exists>rs. map_res row_to_record (lg_rows lg) = Inr rs \<and> ledger_chain sha rs \<and>
    (\<forall>k \<le> length rs. records_of (lg\<lparr>lg_rows := take k (lg_rows lg)\<rparr>) = Inr (take k rs))"
proof -
  from assms obtain rs where rs: "map_res row_to_record (lg_rows lg) = Inr rs" "ledger_chain sha rs"
    by (auto simp: ledger_inv_def)
  have "records_of (lg\<lparr>lg_rows := take k (lg_rows lg)\<rparr>) = Inr (take k rs)" if "k \<le> length rs" for k
  proof -
    have k: "k \<le> length (lg_rows lg)" using that map_res_length [OF rs(1)] by simp
    have "map lr_seq (take k (lg_rows lg)) = take k [1 ..< Suc (length (lg_rows lg))]"
      using assms by (simp only: ledger_inv_def take_map [symmetric])
    also have "\<dots> = [1 ..< Suc (length (take k (lg_rows lg)))]" using k by (simp add: take_upt del: upt_Suc)
    finally have "sort_key lr_seq (take k (lg_rows lg)) = take k (lg_rows lg)" by (rule ledger_sorted)
    then show ?thesis using map_res_take [OF rs(1), of k] by (simp add: records_of_def)
  qed
  with rs show ?thesis by blast
qed

lemma ledger_chain_take: "ledger_chain sha rs \<Longrightarrow> ledger_chain sha (take k rs)"
proof -
  have "chain_from seq prev rec digest p n es \<Longrightarrow> chain_from seq prev rec digest p n (take k es)"
    for seq :: "'e \<Rightarrow> nat" and prev rec digest p n es
    by (induction es arbitrary: p n k) (auto simp: take_Cons split: nat.splits)
  then show "ledger_chain sha rs \<Longrightarrow> ledger_chain sha (take k rs)" by (simp add: ledger_chain_def)
qed

section \<open>The guarantees of the ledger\<close>

text \<open>An equivalence for every stored ledger, also one that was edited by hand.\<close>

text \<open>
  For every stored ledger whose payloads are readable, verify_ledger reports valid exactly
  when the records in order of their numbers form a hash chain from the genesis hash without gaps
  and the checkpoint, if one is given, names the last record and its number; and it is valid
  exactly when it lists no error.
\<close>

theorem verification_decides_chain:
  assumes "verify_ledger sha cp (Some lg) = Inr rep"
  shows "(vr_valid rep \<longleftrightarrow> vr_errors rep = []) \<and>
    (vr_valid rep \<longleftrightarrow> (\<exists>rs. records_of lg = Inr rs \<and> ledger_chain sha rs \<and> checkpoint_matches rs cp))"
  using verify_ledger_valid [OF assms] by auto

text \<open>
  The claim boundary of verify_ledger: if the newest records of a ledger are cut off,
  verification without a checkpoint still reports it valid; with a checkpoint of the full ledger
  the full ledger is valid and every shorter one is reported with exactly the checkpoint mismatch.
\<close>

theorem truncation_needs_checkpoint:
  assumes "ledger_reach sha lg" and "k < length (lg_rows lg)"
    and "create_checkpoint sha now location lg = (lg', cp)"
  shows "(\<exists>rep. verify_ledger sha None (Some (lg\<lparr>lg_rows := take k (lg_rows lg)\<rparr>)) = Inr rep \<and> vr_valid rep \<and> vr_records rep = k) \<and>
    (\<exists>rep. verify_ledger sha (Some (Inr cp)) (Some lg') = Inr rep \<and> vr_valid rep \<and> vr_records rep = length (lg_rows lg)) \<and>
    (\<exists>rep. verify_ledger sha (Some (Inr cp)) (Some (lg'\<lparr>lg_rows := take k (lg_rows lg')\<rparr>)) = Inr rep \<and>
      vr_errors rep = [checkpoint_mismatch])"
proof -
  have inv: "ledger_inv sha lg" using assms(1) by (rule ledger_reach_inv)
  then obtain rs where rs: "map_res row_to_record (lg_rows lg) = Inr rs" "ledger_chain sha rs"
    and tk: "\<forall>k \<le> length rs. records_of (lg\<lparr>lg_rows := take k (lg_rows lg)\<rparr>) = Inr (take k rs)"
    using records_of_take by blast
  have len: "length rs = length (lg_rows lg)" using map_res_length [OF rs(1)] .
  obtain d where cp: "cp = PDict d" "dget ''sequence'' d = PInt (int (length rs))"
      "dget ''head_hash'' d = PStr (chain_head le_hash ledger_genesis rs)"
    using assms(3) max_row_inv [OF inv rs(1)] by (auto simp: create_checkpoint_def checkpoint_dict_def Let_def)
  have rows: "lg_rows lg' = lg_rows lg"
    using assms(3) by (auto simp: create_checkpoint_def Let_def split: prod.splits)
  have chain: "ledger_errors sha ledger_genesis 1 (take j rs) = []" for j
    using ledger_chain_take [OF rs(2)] by (simp add: ledger_errors_Nil ledger_chain_def)
  have recs: "map_res row_to_record (sort_key lr_seq (take j (lg_rows lg))) = Inr (take j rs)" if "j \<le> length rs" for j
    using tk that by (simp add: records_of_def)
  show ?thesis
    using assms(2) recs [of k] recs [of "length rs"] chain [of k] chain [of "length rs"] len
    by (simp add: verify_ledger_def checkpoint_check_def cp rows err_if_def py_eq_def Let_def)
qed

definition same_record :: "ledger_record \<Rightarrow> ledger_record \<Rightarrow> bool" where
  "same_record x y \<longleftrightarrow> le_seq x = le_seq y \<and> le_created x = le_created y \<and> le_task x = le_task y \<and> le_key x = le_key y \<and>
     le_prev x = le_prev y \<and> le_hash x = le_hash y \<and> py_eq (le_payload x) (le_payload y)"

lemma same_record_digest:
  assumes "inj sha" and "ledger_hash sha x = ledger_hash sha y" and "le_hash x = le_hash y"
  shows "same_record x y"
  using ledger_hash_inject [OF assms(1,2)] assms(3) by (simp add: same_record_def py_eq_def)

lemma checkpoint_value:
  assumes "checkpoint_matches rs (Some (Inr v))"
  shows "bool_as_int (sort_keys (dget ''sequence'' (as_dict v))) = PInt (int (length rs)) \<and>
    bool_as_int (sort_keys (dget ''head_hash'' (as_dict v))) = PStr (chain_head le_hash ledger_genesis rs)"
  using assms unfolding checkpoint_matches_def py_eq_def by simp

text \<open>
  C28. With a digest without collisions, two ledgers that both verify against the same external
  checkpoint, however they were stored or edited, hold the same records: an edited, removed, added
  or reordered record is always reported.
\<close>

theorem checkpoint_identifies_ledger:
  assumes "inj sha"
    and "verify_ledger sha (Some (Inr v)) (Some lg1) = Inr rep1" and "vr_valid rep1"
    and "verify_ledger sha (Some (Inr v)) (Some lg2) = Inr rep2" and "vr_valid rep2"
  shows "\<exists>rs1 rs2. records_of lg1 = Inr rs1 \<and> records_of lg2 = Inr rs2 \<and> list_all2 same_record rs1 rs2"
proof -
  obtain rs1 where 1: "records_of lg1 = Inr rs1" "ledger_chain sha rs1" "checkpoint_matches rs1 (Some (Inr v))"
    using verify_ledger_valid [OF assms(2)] assms(3) by auto
  obtain rs2 where 2: "records_of lg2 = Inr rs2" "ledger_chain sha rs2" "checkpoint_matches rs2 (Some (Inr v))"
    using verify_ledger_valid [OF assms(4)] assms(5) by auto
  have "length rs1 = length rs2 \<and> chain_head le_hash ledger_genesis rs1 = chain_head le_hash ledger_genesis rs2"
    using checkpoint_value [OF 1(3)] checkpoint_value [OF 2(3)] by simp
  then have "list_all2 (\<lambda>x y. ledger_hash sha x = ledger_hash sha y \<and> le_hash x = le_hash y) rs1 rs2"
    using ledger_log.head_commits [OF assms(1)] 1(2) 2(2) unfolding ledger_chain_def by blast
  then have "list_all2 same_record rs1 rs2"
    by (rule list_all2_mono) (simp add: same_record_digest [OF assms(1)])
  with 1(1) 2(1) show ?thesis by blast
qed

lemma tbl_get_snoc:
  "tbl_get key k (rows @ [r]) = (case tbl_get key k rows of None \<Rightarrow> if key r = k then Some r else None | Some q \<Rightarrow> Some q)"
  by (induction rows) (auto simp: tbl_get_def)

text \<open>
  After an append that succeeded, an append under the same idempotency key (also with another
  payload, task or time) changes nothing and returns the recorded entry as a replay.
\<close>

theorem append_is_idempotent:
  assumes "append_record sha now payload key task lg = Inr (lg', r, replay)"
    and "append_key sha payload' key' = append_key sha payload key" and "is_dict payload'"
  shows "\<exists>r'. append_record sha now' payload' key' task' lg' = Inr (lg', r', True) \<and> same_record r r'"
proof (cases replay)
  case True
  then show ?thesis
    using append_record_cases [OF assms(1)] assms(2,3) by (auto simp: append_record_def same_record_def)
next
  case False
  let ?k = "append_key sha payload key"
  have new: "tbl_get lr_key ?k (lg_rows lg) = None" "le_key r = ?k" "lg_rows lg' = lg_rows lg @ [row_of r]"
    using append_record_cases [OF assms(1)] False by (auto simp: next_record_def)
  then have "tbl_get lr_key ?k (lg_rows lg') = Some (row_of r)"
    by (simp add: tbl_get_snoc)
  then have "append_record sha now' payload' key' task' lg' = Inr (lg', r\<lparr>le_payload := sort_keys (le_payload r)\<rparr>, True)"
    using assms(2,3) by (simp add: append_record_def)
  then show ?thesis by (simp add: same_record_def py_eq_def sort_keys_idem)
qed

text \<open>Two appends, with the identity as a digest without collisions.\<close>

definition demo_append :: "pyval \<Rightarrow> ledger \<Rightarrow> ledger" where
  "demo_append v lg = (case append_record (\<lambda>s. s) ''2025-01-01T00:00:00Z'' v None None lg of Inl _ \<Rightarrow> lg | Inr (lg', _) \<Rightarrow> lg')"

definition demo_ledger :: ledger where
  "demo_ledger = demo_append (PDict [(''n'', PInt 2)]) (demo_append (PDict [(''n'', PInt 1)]) empty_ledger)"

lemma demo_append_reach: "ledger_reach (\<lambda>s. s) lg \<Longrightarrow> ledger_reach (\<lambda>s. s) (demo_append v lg)"
  by (auto simp: demo_append_def intro: ledger_reach.intros split: sum.splits prod.splits)

lemma demo_ledger_reach: "ledger_reach (\<lambda>s. s) demo_ledger"
  by (simp add: demo_ledger_def demo_append_reach reach_empty)

lemma demo_ledger_rows: "length (lg_rows demo_ledger) = 2"
  by code_simp

definition demo_point :: pyval where
  "demo_point = snd (create_checkpoint (\<lambda>s. s) ''2025-01-02T00:00:00Z'' ''/ledger.db'' demo_ledger)"

definition demo_anchored :: ledger where
  "demo_anchored = fst (create_checkpoint (\<lambda>s. s) ''2025-01-02T00:00:00Z'' ''/ledger.db'' demo_ledger)"

theorem verification_decides_chain_witness:
  "\<exists>rep. verify_ledger (\<lambda>s. s) (Some (Inr demo_point)) (Some demo_ledger) = Inr rep \<and> vr_valid rep \<and> vr_errors rep = []"
proof -
  have "(case verify_ledger (\<lambda>s. s) (Some (Inr demo_point)) (Some demo_ledger) of Inl _ \<Rightarrow> False | Inr rep \<Rightarrow> vr_valid rep)"
    by code_simp
  then obtain rep where "verify_ledger (\<lambda>s. s) (Some (Inr demo_point)) (Some demo_ledger) = Inr rep" "vr_valid rep"
    by (auto split: sum.splits)
  then show ?thesis using verification_decides_chain [of "\<lambda>s. s" "Some (Inr demo_point)" demo_ledger rep] by blast
qed

theorem truncation_needs_checkpoint_witness:
  "\<exists>rep. verify_ledger (\<lambda>s. s) (Some (Inr demo_point)) (Some (demo_anchored\<lparr>lg_rows := take 1 (lg_rows demo_anchored)\<rparr>)) =
     Inr rep \<and> vr_errors rep = [checkpoint_mismatch]"
proof -
  have "1 < length (lg_rows demo_ledger)"
    and "create_checkpoint (\<lambda>s. s) ''2025-01-02T00:00:00Z'' ''/ledger.db'' demo_ledger = (demo_anchored, demo_point)"
    by (simp_all add: demo_ledger_rows demo_anchored_def demo_point_def)
  from truncation_needs_checkpoint [OF demo_ledger_reach this] show ?thesis by blast
qed

theorem checkpoint_identifies_ledger_witness:
  "\<exists>rs1 rs2. records_of demo_ledger = Inr rs1 \<and> records_of demo_ledger = Inr rs2 \<and> list_all2 same_record rs1 rs2"
proof -
  have "(case verify_ledger (\<lambda>s. s) (Some (Inr demo_point)) (Some demo_ledger) of Inl _ \<Rightarrow> False | Inr rep \<Rightarrow> vr_valid rep)"
    by code_simp
  then obtain rep where "verify_ledger (\<lambda>s. s) (Some (Inr demo_point)) (Some demo_ledger) = Inr rep" "vr_valid rep"
    by (auto split: sum.splits)
  then show ?thesis using checkpoint_identifies_ledger [of "\<lambda>s. s" demo_point demo_ledger rep demo_ledger rep] by simp
qed

theorem append_is_idempotent_witness:
  "\<exists>r'. append_record (\<lambda>s. s) ''2025-01-03T00:00:00Z'' (PDict [(''n'', PInt 1)]) None (Some ''task-2'')
      (demo_append (PDict [(''n'', PInt 1)]) empty_ledger) =
    Inr (demo_append (PDict [(''n'', PInt 1)]) empty_ledger, r', True)"
proof -
  obtain lg' r replay where a: "append_record (\<lambda>s. s) ''2025-01-01T00:00:00Z'' (PDict [(''n'', PInt 1)]) None None empty_ledger =
      Inr (lg', r, replay)"
    by (auto simp: append_record_def empty_ledger_def tbl_get_def Let_def)
  then have "demo_append (PDict [(''n'', PInt 1)]) empty_ledger = lg'" by (simp add: demo_append_def)
  then show ?thesis using append_is_idempotent [OF a refl, of "''2025-01-03T00:00:00Z''" "Some ''task-2''"] by auto
qed

end
