(* ===== verification/Controller.thy ===== *)
theory Controller
  imports Py_Value
begin

text \<open>
  \<open>controller_context.py\<close>: the identity that the lifecycle store writes into its events. A context
  is only built by the two class methods; an attestation is accepted only with the private token of
  the host. The path of the executable is a parameter.
\<close>

record controller_ctx =
  cc_id :: string
  cc_type :: string
  cc_instance :: string
  cc_source :: string
  cc_mechanism :: string
  cc_authenticated :: bool

definition lifecycle_controller_id :: string where
  "lifecycle_controller_id = ''platform:lifecycle-controller''"

definition lifecycle_controller_type :: string where
  "lifecycle_controller_type = ''protected-lifecycle-controller''"

definition model_identity_prefixes :: "string list" where
  "model_identity_prefixes = [''agent:'', ''model:'', ''assistant:'']"

text \<open>\<open>token\<close>: the caller presented the private verified-context token.\<close>

definition make_context :: "bool \<Rightarrow> string \<Rightarrow> string \<Rightarrow> string \<Rightarrow> string \<Rightarrow> string \<Rightarrow> bool \<Rightarrow> controller_ctx res" where
  "make_context token cid ty inst source mechanism authenticated =
     (if authenticated \<and> \<not> token
      then Inl (PermissionError ''Only verified controller attestation may create an authenticated runtime context'')
      else if \<not> token
      then Inl (PermissionError ''Only the runtime controller boundary may create a lifecycle controller context'')
      else Inr \<lparr>cc_id = cid, cc_type = ty, cc_instance = inst, cc_source = source, cc_mechanism = mechanism,
        cc_authenticated = authenticated\<rparr>)"

definition event_identity :: "controller_ctx \<Rightarrow> pydict" where
  "event_identity c =
     [(''controller_id'', PStr (cc_id c)), (''controller_type'', PStr (cc_type c)),
      (''runtime_instance_id'', PStr (cc_instance c)), (''identity_source'', PStr (cc_source c)),
      (''authentication_mechanism'', PStr (cc_mechanism c))]"

definition local_unverified :: "(string \<Rightarrow> string) \<Rightarrow> string \<Rightarrow> controller_ctx res" where
  "local_unverified sha executable =
     make_context True lifecycle_controller_id lifecycle_controller_type
       (''runtime:'' @ sha (canonical_json (PDict [(''controller_id'', PStr lifecycle_controller_id),
          (''controller_type'', PStr lifecycle_controller_type), (''executable'', PStr (str_lower executable))])))
       ''local-runtime-context'' ''protected-transition-signature-required'' False"

definition str_or_empty :: "pyval \<Rightarrow> string" where
  "str_or_empty v = py_str (py_or v (PStr []))"

definition from_verified_attestation :: "bool \<Rightarrow> pyval \<Rightarrow> controller_ctx res" where
  "from_verified_attestation token attestation =
     (if \<not> token
      then Inl (PermissionError ''Controller attestation custody is HOST_CAPABILITY_UNPROVEN; a model cannot self-attest'')
      else case dget ''metadata'' (as_dict attestation) of
        PDict m \<Rightarrow>
          let cid = str_or_empty (dget ''controller_id'' m); ty = str_or_empty (dget ''controller_type'' m);
              inst = str_or_empty (dget ''runtime_instance_id'' m) in
          if cid \<noteq> lifecycle_controller_id
          then Inl (PermissionError ''Controller attestation has an unauthorized controller identity'')
          else if ty \<noteq> lifecycle_controller_type
          then Inl (PermissionError ''Controller attestation has an unauthorized controller type'')
          else if inst = [] then Inl (ValueError ''Controller attestation runtime_instance_id is required'')
          else make_context True cid ty inst ''signed-controller-attestation'' ''signed-e6-controller-attestation'' True
      | _ \<Rightarrow> Inl (ValueError ''Controller attestation metadata is required''))"

definition metadata_errors :: "controller_ctx \<Rightarrow> pydict \<Rightarrow> string list res" where
  "metadata_errors c m =
     bind_res (in_names (dget ''model_identity'' m) [cc_id c, cc_type c]) (\<lambda>same.
       Inr (concat (map (\<lambda>(f, v). err_if (\<not> py_eq (dget f m) (PStr v)) (''Controller authorization metadata mismatch: '' @ f))
              [(''controller_id'', cc_id c), (''controller_type'', cc_type c), (''identity_source'', cc_source c),
               (''authentication_mechanism'', cc_mechanism c)]) @
            err_if same ''Model identity and controller identity must remain separate''))"

definition validate_controller_identity :: "controller_ctx \<Rightarrow> string option \<Rightarrow> pydict option \<Rightarrow> string list res" where
  "validate_controller_identity c actor metadata =
     bind_res (case metadata of None \<Rightarrow> Inr [] | Some m \<Rightarrow> metadata_errors c m) (\<lambda>bound.
       Inr (sorted_set (
         err_if (cc_id c \<noteq> lifecycle_controller_id) ''Controller identity is not the protected lifecycle controller'' @
         err_if (cc_type c \<noteq> lifecycle_controller_type) ''Controller type is not the protected lifecycle controller'' @
         err_if (actor \<noteq> None \<and> actor \<noteq> Some (cc_id c))
           ''Caller-supplied actor does not match the runtime controller identity'' @
         err_if (\<exists>p \<in> set model_identity_prefixes. starts_with p (cc_id c))
           ''Model identity cannot be used as lifecycle controller identity'' @
         bound)))"

lemma controller_identity_Nil:
  "validate_controller_identity c actor None = Inr [] \<longleftrightarrow>
     cc_id c = lifecycle_controller_id \<and> cc_type c = lifecycle_controller_type \<and> actor \<in> {None, Some (cc_id c)}"
proof -
  have "starts_with p lifecycle_controller_id \<longleftrightarrow> False" if "p \<in> set model_identity_prefixes" for p
    using that by (auto simp: model_identity_prefixes_def lifecycle_controller_id_def starts_with_def)
  then show ?thesis by (auto simp: validate_controller_identity_def)
qed

lemma controller_metadata_Nil:
  assumes "validate_controller_identity c actor (Some m) = Inr []"
  shows "validate_controller_identity c actor None = Inr []"
  using assms by (auto simp: validate_controller_identity_def bind_res_Inr)

text \<open>A caller without the token never obtains an authenticated context.\<close>

lemma authenticated_needs_token:
  "make_context token cid ty inst source mechanism authenticated = Inr c \<Longrightarrow> token"
  "from_verified_attestation token attestation = Inr c \<Longrightarrow> token"
  by (auto simp: make_context_def from_verified_attestation_def split: if_splits)

end
