(* ===== verification/Risk.thy ===== *)
theory Risk
  imports Py_Value
begin

text \<open>
  \<open>risk.py\<close>: the five risk levels, their classes and scores, and the join of the levels that the
  sources of a change give. A level is text in the code; its order is that of the type below.
\<close>

section \<open>Levels\<close>

datatype risk_level = R0 | R1 | R2 | R3 | R4

fun risk_rank :: "risk_level \<Rightarrow> int" where
  "risk_rank R0 = 0"
| "risk_rank R1 = 1"
| "risk_rank R2 = 2"
| "risk_rank R3 = 3"
| "risk_rank R4 = 4"

lemma risk_rank_inject [simp]: "risk_rank a = risk_rank b \<longleftrightarrow> a = b"
  by (cases a; cases b) simp_all

instantiation risk_level :: linorder
begin

definition less_eq_risk_level :: "risk_level \<Rightarrow> risk_level \<Rightarrow> bool" where
  "less_eq_risk_level a b \<longleftrightarrow> risk_rank a \<le> risk_rank b"

definition less_risk_level :: "risk_level \<Rightarrow> risk_level \<Rightarrow> bool" where
  "less_risk_level a b \<longleftrightarrow> risk_rank a < risk_rank b"

instance
  by standard (auto simp: less_eq_risk_level_def less_risk_level_def)

end

fun level_name :: "risk_level \<Rightarrow> string" where
  "level_name R0 = ''R0''"
| "level_name R1 = ''R1''"
| "level_name R2 = ''R2''"
| "level_name R3 = ''R3''"
| "level_name R4 = ''R4''"

definition all_levels :: "risk_level list" where
  "all_levels = [R0, R1, R2, R3, R4]"

definition level_of :: "string \<Rightarrow> risk_level option" where
  "level_of s = find (\<lambda>l. level_name l = s) all_levels"

lemma level_name_inject [simp]: "level_name a = level_name b \<longleftrightarrow> a = b"
  by (cases a; cases b) simp_all

lemma level_of_name [simp]: "level_of (level_name l) = Some l"
  by (cases l) (simp_all add: level_of_def all_levels_def)

lemma level_of_Some: "level_of s = Some l \<longleftrightarrow> s = level_name l"
proof
  assume "level_of s = Some l"
  then show "s = level_name l" by (auto simp: level_of_def find_Some_iff)
qed simp

text \<open>\<open>RISK_ORDER\<close>, \<open>RISK_CLASS_TO_LEVEL\<close> and \<open>RISK_TO_CLASS\<close>.\<close>

definition risk_order :: "(string \<times> int) list" where
  "risk_order = [(''R0'', 0), (''R1'', 1), (''R2'', 2), (''R3'', 3), (''R4'', 4)]"

definition risk_class_levels :: "(string \<times> string) list" where
  "risk_class_levels = [(''LOW'', ''R1''), (''MEDIUM'', ''R2''), (''HIGH'', ''R3''), (''CRITICAL'', ''R4'')]"

definition risk_to_class :: "(string \<times> string) list" where
  "risk_to_class = [(''R0'', ''LOW''), (''R1'', ''LOW''), (''R2'', ''MEDIUM''), (''R3'', ''HIGH''), (''R4'', ''CRITICAL'')]"

definition score_bounds :: "(int \<times> string) list" where
  "score_bounds = [(2, ''R0''), (6, ''R1''), (11, ''R2''), (16, ''R3''), (22, ''R4'')]"

lemma risk_order_level: "map_of risk_order s = map_option risk_rank (level_of s)"
  by (simp add: risk_order_def level_of_def all_levels_def)

definition known_risk :: "string \<Rightarrow> bool" where
  "known_risk s \<longleftrightarrow> s \<in> set (map fst risk_order)"

lemma known_risk_level: "known_risk s \<longleftrightarrow> (\<exists>l. s = level_name l)"
proof
  assume "known_risk s"
  then have "s = level_name R0 \<or> s = level_name R1 \<or> s = level_name R2 \<or> s = level_name R3 \<or> s = level_name R4"
    by (simp add: known_risk_def risk_order_def)
  then show "\<exists>l. s = level_name l" by blast
next
  assume "\<exists>l. s = level_name l"
  then obtain l where "s = level_name l" by blast
  then show "known_risk s" by (cases l) (simp_all add: known_risk_def risk_order_def)
qed

definition rank_of :: "string \<Rightarrow> int" where
  "rank_of s = (case map_of risk_order s of Some n \<Rightarrow> n | None \<Rightarrow> 0)"

lemma rank_of_name [simp]: "rank_of (level_name l) = risk_rank l"
  by (simp add: rank_of_def risk_order_level)

section \<open>Joining levels\<close>

text \<open>\<open>max(values, key=...)\<close>: the first value of the largest key.\<close>

fun first_max :: "('a \<Rightarrow> 'k::linorder) \<Rightarrow> 'a \<Rightarrow> 'a list \<Rightarrow> 'a" where
  "first_max f best [] = best"
| "first_max f best (x # xs) = first_max f (if f best < f x then x else best) xs"

definition max_risk :: "string list \<Rightarrow> string res" where
  "max_risk levels =
     (let unknown = filter (\<lambda>l. \<not> known_risk l) levels in
      if unknown \<noteq> [] then Inl (ValueError (''Unknown risk level: '' @ join_with '', '' (sorted_set unknown)))
      else case levels of [] \<Rightarrow> Inr ''R0'' | l # ls \<Rightarrow> Inr (first_max rank_of l ls))"

record risk_sources =
  rs_previous :: string
  rs_requested :: string
  rs_contract :: string
  rs_path :: string
  rs_operation :: string
  rs_domain :: string
  rs_diff :: string
  rs_runtime :: string

definition source_levels :: "risk_sources \<Rightarrow> string list" where
  "source_levels r = [rs_previous r, rs_requested r, rs_contract r, rs_path r, rs_operation r, rs_domain r, rs_diff r, rs_runtime r]"

definition effective_risk :: "risk_sources \<Rightarrow> string res" where
  "effective_risk r =
     (let values = source_levels r; unknown = filter (\<lambda>v. \<not> known_risk v) values in
      if unknown \<noteq> [] then Inl (ValueError (''Unknown risk level: '' @ join_with '', '' (sorted_set unknown)))
      else Inr (first_max rank_of (hd values) (tl values)))"

definition risk_class_to_level :: "string option \<Rightarrow> string res" where
  "risk_class_to_level value =
     (let normalized = str_upper (case value of Some (c # cs) \<Rightarrow> c # cs | _ \<Rightarrow> ''LOW'') in
      if known_risk normalized then Inr normalized
      else case map_of risk_class_levels normalized of
        Some l \<Rightarrow> Inr l
      | None \<Rightarrow> Inl (ValueError (''Unknown risk class: '' @ normalized)))"

definition risk_level_to_class :: "string option \<Rightarrow> string res" where
  "risk_level_to_class value =
     (let normalized = str_upper (case value of Some (c # cs) \<Rightarrow> c # cs | _ \<Rightarrow> ''R0'') in
      case map_of risk_to_class normalized of
        Some c \<Rightarrow> Inr c
      | None \<Rightarrow> Inl (ValueError (''Unknown risk level: '' @ normalized)))"

definition assert_monotonic_risk :: "string \<Rightarrow> string \<Rightarrow> unit res" where
  "assert_monotonic_risk previous current =
     (if \<not> known_risk previous \<or> \<not> known_risk current then Inl (ValueError ''Unknown risk level in monotonicity check'')
      else if rank_of current < rank_of previous
      then Inl (ValueError (''Risk downgrade is prohibited: '' @ previous @ '' -> '' @ current))
      else Inr ())"

fun score_walk :: "(int \<times> string) list \<Rightarrow> int \<Rightarrow> string" where
  "score_walk [] score = ''R4''"
| "score_walk ((maximum, risk) # rest) score = (if score \<le> maximum then risk else score_walk rest score)"

definition score_to_risk :: "int \<Rightarrow> string" where
  "score_to_risk score = score_walk score_bounds score"

lemma first_max_in: "first_max f b xs \<in> insert b (set xs)"
  by (induction xs arbitrary: b) auto

lemma first_max_start: "f b \<le> f (first_max f b xs)"
proof (induction xs arbitrary: b)
  case (Cons y ys)
  have "f b \<le> f (if f b < f y then y else b)" by auto
  also have "\<dots> \<le> f (first_max f b (y # ys))" using Cons by simp
  finally show ?case .
qed simp

lemma first_max_ge: "x \<in> set xs \<Longrightarrow> f x \<le> f (first_max f b xs)"
proof (induction xs arbitrary: b)
  case (Cons y ys)
  show ?case
  proof (cases "x = y")
    case True
    then have "f x \<le> f (if f b < f y then y else b)" by auto
    also have "\<dots> \<le> f (first_max f b (y # ys))"
      using first_max_start [of f "if f b < f y then y else b" ys] by (simp only: first_max.simps)
    finally show ?thesis .
  qed (use Cons in simp)
qed simp

lemma known_values: "(\<forall>v \<in> set vs. known_risk v) \<longleftrightarrow> (\<exists>ls. vs = map level_name ls)"
proof
  show "\<forall>v \<in> set vs. known_risk v \<Longrightarrow> \<exists>ls. vs = map level_name ls"
  proof (induction vs)
    case (Cons v vs)
    then obtain l ls where "v = level_name l" "vs = map level_name ls" by (auto simp: known_risk_level)
    then show ?case by (intro exI [of _ "l # ls"]) simp
  qed simp
qed (auto simp: known_risk_level)

text \<open>On known levels the join of the code is the maximum of the order, on others it raises.\<close>

lemma max_level:
  assumes "ls \<noteq> []"
  shows "first_max rank_of (hd (map level_name ls)) (tl (map level_name ls)) = level_name (Max (set ls))"
proof -
  obtain l rest where ls: "ls = l # rest" using assms by (cases ls) auto
  let ?m = "first_max rank_of (level_name l) (map level_name rest)"
  have "?m \<in> level_name ` set ls" using first_max_in [of rank_of "level_name l" "map level_name rest"] by (auto simp: ls)
  then obtain k where k: "k \<in> set ls" "?m = level_name k" by blast
  have "j \<le> k" if "j \<in> set ls" for j
    using first_max_ge [of "level_name j" "map level_name rest" rank_of "level_name l"]
      first_max_start [of rank_of "level_name l" "map level_name rest"] that k(2)
    by (auto simp: ls less_eq_risk_level_def)
  then have "Max (set ls) = k" using k(1) by (intro Max_eqI) auto
  then show ?thesis using k(2) by (simp add: ls)
qed

lemma max_risk_levels: "max_risk (map level_name ls) = Inr (level_name (Max (insert R0 (set ls))))"
proof (cases ls)
  case Nil
  then show ?thesis by (simp add: max_risk_def)
next
  case (Cons l rest)
  have "R0 \<le> x" for x by (cases x) (simp_all add: less_eq_risk_level_def)
  then have "Max (insert R0 (set ls)) = Max (set ls)" using Cons by (subst Max_insert) (auto simp: max_def)
  then show ?thesis using max_level [of ls] Cons by (simp add: max_risk_def known_risk_level)
qed

lemma effective_risk_levels:
  assumes "source_levels r = map level_name ls"
  shows "effective_risk r = Inr (level_name (Max (set ls)))"
proof -
  have ne: "ls \<noteq> []" using assms by (auto simp: source_levels_def)
  have "filter (\<lambda>v. \<not> known_risk v) (map level_name ls) = []" by (auto simp: known_risk_level filter_empty_conv)
  then show ?thesis using max_level [OF ne] by (simp add: effective_risk_def assms Let_def del: hd_map)
qed

end
