(* ===== verification/Life_Store.thy ===== *)
theory Life_Store
  imports Controller Risk Evidence
begin

text \<open>
  \<open>lifecycle_store.py\<close>: the authoritative store of bug lifecycles. A case is a row with a version
  and a state document; every change appends an event that carries the whole new document, the
  hash of its predecessor and a MAC. Protected states need accepted evidence and an authorization
  signed by a host-accepted key. This theory holds the data, the guards and the operations that
  write; \<open>Life_Verify\<close> holds verification and the operations that read through it.

  A JSON column holds what \<open>json.loads\<close> makes of its text (\<open>None\<close>: malformed). Names of evidence
  are texts. The digest, the MAC under the seal key, the key library and the clock are fields of
  the environment.
\<close>

section \<open>States\<close>

definition code_lifecycle :: "string list" where
  "code_lifecycle = [''UNVERIFIED_REPORT'', ''SOURCE_OF_TRUTH_RESOLVED'', ''ISSUE_CLASSIFIED'', ''BUG_REPRODUCED'',
     ''ROOT_CAUSE_PROVEN'', ''BLAST_RADIUS_MAPPED'', ''CHANGE_PLANNED'', ''PATCH_IMPLEMENTED'', ''REGRESSION_TEST_PROVEN'',
     ''TARGETED_VALIDATION_PASS'', ''REGRESSION_VALIDATION_PASS'', ''DIFF_FORENSICS_PASS'', ''INDEPENDENT_REVIEW_PASS'',
     ''CI_PASS'', ''STAGING_PASS'', ''READY_FOR_OWNER_RELEASE'', ''PRODUCTION_RELEASED'', ''POST_DEPLOY_VERIFIED'', ''CLOSED'']"

definition package_states :: "string list" where
  "package_states = [''PACKAGE_RELEASED'', ''RELEASE_ARTIFACT_VERIFIED'', ''CONSUMER_VALIDATION_PASS'']"

definition runtime_states :: "string list" where
  "runtime_states = [''STAGING_PASS'', ''READY_FOR_OWNER_RELEASE'', ''PRODUCTION_RELEASED'', ''POST_DEPLOY_VERIFIED'']"

definition authoritative_states :: "string list" where
  "authoritative_states = code_lifecycle @ package_states @ [''RESOLVED_NO_CODE'']"

definition closed_states :: "string list" where
  "closed_states = [''CLOSED'', ''RESOLVED_NO_CODE'']"

definition protected_states :: "string list" where
  "protected_states = [''PACKAGE_RELEASED'', ''RELEASE_ARTIFACT_VERIFIED'', ''CONSUMER_VALIDATION_PASS'',
     ''READY_FOR_OWNER_RELEASE'', ''PRODUCTION_RELEASED'', ''POST_DEPLOY_VERIFIED'', ''CLOSED'', ''RESOLVED_NO_CODE'',
     ''ROLLBACK_REQUIRED'']"

definition state_transitions :: "(string \<times> string) list" where
  "state_transitions = zip code_lifecycle (tl code_lifecycle)"

text \<open>\<open>ALLOWED_TRANSITIONS.get(state, set())\<close>, the later assignments first.\<close>

definition allowed_transitions :: "string \<Rightarrow> string list" where
  "allowed_transitions st =
     (if st \<in> set closed_states then []
      else if st = ''ROLLBACK_REQUIRED'' then [''CHANGE_PLANNED'', ''CLOSED'']
      else if st = ''PACKAGE_RELEASED'' then [''RELEASE_ARTIFACT_VERIFIED'']
      else if st = ''RELEASE_ARTIFACT_VERIFIED'' then [''CONSUMER_VALIDATION_PASS'']
      else if st = ''CONSUMER_VALIDATION_PASS'' then [''CLOSED'', ''STAGING_PASS'']
      else (case map_of state_transitions st of None \<Rightarrow> [] | Some t \<Rightarrow> [t]) @
        (if st = ''ISSUE_CLASSIFIED'' then [''RESOLVED_NO_CODE'']
         else if st = ''CI_PASS'' then [''PACKAGE_RELEASED'']
         else if st = ''PRODUCTION_RELEASED'' \<or> st = ''POST_DEPLOY_VERIFIED'' then [''ROLLBACK_REQUIRED''] else []))"

definition state_order :: "string list" where
  "state_order = takeWhile (\<lambda>s. s \<noteq> ''STAGING_PASS'') code_lifecycle @ package_states @ runtime_states @ [''CLOSED'']"

fun index_of :: "'a \<Rightarrow> 'a list \<Rightarrow> nat" where
  "index_of x [] = 0"
| "index_of x (y # ys) = (if x = y then 0 else Suc (index_of x ys))"

definition subject_mutation_fields :: "string list" where
  "subject_mutation_fields = material_fields @ [''base_sha'', ''head_sha'', ''diff_hash''] @
     [''subject_epoch'', ''subject_version'', ''subject_fingerprint'', ''subject_mutations'', ''historical_evidence_refs'',
      ''evidence_refs'', ''state'', ''resume_state'', ''blocked_target'', ''blockers'', ''final_state'',
      ''authoritative_lifecycle'', ''authority_store'', ''store_version'', ''store_record_hash'', ''store_binding'']"

definition lifecycle_mutation_fields :: "string list" where
  "lifecycle_mutation_fields = [''state'', ''last_completed_state'', ''resume_state'', ''blocked_target'', ''blockers'',
     ''risk'', ''risk_class'', ''risk_history'', ''evidence_refs'', ''final_state'', ''closure_class'',
     ''internal_execution_complete'', ''scheduler_state'']"

definition binding_decisions :: "string list" where
  "binding_decisions = [''SUBJECT_BOUND'', ''ARTIFACT_BOUND'', ''SUBJECT_MUTATION_INVALIDATED_DOWNSTREAM'']"

definition valid_domains :: "string list" where
  "valid_domains = [''GENERAL'', ''DATABASE'', ''AUTH_TENANT'', ''FINANCIAL'', ''ZATCA'', ''PROVIDER'', ''CONCURRENCY'', ''SECURITY'']"

section \<open>Stored rows\<close>

record life_case =
  lc_id :: string
  lc_version :: int
  lc_epoch :: int
  lc_state :: "pyval option"
  lc_hash :: string
  lc_updated :: string

text \<open>
  An event row: its scalar columns by name, its JSON columns by the name of the field they hold,
  the full document, and its seals.
\<close>

record life_event =
  lv_seq :: int
  lv_scalars :: pydict
  lv_jsons :: "(string \<times> pyval option) list"
  lv_record :: "pyval option"
  lv_hash :: string
  lv_mac :: string

record life_db =
  ld_cases :: "life_case list"
  ld_events :: "life_event list"
  ld_binding :: "string option"

record life_env =
  le_sha :: "string \<Rightarrow> string"
  le_hmac :: "string \<Rightarrow> string"
  le_load :: "string \<Rightarrow> pem_key"
  le_roots :: "trust_value option"
  le_ctx :: controller_ctx
  le_binding :: string
  le_now :: int
  le_now_text :: string

definition life_hash :: "life_env \<Rightarrow> pydict \<Rightarrow> string" where
  "life_hash env d = sha256_json (le_sha env) (PDict d)"

definition event_mac :: "life_env \<Rightarrow> string \<Rightarrow> string" where
  "event_mac env h = ''hmac-sha256:'' @ le_hmac env h"

definition life_genesis :: string where
  "life_genesis = ''sha256:'' @ replicate 64 (CHR ''0'')"

text \<open>\<open>json.loads\<close> of a column written with \<open>canonical_json\<close>.\<close>

definition stored :: "pydict \<Rightarrow> pyval option" where
  "stored d = Some (sort_keys (PDict d))"

definition deny :: "bool \<Rightarrow> py_exn \<Rightarrow> unit res" where
  "deny b e = (if b then Inl e else Inr ())"

lemma deny_Inr [simp]: "deny b e = Inr u \<longleftrightarrow> \<not> b"
  by (simp add: deny_def)

fun checks :: "unit res list \<Rightarrow> unit res" where
  "checks [] = Inr ()"
| "checks (c # cs) = (case c of Inl e \<Rightarrow> Inl e | Inr _ \<Rightarrow> checks cs)"

lemma checks_Inr: "checks cs = Inr u \<longleftrightarrow> (\<forall>c \<in> set cs. c = Inr ())"
  by (induction cs) (auto split: sum.splits)

definition life_snapshot :: "life_case \<Rightarrow> pydict res" where
  "life_snapshot row =
     (case lc_state row of
        Some (PDict d) \<Rightarrow> Inr (dset ''store_record_hash'' (PStr (lc_hash row)) (dset ''store_version'' (PInt (lc_version row))
          (dset ''authoritative_lifecycle'' (PBool True) (dset ''authority_store'' (PStr ''controller-owned-sqlite'') d))))
      | Some _ \<Rightarrow> Inl (TypeError ''object does not support item assignment'')
      | None \<Rightarrow> Inl (ValueError ''JSONDecodeError''))"

definition life_event_dict :: "life_event \<Rightarrow> pydict" where
  "life_event_dict row =
     (let parsed = (case lv_record row of Some (PDict d) \<Rightarrow> d | _ \<Rightarrow> [(''_malformed_record_json'', PBool True)])
      in dset ''record_mac'' (PStr (lv_mac row)) (dset ''record_hash'' (PStr (lv_hash row)) (dset ''sequence'' (PInt (lv_seq row)) parsed)))"

definition resolve_actor :: "life_env \<Rightarrow> string option \<Rightarrow> string res" where
  "resolve_actor env actor =
     bind_res (validate_controller_identity (le_ctx env) actor None) (\<lambda>errors.
       if errors \<noteq> []
       then Inl (PermissionError (''Lifecycle actor is not derived from the controller runtime: '' @ join_with ''; '' errors))
       else Inr (cc_id (le_ctx env)))"

section \<open>Guards on the document\<close>

definition domain_names :: "pyval \<Rightarrow> string list" where
  "domain_names v = map (\<lambda>x. str_upper (py_str x)) (as_list v)"

definition domain_check :: "pyval \<Rightarrow> unit res" where
  "domain_check domains =
     (if domains = PNone then Inr ()
      else case domains of
        PList items \<Rightarrow>
          checks
            [deny (\<exists>x \<in> set items. \<not> str_and (\<lambda>t. str_strip t \<noteq> []) x) (ValueError ''Lifecycle domains must be a unique list''),
             deny (\<not> distinct (domain_names domains)) (ValueError ''Lifecycle domains must be a unique list''),
             deny (\<exists>d \<in> set (domain_names domains). d \<notin> set valid_domains)
               (ValueError (''Unknown lifecycle domain: '' @
                 join_with '', '' (sorted_set (filter (\<lambda>d. d \<notin> set valid_domains) (domain_names domains)))))]
      | _ \<Rightarrow> Inl (ValueError ''Lifecycle domains must be a unique list''))"

definition risk_known :: "pyval \<Rightarrow> bool" where
  "risk_known v \<longleftrightarrow> v = PNone \<or> str_and known_risk v"

definition risk_history_check :: "pyval \<Rightarrow> pyval \<Rightarrow> unit res" where
  "risk_history_check next_risk item =
     (case item of
        PDict d \<Rightarrow>
          let v = dget ''risk'' d in
          checks
            [deny (\<not> risk_known v) (ValueError ''Unknown risk in lifecycle risk_history''),
             deny (v \<noteq> PNone \<and> next_risk \<noteq> PNone \<and> rank_of (text_of next_risk) < rank_of (text_of v))
               (PermissionError ''Lifecycle risk is lower than its recorded risk history'')]
      | _ \<Rightarrow> Inl (ValueError ''Lifecycle risk_history entries must be objects''))"

definition validate_risk_and_domains :: "pydict \<Rightarrow> pydict \<Rightarrow> unit res" where
  "validate_risk_and_domains current next_state =
     (let domains = dget ''domains'' next_state; current_risk = dget ''risk'' current; next_risk = dget ''risk'' next_state;
          risk_class = dget ''risk_class'' next_state; history = py_or (dget ''risk_history'' next_state) (PList []) in
      checks
        ([domain_check domains,
          deny (\<not> risk_known current_risk) (ValueError (''Unknown current lifecycle risk: '' @ py_str current_risk)),
          deny (\<not> risk_known next_risk) (ValueError (''Unknown next lifecycle risk: '' @ py_str next_risk)),
          deny (current_risk \<noteq> PNone \<and> next_risk \<noteq> PNone \<and> rank_of (text_of next_risk) < rank_of (text_of current_risk))
            (PermissionError ''Lifecycle risk downgrade is prohibited''),
          deny (risk_class \<noteq> PNone \<and> \<not> str_and (\<lambda>c. c \<in> {''LOW'', ''MEDIUM'', ''HIGH'', ''CRITICAL''}) risk_class)
            (ValueError ''Unknown lifecycle risk class''),
          deny (risk_class \<noteq> PNone \<and> next_risk = PNone) (ValueError ''Lifecycle risk_class requires a lifecycle risk''),
          deny (next_risk \<noteq> PNone \<and> risk_class \<noteq> PNone \<and> map_of risk_to_class (text_of next_risk) \<noteq> Some (text_of risk_class))
            (PermissionError ''Lifecycle risk and risk_class are inconsistent''),
          deny (next_risk \<noteq> PNone \<and> (\<exists>d \<in> set (domain_names domains). d \<in> set valid_domains \<and> d \<noteq> ''GENERAL'') \<and>
              rank_of (text_of next_risk) < rank_of ''R3'')
            (PermissionError ''High-risk lifecycle domains require at least R3'')] @
         (case history of
            PList items \<Rightarrow> map (risk_history_check next_risk) items
          | _ \<Rightarrow> [Inl (ValueError ''Lifecycle risk_history must be a list'')])))"

section \<open>Evidence and authorization of protected transitions\<close>

text \<open>The records by evidence id, in order; the first defect is raised.\<close>

fun index_records :: "string \<Rightarrow> pyval list \<Rightarrow> (string \<times> pydict) list \<Rightarrow> (string \<times> pydict) list res" where
  "index_records case_id [] by_id = Inr by_id"
| "index_records case_id (v # vs) by_id =
     (case v of
        PDict r \<Rightarrow>
          let i = py_str (dget ''evidence_id'' r) in
          if \<not> truthy (dget ''evidence_id'' r)
          then Inl (PermissionError ''Protected lifecycle evidence records must contain evidence_id'')
          else if i \<in> set (map fst by_id) then Inl (PermissionError ''Protected lifecycle evidence IDs must be unique'')
          else if str_or_empty (dget ''lifecycle_case_id'' r) \<noteq> case_id
          then Inl (PermissionError ''Protected lifecycle evidence must be bound to the exact lifecycle case'')
          else index_records case_id vs (by_id @ [(i, r)])
      | _ \<Rightarrow> Inl (PermissionError ''Protected lifecycle evidence records must contain evidence_id''))"

definition evidence_check_of :: "life_env \<Rightarrow> string \<Rightarrow> pydict \<Rightarrow> evidence_check" where
  "evidence_check_of env minimum subject = \<lparr>ec_schema = None, ec_subject = Some subject, ec_minimum = minimum,
     ec_roots = le_roots env, ec_affirmative = True, ec_now = le_now env\<rparr>"

definition accept_record :: "life_env \<Rightarrow> pydict \<Rightarrow> string list \<Rightarrow> string \<Rightarrow> pydict \<Rightarrow> unit res" where
  "accept_record env subject required i r =
     bind_res (validate_evidence_record (le_sha env) (le_load env) (evidence_check_of env ''E3'' subject) r) (\<lambda>errors.
       if errors \<noteq> []
       then Inl (PermissionError (''Invalid protected lifecycle evidence '' @ i @ '': '' @ join_with ''; '' errors))
       else if required \<noteq> [] \<and> str_or_empty (dget ''type'' r) \<notin> set required
       then Inl (PermissionError (''Protected lifecycle evidence type is not required for this transition: '' @
         str_or_empty (dget ''type'' r)))
       else Inr ())"

fun accept_all :: "life_env \<Rightarrow> pydict \<Rightarrow> string list \<Rightarrow> (string \<times> pydict) list \<Rightarrow> string list \<Rightarrow> pyval list res" where
  "accept_all env subject required by_id [] = Inr []"
| "accept_all env subject required by_id (i # is) =
     (case map_of by_id i of
        None \<Rightarrow> Inl (KeyError i)
      | Some r \<Rightarrow> bind_res (accept_record env subject required i r) (\<lambda>_.
          bind_res (accept_all env subject required by_id is) (\<lambda>rs. Inr (PDict r # rs))))"

definition validate_accepted_evidence ::
  "life_env \<Rightarrow> pyval list \<Rightarrow> string \<Rightarrow> pydict \<Rightarrow> string list \<Rightarrow> string list \<Rightarrow> pyval list res" where
  "validate_accepted_evidence env records case_id subject required accepted =
     (if \<not> distinct accepted then Inl (PermissionError ''Protected lifecycle evidence IDs must be unique'')
      else bind_res (index_records case_id records []) (\<lambda>by_id.
        let missing = filter (\<lambda>i. i \<notin> set (map fst by_id)) accepted in
        if missing \<noteq> []
        then Inl (PermissionError (''Protected lifecycle transition references missing evidence: '' @
          join_with '', '' (sorted_set missing)))
        else accept_all env subject required by_id accepted))"

record transition_binding =
  tb_case :: string
  tb_version :: int
  tb_current :: string
  tb_next :: string
  tb_requested :: string
  tb_decision :: string
  tb_actor :: string
  tb_key :: string
  tb_subject :: pydict
  tb_required :: "string list"
  tb_accepted :: "string list"
  tb_rejected :: "string list"
  tb_policy :: pyval
  tb_toolchain :: pyval

definition name_list :: "string list \<Rightarrow> pyval" where
  "name_list names = PList (map PStr (sorted_set names))"

definition binding_fields :: "life_env \<Rightarrow> transition_binding \<Rightarrow> string \<Rightarrow> int \<Rightarrow> pydict" where
  "binding_fields env b fp epoch =
     [(''case_id'', PStr (tb_case b)), (''expected_version'', PInt (tb_version b)),
      (''current_record_hash'', PStr (tb_current b)), (''next_record_hash'', PStr (tb_next b)),
      (''requested_state'', PStr (tb_requested b)), (''decision'', PStr (tb_decision b)), (''actor'', PStr (tb_actor b)),
      (''idempotency_key'', PStr (tb_key b)), (''subject_fingerprint'', PStr fp), (''subject_epoch'', PInt epoch),
      (''required_evidence'', name_list (tb_required b)), (''accepted_evidence'', name_list (tb_accepted b)),
      (''rejected_evidence'', name_list (tb_rejected b)), (''policy_hash'', tb_policy b), (''toolchain_hash'', tb_toolchain b),
      (''controller_id'', PStr (cc_id (le_ctx env))), (''controller_type'', PStr (cc_type (le_ctx env))),
      (''identity_source'', PStr (cc_source (le_ctx env))), (''authentication_mechanism'', PStr (cc_mechanism (le_ctx env)))]"

definition authorization_fields :: "string list" where
  "authorization_fields = [''evidence_id'', ''type'', ''trust_level'', ''producer'', ''repository'', ''created_at'',
     ''invalidated_by'', ''status'', ''metadata'']"

definition validate_transition_authorization :: "life_env \<Rightarrow> pyval \<Rightarrow> transition_binding \<Rightarrow> unit res" where
  "validate_transition_authorization env authorization b =
     (if tb_requested b \<in> set protected_states \<and> tb_accepted b = []
      then Inl (PermissionError ''Protected lifecycle transitions require accepted authoritative evidence'')
      else case authorization of
        PDict a \<Rightarrow>
          let missing = filter (\<lambda>f. \<not> has_key f a) authorization_fields; m = metadata_of a in
          if missing \<noteq> []
          then Inl (PermissionError (''Lifecycle controller authorization is incomplete: '' @ join_with '', '' (sorted_set missing)))
          else bind_res (validate_evidence_record (le_sha env) (le_load env) (evidence_check_of env ''E6'' (tb_subject b)) a) (\<lambda>errors.
          if errors \<noteq> []
          then Inl (PermissionError (''Invalid lifecycle controller authorization: '' @ join_with ''; '' errors))
          else bind_res (checks
            [deny (case le_roots env of None \<Rightarrow> True | Some roots \<Rightarrow> \<not> is_host_accepted_trust_roots roots)
               (PermissionError ''Protected lifecycle authorization requires host-accepted trust-root custody''),
             deny (\<not> py_eq (dget ''type'' a) (PStr ''LIFECYCLE_TRANSITION_AUTHORIZATION''))
               (PermissionError ''Lifecycle authorization has an unsupported type''),
             deny (\<not> py_eq (dget ''producer'' a) (PStr ''platform:lifecycle-controller''))
               (PermissionError ''Lifecycle authorization has an unauthorized producer''),
             deny (\<not> starts_with ''ev-'' (str_or_empty (dget ''evidence_id'' a)))
               (PermissionError ''Lifecycle authorization evidence_id is invalid''),
             deny (\<exists>f \<in> {''event_commitment'', ''event_occurred_at''}. \<not> (is_str (dget f m) \<and> truthy (dget f m)))
               (PermissionError ''Lifecycle controller authorization must commit to its immutable event material'')]) (\<lambda>_.
          bind_res (validate_controller_identity (le_ctx env) (Some (tb_actor b)) (Some m)) (\<lambda>identity_errors.
          if identity_errors \<noteq> []
          then Inl (PermissionError (''Lifecycle controller identity is not authenticated: '' @ join_with ''; '' identity_errors))
          else bind_res (subject_fingerprint (le_sha env) (tb_subject b)) (\<lambda>fp.
          bind_res (py_int (py_or (dget ''subject_epoch'' (tb_subject b)) (PInt 0))) (\<lambda>epoch.
          let mismatches = filter (\<lambda>(f, v). \<not> py_eq (dget f m) v) (binding_fields env b fp epoch) in
          if mismatches \<noteq> []
          then Inl (PermissionError (''Lifecycle controller authorization is not bound to this exact transition: '' @
            join_with '', '' (sorted_set (map fst mismatches))))
          else Inr ())))))
      | _ \<Rightarrow> Inl (PermissionError ''Protected lifecycle transitions require a signed controller authorization''))"

section \<open>Events\<close>

record event_parts =
  ep_case :: string
  ep_key :: string
  ep_actor :: string
  ep_prior :: string
  ep_requested :: string
  ep_decision :: string
  ep_required :: "string list"
  ep_accepted :: "string list"
  ep_rejected :: "string list"
  ep_records :: "pyval list"
  ep_state :: pydict
  ep_hash :: string
  ep_policy :: pyval
  ep_toolchain :: pyval
  ep_risk :: pyval
  ep_domain :: pyval
  ep_auth :: "pydict option"

definition opt_dict :: "pydict option \<Rightarrow> pyval" where
  "opt_dict d = (case d of None \<Rightarrow> PNone | Some d \<Rightarrow> PDict d)"

definition record_id :: "pyval \<Rightarrow> string" where
  "record_id v = str_or_empty (dget ''evidence_id'' (as_dict v))"

definition material_fields_of :: "life_env \<Rightarrow> event_parts \<Rightarrow> string \<Rightarrow> string \<Rightarrow> int \<Rightarrow> pydict \<Rightarrow> int \<Rightarrow> string \<Rightarrow> pydict" where
  "material_fields_of env p occurred prev seq subject epoch fp =
     [(''case_id'', PStr (ep_case p)), (''idempotency_key'', PStr (ep_key p)), (''actor'', PStr (ep_actor p)),
      (''occurred_at'', PStr occurred), (''prior_state'', PStr (ep_prior p)), (''requested_state'', PStr (ep_requested p)),
      (''decision'', PStr (ep_decision p)), (''required_evidence'', name_list (ep_required p)),
      (''accepted_evidence'', name_list (ep_accepted p)),
      (''accepted_evidence_records'', PList (sort_key record_id (ep_records p))),
      (''rejected_evidence'', name_list (ep_rejected p)), (''subject'', PDict subject), (''subject_epoch'', PInt epoch),
      (''subject_fingerprint'', PStr fp), (''policy_hash'', ep_policy p), (''toolchain_hash'', ep_toolchain p),
      (''risk_snapshot'', py_or (ep_risk p) (PDict [])), (''domain_snapshot'', py_or (ep_domain p) (PDict [])),
      (''transition_authorization'', opt_dict (ep_auth p)), (''controller_identity'', PDict (event_identity (le_ctx env))),
      (''store_binding'', PStr (le_binding env)), (''previous_hash'', PStr prev),
      (''current_record_hash'', PStr (ep_hash p)), (''state'', PDict (ep_state p)), (''sequence'', PInt seq)]"

definition build_event_material :: "life_env \<Rightarrow> event_parts \<Rightarrow> string \<Rightarrow> string \<Rightarrow> int \<Rightarrow> pydict res" where
  "build_event_material env p occurred prev seq =
     bind_res (subject_from_record (ep_state p)) (\<lambda>subject.
     if \<not> (\<forall>r \<in> set (ep_records p). is_dict r) then Inl (AttributeError ''get'')
     else bind_res (py_int (py_or (dget ''subject_epoch'' subject) (PInt 0))) (\<lambda>epoch.
     bind_res (subject_fingerprint (le_sha env) subject) (\<lambda>fp.
       Inr (material_fields_of env p occurred prev seq subject epoch fp))))"

text \<open>\<open>event_commitment_material\<close>: everything but the derived seals and the authorization itself.\<close>

definition event_commitment_material :: "pydict \<Rightarrow> pydict" where
  "event_commitment_material event = dset ''event_commitment_version'' (PInt 1)
     (ddel ''record_mac'' (ddel ''record_hash'' (ddel ''transition_authorization'' event)))"

definition event_commitment :: "life_env \<Rightarrow> pydict \<Rightarrow> string" where
  "event_commitment env event = life_hash env (event_commitment_material event)"

definition scalar_columns :: "string list" where
  "scalar_columns = [''case_id'', ''idempotency_key'', ''actor'', ''occurred_at'', ''prior_state'', ''requested_state'',
     ''decision'', ''subject_epoch'', ''subject_fingerprint'', ''policy_hash'', ''toolchain_hash'', ''previous_hash'',
     ''current_record_hash'']"

definition json_columns :: "string list" where
  "json_columns = [''required_evidence'', ''accepted_evidence'', ''rejected_evidence'', ''subject'', ''risk_snapshot'',
     ''domain_snapshot'']"

definition event_row_of :: "life_env \<Rightarrow> int \<Rightarrow> pydict \<Rightarrow> life_event" where
  "event_row_of env seq m = (let h = life_hash env m in
     \<lparr>lv_seq = seq, lv_scalars = map (\<lambda>f. (f, dget f m)) scalar_columns,
       lv_jsons = map (\<lambda>f. (f, Some (sort_keys (dget f m)))) json_columns, lv_record = stored m,
       lv_hash = h, lv_mac = event_mac env h\<rparr>)"

definition last_event :: "life_event list \<Rightarrow> life_event option" where
  "last_event es = (case sort_key lv_seq es of [] \<Rightarrow> None | x # xs \<Rightarrow> Some (last (x # xs)))"

definition head_hash :: "life_db \<Rightarrow> string" where
  "head_hash db = (case last_event (ld_events db) of None \<Rightarrow> life_genesis | Some e \<Rightarrow> lv_hash e)"

definition next_sequence :: "life_db \<Rightarrow> int" where
  "next_sequence db = (case last_event (ld_events db) of None \<Rightarrow> 0 | Some e \<Rightarrow> lv_seq e) + 1"

definition event_key :: "life_event \<Rightarrow> pyval" where
  "event_key e = dget ''idempotency_key'' (lv_scalars e)"

definition event_case :: "life_event \<Rightarrow> pyval" where
  "event_case e = dget ''case_id'' (lv_scalars e)"

definition event_time :: "life_env \<Rightarrow> pydict option \<Rightarrow> string res" where
  "event_time env auth =
     (case auth of
        None \<Rightarrow> Inr (le_now_text env)
      | Some a \<Rightarrow>
          let t = str_or_empty (dget ''event_occurred_at'' (metadata_of a)) in
          if t = [] \<or> \<not> py_eq (dget ''created_at'' a) (PStr t)
          then Inl (PermissionError ''Lifecycle authorization timestamp is not bound to its event'')
          else Inr t)"

definition append_event_tx :: "life_env \<Rightarrow> event_parts \<Rightarrow> life_db \<Rightarrow> life_db res" where
  "append_event_tx env p db =
     bind_res (event_time env (ep_auth p)) (\<lambda>t.
     bind_res (build_event_material env p t (head_hash db) (next_sequence db)) (\<lambda>m.
       if (case ep_auth p of None \<Rightarrow> False
           | Some a \<Rightarrow> \<not> py_eq (dget ''event_commitment'' (metadata_of a)) (PStr (event_commitment env m)))
       then Inl (PermissionError ''Lifecycle authorization is not bound to the exact event material'')
       else let e = event_row_of env (next_sequence db) m in
         if event_key e \<in> event_key ` set (ld_events db) \<or> lv_hash e \<in> lv_hash ` set (ld_events db)
         then Inl (IntegrityError ''UNIQUE constraint failed: lifecycle_events'')
         else Inr (db\<lparr>ld_events := ld_events db @ [e]\<rparr>)))"

section \<open>Opening a case\<close>

definition set_default :: "string \<Rightarrow> pyval \<Rightarrow> pydict \<Rightarrow> pydict" where
  "set_default k v d = (if has_key k d then d else d @ [(k, v)])"

definition initial_document :: "life_env \<Rightarrow> pydict \<Rightarrow> pydict res" where
  "initial_document env r =
     bind_res (py_int (py_or (dget ''subject_version''
         (set_default ''subject_epoch'' (PInt 0) (dset ''authority_store'' (PStr ''controller-owned-sqlite'')
           (dset ''authoritative_lifecycle'' (PBool True) r)))) (PInt 1))) (\<lambda>version.
     let d = set_default ''closure_class'' PNone (set_default ''final_state'' PNone
           (set_default ''last_completed_state'' (PStr ''UNVERIFIED_REPORT'') (dset ''subject_version'' (PInt (max version 1))
           (set_default ''subject_epoch'' (PInt 0) (dset ''authority_store'' (PStr ''controller-owned-sqlite'')
           (dset ''authoritative_lifecycle'' (PBool True) r)))))) in
     bind_res (validate_risk_and_domains [] d) (\<lambda>_.
     bind_res (validate_subject (le_sha env) d (truthy (dget ''merged_main_sha'' d))) (\<lambda>(errors, _).
     if errors \<noteq> [] then Inl (ValueError (''Invalid lifecycle subject: '' @ join_with ''; '' errors))
     else bind_res (subject_fingerprint (le_sha env) d) (\<lambda>fp. Inr (dset ''subject_fingerprint'' (PStr fp) d)))))"

definition initial_parts :: "string \<Rightarrow> string \<Rightarrow> string \<Rightarrow> pydict \<Rightarrow> string \<Rightarrow> event_parts" where
  "initial_parts case_id key actor d h = \<lparr>ep_case = case_id, ep_key = key, ep_actor = actor, ep_prior = ''<GENESIS>'',
     ep_requested = (let s = dget ''state'' d in py_str (py_or s (PStr ''UNVERIFIED_REPORT''))), ep_decision = ''INITIALIZED'',
     ep_required = [], ep_accepted = [], ep_rejected = [], ep_records = [], ep_state = d, ep_hash = h,
     ep_policy = dget ''policy_bundle_hash'' d, ep_toolchain = dget ''toolchain_hash'' d, ep_risk = PNone, ep_domain = PNone,
     ep_auth = None\<rparr>"

text \<open>
  The transaction of \<open>initialize\<close>: the new store, or the snapshot of the case when the same
  document is already there.
\<close>

definition life_initialize :: "life_env \<Rightarrow> pydict \<Rightarrow> string option \<Rightarrow> string option \<Rightarrow> life_db \<Rightarrow> (life_db \<times> pydict option) res" where
  "life_initialize env r actor key db =
     (if \<not> truthy (dget ''case_id'' r) then Inl (ValueError ''Lifecycle record with case_id is required'')
      else bind_res (resolve_actor env actor) (\<lambda>actor.
        if str_or_empty (dget ''state'' r) \<noteq> ''UNVERIFIED_REPORT''
        then Inl (ValueError ''Authoritative lifecycle initialization must begin at UNVERIFIED_REPORT'')
        else let case_id = py_str (dget ''case_id'' r) in
        bind_res (initial_document env r) (\<lambda>d.
        let key = (case key of Some (c # cs) \<Rightarrow> c # cs
               | _ \<Rightarrow> ''initialize:'' @ case_id @ '':'' @ py_str (dget ''subject_fingerprint'' d)); h = life_hash env d in
        case tbl_get lc_id case_id (ld_cases db) of
          Some row \<Rightarrow>
            bind_res (life_snapshot row) (\<lambda>current.
              if life_hash env (as_dict (case lc_state row of None \<Rightarrow> PNone | Some v \<Rightarrow> v)) \<noteq> lc_hash row
              then Inl (RuntimeError ''Lifecycle current record hash is invalid'')
              else if \<not> py_eq (case lc_state row of None \<Rightarrow> PNone | Some v \<Rightarrow> v) (PDict d)
              then Inl (RuntimeError ''Lifecycle initialization key was reused for a different initial state'')
              else Inr (db, Some (dset ''idempotent_replay'' (PBool True) current)))
        | None \<Rightarrow>
            bind_res (py_int (py_or (dget ''subject_epoch'' d) (PInt 0))) (\<lambda>epoch.
            bind_res (append_event_tx env (initial_parts case_id key actor d h)
              (db\<lparr>ld_cases := ld_cases db @ [\<lparr>lc_id = case_id, lc_version = 1, lc_epoch = epoch, lc_state = stored d,
                 lc_hash = h, lc_updated = le_now_text env\<rparr>]\<rparr>)) (\<lambda>db'. Inr (db', None))))))"

section \<open>Transitions\<close>

record life_request =
  rq_actor :: "string option"
  rq_expected :: int
  rq_requested :: string
  rq_decision :: string
  rq_required :: "string list"
  rq_accepted :: "string list"
  rq_records :: "pyval list"
  rq_rejected :: "string list"
  rq_policy :: "string option"
  rq_toolchain :: "string option"
  rq_risk :: "pydict option"
  rq_domain :: "pydict option"
  rq_key :: "string option"
  rq_auth :: "pydict option"

definition state_name :: "pydict \<Rightarrow> string" where
  "state_name d = str_or_empty (dget ''state'' d)"

definition next_document :: "life_env \<Rightarrow> pydict \<Rightarrow> pydict res" where
  "next_document env d =
     (let d1 = dset ''authority_store'' (PStr ''controller-owned-sqlite'') (dset ''authoritative_lifecycle'' (PBool True)
            (ddel ''idempotent_replay'' d));
          d2 = (if state_name d1 \<in> set authoritative_states
            then dset ''last_completed_state'' (PStr (py_str (dget ''state'' d1))) d1 else d1)
      in bind_res (subject_fingerprint (le_sha env) d2) (\<lambda>fp. Inr (dset ''subject_fingerprint'' (PStr fp) d2)))"

definition changed_keys :: "pydict \<Rightarrow> pydict \<Rightarrow> string list" where
  "changed_keys current next_state =
     filter (\<lambda>k. \<not> py_eq (dget k current) (dget k next_state)) (remdups (dkeys current @ dkeys next_state))"

text \<open>\<open>value not in {None, other}\<close> for a hashable \<open>other\<close>.\<close>

definition alias_check :: "pyval \<Rightarrow> pyval \<Rightarrow> string \<Rightarrow> unit res" where
  "alias_check v other e =
     (if \<not> hashable v then Inl (TypeError ''unhashable type'')
      else deny (v \<noteq> PNone \<and> \<not> py_eq v other) (PermissionError e))"

definition model_of :: "pydict \<Rightarrow> pydict \<Rightarrow> string" where
  "model_of current next_state =
     py_str (py_or (py_or (dget ''delivery_model'' next_state) (dget ''delivery_model'' current)) (PStr ''HOSTED_RUNTIME_SERVICE''))"

definition name_guards :: "string \<Rightarrow> string \<Rightarrow> string \<Rightarrow> string \<Rightarrow> unit res" where
  "name_guards model next_name requested decision =
     checks
       [deny (next_name \<notin> set authoritative_states \<and> next_name \<notin> {''BLOCKED'', ''ROLLBACK_REQUIRED''})
          (ValueError ''Unknown authoritative lifecycle state''),
        deny (requested \<notin> set authoritative_states \<and> requested \<noteq> ''ROLLBACK_REQUIRED'')
          (ValueError ''Requested lifecycle state is not authoritative''),
        deny (model = ''PACKAGE_OR_PLUGIN'' \<and> ''ROLLBACK_REQUIRED'' \<in> {next_name, requested})
          (PermissionError ''Package-only delivery uses release revoke or replacement recovery, not runtime rollback''),
        deny (model = ''PACKAGE_OR_PLUGIN'' \<and> (\<exists>s \<in> {next_name, requested}. s \<in> set runtime_states))
          (PermissionError ''Package-only delivery cannot enter runtime deployment lifecycle states''),
        deny (model \<notin> {''PACKAGE_OR_PLUGIN'', ''HYBRID''} \<and> (\<exists>s \<in> {next_name, requested}. s \<in> set package_states))
          (PermissionError ''Only package or hybrid delivery may enter package lifecycle states''),
        deny (decision \<notin> set ([''PROCEED'', ''BLOCKED'', ''ROLLBACK_REQUIRED''] @ binding_decisions))
          (ValueError ''Unknown lifecycle transition decision'')]"

definition subject_guard :: "life_env \<Rightarrow> pydict \<Rightarrow> string list res" where
  "subject_guard env d = bind_res (validate_subject (le_sha env) d (truthy (dget ''merged_main_sha'' d))) (\<lambda>(errors, _). Inr errors)"

definition subject_guards :: "life_env \<Rightarrow> pydict \<Rightarrow> pydict \<Rightarrow> string \<Rightarrow> pydict res" where
  "subject_guards env current next_state decision =
     bind_res (subject_guard env current) (\<lambda>current_errors.
     bind_res (subject_guard env next_state) (\<lambda>next_errors.
     if current_errors \<noteq> [] then Inl (ValueError (''Current lifecycle subject is invalid: '' @ join_with ''; '' current_errors))
     else if next_errors \<noteq> [] then Inl (ValueError (''Next lifecycle subject is invalid: '' @ join_with ''; '' next_errors))
     else bind_res (validate_risk_and_domains current next_state) (\<lambda>_.
     bind_res (subject_from_record current) (\<lambda>current_subject.
     bind_res (subject_from_record next_state) (\<lambda>next_subject.
     bind_res (material_subject_changes current_subject next_subject) (\<lambda>changes.
     bind_res (validate_subject_epoch_transition (le_sha env) current next_state) (\<lambda>epoch_errors.
     if epoch_errors \<noteq> [] then Inl (PermissionError (''Invalid subject_epoch transition: '' @ join_with ''; '' epoch_errors))
     else bind_res (checks
       [deny (changes \<noteq> [] \<and> decision \<notin> set binding_decisions)
          (PermissionError ''Material subject changes require an explicit subject-binding decision''),
        alias_check (dget ''base_sha'' next_state) (dget ''protected_base_sha'' next_subject)
          ''Legacy base_sha is inconsistent with protected_base_sha'',
        alias_check (dget ''head_sha'' next_state) (py_or (dget ''merged_main_sha'' next_subject) (dget ''pr_head_sha'' next_subject))
          ''Legacy head_sha is inconsistent with the active subject revision'',
        alias_check (dget ''diff_hash'' next_state) (dget ''reviewed_diff_hash'' next_subject)
          ''Legacy diff_hash is inconsistent with reviewed_diff_hash'',
        deny (\<not> py_eq (dget ''subject_version'' next_subject) (dget ''subject_version'' current_subject))
          (PermissionError ''subject_version is controller-owned and cannot be changed directly''),
        deny (changes = [] \<and> \<not> py_eq (dget ''subject_epoch'' next_subject) (dget ''subject_epoch'' current_subject))
          (PermissionError ''subject_epoch may change only with a material subject mutation'')]) (\<lambda>_. Inr changes))))))))"

fun any_res :: "('a \<Rightarrow> bool res) \<Rightarrow> 'a list \<Rightarrow> bool res" where
  "any_res f [] = Inr False"
| "any_res f (x # xs) = bind_res (f x) (\<lambda>b. if b then Inr True else any_res f xs)"

definition names_in :: "pyval \<Rightarrow> string list res" where
  "names_in v = bind_res (py_list (py_or v (PList []))) (\<lambda>vs. Inr (map py_str vs))"

definition archived :: "pydict \<Rightarrow> string \<Rightarrow> bool res" where
  "archived history ref = bind_res (names_in (dget_default ''__all__'' (PList []) history)) (\<lambda>every.
     if ref \<in> set every then Inr True
     else any_res (\<lambda>(_, refs). bind_res (names_in refs) (\<lambda>names. Inr (ref \<in> set names))) history)"

definition unarchived :: "pydict \<Rightarrow> pydict \<Rightarrow> string list res" where
  "unarchived old_refs history =
     fold_res (\<lambda>(_, refs) missing. bind_res (names_in refs) (\<lambda>names.
       fold_res (\<lambda>r missing. bind_res (archived history r) (\<lambda>b. Inr (if b then missing else missing @ [r]))) names missing)) old_refs []"

definition mutation_guards :: "life_env \<Rightarrow> pydict \<Rightarrow> pydict \<Rightarrow> string list \<Rightarrow> unit res" where
  "mutation_guards env current next_state changes =
     bind_res (subject_from_record current) (\<lambda>current_subject.
     bind_res (subject_from_record next_state) (\<lambda>next_subject.
     bind_res (py_int (py_or (dget ''subject_epoch'' next_subject) (PInt 0))) (\<lambda>next_epoch.
     bind_res (py_int (py_or (dget ''subject_epoch'' current_subject) (PInt 0))) (\<lambda>current_epoch.
     if next_epoch \<noteq> current_epoch + 1
     then Inl (PermissionError ''Material subject mutation must increment subject_epoch exactly once'')
     else bind_res (subject_fingerprint (le_sha env) next_state) (\<lambda>fp.
     if \<not> py_eq (dget ''subject_fingerprint'' next_state) (PStr fp)
     then Inl (PermissionError ''Subject mutation fingerprint is invalid'')
     else if dget ''evidence_refs'' next_state \<notin> {PDict [], PNone}
     then Inl (PermissionError ''Material subject mutation must clear current evidence references'')
     else case as_list (dget ''subject_mutations'' next_state) of
       [] \<Rightarrow> Inl (PermissionError ''Subject mutation history does not describe the exact changed fields'')
     | m # ms \<Rightarrow>
         (case last (m # ms) of
            PDict d \<Rightarrow> bind_res (py_set (dget ''changed_fields'' d)) (\<lambda>fields.
              deny (\<not> py_set_eq fields (map PStr changes))
                (PermissionError ''Subject mutation history does not describe the exact changed fields''))
          | _ \<Rightarrow> Inl (AttributeError ''get'')))))))"

definition binding_guards :: "life_env \<Rightarrow> pydict \<Rightarrow> pydict \<Rightarrow> string list \<Rightarrow> unit res" where
  "binding_guards env current next_state changes =
     (let unexpected = filter (\<lambda>k. k \<notin> set subject_mutation_fields) (changed_keys current next_state) in
      if unexpected \<noteq> []
      then Inl (PermissionError (''Subject binding attempted to mutate non-subject lifecycle fields: '' @
        join_with '', '' (sorted_set unexpected)))
      else bind_res (if changes \<noteq> [] then mutation_guards env current next_state changes
        else deny (\<not> py_eq (PDict next_state) (PDict current))
          (PermissionError ''Subject binding without a material subject change must be a no-op'')) (\<lambda>_.
      bind_res (unarchived (as_dict (dget ''evidence_refs'' current)) (as_dict (dget ''historical_evidence_refs'' next_state))) (\<lambda>missing.
        deny (missing \<noteq> []) (PermissionError ''Subject mutation must archive all incompatible evidence references''))))"

definition field_guards :: "pydict \<Rightarrow> pydict \<Rightarrow> unit res" where
  "field_guards current next_state =
     (let unexpected = filter (\<lambda>k. k \<notin> set (lifecycle_mutation_fields @
            [''authoritative_lifecycle'', ''authority_store'', ''store_version'', ''store_record_hash''])) (changed_keys current next_state) in
      deny (unexpected \<noteq> []) (PermissionError (''Lifecycle transition attempted to mutate unbound fields: '' @
        join_with '', '' (sorted_set unexpected))))"

text \<open>The state a blocked case stands at.\<close>

definition logical_state :: "pydict \<Rightarrow> string" where
  "logical_state d = (if state_name d = ''BLOCKED'' then str_or_empty (dget ''resume_state'' d) else state_name d)"

text \<open>\<open>value not in {None, ""}\<close> as a reason to refuse.\<close>

definition empty_check :: "pyval \<Rightarrow> unit res" where
  "empty_check v =
     (if \<not> hashable v then Inl (TypeError ''unhashable type'')
      else deny (v \<noteq> PNone \<and> v \<noteq> PStr []) (PermissionError ''Non-terminal lifecycle states cannot declare a closure''))"

definition order_guards :: "pydict \<Rightarrow> pydict \<Rightarrow> string \<Rightarrow> string \<Rightarrow> unit res" where
  "order_guards current next_state requested decision =
     (let binding = decision \<in> set binding_decisions; next_name = state_name next_state; current_name = state_name current;
          allowed = allowed_transitions (logical_state current); resume = str_or_empty (dget ''resume_state'' next_state) in
      checks
       ([deny (binding \<and> next_name \<notin> {current_name, ''BLOCKED'', ''ROLLBACK_REQUIRED''})
           (PermissionError ''Subject binding may not advance the authoritative lifecycle'')] @
        (if next_name \<in> set authoritative_states then
           [deny (\<not> py_eq (dget ''last_completed_state'' next_state) (PStr next_name))
              (PermissionError ''Lifecycle last_completed_state must match the requested state''),
            deny (\<not> binding \<and> decision \<noteq> ''PROCEED'')
              (PermissionError ''Authoritative lifecycle advancement requires a PROCEED decision''),
            deny ((requested \<noteq> next_name \<or> (\<not> binding \<and> requested \<notin> set allowed)) \<and> binding \<and> requested \<noteq> current_name)
              (PermissionError ''Subject binding may not advance the authoritative lifecycle''),
            deny (\<not> binding \<and> requested \<notin> set allowed)
              (PermissionError ''Lifecycle store cannot bypass the authoritative transition order'')]
         else if next_name = ''ROLLBACK_REQUIRED'' then
           [deny (\<not> binding \<and> decision \<noteq> ''ROLLBACK_REQUIRED'')
              (PermissionError ''Rollback lifecycle writes require a rollback controller decision'')]
         else if next_name = ''BLOCKED'' \<and> \<not> binding then
           [deny (decision \<noteq> ''BLOCKED'') (PermissionError ''Blocked lifecycle writes require a blocking controller decision'')]
         else []) @
        [deny (next_name = ''BLOCKED'' \<and> decision \<notin> set (''BLOCKED'' # binding_decisions))
           (PermissionError ''Blocked lifecycle writes require a blocking controller decision'')] @
        (if next_name = ''BLOCKED'' then
           [deny (resume \<notin> set state_order) (PermissionError ''Blocked lifecycle state requires a valid resume_state''),
            deny (logical_state current \<notin> set state_order)
              (PermissionError ''Blocked lifecycle state has an invalid current state''),
            deny (index_of resume state_order > index_of (logical_state current) state_order)
              (PermissionError ''Blocked lifecycle state cannot resume at a future state'')]
         else []) @
        [deny (next_name = ''ROLLBACK_REQUIRED'' \<and>
            decision \<notin> {''ROLLBACK_REQUIRED'', ''SUBJECT_MUTATION_INVALIDATED_DOWNSTREAM''})
           (PermissionError ''Rollback lifecycle writes require a rollback controller decision'')]))"

definition closure_guards :: "pydict \<Rightarrow> pydict \<Rightarrow> string \<Rightarrow> string list \<Rightarrow> unit res" where
  "closure_guards current next_state model required =
     (let next_name = state_name next_state; current_name = state_name current; class = dget ''closure_class'' next_state in
      checks
       (if next_name \<in> set closed_states then
          [deny (\<not> py_eq (dget ''final_state'' next_state) (PStr next_name))
             (PermissionError ''Terminal lifecycle state must declare the same final_state'')] @
          (if next_name = ''RESOLVED_NO_CODE'' then
             [deny (\<not> py_eq class (PStr ''RESOLVED_NO_CODE'')) (PermissionError ''RESOLVED_NO_CODE must declare its closure class''),
              deny (''RESOLVED_NO_CODE_PROVEN'' \<notin> set required)
                (PermissionError ''RESOLVED_NO_CODE requires its authoritative evidence type'')]
           else
             [deny (current_name = ''POST_DEPLOY_VERIFIED'' \<and> \<not> py_eq class (PStr ''CODE_FIX''))
                (PermissionError ''Code-fix closure must declare CODE_FIX''),
              deny (current_name = ''CONSUMER_VALIDATION_PASS'' \<and> \<not> py_eq class (PStr ''PACKAGE_RELEASE''))
                (PermissionError ''Package closure must declare PACKAGE_RELEASE''),
              deny (model = ''HYBRID'' \<and> current_name \<noteq> ''POST_DEPLOY_VERIFIED'' \<and> current_name \<noteq> ''ROLLBACK_REQUIRED'')
                (PermissionError ''Hybrid closure must complete the runtime post-deploy path after package validation''),
              deny (current_name = ''ROLLBACK_REQUIRED'' \<and> \<not> py_eq class (PStr ''ROLLBACK_CLOSURE''))
                (PermissionError ''Rollback closure must declare ROLLBACK_CLOSURE'')])
        else
          [empty_check (dget ''final_state'' next_state), empty_check class]))"

text \<open>Everything \<open>transition\<close> checks before the evidence, in its order; the epoch check is the last of them.\<close>

definition transition_guards :: "life_env \<Rightarrow> pydict \<Rightarrow> pydict \<Rightarrow> life_request \<Rightarrow> unit res" where
  "transition_guards env current next_state rq =
     (let model = model_of current next_state; decision = rq_decision rq; requested = rq_requested rq in
      bind_res (name_guards model (state_name next_state) requested decision) (\<lambda>_.
      bind_res (subject_guards env current next_state decision) (\<lambda>changes.
      bind_res (if decision \<in> set binding_decisions then binding_guards env current next_state (dkeys changes)
        else field_guards current next_state) (\<lambda>_.
      bind_res (order_guards current next_state requested decision) (\<lambda>_.
      bind_res (closure_guards current next_state model (rq_required rq)) (\<lambda>_.
      bind_res (py_int (py_or (dget ''subject_epoch'' next_state) (PInt 0))) (\<lambda>next_epoch.
      bind_res (py_int (py_or (dget ''subject_epoch'' current) (PInt 0))) (\<lambda>current_epoch.
        deny (next_epoch < current_epoch) (PermissionError ''Lifecycle subject_epoch cannot decrease'')))))))))"

definition policy_of :: "life_request \<Rightarrow> pydict \<Rightarrow> pyval" where
  "policy_of rq d = py_or (opt_str (rq_policy rq)) (dget ''policy_bundle_hash'' d)"

definition toolchain_of :: "life_request \<Rightarrow> pydict \<Rightarrow> pyval" where
  "toolchain_of rq d = py_or (opt_str (rq_toolchain rq)) (dget ''toolchain_hash'' d)"

definition binding_of ::
  "string \<Rightarrow> string \<Rightarrow> string \<Rightarrow> pydict \<Rightarrow> string \<Rightarrow> string \<Rightarrow> pydict \<Rightarrow> life_request \<Rightarrow> transition_binding" where
  "binding_of case_id actor key subject current_hash next_hash next_state rq =
     \<lparr>tb_case = case_id, tb_version = rq_expected rq, tb_current = current_hash, tb_next = next_hash,
       tb_requested = rq_requested rq, tb_decision = rq_decision rq, tb_actor = actor, tb_key = key, tb_subject = subject,
       tb_required = rq_required rq, tb_accepted = rq_accepted rq, tb_rejected = rq_rejected rq,
       tb_policy = policy_of rq next_state, tb_toolchain = toolchain_of rq next_state\<rparr>"

text \<open>The evidence and the authorization of a protected state; the accepted records.\<close>

definition protected_guards ::
  "life_env \<Rightarrow> string \<Rightarrow> string \<Rightarrow> string \<Rightarrow> string \<Rightarrow> string \<Rightarrow> pydict \<Rightarrow> life_request \<Rightarrow> pyval list res" where
  "protected_guards env case_id actor key current_hash next_hash next_state rq =
     (if state_name next_state \<notin> set protected_states then Inr []
      else bind_res (subject_from_record next_state) (\<lambda>subject.
        bind_res (validate_accepted_evidence env (rq_records rq) case_id subject (rq_required rq) (rq_accepted rq)) (\<lambda>records.
        bind_res (validate_transition_authorization env (opt_dict (rq_auth rq))
          (binding_of case_id actor key subject current_hash next_hash next_state rq)) (\<lambda>_. Inr records))))"

definition parts_of ::
  "string \<Rightarrow> string \<Rightarrow> string \<Rightarrow> pydict \<Rightarrow> string \<Rightarrow> pydict \<Rightarrow> pyval list \<Rightarrow> life_request \<Rightarrow> event_parts" where
  "parts_of case_id actor key current next_hash next_state records rq =
     \<lparr>ep_case = case_id, ep_key = key, ep_actor = actor, ep_prior = py_str (dget ''state'' current),
       ep_requested = rq_requested rq, ep_decision = rq_decision rq, ep_required = rq_required rq,
       ep_accepted = rq_accepted rq, ep_rejected = rq_rejected rq, ep_records = records, ep_state = next_state,
       ep_hash = next_hash, ep_policy = policy_of rq next_state, ep_toolchain = toolchain_of rq next_state,
       ep_risk = py_or (opt_dict (rq_risk rq))
         (PDict [(''risk'', dget ''risk'' next_state), (''risk_class'', dget ''risk_class'' next_state)]),
       ep_domain = py_or (opt_dict (rq_domain rq)) (PDict [(''domains'', dget_default ''domains'' (PList []) next_state)]),
       ep_auth = rq_auth rq\<rparr>"

text \<open>The fields of an earlier event that a repeated key must agree with.\<close>

definition replay_fields :: "life_env \<Rightarrow> event_parts \<Rightarrow> pydict res" where
  "replay_fields env p =
     bind_res (subject_from_record (ep_state p)) (\<lambda>subject.
     bind_res (py_int (py_or (dget ''subject_epoch'' subject) (PInt 0))) (\<lambda>epoch.
     bind_res (subject_fingerprint (le_sha env) subject) (\<lambda>fp.
       Inr [(''case_id'', PStr (ep_case p)), (''actor'', PStr (ep_actor p)), (''prior_state'', PStr (ep_prior p)),
         (''requested_state'', PStr (ep_requested p)), (''decision'', PStr (ep_decision p)),
         (''required_evidence'', name_list (ep_required p)), (''accepted_evidence'', name_list (ep_accepted p)),
         (''rejected_evidence'', name_list (ep_rejected p)), (''subject'', PDict subject), (''subject_epoch'', PInt epoch),
         (''subject_fingerprint'', PStr fp), (''policy_hash'', ep_policy p), (''toolchain_hash'', ep_toolchain p),
         (''current_record_hash'', PStr (ep_hash p)), (''state'', PDict (ep_state p)),
         (''transition_authorization'', opt_dict (ep_auth p)), (''accepted_evidence_records'', PList (ep_records p))])))"

definition transition_key :: "string \<Rightarrow> string \<Rightarrow> life_request \<Rightarrow> string" where
  "transition_key case_id next_hash rq =
     (case rq_key rq of Some (c # cs) \<Rightarrow> c # cs
      | _ \<Rightarrow> ''transition:'' @ case_id @ '':'' @ int_str (rq_expected rq) @ '':'' @ rq_requested rq @ '':'' @ next_hash)"

definition case_written :: "life_env \<Rightarrow> int \<Rightarrow> int \<Rightarrow> pydict \<Rightarrow> string \<Rightarrow> life_case \<Rightarrow> life_case" where
  "case_written env version epoch d h row =
     row\<lparr>lc_version := version, lc_epoch := epoch, lc_state := stored d, lc_hash := h, lc_updated := le_now_text env\<rparr>"

text \<open>The write of a transition: the event, then the row of the case at the expected version.\<close>

definition commit_transition :: "life_env \<Rightarrow> event_parts \<Rightarrow> int \<Rightarrow> life_db \<Rightarrow> life_db res" where
  "commit_transition env p expected db =
     bind_res (append_event_tx env p db) (\<lambda>db'.
     bind_res (subject_from_record (ep_state p)) (\<lambda>subject.
     bind_res (py_int (py_or (py_or (dget ''subject_epoch'' (ep_state p)) (dget ''subject_epoch'' subject)) (PInt 0))) (\<lambda>epoch.
       if rowcount (\<lambda>r. lc_id r = ep_case p \<and> lc_version r = expected) (ld_cases db') \<noteq> 1
       then Inl (RuntimeError ''Optimistic concurrency conflict: lifecycle update was not applied'')
       else Inr (db'\<lparr>ld_cases := tbl_upd (\<lambda>r. lc_id r = ep_case p \<and> lc_version r = expected)
              (case_written env (expected + 1) epoch (ep_state p) (ep_hash p)) (ld_cases db')\<rparr>))))"

text \<open>
  The transaction of \<open>transition\<close>: the new store and whether the request was a replay of an event
  that was recorded before.
\<close>

definition life_transition_tx :: "life_env \<Rightarrow> string \<Rightarrow> pydict \<Rightarrow> life_request \<Rightarrow> life_db \<Rightarrow> (life_db \<times> bool) res" where
  "life_transition_tx env case_id state rq db =
     bind_res (resolve_actor env (rq_actor rq)) (\<lambda>actor.
     if \<not> py_eq (dget ''case_id'' state) (PStr case_id) then Inl (ValueError ''Transition state case_id mismatch'')
     else bind_res (next_document env state) (\<lambda>next_state.
     let next_hash = life_hash env next_state; key = transition_key case_id next_hash rq in
     case tbl_get lc_id case_id (ld_cases db) of
       None \<Rightarrow> Inl (KeyError case_id)
     | Some row \<Rightarrow>
         bind_res (life_snapshot row) (\<lambda>current.
         if lc_version row \<noteq> rq_expected rq
         then Inl (RuntimeError ''Optimistic concurrency conflict: stale lifecycle version'')
         else if life_hash env (as_dict (the (lc_state row))) \<noteq> lc_hash row
         then Inl (RuntimeError ''Lifecycle current record hash is invalid'')
         else bind_res (transition_guards env current next_state rq) (\<lambda>_.
         bind_res (protected_guards env case_id actor key (lc_hash row) next_hash next_state rq) (\<lambda>records.
         let p = parts_of case_id actor key current next_hash next_state records rq in
         case find (\<lambda>e. py_eq (event_key e) (PStr key)) (ld_events db) of
           Some e \<Rightarrow>
             bind_res (replay_fields env p) (\<lambda>fields.
             let mismatches = filter (\<lambda>(f, v). \<not> py_eq (dget f (life_event_dict e)) v) fields in
             if mismatches \<noteq> []
             then Inl (RuntimeError (''idempotency key was reused for a different lifecycle request: '' @
               join_with '', '' (sorted_set (map fst mismatches))))
             else Inr (db, True))
         | None \<Rightarrow> bind_res (commit_transition env p (rq_expected rq) db) (\<lambda>db'. Inr (db', False)))))))"

text \<open>\<open>prepare_transition_authorization\<close>: what a controller signs, computed without a write.\<close>

record prepared_transition =
  pt_case :: string
  pt_version :: int
  pt_key :: string
  pt_occurred :: string
  pt_sequence :: int
  pt_previous :: string
  pt_commitment :: string
  pt_hash :: string

definition prepare_transition_authorization ::
  "life_env \<Rightarrow> string \<Rightarrow> pydict \<Rightarrow> life_request \<Rightarrow> string option \<Rightarrow> life_db \<Rightarrow> prepared_transition res" where
  "prepare_transition_authorization env case_id state rq occurred db =
     bind_res (resolve_actor env (rq_actor rq)) (\<lambda>actor.
     if \<not> py_eq (dget ''case_id'' state) (PStr case_id) then Inl (ValueError ''Transition state case_id mismatch'')
     else bind_res (next_document env state) (\<lambda>next_state.
     let next_hash = life_hash env next_state; key = transition_key case_id next_hash rq;
         occurred_at = (case occurred of Some (c # cs) \<Rightarrow> c # cs | _ \<Rightarrow> le_now_text env) in
     case tbl_get lc_id case_id (ld_cases db) of
       None \<Rightarrow> Inl (KeyError case_id)
     | Some row \<Rightarrow>
         if lc_version row \<noteq> rq_expected rq
         then Inl (RuntimeError ''Optimistic concurrency conflict: stale lifecycle version'')
         else (case lc_state row of
           Some (PDict current) \<Rightarrow>
             bind_res (build_event_material env
               ((parts_of case_id actor key current next_hash next_state (rq_records rq) rq)\<lparr>ep_prior := state_name current, ep_auth := None\<rparr>)
               occurred_at (head_hash db) (next_sequence db)) (\<lambda>m.
             Inr \<lparr>pt_case = case_id, pt_version = rq_expected rq, pt_key = key, pt_occurred = occurred_at,
               pt_sequence = next_sequence db, pt_previous = head_hash db, pt_commitment = event_commitment env m,
               pt_hash = next_hash\<rparr>)
         | Some _ \<Rightarrow> Inl (AttributeError ''get'')
         | None \<Rightarrow> Inl (ValueError ''JSONDecodeError''))))"

end
