(* ===== verification/Life_Verify.thy ===== *)
theory Life_Verify
  imports Life_Store
begin

text \<open>
  \<open>lifecycle_store.py\<close>, reading: \<open>verify_event_chain\<close> replays every event against the rules of the
  store, and \<open>get\<close>, \<open>export\<close>, \<open>initialize\<close>, \<open>transition\<close> and \<open>mutate_subject\<close> return only what it
  has verified. A transaction commits before that verification.
\<close>

section \<open>Verification of the event chain\<close>

fun exn_text :: "py_exn \<Rightarrow> string" where
  "exn_text (ValueError s) = s"
| "exn_text (PermissionError s) = s"
| "exn_text (KeyError s) = py_repr (PStr s)"
| "exn_text (RuntimeError s) = s"
| "exn_text (IntegrityError s) = s"
| "exn_text RecursionError = ''maximum recursion depth exceeded''"
| "exn_text (AttributeError s) = s"
| "exn_text (TypeError s) = s"
| "exn_text (OverflowError s) = s"
| "exn_text (ConfigurationError s) = s"

text \<open>\<open>try: ... except (PermissionError, ValueError) as exc\<close>.\<close>

definition refusal :: "'a res \<Rightarrow> string \<Rightarrow> string list res" where
  "refusal r label =
     (case r of
        Inr _ \<Rightarrow> Inr []
      | Inl (PermissionError s) \<Rightarrow> Inr [label @ s]
      | Inl (ValueError s) \<Rightarrow> Inr [label @ s]
      | Inl e \<Rightarrow> Inl e)"

definition json_column_value :: "life_event \<Rightarrow> string \<Rightarrow> pyval option" where
  "json_column_value row f = (case map_of (lv_jsons row) f of Some v \<Rightarrow> v | None \<Rightarrow> None)"

definition column_errors :: "life_event \<Rightarrow> pydict \<Rightarrow> string list" where
  "column_errors row event =
     concat (map (\<lambda>f. err_if (json_column_value row f = None) (''stored '' @ f @ ''_json is invalid JSON'')) json_columns) @
     concat (map (\<lambda>f. err_if (\<not> py_eq (dget f event) (dget f (lv_scalars row))) (''stored '' @ f @ '' column mismatch'')) scalar_columns) @
     concat (map (\<lambda>f. err_if (\<not> py_eq (dget f event) (case json_column_value row f of None \<Rightarrow> PNone | Some v \<Rightarrow> v))
       (''stored '' @ f @ '' column mismatch'')) json_columns)"

definition content_errors :: "life_env \<Rightarrow> pydict \<Rightarrow> string list res" where
  "content_errors env event =
     (let subject = as_dict (dget ''subject'' event); state = as_dict (dget ''state'' event) in
      bind_res (subject_from_record state) (\<lambda>expected.
      bind_res (subject_fingerprint (le_sha env) subject) (\<lambda>fp.
      Inr (err_if (\<not> py_eq (PDict subject) (PDict expected)) ''subject does not match state snapshot'' @
        err_if (\<not> py_eq (dget ''subject_fingerprint'' event) (PStr fp)) ''subject fingerprint mismatch'' @
        (case (py_int (py_or (dget ''subject_epoch'' event) (PInt 0)), py_int (py_or (dget ''subject_epoch'' subject) (PInt 0))) of
           (Inr a, Inr b) \<Rightarrow> err_if (a \<noteq> b) ''subject epoch mismatch''
         | _ \<Rightarrow> [''subject epoch is invalid'']) @
        err_if (\<not> py_eq (dget ''current_record_hash'' event) (PStr (life_hash env state))) ''current record hash mismatch'' @
        err_if (\<not> py_eq (dget ''actor'' event) (PStr lifecycle_controller_id)) ''unauthorized controller actor'' @
        (case dget ''controller_identity'' event of
           PDict c \<Rightarrow>
             err_if (\<not> py_eq (dget ''controller_id'' c) (PStr lifecycle_controller_id)) ''controller identity is not protected'' @
             err_if (\<not> py_eq (dget ''controller_type'' c) (PStr lifecycle_controller_type)) ''controller type is not protected''
         | _ \<Rightarrow> [''controller identity is missing'']) @
        err_if (\<not> py_eq (dget ''store_binding'' event) (PStr (le_binding env))) ''store binding mismatch'' @
        (case dget ''accepted_evidence_records'' event of PList _ \<Rightarrow> [] | _ \<Rightarrow> [''accepted evidence snapshots are missing''])))))"

definition event_names :: "string \<Rightarrow> pydict \<Rightarrow> pyval list res" where
  "event_names f event = py_list (py_or (dget f event) (PList []))"

definition evidence_errors :: "life_env \<Rightarrow> string \<Rightarrow> pydict \<Rightarrow> string list res" where
  "evidence_errors env case_id event =
     bind_res (event_names ''required_evidence'' event) (\<lambda>required.
     bind_res (event_names ''accepted_evidence'' event) (\<lambda>accepted.
       refusal (validate_accepted_evidence env (as_list (dget ''accepted_evidence_records'' event)) case_id
           (as_dict (dget ''subject'' event)) (map py_str required) (map py_str accepted))
         ''invalid accepted evidence snapshots: ''))"

definition order_errors :: "pydict \<Rightarrow> pydict \<Rightarrow> string list" where
  "order_errors prior event =
     (let name = state_name (as_dict (dget ''state'' event)); requested = str_or_empty (dget ''requested_state'' event);
          decision = str_or_empty (dget ''decision'' event); prior_name = state_name prior in
      err_if (\<not> py_eq (dget ''prior_state'' event) (PStr prior_name)) ''prior state does not match case history'' @
      (if decision = ''PROCEED'' then
         err_if (name \<noteq> requested \<or> requested \<notin> set (allowed_transitions (logical_state prior))) ''out-of-order lifecycle advancement''
       else if decision = ''BLOCKED'' then err_if (name \<noteq> ''BLOCKED'') ''BLOCKED decision has a non-blocked state''
       else if decision = ''ROLLBACK_REQUIRED'' then
         err_if (name \<noteq> ''ROLLBACK_REQUIRED'') ''rollback decision has a non-rollback state''
       else if decision \<in> set binding_decisions then
         err_if (name \<notin> {prior_name, ''BLOCKED'', ''ROLLBACK_REQUIRED''}) ''subject binding advanced lifecycle state''
       else [''unknown lifecycle decision'']))"

definition history_errors :: "life_env \<Rightarrow> pydict list \<Rightarrow> pydict \<Rightarrow> string list res" where
  "history_errors env history event =
     (let state = as_dict (dget ''state'' event) in
      case history of
        [] \<Rightarrow> Inr (err_if (\<not> py_eq (dget ''prior_state'' event) (PStr ''<GENESIS>'') \<or> state_name state \<noteq> ''UNVERIFIED_REPORT'' \<or>
            str_or_empty (dget ''requested_state'' event) \<noteq> ''UNVERIFIED_REPORT'' \<or>
            str_or_empty (dget ''decision'' event) \<noteq> ''INITIALIZED'') ''invalid lifecycle initialization'')
      | e # es \<Rightarrow>
          (case py_or (dget ''state'' (last (e # es))) (PDict []) of
             PDict prior \<Rightarrow> bind_res (validate_subject_epoch_transition (le_sha env) prior state)
               (\<lambda>errors. Inr (errors @ order_errors prior event))
           | _ \<Rightarrow> Inl (AttributeError ''get'')))"

definition text_list :: "string \<Rightarrow> pydict \<Rightarrow> string list res" where
  "text_list f event = py_texts (py_or (dget f event) (PList []))"

definition recorded_binding :: "string \<Rightarrow> pydict list \<Rightarrow> pydict \<Rightarrow> transition_binding res" where
  "recorded_binding case_id history event =
     bind_res (text_list ''required_evidence'' event) (\<lambda>required.
     bind_res (text_list ''accepted_evidence'' event) (\<lambda>accepted.
     bind_res (text_list ''rejected_evidence'' event) (\<lambda>rejected.
       Inr \<lparr>tb_case = case_id, tb_version = int (length history),
         tb_current = str_or_empty (dget ''current_record_hash'' (last history)),
         tb_next = str_or_empty (dget ''current_record_hash'' event),
         tb_requested = str_or_empty (dget ''requested_state'' event), tb_decision = str_or_empty (dget ''decision'' event),
         tb_actor = str_or_empty (dget ''actor'' event), tb_key = str_or_empty (dget ''idempotency_key'' event),
         tb_subject = as_dict (dget ''subject'' event), tb_required = required, tb_accepted = accepted, tb_rejected = rejected,
         tb_policy = dget ''policy_hash'' event, tb_toolchain = dget ''toolchain_hash'' event\<rparr>)))"

definition protection_errors :: "life_env \<Rightarrow> string \<Rightarrow> pydict list \<Rightarrow> pydict \<Rightarrow> string list res" where
  "protection_errors env case_id history event =
     (if state_name (as_dict (dget ''state'' event)) \<in> set protected_states then
        (if history = [] then Inr [''protected initialization is invalid'']
         else case dget ''transition_authorization'' event of
           PDict a \<Rightarrow>
             bind_res (evidence_errors env case_id event) (\<lambda>evidence.
             bind_res (recorded_binding case_id history event) (\<lambda>b.
             bind_res (refusal (validate_transition_authorization env (PDict a) b) ''invalid controller authorization: '') (\<lambda>errors.
               Inr (evidence @ errors))))
         | _ \<Rightarrow> bind_res (evidence_errors env case_id event) (\<lambda>evidence.
             Inr (evidence @ [''protected transition lacks controller authorization''])))
      else Inr (err_if (dget ''transition_authorization'' event \<noteq> PNone) ''unexpected controller authorization''))"

definition seal_errors :: "life_env \<Rightarrow> string \<Rightarrow> int \<Rightarrow> life_event \<Rightarrow> pydict \<Rightarrow> string list" where
  "seal_errors env previous expected row event =
     err_if (lv_seq row \<noteq> expected) (''sequence gap: expected '' @ int_str expected @ '', got '' @ int_str (lv_seq row)) @
     err_if (\<not> py_eq (dget ''previous_hash'' (lv_scalars row)) (PStr previous)) ''previous hash mismatch'' @
     err_if (life_hash env (ddel ''record_mac'' (ddel ''record_hash'' event)) \<noteq> lv_hash row) ''record hash mismatch'' @
     err_if (lv_mac row \<noteq> event_mac env (lv_hash row)) ''record MAC mismatch''"

definition event_errors :: "life_env \<Rightarrow> string \<Rightarrow> int \<Rightarrow> (string \<times> pydict) list \<Rightarrow> life_event \<Rightarrow> string list res" where
  "event_errors env previous expected seen row =
     (let event = life_event_dict row; case_id = str_or_empty (dget ''case_id'' event);
          history = map snd (filter (\<lambda>(i, _). i = case_id) seen) in
      bind_res (content_errors env event) (\<lambda>content.
      bind_res (history_errors env history event) (\<lambda>order.
      bind_res (protection_errors env case_id history event) (\<lambda>protection.
        Inr (map (\<lambda>e. ''event '' @ int_str (lv_seq row) @ '': '' @ e)
          (column_errors row event @ content @ order @ protection @ seal_errors env previous expected row event))))))"

fun chain_walk :: "life_env \<Rightarrow> string \<Rightarrow> int \<Rightarrow> (string \<times> pydict) list \<Rightarrow> life_event list \<Rightarrow>
    (string list \<times> string \<times> (string \<times> pydict) list) res" where
  "chain_walk env previous expected seen [] = Inr ([], previous, seen)"
| "chain_walk env previous expected seen (row # rows) =
     bind_res (event_errors env previous expected seen row) (\<lambda>errors.
     bind_res (chain_walk env (lv_hash row) (lv_seq row + 1)
       (seen @ [(str_or_empty (dget ''case_id'' (life_event_dict row)), life_event_dict row)]) rows) (\<lambda>(more, head, all).
       Inr (errors @ more, head, all)))"

definition case_errors :: "life_env \<Rightarrow> life_db \<Rightarrow> (string \<times> pydict) list \<Rightarrow> life_case \<Rightarrow> string list res" where
  "case_errors env db seen row =
     (let label = ''lifecycle case '' @ lc_id row in
      case map_of (rev seen) (lc_id row) of
        None \<Rightarrow> Inr [label @ '' has no event'']
      | Some latest \<Rightarrow>
          bind_res (case lc_state row of
              None \<Rightarrow> Inr [label @ '' state JSON is invalid'']
            | Some v \<Rightarrow> Inr (err_if (sha256_json (le_sha env) v \<noteq> lc_hash row) (label @ '' state record hash mismatch''))) (\<lambda>state_errors.
          bind_res (py_int (dget_default ''sequence'' (PInt 0) latest)) (\<lambda>sequence.
            Inr (err_if (\<not> py_eq (dget ''current_record_hash'' latest) (PStr (lc_hash row))) (label @ '' current record hash mismatch'') @
              state_errors @
              err_if (lc_version row \<noteq> sequence \<and>
                  lc_version row \<noteq> int (length (filter (\<lambda>e. event_case e = PStr (lc_id row)) (ld_events db))))
                (label @ '' version mismatch'')))))"

fun gather :: "('a \<Rightarrow> string list res) \<Rightarrow> 'a list \<Rightarrow> string list res" where
  "gather f [] = Inr []"
| "gather f (x # xs) = bind_res (f x) (\<lambda>a. bind_res (gather f xs) (\<lambda>b. Inr (a @ b)))"

record life_report =
  lr_valid :: bool
  lr_records :: nat
  lr_errors :: "string list"
  lr_head :: string

definition verify_life_chain :: "life_env \<Rightarrow> string option \<Rightarrow> life_db \<Rightarrow> life_report res" where
  "verify_life_chain env case_id db =
     bind_res (chain_walk env life_genesis 1 [] (sort_key lv_seq (ld_events db))) (\<lambda>(chain, head, seen).
     bind_res (gather (case_errors env db seen) (ld_cases db)) (\<lambda>cases.
       let errors = err_if (ld_binding db \<noteq> Some (le_binding env)) ''Lifecycle database store binding does not match this task'' @
             chain @ cases @
             (case case_id of None \<Rightarrow> [] | Some i \<Rightarrow> err_if (i \<notin> set (map fst seen)) (''lifecycle case '' @ i @ '' has no events'')) in
       Inr \<lparr>lr_valid = (errors = []), lr_records = length (ld_events db), lr_errors = sorted_set errors, lr_head = head\<rparr>))"

section \<open>Reading\<close>

definition life_get :: "life_env \<Rightarrow> bool \<Rightarrow> string \<Rightarrow> life_db \<Rightarrow> pydict res" where
  "life_get env verify case_id db =
     bind_res (if verify then bind_res (verify_life_chain env (Some case_id) db) (\<lambda>report.
           if lr_valid report then Inr ()
           else Inl (RuntimeError (''Lifecycle event chain verification failed: '' @ join_with ''; '' (lr_errors report))))
         else Inr ()) (\<lambda>_.
     case tbl_get lc_id case_id (ld_cases db) of None \<Rightarrow> Inl (KeyError case_id) | Some row \<Rightarrow> life_snapshot row)"

definition life_events :: "string option \<Rightarrow> life_db \<Rightarrow> pydict list" where
  "life_events case_id db = map life_event_dict
     (filter (\<lambda>e. case_id = None \<or> map_option PStr case_id = Some (event_case e)) (sort_key lv_seq (ld_events db)))"

definition life_export :: "life_env \<Rightarrow> bool \<Rightarrow> string \<Rightarrow> life_db \<Rightarrow> pydict res" where
  "life_export env verify case_id db = bind_res (life_get env verify case_id db) (\<lambda>d.
     Inr (dset ''claim_boundary''
       (PStr ''This JSON is an export; the controller-owned SQLite ledger remains authoritative.'')
       (dset ''lifecycle_export'' (PBool True)
         (dset ''lifecycle_events'' (PList (map PDict (life_events (Some case_id) db))) d))))"

section \<open>Writing, with the verification that follows the commit\<close>

definition life_read_back :: "life_env \<Rightarrow> string \<Rightarrow> life_db \<Rightarrow> pydict \<Rightarrow> life_db \<times> pydict res" where
  "life_read_back env case_id db extra =
     (db, bind_res (life_get env True case_id db) (\<lambda>d. Inr (dict_merge d extra)))"

definition initialize :: "life_env \<Rightarrow> pydict \<Rightarrow> string option \<Rightarrow> string option \<Rightarrow> life_db \<Rightarrow> life_db \<times> pydict res" where
  "initialize env r actor key db =
     (case life_initialize env r actor key db of
        Inl e \<Rightarrow> (db, Inl e)
      | Inr (db', Some snapshot) \<Rightarrow> (db', Inr snapshot)
      | Inr (db', None) \<Rightarrow> life_read_back env (py_str (dget ''case_id'' r)) db' [])"

definition life_transition :: "life_env \<Rightarrow> string \<Rightarrow> pydict \<Rightarrow> life_request \<Rightarrow> life_db \<Rightarrow> life_db \<times> pydict res" where
  "life_transition env case_id state rq db =
     (case life_transition_tx env case_id state rq db of
        Inl e \<Rightarrow> (db, Inl e)
      | Inr (db', replay) \<Rightarrow> life_read_back env case_id db' [(''idempotent_replay'', PBool replay)])"

definition mutation_request :: "pydict \<Rightarrow> string option \<Rightarrow> int \<Rightarrow> life_request res" where
  "mutation_request updated actor expected =
     bind_res (case dget_default ''historical_evidence_refs'' (PDict []) updated of
         PDict h \<Rightarrow> Inr (dkeys h) | _ \<Rightarrow> Inl (AttributeError ''keys'')) (\<lambda>rejected.
     Inr \<lparr>rq_actor = actor, rq_expected = expected,
       rq_requested = py_str (py_or (dget ''blocked_target'' updated) (dget ''state'' updated)),
       rq_decision = ''SUBJECT_MUTATION_INVALIDATED_DOWNSTREAM'', rq_required = [], rq_accepted = [], rq_records = [],
       rq_rejected = rejected,
       rq_policy = (case dget ''policy_bundle_hash'' updated of PStr s \<Rightarrow> Some s | _ \<Rightarrow> None),
       rq_toolchain = (case dget ''toolchain_hash'' updated of PStr s \<Rightarrow> Some s | _ \<Rightarrow> None),
       rq_risk = None, rq_domain = None, rq_key = None, rq_auth = None\<rparr>)"

definition mutate_subject ::
  "life_env \<Rightarrow> string \<Rightarrow> pydict \<Rightarrow> string \<Rightarrow> string option \<Rightarrow> int \<Rightarrow> life_db \<Rightarrow> life_db \<times> pydict res" where
  "mutate_subject env case_id updates reason actor expected db =
     (case bind_res (life_get env True case_id db) (\<lambda>current.
         bind_res (py_int (dget_default ''store_version'' (PInt 0) current)) (\<lambda>version.
         if version \<noteq> expected then Inl (RuntimeError ''Optimistic concurrency conflict: stale lifecycle version'')
         else bind_res (apply_subject_update (le_sha env) (le_now_text env) current updates reason) (\<lambda>updated.
           bind_res (mutation_request updated actor expected) (\<lambda>rq. Inr (updated, rq))))) of
        Inl e \<Rightarrow> (db, Inl e)
      | Inr (updated, rq) \<Rightarrow> life_transition env case_id updated rq db)"

end
