(* ===== verification/Py_Canon.thy ===== *)
theory Py_Canon
  imports Py_Value
begin

text \<open>
  Documents as they come back from a canonical JSON column: the keys of every dict are in order.
  Reading fields does not notice that order, and a value whose inner dicts are in order already
  comes back as it went in.
\<close>

lemma map_of_filter: "map_of d k = map_option snd (find (\<lambda>x. fst x = k) d)"
  by (induction d) auto

lemma find_filter: "find P xs = (case filter P xs of [] \<Rightarrow> None | x # _ \<Rightarrow> Some x)"
  by (induction xs) auto

lemma map_of_sorted [simp]: "map_of (sort_key fst d) = map_of d"
proof
  fix k
  have "filter (\<lambda>x. fst x = k) (sort_key fst d) = filter (\<lambda>x. fst x = k) d" by (rule sort_key_stable)
  then show "map_of (sort_key fst d) k = map_of d k"
    by (simp add: map_of_filter find_filter)
qed

definition canon :: "pyval \<Rightarrow> bool" where
  "canon v \<longleftrightarrow> sort_keys v = v"

definition canon_fields :: "pydict \<Rightarrow> bool" where
  "canon_fields d \<longleftrightarrow> (\<forall>(k, v) \<in> set d. canon v)"

lemma canon_simps [simp]:
  "canon PNone" "canon (PBool b)" "canon (PInt i)" "canon (PStr s)" "canon (PList vs) \<longleftrightarrow> (\<forall>v \<in> set vs. canon v)"
  by (auto simp: canon_def map_idI) (metis map_eq_conv list.map_ident)

lemma canon_sort_keys [simp]: "canon (sort_keys v)"
  by (simp add: canon_def sort_keys_idem)

lemma canon_fields_simps [simp]:
  "canon_fields []" "canon_fields ((k, v) # d) \<longleftrightarrow> canon v \<and> canon_fields d"
  "canon_fields (d @ d') \<longleftrightarrow> canon_fields d \<and> canon_fields d'"
  by (auto simp: canon_fields_def)

lemma map_canon_fields: "canon_fields d \<Longrightarrow> map (\<lambda>(k, v). (k, sort_keys v)) d = d"
  by (intro map_idI) (auto simp: canon_fields_def canon_def)

lemma sorted_fields: "canon_fields d \<Longrightarrow> sort_keys (PDict d) = PDict (sort_key fst d)"
  by (simp add: map_canon_fields)

lemma canon_fields_dset: "canon_fields d \<Longrightarrow> canon v \<Longrightarrow> canon_fields (dset k v d)"
  by (induction k v d rule: dset.induct) (auto simp: canon_fields_def)

lemma canon_fields_ddel: "canon_fields d \<Longrightarrow> canon_fields (ddel k d)"
  by (auto simp: canon_fields_def ddel_def)

lemma canon_dget: "canon_fields d \<Longrightarrow> canon (dget k d)"
  by (auto simp: dget_def canon_fields_def dest: map_of_SomeD split: option.splits)

lemma dget_sorted: "dget k (as_dict (sort_keys (PDict d))) = sort_keys (dget k d)"
proof -
  have "map_of (map (\<lambda>(k, v). (k, sort_keys v)) d) k = map_option sort_keys (map_of d k)"
    by (induction d) auto
  then show ?thesis by (simp add: dget_def split: option.splits)
qed

lemma py_eq_sorted [simp]: "py_eq (sort_keys v) w \<longleftrightarrow> py_eq v w" "py_eq v (sort_keys w) \<longleftrightarrow> py_eq v w"
  by (simp_all add: py_eq_def sort_keys_idem)

text \<open>Two dicts with the same fields.\<close>

definition same_fields :: "pydict \<Rightarrow> pydict \<Rightarrow> bool" where
  "same_fields d d' \<longleftrightarrow> map_of d = map_of d'"

lemma same_fields_dget: "same_fields d d' \<Longrightarrow> dget k d = dget k d'"
  by (simp add: same_fields_def dget_def)

lemma same_fields_dget_default: "same_fields d d' \<Longrightarrow> dget_default k v d = dget_default k v d'"
  by (simp add: same_fields_def dget_default_def)

lemma same_fields_sorted: "same_fields (sort_key fst d) d"
  by (simp add: same_fields_def)

lemma dset_same: "map_of d k = Some v \<Longrightarrow> dset k v d = d"
  by (induction k v d rule: dset.induct) auto

lemma dset_new: "k \<notin> set (dkeys d) \<Longrightarrow> dset k v d = d @ [(k, v)]"
  by (induction k v d rule: dset.induct) (auto simp: dkeys_def)

lemma ddel_new: "k \<notin> set (dkeys d) \<Longrightarrow> ddel k (d @ [(k, v)]) = d"
  unfolding ddel_def dkeys_def by (force intro!: filter_True)

end
