(* ===== verification/Life_Inv.thy ===== *)
theory Life_Inv
  imports Life_Verify Py_Canon
begin

text \<open>
  Why the store of \<open>lifecycle_store.py\<close> accepts what it wrote: the structure every operation keeps
  (\<open>life_wf\<close>), what an appended event looks like when it is read back, and which guards of
  \<open>transition\<close> imply which checks of \<open>verify_event_chain\<close>.
\<close>

section \<open>Reading the same fields\<close>

lemma subject_from_record_fields: "same_fields d d' \<Longrightarrow> subject_from_record d = subject_from_record d'"
  by (simp add: subject_from_record_def subject_entries_def model_entries_def head_of_def field_or_def same_fields_dget)

lemma subject_fingerprint_fields: "same_fields d d' \<Longrightarrow> subject_fingerprint sha d = subject_fingerprint sha d'"
  by (simp add: subject_fingerprint_def subject_from_record_fields)

lemma epoch_transition_fields:
  assumes "same_fields a a'" and "same_fields b b'"
  shows "validate_subject_epoch_transition sha a b = validate_subject_epoch_transition sha a' b'"
  unfolding validate_subject_epoch_transition_def
  by (simp only: subject_from_record_fields [OF assms(1)] subject_from_record_fields [OF assms(2)] same_fields_dget [OF assms(2)])

lemma same_fields_Nil: "same_fields d d' \<Longrightarrow> d = [] \<longleftrightarrow> d' = []"
  by (auto simp: same_fields_def)

lemma binding_errors_fields:
  assumes "same_fields s s'"
  shows "binding_errors sha r (Some s) = binding_errors sha r (Some s')"
proof (cases s)
  case Nil
  then show ?thesis using same_fields_Nil [OF assms] by simp
next
  case (Cons a as)
  then obtain b bs where s': "s' = b # bs" using same_fields_Nil [OF assms] by (cases s') auto
  have "subject_from_record (a # as) = subject_from_record (b # bs)"
    using subject_from_record_fields [OF assms] by (simp only: Cons s')
  then show ?thesis unfolding Cons s' binding_errors_def by (simp only: list.case option.case)
qed

lemma provenance_fields:
  assumes "same_fields s s'"
  shows "validate_machine_evidence_provenance sha r (Some s) = validate_machine_evidence_provenance sha r (Some s')"
  unfolding validate_machine_evidence_provenance_def
  by (simp only: option.case subject_fingerprint_fields [OF assms] same_fields_dget [OF assms])

lemma evidence_subject_fields:
  assumes "same_fields s s'"
  shows "validate_evidence_record sha load (evidence_check_of env minimum s) r =
    validate_evidence_record sha load (evidence_check_of env minimum s') r"
  unfolding validate_evidence_record_def evidence_check_of_def evidence_check.simps
  by (simp only: binding_errors_fields [OF assms] provenance_fields [OF assms])

text \<open>The snapshot of a row differs from its document only in fields that no subject has.\<close>

lemma subject_from_record_snapshot:
  "subject_from_record (dset ''store_record_hash'' v d) = subject_from_record d"
  "subject_from_record (dset ''store_version'' v d) = subject_from_record d"
  "subject_from_record (dset ''authoritative_lifecycle'' v d) = subject_from_record d"
  "subject_from_record (dset ''authority_store'' v d) = subject_from_record d"
  unfolding subject_from_record_def subject_entries_def model_entries_def head_of_def field_or_def by simp_all

lemma snapshot_fields:
  assumes "life_snapshot row = Inr current" and "lc_state row = Some (PDict d)"
  shows "subject_from_record current = subject_from_record d \<and> state_name current = state_name d \<and>
    logical_state current = logical_state d \<and> dget ''state'' current = dget ''state'' d \<and>
    dget ''subject_epoch'' current = dget ''subject_epoch'' d"
  using assms by (auto simp: life_snapshot_def subject_from_record_snapshot state_name_def logical_state_def)

lemma snapshot_Some: "life_snapshot row = Inr current \<Longrightarrow> \<exists>d. lc_state row = Some (PDict d)"
  by (auto simp: life_snapshot_def split: option.splits pyval.splits)

lemma epoch_transition_snapshot:
  assumes "life_snapshot row = Inr current" and "lc_state row = Some (PDict d)"
  shows "validate_subject_epoch_transition sha current b = validate_subject_epoch_transition sha d b"
  using snapshot_fields [OF assms] by (simp add: validate_subject_epoch_transition_def)

section \<open>An appended event, read back\<close>

definition fresh_material :: "int \<Rightarrow> pydict \<Rightarrow> bool" where
  "fresh_material seq m \<longleftrightarrow> distinct (dkeys m) \<and> ''record_hash'' \<notin> set (dkeys m) \<and> ''record_mac'' \<notin> set (dkeys m) \<and>
     map_of m ''sequence'' = Some (PInt seq)"

lemma dkeys_sorted: "set (dkeys (as_dict (sort_keys (PDict m)))) = set (dkeys m)"
  by (simp add: dkeys_def image_image case_prod_beta)

lemma event_dict_row:
  assumes "fresh_material seq m"
  shows "life_event_dict (event_row_of env seq m) =
    as_dict (sort_keys (PDict m)) @ [(''record_hash'', PStr (life_hash env m)), (''record_mac'', PStr (event_mac env (life_hash env m)))]"
proof -
  let ?s = "as_dict (sort_keys (PDict m))"
  have "map_of (map (\<lambda>(k, v). (k, sort_keys v)) m) ''sequence'' = Some (PInt seq)"
    using assms by (induction m) (auto simp: fresh_material_def dkeys_def split: if_splits)
  then have "dset ''sequence'' (PInt seq) ?s = ?s" by (intro dset_same) simp
  then show ?thesis
    using assms dkeys_sorted [of m]
    by (simp add: life_event_dict_def event_row_of_def Let_def stored_def fresh_material_def dset_new)
qed

lemma event_dict_dget:
  assumes "fresh_material seq m" and "k \<noteq> ''record_hash''" and "k \<noteq> ''record_mac''"
  shows "dget k (life_event_dict (event_row_of env seq m)) = sort_keys (dget k m)"
  unfolding event_dict_row [OF assms(1)]
  using dget_sorted [of k m] assms(2,3) by (auto simp: dget_def dkeys_def split: option.splits)

lemma event_dict_material:
  assumes "fresh_material seq m"
  shows "life_hash env (ddel ''record_mac'' (ddel ''record_hash'' (life_event_dict (event_row_of env seq m)))) = life_hash env m"
proof -
  let ?s = "as_dict (sort_keys (PDict m))"
  have none: "''record_hash'' \<notin> fst ` set ?s" "''record_mac'' \<notin> fst ` set ?s"
    using assms dkeys_sorted [of m] by (auto simp: fresh_material_def dkeys_def)
  have "ddel ''record_mac'' (ddel ''record_hash'' (life_event_dict (event_row_of env seq m))) = ?s"
    unfolding event_dict_row [OF assms] ddel_def using none by (force intro!: filter_True)
  moreover have "sort_keys (PDict ?s) = sort_keys (PDict m)" using sort_keys_idem [of "PDict m"] by simp
  ultimately show ?thesis unfolding life_hash_def by (metis sha256_json_cong)
qed

lemma dget_map_fields: "f \<in> set fs \<Longrightarrow> dget f (map (\<lambda>f. (f, g f)) fs) = g f"
  by (induction fs) auto

lemma map_of_map_fields: "f \<in> set fs \<Longrightarrow> map_of (map (\<lambda>f. (f, g f)) fs) f = Some (g f)"
  by (induction fs) auto

lemma column_names:
  "f \<in> set scalar_columns \<Longrightarrow> f \<noteq> ''record_hash'' \<and> f \<noteq> ''record_mac''"
  "f \<in> set json_columns \<Longrightarrow> f \<noteq> ''record_hash'' \<and> f \<noteq> ''record_mac''"
  by (auto simp: scalar_columns_def json_columns_def)

lemma concat_err: "(\<And>f. f \<in> set fs \<Longrightarrow> \<not> P f) \<Longrightarrow> concat (map (\<lambda>f. err_if (P f) (g f)) fs) = []"
  by auto

lemma column_errors_row:
  assumes "fresh_material seq m"
  shows "column_errors (event_row_of env seq m) (life_event_dict (event_row_of env seq m)) = []"
    (is "column_errors ?row ?event = []")
proof -
  have 1: "json_column_value ?row f = Some (sort_keys (dget f m))" if "f \<in> set json_columns" for f
    using that by (simp add: json_column_value_def event_row_of_def Let_def map_of_map_fields)
  have 2: "dget f (lv_scalars ?row) = dget f m" if "f \<in> set scalar_columns" for f
    using that by (simp add: event_row_of_def Let_def dget_map_fields)
  have 3: "dget f ?event = sort_keys (dget f m)" if "f \<in> set scalar_columns \<or> f \<in> set json_columns" for f
  proof -
    have "f \<noteq> ''record_hash''" "f \<noteq> ''record_mac''" using that column_names by auto
    then show ?thesis by (rule event_dict_dget [OF assms])
  qed
  have "concat (map (\<lambda>f. err_if (json_column_value ?row f = None) (''stored '' @ f @ ''_json is invalid JSON'')) json_columns) = []"
    by (rule concat_err) (simp only: 1 option.distinct not_False_eq_True)
  moreover have "concat (map (\<lambda>f. err_if (\<not> py_eq (dget f ?event) (dget f (lv_scalars ?row)))
      (''stored '' @ f @ '' column mismatch'')) scalar_columns) = []"
    by (rule concat_err) (simp only: 2 3 py_eq_sorted py_eq_refl not_not simp_thms)
  moreover have "concat (map (\<lambda>f. err_if (\<not> py_eq (dget f ?event) (case json_column_value ?row f of None \<Rightarrow> PNone | Some v \<Rightarrow> v))
       (''stored '' @ f @ '' column mismatch'')) json_columns) = []"
    by (rule concat_err) (simp only: 1 3 option.case py_eq_refl not_not simp_thms)
  ultimately show ?thesis unfolding column_errors_def by (simp only: append_Nil)
qed

lemma event_row_columns [simp]:
  "lv_seq (event_row_of env seq m) = seq" "lv_hash (event_row_of env seq m) = life_hash env m"
  "lv_mac (event_row_of env seq m) = event_mac env (life_hash env m)"
  "event_case (event_row_of env seq m) = dget ''case_id'' m"
  "event_key (event_row_of env seq m) = dget ''idempotency_key'' m"
  "dget ''previous_hash'' (lv_scalars (event_row_of env seq m)) = dget ''previous_hash'' m"
  unfolding event_case_def event_key_def by (simp_all add: event_row_of_def Let_def scalar_columns_def)

lemma seal_errors_row:
  assumes "fresh_material seq m" and "dget ''previous_hash'' m = PStr prev"
  shows "seal_errors env prev seq (event_row_of env seq m) (life_event_dict (event_row_of env seq m)) = []"
  unfolding seal_errors_def event_dict_material [OF assms(1)] by (simp add: assms(2))

lemma material_fresh: "fresh_material seq (material_fields_of env p t prev seq subject epoch fp)"
  by (simp add: fresh_material_def material_fields_of_def)

lemma build_event_material_Inr:
  assumes "build_event_material env p t prev seq = Inr m"
  obtains subject epoch fp where "subject_from_record (ep_state p) = Inr subject"
    and "py_int (py_or (dget ''subject_epoch'' subject) (PInt 0)) = Inr epoch"
    and "subject_fingerprint (le_sha env) subject = Inr fp"
    and "m = material_fields_of env p t prev seq subject epoch fp" and "\<forall>r \<in> set (ep_records p). is_dict r"
  using assms by (auto simp: build_event_material_def bind_res_Inr split: if_splits)

lemma subject_canon:
  assumes "canon_fields d" and "subject_from_record d = Inr s"
  shows "canon_fields s"
proof -
  obtain epoch version where "s = subject_entries d epoch version"
    using assms(2) by (auto simp: subject_from_record_def bind_res_Inr)
  then show ?thesis
    using canon_dget [OF assms(1)] by (simp add: subject_entries_def model_entries_def head_of_def field_or_def Let_def)
qed

lemma sorted_dict:
  assumes "canon_fields d"
  shows "as_dict (sort_keys (PDict d)) = sort_key fst d" "same_fields (sort_key fst d) d"
  using sorted_fields [OF assms] by (simp_all add: same_fields_def)

lemma life_hash_sorted: "life_hash env (as_dict (sort_keys (PDict d))) = life_hash env d"
proof -
  have "sort_keys (PDict (as_dict (sort_keys (PDict d)))) = sort_keys (PDict d)" using sort_keys_idem [of "PDict d"] by simp
  then show ?thesis unfolding life_hash_def by (rule sha256_json_cong)
qed

text \<open>The values an event carries when it is read back.\<close>

lemma event_values:
  fixes env p t prev seq subject epoch fp
  defines "m \<equiv> material_fields_of env p t prev seq subject epoch fp"
  defines "e \<equiv> life_event_dict (event_row_of env seq m)"
  shows "dget ''case_id'' e = PStr (ep_case p)" "dget ''idempotency_key'' e = PStr (ep_key p)"
    "dget ''actor'' e = PStr (ep_actor p)" "dget ''prior_state'' e = PStr (ep_prior p)"
    "dget ''requested_state'' e = PStr (ep_requested p)" "dget ''decision'' e = PStr (ep_decision p)"
    "dget ''required_evidence'' e = name_list (ep_required p)" "dget ''accepted_evidence'' e = name_list (ep_accepted p)"
    "dget ''rejected_evidence'' e = name_list (ep_rejected p)" "dget ''subject'' e = sort_keys (PDict subject)"
    "dget ''subject_epoch'' e = PInt epoch" "dget ''subject_fingerprint'' e = PStr fp"
    "dget ''policy_hash'' e = sort_keys (ep_policy p)" "dget ''toolchain_hash'' e = sort_keys (ep_toolchain p)"
    "dget ''store_binding'' e = PStr (le_binding env)" "dget ''current_record_hash'' e = PStr (ep_hash p)"
    "dget ''state'' e = sort_keys (PDict (ep_state p))" "dget ''transition_authorization'' e = sort_keys (opt_dict (ep_auth p))"
    "dget ''controller_identity'' e = sort_keys (PDict (event_identity (le_ctx env)))"
    "dget ''accepted_evidence_records'' e = PList (map sort_keys (sort_key record_id (ep_records p)))"
proof -
  note ev = event_dict_dget [OF material_fresh [of seq env p t prev subject epoch fp], of _ env, folded m_def, folded e_def]
  have names: "sort_keys (name_list ns) = name_list ns" for ns by (simp add: name_list_def)
  show "dget ''case_id'' e = PStr (ep_case p)" "dget ''idempotency_key'' e = PStr (ep_key p)"
    "dget ''actor'' e = PStr (ep_actor p)" "dget ''prior_state'' e = PStr (ep_prior p)"
    "dget ''requested_state'' e = PStr (ep_requested p)" "dget ''decision'' e = PStr (ep_decision p)"
    "dget ''required_evidence'' e = name_list (ep_required p)" "dget ''accepted_evidence'' e = name_list (ep_accepted p)"
    "dget ''rejected_evidence'' e = name_list (ep_rejected p)" "dget ''subject'' e = sort_keys (PDict subject)"
    "dget ''subject_epoch'' e = PInt epoch" "dget ''subject_fingerprint'' e = PStr fp"
    "dget ''policy_hash'' e = sort_keys (ep_policy p)" "dget ''toolchain_hash'' e = sort_keys (ep_toolchain p)"
    "dget ''store_binding'' e = PStr (le_binding env)" "dget ''current_record_hash'' e = PStr (ep_hash p)"
    "dget ''state'' e = sort_keys (PDict (ep_state p))" "dget ''transition_authorization'' e = sort_keys (opt_dict (ep_auth p))"
    "dget ''controller_identity'' e = sort_keys (PDict (event_identity (le_ctx env)))"
    "dget ''accepted_evidence_records'' e = PList (map sort_keys (sort_key record_id (ep_records p)))"
    by (simp_all add: ev m_def material_fields_of_def names del: sort_keys.simps(2))
qed

section \<open>Content and order of an appended event\<close>

lemma str_or_empty_PStr [simp]: "str_or_empty (PStr s) = s"
  by (simp add: str_or_empty_def py_or_def)

lemma py_int_or_PInt [simp]: "py_int (py_or (PInt i) (PInt 0)) = Inr i"
  by (simp add: py_or_def py_int_def)

lemma sorted_py_eq: "canon_fields d \<Longrightarrow> py_eq (PDict (sort_key fst d)) v \<longleftrightarrow> py_eq (PDict d) v"
  by (metis py_eq_sorted(1) sorted_fields)

lemma content_errors_row:
  assumes "build_event_material env p t prev seq = Inr m" and "canon_fields (ep_state p)"
    and "ep_hash p = life_hash env (ep_state p)" and "ep_actor p = cc_id (le_ctx env)"
    and "validate_controller_identity (le_ctx env) a None = Inr []"
  shows "content_errors env (life_event_dict (event_row_of env seq m)) = Inr []"
  using assms(1)
proof (rule build_event_material_Inr)
  fix subject epoch fp
  assume s: "subject_from_record (ep_state p) = Inr subject" and e: "py_int (py_or (dget ''subject_epoch'' subject) (PInt 0)) = Inr epoch"
    and fp: "subject_fingerprint (le_sha env) subject = Inr fp" and m: "m = material_fields_of env p t prev seq subject epoch fp"
  have id: "cc_id (le_ctx env) = lifecycle_controller_id" "cc_type (le_ctx env) = lifecycle_controller_type"
    using assms(5) by (simp_all add: controller_identity_Nil)
  note cs = subject_canon [OF assms(2) s]
  have "dget k (sort_key fst (event_identity (le_ctx env))) = dget k (event_identity (le_ctx env))" for k
    by (simp add: dget_def)
  then have ident: "dget ''controller_id'' (sort_key fst (event_identity (le_ctx env))) = PStr lifecycle_controller_id"
    "dget ''controller_type'' (sort_key fst (event_identity (le_ctx env))) = PStr lifecycle_controller_type"
    by (simp_all add: event_identity_def id)
  have ci: "canon_fields (event_identity (le_ctx env))" by (simp add: event_identity_def)
  have state: "subject_from_record (sort_key fst (ep_state p)) = Inr subject"
    using subject_from_record_fields [OF sorted_dict(2) [OF assms(2)]] s by simp
  have finger: "subject_fingerprint (le_sha env) (sort_key fst subject) = Inr fp"
    using subject_fingerprint_fields [OF sorted_dict(2) [OF cs]] fp by simp
  have epoch: "py_int (py_or (dget ''subject_epoch'' (sort_key fst subject)) (PInt 0)) = Inr epoch"
    using e same_fields_dget [OF sorted_dict(2) [OF cs]] by simp
  have hash: "life_hash env (sort_key fst (ep_state p)) = ep_hash p"
    using life_hash_sorted [of env "ep_state p"] sorted_dict(1) [OF assms(2)] assms(3) by simp
  show ?thesis
    unfolding m content_errors_def event_values sorted_fields [OF assms(2)] sorted_fields [OF cs] sorted_fields [OF ci] Let_def as_dict.simps
    by (simp add: state finger epoch hash ident assms(4) id(1) sorted_py_eq [OF cs] del: sort_keys.simps)
qed

lemma state_name_fields: "same_fields d d' \<Longrightarrow> state_name d = state_name d'"
  by (simp add: state_name_def same_fields_dget)

definition order_ok :: "pydict \<Rightarrow> pydict \<Rightarrow> string \<Rightarrow> string \<Rightarrow> bool" where
  "order_ok prior next_state requested decision \<longleftrightarrow>
     (let name = state_name next_state in
      if decision = ''PROCEED'' then name = requested \<and> requested \<in> set (allowed_transitions (logical_state prior))
      else if decision = ''BLOCKED'' then name = ''BLOCKED''
      else if decision = ''ROLLBACK_REQUIRED'' then name = ''ROLLBACK_REQUIRED''
      else decision \<in> set binding_decisions \<and> name \<in> {state_name prior, ''BLOCKED'', ''ROLLBACK_REQUIRED''})"

lemma history_errors_row:
  assumes "build_event_material env p t prev seq = Inr m" and "canon_fields (ep_state p)"
    and "history \<noteq> []" and "dget ''state'' (last history) = PDict prior"
    and "validate_subject_epoch_transition (le_sha env) prior (ep_state p) = Inr []"
    and "ep_prior p = state_name prior" and "order_ok prior (ep_state p) (ep_requested p) (ep_decision p)"
  shows "history_errors env history (life_event_dict (event_row_of env seq m)) = Inr []"
  using assms(1)
proof (rule build_event_material_Inr)
  fix subject epoch fp
  assume m: "m = material_fields_of env p t prev seq subject epoch fp"
  note same = sorted_dict(2) [OF assms(2)]
  have prior: "py_or (dget ''state'' (last history)) (PDict []) = PDict prior"
    unfolding assms(4) by (simp add: py_or_def)
  have epoch: "validate_subject_epoch_transition (le_sha env) prior (sort_key fst (ep_state p)) = Inr []"
    using epoch_transition_fields [OF _ same, of prior prior] assms(5) by (simp add: same_fields_def)
  have order: "order_errors prior (life_event_dict (event_row_of env seq m)) = []"
    using assms(7) unfolding m order_errors_def event_values sorted_fields [OF assms(2)] Let_def as_dict.simps order_ok_def
    by (simp add: assms(6) state_name_fields [OF same] split: if_splits)
  have "history_errors env history (life_event_dict (event_row_of env seq m)) =
    bind_res (validate_subject_epoch_transition (le_sha env) prior (sort_key fst (ep_state p)))
      (\<lambda>errors. Inr (errors @ order_errors prior (life_event_dict (event_row_of env seq m))))"
  proof (cases history)
    case (Cons e es)
    then show ?thesis
      using prior unfolding m history_errors_def event_values sorted_fields [OF assms(2)] by simp
  qed (use assms(3) in simp)
  then show ?thesis by (simp add: epoch order)
qed

lemma genesis_errors_row:
  assumes "build_event_material env p t prev seq = Inr m" and "canon_fields (ep_state p)"
    and "ep_prior p = ''<GENESIS>''" and "state_name (ep_state p) = ''UNVERIFIED_REPORT''"
    and "ep_requested p = ''UNVERIFIED_REPORT''" and "ep_decision p = ''INITIALIZED''"
  shows "history_errors env [] (life_event_dict (event_row_of env seq m)) = Inr []"
  using assms(1)
proof (rule build_event_material_Inr)
  fix subject epoch fp
  assume m: "m = material_fields_of env p t prev seq subject epoch fp"
  show ?thesis
    unfolding m history_errors_def event_values sorted_fields [OF assms(2)]
    by (simp add: assms state_name_fields [OF sorted_dict(2) [OF assms(2)]])
qed

section \<open>Evidence and authorization of an appended event\<close>

definition rid :: "pydict \<Rightarrow> string" where
  "rid r = py_str (dget ''evidence_id'' r)"

definition case_record :: "string \<Rightarrow> pydict \<Rightarrow> bool" where
  "case_record case_id r \<longleftrightarrow> truthy (dget ''evidence_id'' r) \<and> str_or_empty (dget ''lifecycle_case_id'' r) = case_id"

lemma index_records_step:
  "index_records case_id (PDict r # vs) by_id = Inr out \<longleftrightarrow>
     case_record case_id r \<and> rid r \<notin> set (map fst by_id) \<and> index_records case_id vs (by_id @ [(rid r, r)]) = Inr out"
  by (simp add: case_record_def rid_def Let_def)

definition indexed :: "string \<Rightarrow> (string \<times> pydict) list \<Rightarrow> pydict list \<Rightarrow> bool" where
  "indexed case_id by_id rs \<longleftrightarrow> (\<forall>r \<in> set rs. case_record case_id r) \<and> distinct (map rid rs) \<and>
     set (map rid rs) \<inter> set (map fst by_id) = {}"

lemma indexed_Cons:
  "indexed case_id by_id (r # rs) \<longleftrightarrow>
     case_record case_id r \<and> rid r \<notin> set (map fst by_id) \<and> indexed case_id (by_id @ [(rid r, r)]) rs"
  by (auto simp: indexed_def)

lemma index_records_Inr:
  "index_records case_id vs by_id = Inr out \<longleftrightarrow>
     (\<exists>rs. vs = map PDict rs \<and> out = by_id @ map (\<lambda>r. (rid r, r)) rs \<and> indexed case_id by_id rs)"
proof (induction vs arbitrary: by_id)
  case Nil
  show ?case by (auto simp: indexed_def)
next
  case (Cons v vs)
  show ?case
  proof (cases "\<exists>r. v = PDict r")
    case True
    then obtain r where v: "v = PDict r" by blast
    have "index_records case_id (v # vs) by_id = Inr out \<longleftrightarrow> case_record case_id r \<and> rid r \<notin> set (map fst by_id) \<and>
        (\<exists>rs. vs = map PDict rs \<and> out = (by_id @ [(rid r, r)]) @ map (\<lambda>r. (rid r, r)) rs \<and> indexed case_id (by_id @ [(rid r, r)]) rs)"
      unfolding v index_records_step Cons by simp
    also have "\<dots> \<longleftrightarrow> (\<exists>rs. vs = map PDict rs \<and> out = by_id @ map (\<lambda>r. (rid r, r)) (r # rs) \<and> indexed case_id by_id (r # rs))"
      unfolding indexed_Cons by auto
    also have "\<dots> \<longleftrightarrow> (\<exists>ss. v # vs = map PDict ss \<and> out = by_id @ map (\<lambda>r. (rid r, r)) ss \<and> indexed case_id by_id ss)"
    proof
      assume "\<exists>ss. v # vs = map PDict ss \<and> out = by_id @ map (\<lambda>r. (rid r, r)) ss \<and> indexed case_id by_id ss"
      then show "\<exists>rs. vs = map PDict rs \<and> out = by_id @ map (\<lambda>r. (rid r, r)) (r # rs) \<and> indexed case_id by_id (r # rs)"
      proof (elim exE conjE)
        fix ss
        assume ss: "v # vs = map PDict ss" "out = by_id @ map (\<lambda>r. (rid r, r)) ss" "indexed case_id by_id ss"
        then obtain rs where "ss = r # rs" "vs = map PDict rs" by (cases ss) (auto simp: v)
        with ss show ?thesis by (intro exI [of _ rs]) simp
      qed
    next
      assume "\<exists>rs. vs = map PDict rs \<and> out = by_id @ map (\<lambda>r. (rid r, r)) (r # rs) \<and> indexed case_id by_id (r # rs)"
      then show "\<exists>ss. v # vs = map PDict ss \<and> out = by_id @ map (\<lambda>r. (rid r, r)) ss \<and> indexed case_id by_id ss"
      proof (elim exE conjE)
        fix rs
        assume "vs = map PDict rs" "out = by_id @ map (\<lambda>r. (rid r, r)) (r # rs)" "indexed case_id by_id (r # rs)"
        then show ?thesis by (intro exI [of _ "r # rs"]) (simp add: v)
      qed
    qed
    finally show ?thesis .
  next
    case False
    then have "\<nexists>out. index_records case_id (v # vs) by_id = Inr out" by (cases v) auto
    then show ?thesis using False by (auto simp: Cons_eq_map_conv)
  qed
qed

lemma accept_all_Inr:
  "accept_all env subject required by_id acc = Inr out \<longleftrightarrow>
     (\<forall>i \<in> set acc. \<exists>r. map_of by_id i = Some r \<and> accept_record env subject required i r = Inr ()) \<and>
     out = map (\<lambda>i. PDict (the (map_of by_id i))) acc"
  by (induction acc arbitrary: out) (auto simp: bind_res_Inr split: option.splits)

definition evidence_ok :: "life_env \<Rightarrow> string \<Rightarrow> pydict \<Rightarrow> string list \<Rightarrow> pydict list \<Rightarrow> string list \<Rightarrow> bool" where
  "evidence_ok env case_id subject required rs acc \<longleftrightarrow>
     distinct acc \<and> distinct (map rid rs) \<and> set acc = rid ` set rs \<and>
     (\<forall>r \<in> set rs. case_record case_id r \<and> accept_record env subject required (rid r) r = Inr ())"

lemma map_of_rid: "distinct (map rid rs) \<Longrightarrow> r \<in> set rs \<Longrightarrow> map_of (map (\<lambda>r. (rid r, r)) rs) (rid r) = Some r"
  by (induction rs) (auto simp: rev_image_eqI)

lemma validate_accepted_ok:
  assumes "validate_accepted_evidence env records case_id subject required acc = Inr out"
  shows "\<exists>rs. out = map PDict rs \<and> evidence_ok env case_id subject required rs acc \<and> set out \<subseteq> set records"
proof -
  from assms obtain by_id where acc: "distinct acc" and idx: "index_records case_id records [] = Inr by_id"
    and all: "accept_all env subject required by_id acc = Inr out"
    by (auto simp: validate_accepted_evidence_def bind_res_Inr Let_def split: if_splits)
  from idx obtain all_rs where rs: "records = map PDict all_rs" "by_id = map (\<lambda>r. (rid r, r)) all_rs"
    "\<forall>r \<in> set all_rs. case_record case_id r" "distinct (map rid all_rs)" by (auto simp: index_records_Inr indexed_def)
  let ?rs = "map (\<lambda>i. the (map_of by_id i)) acc"
  have found: "\<exists>r \<in> set all_rs. map_of by_id i = Some r \<and> rid r = i \<and> accept_record env subject required i r = Inr ()"
    if i: "i \<in> set acc" for i
  proof -
    obtain r where r: "map_of by_id i = Some r" "accept_record env subject required i r = Inr ()"
      using bspec [OF conjunct1 [OF all [unfolded accept_all_Inr]] i] by (elim exE conjE)
    then have "(i, r) \<in> set by_id" by (intro map_of_SomeD)
    then show ?thesis using r rs(2) by auto
  qed
  have ids: "map rid ?rs = acc" using found by (auto intro!: map_idI dest: found)
  moreover have "out = map PDict ?rs" using all by (simp add: accept_all_Inr)
  moreover have "case_record case_id r \<and> accept_record env subject required (rid r) r = Inr ()" if "r \<in> set ?rs" for r
  proof -
    from that obtain i where "i \<in> set acc" "r = the (map_of by_id i)" by auto
    with found [of i] rs(3) show ?thesis by auto
  qed
  then have "evidence_ok env case_id subject required ?rs acc"
    using acc ids by (simp only: evidence_ok_def list.set_map [of rid, symmetric]) blast
  moreover have "set out \<subseteq> set records"
    using found calculation(2) rs(1) by fastforce
  ultimately show ?thesis by blast
qed

lemma evidence_ok_validates:
  assumes "evidence_ok env case_id subject required rs acc"
  shows "\<exists>out. validate_accepted_evidence env (map PDict rs) case_id subject required acc = Inr out"
proof -
  let ?by = "map (\<lambda>r. (rid r, r)) rs"
  have idx: "index_records case_id (map PDict rs) [] = Inr ?by"
    using assms by (auto simp: index_records_Inr indexed_def evidence_ok_def)
  have keys: "set (map fst ?by) = set acc" using assms by (simp add: evidence_ok_def image_image)
  have "accept_all env subject required ?by acc = Inr (map (\<lambda>i. PDict (the (map_of ?by i))) acc)"
    unfolding accept_all_Inr using assms map_of_rid [of rs] by (auto simp: evidence_ok_def)
  moreover have "filter (\<lambda>i. i \<notin> set (map fst ?by)) acc = []" unfolding keys by (simp add: filter_empty_conv)
  moreover have "distinct acc" using assms by (simp add: evidence_ok_def)
  ultimately show ?thesis
    unfolding validate_accepted_evidence_def idx bind_res_simps Let_def by (simp del: set_map)
qed

text \<open>Order and repetition of the names, and the presentation of the subject, do not matter.\<close>

lemma accept_record_fields:
  assumes "same_fields subject subject'" and "set required = set required'"
  shows "accept_record env subject required i r = accept_record env subject' required' i r"
proof -
  have "required = [] \<longleftrightarrow> required' = []" using assms(2) by (metis set_empty)
  then show ?thesis
    unfolding accept_record_def evidence_subject_fields [OF assms(1)] assms(2) by simp
qed

lemma distinct_map_sort_key: "distinct (map f (sort_key g xs)) \<longleftrightarrow> distinct (map f xs)"
  by (simp add: distinct_map)

lemma evidence_ok_read_back:
  assumes "evidence_ok env case_id subject required rs acc" and "same_fields subject subject'"
  shows "evidence_ok env case_id subject' (sorted_set required) (sort_key g rs) (sorted_set acc)"
  using assms(1) accept_record_fields [OF assms(2), of required "sorted_set required"]
  by (simp add: evidence_ok_def distinct_map_sort_key)

lemma map_insort: "map f (insort_key (\<lambda>x. g (f x)) x xs) = insort_key g (f x) (map f xs)"
  by (induction xs) auto

lemma sort_key_map: "sort_key g (map f xs) = map f (sort_key (\<lambda>x. g (f x)) xs)"
  by (induction xs) (simp_all add: map_insort)

lemma event_names_list:
  assumes "dget f e = name_list ns"
  shows "event_names f e = Inr (map PStr (sorted_set ns))" "text_list f e = Inr (sorted_set ns)"
proof -
  have "map (\<lambda>x. text_of (PStr x)) xs = xs" for xs by simp
  then show "event_names f e = Inr (map PStr (sorted_set ns))" "text_list f e = Inr (sorted_set ns)"
    using assms by (simp_all add: event_names_def text_list_def name_list_def py_or_def py_list_def py_texts_def comp_def)
qed

lemma name_list_sorted_set [simp]: "name_list (sorted_set ns) = name_list ns"
proof -
  have "sorted_set (sorted_set ns) = sorted_set ns" by (rule sorted_set_cong) simp
  then show ?thesis by (simp add: name_list_def)
qed

lemma authorization_read_back:
  assumes "same_fields s (tb_subject b)"
  defines "b' \<equiv> b\<lparr>tb_subject := s, tb_required := sorted_set (tb_required b), tb_accepted := sorted_set (tb_accepted b),
      tb_rejected := sorted_set (tb_rejected b)\<rparr>"
  shows "validate_transition_authorization env a b' = validate_transition_authorization env a b"
proof -
  have fields: "binding_fields env b' fp epoch = binding_fields env b fp epoch" for fp epoch
    by (simp add: binding_fields_def b'_def)
  have sel: "tb_requested b' = tb_requested b" "tb_actor b' = tb_actor b" "tb_subject b' = s"
    "tb_accepted b' = [] \<longleftrightarrow> tb_accepted b = []" by (simp_all add: b'_def)
  show ?thesis
    unfolding validate_transition_authorization_def
    by (simp only: fields sel evidence_subject_fields [OF assms(1)] subject_fingerprint_fields [OF assms(1)]
        same_fields_dget [OF assms(1)])
qed

lemma protection_errors_row:
  assumes "build_event_material env p t prev seq = Inr m" and "canon_fields (ep_state p)"
    and "history \<noteq> []"
    and unprotected: "state_name (ep_state p) \<notin> set protected_states \<Longrightarrow> ep_auth p = None"
    and protected: "state_name (ep_state p) \<in> set protected_states \<Longrightarrow>
      (\<exists>a rs. ep_auth p = Some a \<and> sort_keys (PDict a) = PDict a \<and> ep_records p = map PDict rs \<and> (\<forall>r \<in> set rs. canon (PDict r)) \<and>
        (\<forall>subject. subject_from_record (ep_state p) = Inr subject \<longrightarrow>
          evidence_ok env (ep_case p) subject (ep_required p) rs (ep_accepted p) \<and>
          validate_transition_authorization env (PDict a) \<lparr>tb_case = ep_case p, tb_version = int (length history),
            tb_current = str_or_empty (dget ''current_record_hash'' (last history)), tb_next = ep_hash p,
            tb_requested = ep_requested p, tb_decision = ep_decision p, tb_actor = ep_actor p, tb_key = ep_key p,
            tb_subject = subject, tb_required = ep_required p, tb_accepted = ep_accepted p, tb_rejected = ep_rejected p,
            tb_policy = sort_keys (ep_policy p), tb_toolchain = sort_keys (ep_toolchain p)\<rparr> = Inr ()))"
  shows "protection_errors env (ep_case p) history (life_event_dict (event_row_of env seq m)) = Inr []"
  using assms(1)
proof (rule build_event_material_Inr)
  fix subject epoch fp
  assume s: "subject_from_record (ep_state p) = Inr subject" and m: "m = material_fields_of env p t prev seq subject epoch fp"
  let ?e = "life_event_dict (event_row_of env seq m)"
  note cs = subject_canon [OF assms(2) s] and ev = event_values [of env seq p t prev subject epoch fp, folded m]
  have name: "state_name (as_dict (dget ''state'' ?e)) = state_name (ep_state p)"
    unfolding ev sorted_fields [OF assms(2)] by (simp add: state_name_fields [OF sorted_dict(2) [OF assms(2)]])
  show ?thesis
  proof (cases "state_name (ep_state p) \<in> set protected_states")
    case False
    then show ?thesis using unprotected ev(18) by (simp add: protection_errors_def name opt_dict_def)
  next
    case True
    from protected [OF True] s obtain a rs where a: "ep_auth p = Some a" "sort_keys (PDict a) = PDict a"
      and rs: "ep_records p = map PDict rs" "\<forall>r \<in> set rs. canon (PDict r)"
      and ok: "evidence_ok env (ep_case p) subject (ep_required p) rs (ep_accepted p)"
      and auth: "validate_transition_authorization env (PDict a) \<lparr>tb_case = ep_case p, tb_version = int (length history),
            tb_current = str_or_empty (dget ''current_record_hash'' (last history)), tb_next = ep_hash p,
            tb_requested = ep_requested p, tb_decision = ep_decision p, tb_actor = ep_actor p, tb_key = ep_key p,
            tb_subject = subject, tb_required = ep_required p, tb_accepted = ep_accepted p, tb_rejected = ep_rejected p,
            tb_policy = sort_keys (ep_policy p), tb_toolchain = sort_keys (ep_toolchain p)\<rparr> = Inr ()"
      by blast
    let ?subject = "sort_key fst subject" and ?rs = "sort_key (\<lambda>r. record_id (PDict r)) rs"
    have subj: "as_dict (dget ''subject'' ?e) = ?subject" unfolding ev sorted_fields [OF cs] by simp
    have auth_e: "dget ''transition_authorization'' ?e = PDict a" using a by (simp only: ev(18) opt_dict_def option.case)
    have "map sort_keys (map PDict ?rs) = map PDict ?rs" using rs(2) by (intro map_idI) (auto simp: canon_def simp del: sort_keys.simps)
    then have recs: "as_list (dget ''accepted_evidence_records'' ?e) = map PDict ?rs"
      unfolding ev(20) rs(1) sort_key_map by simp
    have same: "same_fields subject ?subject" "same_fields ?subject subject" by (simp_all add: same_fields_def)
    have evid: "evidence_errors env (ep_case p) ?e = Inr []"
      using evidence_ok_validates [OF evidence_ok_read_back [OF ok same(1)], of "\<lambda>r. record_id (PDict r)"]
      unfolding evidence_errors_def event_names_list(1) [OF ev(7)] event_names_list(1) [OF ev(8)] bind_res_simps recs subj
      by (auto simp: refusal_def comp_def)
    have bind: "recorded_binding (ep_case p) history ?e = Inr (\<lparr>tb_case = ep_case p, tb_version = int (length history),
            tb_current = str_or_empty (dget ''current_record_hash'' (last history)), tb_next = ep_hash p,
            tb_requested = ep_requested p, tb_decision = ep_decision p, tb_actor = ep_actor p, tb_key = ep_key p,
            tb_subject = ?subject, tb_required = sorted_set (ep_required p), tb_accepted = sorted_set (ep_accepted p),
            tb_rejected = sorted_set (ep_rejected p),
            tb_policy = sort_keys (ep_policy p), tb_toolchain = sort_keys (ep_toolchain p)\<rparr>)"
      unfolding recorded_binding_def event_names_list(2) [OF ev(7)] event_names_list(2) [OF ev(8)] event_names_list(2) [OF ev(9)]
        bind_res_simps subj by (simp add: ev)
    have "validate_transition_authorization env (PDict a) (\<lparr>tb_case = ep_case p, tb_version = int (length history),
            tb_current = str_or_empty (dget ''current_record_hash'' (last history)), tb_next = ep_hash p,
            tb_requested = ep_requested p, tb_decision = ep_decision p, tb_actor = ep_actor p, tb_key = ep_key p,
            tb_subject = ?subject, tb_required = sorted_set (ep_required p), tb_accepted = sorted_set (ep_accepted p),
            tb_rejected = sorted_set (ep_rejected p),
            tb_policy = sort_keys (ep_policy p), tb_toolchain = sort_keys (ep_toolchain p)\<rparr>) = Inr ()"
      using authorization_read_back [of ?subject "\<lparr>tb_case = ep_case p, tb_version = int (length history),
            tb_current = str_or_empty (dget ''current_record_hash'' (last history)), tb_next = ep_hash p,
            tb_requested = ep_requested p, tb_decision = ep_decision p, tb_actor = ep_actor p, tb_key = ep_key p,
            tb_subject = subject, tb_required = ep_required p, tb_accepted = ep_accepted p, tb_rejected = ep_rejected p,
            tb_policy = sort_keys (ep_policy p), tb_toolchain = sort_keys (ep_toolchain p)\<rparr>" env "PDict a"] auth same(2) by simp
    then show ?thesis
      using True assms(3) evid bind by (simp add: protection_errors_def name auth_e refusal_def)
  qed
qed

end
