(* ===== verification/Life_Wf.thy ===== *)
theory Life_Wf
  imports Life_Inv
begin

text \<open>
  The structure of the lifecycle store: the rows of the cases are a projection of the event log.
  Every operation that writes keeps it, whatever the request.
\<close>

section \<open>The log of a case\<close>

definition event_owner :: "life_event \<Rightarrow> string" where
  "event_owner e = str_or_empty (dget ''case_id'' (life_event_dict e))"

definition seen_of :: "life_event list \<Rightarrow> (string \<times> pydict) list" where
  "seen_of es = map (\<lambda>e. (event_owner e, life_event_dict e)) es"

definition case_history :: "string \<Rightarrow> life_event list \<Rightarrow> pydict list" where
  "case_history i es = map life_event_dict (filter (\<lambda>e. event_owner e = i) es)"

lemma seen_of_simps [simp]:
  "seen_of [] = []" "seen_of (es @ [e]) = seen_of es @ [(event_owner e, life_event_dict e)]"
  by (simp_all add: seen_of_def)

lemma case_history_snoc [simp]:
  "case_history i [] = []"
  "case_history i (es @ [e]) = case_history i es @ (if event_owner e = i then [life_event_dict e] else [])"
  by (simp_all add: case_history_def)

lemma history_seen: "map snd (filter (\<lambda>(i, _). i = k) (seen_of es)) = case_history k es"
  by (induction es) (auto simp: seen_of_def case_history_def)

lemma latest_seen: "map_of (rev (seen_of es)) i = (if case_history i es = [] then None else Some (last (case_history i es)))"
  by (induction es rule: rev_induct) auto

text \<open>The row of a case repeats what its last event says; its version counts its events.\<close>

definition case_ok :: "(string \<Rightarrow> string) \<Rightarrow> life_event list \<Rightarrow> life_case \<Rightarrow> bool" where
  "case_ok sha es row \<longleftrightarrow>
     (let h = case_history (lc_id row) es in
      h \<noteq> [] \<and> lc_version row = int (length h) \<and> dget ''current_record_hash'' (last h) = PStr (lc_hash row) \<and>
      (\<exists>d. dget ''state'' (last h) = PDict d \<and> lc_state row = Some (PDict d) \<and> lc_hash row = sha256_json sha (PDict d) \<and>
        truthy (dget ''state'' d)))"

definition event_ok :: "life_event \<Rightarrow> bool" where
  "event_ok e \<longleftrightarrow> event_case e = PStr (event_owner e)"

definition life_wf :: "(string \<Rightarrow> string) \<Rightarrow> life_db \<Rightarrow> bool" where
  "life_wf sha db \<longleftrightarrow>
     map lv_seq (ld_events db) = map int [1..<Suc (length (ld_events db))] \<and>
     unique_key lc_id (ld_cases db) \<and> list_all event_ok (ld_events db) \<and>
     event_owner ` set (ld_events db) \<subseteq> lc_id ` set (ld_cases db) \<and>
     list_all (case_ok sha (ld_events db)) (ld_cases db)"

lemma sorted_int_upt: "sorted (map int [a..<b])"
  by (simp add: sorted_map sorted_wrt_mono_rel [OF _ sorted_wrt_upt])

lemma life_wf_events:
  assumes "life_wf sha db"
  shows "sort_key lv_seq (ld_events db) = ld_events db" "next_sequence db = int (length (ld_events db)) + 1"
    "head_hash db = (if ld_events db = [] then life_genesis else lv_hash (last (ld_events db)))"
proof -
  have seq: "map lv_seq (ld_events db) = map int [1..<Suc (length (ld_events db))]" using assms by (simp add: life_wf_def)
  show *: "sort_key lv_seq (ld_events db) = ld_events db"
    by (rule sort_key_id_if_sorted) (simp only: seq sorted_int_upt)
  have "lv_seq (last (ld_events db)) = int (length (ld_events db))" if "ld_events db \<noteq> []"
  proof -
    have "lv_seq (last (ld_events db)) = last (map lv_seq (ld_events db))" using that by (simp add: last_map)
    also have "\<dots> = int (length (ld_events db))" unfolding seq using that by (simp add: last_map Suc_le_eq)
    finally show ?thesis .
  qed
  moreover have "last_event (ld_events db) = (if ld_events db = [] then None else Some (last (ld_events db)))"
    unfolding last_event_def * by (cases "ld_events db") auto
  ultimately show "next_sequence db = int (length (ld_events db)) + 1"
    "head_hash db = (if ld_events db = [] then life_genesis else lv_hash (last (ld_events db)))"
    by (simp_all add: next_sequence_def head_hash_def)
qed

section \<open>Appending keeps the structure\<close>

lemma append_event_tx_Inr:
  assumes "append_event_tx env p db = Inr db'"
  obtains t m where "event_time env (ep_auth p) = Inr t"
    and "build_event_material env p t (head_hash db) (next_sequence db) = Inr m"
    and "db' = db\<lparr>ld_events := ld_events db @ [event_row_of env (next_sequence db) m]\<rparr>"
    and "\<And>a. ep_auth p = Some a \<Longrightarrow> py_eq (dget ''event_commitment'' (metadata_of a)) (PStr (event_commitment env m))"
    and "event_key (event_row_of env (next_sequence db) m) \<notin> event_key ` set (ld_events db)"
  using assms by (auto simp: append_event_tx_def bind_res_Inr Let_def split: if_splits option.splits)

lemma built_row:
  assumes "build_event_material env p t prev seq = Inr m"
  defines "e \<equiv> event_row_of env seq m"
  shows "event_owner e = ep_case p" "event_ok e" "event_key e = PStr (ep_key p)"
    "dget ''current_record_hash'' (life_event_dict e) = PStr (ep_hash p)"
    "dget ''state'' (life_event_dict e) = sort_keys (PDict (ep_state p))"
proof -
  obtain subject epoch fp where m: "m = material_fields_of env p t prev seq subject epoch fp"
    using assms(1) by (rule build_event_material_Inr)
  note ev = event_values [of env seq p t prev subject epoch fp, folded m, folded e_def]
  have mk: "dget ''case_id'' m = PStr (ep_case p)" "dget ''idempotency_key'' m = PStr (ep_key p)"
    by (simp_all add: m material_fields_of_def)
  show owner: "event_owner e = ep_case p" by (simp add: event_owner_def ev)
  show "event_ok e" using mk owner by (simp only: event_ok_def e_def event_row_columns)
  show "event_key e = PStr (ep_key p)" using mk by (simp only: e_def event_row_columns)
  show "dget ''current_record_hash'' (life_event_dict e) = PStr (ep_hash p)"
    "dget ''state'' (life_event_dict e) = sort_keys (PDict (ep_state p))" by (rule ev)+
qed

lemma truthy_sort_keys [simp]: "truthy (sort_keys v) = truthy v"
  by (cases v) (auto dest: arg_cong [of _ _ length])

lemma life_wf_appended:
  assumes wf: "life_wf sha db" and sha: "le_sha env = sha"
    and built: "build_event_material env p t prev (next_sequence db) = Inr m"
    and uniq: "unique_key lc_id cs" and owners: "insert (ep_case p) (lc_id ` set (ld_cases db)) \<subseteq> lc_id ` set cs"
    and rows: "\<And>r. r \<in> set cs \<Longrightarrow> lc_id r \<noteq> ep_case p \<Longrightarrow> r \<in> set (ld_cases db)"
    and row: "\<And>r. r \<in> set cs \<Longrightarrow> lc_id r = ep_case p \<Longrightarrow>
      lc_version r = int (length (case_history (ep_case p) (ld_events db))) + 1 \<and> lc_state r = stored (ep_state p) \<and>
      lc_hash r = ep_hash p"
    and hash: "ep_hash p = life_hash env (ep_state p)" and named: "truthy (dget ''state'' (ep_state p))"
  shows "life_wf sha (db\<lparr>ld_cases := cs, ld_events := ld_events db @ [event_row_of env (next_sequence db) m]\<rparr>)"
proof -
  let ?e = "event_row_of env (next_sequence db) m" and ?es = "ld_events db"
  note e = built_row [OF built]
  have "case_ok sha (?es @ [?e]) r" if r: "r \<in> set cs" for r
  proof (cases "lc_id r = ep_case p")
    case False
    then have "case_ok sha ?es r" using rows [OF r] wf by (simp add: life_wf_def list_all_iff)
    with False show ?thesis by (simp add: case_ok_def e(1))
  next
    case True
    have "sha256_json sha (sort_keys (PDict (ep_state p))) = ep_hash p"
      using life_hash_sorted [of env "ep_state p"] by (simp add: hash life_hash_def sha)
    moreover have "truthy (dget ''state'' (as_dict (sort_keys (PDict (ep_state p)))))"
      unfolding dget_sorted using named by simp
    ultimately show ?thesis using row [OF r True] True e by (simp add: case_ok_def stored_def)
  qed
  moreover have "map lv_seq (?es @ [?e]) = map int [1..<Suc (length (?es @ [?e]))]"
    using wf life_wf_events(2) [OF wf] by (simp add: life_wf_def)
  ultimately show ?thesis
    using wf uniq owners e(1,2) unfolding life_wf_def list_all_iff by (fastforce simp del: upt_Suc)
qed

lemma life_wf_empty: "life_wf sha \<lparr>ld_cases = [], ld_events = [], ld_binding = b\<rparr>"
  by (simp add: life_wf_def)

lemma no_history: "life_wf sha db \<Longrightarrow> i \<notin> lc_id ` set (ld_cases db) \<Longrightarrow> case_history i (ld_events db) = []"
  by (auto simp: life_wf_def case_history_def filter_empty_conv)

lemma str_or_empty_truthy: "str_or_empty v \<noteq> [] \<Longrightarrow> truthy v"
  by (auto simp: str_or_empty_def py_or_def split: if_splits)

lemma set_default_dget: "k \<noteq> k' \<Longrightarrow> dget k (set_default k' v d) = dget k d"
  by (auto simp: set_default_def dget_def split: option.splits)

lemma initial_document_state: "initial_document env r = Inr d \<Longrightarrow> dget ''state'' d = dget ''state'' r"
  by (auto simp: initial_document_def bind_res_Inr Let_def set_default_dget split: if_splits)

lemma life_wf_initialize:
  assumes "life_wf sha db" and "le_sha env = sha" and "life_initialize env r actor key db = Inr (db', out)"
  shows "life_wf sha db'"
proof (cases out)
  case Some
  then show ?thesis
    using assms(1,3) by (auto simp: life_initialize_def bind_res_Inr Let_def split: if_splits option.splits)
next
  case None
  with assms(3) obtain actor' d key' where named: "str_or_empty (dget ''state'' r) = ''UNVERIFIED_REPORT''"
    and doc: "initial_document env r = Inr d" and d: "tbl_get lc_id (py_str (dget ''case_id'' r)) (ld_cases db) = None"
    and "\<exists>epoch. append_event_tx env (initial_parts (py_str (dget ''case_id'' r)) key' actor' d (life_hash env d))
      (db\<lparr>ld_cases := ld_cases db @ [\<lparr>lc_id = py_str (dget ''case_id'' r), lc_version = 1, lc_epoch = epoch, lc_state = stored d,
        lc_hash = life_hash env d, lc_updated = le_now_text env\<rparr>]\<rparr>) = Inr db'"
    by (auto simp: life_initialize_def bind_res_Inr Let_def split: if_splits option.splits)
  then obtain epoch where app: "append_event_tx env (initial_parts (py_str (dget ''case_id'' r)) key' actor' d (life_hash env d))
      (db\<lparr>ld_cases := ld_cases db @ [\<lparr>lc_id = py_str (dget ''case_id'' r), lc_version = 1, lc_epoch = epoch, lc_state = stored d,
        lc_hash = life_hash env d, lc_updated = le_now_text env\<rparr>]\<rparr>) = Inr db'" by blast
  let ?row = "\<lparr>lc_id = py_str (dget ''case_id'' r), lc_version = 1, lc_epoch = epoch, lc_state = stored d,
        lc_hash = life_hash env d, lc_updated = le_now_text env\<rparr>"
  let ?p = "initial_parts (py_str (dget ''case_id'' r)) key' actor' d (life_hash env d)"
  from app obtain t m where
    m: "build_event_material env ?p t (head_hash (db\<lparr>ld_cases := ld_cases db @ [?row]\<rparr>)) (next_sequence db) = Inr m"
    and db': "db' = db\<lparr>ld_cases := ld_cases db @ [?row], ld_events := ld_events db @ [event_row_of env (next_sequence db) m]\<rparr>"
    by (rule append_event_tx_Inr) (simp add: next_sequence_def)
  have fresh: "py_str (dget ''case_id'' r) \<notin> lc_id ` set (ld_cases db)" using d by (simp add: tbl_get_None)
  have p: "ep_case ?p = py_str (dget ''case_id'' r)" "ep_state ?p = d" "ep_hash ?p = life_hash env d" by (simp_all add: initial_parts_def)
  show ?thesis unfolding db'
  proof (rule life_wf_appended [OF assms(1,2) m])
    show "truthy (dget ''state'' (ep_state ?p))"
      using str_or_empty_truthy [of "dget ''state'' r"] named initial_document_state [OF doc] by (simp add: p)
    show "unique_key lc_id (ld_cases db @ [?row])" using assms(1) fresh by (simp add: life_wf_def)
    fix r'
    assume r': "r' \<in> set (ld_cases db @ [?row])"
    then show "lc_id r' \<noteq> ep_case ?p \<Longrightarrow> r' \<in> set (ld_cases db)" by (auto simp: p)
    assume "lc_id r' = ep_case ?p"
    then have "r' \<notin> set (ld_cases db)" using fresh unfolding p by (metis imageI)
    then have "r' = ?row" using r' by simp
    then show "lc_version r' = int (length (case_history (ep_case ?p) (ld_events db))) + 1 \<and>
        lc_state r' = stored (ep_state ?p) \<and> lc_hash r' = ep_hash ?p"
      by (simp add: p no_history [OF assms(1) fresh])
  qed (auto simp: p)
qed

lemma commit_transition_Inr:
  assumes "commit_transition env p expected db = Inr db'"
  obtains t m epoch where "event_time env (ep_auth p) = Inr t"
    and "build_event_material env p t (head_hash db) (next_sequence db) = Inr m"
    and "\<And>a. ep_auth p = Some a \<Longrightarrow> py_eq (dget ''event_commitment'' (metadata_of a)) (PStr (event_commitment env m))"
    and "\<exists>r \<in> set (ld_cases db). lc_id r = ep_case p \<and> lc_version r = expected"
    and "db' = db\<lparr>ld_cases := tbl_upd (\<lambda>r. lc_id r = ep_case p \<and> lc_version r = expected)
        (case_written env (expected + 1) epoch (ep_state p) (ep_hash p)) (ld_cases db),
      ld_events := ld_events db @ [event_row_of env (next_sequence db) m]\<rparr>"
proof -
  from assms obtain db1 epoch where "append_event_tx env p db = Inr db1"
    and "rowcount (\<lambda>r. lc_id r = ep_case p \<and> lc_version r = expected) (ld_cases db1) = 1"
    and db': "db' = db1\<lparr>ld_cases := tbl_upd (\<lambda>r. lc_id r = ep_case p \<and> lc_version r = expected)
        (case_written env (expected + 1) epoch (ep_state p) (ep_hash p)) (ld_cases db1)\<rparr>"
    by (auto simp: commit_transition_def bind_res_Inr split: if_splits)
  moreover from this(1) obtain t m where "event_time env (ep_auth p) = Inr t"
    and "build_event_material env p t (head_hash db) (next_sequence db) = Inr m"
    and "db1 = db\<lparr>ld_events := ld_events db @ [event_row_of env (next_sequence db) m]\<rparr>"
    and "\<And>a. ep_auth p = Some a \<Longrightarrow> py_eq (dget ''event_commitment'' (metadata_of a)) (PStr (event_commitment env m))"
    by (rule append_event_tx_Inr) blast
  ultimately show ?thesis
    using that [of t m epoch] rowcount_pos [of "\<lambda>r. lc_id r = ep_case p \<and> lc_version r = expected" "ld_cases db"] by simp
qed

interpretation case_wr: keyed_table lc_id "case_written env version epoch d h" for env version epoch d h
  by unfold_locales (simp add: case_written_def)

lemma life_wf_commit:
  assumes wf: "life_wf sha db" and sha: "le_sha env = sha" and hash: "ep_hash p = life_hash env (ep_state p)"
    and named: "truthy (dget ''state'' (ep_state p))" and "commit_transition env p expected db = Inr db'"
  shows "life_wf sha db'"
  using assms(5)
proof (rule commit_transition_Inr)
  fix t m epoch
  assume built: "build_event_material env p t (head_hash db) (next_sequence db) = Inr m"
    and ex: "\<exists>r \<in> set (ld_cases db). lc_id r = ep_case p \<and> lc_version r = expected"
    and db': "db' = db\<lparr>ld_cases := tbl_upd (\<lambda>r. lc_id r = ep_case p \<and> lc_version r = expected)
        (case_written env (expected + 1) epoch (ep_state p) (ep_hash p)) (ld_cases db),
      ld_events := ld_events db @ [event_row_of env (next_sequence db) m]\<rparr>"
  let ?p = "\<lambda>r. lc_id r = ep_case p \<and> lc_version r = expected"
  let ?w = "case_written env (expected + 1) epoch (ep_state p) (ep_hash p)"
  have uk: "unique_key lc_id (ld_cases db)" using wf by (simp add: life_wf_def)
  have version: "expected = int (length (case_history (ep_case p) (ld_events db)))"
    using ex wf by (auto simp: life_wf_def list_all_iff case_ok_def Let_def)
  have same: "?p q" if "q \<in> set (ld_cases db)" "lc_id q = ep_case p" for q
    using that ex unique_key_eq [OF uk] by metis
  show ?thesis unfolding db'
  proof (rule life_wf_appended [OF wf sha built _ _ _ _ hash named])
    show "unique_key lc_id (tbl_upd ?p ?w (ld_cases db))" using uk by (rule case_wr.upd_unique)
    show "insert (ep_case p) (lc_id ` set (ld_cases db)) \<subseteq> lc_id ` set (tbl_upd ?p ?w (ld_cases db))"
      unfolding case_wr.upd_keys using ex by (metis image_eqI insert_subset subset_refl)
    fix r
    assume "r \<in> set (tbl_upd ?p ?w (ld_cases db))"
    then obtain q where q: "q \<in> set (ld_cases db)" and r: "r = (if ?p q then ?w q else q)" unfolding tbl_upd_in by blast
    have key: "lc_id r = lc_id q" unfolding r by (simp add: case_wr.key_wr)
    show "r \<in> set (ld_cases db)" if "lc_id r \<noteq> ep_case p"
    proof -
      have "\<not> ?p q" using that key by metis
      then have "r = q" unfolding r by (rule if_not_P)
      then show ?thesis using q by (simp only:)
    qed
    assume "lc_id r = ep_case p"
    then have "?p q" using key by (intro same [OF q]) (simp only:)
    then have "r = ?w q" unfolding r by (rule if_P)
    then show "lc_version r = int (length (case_history (ep_case p) (ld_events db))) + 1 \<and>
        lc_state r = stored (ep_state p) \<and> lc_hash r = ep_hash p"
      by (simp add: case_written_def version)
  qed
qed


section \<open>Transitions\<close>

lemma transition_tx_Inr:
  assumes "life_transition_tx env case_id state rq db = Inr (db', False)"
  obtains actor d row current records where "resolve_actor env (rq_actor rq) = Inr actor"
    and "py_eq (dget ''case_id'' state) (PStr case_id)" and "next_document env state = Inr d"
    and "tbl_get lc_id case_id (ld_cases db) = Some row" and "life_snapshot row = Inr current"
    and "lc_version row = rq_expected rq" and "transition_guards env current d rq = Inr ()"
    and "protected_guards env case_id actor (transition_key case_id (life_hash env d) rq) (lc_hash row) (life_hash env d) d rq = Inr records"
    and "commit_transition env (parts_of case_id actor (transition_key case_id (life_hash env d) rq) current (life_hash env d) d records rq)
      (rq_expected rq) db = Inr db'"
  using assms by (auto simp: life_transition_tx_def bind_res_Inr Let_def split: if_splits option.splits)

lemma transition_tx_replay: "life_transition_tx env case_id state rq db = Inr (db', True) \<Longrightarrow> db' = db"
  by (auto simp: life_transition_tx_def bind_res_Inr Let_def split: if_splits option.splits)

lemma checks_append: "checks (cs @ ds) = Inr () \<longleftrightarrow> checks cs = Inr () \<and> checks ds = Inr ()"
  by (auto simp: checks_Inr)

lemma checks_Cons: "checks (c # cs) = Inr () \<longleftrightarrow> c = Inr () \<and> checks cs = Inr ()"
  by (cases c) auto

lemmas checks_passed = checks_append checks_Cons deny_Inr

lemma guards_name:
  assumes "transition_guards env current d rq = Inr ()"
  shows "state_name d \<in> set authoritative_states \<or> state_name d = ''BLOCKED'' \<or> state_name d = ''ROLLBACK_REQUIRED''"
  using assms by (simp add: transition_guards_def name_guards_def bind_res_Inr Let_def checks_passed del: checks.simps)

lemma state_name_truthy: "state_name d \<noteq> [] \<Longrightarrow> truthy (dget ''state'' d)"
  by (simp add: state_name_def str_or_empty_truthy)

lemma guards_truthy:
  assumes "transition_guards env current d rq = Inr ()"
  shows "truthy (dget ''state'' d)"
proof (rule state_name_truthy)
  show "state_name d \<noteq> []"
    using guards_name [OF assms] by (auto simp: authoritative_states_def code_lifecycle_def package_states_def)
qed

lemma parts_of_sel [simp]:
  "ep_case (parts_of i a k c h d rs rq) = i" "ep_key (parts_of i a k c h d rs rq) = k" "ep_actor (parts_of i a k c h d rs rq) = a"
  "ep_prior (parts_of i a k c h d rs rq) = py_str (dget ''state'' c)" "ep_requested (parts_of i a k c h d rs rq) = rq_requested rq"
  "ep_decision (parts_of i a k c h d rs rq) = rq_decision rq" "ep_required (parts_of i a k c h d rs rq) = rq_required rq"
  "ep_accepted (parts_of i a k c h d rs rq) = rq_accepted rq" "ep_rejected (parts_of i a k c h d rs rq) = rq_rejected rq"
  "ep_records (parts_of i a k c h d rs rq) = rs" "ep_state (parts_of i a k c h d rs rq) = d" "ep_hash (parts_of i a k c h d rs rq) = h"
  "ep_policy (parts_of i a k c h d rs rq) = policy_of rq d" "ep_toolchain (parts_of i a k c h d rs rq) = toolchain_of rq d"
  "ep_auth (parts_of i a k c h d rs rq) = rq_auth rq"
  by (simp_all add: parts_of_def)

lemma life_wf_transition:
  assumes "life_wf sha db" and "le_sha env = sha" and "life_transition_tx env case_id state rq db = Inr (db', replay)"
  shows "life_wf sha db'"
proof (cases replay)
  case True
  then show ?thesis using assms(1,3) transition_tx_replay [of env case_id state rq db db'] by simp
next
  case False
  with assms(3) have "life_transition_tx env case_id state rq db = Inr (db', False)" by simp
  then show ?thesis
    by (rule transition_tx_Inr) (auto intro!: life_wf_commit [OF assms(1,2)] dest: guards_truthy)
qed


section \<open>Verification of a well-formed store\<close>

definition log_head :: "life_event list \<Rightarrow> string" where
  "log_head es = (if es = [] then life_genesis else lv_hash (last es))"

lemma chain_walk_snoc:
  "chain_walk env prev n seen (es @ [x]) =
     bind_res (chain_walk env prev n seen es) (\<lambda>(errors, head, all).
     bind_res (event_errors env head (if es = [] then n else lv_seq (last es) + 1) all x) (\<lambda>more.
       Inr (errors @ more, lv_hash x, all @ [(event_owner x, life_event_dict x)])))"
proof (induction es arbitrary: prev n seen)
  case Nil
  show ?case by (simp add: event_owner_def split: sum.splits)
next
  case (Cons e es)
  show ?case
    by (simp add: Cons event_owner_def) (simp add: bind_res_def split: sum.splits prod.splits)
qed

definition log_clean :: "life_env \<Rightarrow> life_event list \<Rightarrow> bool" where
  "log_clean env es \<longleftrightarrow> chain_walk env life_genesis 1 [] es = Inr ([], log_head es, seen_of es)"

lemma chain_walk_Inr:
  "chain_walk env prev n seen es = Inr (errors, head, all) \<Longrightarrow>
     head = (if es = [] then prev else lv_hash (last es)) \<and> all = seen @ seen_of es"
proof (induction es arbitrary: prev n seen errors head all rule: rev_induct)
  case (snoc x es)
  then obtain errors0 head0 all0 where "chain_walk env prev n seen es = Inr (errors0, head0, all0)"
    and "head = lv_hash x \<and> all = all0 @ [(event_owner x, life_event_dict x)]"
    by (auto simp: chain_walk_snoc bind_res_Inr)
  with snoc.IH [of prev n seen errors0 head0 all0] show ?case by simp
qed simp

lemma log_clean_snoc_iff:
  "log_clean env (es @ [x]) \<longleftrightarrow> log_clean env es \<and>
     event_errors env (log_head es) (if es = [] then 1 else lv_seq (last es) + 1) (seen_of es) x = Inr []"
proof
  assume "log_clean env (es @ [x])"
  then obtain head all where "chain_walk env life_genesis 1 [] es = Inr ([], head, all)"
    and "event_errors env head (if es = [] then 1 else lv_seq (last es) + 1) all x = Inr []"
    by (auto simp: log_clean_def chain_walk_snoc bind_res_Inr)
  with chain_walk_Inr [OF this(1)] show "log_clean env es \<and>
      event_errors env (log_head es) (if es = [] then 1 else lv_seq (last es) + 1) (seen_of es) x = Inr []"
    by (auto simp: log_clean_def log_head_def)
next
  assume "log_clean env es \<and>
     event_errors env (log_head es) (if es = [] then 1 else lv_seq (last es) + 1) (seen_of es) x = Inr []"
  then show "log_clean env (es @ [x])" by (auto simp: log_clean_def chain_walk_snoc log_head_def)
qed

lemma case_errors_ok:
  assumes "case_ok (le_sha env) (ld_events db) row" and "list_all event_ok (ld_events db)"
  shows "case_errors env db (seen_of (ld_events db)) row = Inr []"
proof -
  let ?h = "case_history (lc_id row) (ld_events db)"
  obtain d where h: "?h \<noteq> []" and version: "lc_version row = int (length ?h)"
    and hash: "dget ''current_record_hash'' (last ?h) = PStr (lc_hash row)" and d: "lc_state row = Some (PDict d)"
    and sha: "sha256_json (le_sha env) (PDict d) = lc_hash row" using assms(1) by (auto simp: case_ok_def Let_def)
  have len: "length (filter (\<lambda>e. event_case e = PStr (lc_id row)) (ld_events db)) = length ?h"
    using assms(2) by (simp add: case_history_def list_all_iff event_ok_def cong: filter_cong)
  have "\<exists>e. last ?h = life_event_dict e" using last_in_set [OF h] by (auto simp: case_history_def)
  then obtain i where "dget ''sequence'' (last ?h) = PInt i" "has_key ''sequence'' (last ?h)"
    by (elim exE) (simp add: life_event_dict_def Let_def has_key_def)
  then have "py_int (dget_default ''sequence'' (PInt 0) (last ?h)) = Inr i"
    by (auto simp: dget_default_def dget_def has_key_def py_int_def dkeys_def split: option.splits)
  then show ?thesis
    by (simp add: case_errors_def latest_seen h d sha hash version len)
qed

lemma gather_nil: "(\<And>x. x \<in> set xs \<Longrightarrow> f x = Inr []) \<Longrightarrow> gather f xs = Inr []"
  by (induction xs) simp_all

lemma verify_wf:
  assumes "life_wf (le_sha env) db"
  shows "verify_life_chain env i db =
    bind_res (chain_walk env life_genesis 1 [] (ld_events db)) (\<lambda>(chain, head, seen).
      let errors = err_if (ld_binding db \<noteq> Some (le_binding env)) ''Lifecycle database store binding does not match this task'' @ chain @
          (case i of None \<Rightarrow> [] | Some i \<Rightarrow> err_if (i \<notin> event_owner ` set (ld_events db)) (''lifecycle case '' @ i @ '' has no events''))
      in Inr \<lparr>lr_valid = (errors = []), lr_records = length (ld_events db), lr_errors = sorted_set errors, lr_head = head\<rparr>)"
proof (cases "chain_walk env life_genesis 1 [] (ld_events db)")
  case (Inr r)
  obtain errors head all where r: "r = (errors, head, all)" by (cases r)
  have "all = seen_of (ld_events db)" using chain_walk_Inr [OF Inr [unfolded r]] by simp
  moreover have "gather (case_errors env db (seen_of (ld_events db))) (ld_cases db) = Inr []"
    using assms by (intro gather_nil case_errors_ok) (auto simp: life_wf_def list_all_iff)
  moreover have "set (map fst (seen_of (ld_events db))) = event_owner ` set (ld_events db)"
    by (simp add: seen_of_def image_image)
  ultimately show ?thesis
    by (simp add: verify_life_chain_def life_wf_events(1) [OF assms] Inr r del: set_map split: option.splits)
qed (simp add: verify_life_chain_def life_wf_events(1) [OF assms])

definition store_valid :: "life_env \<Rightarrow> life_db \<Rightarrow> bool" where
  "store_valid env db \<longleftrightarrow> (\<exists>report. verify_life_chain env None db = Inr report \<and> lr_valid report)"

lemma store_valid_iff:
  assumes "life_wf (le_sha env) db"
  shows "store_valid env db \<longleftrightarrow> ld_binding db = Some (le_binding env) \<and> log_clean env (ld_events db)"
proof -
  have "log_clean env (ld_events db) \<longleftrightarrow> (\<exists>head all. chain_walk env life_genesis 1 [] (ld_events db) = Inr ([], head, all))"
    unfolding log_clean_def log_head_def using chain_walk_Inr [of env life_genesis 1 "[]" "ld_events db" "[]"] by auto
  then show ?thesis
    unfolding store_valid_def verify_wf [OF assms] by (auto simp: bind_res_Inr Let_def err_if_def)
qed

text \<open>A valid store returns every case it holds.\<close>

lemma life_get_valid:
  assumes "life_wf (le_sha env) db" and "store_valid env db" and "tbl_get lc_id i (ld_cases db) = Some row"
  shows "life_get env True i db = life_snapshot row" "\<exists>d. life_snapshot row = Inr d"
proof -
  have row: "row \<in> set (ld_cases db)" "lc_id row = i" using tbl_get_Some_in [OF assms(3)] by auto
  then have ok: "case_ok (le_sha env) (ld_events db) row" using assms(1) by (simp add: life_wf_def list_all_iff)
  then show "\<exists>d. life_snapshot row = Inr d" by (auto simp: case_ok_def Let_def life_snapshot_def)
  have "case_history i (ld_events db) \<noteq> []" using ok row by (simp add: case_ok_def Let_def)
  then have "i \<in> event_owner ` set (ld_events db)" by (auto simp: case_history_def filter_empty_conv)
  then show "life_get env True i db = life_snapshot row"
    using assms(2,3) unfolding store_valid_iff [OF assms(1)]
    by (simp add: life_get_def verify_wf [OF assms(1)] log_clean_def)
qed

end
