(* ===== verification/Life_Honest.thy ===== *)
theory Life_Honest
  imports Life_Wf
begin

text \<open>
  A transition that its controller could have meant is verifiable afterwards: which guards of
  \<open>transition\<close> imply which checks of \<open>verify_event_chain\<close>, and what the guards leave open.
\<close>

section \<open>The guards on the order\<close>

lemma transition_guards_Inr:
  assumes "transition_guards env current d rq = Inr ()"
  obtains changes e0 e1 where "name_guards (model_of current d) (state_name d) (rq_requested rq) (rq_decision rq) = Inr ()"
    and "subject_guards env current d (rq_decision rq) = Inr changes"
    and "(if rq_decision rq \<in> set binding_decisions then binding_guards env current d (dkeys changes)
      else field_guards current d) = Inr ()"
    and "order_guards current d (rq_requested rq) (rq_decision rq) = Inr ()"
    and "closure_guards current d (model_of current d) (rq_required rq) = Inr ()"
    and "py_int (py_or (dget ''subject_epoch'' d) (PInt 0)) = Inr e1"
    and "py_int (py_or (dget ''subject_epoch'' current) (PInt 0)) = Inr e0" and "e0 \<le> e1"
  using assms by (auto simp: transition_guards_def bind_res_Inr Let_def deny_Inr not_less)

lemma guards_order:
  assumes "transition_guards env current d rq = Inr ()"
    and "rq_decision rq = ''PROCEED'' \<Longrightarrow> rq_requested rq = state_name d"
  shows "order_ok current d (rq_requested rq) (rq_decision rq)"
proof -
  have order: "order_guards current d (rq_requested rq) (rq_decision rq) = Inr ()"
    and known: "rq_decision rq \<in> set ([''PROCEED'', ''BLOCKED'', ''ROLLBACK_REQUIRED''] @ binding_decisions)"
    using assms(1) by (rule transition_guards_Inr; simp add: name_guards_def checks_passed del: checks.simps)+
  have names: "''BLOCKED'' \<notin> set authoritative_states" "''ROLLBACK_REQUIRED'' \<notin> set authoritative_states"
    by (simp_all add: authoritative_states_def code_lifecycle_def package_states_def)
  have decisions: "''PROCEED'' \<notin> set binding_decisions" "''BLOCKED'' \<notin> set binding_decisions" "''ROLLBACK_REQUIRED'' \<notin> set binding_decisions"
    by (simp_all add: binding_decisions_def)
  consider (auth) "state_name d \<in> set authoritative_states" | (blocked) "state_name d = ''BLOCKED''"
    | (rollback) "state_name d = ''ROLLBACK_REQUIRED''" using guards_name [OF assms(1)] by blast
  then show ?thesis
  proof cases
    case auth
    then have "rq_decision rq \<in> set binding_decisions \<longrightarrow> state_name d \<in> {state_name current, ''BLOCKED'', ''ROLLBACK_REQUIRED''}"
      "rq_decision rq \<in> set binding_decisions \<or> rq_decision rq = ''PROCEED''"
      "rq_decision rq \<in> set binding_decisions \<or> rq_requested rq \<in> set (allowed_transitions (logical_state current))"
      using order unfolding order_guards_def Let_def by (simp_all add: checks_passed del: checks.simps)
    then show ?thesis using assms(2) decisions unfolding order_ok_def Let_def by metis
  next
    case blocked
    then have "rq_decision rq = ''BLOCKED'' \<or> rq_decision rq \<in> set binding_decisions"
      using order names unfolding order_guards_def Let_def by (simp add: checks_passed del: checks.simps)
    then show ?thesis using blocked decisions unfolding order_ok_def Let_def by auto
  next
    case rollback
    then have "rq_decision rq = ''ROLLBACK_REQUIRED'' \<or> rq_decision rq \<in> set binding_decisions"
      using order names unfolding order_guards_def Let_def by (auto simp add: checks_passed simp del: checks.simps)
    then show ?thesis using rollback decisions unfolding order_ok_def Let_def by auto
  qed
qed

lemma guards_epoch:
  assumes "transition_guards env current d rq = Inr ()"
  shows "validate_subject_epoch_transition (le_sha env) current d = Inr []"
proof -
  from assms obtain changes where "subject_guards env current d (rq_decision rq) = Inr changes"
    by (rule transition_guards_Inr)
  then show ?thesis by (auto simp: subject_guards_def bind_res_Inr simp del: checks.simps split: if_splits)
qed

section \<open>A transition its controller meant\<close>

text \<open>
  The documents come from JSON with sorted keys; a transition forward names the state it writes;
  only a protected state carries an authorization.
\<close>

definition canonical_request :: "pydict \<Rightarrow> life_request \<Rightarrow> bool" where
  "canonical_request state rq \<longleftrightarrow> canon_fields state \<and> list_all canon (rq_records rq) \<and> canon (opt_dict (rq_auth rq))"

definition honest_request :: "pydict \<Rightarrow> life_request \<Rightarrow> bool" where
  "honest_request state rq \<longleftrightarrow>
     (rq_decision rq = ''PROCEED'' \<longrightarrow> rq_requested rq = state_name state) \<and>
     (rq_auth rq \<noteq> None \<longrightarrow> state_name state \<in> set protected_states)"

lemma next_document_keeps:
  assumes "next_document env state = Inr d"
  shows "state_name d = state_name state" "dget ''state'' d = dget ''state'' state" "canon_fields state \<Longrightarrow> canon_fields d"
  using assms
  by (auto simp: next_document_def bind_res_Inr Let_def state_name_def canon_fields_dset canon_fields_ddel split: if_splits)

lemma canon_choice:
  "canon_fields d \<Longrightarrow> canon (policy_of rq d)" "canon_fields d \<Longrightarrow> canon (toolchain_of rq d)"
  by (cases "rq_policy rq"; auto simp: policy_of_def py_or_def canon_dget)
    (cases "rq_toolchain rq"; auto simp: toolchain_of_def py_or_def canon_dget)

lemma authorization_Inr:
  assumes "validate_transition_authorization env a b = Inr ()"
  shows "\<exists>d. a = PDict d"
  using assms by (auto simp: validate_transition_authorization_def split: if_splits pyval.splits)

lemma protected_guards_records:
  assumes "protected_guards env case_id actor key ch nh d rq = Inr records" and "state_name d \<in> set protected_states"
    and "subject_from_record d = Inr subject"
  shows "\<exists>a rs. rq_auth rq = Some a \<and> records = map PDict rs \<and> set records \<subseteq> set (rq_records rq) \<and>
    evidence_ok env case_id subject (rq_required rq) rs (rq_accepted rq) \<and>
    validate_transition_authorization env (PDict a) (binding_of case_id actor key subject ch nh d rq) = Inr ()"
proof -
  from assms have ev: "validate_accepted_evidence env (rq_records rq) case_id subject (rq_required rq) (rq_accepted rq) = Inr records"
    and auth: "validate_transition_authorization env (opt_dict (rq_auth rq)) (binding_of case_id actor key subject ch nh d rq) = Inr ()"
    by (auto simp: protected_guards_def bind_res_Inr)
  from authorization_Inr [OF auth] obtain a where "rq_auth rq = Some a" by (auto simp: opt_dict_def split: option.splits)
  with auth validate_accepted_ok [OF ev] show ?thesis by (auto simp: opt_dict_def)
qed

lemma resolve_actor_Inr:
  assumes "resolve_actor env a = Inr actor"
  shows "actor = cc_id (le_ctx env)" "validate_controller_identity (le_ctx env) a None = Inr []"
  using assms by (auto simp: resolve_actor_def bind_res_Inr split: if_splits)

lemma case_row:
  assumes "life_wf sha db" and "tbl_get lc_id i (ld_cases db) = Some row"
  obtains d where "case_history i (ld_events db) \<noteq> []" and "lc_version row = int (length (case_history i (ld_events db)))"
    and "dget ''current_record_hash'' (last (case_history i (ld_events db))) = PStr (lc_hash row)"
    and "dget ''state'' (last (case_history i (ld_events db))) = PDict d" and "lc_state row = Some (PDict d)"
    and "truthy (dget ''state'' d)"
proof -
  have row: "row \<in> set (ld_cases db)" "lc_id row = i" using tbl_get_Some_in [OF assms(2)] by auto
  then have "case_ok sha (ld_events db) row" using assms(1) by (simp add: life_wf_def list_all_iff)
  with row(2) that show ?thesis by (auto simp: case_ok_def Let_def)
qed

lemma honest_event:
  assumes wf: "life_wf (le_sha env) db" and row: "tbl_get lc_id case_id (ld_cases db) = Some row"
    and actor: "resolve_actor env (rq_actor rq) = Inr actor" and doc: "next_document env state = Inr d"
    and current: "life_snapshot row = Inr current" and version: "lc_version row = rq_expected rq"
    and guards: "transition_guards env current d rq = Inr ()"
    and protected: "protected_guards env case_id actor key (lc_hash row) (life_hash env d) d rq = Inr records"
    and honest: "honest_request state rq" and canonical: "canonical_request state rq"
    and built: "build_event_material env (parts_of case_id actor key current (life_hash env d) d records rq) t (log_head (ld_events db)) n = Inr m"
  shows "event_errors env (log_head (ld_events db)) n (seen_of (ld_events db)) (event_row_of env n m) = Inr []"
proof -
  let ?p = "parts_of case_id actor key current (life_hash env d) d records rq" and ?x = "event_row_of env n m"
  let ?h = "case_history case_id (ld_events db)"
  obtain prior where h: "?h \<noteq> []" and len: "lc_version row = int (length ?h)"
    and cur: "dget ''current_record_hash'' (last ?h) = PStr (lc_hash row)" and pr: "dget ''state'' (last ?h) = PDict prior"
    and st: "lc_state row = Some (PDict prior)" and named: "truthy (dget ''state'' prior)" by (rule case_row [OF wf row])
  note snap = snapshot_fields [OF current st]
  have cd: "canon_fields (ep_state ?p)" using canonical next_document_keeps(3) [OF doc] by (simp add: canonical_request_def)
  have owner: "str_or_empty (dget ''case_id'' (life_event_dict ?x)) = case_id"
    using built_row(1) [OF built] by (simp add: event_owner_def)
  have content: "content_errors env (life_event_dict ?x) = Inr []"
    using resolve_actor_Inr [OF actor] by (intro content_errors_row [OF built cd]) simp_all
  have order: "history_errors env ?h (life_event_dict ?x) = Inr []"
  proof (rule history_errors_row [OF built cd h pr])
    show "validate_subject_epoch_transition (le_sha env) prior (ep_state ?p) = Inr []"
      using guards_epoch [OF guards] by (simp add: epoch_transition_snapshot [OF current st])
    show "ep_prior ?p = state_name prior" using snap named by (simp add: state_name_def str_or_empty_def py_or_def)
    have "order_ok current d (rq_requested rq) (rq_decision rq)"
      using honest next_document_keeps(1) [OF doc] by (intro guards_order [OF guards]) (simp add: honest_request_def)
    moreover have "state_name current = state_name prior" "logical_state current = logical_state prior" using snap by simp_all
    ultimately show "order_ok prior (ep_state ?p) (ep_requested ?p) (ep_decision ?p)" by (simp only: order_ok_def parts_of_sel)
  qed
  have protection: "protection_errors env (ep_case ?p) ?h (life_event_dict ?x) = Inr []"
  proof (rule protection_errors_row [OF built cd h])
    show "ep_auth ?p = None" if "state_name (ep_state ?p) \<notin> set protected_states"
      using that honest next_document_keeps(1) [OF doc] by (auto simp: honest_request_def split: option.splits)
  next
    assume prot: "state_name (ep_state ?p) \<in> set protected_states"
    obtain subject where subject: "subject_from_record d = Inr subject"
      using built by (rule build_event_material_Inr) simp
    from protected_guards_records [OF protected _ subject] prot obtain a rs where a: "rq_auth rq = Some a"
      and rs: "records = map PDict rs" "set records \<subseteq> set (rq_records rq)"
      and ok: "evidence_ok env case_id subject (rq_required rq) rs (rq_accepted rq)"
      and auth: "validate_transition_authorization env (PDict a) (binding_of case_id actor key subject (lc_hash row) (life_hash env d) d rq) = Inr ()"
      by auto
    have sorted: "sort_keys (policy_of rq d) = policy_of rq d" "sort_keys (toolchain_of rq d) = toolchain_of rq d"
      using canon_choice cd by (simp_all add: canon_def)
    have canon: "sort_keys (PDict a) = PDict a" "\<forall>r \<in> set rs. canon (PDict r)"
      using canonical a rs by (auto simp: canonical_request_def list_all_iff canon_def opt_dict_def simp del: sort_keys.simps)
    have "\<lparr>tb_case = ep_case ?p, tb_version = int (length ?h),
            tb_current = str_or_empty (dget ''current_record_hash'' (last ?h)), tb_next = ep_hash ?p,
            tb_requested = ep_requested ?p, tb_decision = ep_decision ?p, tb_actor = ep_actor ?p, tb_key = ep_key ?p,
            tb_subject = subject, tb_required = ep_required ?p, tb_accepted = ep_accepted ?p, tb_rejected = ep_rejected ?p,
            tb_policy = sort_keys (ep_policy ?p), tb_toolchain = sort_keys (ep_toolchain ?p)\<rparr> =
        binding_of case_id actor key subject (lc_hash row) (life_hash env d) d rq"
      by (simp add: binding_of_def sorted cur len [symmetric] version)
    then show "\<exists>a rs. ep_auth ?p = Some a \<and> sort_keys (PDict a) = PDict a \<and> ep_records ?p = map PDict rs \<and>
        (\<forall>r \<in> set rs. canon (PDict r)) \<and>
        (\<forall>subject. subject_from_record (ep_state ?p) = Inr subject \<longrightarrow>
          evidence_ok env (ep_case ?p) subject (ep_required ?p) rs (ep_accepted ?p) \<and>
          validate_transition_authorization env (PDict a) \<lparr>tb_case = ep_case ?p, tb_version = int (length ?h),
            tb_current = str_or_empty (dget ''current_record_hash'' (last ?h)), tb_next = ep_hash ?p,
            tb_requested = ep_requested ?p, tb_decision = ep_decision ?p, tb_actor = ep_actor ?p, tb_key = ep_key ?p,
            tb_subject = subject, tb_required = ep_required ?p, tb_accepted = ep_accepted ?p, tb_rejected = ep_rejected ?p,
            tb_policy = sort_keys (ep_policy ?p), tb_toolchain = sort_keys (ep_toolchain ?p)\<rparr> = Inr ())"
      using a canon rs ok auth subject by (intro exI [of _ a] exI [of _ rs]) (simp del: sort_keys.simps)
  qed
  obtain subject epoch fp where m: "m = material_fields_of env ?p t (log_head (ld_events db)) n subject epoch fp"
    using built by (rule build_event_material_Inr)
  have fresh: "fresh_material n m" unfolding m by (rule material_fresh)
  have "dget ''previous_hash'' m = PStr (log_head (ld_events db))" by (simp add: m material_fields_of_def)
  then show ?thesis
    using content order protection column_errors_row [OF fresh] seal_errors_row [OF fresh]
    by (simp add: event_errors_def owner history_seen Let_def)
qed



text \<open>The event of a committed transition, and what the verification of the store after it comes down to.\<close>

lemma committed_event:
  assumes wf: "life_wf (le_sha env) db" and valid: "store_valid env db"
    and tx: "life_transition_tx env case_id state rq db = Inr (db', False)"
  obtains actor d row current records t m where "resolve_actor env (rq_actor rq) = Inr actor" and "next_document env state = Inr d"
    and "tbl_get lc_id case_id (ld_cases db) = Some row" and "life_snapshot row = Inr current"
    and "lc_version row = rq_expected rq" and "transition_guards env current d rq = Inr ()"
    and "protected_guards env case_id actor (transition_key case_id (life_hash env d) rq) (lc_hash row) (life_hash env d) d rq =
      Inr records"
    and "build_event_material env (parts_of case_id actor (transition_key case_id (life_hash env d) rq) current (life_hash env d) d
      records rq) t (log_head (ld_events db)) (next_sequence db) = Inr m"
    and "store_valid env db' \<longleftrightarrow> event_errors env (log_head (ld_events db)) (next_sequence db) (seen_of (ld_events db))
      (event_row_of env (next_sequence db) m) = Inr []"
  using tx
proof (rule transition_tx_Inr)
  fix actor d row current records
  assume actor: "resolve_actor env (rq_actor rq) = Inr actor" and doc: "next_document env state = Inr d"
    and row: "tbl_get lc_id case_id (ld_cases db) = Some row"
    and current: "life_snapshot row = Inr current" and version: "lc_version row = rq_expected rq"
    and guards: "transition_guards env current d rq = Inr ()"
    and protected: "protected_guards env case_id actor (transition_key case_id (life_hash env d) rq) (lc_hash row) (life_hash env d) d rq =
      Inr records"
    and commit: "commit_transition env (parts_of case_id actor (transition_key case_id (life_hash env d) rq) current (life_hash env d) d
      records rq) (rq_expected rq) db = Inr db'"
  have wf': "life_wf (le_sha env) db'" using life_wf_transition [OF wf refl tx] .
  have log: "ld_binding db = Some (le_binding env)" "log_clean env (ld_events db)" using valid by (simp_all add: store_valid_iff [OF wf])
  have head: "head_hash db = log_head (ld_events db)" by (simp add: life_wf_events(3) [OF wf] log_head_def)
  from commit show ?thesis
  proof (rule commit_transition_Inr)
    fix t m epoch
    let ?p = "parts_of case_id actor (transition_key case_id (life_hash env d) rq) current (life_hash env d) d records rq"
    assume m: "build_event_material env ?p t (head_hash db) (next_sequence db) = Inr m"
      and db': "db' = db\<lparr>ld_cases := tbl_upd (\<lambda>r. lc_id r = ep_case ?p \<and> lc_version r = rq_expected rq)
        (case_written env (rq_expected rq + 1) epoch (ep_state ?p) (ep_hash ?p)) (ld_cases db),
        ld_events := ld_events db @ [event_row_of env (next_sequence db) m]\<rparr>"
    have n: "next_sequence db = (if ld_events db = [] then 1 else lv_seq (last (ld_events db)) + 1)"
      using life_wf_events(1) [OF wf] by (simp add: next_sequence_def last_event_def split: list.splits)
    have "store_valid env db' \<longleftrightarrow> event_errors env (log_head (ld_events db)) (next_sequence db) (seen_of (ld_events db))
      (event_row_of env (next_sequence db) m) = Inr []"
      using log unfolding store_valid_iff [OF wf'] by (simp add: db' n [symmetric] log_clean_snoc_iff)
    with actor doc row current version guards protected m [unfolded head] show ?thesis by (rule that)
  qed
qed

lemma transition_keeps_valid:
  assumes wf: "life_wf (le_sha env) db" and valid: "store_valid env db" and honest: "honest_request state rq"
    and canonical: "canonical_request state rq" and tx: "life_transition_tx env case_id state rq db = Inr (db', False)"
  shows "store_valid env db'"
  using wf valid tx
  by (rule committed_event) (simp add: honest_event [OF wf _ _ _ _ _ _ _ honest canonical])

text \<open>And what is left open: an event that names another state than it writes, or an idle authorization.\<close>

lemma event_errors_Nil:
  assumes "event_errors env prev n (seen_of es) x = Inr []"
  shows "column_errors x (life_event_dict x) = []" "content_errors env (life_event_dict x) = Inr []"
    "history_errors env (case_history (event_owner x) es) (life_event_dict x) = Inr []"
    "protection_errors env (event_owner x) (case_history (event_owner x) es) (life_event_dict x) = Inr []"
    "seal_errors env prev n x (life_event_dict x) = []"
  using assms by (auto simp: event_errors_def Let_def bind_res_Inr history_seen event_owner_def)

lemma valid_event_honest:
  assumes built: "build_event_material env p t prev n = Inr m" and canonical: "canon_fields (ep_state p)"
    and valid: "event_errors env prev n (seen_of es) (event_row_of env n m) = Inr []"
    and history: "case_history (ep_case p) es \<noteq> []"
  shows "(ep_decision p = ''PROCEED'' \<longrightarrow> ep_requested p = state_name (ep_state p)) \<and>
    (ep_auth p \<noteq> None \<longrightarrow> state_name (ep_state p) \<in> set protected_states)"
proof -
  let ?e = "life_event_dict (event_row_of env n m)"
  obtain subject epoch fp where m: "m = material_fields_of env p t prev n subject epoch fp"
    using built by (rule build_event_material_Inr)
  note ev = event_values [of env n p t prev subject epoch fp, folded m] and owner = built_row(1) [OF built]
  have name: "state_name (as_dict (dget ''state'' ?e)) = state_name (ep_state p)"
    unfolding ev sorted_fields [OF canonical] by (simp add: state_name_fields [OF sorted_dict(2) [OF canonical]])
  have "\<exists>prior. order_errors prior ?e = []"
    using event_errors_Nil(3) [OF valid] history unfolding owner
    by (auto simp: history_errors_def Let_def bind_res_Inr split: list.splits pyval.splits)
  then have "ep_decision p = ''PROCEED'' \<longrightarrow> ep_requested p = state_name (ep_state p)"
    unfolding order_errors_def Let_def ev name [unfolded ev] by (auto simp del: sort_keys.simps as_dict.simps split: if_splits)
  moreover have "ep_auth p = None" if "state_name (ep_state p) \<notin> set protected_states"
  proof -
    have "dget ''transition_authorization'' ?e = PNone"
      using event_errors_Nil(4) [OF valid] that unfolding protection_errors_def name by (simp split: if_splits)
    then show ?thesis unfolding ev by (cases "ep_auth p") (simp_all add: opt_dict_def)
  qed
  ultimately show ?thesis by (metis (no_types))
qed

lemma transition_verifies:
  assumes wf: "life_wf (le_sha env) db" and valid: "store_valid env db" and canonical: "canonical_request state rq"
    and tx: "life_transition_tx env case_id state rq db = Inr (db', False)"
  shows "store_valid env db' \<longleftrightarrow> honest_request state rq"
proof
  show "store_valid env db'" if "honest_request state rq" using transition_keeps_valid [OF wf valid that canonical tx] .
  assume valid': "store_valid env db'"
  from wf valid tx show "honest_request state rq"
  proof (rule committed_event)
    fix actor d row current records t m
    let ?p = "parts_of case_id actor (transition_key case_id (life_hash env d) rq) current (life_hash env d) d records rq"
    assume doc: "next_document env state = Inr d" and row: "tbl_get lc_id case_id (ld_cases db) = Some row"
      and m: "build_event_material env ?p t (log_head (ld_events db)) (next_sequence db) = Inr m"
      and iff: "store_valid env db' \<longleftrightarrow> event_errors env (log_head (ld_events db)) (next_sequence db) (seen_of (ld_events db))
        (event_row_of env (next_sequence db) m) = Inr []"
    have canonical: "canon_fields (ep_state ?p)" using next_document_keeps(3) [OF doc] canonical by (simp add: canonical_request_def)
    have "case_history (ep_case ?p) (ld_events db) \<noteq> []" using case_row [OF wf row] by auto
    from valid_event_honest [OF m canonical _ this] valid' iff next_document_keeps(1) [OF doc]
    show ?thesis by (simp add: honest_request_def)
  qed
qed

lemma transition_keeps_case:
  assumes "life_transition_tx env case_id state rq db = Inr (db', False)"
  shows "\<exists>row. tbl_get lc_id case_id (ld_cases db') = Some row"
  using assms
proof (rule transition_tx_Inr)
  fix actor d row current records
  let ?p = "parts_of case_id actor (transition_key case_id (life_hash env d) rq) current (life_hash env d) d records rq"
  assume row: "tbl_get lc_id case_id (ld_cases db) = Some row" and commit: "commit_transition env ?p (rq_expected rq) db = Inr db'"
  from commit have "lc_id ` set (ld_cases db') = lc_id ` set (ld_cases db)"
    by (rule commit_transition_Inr) (simp add: case_wr.upd_keys)
  moreover have "case_id \<in> lc_id ` set (ld_cases db)" using tbl_get_Some_in [OF row] by auto
  ultimately show ?thesis using tbl_get_None [of lc_id case_id "ld_cases db'"] by (cases "tbl_get lc_id case_id (ld_cases db')") auto
qed

section \<open>Opening a case\<close>

lemma py_str_text:
  assumes "py_str v = s" and "s \<notin> {''None'', ''True'', ''False''}" and "s \<noteq> []" and "hd s \<notin> {CHR ''['', CHR ''{'', CHR ''-''}"
    and "\<not> is_digit (hd s)"
  shows "v = PStr s"
proof (cases v)
  case (PInt i)
  then have "dec_int s = Some (PInt i, [])" using dec_int_str [of "[]" i] assms(1) by (simp add: no_digit_def)
  then show ?thesis using assms(3-5) by (cases s) (auto simp: dec_int_def Let_def)
qed (use assms in \<open>auto split: if_splits\<close>)

lemma unverified_text: "str_or_empty v = ''UNVERIFIED_REPORT'' \<Longrightarrow> v = PStr ''UNVERIFIED_REPORT''"
  by (rule py_str_text) (auto simp: str_or_empty_def py_or_def is_digit_def split: if_splits)

lemma set_default_canon: "canon_fields d \<Longrightarrow> canon v \<Longrightarrow> canon_fields (set_default k v d)"
  by (simp add: set_default_def)

lemma initial_document_canon: "initial_document env r = Inr d \<Longrightarrow> canon_fields r \<Longrightarrow> canon_fields d"
  by (auto simp: initial_document_def bind_res_Inr Let_def canon_fields_dset set_default_canon simp del: checks.simps split: if_splits)

lemma protection_errors_genesis:
  assumes "build_event_material env p t prev n = Inr m" and "canon_fields (ep_state p)"
    and "state_name (ep_state p) = ''UNVERIFIED_REPORT''" and "ep_auth p = None"
  shows "protection_errors env i [] (life_event_dict (event_row_of env n m)) = Inr []"
proof -
  obtain subject epoch fp where m: "m = material_fields_of env p t prev n subject epoch fp"
    using assms(1) by (rule build_event_material_Inr)
  note ev = event_values [of env n p t prev subject epoch fp, folded m]
  have "state_name (as_dict (dget ''state'' (life_event_dict (event_row_of env n m)))) = ''UNVERIFIED_REPORT''"
    unfolding ev sorted_fields [OF assms(2)] using assms(3) by (simp add: state_name_fields [OF sorted_dict(2) [OF assms(2)]])
  moreover have "dget ''transition_authorization'' (life_event_dict (event_row_of env n m)) = PNone"
    unfolding ev by (simp add: assms(4) opt_dict_def)
  ultimately show ?thesis by (simp add: protection_errors_def protected_states_def)
qed

lemma initialize_keeps_valid:
  assumes wf: "life_wf (le_sha env) db" and valid: "store_valid env db" and canonical: "canon_fields r"
    and tx: "life_initialize env r actor key db = Inr (db', None)"
  shows "store_valid env db'"
proof -
  from tx obtain actor' d key' row where actor: "resolve_actor env actor = Inr actor'"
    and named: "str_or_empty (dget ''state'' r) = ''UNVERIFIED_REPORT''"
    and doc: "initial_document env r = Inr d" and none: "tbl_get lc_id (py_str (dget ''case_id'' r)) (ld_cases db) = None"
    and app: "append_event_tx env (initial_parts (py_str (dget ''case_id'' r)) key' actor' d (life_hash env d))
      (db\<lparr>ld_cases := ld_cases db @ [row]\<rparr>) = Inr db'"
    by (auto simp: life_initialize_def bind_res_Inr Let_def split: if_splits option.splits)
  let ?i = "py_str (dget ''case_id'' r)"
  let ?p = "initial_parts ?i key' actor' d (life_hash env d)"
  have wf': "life_wf (le_sha env) db'" by (rule life_wf_initialize [OF wf refl tx])
  have log: "ld_binding db = Some (le_binding env)" "log_clean env (ld_events db)" using valid by (simp_all add: store_valid_iff [OF wf])
  have head: "head_hash (db\<lparr>ld_cases := ld_cases db @ [row]\<rparr>) = log_head (ld_events db)"
    using life_wf_events(3) [OF wf] by (simp add: head_hash_def log_head_def)
  have nseq: "next_sequence (db\<lparr>ld_cases := ld_cases db @ [row]\<rparr>) = (if ld_events db = [] then 1 else lv_seq (last (ld_events db)) + 1)"
    using life_wf_events(1) [OF wf] by (simp add: next_sequence_def last_event_def split: list.splits)
  let ?n = "next_sequence (db\<lparr>ld_cases := ld_cases db @ [row]\<rparr>)"
  from app obtain t m where built: "build_event_material env ?p t (log_head (ld_events db)) ?n = Inr m"
    and db': "db' = db\<lparr>ld_cases := ld_cases db @ [row], ld_events := ld_events db @ [event_row_of env ?n m]\<rparr>"
    by (rule append_event_tx_Inr) (simp add: head)
  have p: "ep_state ?p = d" "ep_hash ?p = life_hash env d" "ep_actor ?p = actor'" "ep_auth ?p = None" "ep_case ?p = ?i"
    "ep_prior ?p = ''<GENESIS>''" "ep_decision ?p = ''INITIALIZED''" "ep_requested ?p = py_str (py_or (dget ''state'' d) (PStr ''UNVERIFIED_REPORT''))"
    by (simp_all add: initial_parts_def Let_def)
  have state: "dget ''state'' d = dget ''state'' r" by (rule initial_document_state [OF doc])
  have canon: "canon_fields (ep_state ?p)" unfolding p by (rule initial_document_canon [OF doc canonical])
  have name: "state_name (ep_state ?p) = ''UNVERIFIED_REPORT''" using named state by (simp add: p state_name_def)
  have requested: "ep_requested ?p = ''UNVERIFIED_REPORT''"
    unfolding p state unverified_text [OF named] by (simp add: py_or_def)
  let ?x = "event_row_of env ?n m"
  have owner: "str_or_empty (dget ''case_id'' (life_event_dict ?x)) = ?i"
    using built_row(1) [OF built] by (simp add: event_owner_def p)
  have history: "case_history ?i (ld_events db) = []" using none by (intro no_history [OF wf]) (simp add: tbl_get_None)
  have content: "content_errors env (life_event_dict ?x) = Inr []"
  proof (rule content_errors_row [OF built canon])
    show "ep_hash ?p = life_hash env (ep_state ?p)" by (simp only: p)
    show "ep_actor ?p = cc_id (le_ctx env)" unfolding p by (rule resolve_actor_Inr(1) [OF actor])
    show "validate_controller_identity (le_ctx env) actor None = Inr []" by (rule resolve_actor_Inr(2) [OF actor])
  qed
  have order: "history_errors env [] (life_event_dict ?x) = Inr []"
    by (rule genesis_errors_row [OF built canon p(6) name requested p(7)])
  have protection: "protection_errors env ?i [] (life_event_dict ?x) = Inr []"
    by (rule protection_errors_genesis [OF built canon name p(4)])
  obtain subject epoch fp where m: "m = material_fields_of env ?p t (log_head (ld_events db)) ?n subject epoch fp"
    using built by (rule build_event_material_Inr)
  have fresh: "fresh_material ?n m" unfolding m by (rule material_fresh)
  have "dget ''previous_hash'' m = PStr (log_head (ld_events db))" by (simp add: m material_fields_of_def)
  then have "event_errors env (log_head (ld_events db)) ?n (seen_of (ld_events db)) ?x = Inr []"
    using content order protection column_errors_row [OF fresh] seal_errors_row [OF fresh]
    by (simp add: event_errors_def owner history_seen history Let_def)
  then show ?thesis using log unfolding store_valid_iff [OF wf'] by (simp add: db' log_clean_snoc_iff nseq)
qed

end
