(* ===== verification/Life_Steps.thy ===== *)
theory Life_Steps
  imports Life_Honest Evidence_Props
begin

text \<open>
  Runs of the lifecycle store: every sequence of its writing operations, under any clock and any
  controller. The log only grows, a log that does not verify never verifies again, the store
  refines a machine that keeps one list of documents per case, and what a verified log says about
  the order of states and about its evidence.
\<close>

section \<open>Steps\<close>

inductive life_step :: "(string \<Rightarrow> string) \<Rightarrow> life_db \<Rightarrow> life_db \<Rightarrow> bool" for sha where
  opens: "le_sha env = sha \<Longrightarrow> life_step sha db (fst (initialize env r actor key db))"
| advances: "le_sha env = sha \<Longrightarrow> life_step sha db (fst (life_transition env i state rq db))"
| mutates: "le_sha env = sha \<Longrightarrow> life_step sha db (fst (mutate_subject env i updates reason actor expected db))"

text \<open>A step changes nothing, opens a case or commits a transition.\<close>

inductive life_write :: "(string \<Rightarrow> string) \<Rightarrow> life_db \<Rightarrow> life_db \<Rightarrow> bool" for sha where
  opened: "le_sha env = sha \<Longrightarrow> life_initialize env r actor key db = Inr (db', None) \<Longrightarrow> life_write sha db db'"
| committed: "le_sha env = sha \<Longrightarrow> life_transition_tx env i state rq db = Inr (db', False) \<Longrightarrow> life_write sha db db'"

lemma initialize_replay: "life_initialize env r actor key db = Inr (db', Some d) \<Longrightarrow> db' = db"
  by (auto simp: life_initialize_def bind_res_Inr Let_def split: if_splits option.splits)

lemma transition_write:
  assumes "le_sha env = sha"
  shows "fst (life_transition env i state rq db) = db \<or> life_write sha db (fst (life_transition env i state rq db))"
proof (cases "life_transition_tx env i state rq db")
  case (Inr p)
  obtain db' replay where p: "p = (db', replay)" by (cases p)
  then have tx: "life_transition_tx env i state rq db = Inr (db', replay)" using Inr by simp
  then have db': "fst (life_transition env i state rq db) = db'" by (simp add: life_transition_def life_read_back_def)
  show ?thesis
  proof (cases replay)
    case True
    then show ?thesis using tx transition_tx_replay [of env i state rq db db'] db' by simp
  next
    case False
    then show ?thesis using tx life_write.committed [OF assms, of i state rq db db'] db' by simp
  qed
qed (simp add: life_transition_def)

lemma step_write:
  assumes "life_step sha db db'"
  shows "db' = db \<or> life_write sha db db'"
  using assms
proof cases
  case (opens env r actor key)
  show ?thesis
  proof (cases "life_initialize env r actor key db")
    case (Inr p)
    obtain db1 out where p: "p = (db1, out)" by (cases p)
    show ?thesis
    proof (cases out)
      case None
      then show ?thesis
        using opens Inr p life_write.opened [OF opens(2), of r actor key db db1] by (simp add: initialize_def life_read_back_def)
    next
      case (Some d)
      then show ?thesis using opens Inr p initialize_replay [of env r actor key db db1 d] by (simp add: initialize_def)
    qed
  qed (use opens in \<open>simp add: initialize_def\<close>)
next
  case (advances env i state rq)
  then show ?thesis using transition_write [of env sha i state rq db] by auto
next
  case (mutates env i updates reason actor expected)
  then have "\<exists>updated rq. db' = db \<or> db' = fst (life_transition env i updated rq db)"
    by (simp add: mutate_subject_def split: sum.splits prod.splits) blast
  then show ?thesis using transition_write [OF mutates(2), of i _ _ db] by metis
qed

lemma write_wf: "life_write sha db db' \<Longrightarrow> life_wf sha db \<Longrightarrow> life_wf sha db'"
  by (induction rule: life_write.induct) (blast intro: life_wf_initialize life_wf_transition)+

lemma step_wf: "life_step sha db db' \<Longrightarrow> life_wf sha db \<Longrightarrow> life_wf sha db'"
  using step_write write_wf by blast

lemma run_wf: "(life_step sha)\<^sup>*\<^sup>* db db' \<Longrightarrow> life_wf sha db \<Longrightarrow> life_wf sha db'"
  by (induction rule: rtranclp_induct) (auto intro: step_wf)

section \<open>The store refines one list of documents per case\<close>

definition life_abs :: "life_db \<Rightarrow> string \<Rightarrow> pyval list" where
  "life_abs db i = map (dget ''state'') (case_history i (ld_events db))"

text \<open>What a write does to the log: one event, for one case, with the document of its row.\<close>

lemma write_appends:
  assumes "life_write sha db db'"
  obtains e where "ld_events db' = ld_events db @ [e]" and "ld_binding db' = ld_binding db"
  using assms
proof (cases rule: life_write.cases)
  case (opened env r actor key)
  then obtain p cs where "append_event_tx env p (db\<lparr>ld_cases := cs\<rparr>) = Inr db'"
    by (auto simp: life_initialize_def bind_res_Inr Let_def split: if_splits option.splits)
  then show ?thesis by (rule append_event_tx_Inr) (use that in simp)
next
  case (committed env i state rq)
  from committed(2) obtain p v where "commit_transition env p v db = Inr db'" by (rule transition_tx_Inr)
  then show ?thesis by (rule commit_transition_Inr) (use that in simp)
qed

lemma step_appends: "life_step sha db db' \<Longrightarrow> \<exists>es. ld_events db' = ld_events db @ es \<and> ld_binding db' = ld_binding db"
  using step_write [of sha db db'] by (auto elim: write_appends)

lemma run_appends: "(life_step sha)\<^sup>*\<^sup>* db db' \<Longrightarrow> \<exists>es. ld_events db' = ld_events db @ es \<and> ld_binding db' = ld_binding db"
proof (induction rule: rtranclp_induct)
  case (step db1 db2)
  from step.IH step_appends [OF step.hyps(2)] show ?case by fastforce
qed simp

lemma log_clean_prefix: "log_clean env (es @ fs) \<Longrightarrow> log_clean env es"
  by (induction fs rule: rev_induct) (auto simp: log_clean_snoc_iff simp flip: append_assoc)

lemma run_stays_broken:
  assumes "(life_step (le_sha env))\<^sup>*\<^sup>* db db'" and "life_wf (le_sha env) db" and "\<not> store_valid env db"
  shows "\<not> store_valid env db'"
  using run_appends [OF assms(1)] run_wf [OF assms(1,2)] assms(2,3) log_clean_prefix
  by (auto simp: store_valid_iff)

lemma life_get_invalid:
  assumes "life_wf (le_sha env) db" and "\<not> store_valid env db"
  shows "\<exists>e. life_get env True i db = Inl e"
  using assms(2) unfolding store_valid_def life_get_def verify_wf [OF assms(1)]
  by (cases "chain_walk env life_genesis 1 [] (ld_events db)") (auto simp: Let_def err_if_def split: prod.splits)


text \<open>The abstract machine: a case is the list of its documents.\<close>

inductive case_step :: "(string \<Rightarrow> pyval list) \<Rightarrow> (string \<Rightarrow> pyval list) \<Rightarrow> bool" where
  idle: "case_step h h"
| start: "h i = [] \<Longrightarrow> state_name d = ''UNVERIFIED_REPORT'' \<Longrightarrow> case_step h (h(i := [PDict d]))"
| extend: "h i \<noteq> [] \<Longrightarrow> case_step h (h(i := h i @ [PDict d]))"

lemma life_abs_snoc:
  assumes "ld_events db' = ld_events db @ [e]"
  shows "life_abs db' = (life_abs db)(event_owner e := life_abs db (event_owner e) @ [dget ''state'' (life_event_dict e)])"
  using assms by (auto simp: life_abs_def)

lemma life_abs_appended:
  assumes "append_event_tx env p (db\<lparr>ld_cases := cs\<rparr>) = Inr db'"
  shows "life_abs db' = (life_abs db)(ep_case p := life_abs db (ep_case p) @ [sort_keys (PDict (ep_state p))])"
proof -
  from assms obtain t m where "build_event_material env p t (head_hash (db\<lparr>ld_cases := cs\<rparr>)) (next_sequence (db\<lparr>ld_cases := cs\<rparr>)) = Inr m"
    and "db' = db\<lparr>ld_cases := cs, ld_events := ld_events db @ [event_row_of env (next_sequence (db\<lparr>ld_cases := cs\<rparr>)) m]\<rparr>"
    by (rule append_event_tx_Inr) simp
  with built_row(1,5) [OF this(1)] show ?thesis
    using life_abs_snoc [of db' db "event_row_of env (next_sequence (db\<lparr>ld_cases := cs\<rparr>)) m"] by (simp del: sort_keys.simps)
qed

lemma no_rows: "life_wf sha db \<Longrightarrow> i \<notin> lc_id ` set (ld_cases db) \<Longrightarrow> life_abs db i = []"
  by (simp add: life_abs_def no_history)

lemma some_rows: "life_wf sha db \<Longrightarrow> tbl_get lc_id i (ld_cases db) = Some row \<Longrightarrow> life_abs db i \<noteq> []"
  by (erule (1) case_row) (simp add: life_abs_def)


lemma write_abs:
  assumes "life_write sha db db'" and "life_wf sha db"
  shows "case_step (life_abs db) (life_abs db')"
  using assms(1)
proof cases
  case (opened env r actor key)
  then obtain actor' key' d row where state: "str_or_empty (dget ''state'' r) = ''UNVERIFIED_REPORT''"
    and doc: "initial_document env r = Inr d" and none: "tbl_get lc_id (py_str (dget ''case_id'' r)) (ld_cases db) = None"
    and app: "append_event_tx env (initial_parts (py_str (dget ''case_id'' r)) key' actor' d (life_hash env d))
      (db\<lparr>ld_cases := ld_cases db @ [row]\<rparr>) = Inr db'"
    by (auto simp: life_initialize_def bind_res_Inr Let_def split: if_splits option.splits)
  have "dget ''state'' d = PStr ''UNVERIFIED_REPORT''"
    using unverified_text [OF state] initial_document_state [OF doc] by simp
  then have "state_name (as_dict (sort_keys (PDict d))) = ''UNVERIFIED_REPORT''"
    unfolding state_name_def dget_sorted by simp
  moreover have "life_abs db (py_str (dget ''case_id'' r)) = []"
    using none assms(2) by (simp add: no_rows tbl_get_None)
  ultimately show ?thesis
    using case_step.start [of "life_abs db" "py_str (dget ''case_id'' r)" "as_dict (sort_keys (PDict d))"]
    unfolding life_abs_appended [OF app] by (simp add: initial_parts_def)
next
  case (committed env i state rq)
  from committed(2) show ?thesis
  proof (rule transition_tx_Inr)
    fix actor d row current records
    let ?p = "parts_of i actor (transition_key i (life_hash env d) rq) current (life_hash env d) d records rq"
    assume row: "tbl_get lc_id i (ld_cases db) = Some row" and commit: "commit_transition env ?p (rq_expected rq) db = Inr db'"
    from commit obtain db1 cs where app: "append_event_tx env ?p db = Inr db1" and "db' = db1\<lparr>ld_cases := cs\<rparr>"
      by (auto simp: commit_transition_def bind_res_Inr split: if_splits)
    then have "life_abs db' = life_abs db1" by (simp add: life_abs_def fun_eq_iff)
    moreover have "life_abs db1 = (life_abs db)(i := life_abs db i @ [sort_keys (PDict d)])"
      using life_abs_appended [of env ?p "ld_cases db" db db1] app by (simp del: sort_keys.simps)
    ultimately show ?thesis
      using case_step.extend [of "life_abs db" i "as_dict (sort_keys (PDict d))"] some_rows [OF assms(2) row] by simp
  qed
qed

lemma step_abs: "life_step sha db db' \<Longrightarrow> life_wf sha db \<Longrightarrow> case_step (life_abs db) (life_abs db')"
  using step_write [of sha db db'] write_abs [of sha db db'] by (auto intro: case_step.idle)

text \<open>What a reader sees of a case is the last document of its list and the length of the list.\<close>

lemma life_get_abs:
  assumes "life_wf sha db"
  shows "(case life_abs db i of
      [] \<Rightarrow> life_get env False i db = Inl (KeyError i)
    | d # ds \<Rightarrow> \<exists>doc. life_get env False i db = Inr doc \<and> dget ''store_version'' doc = PInt (int (length (d # ds))) \<and>
        (\<forall>k. k \<notin> {''store_version'', ''store_record_hash'', ''authoritative_lifecycle'', ''authority_store''} \<longrightarrow>
           dget k doc = dget k (as_dict (last (d # ds)))))"
proof (cases "tbl_get lc_id i (ld_cases db)")
  case None
  then have "life_abs db i = []" using no_rows [OF assms, of i] by (simp add: tbl_get_None)
  then show ?thesis using None by (simp add: life_get_def)
next
  case (Some row)
  show ?thesis
  proof (rule case_row [OF assms Some])
    fix d
    assume h: "case_history i (ld_events db) \<noteq> []" and v: "lc_version row = int (length (case_history i (ld_events db)))"
      and st: "dget ''state'' (last (case_history i (ld_events db))) = PDict d" and row: "lc_state row = Some (PDict d)"
    have len: "lc_version row = int (length (life_abs db i))" using v by (simp add: life_abs_def)
    have last: "last (life_abs db i) = PDict d" using st h by (simp add: life_abs_def last_map)
    obtain x xs where xs: "life_abs db i = x # xs" using h by (cases "life_abs db i") (simp_all add: life_abs_def)
    show ?thesis
      using len last unfolding xs list.case by (simp only: life_get_def Some option.case life_snapshot_def row pyval.case) simp
  qed
qed


section \<open>What a verified log says\<close>

definition may_follow :: "(string \<Rightarrow> string) \<Rightarrow> pydict \<Rightarrow> pydict \<Rightarrow> bool" where
  "may_follow sha prior d \<longleftrightarrow> validate_subject_epoch_transition sha prior d = Inr [] \<and>
     (state_name d \<in> set (allowed_transitions (logical_state prior)) \<or>
      state_name d \<in> {state_name prior, ''BLOCKED'', ''ROLLBACK_REQUIRED''})"

definition orderly :: "(string \<Rightarrow> string) \<Rightarrow> pydict list \<Rightarrow> bool" where
  "orderly sha ds \<longleftrightarrow> successively (may_follow sha) ds \<and> (ds \<noteq> [] \<longrightarrow> state_name (hd ds) = ''UNVERIFIED_REPORT'')"

lemma orderly_snoc:
  "orderly sha (ds @ [d]) \<longleftrightarrow> orderly sha ds \<and> (if ds = [] then state_name d = ''UNVERIFIED_REPORT'' else may_follow sha (last ds) d)"
  by (cases "ds = []") (auto simp: orderly_def successively_append_iff)

lemma order_errors_Nil:
  assumes "order_errors prior event = []"
  shows "state_name (as_dict (dget ''state'' event)) \<in> set (allowed_transitions (logical_state prior)) \<or>
    state_name (as_dict (dget ''state'' event)) \<in> {state_name prior, ''BLOCKED'', ''ROLLBACK_REQUIRED''}"
  using assms by (auto simp: order_errors_def Let_def split: if_splits)

lemma history_errors_Nil:
  assumes "history_errors env history event = Inr []"
  shows "if history = [] then state_name (as_dict (dget ''state'' event)) = ''UNVERIFIED_REPORT''
    else may_follow (le_sha env) (as_dict (dget ''state'' (last history))) (as_dict (dget ''state'' event))"
proof (cases history)
  case Nil
  then show ?thesis using assms by (auto simp: history_errors_def Let_def split: if_splits)
next
  case (Cons e es)
  then obtain prior where p: "py_or (dget ''state'' (last history)) (PDict []) = PDict prior"
    and "validate_subject_epoch_transition (le_sha env) prior (as_dict (dget ''state'' event)) = Inr []"
    and "order_errors prior event = []"
    using assms by (auto simp: history_errors_def Let_def bind_res_Inr split: pyval.splits)
  moreover from p have "as_dict (dget ''state'' (last history)) = prior"
    by (cases "dget ''state'' (last history)") (auto simp: py_or_def split: if_splits)
  ultimately show ?thesis using order_errors_Nil Cons unfolding may_follow_def by auto
qed

lemma clean_log_orderly: "log_clean env es \<Longrightarrow> orderly (le_sha env) (map (\<lambda>e. as_dict (dget ''state'' e)) (case_history i es))"
proof (induction es rule: rev_induct)
  case (snoc e es)
  then have IH: "orderly (le_sha env) (map (\<lambda>e. as_dict (dget ''state'' e)) (case_history i es))"
    by (simp add: log_clean_snoc_iff)
  show ?case
  proof (cases "event_owner e = i")
    case True
    have "history_errors env (case_history i es) (life_event_dict e) = Inr []"
      using snoc.prems True unfolding log_clean_snoc_iff by (blast dest: event_errors_Nil(3))
    from history_errors_Nil [OF this] show ?thesis using IH True
      by (simp add: orderly_snoc last_map split: if_splits)
  qed (use IH in simp)
qed (simp add: orderly_def)

text \<open>An event of a verified log passes every check, in the context of the events before it.\<close>

lemma clean_log_event:
  assumes "log_clean env (es @ e # fs)"
  shows "event_errors env (log_head es) (if es = [] then 1 else lv_seq (last es) + 1) (seen_of es) e = Inr []"
  using log_clean_prefix [of env "es @ [e]" fs] assms by (simp add: log_clean_snoc_iff)

lemma refusal_Nil: "refusal r label = Inr [] \<longleftrightarrow> (\<exists>x. r = Inr x)"
  by (auto simp: refusal_def split: sum.splits py_exn.splits)

definition authorized :: "life_env \<Rightarrow> pydict \<Rightarrow> transition_binding \<Rightarrow> bool" where
  "authorized env a b \<longleftrightarrow>
     (\<exists>roots payload. le_roots env = Some roots \<and> is_host_accepted_trust_roots roots \<and> trust_root_payload roots = Some payload \<and>
        signed_by (le_load env) payload a) \<and>
     current_at a (le_now env) \<and> \<not> truthy (dget ''invalidated_by'' a) \<and>
     dget ''type'' a = PStr ''LIFECYCLE_TRANSITION_AUTHORIZATION'' \<and> dget ''producer'' a = PStr ''platform:lifecycle-controller'' \<and>
     (\<exists>fp epoch. subject_fingerprint (le_sha env) (tb_subject b) = Inr fp \<and>
        (\<forall>(f, v) \<in> set (binding_fields env b fp epoch). py_eq (dget f (metadata_of a)) v)) \<and>
     (tb_requested b \<in> set protected_states \<longrightarrow> tb_accepted b \<noteq> [])"

definition proven :: "life_env \<Rightarrow> pydict \<Rightarrow> string \<Rightarrow> pydict \<Rightarrow> bool" where
  "proven env subject case_id r \<longleftrightarrow>
     (\<exists>roots payload. le_roots env = Some roots \<and> trust_root_payload roots = Some payload \<and> signed_by (le_load env) payload r) \<and>
     (\<exists>expected fp. subject_from_record subject = Inr expected \<and> subject_fingerprint (le_sha env) expected = Inr fp \<and>
        dget ''subject_fingerprint'' r = PStr fp \<and> bound_to expected r) \<and>
     current_at r (le_now env) \<and> \<not> truthy (dget ''invalidated_by'' r) \<and> str_or_empty (dget ''lifecycle_case_id'' r) = case_id"

lemma evidence_check_of_sel [simp]:
  "ec_minimum (evidence_check_of env m s) = m" "ec_subject (evidence_check_of env m s) = Some s"
  "ec_roots (evidence_check_of env m s) = le_roots env" "ec_now (evidence_check_of env m s) = le_now env"
  by (simp_all add: evidence_check_of_def)

lemma py_eq_PStr: "py_eq v (PStr s) \<longleftrightarrow> v = PStr s"
  by (cases v) (auto simp: py_eq_def)

lemma authorization_sound:
  assumes "validate_transition_authorization env (PDict a) b = Inr ()" and "tb_subject b \<noteq> []"
  shows "authorized env a b"
proof -
  from assms(1) obtain fp epoch where v: "validate_evidence_record (le_sha env) (le_load env) (evidence_check_of env ''E6'' (tb_subject b)) a = Inr []"
    and host: "\<not> (case le_roots env of None \<Rightarrow> True | Some roots \<Rightarrow> \<not> is_host_accepted_trust_roots roots)"
    and kind: "py_eq (dget ''type'' a) (PStr ''LIFECYCLE_TRANSITION_AUTHORIZATION'')"
    and producer: "py_eq (dget ''producer'' a) (PStr ''platform:lifecycle-controller'')"
    and fp: "subject_fingerprint (le_sha env) (tb_subject b) = Inr fp"
    and bound: "filter (\<lambda>(f, v). \<not> py_eq (dget f (metadata_of a)) v) (binding_fields env b fp epoch) = []"
    and acc: "\<not> (tb_requested b \<in> set protected_states \<and> tb_accepted b = [])"
    by (auto simp: validate_transition_authorization_def Let_def bind_res_Inr checks_passed simp del: checks.simps split: if_splits)
  have "map_of trust_order ''E6'' = Some 6" by (simp add: trust_order_def)
  from evidence_trusted [OF v, of 6] this assms(2)
  have "(\<exists>roots payload. le_roots env = Some roots \<and> trust_root_payload roots = Some payload \<and> signed_by (le_load env) payload a) \<and>
    current_at a (le_now env) \<and> \<not> truthy (dget ''invalidated_by'' a)" by simp
  with host kind producer fp bound acc show ?thesis
    unfolding authorized_def py_eq_PStr by (fastforce simp: filter_empty_conv split: option.splits)
qed

lemma record_proven:
  assumes "accept_record env subject required i r = Inr ()" and "case_record case_id r" and "subject \<noteq> []"
  shows "proven env subject case_id r"
proof -
  from assms(1) have v: "validate_evidence_record (le_sha env) (le_load env) (evidence_check_of env ''E3'' subject) r = Inr []"
    by (auto simp: accept_record_def bind_res_Inr split: if_splits)
  have "map_of trust_order ''E3'' = Some 3" by (simp add: trust_order_def)
  from evidence_trusted [OF v, of 3] this assms(2,3) show ?thesis by (auto simp: proven_def case_record_def)
qed


text \<open>Every event of a verified log that entered a protected state.\<close>

lemma subject_from_record_ne: "subject_from_record d = Inr s \<Longrightarrow> s \<noteq> []"
  by (auto simp: subject_from_record_def bind_res_Inr subject_entries_def)

lemma clean_protected_event:
  assumes "log_clean env (es @ e # fs)" and "state_name (as_dict (dget ''state'' (life_event_dict e))) \<in> set protected_states"
  shows "\<exists>a b. dget ''transition_authorization'' (life_event_dict e) = PDict a \<and> tb_case b = event_owner e \<and>
    tb_subject b = as_dict (dget ''subject'' (life_event_dict e)) \<and>
    tb_next b = str_or_empty (dget ''current_record_hash'' (life_event_dict e)) \<and>
    tb_version b = int (length (case_history (event_owner e) es)) \<and> validate_transition_authorization env (PDict a) b = Inr ()"
    (is ?auth) and "evidence_errors env (event_owner e) (life_event_dict e) = Inr []" (is ?evidence)
proof -
  note clean = event_errors_Nil(4) [OF clean_log_event [OF assms(1)]]
  have h: "case_history (event_owner e) es \<noteq> []" using clean assms(2) by (auto simp: protection_errors_def)
  obtain a where a: "dget ''transition_authorization'' (life_event_dict e) = PDict a"
    using clean assms(2) h by (auto simp: protection_errors_def bind_res_Inr split: pyval.splits)
  with clean assms(2) h obtain b where b: "recorded_binding (event_owner e) (case_history (event_owner e) es) (life_event_dict e) = Inr b"
    and v: "refusal (validate_transition_authorization env (PDict a) b) ''invalid controller authorization: '' = Inr []"
    and ev: ?evidence by (auto simp: protection_errors_def bind_res_Inr)
  from v have "validate_transition_authorization env (PDict a) b = Inr ()" unfolding refusal_Nil by simp
  moreover have "tb_case b = event_owner e \<and> tb_subject b = as_dict (dget ''subject'' (life_event_dict e)) \<and>
      tb_next b = str_or_empty (dget ''current_record_hash'' (life_event_dict e)) \<and>
      tb_version b = int (length (case_history (event_owner e) es))" using b by (auto simp: recorded_binding_def bind_res_Inr)
  ultimately show ?auth using a by blast
  show ?evidence by (rule ev)
qed

lemma evidence_errors_ok:
  assumes "evidence_errors env case_id event = Inr []"
  shows "\<exists>required accepted rs. event_names ''accepted_evidence'' event = Inr accepted \<and> set (map PDict rs) \<subseteq> set (as_list (dget ''accepted_evidence_records'' event)) \<and>
    evidence_ok env case_id (as_dict (dget ''subject'' event)) required rs (map py_str accepted)"
proof -
  from assms obtain required accepted out where acc: "event_names ''accepted_evidence'' event = Inr accepted"
    and v: "validate_accepted_evidence env (as_list (dget ''accepted_evidence_records'' event)) case_id
      (as_dict (dget ''subject'' event)) (map py_str required) (map py_str accepted) = Inr out"
    by (auto simp: evidence_errors_def bind_res_Inr refusal_Nil)
  from validate_accepted_ok [OF v] acc show ?thesis by metis
qed

lemma closing_states:
  "''CLOSED'' \<in> set (allowed_transitions st) \<Longrightarrow> st \<in> {''POST_DEPLOY_VERIFIED'', ''CONSUMER_VALIDATION_PASS'', ''ROLLBACK_REQUIRED''}"
  by (auto simp: allowed_transitions_def state_transitions_def code_lifecycle_def split: if_splits)

lemma transition_event:
  assumes "life_transition_tx env case_id state rq db = Inr (db', False)"
  obtains e where "ld_events db' = ld_events db @ [e]" and "event_owner e = case_id"
  using assms
proof (rule transition_tx_Inr)
  fix actor d row current records
  let ?p = "parts_of case_id actor (transition_key case_id (life_hash env d) rq) current (life_hash env d) d records rq"
  assume "commit_transition env ?p (rq_expected rq) db = Inr db'"
  then show ?thesis
  proof (rule commit_transition_Inr)
    fix t m epoch
    assume m: "build_event_material env ?p t (head_hash db) (next_sequence db) = Inr m"
      and "db' = db\<lparr>ld_cases := tbl_upd (\<lambda>r. lc_id r = ep_case ?p \<and> lc_version r = rq_expected rq)
        (case_written env (rq_expected rq + 1) epoch (ep_state ?p) (ep_hash ?p)) (ld_cases db),
        ld_events := ld_events db @ [event_row_of env (next_sequence db) m]\<rparr>"
    then show ?thesis using that built_row(1) [OF m] by simp
  qed
qed

definition err_of :: "'a res \<Rightarrow> py_exn" where
  "err_of r = (case r of Inl e \<Rightarrow> e | Inr _ \<Rightarrow> RecursionError)"

section \<open>The evidence of a verified log\<close>

lemma py_eq_dict_ne: "py_eq (PDict s) (PDict t) \<Longrightarrow> t \<noteq> [] \<Longrightarrow> s \<noteq> []"
  by (auto simp: py_eq_def dest: arg_cong [of _ _ length])

lemma content_errors_subject:
  assumes "content_errors env event = Inr []"
  shows "as_dict (dget ''subject'' event) \<noteq> []"
proof -
  from assms obtain expected where "subject_from_record (as_dict (dget ''state'' event)) = Inr expected"
    and "py_eq (PDict (as_dict (dget ''subject'' event))) (PDict expected)"
    by (auto simp: content_errors_def Let_def bind_res_Inr)
  then show ?thesis using subject_from_record_ne py_eq_dict_ne by blast
qed

definition snapshots :: "pydict \<Rightarrow> pyval list" where
  "snapshots event = as_list (dget ''accepted_evidence_records'' event)"

lemma clean_protected_sound:
  assumes "log_clean env (es @ e # fs)" and "state_name (as_dict (dget ''state'' (life_event_dict e))) \<in> set protected_states"
  shows "\<exists>a b accepted. dget ''transition_authorization'' (life_event_dict e) = PDict a \<and> authorized env a b \<and>
    tb_case b = event_owner e \<and> tb_next b = str_or_empty (dget ''current_record_hash'' (life_event_dict e)) \<and>
    tb_version b = int (length (case_history (event_owner e) es)) \<and>
    event_names ''accepted_evidence'' (life_event_dict e) = Inr accepted \<and>
    (\<forall>i \<in> set accepted. \<exists>r. PDict r \<in> set (snapshots (life_event_dict e)) \<and> rid r = py_str i \<and>
       proven env (as_dict (dget ''subject'' (life_event_dict e))) (event_owner e) r)"
proof -
  let ?d = "life_event_dict e" and ?s = "as_dict (dget ''subject'' (life_event_dict e))"
  have s: "?s \<noteq> []" by (rule content_errors_subject [OF event_errors_Nil(2) [OF clean_log_event [OF assms(1)]]])
  from clean_protected_event(1) [OF assms] obtain a b where a: "dget ''transition_authorization'' ?d = PDict a"
    and b: "tb_case b = event_owner e" "tb_subject b = ?s" "tb_next b = str_or_empty (dget ''current_record_hash'' ?d)"
      "tb_version b = int (length (case_history (event_owner e) es))"
    and v: "validate_transition_authorization env (PDict a) b = Inr ()" by blast
  have auth: "authorized env a b" by (rule authorization_sound [OF v]) (simp add: b s)
  from evidence_errors_ok [OF clean_protected_event(2) [OF assms]] obtain required accepted rs
    where acc: "event_names ''accepted_evidence'' ?d = Inr accepted" and sub: "set (map PDict rs) \<subseteq> set (snapshots ?d)"
      and ok: "evidence_ok env (event_owner e) ?s required rs (map py_str accepted)" unfolding snapshots_def by blast
  have "\<exists>r. PDict r \<in> set (snapshots ?d) \<and> rid r = py_str i \<and> proven env ?s (event_owner e) r" if "i \<in> set accepted" for i
  proof -
    have "py_str i \<in> rid ` set rs" using ok that by (auto simp: evidence_ok_def)
    then obtain r where r: "r \<in> set rs" "rid r = py_str i" by auto
    have "case_record (event_owner e) r \<and> accept_record env ?s required (rid r) r = Inr ()"
      using ok r(1) by (simp add: evidence_ok_def)
    with record_proven [of env ?s required "rid r" r "event_owner e"] s r sub show ?thesis by auto
  qed
  with a b auth acc show ?thesis by blast
qed

end
