(* ===== verification/Life_Demo.thy ===== *)
theory Life_Demo
  imports Life_Steps
begin

text \<open>
  A concrete run of the lifecycle store, for the witnesses: a case is opened, moved forward, and
  sent to rollback with signed evidence and a signed authorization. The digest counts characters.
\<close>

fun short_hash :: "int \<Rightarrow> string \<Rightarrow> string" where
  "short_hash n [] = map (\<lambda>d. ''0123456789'' ! nat d) [n div 1000, n div 100 mod 10, n div 10 mod 10, n mod 10]"
| "short_hash n (c # cs) = short_hash (n + 1) cs"

definition life_roots :: trust_value where
  "life_roots = TV_Authority \<lparr>ta_roots = [(''keys'', PDict [(''k1'', PDict [(''public_key_pem'', PStr ''PEM''),
     (''allowed_trust_levels'', PList [PStr ''E4'', PStr ''E6'']),
     (''allowed_producers'', PList [PStr ''platform:ci'', PStr ''platform:lifecycle-controller''])])])],
     ta_source = ''HOST_ACCEPTED'', ta_host_accepted = True, ta_digest = '''', ta_acceptance = ''a''\<rparr>"

definition demo_env :: life_env where
  "demo_env = \<lparr>le_sha = short_hash 0, le_hmac = (\<lambda>h. ''m'' @ h), le_load = demo_load, le_roots = Some life_roots,
     le_ctx = \<lparr>cc_id = lifecycle_controller_id, cc_type = lifecycle_controller_type, cc_instance = ''i'',
       cc_source = ''local-runtime-context'', cc_mechanism = ''m'', cc_authenticated = False\<rparr>,
     le_binding = ''b'', le_now = 63902919900000000, le_now_text = ''2026-01-02T03:04:05Z''\<rparr>"

definition demo_case :: pydict where
  "demo_case = [(''case_id'', PStr ''c''), (''repository'', PStr ''r''), (''risk'', PStr ''R1''),
     (''state'', PStr ''UNVERIFIED_REPORT'')]"

definition empty_store :: life_db where
  "empty_store = \<lparr>ld_cases = [], ld_events = [], ld_binding = Some ''b''\<rparr>"

text \<open>The store after \<open>initialize\<close>, written out.\<close>

definition opened_doc :: pydict where
  "opened_doc = [(''authoritative_lifecycle'', PBool True), (''authority_store'', PStr ''controller-owned-sqlite''),
     (''case_id'', PStr ''c''), (''closure_class'', PNone), (''final_state'', PNone),
     (''last_completed_state'', PStr ''UNVERIFIED_REPORT''), (''repository'', PStr ''r''), (''risk'', PStr ''R1''),
     (''state'', PStr ''UNVERIFIED_REPORT''), (''subject_epoch'', PInt 0), (''subject_fingerprint'', PStr ''sha256:0497''),
     (''subject_version'', PInt 1)]"

definition opened_subject :: pydict where
  "opened_subject = [(''artifact_digest'', PNone), (''artifact_identity'', PNone), (''attestation_digest'', PNone),
     (''change_contract_hash'', PNone), (''deployed_revision'', PNone), (''merge_method'', PNone),
     (''merge_provenance'', PNone), (''merged_main_sha'', PNone), (''policy_bundle_hash'', PNone),
     (''post_merge_ci_run_id'', PNone), (''pr_head_sha'', PNone), (''production_release_id'', PNone),
     (''protected_base_sha'', PNone), (''provenance_digest'', PNone), (''release_fingerprint'', PNone),
     (''repository'', PStr ''r''), (''reviewed_diff_hash'', PNone), (''sbom_digest'', PNone), (''subject_epoch'', PInt 0),
     (''subject_version'', PInt 1), (''toolchain_hash'', PNone)]"

definition opened_record :: pydict where
  "opened_record = [(''accepted_evidence'', PList []), (''accepted_evidence_records'', PList []),
     (''actor'', PStr ''platform:lifecycle-controller''), (''case_id'', PStr ''c''),
     (''controller_identity'', PDict [(''authentication_mechanism'', PStr ''m''),
        (''controller_id'', PStr ''platform:lifecycle-controller''), (''controller_type'', PStr ''protected-lifecycle-controller''),
        (''identity_source'', PStr ''local-runtime-context''), (''runtime_instance_id'', PStr ''i'')]),
     (''current_record_hash'', PStr ''sha256:0304''), (''decision'', PStr ''INITIALIZED''), (''domain_snapshot'', PDict []),
     (''idempotency_key'', PStr ''initialize:c:sha256:0497''), (''occurred_at'', PStr ''2026-01-02T03:04:05Z''),
     (''policy_hash'', PNone), (''previous_hash'', PStr life_genesis), (''prior_state'', PStr ''<GENESIS>''),
     (''rejected_evidence'', PList []), (''requested_state'', PStr ''UNVERIFIED_REPORT''), (''required_evidence'', PList []),
     (''risk_snapshot'', PDict []), (''sequence'', PInt 1), (''state'', PDict opened_doc), (''store_binding'', PStr ''b''),
     (''subject'', PDict opened_subject), (''subject_epoch'', PInt 0), (''subject_fingerprint'', PStr ''sha256:0497''),
     (''toolchain_hash'', PNone), (''transition_authorization'', PNone)]"

definition opened :: life_db where
  "opened = \<lparr>ld_cases = [\<lparr>lc_id = ''c'', lc_version = 1, lc_epoch = 0, lc_state = Some (PDict opened_doc),
       lc_hash = ''sha256:0304'', lc_updated = ''2026-01-02T03:04:05Z''\<rparr>],
     ld_events = [\<lparr>lv_seq = 1, lv_scalars = map (\<lambda>f. (f, dget f opened_record)) scalar_columns,
       lv_jsons = map (\<lambda>f. (f, Some (dget f opened_record))) json_columns, lv_record = Some (PDict opened_record),
       lv_hash = ''sha256:1695'', lv_mac = ''hmac-sha256:msha256:1695''\<rparr>],
     ld_binding = Some ''b''\<rparr>"

text \<open>A document of the case and a request for it.\<close>

definition doc_at :: "string \<Rightarrow> pydict" where
  "doc_at s = dset ''state'' (PStr s) opened_doc"

definition plain_request :: "string \<Rightarrow> life_request" where
  "plain_request requested = \<lparr>rq_actor = None, rq_expected = 1, rq_requested = requested, rq_decision = ''PROCEED'',
     rq_required = [], rq_accepted = [], rq_records = [], rq_rejected = [], rq_policy = None, rq_toolchain = None,
     rq_risk = None, rq_domain = None, rq_key = None, rq_auth = None\<rparr>"

text \<open>Rollback: the accepted record, and the authorization of exactly this write.\<close>

definition rollback_record :: pydict where
  "rollback_record = [(''created_at'', PStr ''2026-01-02T03:04:05Z''), (''evidence_id'', PStr ''e1''),
     (''lifecycle_case_id'', PStr ''c''), (''producer'', PStr ''platform:ci''), (''repository'', PStr ''r''),
     (''signature_or_attestation'', PStr ''ed25519:k1:b2s=''), (''status'', PStr ''PASSED''), (''subject_epoch'', PInt 0),
     (''subject_fingerprint'', PStr ''sha256:0497''), (''subject_version'', PInt 1), (''trust_level'', PStr ''E4''),
     (''type'', PStr ''ROLLBACK_PLAN'')]"

definition rollback_request :: "pydict \<Rightarrow> life_request" where
  "rollback_request a = \<lparr>rq_actor = None, rq_expected = 1, rq_requested = ''ROLLBACK_REQUIRED'', rq_decision = ''ROLLBACK_REQUIRED'',
     rq_required = [''ROLLBACK_PLAN''], rq_accepted = [''e1''], rq_records = [PDict rollback_record], rq_rejected = [],
     rq_policy = None, rq_toolchain = None, rq_risk = None, rq_domain = None, rq_key = Some ''k'', rq_auth = Some a\<rparr>"

definition rollback_authorization :: pydict where
  "rollback_authorization = [(''created_at'', PStr ''2026-01-02T03:04:05Z''), (''evidence_id'', PStr ''ev-1''),
     (''expires_at'', PStr ''2026-01-03T00:00:00Z''), (''invalidated_by'', PNone),
     (''metadata'', PDict [(''accepted_evidence'', PList [PStr ''e1'']), (''actor'', PStr ''platform:lifecycle-controller''),
        (''authentication_mechanism'', PStr ''m''), (''case_id'', PStr ''c''),
        (''controller_id'', PStr ''platform:lifecycle-controller''), (''controller_type'', PStr ''protected-lifecycle-controller''),
        (''current_record_hash'', PStr ''sha256:0304''), (''decision'', PStr ''ROLLBACK_REQUIRED''),
        (''event_commitment'', PStr ''sha256:1984''), (''event_occurred_at'', PStr ''2026-01-02T03:04:05Z''),
        (''expected_version'', PInt 1), (''idempotency_key'', PStr ''k''), (''identity_source'', PStr ''local-runtime-context''),
        (''next_record_hash'', PStr ''sha256:0304''), (''policy_hash'', PNone), (''rejected_evidence'', PList []),
        (''requested_state'', PStr ''ROLLBACK_REQUIRED''), (''required_evidence'', PList [PStr ''ROLLBACK_PLAN'']),
        (''subject_epoch'', PInt 0), (''subject_fingerprint'', PStr ''sha256:0497''), (''toolchain_hash'', PNone)]),
     (''producer'', PStr ''platform:lifecycle-controller''), (''repository'', PStr ''r''),
     (''signature_or_attestation'', PStr ''ed25519:k1:b2s=''), (''status'', PStr ''PASSED''), (''subject_epoch'', PInt 0),
     (''subject_fingerprint'', PStr ''sha256:0497''), (''subject_version'', PInt 1), (''trust_level'', PStr ''E6''),
     (''type'', PStr ''LIFECYCLE_TRANSITION_AUTHORIZATION'')]"

section \<open>Evaluation in parts\<close>

lemma transition_tx_intro:
  assumes "resolve_actor env (rq_actor rq) = Inr actor" and "py_eq (dget ''case_id'' state) (PStr case_id)"
    and "next_document env state = Inr d" and "life_hash env d = nh" and "transition_key case_id nh rq = key"
    and "tbl_get lc_id case_id (ld_cases db) = Some row" and "life_snapshot row = Inr current" and "lc_version row = rq_expected rq"
    and "life_hash env (as_dict (the (lc_state row))) = lc_hash row" and "transition_guards env current d rq = Inr ()"
    and "protected_guards env case_id actor key (lc_hash row) nh d rq = Inr records"
    and "find (\<lambda>e. py_eq (event_key e) (PStr key)) (ld_events db) = None"
    and "ok (commit_transition env (parts_of case_id actor key current nh d records rq) (rq_expected rq) db)"
  shows "\<exists>db'. life_transition_tx env case_id state rq db = Inr (db', False)"
proof -
  obtain db' where "commit_transition env (parts_of case_id actor key current nh d records rq) (rq_expected rq) db = Inr db'"
    using assms(13) by (auto simp: ok_iff)
  then show ?thesis by (simp add: life_transition_tx_def assms(1-12))
qed

definition opened_row :: life_case where
  "opened_row = hd (ld_cases opened)"

definition opened_current :: pydict where
  "opened_current = opened_doc @ [(''store_version'', PInt 1), (''store_record_hash'', PStr ''sha256:0304'')]"

definition next_doc :: "string \<Rightarrow> pydict" where
  "next_doc s = (if s = ''ROLLBACK_REQUIRED'' then doc_at s else dset ''last_completed_state'' (PStr s) (doc_at s))"

lemma demo_actor: "resolve_actor demo_env None = Inr lifecycle_controller_id"
  by code_simp

lemma demo_row: "tbl_get lc_id ''c'' (ld_cases opened) = Some opened_row"
  by code_simp

lemma demo_current: "life_snapshot opened_row = Inr opened_current"
  by code_simp

lemma demo_version: "lc_version opened_row = 1" and demo_row_hash: "life_hash demo_env (as_dict (the (lc_state opened_row))) = lc_hash opened_row"
  by code_simp+

lemma opened_initialize: "life_initialize demo_env demo_case None None empty_store = Inr (opened, None)"
  by code_simp

text \<open>Forward, honestly; and forward to a state that is not the requested one.\<close>

lemma demo_next: "next_document demo_env (doc_at ''SOURCE_OF_TRUTH_RESOLVED'') = Inr (next_doc ''SOURCE_OF_TRUTH_RESOLVED'')"
  "next_document demo_env (doc_at ''CI_PASS'') = Inr (next_doc ''CI_PASS'')"
  "next_document demo_env (doc_at ''ROLLBACK_REQUIRED'') = Inr (next_doc ''ROLLBACK_REQUIRED'')"
  by code_simp+

lemma demo_forward_guards:
  "transition_guards demo_env opened_current (next_doc ''SOURCE_OF_TRUTH_RESOLVED'') (plain_request ''SOURCE_OF_TRUTH_RESOLVED'') = Inr ()"
  by code_simp

lemma demo_bypass_guards:
  "transition_guards demo_env opened_current (next_doc ''CI_PASS'') (plain_request ''SOURCE_OF_TRUTH_RESOLVED'') = Inr ()"
  by code_simp

definition demo_commit :: "string \<Rightarrow> pyval list \<Rightarrow> life_request \<Rightarrow> bool" where
  "demo_commit s records rq =
     (let h = life_hash demo_env (next_doc s); key = transition_key ''c'' h rq in
      find (\<lambda>e. py_eq (event_key e) (PStr key)) (ld_events opened) = None \<and>
      ok (commit_transition demo_env (parts_of ''c'' lifecycle_controller_id key opened_current h (next_doc s) records rq) 1 opened))"

lemma demo_transition:
  assumes "next_document demo_env (doc_at s) = Inr (next_doc s)" and "rq_actor rq = None" and "rq_expected rq = 1"
    and "transition_guards demo_env opened_current (next_doc s) rq = Inr ()" and "demo_commit s records rq"
    and "protected_guards demo_env ''c'' lifecycle_controller_id (transition_key ''c'' (life_hash demo_env (next_doc s)) rq)
      (lc_hash opened_row) (life_hash demo_env (next_doc s)) (next_doc s) rq = Inr records"
  shows "\<exists>db'. life_transition_tx demo_env ''c'' (doc_at s) rq opened = Inr (db', False)"
proof -
  have "py_eq (dget ''case_id'' (doc_at s)) (PStr ''c'')" by (simp add: doc_at_def opened_doc_def py_eq_def)
  with assms demo_actor demo_row demo_current demo_version demo_row_hash show ?thesis
    by (intro transition_tx_intro [where actor = lifecycle_controller_id]) (auto simp: demo_commit_def Let_def)
qed

lemma demo_forward_commit: "demo_commit ''SOURCE_OF_TRUTH_RESOLVED'' [] (plain_request ''SOURCE_OF_TRUTH_RESOLVED'')"
  by code_simp

lemma demo_bypass_commit: "demo_commit ''CI_PASS'' [] (plain_request ''SOURCE_OF_TRUTH_RESOLVED'')"
  by code_simp

lemma demo_rollback_commit:
  "demo_commit ''ROLLBACK_REQUIRED'' [PDict rollback_record] (rollback_request rollback_authorization)"
  by code_simp

lemma demo_rollback_guards:
  "transition_guards demo_env opened_current (next_doc ''ROLLBACK_REQUIRED'') (rollback_request rollback_authorization) = Inr ()"
  by code_simp

lemma demo_rollback_protected:
  "protected_guards demo_env ''c'' lifecycle_controller_id
     (transition_key ''c'' (life_hash demo_env (next_doc ''ROLLBACK_REQUIRED'')) (rollback_request rollback_authorization))
     (lc_hash opened_row) (life_hash demo_env (next_doc ''ROLLBACK_REQUIRED'')) (next_doc ''ROLLBACK_REQUIRED'')
     (rollback_request rollback_authorization) = Inr [PDict rollback_record]"
  by code_simp

lemma unprotected_guards: "state_name d \<notin> set protected_states \<Longrightarrow> protected_guards env i a k ch nh d rq = Inr []"
  by (simp add: protected_guards_def)

lemma demo_forward:
  "\<exists>db'. life_transition_tx demo_env ''c'' (doc_at ''SOURCE_OF_TRUTH_RESOLVED'') (plain_request ''SOURCE_OF_TRUTH_RESOLVED'') opened = Inr (db', False)"
proof (rule demo_transition [OF demo_next(1) _ _ demo_forward_guards demo_forward_commit])
  have "state_name (next_doc ''SOURCE_OF_TRUTH_RESOLVED'') \<notin> set protected_states" by code_simp
  then show "protected_guards demo_env ''c'' lifecycle_controller_id (transition_key ''c'' (life_hash demo_env
      (next_doc ''SOURCE_OF_TRUTH_RESOLVED'')) (plain_request ''SOURCE_OF_TRUTH_RESOLVED'')) (lc_hash opened_row)
      (life_hash demo_env (next_doc ''SOURCE_OF_TRUTH_RESOLVED'')) (next_doc ''SOURCE_OF_TRUTH_RESOLVED'')
      (plain_request ''SOURCE_OF_TRUTH_RESOLVED'') = Inr []" by (rule unprotected_guards)
qed (simp_all add: plain_request_def)

lemma demo_bypass:
  "\<exists>db'. life_transition_tx demo_env ''c'' (doc_at ''CI_PASS'') (plain_request ''SOURCE_OF_TRUTH_RESOLVED'') opened = Inr (db', False)"
proof (rule demo_transition [OF demo_next(2) _ _ demo_bypass_guards demo_bypass_commit])
  have "state_name (next_doc ''CI_PASS'') \<notin> set protected_states" by code_simp
  then show "protected_guards demo_env ''c'' lifecycle_controller_id (transition_key ''c'' (life_hash demo_env
      (next_doc ''CI_PASS'')) (plain_request ''SOURCE_OF_TRUTH_RESOLVED'')) (lc_hash opened_row)
      (life_hash demo_env (next_doc ''CI_PASS'')) (next_doc ''CI_PASS'')
      (plain_request ''SOURCE_OF_TRUTH_RESOLVED'') = Inr []" by (rule unprotected_guards)
qed (simp_all add: plain_request_def)

lemma demo_rollback:
  "\<exists>db'. life_transition_tx demo_env ''c'' (doc_at ''ROLLBACK_REQUIRED'') (rollback_request rollback_authorization) opened = Inr (db', False)"
  by (rule demo_transition [OF demo_next(3) _ _ demo_rollback_guards demo_rollback_commit demo_rollback_protected])
    (simp_all add: rollback_request_def)

text \<open>The opened store verifies.\<close>

lemma opened_wf: "life_wf (le_sha demo_env) opened"
  using life_wf_initialize [OF life_wf_empty refl, of demo_env demo_case None None "Some ''b''" opened None] opened_initialize
  by (simp add: empty_store_def)

lemma opened_valid: "store_valid demo_env opened"
proof -
  have "event_errors demo_env life_genesis 1 [] (hd (ld_events opened)) = Inr []" by code_simp
  moreover have "ld_events opened = [hd (ld_events opened)]" "ld_binding opened = Some (le_binding demo_env)"
    by (simp_all add: opened_def demo_env_def)
  ultimately show ?thesis
    unfolding store_valid_iff [OF opened_wf] using log_clean_snoc_iff [of demo_env "[]" "hd (ld_events opened)"]
    by (simp add: log_clean_def log_head_def)
qed

end
