(* ===== verification/Life_Props.thy ===== *)
theory Life_Props
  imports Life_Demo Subject_Props Hash_Chain
begin

text \<open>
  What the lifecycle store promises, and where the code falls short of it: when a committed write
  is returned, what a protected state required, what a verified store says, and how it can be lost.
\<close>

section \<open>Committed writes\<close>

text \<open>
  C9. Given a lifecycle store whose log verifies and a request whose documents are canonical: when
  the transaction of LifecycleStore.transition commits, the commit stays in the database whatever
  follows, and the caller gets the new record back, exactly when the store still verifies, which
  is exactly when the request was honest: a PROCEED names the state that is written (or a subject
  binding the state it keeps) and no authorization accompanies an unprotected state. A committed
  request that is not honest leaves a store that no longer verifies.
\<close>

theorem transition_returned_iff_honest:
  assumes "life_wf (le_sha env) db" and "store_valid env db" and "canonical_request state rq"
    and "life_transition_tx env case_id state rq db = Inr (db', False)"
  shows "fst (life_transition env case_id state rq db) = db' \<and>
    (ok (snd (life_transition env case_id state rq db)) \<longleftrightarrow> honest_request state rq) \<and>
    (store_valid env db' \<longleftrightarrow> honest_request state rq)"
proof -
  have valid: "store_valid env db' \<longleftrightarrow> honest_request state rq" by (rule transition_verifies [OF assms])
  have wf: "life_wf (le_sha env) db'" by (rule life_wf_transition [OF assms(1) refl assms(4)])
  have "ok (life_get env True case_id db') \<longleftrightarrow> store_valid env db'"
  proof
    assume "ok (life_get env True case_id db')"
    then show "store_valid env db'" using life_get_invalid [OF wf, of case_id] by (metis ok_simps(2))
  next
    assume v: "store_valid env db'"
    obtain row where "tbl_get lc_id case_id (ld_cases db') = Some row"
      using assms(4) transition_keeps_case [of env case_id state rq db db'] by auto
    from life_get_valid [OF wf v this] show "ok (life_get env True case_id db')" by (auto simp: ok_iff)
  qed
  then show ?thesis using valid by (auto simp: life_transition_def life_read_back_def assms(4) ok_iff bind_res_Inr)
qed

theorem transition_returned_iff_honest_witness:
  "(\<exists>db'. ok (snd (life_transition demo_env ''c'' (doc_at ''SOURCE_OF_TRUTH_RESOLVED'')
      (plain_request ''SOURCE_OF_TRUTH_RESOLVED'') opened)) \<and> store_valid demo_env db') \<and>
   (\<exists>db'. fst (life_transition demo_env ''c'' (doc_at ''CI_PASS'') (plain_request ''SOURCE_OF_TRUTH_RESOLVED'') opened) = db' \<and>
      \<not> ok (snd (life_transition demo_env ''c'' (doc_at ''CI_PASS'') (plain_request ''SOURCE_OF_TRUTH_RESOLVED'') opened)) \<and>
      \<not> store_valid demo_env db')"
proof (intro conjI)
  have c: "canonical_request (doc_at s) (plain_request r)" for s r
    by (simp add: canonical_request_def doc_at_def opened_doc_def plain_request_def opt_dict_def)
  obtain db1 where "life_transition_tx demo_env ''c'' (doc_at ''SOURCE_OF_TRUTH_RESOLVED'')
    (plain_request ''SOURCE_OF_TRUTH_RESOLVED'') opened = Inr (db1, False)" using demo_forward by blast
  from transition_returned_iff_honest [OF opened_wf opened_valid c this]
  have "ok (snd (life_transition demo_env ''c'' (doc_at ''SOURCE_OF_TRUTH_RESOLVED'')
      (plain_request ''SOURCE_OF_TRUTH_RESOLVED'') opened)) \<and> store_valid demo_env db1"
    by (simp add: honest_request_def plain_request_def doc_at_def opened_doc_def state_name_def)
  then show "\<exists>db'. ok (snd (life_transition demo_env ''c'' (doc_at ''SOURCE_OF_TRUTH_RESOLVED'')
      (plain_request ''SOURCE_OF_TRUTH_RESOLVED'') opened)) \<and> store_valid demo_env db'" by blast
  obtain db2 where "life_transition_tx demo_env ''c'' (doc_at ''CI_PASS'')
    (plain_request ''SOURCE_OF_TRUTH_RESOLVED'') opened = Inr (db2, False)" using demo_bypass by blast
  from transition_returned_iff_honest [OF opened_wf opened_valid c this]
  have "fst (life_transition demo_env ''c'' (doc_at ''CI_PASS'') (plain_request ''SOURCE_OF_TRUTH_RESOLVED'') opened) = db2 \<and>
      \<not> ok (snd (life_transition demo_env ''c'' (doc_at ''CI_PASS'') (plain_request ''SOURCE_OF_TRUTH_RESOLVED'') opened)) \<and>
      \<not> store_valid demo_env db2"
    by (simp add: honest_request_def plain_request_def doc_at_def opened_doc_def state_name_def)
  then show "\<exists>db'. fst (life_transition demo_env ''c'' (doc_at ''CI_PASS'') (plain_request ''SOURCE_OF_TRUTH_RESOLVED'') opened) = db' \<and>
      \<not> ok (snd (life_transition demo_env ''c'' (doc_at ''CI_PASS'') (plain_request ''SOURCE_OF_TRUTH_RESOLVED'') opened)) \<and>
      \<not> store_valid demo_env db'" by blast
qed

text \<open>
  C1. A lifecycle transition that commits a protected state carried an authorization that is
  signed, current and bound to exactly this case, version, both record hashes, requested state,
  decision, controller, key and evidence lists and that names the commitment of the event that was
  appended, and every accepted evidence id stands for a supplied record that is valid,
  authoritative and bound to the subject of the written state.
\<close>

theorem protected_state_authorized:
  assumes "life_transition_tx env case_id state rq db = Inr (db', False)" and "state_name state \<in> set protected_states"
  shows "\<exists>a row d s. rq_auth rq = Some a \<and> tbl_get lc_id case_id (ld_cases db) = Some row \<and> next_document env state = Inr d \<and>
    subject_from_record d = Inr s \<and>
    authorized env a (binding_of case_id (cc_id (le_ctx env)) (transition_key case_id (life_hash env d) rq) s (lc_hash row)
      (life_hash env d) d rq) \<and>
    (\<exists>m. ld_events db' = ld_events db @ [event_row_of env (next_sequence db) m] \<and>
       py_eq (dget ''event_commitment'' (metadata_of a)) (PStr (event_commitment env m))) \<and>
    (\<forall>i \<in> set (rq_accepted rq). \<exists>r. PDict r \<in> set (rq_records rq) \<and> rid r = i \<and> proven env s case_id r)"
  using assms(1)
proof (rule transition_tx_Inr)
  fix actor d row current records
  let ?key = "transition_key case_id (life_hash env d) rq"
  assume actor: "resolve_actor env (rq_actor rq) = Inr actor" and doc: "next_document env state = Inr d"
    and row: "tbl_get lc_id case_id (ld_cases db) = Some row"
    and protected: "protected_guards env case_id actor ?key (lc_hash row) (life_hash env d) d rq = Inr records"
    and commit: "commit_transition env (parts_of case_id actor ?key current (life_hash env d) d records rq) (rq_expected rq) db = Inr db'"
  from commit obtain t m epoch where
    built: "build_event_material env (parts_of case_id actor ?key current (life_hash env d) d records rq) t (head_hash db) (next_sequence db) = Inr m"
    and committed: "\<And>a. rq_auth rq = Some a \<Longrightarrow> py_eq (dget ''event_commitment'' (metadata_of a)) (PStr (event_commitment env m))"
    and events: "ld_events db' = ld_events db @ [event_row_of env (next_sequence db) m]"
    by (rule commit_transition_Inr) auto
  obtain s where s: "subject_from_record d = Inr s" using built by (rule build_event_material_Inr) simp
  have "state_name d \<in> set protected_states" using assms(2) next_document_keeps(1) [OF doc] by simp
  from protected_guards_records [OF protected this s] obtain a rs where a: "rq_auth rq = Some a" and "records = map PDict rs"
    and sub: "set records \<subseteq> set (rq_records rq)" and ok: "evidence_ok env case_id s (rq_required rq) rs (rq_accepted rq)"
    and auth: "validate_transition_authorization env (PDict a) (binding_of case_id actor ?key s (lc_hash row) (life_hash env d) d rq) = Inr ()"
    by blast
  have s_ne: "s \<noteq> []" by (rule subject_from_record_ne [OF s])
  have "authorized env a (binding_of case_id actor ?key s (lc_hash row) (life_hash env d) d rq)"
    by (rule authorization_sound [OF auth]) (simp add: binding_of_def s_ne)
  moreover have "\<exists>r. PDict r \<in> set (rq_records rq) \<and> rid r = i \<and> proven env s case_id r" if "i \<in> set (rq_accepted rq)" for i
  proof -
    from that ok obtain r where r: "r \<in> set rs" "rid r = i" by (auto simp: evidence_ok_def)
    have "case_record case_id r \<and> accept_record env s (rq_required rq) (rid r) r = Inr ()"
      using ok r(1) by (simp add: evidence_ok_def)
    with record_proven [of env s "rq_required rq" "rid r" r case_id] s_ne have "proven env s case_id r" by blast
    then show ?thesis using r sub \<open>records = map PDict rs\<close> by auto
  qed
  ultimately show ?thesis
    using a row doc s events committed [OF a] resolve_actor_Inr(1) [OF actor] by blast
qed

theorem protected_state_authorized_witness:
  "\<exists>s d. subject_from_record d = Inr s \<and>
    authorized demo_env rollback_authorization (binding_of ''c'' lifecycle_controller_id ''k'' s ''sha256:0304'' (life_hash demo_env d) d
      (rollback_request rollback_authorization)) \<and>
    (\<exists>r. PDict r \<in> set (rq_records (rollback_request rollback_authorization)) \<and> rid r = ''e1'' \<and> proven demo_env s ''c'' r)"
proof -
  have "state_name (doc_at ''ROLLBACK_REQUIRED'') \<in> set protected_states" by code_simp
  with demo_rollback obtain db' where
    "life_transition_tx demo_env ''c'' (doc_at ''ROLLBACK_REQUIRED'') (rollback_request rollback_authorization) opened = Inr (db', False)"
    by blast
  note auth = protected_state_authorized [OF this \<open>state_name (doc_at ''ROLLBACK_REQUIRED'') \<in> set protected_states\<close>]
  have sel: "cc_id (le_ctx demo_env) = lifecycle_controller_id" "rq_auth (rollback_request a) = Some a"
    "transition_key ''c'' h (rollback_request a) = ''k''" "rq_accepted (rollback_request a) = [''e1'']" "lc_hash opened_row = ''sha256:0304''"
    for h a by (simp_all add: demo_env_def rollback_request_def transition_key_def opened_row_def opened_def)
  show ?thesis using auth unfolding sel demo_row option.inject by (fastforce simp: sel(5))
qed

section \<open>The store as histories\<close>

text \<open>Verified reading: it returns what the unverified read returns, exactly in a store that verifies.\<close>

lemma life_get_verified:
  assumes wf: "life_wf (le_sha env) db"
  shows "if store_valid env db \<and> life_abs db i \<noteq> [] then life_get env True i db = life_get env' False i db
    else \<exists>e. life_get env True i db = Inl e \<and> (store_valid env db \<longrightarrow> (\<exists>m. e = RuntimeError m))"
proof (cases "store_valid env db")
  case True
  show ?thesis
  proof (cases "tbl_get lc_id i (ld_cases db)")
    case None
    then have abs: "life_abs db i = []" using no_rows [OF wf, of i] by (simp add: tbl_get_None)
    then have "i \<notin> event_owner ` set (ld_events db)" by (auto simp: life_abs_def case_history_def filter_empty_conv)
    then have "\<exists>m. life_get env True i db = Inl (RuntimeError m)"
      using True unfolding store_valid_iff [OF wf] by (simp add: life_get_def verify_wf [OF wf] log_clean_def err_if_def)
    then show ?thesis using abs by auto
  next
    case (Some row)
    have "life_get env' False i db = life_snapshot row" using Some by (simp add: life_get_def)
    then show ?thesis using True life_get_valid(1) [OF wf True Some] some_rows [OF wf Some] by simp
  qed
qed (simp add: life_get_invalid [OF wf])

text \<open>
  C11. The lifecycle store implements a map from cases to their histories of documents: every
  write of a store reached from an empty one appends one document to one history (or changes
  nothing). Without verification get answers KeyError for a case without a history and otherwise
  the last document with the version counting the documents. With verification, the default, get
  answers the same document if the store verifies and raises if it does not, and for a case
  without a history it always raises, in a store that verifies a RuntimeError.
\<close>

theorem lifecycle_refines_histories:
  assumes "(life_step (le_sha env))\<^sup>*\<^sup>* \<lparr>ld_cases = [], ld_events = [], ld_binding = b\<rparr> db" and "life_step (le_sha env) db db'"
  shows "case_step (life_abs db) (life_abs db') \<and>
    (case life_abs db' i of
       [] \<Rightarrow> life_get env' False i db' = Inl (KeyError i) \<and>
         (\<exists>e. life_get env True i db' = Inl e \<and> (store_valid env db' \<longrightarrow> (\<exists>m. e = RuntimeError m)))
     | d # ds \<Rightarrow> \<exists>doc. life_get env' False i db' = Inr doc \<and> dget ''store_version'' doc = PInt (int (length (d # ds))) \<and>
         (\<forall>k. k \<notin> {''store_version'', ''store_record_hash'', ''authoritative_lifecycle'', ''authority_store''} \<longrightarrow>
            dget k doc = dget k (as_dict (last (d # ds)))) \<and>
         (if store_valid env db' then life_get env True i db' = Inr doc else \<exists>e. life_get env True i db' = Inl e))"
proof -
  have wf: "life_wf (le_sha env) db" by (rule run_wf [OF assms(1) life_wf_empty])
  note wf' = step_wf [OF assms(2) wf]
  note get = life_get_abs [OF wf', of env' i] and verified = life_get_verified [OF wf', of i env']
  have "case_step (life_abs db) (life_abs db')" by (rule step_abs [OF assms(2) wf])
  then show ?thesis
  proof (rule conjI, cases "life_abs db' i")
    case (Cons d ds)
    show "case life_abs db' i of
       [] \<Rightarrow> life_get env' False i db' = Inl (KeyError i) \<and>
         (\<exists>e. life_get env True i db' = Inl e \<and> (store_valid env db' \<longrightarrow> (\<exists>m. e = RuntimeError m)))
     | d # ds \<Rightarrow> \<exists>doc. life_get env' False i db' = Inr doc \<and> dget ''store_version'' doc = PInt (int (length (d # ds))) \<and>
         (\<forall>k. k \<notin> {''store_version'', ''store_record_hash'', ''authoritative_lifecycle'', ''authority_store''} \<longrightarrow>
            dget k doc = dget k (as_dict (last (d # ds)))) \<and>
         (if store_valid env db' then life_get env True i db' = Inr doc else \<exists>e. life_get env True i db' = Inl e)"
      using get verified unfolding Cons list.case by (auto split: if_splits)
  qed (use get verified in simp)
qed

lemma opened_step: "life_step (short_hash 0) empty_store opened"
proof -
  have "fst (initialize demo_env demo_case None None empty_store) = opened"
    by (simp add: initialize_def opened_initialize life_read_back_def)
  then show ?thesis using life_step.opens [of demo_env "short_hash 0" empty_store demo_case None None] by (simp add: demo_env_def)
qed

theorem lifecycle_refines_histories_witness:
  "case_step (life_abs empty_store) (life_abs opened) \<and> life_abs opened ''c'' = [PDict opened_doc]"
proof -
  have "event_owner (hd (ld_events opened)) = ''c''" "dget ''state'' (life_event_dict (hd (ld_events opened))) = PDict opened_doc"
    by code_simp+
  then have "life_abs opened ''c'' = [PDict opened_doc]" by (simp add: life_abs_def case_history_def opened_def)
  then show ?thesis
    using lifecycle_refines_histories [where env = demo_env and b = "Some ''b''" and db = empty_store and db' = opened] opened_step
    by (simp add: empty_store_def demo_env_def)
qed

text \<open>
  C30. The type of a lifecycle store: in every store reached from an empty one the event numbers
  are 1 to n, case ids are distinct, every case row holds an object with a state whose hash is the
  recorded one and whose version is the number of events of the case, its last event holds the
  same document and hash, and every event belongs to a case of the store.
\<close>

theorem reachable_store_typed:
  assumes "(life_step sha)\<^sup>*\<^sup>* \<lparr>ld_cases = [], ld_events = [], ld_binding = b\<rparr> db"
  shows "map lv_seq (ld_events db) = map int [1..<Suc (length (ld_events db))] \<and> distinct (map lc_id (ld_cases db)) \<and>
    (\<forall>row \<in> set (ld_cases db). \<exists>d. lc_state row = Some (PDict d) \<and> truthy (dget ''state'' d) \<and>
       lc_hash row = sha256_json sha (PDict d) \<and> 1 \<le> lc_version row \<and>
       lc_version row = int (length (case_history (lc_id row) (ld_events db))) \<and>
       dget ''state'' (last (case_history (lc_id row) (ld_events db))) = PDict d \<and>
       dget ''current_record_hash'' (last (case_history (lc_id row) (ld_events db))) = PStr (lc_hash row)) \<and>
    (\<forall>e \<in> set (ld_events db). event_case e = PStr (event_owner e) \<and> event_owner e \<in> lc_id ` set (ld_cases db))"
proof -
  have wf: "life_wf sha db" by (rule run_wf [OF assms life_wf_empty])
  have "\<exists>d. lc_state row = Some (PDict d) \<and> truthy (dget ''state'' d) \<and>
       lc_hash row = sha256_json sha (PDict d) \<and> 1 \<le> lc_version row \<and>
       lc_version row = int (length (case_history (lc_id row) (ld_events db))) \<and>
       dget ''state'' (last (case_history (lc_id row) (ld_events db))) = PDict d \<and>
       dget ''current_record_hash'' (last (case_history (lc_id row) (ld_events db))) = PStr (lc_hash row)"
    if "row \<in> set (ld_cases db)" for row
  proof -
    have "case_ok sha (ld_events db) row" using wf that by (simp add: life_wf_def list_all_iff)
    moreover from this have "1 \<le> lc_version row"
      by (cases "case_history (lc_id row) (ld_events db)") (auto simp: case_ok_def Let_def)
    ultimately show ?thesis by (auto simp: case_ok_def Let_def)
  qed
  then show ?thesis using wf unfolding life_wf_def list_all_iff event_ok_def unique_key_def by (blast intro: imageI)
qed

theorem reachable_store_typed_witness:
  "map lv_seq (ld_events opened) = [1] \<and> distinct (map lc_id (ld_cases opened))"
  using reachable_store_typed [of "short_hash 0" "Some ''b''" opened] r_into_rtranclp [of "life_step (short_hash 0)", OF opened_step]
  by (simp add: empty_store_def opened_def)

text \<open>
  How an event of a verified log follows the event of its case before it: the state it is recorded
  to come from is the state of that event, its subject has the next epoch exactly when a material
  field changed, and its state is the one its decision allows.
\<close>

definition epoch_follows :: "pydict \<Rightarrow> pydict \<Rightarrow> bool" where
  "epoch_follows prior d \<longleftrightarrow>
     (\<exists>p c changes epoch. subject_from_record prior = Inr p \<and> subject_from_record d = Inr c \<and>
        material_subject_changes p c = Inr changes \<and> dget ''subject_epoch'' p = PInt epoch \<and>
        dget ''subject_epoch'' c = PInt (if changes = [] then epoch else epoch + 1))"

definition decision_allows :: "string \<Rightarrow> string \<Rightarrow> string \<Rightarrow> string \<Rightarrow> string \<Rightarrow> bool" where
  "decision_allows decision logical prior requested name \<longleftrightarrow>
     (decision = ''PROCEED'' \<and> name = requested \<and> requested \<in> set (allowed_transitions logical)) \<or>
     (decision = ''BLOCKED'' \<and> name = ''BLOCKED'') \<or>
     (decision = ''ROLLBACK_REQUIRED'' \<and> name = ''ROLLBACK_REQUIRED'') \<or>
     (decision \<in> set binding_decisions \<and> name \<in> {prior, ''BLOCKED'', ''ROLLBACK_REQUIRED''})"

definition state_of_event :: "pydict \<Rightarrow> pydict" where
  "state_of_event event = as_dict (dget ''state'' event)"

definition event_follows :: "pydict \<Rightarrow> pydict \<Rightarrow> bool" where
  "event_follows prior event \<longleftrightarrow>
     dget ''prior_state'' event = PStr (state_name (state_of_event prior)) \<and>
     epoch_follows (state_of_event prior) (state_of_event event) \<and>
     decision_allows (str_or_empty (dget ''decision'' event)) (logical_state (state_of_event prior))
       (state_name (state_of_event prior)) (str_or_empty (dget ''requested_state'' event)) (state_name (state_of_event event))"

definition event_opens :: "pydict \<Rightarrow> bool" where
  "event_opens event \<longleftrightarrow> dget ''prior_state'' event = PStr ''<GENESIS>'' \<and> str_or_empty (dget ''decision'' event) = ''INITIALIZED'' \<and>
     state_name (state_of_event event) = ''UNVERIFIED_REPORT''"



lemma subject_epoch_value:
  assumes "subject_from_record r = Inr s"
  obtains epoch where "dget ''subject_epoch'' s = PInt epoch" and "py_int (py_or (dget ''subject_epoch'' s) (PInt 0)) = Inr epoch"
proof -
  from assms obtain epoch version where s: "s = subject_entries r epoch version" by (auto simp: subject_from_record_def bind_res_Inr)
  have "dget ''subject_epoch'' s = PInt epoch"
    unfolding s by (simp add: subject_entries_def model_entries_def Let_def dkeys_def)
  moreover from this have "py_int (py_or (dget ''subject_epoch'' s) (PInt 0)) = Inr epoch" by (simp add: py_or_def)
  ultimately show ?thesis by (rule that)
qed

lemma epoch_transition_follows:
  assumes "validate_subject_epoch_transition sha prior d = Inr []"
  shows "epoch_follows prior d"
proof -
  from assms obtain p c changes old new where s: "subject_from_record prior = Inr p" "subject_from_record d = Inr c"
    "material_subject_changes p c = Inr changes" and old: "py_int (py_or (dget ''subject_epoch'' p) (PInt 0)) = Inr old"
    and new: "py_int (py_or (dget ''subject_epoch'' c) (PInt 0)) = Inr new"
    and e: "new = (if changes = [] then old else old + 1)"
    by (auto simp: validate_subject_epoch_transition_def bind_res_Inr split: if_splits)
  have "dget ''subject_epoch'' p = PInt old" using subject_epoch_value [OF s(1)] old by (metis sum.inject(2))
  moreover have "dget ''subject_epoch'' c = PInt new" using subject_epoch_value [OF s(2)] new by (metis sum.inject(2))
  ultimately show ?thesis unfolding epoch_follows_def using s e by blast
qed

lemma order_errors_decision:
  assumes "order_errors prior event = []"
  shows "dget ''prior_state'' event = PStr (state_name prior)"
    and "decision_allows (str_or_empty (dget ''decision'' event)) (logical_state prior) (state_name prior)
      (str_or_empty (dget ''requested_state'' event)) (state_name (state_of_event event))"
  using assms by (auto simp: order_errors_def Let_def decision_allows_def state_of_event_def py_eq_PStr split: if_splits)

lemma history_errors_follows:
  assumes "history_errors env history event = Inr []"
  shows "if history = [] then event_opens event else event_follows (last history) event"
proof (cases history)
  case Nil
  then show ?thesis
    using assms by (auto simp: history_errors_def Let_def event_opens_def state_of_event_def py_eq_PStr split: if_splits)
next
  case (Cons e es)
  then obtain prior where p: "py_or (dget ''state'' (last history)) (PDict []) = PDict prior"
    and epoch: "validate_subject_epoch_transition (le_sha env) prior (state_of_event event) = Inr []"
    and order: "order_errors prior event = []"
    using assms by (auto simp: history_errors_def Let_def bind_res_Inr state_of_event_def split: pyval.splits)
  from p have "state_of_event (last history) = prior"
    by (cases "dget ''state'' (last history)") (auto simp: py_or_def state_of_event_def split: if_splits)
  then show ?thesis
    using order_errors_decision [OF order] epoch_transition_follows [OF epoch] Cons by (simp add: event_follows_def)
qed



text \<open>
  C21. Optimistic concurrency of lifecycle transitions: once a transition at an expected version
  has committed, no later transition of the case at that version, whatever its document, key or
  authorization, succeeds in any store reached afterwards.
\<close>

theorem version_committed_once:
  assumes "life_wf (le_sha env) db" and "life_transition_tx env case_id state rq db = Inr (db', False)"
    and "(life_step (le_sha env))\<^sup>*\<^sup>* db' db''" and "rq_expected rq' = rq_expected rq"
  shows "\<not> ok (life_transition_tx env' case_id state' rq' db'')"
proof
  assume "ok (life_transition_tx env' case_id state' rq' db'')"
  then obtain db3 replay where tx: "life_transition_tx env' case_id state' rq' db'' = Inr (db3, replay)" by (auto simp: ok_iff)
  have wf': "life_wf (le_sha env) db'" by (rule life_wf_transition [OF assms(1) refl assms(2)])
  have wf'': "life_wf (le_sha env) db''" by (rule run_wf [OF assms(3) wf'])
  from tx obtain row where row: "tbl_get lc_id case_id (ld_cases db'') = Some row" "lc_version row = rq_expected rq'"
    by (auto simp: life_transition_tx_def bind_res_Inr Let_def split: if_splits option.splits)
  obtain row0 where row0: "tbl_get lc_id case_id (ld_cases db) = Some row0" "lc_version row0 = rq_expected rq"
    using assms(2) by (rule transition_tx_Inr) blast
  obtain e where e: "ld_events db' = ld_events db @ [e]" "event_owner e = case_id"
    using assms(2) by (rule transition_event)
  obtain es where es: "ld_events db'' = ld_events db' @ es" using run_appends [OF assms(3)] by blast
  have "length (case_history case_id (ld_events db'')) > length (case_history case_id (ld_events db))"
    by (simp add: es e case_history_def)
  moreover have "lc_version row = int (length (case_history case_id (ld_events db'')))" using case_row [OF wf'' row(1)] by metis
  moreover have "lc_version row0 = int (length (case_history case_id (ld_events db)))" using case_row [OF assms(1) row0(1)] by metis
  ultimately show False using row(2) row0(2) assms(4) by simp
qed

theorem version_committed_once_witness:
  "\<exists>db'. life_transition_tx demo_env ''c'' (doc_at ''SOURCE_OF_TRUTH_RESOLVED'') (plain_request ''SOURCE_OF_TRUTH_RESOLVED'') opened = Inr (db', False) \<and>
    \<not> ok (life_transition_tx demo_env ''c'' (doc_at ''SOURCE_OF_TRUTH_RESOLVED'') (plain_request ''SOURCE_OF_TRUTH_RESOLVED'') db')"
  using demo_forward version_committed_once [OF opened_wf _ rtranclp.rtrancl_refl refl] by blast

section \<open>How a store is lost\<close>

text \<open>
  The defects of an event that no reader can see past: they depend on the digest, the key of the
  store and its binding only, not on the clock, the trust roots or the controller.
\<close>

definition lasting_defect :: "life_env \<Rightarrow> life_event list \<Rightarrow> life_event \<Rightarrow> bool" where
  "lasting_defect env es e \<longleftrightarrow>
     (let event = life_event_dict e in
      column_errors e event \<noteq> [] \<or> content_errors env event \<noteq> Inr [] \<or>
      history_errors env (case_history (event_owner e) es) event \<noteq> Inr [] \<or>
      seal_errors env (log_head es) (if es = [] then 1 else lv_seq (last es) + 1) e event \<noteq> [] \<or>
      (state_name (state_of_event event) \<notin> set protected_states \<and> dget ''transition_authorization'' event \<noteq> PNone))"

definition same_keys :: "life_env \<Rightarrow> life_env \<Rightarrow> bool" where
  "same_keys env env' \<longleftrightarrow> le_sha env' = le_sha env \<and> le_hmac env' = le_hmac env \<and> le_binding env' = le_binding env"

lemma lasting_same_keys:
  assumes "same_keys env env'"
  shows "lasting_defect env' es e = lasting_defect env es e"
proof -
  have "content_errors env' event = content_errors env event" for event
    using assms by (simp add: content_errors_def same_keys_def life_hash_def)
  moreover have "history_errors env' history event = history_errors env history event" for history event
    using assms by (simp only: history_errors_def same_keys_def)
  moreover have "seal_errors env' prev n row event = seal_errors env prev n row event" for prev n row event
    using assms by (simp only: seal_errors_def same_keys_def life_hash_def event_mac_def)
  ultimately show ?thesis by (simp only: lasting_defect_def)
qed

lemma lasting_unclean:
  assumes "lasting_defect env es e"
  shows "\<not> log_clean env (es @ e # fs)"
proof
  assume "log_clean env (es @ e # fs)"
  note clean = event_errors_Nil [OF clean_log_event [OF this]]
  have "\<not> (state_name (state_of_event (life_event_dict e)) \<notin> set protected_states \<and>
      dget ''transition_authorization'' (life_event_dict e) \<noteq> PNone)"
    using clean(4) by (auto simp: protection_errors_def state_of_event_def split: if_splits)
  then show False using assms clean(1-3,5) by (simp add: lasting_defect_def Let_def)
qed

lemma lasting_invalid:
  assumes "life_wf (le_sha env) db" and "ld_events db = es @ e # fs" and "lasting_defect env es e"
  shows "\<not> store_valid env db"
  using lasting_unclean [OF assms(3)] assms(2) by (simp add: store_valid_iff [OF assms(1)])

text \<open>A committed request that is not honest leaves such a defect.\<close>

lemma sound_event_honest:
  assumes built: "build_event_material env p t prev n = Inr m" and canonical: "canon_fields (ep_state p)"
    and sound: "\<not> lasting_defect env es (event_row_of env n m)" and history: "case_history (ep_case p) es \<noteq> []"
  shows "(ep_decision p = ''PROCEED'' \<longrightarrow> ep_requested p = state_name (ep_state p)) \<and>
    (ep_auth p \<noteq> None \<longrightarrow> state_name (ep_state p) \<in> set protected_states)"
proof -
  let ?e = "life_event_dict (event_row_of env n m)"
  obtain subject epoch fp where m: "m = material_fields_of env p t prev n subject epoch fp"
    using built by (rule build_event_material_Inr)
  note ev = event_values [of env n p t prev subject epoch fp, folded m] and owner = built_row(1) [OF built]
  have name: "state_name (state_of_event ?e) = state_name (ep_state p)"
    unfolding state_of_event_def ev sorted_fields [OF canonical] by (simp add: state_name_fields [OF sorted_dict(2) [OF canonical]])
  have "history_errors env (case_history (ep_case p) es) ?e = Inr []"
    using sound unfolding lasting_defect_def Let_def owner by blast
  from history_errors_follows [OF this] history
  have "decision_allows (ep_decision p) (logical_state (state_of_event (last (case_history (ep_case p) es))))
      (state_name (state_of_event (last (case_history (ep_case p) es)))) (ep_requested p) (state_name (ep_state p))"
    unfolding event_follows_def name by (simp add: ev str_or_empty_def py_or_def del: sort_keys.simps split: if_splits)
  then have "ep_decision p = ''PROCEED'' \<longrightarrow> ep_requested p = state_name (ep_state p)"
    by (auto simp: decision_allows_def binding_decisions_def)
  moreover have "ep_auth p = None" if "state_name (ep_state p) \<notin> set protected_states"
  proof -
    have "dget ''transition_authorization'' ?e = PNone" using sound that unfolding lasting_defect_def Let_def name by blast
    then show ?thesis unfolding ev by (cases "ep_auth p") (simp_all add: opt_dict_def)
  qed
  ultimately show ?thesis by (metis (no_types))
qed

lemma dishonest_commit:
  assumes wf: "life_wf (le_sha env) db" and canonical: "canonical_request state rq" and dishonest: "\<not> honest_request state rq"
    and tx: "life_transition_tx env case_id state rq db = Inr (db', False)"
  obtains e where "ld_events db' = ld_events db @ [e]" and "lasting_defect env (ld_events db) e"
  using tx
proof (rule transition_tx_Inr)
  fix actor d row current records
  let ?p = "parts_of case_id actor (transition_key case_id (life_hash env d) rq) current (life_hash env d) d records rq"
  assume doc: "next_document env state = Inr d" and row: "tbl_get lc_id case_id (ld_cases db) = Some row"
    and "commit_transition env ?p (rq_expected rq) db = Inr db'"
  from this(3) obtain t m where built: "build_event_material env ?p t (head_hash db) (next_sequence db) = Inr m"
    and events: "ld_events db' = ld_events db @ [event_row_of env (next_sequence db) m]"
    by (rule commit_transition_Inr) simp
  have canon: "canon_fields (ep_state ?p)" using next_document_keeps(3) [OF doc] canonical by (simp add: canonical_request_def)
  have "case_history (ep_case ?p) (ld_events db) \<noteq> []" using case_row [OF wf row] by auto
  from sound_event_honest [OF built canon _ this] dishonest next_document_keeps(1) [OF doc]
  have "lasting_defect env (ld_events db) (event_row_of env (next_sequence db) m)" by (auto simp: honest_request_def)
  with events show ?thesis by (rule that)
qed

text \<open>
  C40. The lifecycle store cannot be repaired: once an event of its log has a defect that does not
  depend on the clock or the trust roots (a column that differs from the record, a content, order
  or chain error, or an authorization of an unprotected state), then after any further operations,
  at any time and under any trust roots and controller, the log does not verify; every verified
  read and export raises, every transition answers an error (although its write may be committed),
  and mutate_subject changes nothing and raises the error of the read.
\<close>

theorem broken_store_stays_broken:
  assumes "life_wf (le_sha env) db" and "ld_events db = es @ e # fs" and "lasting_defect env es e"
    and "(life_step (le_sha env))\<^sup>*\<^sup>* db db'" and "same_keys env env'"
  shows "\<not> store_valid env' db' \<and> \<not> ok (life_get env' True i db') \<and> \<not> ok (life_export env' True i db') \<and>
    \<not> ok (snd (life_transition env' i state rq db')) \<and>
    mutate_subject env' i updates reason actor expected db' = (db', Inl (err_of (life_get env' True i db')))"
proof -
  have sha: "le_sha env' = le_sha env" and d: "lasting_defect env' es e"
    using assms(3,5) lasting_same_keys [OF assms(5)] by (simp_all add: same_keys_def)
  have reached: "\<not> store_valid env' db1 \<and> life_wf (le_sha env') db1" if run: "(life_step (le_sha env))\<^sup>*\<^sup>* db db1" for db1
  proof -
    have wf: "life_wf (le_sha env') db1" unfolding sha by (rule run_wf [OF run assms(1)])
    obtain gs where "ld_events db1 = es @ e # (fs @ gs)" using run_appends [OF run] assms(2) by auto
    from lasting_invalid [OF wf this d] wf show ?thesis by blast
  qed
  have unread: "\<exists>x. life_get env' True i db1 = Inl x" if "(life_step (le_sha env))\<^sup>*\<^sup>* db db1" for db1
    using reached [OF that] life_get_invalid by blast
  have v: "\<not> store_valid env' db'" using reached [OF assms(4)] by blast
  obtain x where x: "life_get env' True i db' = Inl x" using unread [OF assms(4)] by blast
  have "\<not> ok (snd (life_transition env' i state rq db'))"
  proof (cases "life_transition_tx env' i state rq db'")
    case (Inr p)
    obtain db1 replay where p: "p = (db1, replay)" by (cases p)
    have "life_step (le_sha env) db' db1"
      using life_step.advances [of env' "le_sha env" db' i state rq] Inr p sha by (simp add: life_transition_def life_read_back_def)
    then obtain y where "life_get env' True i db1 = Inl y" using unread [OF rtranclp.rtrancl_into_rtrancl [OF assms(4)]] by blast
    then show ?thesis using Inr p by (simp add: life_transition_def life_read_back_def)
  qed (simp add: life_transition_def)
  then show ?thesis using v x by (simp add: life_export_def mutate_subject_def err_of_def)
qed

theorem broken_store_stays_broken_witness:
  "\<exists>db' e. life_transition_tx demo_env ''c'' (doc_at ''CI_PASS'') (plain_request ''SOURCE_OF_TRUTH_RESOLVED'') opened = Inr (db', False) \<and>
    ld_events db' = ld_events opened @ [e] \<and> lasting_defect demo_env (ld_events opened) e \<and>
    \<not> ok (life_get (demo_env\<lparr>le_now := 0, le_roots := None\<rparr>) True ''c'' db')"
proof -
  obtain db' where tx: "life_transition_tx demo_env ''c'' (doc_at ''CI_PASS'') (plain_request ''SOURCE_OF_TRUTH_RESOLVED'') opened = Inr (db', False)"
    using demo_bypass by blast
  have dishonest: "\<not> honest_request (doc_at ''CI_PASS'') (plain_request ''SOURCE_OF_TRUTH_RESOLVED'')"
    by (simp add: honest_request_def plain_request_def doc_at_def opened_doc_def state_name_def)
  have canonical: "canonical_request (doc_at ''CI_PASS'') (plain_request ''SOURCE_OF_TRUTH_RESOLVED'')"
    by (simp add: canonical_request_def doc_at_def opened_doc_def plain_request_def opt_dict_def)
  obtain e where e: "ld_events db' = ld_events opened @ e # []" "lasting_defect demo_env (ld_events opened) e"
    using opened_wf canonical dishonest tx by (rule dishonest_commit)
  have "same_keys demo_env (demo_env\<lparr>le_now := 0, le_roots := None\<rparr>)" by (simp add: same_keys_def)
  from broken_store_stays_broken [OF life_wf_transition [OF opened_wf refl tx] e rtranclp.rtrancl_refl this] tx e show ?thesis by blast
qed

section \<open>Protected states\<close>

text \<open>
  C18. If a store (of the shape every reachable store has) verifies now, every event of a
  protected state still has an authorization that is valid now and bound to the case and the
  written record, and each of its accepted evidence ids stands for a stored record that is valid
  now and bound to the subject of the event.
\<close>

theorem verified_protection_current:
  assumes "life_wf (le_sha env) db" and "store_valid env db" and "e \<in> set (ld_events db)"
    and "state_name (as_dict (dget ''state'' (life_event_dict e))) \<in> set protected_states"
  shows "\<exists>a b accepted. dget ''transition_authorization'' (life_event_dict e) = PDict a \<and> authorized env a b \<and>
    tb_case b = event_owner e \<and> tb_next b = str_or_empty (dget ''current_record_hash'' (life_event_dict e)) \<and>
    event_names ''accepted_evidence'' (life_event_dict e) = Inr accepted \<and>
    (\<forall>i \<in> set accepted. \<exists>r. PDict r \<in> set (snapshots (life_event_dict e)) \<and> rid r = py_str i \<and>
       proven env (as_dict (dget ''subject'' (life_event_dict e))) (event_owner e) r)"
proof -
  obtain xs ys where "ld_events db = xs @ e # ys" using split_list [OF assms(3)] by blast
  then have "log_clean env (xs @ e # ys)" using assms(2) by (simp add: store_valid_iff [OF assms(1)])
  from clean_protected_sound [OF this assms(4)] show ?thesis by blast
qed

lemma opened_history: "length (case_history ''c'' (ld_events opened)) = 1"
  by code_simp

text \<open>The store after the rollback, and its last event.\<close>

lemma rolled_back:
  obtains db e where "life_wf (le_sha demo_env) db" and "store_valid demo_env db" and "e \<in> set (ld_events db)"
    and "state_name (as_dict (dget ''state'' (life_event_dict e))) \<in> set protected_states"
    and "dget ''transition_authorization'' (life_event_dict e) = PDict rollback_authorization"
    and "\<exists>row current. tbl_get lc_id ''c'' (ld_cases db) = Some row \<and> life_snapshot row = Inr current \<and>
      state_name current = ''ROLLBACK_REQUIRED''"
    and "length (case_history ''c'' (ld_events db)) = 2"
proof -
  obtain db' where tx: "life_transition_tx demo_env ''c'' (doc_at ''ROLLBACK_REQUIRED'')
    (rollback_request rollback_authorization) opened = Inr (db', False)" using demo_rollback by blast
  have canonical: "canonical_request (doc_at ''ROLLBACK_REQUIRED'') (rollback_request rollback_authorization)"
    unfolding canonical_request_def canon_def canon_fields_def list_all_iff by code_simp
  have honest: "honest_request (doc_at ''ROLLBACK_REQUIRED'') (rollback_request rollback_authorization)"
    unfolding honest_request_def by code_simp
  note wf' = life_wf_transition [OF opened_wf refl tx] and valid' = transition_keeps_valid [OF opened_wf opened_valid honest canonical tx]
  from tx show ?thesis
  proof (rule transition_tx_Inr)
    fix actor d row current records
    let ?p = "parts_of ''c'' actor (transition_key ''c'' (life_hash demo_env d) (rollback_request rollback_authorization)) current
      (life_hash demo_env d) d records (rollback_request rollback_authorization)"
    assume doc: "next_document demo_env (doc_at ''ROLLBACK_REQUIRED'') = Inr d"
      and "commit_transition demo_env ?p (rq_expected (rollback_request rollback_authorization)) opened = Inr db'"
    from this(2) obtain t m epoch where built: "build_event_material demo_env ?p t (head_hash opened) (next_sequence opened) = Inr m"
      and events: "ld_events db' = ld_events opened @ [event_row_of demo_env (next_sequence opened) m]"
      and cases: "ld_cases db' = tbl_upd (\<lambda>r. lc_id r = ''c'' \<and> lc_version r = 1) (case_written demo_env 2 epoch d (life_hash demo_env d))
        (ld_cases opened)"
      by (rule commit_transition_Inr) (simp add: rollback_request_def)
    let ?e = "event_row_of demo_env (next_sequence opened) m"
    obtain subject ep fp where m: "m = material_fields_of demo_env ?p t (head_hash opened) (next_sequence opened) subject ep fp"
      using built by (rule build_event_material_Inr)
    have "sort_keys (PDict rollback_authorization) = PDict rollback_authorization"
      using canonical by (simp add: canonical_request_def rollback_request_def opt_dict_def canon_def del: sort_keys.simps)
    then have "dget ''transition_authorization'' (life_event_dict ?e) = PDict rollback_authorization"
      unfolding m event_values by (simp add: rollback_request_def opt_dict_def del: sort_keys.simps)
    moreover have "d = next_doc ''ROLLBACK_REQUIRED''" using doc demo_next(3) by simp
    then have "state_name (as_dict (dget ''state'' (life_event_dict ?e))) \<in> set protected_states"
      unfolding m event_values parts_of_sel by (simp only:) code_simp
    moreover have "tbl_get lc_id ''c'' (ld_cases db') = Some (case_written demo_env 2 epoch d (life_hash demo_env d) opened_row)"
      unfolding cases using case_wr.get_upd_guarded [OF _ demo_row, of "\<lambda>r. lc_version r = 1"] opened_wf demo_version
      by (simp add: life_wf_def)
    moreover have "dget ''state'' d = PStr ''ROLLBACK_REQUIRED''" using next_document_keeps(2) [OF doc] by (simp add: doc_at_def opened_doc_def)
    then have "\<exists>current. life_snapshot (case_written demo_env 2 epoch d (life_hash demo_env d) opened_row) = Inr current \<and>
        state_name current = ''ROLLBACK_REQUIRED''"
      using dget_sorted [of "''state''" d] by (simp add: life_snapshot_def case_written_def stored_def state_name_def)
    moreover have "length (case_history ''c'' (ld_events db')) = 2"
      using built_row(1) [OF built] unfolding events by (simp add: opened_history)
    ultimately show ?thesis using that [OF wf' valid', of ?e] events by auto
  qed
qed


theorem verified_protection_current_witness:
  "\<exists>db e a b. store_valid demo_env db \<and> e \<in> set (ld_events db) \<and>
    dget ''transition_authorization'' (life_event_dict e) = PDict a \<and> authorized demo_env a b"
proof -
  obtain db e where "life_wf (le_sha demo_env) db" "store_valid demo_env db" "e \<in> set (ld_events db)"
    "state_name (as_dict (dget ''state'' (life_event_dict e))) \<in> set protected_states" using rolled_back by metis
  with verified_protection_current [OF this] show ?thesis by blast
qed

text \<open>
  When the authorization of any protected event of the store has expired at the time of
  reading, the whole store does not verify and no case of it, also one without protected states,
  can be read with verification.
\<close>

theorem expired_authorization_unverifies:
  assumes "life_wf (le_sha env) db" and "e \<in> set (ld_events db)"
    and "state_name (as_dict (dget ''state'' (life_event_dict e))) \<in> set protected_states"
    and "dget ''transition_authorization'' (life_event_dict e) = PDict a"
    and "parse_time (dget ''expires_at'' a) = Inr (Some expires)" and "expires \<le> le_now env"
  shows "\<not> store_valid env db \<and> \<not> ok (life_get env True i db)"
proof -
  have "\<not> store_valid env db"
  proof
    assume valid: "store_valid env db"
    obtain xs ys where "ld_events db = xs @ e # ys" using split_list [OF assms(2)] by blast
    then have "log_clean env (xs @ e # ys)" using valid by (simp add: store_valid_iff [OF assms(1)])
    from clean_protected_sound [OF this assms(3)] obtain b where "authorized env a b" using assms(4) by auto
    then have "le_now env < expires" using assms(5) by (auto simp: authorized_def current_at_def)
    with assms(6) show False by simp
  qed
  with life_get_invalid [OF assms(1) this, of i] show ?thesis by auto
qed

theorem expired_authorization_unverifies_witness:
  "\<exists>db. store_valid demo_env db \<and> \<not> store_valid (demo_env\<lparr>le_now := 63903000000000000\<rparr>) db"
proof -
  obtain db e where db: "life_wf (le_sha demo_env) db" "store_valid demo_env db" "e \<in> set (ld_events db)"
    "state_name (as_dict (dget ''state'' (life_event_dict e))) \<in> set protected_states"
    "dget ''transition_authorization'' (life_event_dict e) = PDict rollback_authorization" using rolled_back by metis
  have t: "parse_time (dget ''expires_at'' rollback_authorization) = Inr (Some 63902995200000000)" by code_simp
  have "life_wf (le_sha (demo_env\<lparr>le_now := 63903000000000000\<rparr>)) db" using db(1) by simp
  from expired_authorization_unverifies [OF this db(3,4,5) t] db(2) show ?thesis by auto
qed

section \<open>Subject mutations\<close>

lemma open_epoch_state:
  assumes "open_epoch sha now reason before r1 changed = Inr r'" and "state_name r1 \<in> set post_production_states"
  shows "state_name r' = ''ROLLBACK_REQUIRED''"
proof -
  from assms(1) obtain r2 r4 ms where r4: "retire_refs r2 = Inr r4" and state: "dget ''state'' r2 = dget ''state'' r1"
    and r': "r' = withdraw changed (dset ''subject_mutations'' ms r4)"
    by (auto simp: open_epoch_def bind_res_Inr Let_def)
  have "dget ''state'' r4 = dget ''state'' r1" using retire_refs_result [OF r4] state by simp
  then show ?thesis using assms(2) by (simp add: r' withdraw_def Let_def state_name_def str_or_empty_def py_or_def)
qed

lemma exposed_update_protected:
  assumes "apply_subject_update sha now current updates reason = Inr updated"
    and "state_name current \<in> set post_production_states"
  shows "state_name updated \<in> set protected_states"
proof -
  let ?r1 = "with_updates (unsealed current) updates"
  from assms(1) obtain before after changes where keys: "set (dkeys updates) \<subseteq> set material_fields"
    and "subject_from_record (unsealed current) = Inr before" and "subject_from_record ?r1 = Inr after"
    and "material_subject_changes before after = Inr changes"
    and res: "if changes = [] then \<exists>fp. subject_fingerprint sha ?r1 = Inr fp \<and> updated = dset ''subject_fingerprint'' (PStr fp) ?r1
       else open_epoch sha now reason before ?r1 (dkeys changes) = Inr updated"
    by (auto simp: apply_subject_update_def bind_res_Inr Let_def subset_iff filter_empty_conv split: if_splits)
  have "dget ''state'' ?r1 = dget ''state'' current"
    using with_updates_frame [OF keys, of "''state''" "unsealed current"]
    by (simp add: identity_inputs_def material_fields_def unsealed_def)
  then have state: "state_name ?r1 = state_name current" by (simp add: state_name_def)
  have "state_name updated = state_name current \<or> state_name updated = ''ROLLBACK_REQUIRED''"
    using res open_epoch_state [of sha now reason before ?r1 "dkeys changes" updated] state assms(2)
    by (auto simp: state_name_def split: if_splits)
  then show ?thesis using assms(2) by (auto simp: post_production_states_def protected_states_def)
qed

text \<open>
  mutate_subject of a case whose state is a post-production one always fails and leaves the
  store as it was, since it never has an authorization for the rollback it would write.
\<close>

theorem exposed_mutation_refused:
  assumes "tbl_get lc_id case_id (ld_cases db) = Some row" and "life_snapshot row = Inr current"
    and "state_name current \<in> set post_production_states"
  shows "\<exists>e. mutate_subject env case_id updates reason actor expected db = (db, Inl e)"
proof (cases "bind_res (life_get env True case_id db) (\<lambda>current.
         bind_res (py_int (dget_default ''store_version'' (PInt 0) current)) (\<lambda>version.
         if version \<noteq> expected then Inl (RuntimeError ''Optimistic concurrency conflict: stale lifecycle version'')
         else bind_res (apply_subject_update (le_sha env) (le_now_text env) current updates reason) (\<lambda>updated.
           bind_res (mutation_request updated actor expected) (\<lambda>rq. Inr (updated, rq)))))")
  case (Inl e)
  then show ?thesis by (simp add: mutate_subject_def)
next
  case (Inr p)
  then obtain updated rq where p: "p = (updated, rq)" and get: "life_get env True case_id db = Inr current"
    and upd: "apply_subject_update (le_sha env) (le_now_text env) current updates reason = Inr updated"
    and rq: "mutation_request updated actor expected = Inr rq"
    using assms(1,2) by (auto simp: bind_res_Inr life_get_def split: if_splits)
  have protected: "state_name updated \<in> set protected_states" by (rule exposed_update_protected [OF upd assms(3)])
  have none: "rq_auth rq = None" using rq by (auto simp: mutation_request_def bind_res_Inr)
  have "\<not> (\<exists>db' replay. life_transition_tx env case_id updated rq db = Inr (db', replay))"
  proof (intro notI, elim exE)
    fix db' replay
    assume tx: "life_transition_tx env case_id updated rq db = Inr (db', replay)"
    then obtain d actor' key h records where doc: "next_document env updated = Inr d"
      and pg: "protected_guards env case_id actor' key (lc_hash row) h d rq = Inr records"
      using assms(1) by (auto simp: life_transition_tx_def bind_res_Inr Let_def split: if_splits option.splits)
    have "state_name d \<in> set protected_states" using protected next_document_keeps(1) [OF doc] by simp
    then obtain s where "validate_transition_authorization env (opt_dict (rq_auth rq)) (binding_of case_id actor' key s (lc_hash row) h d rq) = Inr ()"
      using pg by (auto simp: protected_guards_def bind_res_Inr)
    then show False using none authorization_Inr by (auto simp: opt_dict_def)
  qed
  then obtain e where "life_transition_tx env case_id updated rq db = Inl e"
    by (cases "life_transition_tx env case_id updated rq db") auto
  then show ?thesis using Inr p by (simp add: mutate_subject_def life_transition_def)
qed

theorem exposed_mutation_refused_witness:
  "\<exists>db. store_valid demo_env db \<and>
     (\<exists>e. mutate_subject demo_env ''c'' [(''artifact_digest'', PNone)] ''r'' None 2 db = (db, Inl e))"
proof -
  obtain db row current where db: "store_valid demo_env db" "tbl_get lc_id ''c'' (ld_cases db) = Some row"
    "life_snapshot row = Inr current" "state_name current = ''ROLLBACK_REQUIRED''" using rolled_back by metis
  then have "state_name current \<in> set post_production_states" by (simp add: post_production_states_def)
  from exposed_mutation_refused [OF db(2,3) this] db(1) show ?thesis by blast
qed

section \<open>Risk\<close>

lemma next_document_risk: "next_document env state = Inr d \<Longrightarrow> dget ''risk'' d = dget ''risk'' state"
  by (auto simp: next_document_def bind_res_Inr Let_def split: if_splits)

lemma risk_guard:
  assumes "validate_risk_and_domains current d = Inr ()"
  shows "risk_known (dget ''risk'' current)" "risk_known (dget ''risk'' d)"
    "dget ''risk'' current \<noteq> PNone \<Longrightarrow> dget ''risk'' d \<noteq> PNone \<Longrightarrow>
      rank_of (text_of (dget ''risk'' current)) \<le> rank_of (text_of (dget ''risk'' d))"
  using assms by (auto simp: validate_risk_and_domains_def Let_def checks_passed not_less simp del: checks.simps)

text \<open>
  A committed transition between two documents that both name a risk level names known levels
  and never a lower one.
\<close>

theorem risk_never_lowered_in_a_step:
  assumes "life_transition_tx env case_id state rq db = Inr (db', False)" and "tbl_get lc_id case_id (ld_cases db) = Some row"
    and "lc_state row = Some (PDict prior)"
    and "dget ''risk'' prior = PStr r" and "dget ''risk'' state = PStr r'"
  shows "known_risk r \<and> known_risk r' \<and> rank_of r \<le> rank_of r'"
  using assms(1)
proof (rule transition_tx_Inr)
  fix actor d row' current records
  assume doc: "next_document env state = Inr d" and row: "tbl_get lc_id case_id (ld_cases db) = Some row'"
    and current: "life_snapshot row' = Inr current" and guards: "transition_guards env current d rq = Inr ()"
  have "dget ''risk'' current = PStr r" using current row assms(2,3,4) by (auto simp: life_snapshot_def)
  moreover have "dget ''risk'' d = PStr r'" using next_document_risk [OF doc] assms(5) by simp
  moreover obtain changes where "subject_guards env current d (rq_decision rq) = Inr changes"
    using guards by (rule transition_guards_Inr)
  then have "validate_risk_and_domains current d = Inr ()"
    by (auto simp: subject_guards_def bind_res_Inr simp del: checks.simps split: if_splits)
  note risk_guard [OF this]
  ultimately show ?thesis by (simp add: risk_known_def str_and_def)
qed

theorem risk_never_lowered_in_a_step_witness:
  "rank_of ''R1'' \<le> rank_of ''R1'' \<and> known_risk ''R1''"
proof -
  obtain db' where tx: "life_transition_tx demo_env ''c'' (doc_at ''SOURCE_OF_TRUTH_RESOLVED'')
    (plain_request ''SOURCE_OF_TRUTH_RESOLVED'') opened = Inr (db', False)" using demo_forward by blast
  have "lc_state opened_row = Some (PDict opened_doc)" "dget ''risk'' opened_doc = PStr ''R1''"
    "dget ''risk'' (doc_at ''SOURCE_OF_TRUTH_RESOLVED'') = PStr ''R1''"
    by (simp_all add: opened_row_def opened_def opened_doc_def doc_at_def)
  from risk_never_lowered_in_a_step [OF tx demo_row this] show ?thesis by simp
qed

lemma risk_history_without:
  assumes "risk_history_check next_risk item = Inr ()"
  shows "risk_history_check PNone item = Inr ()"
  using assms by (cases item) (auto simp: risk_history_check_def Let_def checks_passed simp del: checks.simps)

text \<open>
  The prohibition of risk downgrades holds per step only: any document that would be accepted
  from scratch is accepted after a step that withdraws the risk level, and the withdrawal itself
  is accepted.
\<close>

theorem risk_withdrawn_in_two_steps:
  assumes "validate_risk_and_domains [] d = Inr ()" and "risk_known (dget ''risk'' current)"
  shows "validate_risk_and_domains current (dset ''risk'' PNone (dset ''risk_class'' PNone d)) = Inr () \<and>
    validate_risk_and_domains (dset ''risk'' PNone (dset ''risk_class'' PNone d)) d = Inr ()"
proof
  have none: "risk_known PNone" by (simp add: risk_known_def)
  show "validate_risk_and_domains current (dset ''risk'' PNone (dset ''risk_class'' PNone d)) = Inr ()"
    using assms none risk_history_without unfolding validate_risk_and_domains_def Let_def checks_passed
    by (auto simp: checks_Inr simp del: checks.simps split: pyval.splits)
  show "validate_risk_and_domains (dset ''risk'' PNone (dset ''risk_class'' PNone d)) d = Inr ()"
    using assms none unfolding validate_risk_and_domains_def Let_def checks_passed
    by (auto simp: checks_Inr simp del: checks.simps split: pyval.splits)
qed

theorem risk_withdrawn_in_two_steps_witness:
  "validate_risk_and_domains [(''risk'', PStr ''R4'')] [(''risk'', PNone), (''risk_class'', PNone)] = Inr () \<and>
   validate_risk_and_domains [(''risk'', PNone), (''risk_class'', PNone)] [(''risk'', PStr ''R0'')] = Inr ()"
proof -
  have "validate_risk_and_domains [] [(''risk'', PStr ''R0'')] = Inr ()" "risk_known (dget ''risk'' [(''risk'', PStr ''R4'')])"
    by code_simp+
  from risk_withdrawn_in_two_steps [OF this] show ?thesis by simp
qed

section \<open>The head of the log\<close>

text \<open>The log is an instance of the chains of \<open>Hash_Chain\<close>: what an event says is its document without the seals.\<close>

definition said :: "life_event \<Rightarrow> pydict" where
  "said e = ddel ''record_mac'' (ddel ''record_hash'' (life_event_dict e))"

definition event_digest_of :: "(string \<Rightarrow> string) \<Rightarrow> life_event \<Rightarrow> string" where
  "event_digest_of sha e = sha256_json sha (PDict (said e))"

definition event_prev :: "life_event \<Rightarrow> string" where
  "event_prev e = text_of (dget ''previous_hash'' (said e))"

lemma ddel_dset: "ddel k (dset k v d) = ddel k d" "k \<noteq> k' \<Longrightarrow> ddel k (dset k' v d) = dset k' v (ddel k d)"
  by (induction k v d rule: dset.induct; simp add: ddel_def) (induction k' v d rule: dset.induct; simp add: ddel_def)

lemma said_seal: "said (e\<lparr>lv_hash := h\<rparr>) = said e"
  by (simp add: said_def life_event_dict_def Let_def ddel_dset)

lemma digest_same:
  assumes "inj sha" and "event_digest_of sha x = event_digest_of sha y"
  shows "sort_keys (dget k (said x)) = sort_keys (dget k (said y))"
proof -
  have "sort_keys (PDict (said x)) = sort_keys (PDict (said y))"
    using assms by (simp add: event_digest_of_def sha256_json_inject del: sort_keys.simps)
  then show ?thesis unfolding dget_sorted [symmetric] by simp
qed

lemma text_of_sort_keys: "text_of (sort_keys v) = text_of v"
  by (cases v) auto

interpretation life_log: event_chain "\<lambda>e. nat (lv_seq e)" event_prev lv_hash "event_digest_of sha" "\<lambda>h e. e\<lparr>lv_hash := h\<rparr>" "inj sha"
  for sha
proof
  fix x y :: life_event
  assume "inj sha" and "event_digest_of sha x = event_digest_of sha y"
  from digest_same [OF this, of "''previous_hash''"] show "event_prev x = event_prev y"
    unfolding event_prev_def by (metis text_of_sort_keys)
qed (simp_all add: event_prev_def event_digest_of_def said_seal)

lemma said_dget: "k \<notin> {''record_hash'', ''record_mac''} \<Longrightarrow> dget k (said e) = dget k (life_event_dict e)"
  by (simp add: said_def)

lemma clean_log_chain:
  assumes "log_clean env es"
  shows "map lv_seq es = map int [1..<Suc (length es)] \<and>
    chain_from (\<lambda>e. nat (lv_seq e)) event_prev lv_hash (event_digest_of (le_sha env)) life_genesis 1 es"
  using assms
proof (induction es rule: rev_induct)
  case (snoc x es)
  then have IH: "map lv_seq es = map int [1..<Suc (length es)]"
    "chain_from (\<lambda>e. nat (lv_seq e)) event_prev lv_hash (event_digest_of (le_sha env)) life_genesis 1 es"
    and ev: "event_errors env (log_head es) (if es = [] then 1 else lv_seq (last es) + 1) (seen_of es) x = Inr []"
    by (simp_all add: log_clean_snoc_iff)
  have "lv_seq (last es) = int (length es)" if "es \<noteq> []"
  proof -
    have "lv_seq (last es) = last (map lv_seq es)" using that by (simp add: last_map)
    then show ?thesis unfolding IH(1) using that by (simp add: last_map Suc_le_eq)
  qed
  moreover note event_errors_Nil(5) [OF ev]
  ultimately have seq: "lv_seq x = int (length es) + 1" and prev: "dget ''previous_hash'' (lv_scalars x) = PStr (log_head es)"
    and hash: "lv_hash x = event_digest_of (le_sha env) x"
    by (auto simp: seal_errors_def py_eq_PStr event_digest_of_def said_def life_hash_def split: if_splits)
  have "\<not> \<not> py_eq (dget ''previous_hash'' (life_event_dict x)) (dget ''previous_hash'' (lv_scalars x))"
    using event_errors_Nil(1) [OF ev] by (auto simp: column_errors_def scalar_columns_def)
  then have "event_prev x = log_head es" by (simp add: prev py_eq_PStr event_prev_def said_dget)
  then show ?case
    using IH seq hash by (simp add: chain_from_snoc chain_head_last log_head_def nat_add_distrib)
qed simp

text \<open>
  C29. With a digest without collisions, two lifecycle stores (of the shape every reachable store
  has) that verify, have equally many events and the same head hash hold the same events: every
  field an event says is the same, up to the order of keys.
\<close>

theorem life_head_identifies_log:
  assumes "inj (le_sha env)" and "le_sha env' = le_sha env" and "life_wf (le_sha env) db" and "life_wf (le_sha env) db'"
    and "store_valid env db" and "store_valid env' db'"
    and "length (ld_events db) = length (ld_events db')" and "head_hash db = head_hash db'"
  shows "list_all2 (\<lambda>x y. \<forall>k. sort_keys (dget k (said x)) = sort_keys (dget k (said y))) (ld_events db) (ld_events db')"
proof -
  have "log_clean env (ld_events db)" using assms(5) by (simp add: store_valid_iff [OF assms(3)])
  moreover have "log_clean env' (ld_events db')" using assms(4,6) by (simp add: store_valid_iff assms(2))
  moreover have "chain_head lv_hash life_genesis (ld_events db) = chain_head lv_hash life_genesis (ld_events db')"
    using assms(8) by (simp add: chain_head_last life_wf_events(3) [OF assms(3)] life_wf_events(3) [OF assms(4)])
  ultimately have "list_all2 (\<lambda>x y. event_digest_of (le_sha env) x = event_digest_of (le_sha env) y \<and> lv_hash x = lv_hash y)
      (ld_events db) (ld_events db')"
    using clean_log_chain [of env "ld_events db"] clean_log_chain [of env' "ld_events db'"] assms(2,7)
    by (intro life_log.head_commits [OF assms(1)]) auto
  then show ?thesis by (rule list_all2_mono) (blast intro: digest_same [OF assms(1)])
qed

definition plain_env :: life_env where
  "plain_env = demo_env\<lparr>le_sha := (\<lambda>s. s)\<rparr>"

lemma plain_opened: "\<exists>db. life_initialize plain_env demo_case None None empty_store = Inr (db, None)"
proof -
  have "case life_initialize plain_env demo_case None None empty_store of Inr (_, None) \<Rightarrow> True | _ \<Rightarrow> False" by code_simp
  then show ?thesis by (auto split: sum.splits prod.splits option.splits)
qed

theorem life_head_identifies_log_witness:
  "\<exists>db. ld_events db \<noteq> [] \<and> store_valid plain_env db \<and>
     list_all2 (\<lambda>x y. \<forall>k. sort_keys (dget k (said x)) = sort_keys (dget k (said y))) (ld_events db) (ld_events db)"
proof -
  obtain db where tx: "life_initialize plain_env demo_case None None empty_store = Inr (db, None)" using plain_opened by blast
  have sha: "inj (le_sha plain_env)" by (simp add: plain_env_def inj_def)
  have wf: "life_wf (le_sha plain_env) empty_store" unfolding empty_store_def by (rule life_wf_empty)
  have wf': "life_wf (le_sha plain_env) db" by (rule life_wf_initialize [OF wf refl tx])
  have "store_valid plain_env empty_store"
    unfolding store_valid_iff [OF wf] by (simp add: empty_store_def plain_env_def demo_env_def log_clean_def log_head_def)
  then have valid: "store_valid plain_env db" by (rule initialize_keeps_valid [OF wf _ _ tx]) (simp add: demo_case_def)
  have "life_write (le_sha plain_env) empty_store db" by (rule life_write.opened [OF refl tx])
  then have "ld_events db \<noteq> []" by (rule write_appends) simp
  with valid life_head_identifies_log [OF sha refl wf' wf' valid valid refl refl] show ?thesis by blast
qed

end
