(* ===== verification/Py_Dyn.thy ===== *)
theory Py_Dyn
  imports Py_Value
begin

text \<open>
  Operations on values of unknown type, as the record validators of the toolkit use them: every
  operation raises on the values Python raises on. A validator is a sequence of checks, each of
  which reports errors or raises; \<open>errs\<close> runs them in order.
\<close>

section \<open>Sequences of checks\<close>

fun errs :: "string list res list \<Rightarrow> string list res" where
  "errs [] = Inr []"
| "errs (r # rs) = bind_res r (\<lambda>e. bind_res (errs rs) (\<lambda>es. Inr (e @ es)))"

text \<open>\<open>sorted(set(errors))\<close> at the end of a validator.\<close>

definition sorted_errs :: "string list res list \<Rightarrow> string list res" where
  "sorted_errs rs = bind_res (errs rs) (\<lambda>es. Inr (sorted_set es))"

definition says :: "bool \<Rightarrow> string \<Rightarrow> string list res" where
  "says b e = Inr (err_if b e)"

definition says_res :: "bool res \<Rightarrow> string \<Rightarrow> string list res" where
  "says_res b e = bind_res b (\<lambda>x. Inr (err_if x e))"

lemma says_Nil [simp]: "says b e = Inr [] \<longleftrightarrow> \<not> b"
  by (simp add: says_def)

lemma says_res_Nil [simp]: "says_res b e = Inr [] \<longleftrightarrow> b = Inr False"
  by (auto simp: says_res_def bind_res_Inr)

lemma errs_Nil: "errs rs = Inr [] \<longleftrightarrow> (\<forall>r \<in> set rs. r = Inr [])"
  by (induction rs) (auto simp: bind_res_Inr)

lemma errs_append: "errs (rs @ qs) = bind_res (errs rs) (\<lambda>e. bind_res (errs qs) (\<lambda>f. Inr (e @ f)))"
proof (induction rs)
  case (Cons r rs)
  then show ?case by (cases r; cases "errs rs"; cases "errs qs") simp_all
qed (cases "errs qs"; simp)

text \<open>No complaint is the absence of a complaint in every check.\<close>

lemma sorted_errs_Nil: "sorted_errs rs = Inr [] \<longleftrightarrow> (\<forall>r \<in> set rs. r = Inr [])"
  by (auto simp: sorted_errs_def bind_res_Inr errs_Nil)

lemma sorted_errs_Nil_Cons [simp]: "sorted_errs (r # rs) = Inr [] \<longleftrightarrow> r = Inr [] \<and> sorted_errs rs = Inr []"
  by (simp add: sorted_errs_Nil)

lemma sorted_errs_Nil_empty [simp]: "sorted_errs [] = Inr []"
  by (simp add: sorted_errs_def)

lemma sorted_errs_sorted: "sorted_errs rs = Inr es \<Longrightarrow> sorted es \<and> distinct es"
  by (auto simp: sorted_errs_def bind_res_Inr)

section \<open>Values of unknown type\<close>

text \<open>\<open>v.get(k)\<close> and \<open>v.get(k, dflt)\<close>.\<close>

definition dict_get :: "string \<Rightarrow> pyval \<Rightarrow> pyval res" where
  "dict_get k v = (case v of PDict d \<Rightarrow> Inr (dget k d) | _ \<Rightarrow> Inl (AttributeError ''get''))"

definition dict_get_default :: "string \<Rightarrow> pyval \<Rightarrow> pyval \<Rightarrow> pyval res" where
  "dict_get_default k dflt v = (case v of PDict d \<Rightarrow> Inr (dget_default k dflt d) | _ \<Rightarrow> Inl (AttributeError ''get''))"

text \<open>\<open>v or \<open>{}\<close>\<close>, \<open>v or []\<close> and \<open>v or ''\<close>.\<close>

definition or_dict :: "pyval \<Rightarrow> pyval" where
  "or_dict v = py_or v (PDict [])"

definition or_list :: "pyval \<Rightarrow> pyval" where
  "or_list v = py_or v (PList [])"

definition or_text :: "pyval \<Rightarrow> string" where
  "or_text v = py_str (py_or v (PStr []))"

text \<open>\<open>(v or \<open>{}\<close>).get(k)\<close>, the step of every walk through nested options.\<close>

definition sub_get :: "string \<Rightarrow> pyval \<Rightarrow> pyval res" where
  "sub_get k v = dict_get k (or_dict v)"

fun is_list :: "pyval \<Rightarrow> bool" where
  "is_list (PList _) = True"
| "is_list _ = False"

fun is_bool :: "pyval \<Rightarrow> bool" where
  "is_bool (PBool _) = True"
| "is_bool _ = False"

text \<open>\<open>isinstance(v, int)\<close>, which holds of \<open>True\<close> and \<open>False\<close> too, with the number.\<close>

fun int_value :: "pyval \<Rightarrow> int option" where
  "int_value (PInt i) = Some i"
| "int_value (PBool b) = Some (if b then 1 else 0)"
| "int_value _ = None"

definition below :: "pyval \<Rightarrow> int \<Rightarrow> bool" where
  "below v n \<longleftrightarrow> (case int_value v of None \<Rightarrow> True | Some i \<Rightarrow> i < n)"

text \<open>\<open>v in (a, b, \<dots>)\<close>: equality, no hashing.\<close>

definition one_of :: "pyval \<Rightarrow> pyval list \<Rightarrow> bool" where
  "one_of v vs \<longleftrightarrow> (\<exists>w \<in> set vs. py_eq v w)"

definition non_empty_list :: "pyval \<Rightarrow> bool" where
  "non_empty_list v \<longleftrightarrow> is_list v \<and> truthy v"

definition non_empty_dict :: "pyval \<Rightarrow> bool" where
  "non_empty_dict v \<longleftrightarrow> is_dict v \<and> truthy v"

definition blank :: "pyval \<Rightarrow> bool" where
  "blank v \<longleftrightarrow> str_strip (or_text v) = []"

definition exact_digest :: "pyval \<Rightarrow> bool" where
  "exact_digest v \<longleftrightarrow> digest_text (or_text v)"

text \<open>\<open>[str(x) for x in v]\<close> and \<open>\<open>{str(x).upper() for x in v}\<close>\<close>.\<close>

definition str_items :: "pyval \<Rightarrow> string list res" where
  "str_items v = bind_res (py_list v) (\<lambda>vs. Inr (map py_str vs))"

definition upper_items :: "pyval \<Rightarrow> string list res" where
  "upper_items v = bind_res (py_list v) (\<lambda>vs. Inr (map (\<lambda>x. str_upper (py_str x)) vs))"

text \<open>\<open>name in set(v or [])\<close> for a name.\<close>

definition has_name :: "string \<Rightarrow> pyval \<Rightarrow> bool res" where
  "has_name name v = bind_res (py_set v) (\<lambda>vs. Inr (PStr name \<in> set vs))"

text \<open>\<open>sorted(a - b)\<close> on texts, and \<open>', '.join\<close>.\<close>

definition minus_names :: "string list \<Rightarrow> string list \<Rightarrow> string list" where
  "minus_names xs ys = sorted_set (filter (\<lambda>x. x \<notin> set ys) xs)"

definition commas :: "string list \<Rightarrow> string" where
  "commas xs = join_with '', '' xs"

lemma minus_names_Nil [simp]: "minus_names xs ys = [] \<longleftrightarrow> set xs \<subseteq> set ys"
  by (auto simp: minus_names_def filter_empty_conv)

definition guarded :: "bool \<Rightarrow> string list res \<Rightarrow> string list res" where
  "guarded b r = (if b then r else Inr [])"

lemma guarded_Nil [simp]: "guarded b r = Inr [] \<longleftrightarrow> (b \<longrightarrow> r = Inr [])"
  by (simp add: guarded_def)

fun enumerate_from :: "nat \<Rightarrow> 'a list \<Rightarrow> (nat \<times> 'a) list" where
  "enumerate_from n [] = []"
| "enumerate_from n (x # xs) = (n, x) # enumerate_from (Suc n) xs"

definition index_text :: "nat \<Rightarrow> string" where
  "index_text n = nat_str n"

end
