(* ===== verification/Delivery_Model.thy ===== *)
theory Delivery_Model
  imports Py_Dyn
begin

text \<open>
  \<open>toolkit/ztad/delivery_model.py\<close>: the delivery model of a repository is derived from the marker
  files of its source tree, with a proof that lists the markers and the digests of their contents.
  The source tree is a map from relative paths to what is found there; it is \<open>None\<close> when the root
  is a symbolic link or not a directory.
\<close>

section \<open>Source trees\<close>

datatype tree_node = Regular string | Directory | Symlink

type_synonym source_tree = "string \<Rightarrow> tree_node option"

definition package_markers :: "string list" where
  "package_markers = [''.codex-plugin/plugin.json'', ''toolkit/pyproject.toml'', ''scripts/ztad.py'']"

definition runtime_markers :: "string list" where
  "runtime_markers = [''DEPLOYMENT.md'', ''infra/docs/runbook.md'', ''.github/workflows/deploy.yml'', ''Dockerfile'',
     ''docker-compose.yml'', ''docker-compose.yaml'', ''kubernetes'', ''k8s'', ''helm'', ''terraform'']"

definition delivery_model_names :: "string list" where
  "delivery_model_names = [''PACKAGE_OR_PLUGIN'', ''HOSTED_RUNTIME_SERVICE'', ''HYBRID'']"

definition regular_file :: "source_tree \<Rightarrow> string \<Rightarrow> string option" where
  "regular_file tree path = (case tree path of Some (Regular content) \<Rightarrow> Some content | _ \<Rightarrow> None)"

definition is_directory :: "source_tree \<Rightarrow> string \<Rightarrow> bool" where
  "is_directory tree path \<longleftrightarrow> tree path = Some Directory"

definition marker_digests :: "(string \<Rightarrow> string) \<Rightarrow> source_tree \<Rightarrow> string list \<Rightarrow> pydict" where
  "marker_digests sha tree markers =
     concat (map (\<lambda>m. case regular_file tree m of None \<Rightarrow> [] | Some c \<Rightarrow> [(m, PStr (sha256_bytes sha c))])
       (sort markers))"

section \<open>Derivation\<close>

record delivery_result =
  dr_model :: string
  dr_proof :: pydict
  dr_digest :: string
  dr_errors :: "string list"

definition proof_format :: string where
  "proof_format = ''source-of-truth-marker-set-v1''"

definition model_of_markers :: "bool \<Rightarrow> bool \<Rightarrow> string" where
  "model_of_markers package runtime =
     (if package \<and> runtime then ''HYBRID'' else if package then ''PACKAGE_OR_PLUGIN''
      else if runtime then ''HOSTED_RUNTIME_SERVICE'' else ''UNDETERMINED'')"

definition found_package :: "source_tree \<Rightarrow> string list" where
  "found_package tree = filter (\<lambda>m. regular_file tree m \<noteq> None) package_markers"

definition found_runtime :: "source_tree \<Rightarrow> string list" where
  "found_runtime tree = filter (\<lambda>m. regular_file tree m \<noteq> None \<or> is_directory tree m) runtime_markers"

definition marker_proof :: "(string \<Rightarrow> string) \<Rightarrow> source_tree \<Rightarrow> pydict" where
  "marker_proof sha tree =
     [(''proof_format'', PStr proof_format),
      (''package_markers'', PList (map PStr (sort (found_package tree)))),
      (''package_marker_digests'', PDict (marker_digests sha tree (found_package tree))),
      (''runtime_markers'', PList (map PStr (sort (found_runtime tree)))),
      (''runtime_marker_digests'', PDict (marker_digests sha tree (found_runtime tree))),
      (''package_markers_complete'', PBool (set (found_package tree) = set package_markers)),
      (''runtime_markers_present'', PBool (found_runtime tree \<noteq> [])),
      (''derivation'', PStr proof_format)]"

definition derive_delivery_model :: "(string \<Rightarrow> string) \<Rightarrow> source_tree option \<Rightarrow> delivery_result" where
  "derive_delivery_model sha root =
     (case root of
        None \<Rightarrow>
          (let p = [(''proof_format'', PStr proof_format), (''package_markers'', PList []), (''runtime_markers'', PList [])]
           in \<lparr>dr_model = ''UNDETERMINED'', dr_proof = p, dr_digest = sha256_json sha (PDict p),
               dr_errors = [''Repository source tree is unavailable'']\<rparr>)
      | Some tree \<Rightarrow>
          (let model = model_of_markers (set (found_package tree) = set package_markers) (found_runtime tree \<noteq> []);
               p = marker_proof sha tree
           in \<lparr>dr_model = model, dr_proof = p, dr_digest = sha256_json sha (PDict p),
               dr_errors = err_if (model = ''UNDETERMINED'')
                 ''Repository has no supported package or runtime delivery markers''\<rparr>))"

section \<open>Validation\<close>

text \<open>The root is \<open>None\<close> when the caller has none, and \<open>Some None\<close> when there is no readable tree at it.\<close>

definition validate_delivery_model ::
  "(string \<Rightarrow> string) \<Rightarrow> source_tree option option \<Rightarrow> string option \<Rightarrow> pydict option \<Rightarrow> pyval \<Rightarrow> string list" where
  "validate_delivery_model sha root model prf digest =
     (case model of
        None \<Rightarrow> []
      | Some m \<Rightarrow>
          if m \<notin> set delivery_model_names then [''Unsupported delivery model: '' @ m]
          else (case root of
            None \<Rightarrow> [''Delivery model validation requires the repository source tree'']
          | Some tree \<Rightarrow>
              (let detected = derive_delivery_model sha tree in
               sorted_set (dr_errors detected @
                 err_if (dr_model detected \<noteq> m) (''Delivery model does not match repository source of truth: recorded='' @ m @
                   '', detected='' @ dr_model detected) @
                 err_if (digest \<noteq> PNone \<and> \<not> py_eq digest (PStr (dr_digest detected)))
                   ''Delivery model proof digest does not match the repository source of truth'' @
                 err_if (case prf of None \<Rightarrow> False | Some p \<Rightarrow> \<not> py_eq (PDict p) (PDict (dr_proof detected)))
                   ''Delivery model proof does not match the repository source of truth''))))"

definition bad_marker_digests :: "pydict \<Rightarrow> string list" where
  "bad_marker_digests d = concat (map (\<lambda>(m, v). err_if (\<not> str_and digest_text v)
     (''Delivery model proof marker digest is invalid: '' @ m)) d)"

definition validate_delivery_model_proof ::
  "(string \<Rightarrow> string) \<Rightarrow> pyval \<Rightarrow> pyval \<Rightarrow> pyval \<Rightarrow> string list res" where
  "validate_delivery_model_proof sha model prf digest =
     bind_res (in_names model delivery_model_names) (\<lambda>supported.
     if \<not> supported then Inr [''Unsupported delivery model proof subject: '' @ py_str model]
     else case prf of
       PDict p \<Rightarrow>
         bind_res (str_items (or_list (dget ''package_markers'' p))) (\<lambda>package.
         bind_res (str_items (or_list (dget ''runtime_markers'' p))) (\<lambda>runtime.
           let complete = (set package = set package_markers); present = (runtime \<noteq> []);
               package_digests = as_dict (dget ''package_marker_digests'' p);
               runtime_digests = as_dict (dget ''runtime_marker_digests'' p);
               expected = model_of_markers complete present
           in Inr (sorted_set (
             err_if (\<not> py_eq (dget ''derivation'' p) (PStr proof_format)) ''Delivery model proof uses an unsupported derivation'' @
             err_if (\<not> py_eq digest (PStr (sha256_json sha (PDict p)))) ''Delivery model proof digest does not match the proof content'' @
             err_if (\<not> set package \<subseteq> set package_markers) ''Delivery model proof contains an unknown package marker'' @
             err_if (\<not> set runtime \<subseteq> set runtime_markers) ''Delivery model proof contains an unknown runtime marker'' @
             err_if (dget ''package_markers_complete'' p \<noteq> PBool complete)
               ''Delivery model proof package completeness flag is inconsistent'' @
             err_if (dget ''runtime_markers_present'' p \<noteq> PBool present)
               ''Delivery model proof runtime presence flag is inconsistent'' @
             err_if (set (dkeys package_digests) \<noteq> set package)
               ''Delivery model proof package marker digests are incomplete or extra'' @
             err_if (set (dkeys runtime_digests) \<noteq> set runtime)
               ''Delivery model proof runtime marker digests are incomplete or extra'' @
             bad_marker_digests (dict_merge package_digests runtime_digests) @
             err_if (\<not> py_eq (PStr expected) model)
               (''Delivery model proof contradicts its model: recorded='' @ py_str model @ '', derived='' @ expected)))))
     | _ \<Rightarrow> Inr [''Delivery model proof must be an object''])"

section \<open>What validation accepts\<close>

lemma model_of_markers_simps:
  "model_of_markers p r = ''HYBRID'' \<longleftrightarrow> p \<and> r" "model_of_markers p r = ''PACKAGE_OR_PLUGIN'' \<longleftrightarrow> p \<and> \<not> r"
  "model_of_markers p r = ''HOSTED_RUNTIME_SERVICE'' \<longleftrightarrow> \<not> p \<and> r" "model_of_markers p r = ''UNDETERMINED'' \<longleftrightarrow> \<not> p \<and> \<not> r"
  by (simp_all add: model_of_markers_def)

lemma validate_delivery_model_Nil:
  "validate_delivery_model sha (Some root) (Some m) prf digest = [] \<longleftrightarrow>
     m \<in> set delivery_model_names \<and> dr_model (derive_delivery_model sha root) = m \<and>
     dr_errors (derive_delivery_model sha root) = [] \<and>
     (digest = PNone \<or> py_eq digest (PStr (dr_digest (derive_delivery_model sha root)))) \<and>
     (case prf of None \<Rightarrow> True | Some p \<Rightarrow> py_eq (PDict p) (PDict (dr_proof (derive_delivery_model sha root))))"
  by (auto simp: validate_delivery_model_def Let_def split: option.splits)

lemma derived_model:
  "dr_model (derive_delivery_model sha (Some tree)) =
     model_of_markers (set (found_package tree) = set package_markers) (found_runtime tree \<noteq> [])"
  by (simp add: derive_delivery_model_def Let_def)

end
