(* ===== verification/Bug_Policy.thy ===== *)
theory Bug_Policy
  imports Delivery_Model Risk
begin

text \<open>
  The policy side of \<open>toolkit/ztad/bug_protocol.py\<close>: the authoritative lifecycles, the validation of
  a repository policy against them, the derivation of risk classes and domains, the decision what
  to do after a failure, and the destinations of test messages.
\<close>

section \<open>Lifecycles\<close>

definition authoritative_lifecycle :: "string list" where
  "authoritative_lifecycle = [''UNVERIFIED_REPORT'', ''SOURCE_OF_TRUTH_RESOLVED'', ''ISSUE_CLASSIFIED'',
     ''BUG_REPRODUCED'', ''ROOT_CAUSE_PROVEN'', ''BLAST_RADIUS_MAPPED'', ''CHANGE_PLANNED'', ''PATCH_IMPLEMENTED'',
     ''REGRESSION_TEST_PROVEN'', ''TARGETED_VALIDATION_PASS'', ''REGRESSION_VALIDATION_PASS'', ''DIFF_FORENSICS_PASS'',
     ''INDEPENDENT_REVIEW_PASS'', ''CI_PASS'', ''STAGING_PASS'', ''READY_FOR_OWNER_RELEASE'', ''PRODUCTION_RELEASED'',
     ''POST_DEPLOY_VERIFIED'', ''CLOSED'']"

definition common_lifecycle :: "string list" where
  "common_lifecycle = takeWhile (\<lambda>s. s \<noteq> ''CI_PASS'') authoritative_lifecycle @ [''CI_PASS'']"

definition package_lifecycle_states :: "string list" where
  "package_lifecycle_states = [''PACKAGE_RELEASED'', ''RELEASE_ARTIFACT_VERIFIED'', ''CONSUMER_VALIDATION_PASS'']"

definition package_lifecycle :: "string list" where
  "package_lifecycle = common_lifecycle @ package_lifecycle_states @ [''CLOSED'']"

definition hybrid_lifecycle :: "string list" where
  "hybrid_lifecycle = common_lifecycle @ package_lifecycle_states @
     [''STAGING_PASS'', ''READY_FOR_OWNER_RELEASE'', ''PRODUCTION_RELEASED'', ''POST_DEPLOY_VERIFIED'', ''CLOSED'']"

definition delivery_lifecycle :: "string \<Rightarrow> string list" where
  "delivery_lifecycle model =
     (if model = ''PACKAGE_OR_PLUGIN'' then package_lifecycle
      else if model = ''HYBRID'' then hybrid_lifecycle else authoritative_lifecycle)"

definition lifecycle_edges :: "(string \<times> string) list" where
  "lifecycle_edges = zip authoritative_lifecycle (tl authoritative_lifecycle)"

definition classifications :: "string list" where
  "classifications = [''CONFIRMED_BUG'', ''EXPECTED_BEHAVIOR'', ''ENVIRONMENT_ISSUE'', ''CONFIGURATION_ISSUE'',
     ''DATA_ISSUE'', ''EXTERNAL_DEPENDENCY'', ''USER_WORKFLOW_ISSUE'', ''SPEC_CONFLICT'', ''SECURITY_INCIDENT'',
     ''PERFORMANCE_REGRESSION'', ''INCONCLUSIVE'']"

definition implementation_classifications :: "string list" where
  "implementation_classifications =
     [''CONFIRMED_BUG'', ''CONFIGURATION_ISSUE'', ''SECURITY_INCIDENT'', ''PERFORMANCE_REGRESSION'']"

definition non_code_classifications :: "string list" where
  "non_code_classifications = filter (\<lambda>c. c \<notin> set implementation_classifications) classifications"

definition risk_class_order :: "(string \<times> int) list" where
  "risk_class_order = [(''LOW'', 0), (''MEDIUM'', 1), (''HIGH'', 2), (''CRITICAL'', 3)]"

definition high_risk_domains :: "string list" where
  "high_risk_domains = [''DATABASE'', ''AUTH_TENANT'', ''FINANCIAL'', ''ZATCA'', ''PROVIDER'', ''CONCURRENCY'', ''SECURITY'']"

definition known_domains :: "string list" where
  "known_domains = ''GENERAL'' # high_risk_domains"

definition domain_markers :: "(string \<times> string list) list" where
  "domain_markers =
     [(''DATABASE'', [''database'', ''migration'', ''rls'', ''tenant filter'', ''backfill'', ''database schema'']),
      (''AUTH_TENANT'', [''auth'', ''rbac'', ''authorization'', ''tenant'', ''permission'', ''id tampering'']),
      (''FINANCIAL'', [''payment'', ''invoice'', ''ledger'', ''financial'', ''vat'', ''refund'']),
      (''ZATCA'', [''zatca'', ''clearance'', ''reporting'', ''signed xml'', ''tax invoice'']),
      (''PROVIDER'', [''provider'', ''webhook'', ''reconciliation'', ''sandbox'', ''external integration'']),
      (''CONCURRENCY'', [''concurrency'', ''race'', ''parallel'', ''idempotency'', ''duplicate request'', ''lock'']),
      (''SECURITY'', [''security incident'', ''secret'', ''pii'', ''data leak'', ''encryption'', ''kms'', ''fail-open''])]"

section \<open>The policy keeps the lifecycle\<close>

text \<open>\<open>name in set(transitions.get(state) or [])\<close>.\<close>

definition declared_edge :: "pyval \<Rightarrow> string \<Rightarrow> string \<Rightarrow> bool res" where
  "declared_edge transitions a b = bind_res (dict_get a transitions) (has_name b)"

definition needs_edge :: "pyval \<Rightarrow> string \<Rightarrow> string \<Rightarrow> string \<Rightarrow> string list res" where
  "needs_edge transitions a b e = bind_res (declared_edge transitions a b) (\<lambda>x. Inr (err_if (\<not> x) e))"

definition policy_states :: "pydict \<Rightarrow> string list res" where
  "policy_states policy = str_items (or_list (dget ''states'' policy))"

definition validate_authoritative_lifecycle_policy :: "pydict \<Rightarrow> string list res" where
  "validate_authoritative_lifecycle_policy policy =
     bind_res (policy_states policy) (\<lambda>states.
       let transitions = or_dict (dget ''transitions'' policy); missing = minus_names package_lifecycle_states states in
       sorted_errs
        ([says (take (length authoritative_lifecycle) states \<noteq> authoritative_lifecycle)
            ''Authoritative lifecycle order is not exact''] @
         map (\<lambda>(a, b). needs_edge transitions a b (''Authoritative lifecycle transition '' @ a @ '' -> '' @ b @ '' is missing''))
           lifecycle_edges @
         [says_res (bind_res (dict_get ''CLOSED'' transitions) (\<lambda>v. bind_res (py_set v) (\<lambda>xs. Inr (xs \<noteq> []))))
            ''CLOSED must have no outgoing authoritative lifecycle transition'',
          says (missing \<noteq> []) (''Package lifecycle is missing states: '' @ commas missing)] @
         map (\<lambda>(a, b). needs_edge transitions a b (''Package lifecycle transition '' @ a @ '' -> '' @ b @ '' is missing''))
           [(''CI_PASS'', ''PACKAGE_RELEASED''), (''PACKAGE_RELEASED'', ''RELEASE_ARTIFACT_VERIFIED''),
            (''RELEASE_ARTIFACT_VERIFIED'', ''CONSUMER_VALIDATION_PASS'')] @
         [needs_edge transitions ''CONSUMER_VALIDATION_PASS'' ''CLOSED''
            ''Package lifecycle must retain CONSUMER_VALIDATION_PASS -> CLOSED'']))"

section \<open>Foundational invariants of a policy\<close>

definition exact_class :: "pydict \<Rightarrow> string \<Rightarrow> string \<Rightarrow> string \<Rightarrow> string list res" where
  "exact_class classes name level e =
     bind_res (py_set (dget name classes)) (\<lambda>xs. Inr (err_if (\<not> py_set_eq xs [PStr level]) e))"

definition class_errors :: "pydict \<Rightarrow> string list res list" where
  "class_errors policy =
     (let classes = as_dict (dget ''risk_classes'' policy) in
      [exact_class classes ''CRITICAL'' ''R4'' ''Policy must map R4 exactly to CRITICAL'',
       exact_class classes ''HIGH'' ''R3'' ''Policy must map R3 exactly to HIGH''])"

definition domain_profiles :: "pydict \<Rightarrow> pydict" where
  "domain_profiles policy = as_dict (dget ''domain_profiles'' policy)"

definition profile_errors_of :: "pydict \<Rightarrow> string \<Rightarrow> string list res" where
  "profile_errors_of profiles domain =
     (let profile = or_dict (py_or (dget domain profiles) (dget (str_upper domain) profiles)) in
      bind_res (dict_get ''minimum_risk_class'' profile) (\<lambda>minimum.
      bind_res (dict_get ''required_checks'' profile) (\<lambda>required.
        Inr (err_if (str_upper (or_text minimum) \<notin> {''HIGH'', ''CRITICAL''})
               (''Policy domain '' @ domain @ '' must retain a HIGH or CRITICAL minimum risk class'') @
             err_if (\<not> non_empty_list required) (''Policy domain '' @ domain @ '' must retain required checks'')))))"

definition security_checks :: "string list" where
  "security_checks = [''SECURITY_VALIDATION_PASSED'', ''SECRETS_SCAN_PASSED'', ''FAIL_CLOSED_BOUNDARY_PASSED'']"

definition domain_errors :: "pydict \<Rightarrow> string list res list" where
  "domain_errors policy =
     (let profiles = domain_profiles policy; missing = minus_names high_risk_domains (map str_upper (dkeys profiles)) in
      [says (missing \<noteq> []) (''Policy is missing mandatory domain profiles: '' @ commas missing)] @
      map (profile_errors_of profiles) (sort high_risk_domains) @
      [bind_res (sub_get ''required_checks'' (dget ''SECURITY'' profiles)) (\<lambda>v. bind_res (py_set v) (\<lambda>checks.
         Inr (err_if (\<not> set (map PStr security_checks) \<subseteq> set checks) ''Policy cannot remove mandatory SECURITY domain checks''))),
       bind_res (sub_get ''ROLLBACK_CLOSURE'' (dget ''gates'' policy)) (\<lambda>gate. bind_res (sub_get ''by_domain'' gate) (\<lambda>v.
       bind_res (py_set v) (\<lambda>ds.
         Inr (err_if (\<not> set high_risk_domains \<subseteq> set (map (\<lambda>d. str_upper (py_str d)) ds))
           ''Policy cannot remove mandatory rollback recovery domains''))))])"

definition hotfix_errors :: "pydict \<Rightarrow> string list res list" where
  "hotfix_errors policy =
     (let hotfix = as_dict (dget ''hotfix'' policy); chain = as_dict (dget ''artifact_chain'' policy) in
      [says (dget ''may_reduce_validation_breadth'' hotfix \<noteq> PBool False) ''Policy cannot weaken hotfix validation breadth'',
       says (dget ''may_skip_states'' hotfix \<noteq> PBool False) ''Policy cannot enable lifecycle state skipping'',
       says (dget ''build_once_promote_by_digest'' chain \<noteq> PBool True) ''Policy must require build-once promotion by digest'',
       says (dget ''mutable_tag_only'' chain \<noteq> PBool False \<or> dget ''rebuild_after_validation'' chain \<noteq> PBool False)
         ''Policy cannot permit mutable tags or rebuild-after-validation''])"

text \<open>Where a state of the lifecycle may lead.\<close>

definition permitted_next :: "string \<Rightarrow> string \<Rightarrow> string list" where
  "permitted_next state successor = [successor, ''BLOCKED''] @
     (if state = ''ISSUE_CLASSIFIED'' then [''RESOLVED_NO_CODE''] else []) @
     (if state \<in> {''PRODUCTION_RELEASED'', ''POST_DEPLOY_VERIFIED''} then [''ROLLBACK_REQUIRED''] else []) @
     (if state = ''CI_PASS'' then [''PACKAGE_RELEASED''] else [])"

definition within :: "pyval list \<Rightarrow> string list \<Rightarrow> bool" where
  "within xs names \<longleftrightarrow> set xs \<subseteq> set (map PStr names)"

definition package_permitted :: "(string \<times> string list) list" where
  "package_permitted =
     [(''PACKAGE_RELEASED'', [''RELEASE_ARTIFACT_VERIFIED'', ''BLOCKED'']),
      (''RELEASE_ARTIFACT_VERIFIED'', [''CONSUMER_VALIDATION_PASS'', ''BLOCKED'']),
      (''CONSUMER_VALIDATION_PASS'', [''CLOSED'', ''STAGING_PASS'', ''BLOCKED''])]"

definition skip_errors :: "pydict \<Rightarrow> string list res list" where
  "skip_errors policy =
     (let transitions = as_dict (dget ''transitions'' policy) in
      map (\<lambda>(a, b). bind_res (py_set (dget a transitions)) (\<lambda>actual.
          Inr (err_if (\<not> within actual (permitted_next a b)) (''Policy permits a lifecycle skip from '' @ a))))
        lifecycle_edges @
      [needs_edge (PDict transitions) ''ISSUE_CLASSIFIED'' ''RESOLVED_NO_CODE''
         ''Policy must retain ISSUE_CLASSIFIED -> RESOLVED_NO_CODE'',
       needs_edge (PDict transitions) ''ROLLBACK_REQUIRED'' ''CLOSED''
         ''Policy must retain ROLLBACK_REQUIRED -> CLOSED''] @
      map (\<lambda>(a, names). bind_res (py_set (dget a transitions)) (\<lambda>actual.
          Inr (err_if (\<not> within actual names \<or> \<not> (\<exists>n \<in> set names. n \<noteq> ''BLOCKED'' \<and> PStr n \<in> set actual))
            (''Policy permits an invalid package lifecycle transition from '' @ a))))
        package_permitted)"

definition model_lifecycle_errors :: "pydict \<Rightarrow> string \<Rightarrow> string list res" where
  "model_lifecycle_errors models model =
     bind_res (dict_get ''lifecycle'' (or_dict (py_or (dget model models) (dget (str_upper model) models)))) (\<lambda>v.
     bind_res (str_items (or_list v)) (\<lambda>lifecycle.
       Inr (err_if (lifecycle \<noteq> delivery_lifecycle model)
         (''Policy delivery lifecycle for '' @ model @ '' is not the canonical lifecycle''))))"

definition model_errors :: "pydict \<Rightarrow> string list res list" where
  "model_errors policy =
     (let models = as_dict (dget ''delivery_models'' policy);
          missing = minus_names delivery_model_names (map str_upper (dkeys models));
          forbidden = bind_res (sub_get ''forbidden_states'' (dget ''PACKAGE_OR_PLUGIN'' models)) py_set in
      [says (missing \<noteq> []) (''Policy is missing delivery model definitions: '' @ commas missing)] @
      map (model_lifecycle_errors models) (sort delivery_model_names) @
      [bind_res forbidden (\<lambda>xs. Inr (err_if (\<exists>s \<in> set package_lifecycle. PStr s \<in> set xs)
         ''Package delivery policy cannot forbid its own lifecycle states'')),
       bind_res forbidden (\<lambda>xs. Inr (err_if
         (\<not> set (map PStr [''STAGING_PASS'', ''PRODUCTION_RELEASED'', ''POST_DEPLOY_VERIFIED'', ''ROLLBACK_REQUIRED'']) \<subseteq> set xs)
         ''Package delivery policy must forbid runtime deployment and rollback states''))])"

definition exposure_errors :: "pydict \<Rightarrow> string list res list" where
  "exposure_errors policy =
     (let progressive = as_dict (dget ''progressive_exposure'' policy) in
      map (\<lambda>level. let configured = or_dict (dget level progressive) in
          bind_res (case configured of PDict d \<Rightarrow> py_set (dget ''required_evidence'' d) | _ \<Rightarrow> py_set configured) (\<lambda>required.
            Inr (err_if (PStr ''PROGRESSIVE_EXPOSURE_PLAN'' \<notin> set required)
              (''Policy progressive exposure for '' @ level @ '' is mandatory''))))
        [''HIGH'', ''CRITICAL''] @
      [bind_res (sub_get ''strategies'' (dget ''CRITICAL'' progressive)) (\<lambda>v. bind_res (py_set v) (\<lambda>xs.
         Inr (err_if (\<not> set (map PStr [''WRITE_GATE'', ''OWNER_STOP_CONDITION'']) \<subseteq> set xs)
           ''Critical progressive exposure must retain write gate and owner stop condition'')))])"

definition validate_policy_safety :: "pyval \<Rightarrow> string list res" where
  "validate_policy_safety v =
     (case v of
        PDict policy \<Rightarrow>
          bind_res (validate_authoritative_lifecycle_policy policy) (\<lambda>base.
          bind_res (policy_states policy) (\<lambda>declared.
            sorted_errs
             ([Inr base] @
              map (\<lambda>s. says (s \<notin> set declared) (''Policy is missing mandatory lifecycle state: '' @ s))
                (authoritative_lifecycle @ [''BLOCKED'', ''ROLLBACK_REQUIRED'', ''RESOLVED_NO_CODE'']) @
              map (\<lambda>s. says (s \<notin> set declared) (''Policy is missing mandatory package lifecycle state: '' @ s))
                package_lifecycle_states @
              class_errors policy @ domain_errors policy @ hotfix_errors policy @ skip_errors policy @
              model_errors policy @ exposure_errors policy)))
      | _ \<Rightarrow> Inr [''Authoritative bug policy must be an object''])"

section \<open>Risk classes and domains\<close>

definition risk_class_for_level :: "pyval \<Rightarrow> string option" where
  "risk_class_for_level level = (if level = PNone then None else map_of risk_to_class (str_upper (py_str level)))"

definition no_sources :: risk_sources where
  "no_sources = \<lparr>rs_previous = ''R0'', rs_requested = ''R0'', rs_contract = ''R0'', rs_path = ''R0'',
     rs_operation = ''R0'', rs_domain = ''R0'', rs_diff = ''R0'', rs_runtime = ''R0''\<rparr>"

definition critical_terms :: "string list" where
  "critical_terms = [''drop table'', ''drop column'', ''truncate'', ''payment'', ''ledger'', ''zatca'', ''kms'', ''secret'',
     ''production'', ''destructive'']"

definition high_terms :: "string list" where
  "high_terms = [''auth'', ''authorization'', ''tenant_isolation'', ''persistent_write'', ''provider_side_effect'',
     ''concurrency'', ''infrastructure'']"

definition escalation_terms :: "string \<Rightarrow> string list \<Rightarrow> pyval \<Rightarrow> string list res" where
  "escalation_terms level dflt policy =
     bind_res (dict_get level (dget_default ''deterministic_escalation'' (PDict []) (as_dict policy))) (\<lambda>v.
     bind_res (str_items (py_or v (PList (map PStr dflt)))) (\<lambda>ts. Inr (map str_lower ts)))"

definition mentions :: "string list \<Rightarrow> string \<Rightarrow> bool" where
  "mentions terms t \<longleftrightarrow> (\<exists>m \<in> set terms. is_infix m t)"

definition operation_level :: "string list \<Rightarrow> string list \<Rightarrow> string \<Rightarrow> string" where
  "operation_level critical high t = (if mentions critical t then ''R4'' else if mentions high t then ''R3'' else ''R0'')"

definition path_level :: "string list \<Rightarrow> string" where
  "path_level paths = (if \<exists>p \<in> set paths. starts_with ''migrations/'' p \<or> starts_with ''migration/'' p then ''R3'' else ''R0'')"

definition configured_level :: "pyval \<Rightarrow> string \<Rightarrow> string res" where
  "configured_level policy domain =
     (let profiles = as_dict (dget_default ''domain_profiles'' (PDict []) (as_dict policy)) in
      bind_res (dict_get ''minimum_risk_class'' (dget_default domain (PDict []) profiles)) (\<lambda>v.
        Inr (if str_upper (py_str (py_or v (PStr ''HIGH''))) = ''CRITICAL'' then ''R4'' else ''R3'')))"

text \<open>The paths come as the list of distinct paths in the order the code joins them.\<close>

definition derive_risk_class :: "pyval \<Rightarrow> pyval \<Rightarrow> string list \<Rightarrow> string \<Rightarrow> pyval \<Rightarrow> string res" where
  "derive_risk_class risk domains changed_paths operation_text policy =
     bind_res (upper_items domains) (\<lambda>normalized.
       let unknown = minus_names normalized known_domains; level = str_upper (py_str (py_or risk (PStr ''R0''))) in
       if unknown \<noteq> [] then Inl (ValueError (''Unknown risk domain: '' @ commas unknown))
       else if risk \<noteq> PNone \<and> \<not> known_risk (str_upper (py_str risk))
       then Inl (ValueError (''Unknown risk level: '' @ py_str risk))
       else
         let paths = uniq (map (\<lambda>p. str_lower (slashes p)) changed_paths);
             t = str_lower (join_with '' '' (operation_text # paths)) in
         bind_res (escalation_terms ''CRITICAL'' critical_terms policy) (\<lambda>critical.
         bind_res (escalation_terms ''HIGH'' high_terms policy) (\<lambda>high.
         bind_res (fold_res (\<lambda>d best. bind_res (configured_level policy d)
             (\<lambda>l. effective_risk (no_sources\<lparr>rs_requested := l, rs_domain := best\<rparr>)))
           (filter (\<lambda>d. d \<in> set high_risk_domains) (uniq normalized)) ''R0'') (\<lambda>domain.
         bind_res (effective_risk (no_sources\<lparr>rs_requested := if known_risk level then level else ''R0'',
             rs_path := path_level paths, rs_operation := operation_level critical high t, rs_domain := domain\<rparr>)) (\<lambda>l.
           Inr (the (map_of risk_to_class l)))))))"

fun leaf_text :: "pyval \<Rightarrow> string list" where
  "leaf_text PNone = []"
| "leaf_text (PList vs) = concat (map leaf_text vs)"
| "leaf_text (PDict d) = concat (map (\<lambda>(k, v). leaf_text v) d)"
| "leaf_text v = [py_str v]"

definition infer_domains :: "pyval \<Rightarrow> pyval \<Rightarrow> string list res" where
  "infer_domains case_value explicit =
     bind_res (upper_items explicit) (\<lambda>values.
       let unknown = minus_names values known_domains in
       if unknown \<noteq> [] then Inl (ValueError (''Unknown risk domain: '' @ commas unknown))
       else
         let t = str_lower (join_with '' '' (leaf_text (PDict (as_dict case_value))));
             inferred = map fst (filter (\<lambda>(_, ms). mentions ms t) domain_markers);
             result = (if values @ inferred = [] then [''GENERAL''] else values @ inferred)
         in Inr (sorted_set (if \<exists>d \<in> set result. d \<noteq> ''GENERAL'' then filter (\<lambda>d. d \<noteq> ''GENERAL'') result else result)))"

section \<open>After a failure\<close>

record continuation =
  cn_action :: string
  cn_continue :: bool
  cn_reason :: string

definition dependency_failures :: "string list" where
  "dependency_failures = [''MISSING_CREDENTIAL'', ''EXTERNAL_DEPENDENCY'', ''BUSINESS_DECISION_REQUIRED'',
     ''SERVICE_PERMISSION_MISSING'', ''ENVIRONMENT_NOT_PROVISIONED'']"

definition unsafe_failures :: "string list" where
  "unsafe_failures = [''POLICY_VIOLATION'', ''SECRET_EXPOSURE_ATTEMPT'', ''DESTRUCTIVE_UNREVERSIBLE'',
     ''EVIDENCE_FABRICATION'', ''CONTROL_PLANE_CORRUPTION'']"

definition transient_bug_failures :: "string list" where
  "transient_bug_failures = [''MODEL_PROVIDER_UNAVAILABLE'', ''MODEL_TIMEOUT'', ''MODEL_RATE_LIMIT'', ''CI_UNAVAILABLE'',
     ''NETWORK_TRANSIENT'']"

definition continuation_decision :: "string \<Rightarrow> bool \<Rightarrow> string option \<Rightarrow> string option \<Rightarrow> bool \<Rightarrow> continuation" where
  "continuation_decision failure_class exposed previous current material =
     (let failure = str_upper failure_class; go = (\<lambda>a r. \<lparr>cn_action = a, cn_continue = True, cn_reason = r\<rparr>) in
      if exposed then go ''ROLLBACK_REQUIRED'' ''production safety is not proven''
      else if failure \<in> set dependency_failures
      then go ''WAITING_EXTERNAL_DEPENDENCY'' ''external prerequisite is unavailable''
      else if failure \<in> set unsafe_failures then go ''QUARANTINE'' ''unsafe task is isolated''
      else if previous \<notin> {None, Some []} \<and> previous = current \<and> \<not> material
      then go ''AUTO_REPLAN'' ''identical retry strategy is prohibited''
      else if failure \<in> set transient_bug_failures then go ''AUTO_REPAIR'' ''bounded alternate execution may proceed''
      else go ''AUTO_REPLAN'' ''the failing strategy must change before retry'')"

text \<open>A run of 8 to 15 digits that is not part of a longer one; \<open>n\<close> digits precede the text.\<close>

fun phone_from :: "nat \<Rightarrow> string \<Rightarrow> bool" where
  "phone_from n [] = (8 \<le> n \<and> n \<le> 15)"
| "phone_from n (c # cs) = (if is_digit c then phone_from (Suc n) cs else (8 \<le> n \<and> n \<le> 15) \<or> phone_from 0 cs)"

definition validate_workshopos_message :: "string \<Rightarrow> pyval \<Rightarrow> bool \<Rightarrow> bool \<Rightarrow> string list" where
  "validate_workshopos_message recipient profile browser dummy =
     (let destinations = dget ''test_only_message_destinations'' (as_dict profile) in
      if \<not> non_empty_list destinations
      then [''WorkshopOS profile configuration must declare test_only_message_destinations'']
      else let allowed = map py_str (as_list destinations) in
        sorted_set
         (err_if (recipient \<notin> set allowed) ''WorkshopOS test messages may target only the configured test-only destination'' @
          err_if (phone_from 0 recipient \<and> recipient \<notin> set allowed) ''Unexpected phone destination is prohibited'' @
          err_if (browser \<and> \<not> dummy) ''WorkshopOS browser/E2E tests must use dummy data''))"

end
