(* ===== verification/Bug_Case.thy ===== *)
theory Bug_Case
  imports Bug_Policy
begin

text \<open>
  The validators of \<open>toolkit/ztad/bug_protocol.py\<close> for the investigation of a reported defect:
  its authoritative sources, classification, reproduction, root cause, blast radius and change
  plan, and the release sequence of a database change.
\<close>

section \<open>Sources\<close>

record source_scan =
  sc_seen :: "string list"
  sc_previous :: int
  sc_errors :: "string list"

definition positions :: "string list \<Rightarrow> (string \<times> int) list" where
  "positions names = rev (map (\<lambda>(i, n). (n, int i)) (enumerate_from 0 names))"

definition authority_name :: "string \<Rightarrow> string" where
  "authority_name a = (if a = ''TEST_EVIDENCE'' then ''TEST_BEHAVIOR''
     else if a = ''HISTORICAL_NON_AUTHORITY'' then ''REPORT_OR_PLAN'' else a)"

definition scan_source :: "(string \<times> int) list \<Rightarrow> nat \<Rightarrow> pyval \<Rightarrow> source_scan \<Rightarrow> source_scan" where
  "scan_source known i source st =
     (let at = ''authoritative_sources/'' @ index_text i in
      case source of
        PDict s \<Rightarrow>
          (let name = or_text (dget ''source'' s); authority = or_text (dget ''authority'' s);
               rank = map_of known (authority_name authority);
               weaker = (known \<noteq> [] \<and> (case rank of Some p \<Rightarrow> p < sc_previous st | None \<Rightarrow> False))
           in \<lparr>sc_seen = name # sc_seen st,
               sc_previous = (case rank of Some p \<Rightarrow> if weaker then sc_previous st else p | None \<Rightarrow> sc_previous st),
               sc_errors = sc_errors st @
                 err_if (name = []) (at @ '' source is required'') @
                 err_if (name \<in> set (sc_seen st)) (at @ '' duplicates source '' @ name) @
                 err_if (authority = []) (at @ '' authority is required'') @
                 err_if (known \<noteq> [] \<and> rank = None) (at @ '' authority is outside the declared hierarchy'') @
                 err_if weaker ''Authoritative source order is weaker than the declared hierarchy'' @
                 err_if (or_text (dget ''authority_reason'' s) = []) (at @ '' authority_reason is required'') @
                 err_if (''evidence_ref'' \<notin> set (dkeys s)) (at @ '' evidence_ref is required'')\<rparr>)
      | _ \<Rightarrow> st\<lparr>sc_errors := sc_errors st @ [at @ '' must be an object'']\<rparr>)"

fun first_index :: "'a \<Rightarrow> 'a list \<Rightarrow> nat" where
  "first_index x [] = 0"
| "first_index x (y # ys) = (if x = y then 0 else Suc (first_index x ys))"

definition hierarchy_errors :: "string list \<Rightarrow> pyval list \<Rightarrow> string list" where
  "hierarchy_errors hierarchy sources =
     (let actual = concat (map (\<lambda>s. case s of PDict d \<Rightarrow> [py_str (dget ''source'' d)] | _ \<Rightarrow> []) sources);
          missing = filter (\<lambda>h. h \<notin> set actual) hierarchy;
          order = map (\<lambda>h. first_index h actual) (filter (\<lambda>h. h \<in> set actual) hierarchy)
      in if hierarchy = [] then []
         else err_if (missing \<noteq> []) (''Canonical source hierarchy is incomplete: '' @ commas missing) @
              err_if (\<not> sorted order) ''Canonical source hierarchy order is not authoritative'')"

definition validate_authoritative_sources :: "pyval \<Rightarrow> pyval \<Rightarrow> pyval \<Rightarrow> pyval \<Rightarrow> string list res" where
  "validate_authoritative_sources sources conflicts hierarchy authority_order =
     bind_res (py_list sources) (\<lambda>source_list.
     bind_res (py_list conflicts) (\<lambda>conflict_list.
     bind_res (str_items authority_order) (\<lambda>order.
     bind_res (str_items hierarchy) (\<lambda>required.
       let scan = fold (\<lambda>(i, s) st. scan_source (positions order) i s st) (enumerate_from 0 source_list)
             \<lparr>sc_seen = [], sc_previous = -1, sc_errors = []\<rparr>
       in Inr (sorted_set (
            err_if (conflict_list \<noteq> []) ''BLOCKED: SOURCE_CONFLICT'' @
            err_if (source_list = []) ''authoritative_sources is required'' @
            sc_errors scan @ hierarchy_errors required source_list))))))"

section \<open>Classification, reproduction and root cause\<close>

definition classification_fields :: "string list" where
  "classification_fields = [''evidence'', ''reproduction_status'', ''authoritative_expected_behavior'',
     ''competing_explanations_tested'', ''environment_findings'', ''unresolved_ambiguities'', ''source_conflicts'',
     ''implementation_justified'']"

definition classification_record_errors :: "bool \<Rightarrow> bool \<Rightarrow> pydict \<Rightarrow> string list res" where
  "classification_record_errors implementation non_code r =
     bind_res (in_names (dget ''reproduction_status'' r) [''NOT_ATTEMPTED'', ''NOT_REPRODUCED'', ''REPRODUCED'', ''INCONCLUSIVE''])
       (\<lambda>status. Inr (
         concat (map (\<lambda>f. err_if (f \<notin> set (dkeys r)) (''classification_record.'' @ f @ '' is required'')) classification_fields) @
         err_if (\<not> non_empty_list (dget ''evidence'' r)) ''classification_record.evidence must be a non-empty array'' @
         err_if (\<not> status) ''classification_record.reproduction_status is invalid'' @
         concat (map (\<lambda>f. err_if (\<not> is_list (dget f r)) (''classification_record.'' @ f @ '' must be an array''))
           [''competing_explanations_tested'', ''environment_findings'', ''unresolved_ambiguities'', ''source_conflicts'']) @
         err_if (\<not> is_bool (dget ''implementation_justified'' r)) ''classification_record.implementation_justified must be boolean'' @
         err_if (implementation \<and> dget ''implementation_justified'' r \<noteq> PBool True)
           ''implementation classification requires implementation_justified=true'' @
         err_if (non_code \<and> dget ''implementation_justified'' r = PBool True)
           ''non-code classification cannot claim implementation is justified''))"

definition validate_classification_record :: "pydict \<Rightarrow> string list res" where
  "validate_classification_record c =
     (let classification = dget ''classification'' c in
      bind_res (in_names classification classifications) (\<lambda>supported.
      bind_res (in_names classification implementation_classifications) (\<lambda>implementation.
      bind_res (in_names classification non_code_classifications) (\<lambda>non_code.
        sorted_errs
         [says (\<not> supported) (''Unsupported classification: '' @ py_str classification),
          says (\<not> truthy (dget ''classification_evidence'' c)) ''classification evidence is required'',
          (case dget ''classification_record'' c of
             PDict r \<Rightarrow> classification_record_errors implementation non_code r
           | _ \<Rightarrow> Inr [''classification_record is mandatory and must be an object'']),
          says (implementation \<and> \<not> truthy (dget ''expected_behavior'' c))
            ''implementation classification requires claimed or authoritative expected behavior'']))))"

definition validate_reproduction :: "pyval \<Rightarrow> string list" where
  "validate_reproduction v =
     (case v of
        PDict r \<Rightarrow> sorted_set (
          concat (map (\<lambda>f. err_if (\<not> truthy (dget f r)) (''reproduction.'' @ f @ '' is required''))
            [''preconditions'', ''action'', ''expected'', ''actual'', ''environment'', ''evidence_refs'']) @
          (if dget ''deterministic'' r = PBool False then
             err_if (below (dget ''repetition_count'' r) 2) ''nondeterministic reproduction requires repetition_count >= 2'' @
             err_if (\<not> truthy (dget ''observed_frequency'' r)) ''nondeterministic reproduction requires observed_frequency'' @
             err_if (\<not> truthy (dget ''timing_conditions'' r)) ''nondeterministic reproduction requires timing_conditions''
           else []) @
          err_if (\<not> truthy (dget ''affected_component'' r)) ''reproduction.affected_component is required'')
      | _ \<Rightarrow> [''BUG_REPRODUCED requires a reproduction record''])"

definition tested_hypothesis :: "pyval \<Rightarrow> bool" where
  "tested_hypothesis v \<longleftrightarrow> (case v of
     PDict h \<Rightarrow> truthy (dget ''hypothesis'' h) \<and> truthy (dget ''test'' h) \<and> truthy (dget ''result'' h) | _ \<Rightarrow> False)"

definition validate_root_cause :: "pydict \<Rightarrow> string list" where
  "validate_root_cause c =
     (case dget ''root_cause'' c of
        PDict root \<Rightarrow> sorted_set (
          concat (map (\<lambda>f. err_if (\<not> truthy (dget f root)) (''root_cause.'' @ f @ '' is required''))
            [''trigger'', ''incorrect_state_or_assumption'', ''propagation'', ''observable_failure'', ''affected_source'',
             ''evidence_refs'']) @
          (let hypotheses = dget ''hypothesis_tests'' c in
           if hypotheses = PNone then []
           else if \<not> non_empty_list hypotheses then [''hypothesis_tests must contain tested hypotheses'']
           else concat (map (\<lambda>(i, h). err_if (\<not> tested_hypothesis h)
             (''hypothesis_tests/'' @ index_text i @ '' must contain hypothesis, test, and result''))
               (enumerate_from 0 (as_list hypotheses)))))
      | _ \<Rightarrow> [''ROOT_CAUSE_PROVEN requires root_cause''])"

section \<open>Plans\<close>

definition plan_fields :: "string list" where
  "plan_fields = [''root_cause_summary'', ''intended_fix'', ''expected_files'', ''tests'', ''forbidden_scope'',
     ''database_impact'', ''external_side_effects'', ''rollback_or_containment'']"

definition reason_errors :: "pydict \<Rightarrow> string \<Rightarrow> string list" where
  "reason_errors reasons path =
     (case dget path reasons of
        PDict d \<Rightarrow> concat (map (\<lambda>f. err_if (blank (dget f d)) (''change_plan.file_reasons.'' @ path @ ''.'' @ f @ '' is required''))
          [''why'', ''root_cause_mechanism'', ''validation''])
      | PStr s \<Rightarrow> err_if (str_strip s = []) (''change_plan.file_reasons lacks justification for '' @ path)
      | _ \<Rightarrow> [''change_plan.file_reasons lacks justification for '' @ path])"

definition validate_change_plan :: "pyval \<Rightarrow> string list res" where
  "validate_change_plan v =
     (case v of
        PDict plan \<Rightarrow>
          bind_res (str_items (or_list (dget ''expected_files'' plan))) (\<lambda>files. Inr (sorted_set (
            concat (map (\<lambda>f. err_if (f \<notin> set (dkeys plan) \<or> (case dget f plan of PStr s \<Rightarrow> str_strip s = [] | _ \<Rightarrow> False))
              (''change_plan.'' @ f @ '' is required'')) plan_fields) @
            (case dget ''file_reasons'' plan of
               PDict reasons \<Rightarrow>
                 (let extra = minus_names (dkeys reasons) files in
                  concat (map (reason_errors reasons) files) @
                  err_if (extra \<noteq> []) (''change_plan.file_reasons contains paths outside expected_files: '' @ commas extra))
             | _ \<Rightarrow> [''change_plan.file_reasons is mandatory and must be an object'']) @
            err_if (truthy (dget ''scope_expansion'' plan)) ''CHANGE_PLANNED must be regenerated after material scope expansion'')))
      | _ \<Rightarrow> Inr [''CHANGE_PLANNED requires change_plan''])"

definition coverage_fields :: "string list" where
  "coverage_fields = [''direct_components'', ''adjacent_components'', ''callers_callees'', ''api_contracts'',
     ''database_data_boundaries'', ''tenant_auth_boundaries'', ''financial_zatca_boundaries'', ''provider_boundaries'',
     ''concurrency_idempotency_boundaries'', ''deployment_infra_boundaries'', ''tests'', ''observability'',
     ''migration_rollback_impact'', ''invariants'', ''validation_depth'']"

definition domain_boundary :: "(string \<times> string) list" where
  "domain_boundary = [(''DATABASE'', ''database_data_boundaries''), (''AUTH_TENANT'', ''tenant_auth_boundaries''),
     (''FINANCIAL'', ''financial_zatca_boundaries''), (''ZATCA'', ''financial_zatca_boundaries''),
     (''PROVIDER'', ''provider_boundaries''), (''CONCURRENCY'', ''concurrency_idempotency_boundaries''),
     (''SECURITY'', ''tenant_auth_boundaries'')]"

definition boundary_error :: "pydict \<Rightarrow> string \<Rightarrow> string list" where
  "boundary_error coverage domain =
     (case map_of domain_boundary domain of
        None \<Rightarrow> []
      | Some f \<Rightarrow> err_if (\<not> truthy (dget f coverage)) (''blast_radius.'' @ f @ '' is required for '' @ domain))"

definition coverage_of :: "pydict \<Rightarrow> pydict" where
  "coverage_of d = (case dget ''coverage'' d of PDict c \<Rightarrow> c | _ \<Rightarrow> d)"

definition validate_blast_radius :: "pyval \<Rightarrow> pyval \<Rightarrow> string list res" where
  "validate_blast_radius v domains =
     (case v of
        PDict d \<Rightarrow>
          (let c = coverage_of d in
           bind_res (if dget ''unknown_material_coupling'' c = PBool True
             then in_names (dget ''unknown_coupling_action'' c) [''EXPAND_CONTEXT'', ''ESCALATE_BLOCK''] else Inr True) (\<lambda>handled.
           bind_res (upper_items domains) (\<lambda>normalized.
             let unknown = minus_names normalized known_domains in
             Inr (sorted_set (
               concat (map (\<lambda>f. if f \<notin> set (dkeys c) then [''blast_radius.'' @ f @ '' is required'']
                   else err_if (\<not> is_list (dget f c)) (''blast_radius.'' @ f @ '' must be an array'')) coverage_fields) @
               err_if (\<not> truthy (dget ''direct_components'' c)) ''blast_radius.direct_components must identify direct impact'' @
               err_if (\<not> truthy (dget ''validation_depth'' c)) ''blast_radius.validation_depth must describe intended validation'' @
               err_if (\<not> handled) ''Unknown material coupling requires context expansion or escalation'' @
               err_if (unknown \<noteq> []) (''Unknown blast-radius domain: '' @ commas unknown) @
               concat (map (boundary_error c) normalized))))))
      | _ \<Rightarrow> Inr [''BLAST_RADIUS_MAPPED requires structured blast_radius coverage''])"

definition release_phases :: "string list" where
  "release_phases = [''expand'', ''compatible_deploy'', ''migrate_or_backfill'', ''verify'', ''contract'']"

definition validate_database_release_sequence :: "pyval \<Rightarrow> string list" where
  "validate_database_release_sequence v =
     (if v = PNone then []
      else if \<not> non_empty_list v then [''Database multi-release sequence must be a non-empty array'']
      else
        let seen = concat (map (\<lambda>i. case i of PDict d \<Rightarrow> [py_str (dget ''phase'' d)] | _ \<Rightarrow> []) (as_list v));
            missing = filter (\<lambda>p. p \<notin> set seen) release_phases
        in sorted_set (
          err_if (missing \<noteq> []) (''Database release sequence is missing phases: '' @ commas missing) @
          err_if (missing = [] \<and> (\<exists>(a, b) \<in> set (zip release_phases (tl release_phases)). first_index a seen > first_index b seen))
            ''Database release sequence is not expand-compatible-migrate-verify-contract''))"

end
