(* ===== verification/Problem_Case.thy ===== *)
theory Problem_Case
  imports Bug_Case
begin

text \<open>
  \<open>toolkit/ztad/problem.py\<close>: the investigation of a reported problem. A case moves through its
  states when the semantic checks of the target state find nothing to complain about; a finished
  investigation becomes a change contract. Git is a parameter: a function from arguments to the
  exit code and the stripped output. The JSON schema is a parameter as well.
\<close>

section \<open>States\<close>

definition problem_states :: "string list" where
  "problem_states = [''UNVERIFIED_REPORT'', ''SOURCE_OF_TRUTH_RESOLVED'', ''ISSUE_CLASSIFIED'', ''BUG_REPRODUCED'',
     ''ROOT_CAUSE_PROVEN'', ''BLAST_RADIUS_MAPPED'', ''CHANGE_PLANNED'', ''REGRESSION_BASELINE_PROVEN'', ''HANDOFF_READY'',
     ''WAITING_EXTERNAL_DEPENDENCY'', ''RESOLVED_NO_CODE'', ''QUARANTINED'']"

definition work_origins :: "string list" where
  "work_origins = [''FEATURE'', ''REPORTED_DEFECT'', ''INCIDENT'', ''MAINTENANCE'', ''REFACTOR'', ''OTHER'']"

definition problem_transitions :: "(string \<times> string list) list" where
  "problem_transitions =
     [(''UNVERIFIED_REPORT'', [''SOURCE_OF_TRUTH_RESOLVED'', ''WAITING_EXTERNAL_DEPENDENCY'', ''QUARANTINED'']),
      (''SOURCE_OF_TRUTH_RESOLVED'', [''ISSUE_CLASSIFIED'', ''WAITING_EXTERNAL_DEPENDENCY'', ''QUARANTINED'']),
      (''ISSUE_CLASSIFIED'', [''BUG_REPRODUCED'', ''RESOLVED_NO_CODE'', ''WAITING_EXTERNAL_DEPENDENCY'', ''QUARANTINED'']),
      (''BUG_REPRODUCED'', [''ROOT_CAUSE_PROVEN'', ''WAITING_EXTERNAL_DEPENDENCY'', ''QUARANTINED'']),
      (''ROOT_CAUSE_PROVEN'', [''BLAST_RADIUS_MAPPED'', ''QUARANTINED'']),
      (''BLAST_RADIUS_MAPPED'', [''CHANGE_PLANNED'', ''QUARANTINED'']),
      (''CHANGE_PLANNED'', [''REGRESSION_BASELINE_PROVEN'', ''WAITING_EXTERNAL_DEPENDENCY'', ''QUARANTINED'']),
      (''REGRESSION_BASELINE_PROVEN'', [''HANDOFF_READY'', ''WAITING_EXTERNAL_DEPENDENCY'', ''QUARANTINED'']),
      (''HANDOFF_READY'', []),
      (''WAITING_EXTERNAL_DEPENDENCY'', [''SOURCE_OF_TRUTH_RESOLVED'', ''ISSUE_CLASSIFIED'', ''BUG_REPRODUCED'',
         ''CHANGE_PLANNED'', ''REGRESSION_BASELINE_PROVEN'', ''QUARANTINED'']),
      (''RESOLVED_NO_CODE'', []), (''QUARANTINED'', [])]"

definition problem_successors :: "string \<Rightarrow> string list" where
  "problem_successors s = (case map_of problem_transitions s of None \<Rightarrow> [] | Some ts \<Rightarrow> ts)"

section \<open>Opening a case\<close>

type_synonym git = "string list \<Rightarrow> int \<times> string"

record repository_view =
  rv_repository :: string
  rv_ref :: string
  rv_resolved :: "string option"
  rv_protected :: "string option"
  rv_head :: "string option"
  rv_branch :: "string option"
  rv_dirty :: "bool option"
  rv_diverged :: "bool option"
  rv_lines :: "string list"

fun resolve_first :: "git \<Rightarrow> string list \<Rightarrow> (string \<times> string) option" where
  "resolve_first git [] = None"
| "resolve_first git (c # cs) =
     (case git [''rev-parse'', ''--verify'', c] of (code, out) \<Rightarrow>
        if code = 0 \<and> sha_text out then Some (out, c) else resolve_first git cs)"

definition resolve_protected_sha :: "git \<Rightarrow> string \<Rightarrow> (string \<times> string) option" where
  "resolve_protected_sha git protected_ref =
     (let ref = str_strip protected_ref in
      if ref = [] then None
      else resolve_first git (if sha_text ref then [ref]
        else [''refs/remotes/origin/'' @ ref, ''refs/heads/'' @ ref, ref]))"

text \<open>\<open>str.splitlines\<close>: a line break ends a line, and \<open>CR LF\<close> is one break.\<close>

definition is_line_break :: "char \<Rightarrow> bool" where
  "is_line_break c \<longleftrightarrow> (let n = (of_char c :: nat) in (10 \<le> n \<and> n \<le> 13) \<or> (28 \<le> n \<and> n \<le> 30))"

fun lines_from :: "string \<Rightarrow> bool \<Rightarrow> string \<Rightarrow> string list" where
  "lines_from line after_cr [] = (if line = [] then [] else [line])"
| "lines_from line after_cr (c # cs) =
     (if after_cr \<and> c = CHR 0x0A then lines_from [] False cs
      else if is_line_break c then line # lines_from [] (c = CHR 0x0D) cs
      else lines_from (line @ [c]) False cs)"

definition text_lines :: "string \<Rightarrow> string list" where
  "text_lines s = lines_from [] False s"

definition inspect_repository_read_only :: "git \<Rightarrow> string \<Rightarrow> string \<Rightarrow> repository_view" where
  "inspect_repository_read_only git root protected_ref =
     (let (hc, ho) = git [''rev-parse'', ''HEAD'']; head = (if hc = 0 \<and> sha_text ho then Some ho else None);
          resolved = resolve_protected_sha git protected_ref; protected = map_option fst resolved;
          (bc, bo) = git [''branch'', ''--show-current''];
          (sc, so) = git [''status'', ''--porcelain=v1'', ''--untracked-files=all'']
      in \<lparr>rv_repository = root, rv_ref = protected_ref, rv_resolved = map_option snd resolved, rv_protected = protected,
          rv_head = head, rv_branch = (if bc = 0 \<and> bo \<noteq> [] then Some bo else None),
          rv_dirty = (if sc \<noteq> 0 then None else Some (so \<noteq> [])),
          rv_diverged = (if protected = None \<or> head = None then None else Some (protected \<noteq> head)),
          rv_lines = (if sc = 0 then text_lines so else [])\<rparr>)"

definition opt_bool :: "bool option \<Rightarrow> pyval" where
  "opt_bool b = (case b of None \<Rightarrow> PNone | Some x \<Rightarrow> PBool x)"

definition first_some :: "string option \<Rightarrow> string option \<Rightarrow> string option" where
  "first_some a b = (case a of Some (c # cs) \<Rightarrow> a | _ \<Rightarrow> b)"

definition generated_case_id :: "(string \<Rightarrow> string) \<Rightarrow> repository_view \<Rightarrow> string \<Rightarrow> string option \<Rightarrow> string" where
  "generated_case_id sha view report base =
     ''CASE-'' @ str_upper (take 16 (drop 7 (sha256_json sha (PDict
       [(''repository'', PStr (rv_repository view)), (''report'', PStr (str_strip report)),
        (''protected_ref'', PStr (rv_ref view)), (''base_sha'', opt_str base), (''local_head_sha'', opt_str (rv_head view))]))))"

definition empty_coverage :: pydict where
  "empty_coverage = map (\<lambda>f. (f, PList [])) coverage_fields"

definition initialize_problem_case ::
  "(string \<Rightarrow> string) \<Rightarrow> git \<Rightarrow> string \<Rightarrow> string \<Rightarrow> string \<Rightarrow> string option \<Rightarrow> string option \<Rightarrow> string \<Rightarrow> pydict res" where
  "initialize_problem_case sha git now root report expected case_id protected_ref =
     (if str_strip report = [] then Inl (ValueError ''report must be non-empty'')
      else
        let view = inspect_repository_read_only git root protected_ref; base = first_some (rv_protected view) (rv_head view);
            resolved = (rv_protected view \<noteq> None);
            details = (case rv_resolved view of Some r \<Rightarrow> [''protected_ref_resolved_as='' @ r]
              | None \<Rightarrow> if protected_ref \<noteq> [] then [''protected_ref_unresolved='' @ protected_ref] else [])
        in Inr [(''schema_version'', PInt 1),
          (''case_id'', PStr (case case_id of Some (c # cs) \<Rightarrow> c # cs | _ \<Rightarrow> generated_case_id sha view report base)),
          (''state'', PStr ''UNVERIFIED_REPORT''), (''origin'', PStr ''REPORTED_DEFECT''),
          (''repository'', PStr (rv_repository view)), (''report'', PStr report), (''original_report_verbatim'', PStr report),
          (''observed_at'', PStr now), (''protected_ref'', PStr protected_ref), (''protected_ref_resolved'', PBool resolved),
          (''base_sha'', opt_str base), (''local_head_sha'', opt_str (rv_head view)),
          (''working_branch'', opt_str (rv_branch view)),
          (''worktree_status'', PDict [(''dirty'', opt_bool (rv_dirty view)),
             (''diverged_from_protected_base'', opt_bool (rv_diverged view)), (''user_worktree_preserved'', PNone),
             (''isolated_clean_worktree'', PNone), (''evidence_refs'', PList [])]),
          (''environment'', PDict [(''label'', PStr ''local''), (''details'', PList (map PStr details))]),
          (''expected_behavior'', opt_str expected), (''expected'', opt_str expected),
          (''observed_behavior'', PNone), (''observed'', PNone), (''supplied_evidence'', PList []), (''evidence'', PList []),
          (''authoritative_sources'', PList []), (''source_conflicts'', PList []), (''unresolved_ambiguities'', PList []),
          (''classification'', PNone), (''classification_record'', PNone), (''classification_evidence'', PList []),
          (''reproduction'', PNone), (''root_cause'', PNone), (''hypothesis_tests'', PList []),
          (''rejected_hypotheses'', PList []),
          (''blast_radius'', PDict [(''direct'', PList []), (''adjacent'', PList []), (''security_boundaries'', PList []),
             (''data_boundaries'', PList []), (''coverage'', PDict empty_coverage)]),
          (''invariants'', PList []), (''risk'', PNone), (''risk_class'', PNone), (''regression_baseline'', PNone),
          (''change_plan'', PNone),
          (''external_dependencies'', PList (if resolved then [] else [PStr (''protected_ref_unresolved:'' @ protected_ref)])),
          (''local_evidence_notice'',
             PStr ''LOCAL_EVIDENCE_IS_NON_AUTHORITATIVE_UNTIL_PROMOTED_BY_A_PROTECTED_CONTROLLER'')])"

definition problem_case_fingerprint :: "(string \<Rightarrow> string) \<Rightarrow> pydict \<Rightarrow> string" where
  "problem_case_fingerprint sha c = sha256_json sha (PDict c)"

section \<open>The checks of a state\<close>

definition requires :: "bool \<Rightarrow> string \<Rightarrow> string list res" where
  "requires b e = says (\<not> b) e"

lemma requires_Nil [simp]: "requires b e = Inr [] \<longleftrightarrow> b"
  by (simp add: requires_def)

definition source_checks :: "pydict \<Rightarrow> string list res list" where
  "source_checks c =
     [requires (dget ''protected_ref_resolved'' c = PBool True)
        ''protected/current base ref must be resolved before source-of-truth completion'',
      requires (truthy (dget ''base_sha'' c)) ''protected/current base SHA is required'',
      requires (truthy (dget ''authoritative_sources'' c)) ''source-of-truth resolution requires authoritative_sources'',
      requires (\<not> truthy (dget ''source_conflicts'' c)) ''unresolved source conflicts must not be treated as resolved'',
      requires (\<not> truthy (dget ''unresolved_ambiguities'' c)) ''unresolved source ambiguity must not be treated as resolved'',
      validate_authoritative_sources (or_list (dget ''authoritative_sources'' c)) (or_list (dget ''source_conflicts'' c))
        (PList []) (PList [])]"

definition reproduction_checks :: "pydict \<Rightarrow> string list res list" where
  "reproduction_checks c =
     (let r = dget ''reproduction'' c in
      [bind_res (in_names (dget ''classification'' c) implementation_classifications) (\<lambda>b.
         requires b ''implementation path requires a code/config-affecting classification''),
       requires (is_dict r) ''reproduction/proof is required'',
       bind_res (sub_get ''evidence_refs'' r) (\<lambda>refs. requires (truthy refs) ''reproduction requires evidence_refs''),
       Inr (validate_reproduction (or_dict r)),
       says (\<not> truthy (dget ''evidence_refs'' (as_dict r))) ''BLOCKED: NOT_REPRODUCED''])"

definition root_cause_checks :: "pydict \<Rightarrow> string list res list" where
  "root_cause_checks c =
     (let root = dget ''root_cause'' c; d = as_dict root in
      [requires (is_dict root) ''root cause is required'',
       requires (is_dict root \<longrightarrow> truthy (dget ''trigger'' d)) ''root cause trigger is required'',
       requires (is_dict root \<longrightarrow> truthy (dget ''incorrect_state_or_assumption'' d))
         ''root cause incorrect state/assumption is required'',
       requires (is_dict root \<longrightarrow> truthy (dget ''observable_failure'' d)) ''root cause observable failure is required'',
       requires (is_dict root \<longrightarrow> truthy (dget ''evidence_refs'' d)) ''root cause requires evidence_refs'',
       Inr (validate_root_cause c),
       says (\<not> truthy (dget ''evidence_refs'' d)) ''BLOCKED: ROOT_CAUSE_UNPROVEN''])"

definition case_domains :: "pydict \<Rightarrow> pyval res" where
  "case_domains c =
     (if truthy (dget ''domains'' c) then Inr (dget ''domains'' c)
      else dict_get_default ''security_boundaries'' (PList []) (or_dict (dget ''blast_radius'' c)))"

definition class_checks :: "pyval \<Rightarrow> pydict \<Rightarrow> string list res" where
  "class_checks policy c =
     (let class = dget ''risk_class'' c in
      if class = PNone then Inr []
      else bind_res (case_domains c) (\<lambda>domains.
           bind_res (derive_risk_class (dget ''risk'' c) domains [] [] policy) (\<lambda>expected.
           bind_res (in_names class [''LOW'', ''MEDIUM'', ''HIGH'', ''CRITICAL'']) (\<lambda>known.
             Inr (err_if (\<not> known) ''risk_class is invalid'' @
                  err_if (class \<in> {PStr ''LOW'', PStr ''MEDIUM''} \<and> expected \<in> {''HIGH'', ''CRITICAL''})
                    ''risk_class cannot downgrade deterministic domain risk'')))))"

definition blast_checks :: "pyval \<Rightarrow> pydict \<Rightarrow> string list res list" where
  "blast_checks policy c =
     [bind_res (sub_get ''direct'' (dget ''blast_radius'' c)) (\<lambda>v. requires (truthy v) ''blast radius must contain direct surfaces''),
      requires (truthy (dget ''invariants'' c)) ''at least one invariant is required'',
      bind_res (in_names (dget ''risk'' c) [''R0'', ''R1'', ''R2'', ''R3'', ''R4'']) (\<lambda>b.
        requires b ''risk classification is required''),
      bind_res (in_names (dget ''origin'' c) work_origins) (\<lambda>b.
        requires b ''origin must be one of the declared work origins''),
      validate_blast_radius (dget ''blast_radius'' c) (or_list (dget ''domains'' c)),
      class_checks policy c]"

definition plan_checks :: "pydict \<Rightarrow> string list res list" where
  "plan_checks c =
     (let plan = dget ''change_plan'' c; d = as_dict plan in
      [requires (is_dict plan) ''change plan is required'',
       requires (is_dict plan \<longrightarrow> truthy (dget ''intended_fix'' d)) ''change plan intended_fix is required'',
       requires (is_dict plan \<longrightarrow> truthy (dget ''expected_files'' d)) ''change plan expected_files must be explicit'',
       requires (is_dict plan \<longrightarrow> truthy (dget ''tests'' d)) ''change plan must name tests/oracles'',
       validate_change_plan plan,
       (case or_dict (dget ''worktree_status'' c) of
          PDict w \<Rightarrow> guarded (truthy (dget ''dirty'' w) \<or> truthy (dget ''diverged_from_protected_base'' w)) (errs
            [requires (dget ''user_worktree_preserved'' w = PBool True) ''dirty/divergent user worktree must be preserved'',
             requires (dget ''isolated_clean_worktree'' w = PBool True) ''dirty/divergent work requires an isolated clean worktree'',
             requires (truthy (dget ''evidence_refs'' w)) ''clean-isolation claim requires evidence_refs''])
        | _ \<Rightarrow> Inl (AttributeError ''get''))])"

definition baseline_checks :: "pydict \<Rightarrow> string list res list" where
  "baseline_checks c =
     (case dget ''regression_baseline'' c of
        PDict b \<Rightarrow>
          [requires (py_eq (dget ''bad_result'' b) (PStr ''FAIL'')) ''known-bad baseline must produce an exact failing result'',
           requires (truthy (dget ''test_or_oracle'' b)) ''regression baseline requires a test/oracle'',
           requires (truthy (dget ''evidence_refs'' b)) ''regression baseline requires evidence_refs'',
           requires (dget ''same_oracle'' b = PBool True) ''RED->GREEN requires the same oracle'',
           requires (truthy (dget ''base_sha'' c) \<longrightarrow> py_eq (dget ''base_sha'' b) (dget ''base_sha'' c))
             ''regression baseline must bind the exact protected problem base SHA'']
      | _ \<Rightarrow> [requires False ''regression baseline is required''])"

definition state_index :: "string \<Rightarrow> int" where
  "state_index s = (let i = first_index s problem_states in if i < 9 then int i else -1)"

definition semantic_errors :: "pydict \<Rightarrow> string option \<Rightarrow> pyval \<Rightarrow> string list res" where
  "semantic_errors c target policy =
     (let state = (case target of Some (x # xs) \<Rightarrow> x # xs | _ \<Rightarrow> or_text (dget ''state'' c)); i = state_index state in
      if state \<notin> set problem_states then Inr [''Unknown problem state: '' @ state]
      else if state = ''RESOLVED_NO_CODE'' then
        sorted_errs [bind_res (in_names (dget ''classification'' c) non_code_classifications) (\<lambda>b.
          requires b ''RESOLVED_NO_CODE requires a non-code classification'')]
      else sorted_errs
        ([guarded (i \<ge> 1) (errs (source_checks c)),
          guarded (i \<ge> 2) (validate_classification_record c),
          guarded (i \<ge> 3) (errs (reproduction_checks c)),
          guarded (i \<ge> 4) (errs (root_cause_checks c)),
          guarded (i \<ge> 5) (errs (blast_checks policy c)),
          guarded (i \<ge> 6) (errs (plan_checks c)),
          guarded (i \<ge> 7) (errs (baseline_checks c)),
          guarded (state = ''HANDOFF_READY'') (requires (\<not> truthy (dget ''external_dependencies'' c))
            ''HANDOFF_READY cannot retain unresolved external dependencies'')]))"

section \<open>Moving a case\<close>

text \<open>\<open>validate_instance\<close> against the schema of a problem case is a parameter.\<close>

definition validate_problem_case :: "(pydict \<Rightarrow> string list res) \<Rightarrow> pyval \<Rightarrow> pydict \<Rightarrow> string list res" where
  "validate_problem_case schema policy c = sorted_errs [schema c, semantic_errors c None policy]"

record case_decision =
  cd_allowed :: bool
  cd_current :: string
  cd_target :: string
  cd_reasons :: "string list"
  cd_fingerprint :: string

definition can_transition ::
  "(string \<Rightarrow> string) \<Rightarrow> (pydict \<Rightarrow> string list res) \<Rightarrow> pyval \<Rightarrow> pydict \<Rightarrow> string \<Rightarrow> case_decision res" where
  "can_transition sha schema policy c target =
     (let current = or_text (dget ''state'' c); candidate = dset ''state'' (PStr target) c in
      bind_res (sorted_errs
        [says (target \<notin> set (problem_successors current)) (''Transition '' @ current @ '' -> '' @ target @ '' is not allowed''),
         schema candidate, semantic_errors candidate (Some target) policy]) (\<lambda>reasons.
      Inr \<lparr>cd_allowed = (reasons = []), cd_current = current, cd_target = target, cd_reasons = reasons,
           cd_fingerprint = problem_case_fingerprint sha c\<rparr>))"

definition advance_problem_case ::
  "(string \<Rightarrow> string) \<Rightarrow> (pydict \<Rightarrow> string list res) \<Rightarrow> pyval \<Rightarrow> pydict \<Rightarrow> string \<Rightarrow> pydict res" where
  "advance_problem_case sha schema policy c target =
     bind_res (can_transition sha schema policy c target) (\<lambda>decision.
       if \<not> cd_allowed decision then Inl (ValueError (join_with ''; '' (cd_reasons decision)))
       else Inr (dset ''state'' (PStr target) c))"

end
