(* ===== verification/Problem_Handoff.thy ===== *)
theory Problem_Handoff
  imports Problem_Case Work_Origin
begin

text \<open>
  \<open>problem_case_to_change_contract\<close> of \<open>toolkit/ztad/problem.py\<close>: a case that is ready for handoff
  becomes a change contract, bound to the case by its fingerprint. The lists of a case hold texts,
  as its schema says.
\<close>

section \<open>The contract\<close>

definition need :: "string \<Rightarrow> pydict \<Rightarrow> pyval res" where
  "need k d = (case map_of d k of None \<Rightarrow> Inl (KeyError k) | Some v \<Rightarrow> Inr v)"

definition need_dict :: "string \<Rightarrow> pydict \<Rightarrow> pydict res" where
  "need_dict k d = bind_res (need k d) (\<lambda>v. case v of PDict p \<Rightarrow> Inr p | _ \<Rightarrow> Inl (AttributeError ''get''))"

text \<open>\<open>int(text, 16)\<close> on plain hexadecimal digits.\<close>

definition int_of_hex :: "string \<Rightarrow> int res" where
  "int_of_hex t =
     (if t = [] \<or> (\<exists>c \<in> set t. hex_val (ascii_lower c) = None) then Inl (ValueError ''invalid literal for int()'')
      else Inr (foldl (\<lambda>n c. 16 * n + int (the (hex_val (ascii_lower c)))) 0 t))"

definition or_else :: "pyval \<Rightarrow> string \<Rightarrow> string" where
  "or_else v t = py_str (py_or v (PStr t))"

definition two_digits :: "nat \<Rightarrow> string" where
  "two_digits n = (if n < 10 then CHR ''0'' # nat_str n else nat_str n)"

definition texts_of :: "string list \<Rightarrow> pyval" where
  "texts_of ts = PList (map PStr ts)"

definition planned_reason :: "pydict \<Rightarrow> string \<Rightarrow> string list \<Rightarrow> pydict \<Rightarrow> string \<Rightarrow> pyval" where
  "planned_reason plan case_id tests reasons path =
     py_or (dget path reasons) (PDict
       [(''why'', PStr (''This file is in the approved impact surface for '' @ case_id @ ''.'')),
        (''root_cause_mechanism'', PStr (or_else (dget ''root_cause_summary'' plan) ''Addresses the proven root cause.'')),
        (''validation'', PStr (join_with ''; '' tests))])"

definition requirements_of :: "pyval \<Rightarrow> pyval list \<Rightarrow> string list \<Rightarrow> pydict" where
  "requirements_of expected forbidden invariants =
     [(''acceptance_criteria'', PList [PDict [(''id'', PStr ''AC-01''), (''statement'', expected)]]),
      (''non_goals'', PList forbidden),
      (''invariants'', PList (map (\<lambda>(i, t). PDict [(''id'', PStr (''INV-'' @ two_digits i)), (''statement'', PStr t)])
         (enumerate_from 1 invariants))),
      (''assumptions'', PList [])]"

definition scope_of :: "string list \<Rightarrow> pydict \<Rightarrow> string list \<Rightarrow> pyval list \<Rightarrow> string \<Rightarrow> bool \<Rightarrow> pydict" where
  "scope_of files reasons domains forbidden risk migration =
     [(''expected_components'', texts_of files), (''file_reasons'', PDict reasons), (''domains'', texts_of domains),
      (''prohibited_components'', PList forbidden), (''public_contract_change'', PBool False),
      (''data_migration_expected'', PBool migration),
      (''service_criticality'', PStr (if risk = ''R4'' then ''tier_0'' else if risk = ''R3'' then ''tier_1'' else ''tier_2'')),
      (''data_classification'', PStr (if risk = ''R4'' then ''C3'' else if risk = ''R3'' then ''C2'' else ''C1''))]"

definition quality_attributes :: pydict where
  "quality_attributes =
     [(''security'', PStr ''Preserve all recorded security boundaries and fail closed on uncertainty.''),
      (''privacy'', PStr ''Do not expose new sensitive information or PII.''),
      (''performance'', PStr ''Do not introduce an unexplained performance regression.''),
      (''availability'', PStr ''Preserve availability except for bounded approved maintenance.''),
      (''accessibility'', PStr ''Preserve existing accessibility behavior unless explicitly in scope.''),
      (''compatibility'', PStr ''Preserve adjacent contracts unless explicitly planned and re-reviewed.'')]"

definition verification_of :: "string \<Rightarrow> pydict" where
  "verification_of oracle =
     [(''test_oracles'', PList [PDict [(''acceptance_test'', PStr oracle),
        (''expected_evidence'', PStr ''Same oracle fails on recorded protected bad base and passes on exact candidate.'')]]),
      (''observability'', PList [PDict [(''metric'', PStr ''original_problem_recurrence''),
        (''threshold'', PStr ''0 during the applicable verification window'')]]),
      (''negative_cases'', texts_of [''The original known-bad behavior must not recur.'',
        ''The candidate must not modify prohibited or unrelated scope.''])]"

definition release_of :: "pydict \<Rightarrow> string \<Rightarrow> bool \<Rightarrow> pydict" where
  "release_of plan risk migration =
     [(''feature_flag_required'', PBool (risk \<in> {''R3'', ''R4''})),
      (''rollback_strategy'', PStr (or_else (dget ''rollback_or_containment'' plan)
         ''Stop progression and restore the previously verified artifact by the protected path.'')),
      (''data_reversal_required'', PBool migration),
      (''stop_conditions'', texts_of [''original problem persists'', ''security/data invariant fails'',
         ''required evidence is missing or conflicting''])]"

definition governance_of :: "string \<Rightarrow> string \<Rightarrow> pyval \<Rightarrow> pyval \<Rightarrow> pydict" where
  "governance_of risk fingerprint base head =
     [(''product_owner'', PStr ''repository-owner''), (''engineering_owner'', PStr ''ztad-controller''),
      (''requested_risk'', PStr risk), (''policy_risk'', PStr risk),
      (''human_decisions'', PList
        [PDict [(''type'', PStr ''PROBLEM_CASE_FINGERPRINT''), (''value'', PStr fingerprint)],
         PDict [(''type'', PStr ''PROTECTED_BASE_SHA''), (''value'', base)],
         PDict [(''type'', PStr ''LOCAL_HEAD_SHA''), (''value'', head)]])]"

text \<open>\<open>plan.get("expected_files") or (blast_radius or \<open>{}\<close>).get("direct") or ["."]\<close>.\<close>

definition planned_files :: "pydict \<Rightarrow> pydict \<Rightarrow> string list res" where
  "planned_files c plan =
     bind_res (if truthy (dget ''expected_files'' plan) then Inr (dget ''expected_files'' plan)
       else sub_get ''direct'' (dget ''blast_radius'' c)) (\<lambda>v.
     bind_res (py_texts (py_or v (texts_of [''.'']))) (\<lambda>fs. Inr (uniq fs)))"

definition plan_reasons :: "pyval \<Rightarrow> pydict res" where
  "plan_reasons v = (case v of PDict d \<Rightarrow> Inr d | _ \<Rightarrow> Inl (AttributeError ''get''))"

definition contract_of ::
  "(string \<Rightarrow> string) \<Rightarrow> pydict \<Rightarrow> pydict \<Rightarrow> pydict \<Rightarrow> pydict res" where
  "contract_of sha c plan baseline =
     (let expected = py_or (dget ''expected_behavior'' c)
            (PStr ''The proven reported problem no longer reproduces under the recorded regression oracle.'');
          fingerprint = problem_case_fingerprint sha c;
          migration = is_infix ''migration'' (str_lower (py_str (dget_default ''database_impact'' (PStr []) plan)))
      in bind_res (planned_files c plan) (\<lambda>files.
         bind_res (plan_reasons (or_dict (dget ''file_reasons'' plan))) (\<lambda>planned.
         bind_res (if \<exists>f \<in> set files. \<not> truthy (dget f planned) then str_items (or_list (dget ''tests'' plan)) else Inr []) (\<lambda>tests.
         bind_res (need ''case_id'' c) (\<lambda>case_id.
         bind_res (py_texts (py_or (dget ''invariants'' c)
             (texts_of [''No unrelated behavior changes outside the bounded change plan.'']))) (\<lambda>invariants.
         bind_res (int_of_hex (take 12 (drop 7 fingerprint))) (\<lambda>n.
         bind_res (need ''risk'' c) (\<lambda>risk_value.
         bind_res (need ''state'' c) (\<lambda>state.
         bind_res (py_list (or_list (dget ''forbidden_scope'' plan))) (\<lambda>forbidden.
         bind_res (upper_items (or_list (dget ''domains'' c))) (\<lambda>domains.
         bind_res (need ''test_or_oracle'' baseline) (\<lambda>oracle.
         bind_res (need ''base_sha'' c) (\<lambda>base.
           let risk = py_str risk_value in
           Inr [(''schema_version'', PInt 1), (''origin'', PStr ''REPORTED_DEFECT''), (''bug_lifecycle_case_id'', case_id),
             (''authoritative_lifecycle_handoff'', PDict [(''case_id'', case_id), (''state'', state),
                (''problem_case_fingerprint'', PStr fingerprint), (''authority_store'', PStr ''controller-owned-sqlite'')]),
             (''change_id'', PStr (''PROBLEM-'' @ int_str (n mod 1000000000))),
             (''title'', PStr (''Problem fix: '' @ py_str case_id)),
             (''outcome'', PDict [(''user_or_system_value'', expected), (''success_metric'', PNone)]),
             (''requirements'', PDict (requirements_of expected forbidden (uniq invariants))),
             (''scope'', PDict (scope_of files (map (\<lambda>p. (p, planned_reason plan (py_str case_id) tests planned p)) files)
                (uniq domains) forbidden risk migration)),
             (''quality_attributes'', PDict quality_attributes),
             (''verification'', PDict (verification_of (py_str oracle))),
             (''release'', PDict (release_of plan risk migration)),
             (''governance'', PDict (governance_of risk fingerprint base (dget ''local_head_sha'' c))),
             (''budget'', PDict [(''max_implementation_runs'', PInt 3), (''max_repair_cycles'', PInt 2),
                (''max_review_runs'', PInt 3)])])))))))))))))"

definition problem_case_to_change_contract ::
  "(string \<Rightarrow> string) \<Rightarrow> (pydict \<Rightarrow> string list res) \<Rightarrow> pyval \<Rightarrow> pydict \<Rightarrow> pydict res" where
  "problem_case_to_change_contract sha schema policy c =
     bind_res (validate_problem_case schema policy c) (\<lambda>errors.
       if errors \<noteq> [] then Inl (ValueError (''Invalid problem case: '' @ join_with ''; '' errors))
       else if \<not> py_eq (dget ''state'' c) (PStr ''HANDOFF_READY'') then Inl (ValueError ''Problem case is not HANDOFF_READY'')
       else bind_res (in_names (dget ''classification'' c) implementation_classifications) (\<lambda>code.
         if \<not> code then Inl (ValueError ''Only code-affecting classifications can produce a Change Contract'')
         else bind_res (need_dict ''change_plan'' c) (\<lambda>plan.
              bind_res (need_dict ''regression_baseline'' c) (\<lambda>baseline. contract_of sha c plan baseline))))"

end
