(* ===== verification/Bug_Evidence.thy ===== *)
theory Bug_Evidence
  imports Bug_Policy Life_Store "HOL-Library.AList"
begin

text \<open>
  The validators of \<open>toolkit/ztad/bug_protocol.py\<close> for what the evidence of a lifecycle gate says:
  each takes the metadata of an evidence record (anything that is not an object counts as the empty
  one) and the identity it must be bound to, and lists what is missing or wrong. The arrow of the
  \<open>RED->GREEN\<close> messages is written in ASCII.
\<close>

definition passed_words :: "string list" where
  "passed_words = [''PASS'', ''PASSED'', ''VERIFIED'']"

definition needs_field :: "string \<Rightarrow> pydict \<Rightarrow> string \<Rightarrow> string list" where
  "needs_field pre m f = err_if (\<not> truthy (dget f m)) (pre @ f)"

definition needs_true :: "string \<Rightarrow> pydict \<Rightarrow> string \<Rightarrow> string list" where
  "needs_true pre m f = err_if (dget f m \<noteq> PBool True) (pre @ f)"

definition needs_text :: "string \<Rightarrow> pydict \<Rightarrow> string \<Rightarrow> string list" where
  "needs_text pre m f = err_if (blank (dget f m)) (pre @ f)"

lemma needs_true_Nil [simp]: "needs_true p m f = [] \<longleftrightarrow> dget f m = PBool True"
  by (simp add: needs_true_def)

lemma needs_field_Nil [simp]: "needs_field p m f = [] \<longleftrightarrow> truthy (dget f m)"
  by (simp add: needs_field_def)

lemma needs_text_Nil [simp]: "needs_text p m f = [] \<longleftrightarrow> \<not> blank (dget f m)"
  by (simp add: needs_text_def)

section \<open>Targeted validation\<close>

definition base_cases :: "string list" where
  "base_cases = [''original_reproduction'', ''normal_case'', ''nearest_boundary'', ''invalid_input'',
     ''empty_null_missing_input'', ''repeated_operation'', ''retry_behavior'', ''stale_state'', ''error_path'']"

definition minimal_cases :: "string list" where
  "minimal_cases = [''original_reproduction'', ''normal_case'', ''nearest_boundary'', ''error_path'']"

definition domain_cases :: "string \<Rightarrow> string list" where
  "domain_cases d =
     (if d = ''AUTH_TENANT'' then [''authorization_denial'', ''tenant_crossing_denial'', ''id_tampering_denial'']
      else if d = ''FINANCIAL'' then [''idempotency'', ''financial_duplicate_prevention'', ''ledger_consistency'']
      else if d = ''ZATCA'' then [''legal_state_machine'', ''duplicate_prevention'', ''immutability'']
      else if d = ''DATABASE'' then [''database_migration'', ''database_recovery'', ''compatibility_matrix'']
      else if d = ''PROVIDER'' then [''provider_failure'', ''provider_reconciliation'', ''provider_idempotency'']
      else if d = ''CONCURRENCY'' then [''concurrency'', ''idempotency'', ''no_duplicate_durable_side_effect'']
      else if d = ''SECURITY'' then [''authorization_denial'', ''secrets_scan'', ''fail_closed_boundary'']
      else [])"

definition case_matrix :: "pydict \<Rightarrow> pyval" where
  "case_matrix m = py_or (py_or (dget ''cases'' m) (dget ''validation_cases'' m)) (dget ''semantic_case_matrix'' m)"

definition case_name :: "pydict \<Rightarrow> string" where
  "case_name d = py_str (py_or (dget ''case'' d) (dget ''name'' d))"

fun objects :: "pyval list \<Rightarrow> pydict list" where
  "objects [] = []"
| "objects (PDict d # vs) = d # objects vs"
| "objects (v # vs) = objects vs"

text \<open>The names of the cases, and the names of those that passed.\<close>

definition affirmative_of :: "pydict list \<Rightarrow> string list res" where
  "affirmative_of ds = fold_res (\<lambda>d names. bind_res (in_names (dget ''status'' d) passed_words)
     (\<lambda>b. Inr (if b then names @ [case_name d] else names))) ds []"

definition affirmative_entries :: "pydict \<Rightarrow> string list res" where
  "affirmative_entries d = fold_res (\<lambda>(k, v) names.
     case v of
       PBool b \<Rightarrow> Inr (if b then names @ [k] else names)
     | PDict e \<Rightarrow> bind_res (in_names (dget ''status'' e) passed_words) (\<lambda>b. Inr (if b then names @ [k] else names))
     | _ \<Rightarrow> Inr names) d []"

definition matrix_names :: "pyval \<Rightarrow> string list \<times> string list res" where
  "matrix_names cases =
     (case cases of
        PList vs \<Rightarrow> (map case_name (objects vs), affirmative_of (objects vs))
      | PDict d \<Rightarrow> (dkeys d, affirmative_entries d)
      | _ \<Rightarrow> ([], Inr []))"

definition required_cases :: "pyval \<Rightarrow> string list \<Rightarrow> string list \<Rightarrow> string list res" where
  "required_cases risk_class domains extra =
     bind_res (in_names risk_class [''HIGH'', ''CRITICAL'']) (\<lambda>high.
       Inr ((if high \<or> (\<exists>d \<in> set domains. d \<noteq> ''GENERAL'') then base_cases else minimal_cases) @ extra @
         concat (map domain_cases domains)))"

definition validate_targeted_validation :: "pyval \<Rightarrow> pyval \<Rightarrow> pyval \<Rightarrow> string list \<Rightarrow> string list res" where
  "validate_targeted_validation metadata risk_class domains extra =
     (let m = as_dict metadata; cases = case_matrix m in
      if \<not> (non_empty_list cases \<or> non_empty_dict cases)
      then Inr [''TARGETED_VALIDATION_PASSED requires a non-empty semantic case matrix'']
      else case matrix_names cases of (names, affirmative_res) \<Rightarrow>
        bind_res affirmative_res (\<lambda>affirmative.
        bind_res (upper_items domains) (\<lambda>ds.
        bind_res (required_cases risk_class ds extra) (\<lambda>required.
          let missing = minus_names required names;
              weak = sorted_set (filter (\<lambda>r. r \<in> set names \<and> r \<notin> set affirmative) required)
          in Inr (sorted_set (
               err_if (missing \<noteq> []) (''TARGETED_VALIDATION missing semantic cases: '' @ commas missing) @
               err_if (weak \<noteq> []) (''TARGETED_VALIDATION has non-affirmative cases: '' @ commas weak) @
               err_if (dget ''original_reproduction_passed'' m \<noteq> PBool True)
                 ''TARGETED_VALIDATION must prove the original reproduction passes''))))))"

section \<open>Rollback, performance\<close>

definition absent_or_false :: "pyval \<Rightarrow> bool" where
  "absent_or_false v \<longleftrightarrow> one_of v [PNone, PBool False, PStr []]"

definition recovery_types :: "pyval \<Rightarrow> (string \<times> pyval list) list res" where
  "recovery_types policy =
     bind_res (sub_get ''gates'' policy) (\<lambda>gates.
     bind_res (sub_get ''ROLLBACK_CLOSURE'' gates) (\<lambda>gate.
     bind_res (sub_get ''by_domain'' gate) (\<lambda>v.
     case or_dict v of
       PDict d \<Rightarrow> fold_res (\<lambda>(k, types) table. bind_res (py_list (or_list types)) (\<lambda>ts.
           Inr (AList.update (str_upper k) ts table))) d []
     | _ \<Rightarrow> Inl (AttributeError ''items''))))"

definition recovered :: "pyval list \<Rightarrow> pyval \<Rightarrow> bool res" where
  "recovered found required_type = any_res (\<lambda>c. case c of
       PDict d \<Rightarrow> if py_eq (dget ''type'' d) required_type then in_names (dget ''status'' d) passed_words else Inr False
     | _ \<Rightarrow> Inr False) found"

definition recovery_errors :: "(string \<times> pyval list) list \<Rightarrow> pyval list \<Rightarrow> string \<Rightarrow> string list res" where
  "recovery_errors table found domain =
     (case map_of table domain of
        None \<Rightarrow> Inr []
      | Some types \<Rightarrow> errs (map (\<lambda>t. bind_res (recovered found t) (\<lambda>b.
          Inr (err_if (\<not> b) (''ROLLBACK_CLOSURE missing '' @ py_str t)))) types))"

definition validate_rollback_closure :: "pyval \<Rightarrow> pyval \<Rightarrow> pyval \<Rightarrow> string list res" where
  "validate_rollback_closure metadata domains policy =
     (let m = as_dict metadata; found = dget ''domain_checks'' m in
      bind_res (upper_items domains) (\<lambda>ds.
      bind_res (recovery_types policy) (\<lambda>table.
        let unknown = minus_names ds known_domains in
        sorted_errs
         ([Inr (concat (map (\<lambda>f. err_if (absent_or_false (dget f m)) (''ROLLBACK_CLOSURE requires '' @ f))
             [''rollback_completed'', ''post_rollback_health_verified'', ''stable_artifact_digest'', ''rollback_receipt''])),
           says (unknown \<noteq> []) (''ROLLBACK_CLOSURE contains unknown domains: '' @ commas unknown),
           says ((\<exists>d \<in> set ds. d \<in> set high_risk_domains) \<and> \<not> truthy policy)
             ''ROLLBACK_CLOSURE requires the authoritative policy for domain recovery checks'',
           says (\<not> is_list found) ''ROLLBACK_CLOSURE requires domain_checks''] @
          map (recovery_errors table (as_list found)) (uniq ds)))))"

definition performance_fields :: "string list" where
  "performance_fields = [''baseline_subject'', ''candidate_subject'', ''workload_id'', ''environment'', ''sample_count'',
     ''warmup'', ''variance'', ''threshold_policy'', ''regression_budget'', ''result_hash'']"

definition missing_value :: "pyval \<Rightarrow> bool" where
  "missing_value v \<longleftrightarrow> one_of v [PNone, PStr [], PList []]"

definition validate_performance_evidence :: "pyval \<Rightarrow> string list" where
  "validate_performance_evidence metadata =
     (let m = as_dict metadata in
      if dget ''applicable'' m = PBool False then []
      else sorted_set (concat (map (\<lambda>f. err_if (missing_value (dget f m) \<or> f = ''sample_count'' \<and> below (dget f m) 1)
        (''Performance evidence requires '' @ f)) performance_fields)))"

section \<open>Regression tests\<close>

definition validate_red_green_evidence :: "pyval \<Rightarrow> pyval \<Rightarrow> pyval \<Rightarrow> string list" where
  "validate_red_green_evidence metadata base candidate =
     (let m = as_dict metadata; bad = dget ''bad_base_sha'' m; head = dget ''candidate_head_sha'' m;
          exit_code = dget ''bad_exit_code'' m in
      sorted_set (
        err_if (\<not> py_eq bad base) ''RED->GREEN bad_base_sha must equal the exact protected base SHA'' @
        err_if (\<not> py_eq head candidate) ''RED->GREEN candidate_head_sha must equal the exact candidate SHA'' @
        err_if (truthy bad \<and> py_eq bad head) ''FLAKY_SAME_SHA: FAIL->PASS on one subject is not RED->GREEN proof'' @
        err_if (dget ''same_oracle'' m \<noteq> PBool True) ''REGRESSION_TEST_PROVEN requires the same regression oracle'' @
        err_if (\<not> py_eq (dget ''bad_result'' m) (PStr ''FAIL'')) ''known-bad exact base must produce FAIL'' @
        err_if (\<not> py_eq (dget ''patched_result'' m) (PStr ''PASS'')) ''exact candidate must produce PASS'' @
        concat (map (needs_field ''RED->GREEN evidence requires '' m)
          [''oracle_id'', ''oracle_hash'', ''oracle_command'', ''bad_environment'', ''candidate_environment'']) @
        err_if (int_value exit_code = None \<or> py_eq exit_code (PInt 0))
          ''RED->GREEN bad_exit_code must be a non-zero failing exit code'' @
        err_if (\<not> py_eq (dget ''candidate_exit_code'' m) (PInt 0)) ''RED->GREEN candidate_exit_code must be zero'' @
        concat (map (\<lambda>f. err_if (\<not> exact_digest (dget f m)) (''RED->GREEN evidence requires '' @ f))
          [''bad_output_hash'', ''candidate_output_hash'']) @
        needs_field ''RED->GREEN evidence requires '' m ''failing_assertion'' @
        needs_field ''RED->GREEN evidence requires '' m ''passing_assertion'' @
        err_if (truthy (dget ''waiver'' m) \<or> truthy (dget ''equivalent_evidence'' m) \<or> truthy (dget ''manual_substitute'' m))
          ''RED->GREEN has no waiver or equivalent-evidence substitute''))"

definition red_green_result :: "pyval \<Rightarrow> pyval \<Rightarrow> pyval \<Rightarrow> string" where
  "red_green_result metadata base candidate =
     (let m = as_dict metadata; bad = dget ''bad_base_sha'' m in
      if truthy bad \<and> py_eq bad (dget ''candidate_head_sha'' m) then ''FLAKY_SAME_SHA''
      else if validate_red_green_evidence metadata base candidate = [] then ''VALID_RED_GREEN''
      else ''INVALID_REGRESSION_TEST'')"

definition weakening_codes :: "string list" where
  "weakening_codes = [''SKIP_ADDED'', ''FOCUS_ADDED'', ''XFAIL_ADDED'', ''ASSERTION_REMOVED'', ''TEST_FILE_DELETED'',
     ''TEST_MOVED_OUT_OF_DISCOVERY'', ''TEST_CASE_COUNT_DECREASED'', ''CI_CONTINUE_ON_ERROR'', ''CI_STEP_DISABLED'',
     ''SHELL_FAILURE_MASKED'', ''TEST_DISCOVERY_CHANGED'', ''TEST_SCRIPT_MASKED'', ''COVERAGE_CONTROL_REMOVED'',
     ''EXCEPTION_SWALLOWED'']"

definition integrity_finding :: "pyval \<Rightarrow> string list" where
  "integrity_finding v =
     (case v of
        PDict d \<Rightarrow>
          (let severity = str_upper (or_text (dget ''severity'' d)); code = or_text (dget ''code'' d) in
           err_if (severity \<in> {''BLOCK'', ''BLOCKED''} \<or> code \<in> set weakening_codes)
             (''BLOCKED: TEST_WEAKENING:'' @ (if code = [] then ''UNSPECIFIED'' else code)))
      | _ \<Rightarrow> [''test-integrity finding must be an object''])"

definition integrity_flags :: "(string \<times> string) list" where
  "integrity_flags = [(''assertion_weakened'', ''assertion weakening''),
     (''mocked_failing_boundary'', ''failing boundary was mocked away''),
     (''blocking_test_nonblocking'', ''blocking test was made non-blocking''),
     (''failure_hidden'', ''test failure was hidden''), (''coverage_lowered'', ''coverage was lowered'')]"

definition validate_test_integrity :: "pyval \<Rightarrow> string list" where
  "validate_test_integrity metadata =
     (let m = as_dict metadata; findings = or_list (py_or (dget ''findings'' m) (dget ''integrity_findings'' m)) in
      sorted_set (
        (if \<not> is_list findings then [''test-integrity findings must be an array'']
         else concat (map integrity_finding (as_list findings))) @
        concat (map (\<lambda>(f, t). err_if (dget f m = PBool True) (''BLOCKED: '' @ t)) integrity_flags) @
        err_if (dget ''oracle_discriminates_bad_and_fixed'' m = PBool False) ''BLOCKED: INVALID_REGRESSION_TEST'' @
        err_if (dget ''same_sha_fail_pass'' m = PBool True) ''BLOCKED: FLAKY_SAME_SHA''))"

section \<open>Continuous integration, staging, regression\<close>

definition validate_ci_metadata :: "pyval \<Rightarrow> pyval \<Rightarrow> pyval \<Rightarrow> pyval \<Rightarrow> pyval \<Rightarrow> bool \<Rightarrow> string list" where
  "validate_ci_metadata metadata head diff_hash pr_head merged post_merge =
     (let m = as_dict metadata in
      sorted_set (
        err_if (\<not> py_eq (dget ''pr_head_sha'' m) (py_or pr_head head)) ''CI evidence must bind the exact final PR head SHA'' @
        err_if (\<not> py_eq (dget ''reviewed_diff_hash'' m) diff_hash) ''CI evidence must bind the final reviewed diff hash'' @
        err_if (\<not> truthy (dget ''workflow_run_id'' m)) ''CI evidence requires a protected workflow run identity'' @
        err_if (\<not> non_empty_list (dget ''required_checks'' m)) ''CI evidence requires required_checks'' @
        err_if (str_upper (or_text (dget ''conclusion'' m)) \<noteq> ''SUCCESS'') ''CI evidence must have SUCCESS conclusion'' @
        err_if (dget ''earlier_sha'' m \<noteq> PNone \<and> \<not> py_eq (dget ''earlier_sha'' m) (py_or merged head))
          ''Earlier-SHA CI evidence cannot satisfy final-head CI_PASS'' @
        (if post_merge \<or> merged \<noteq> PNone then
           err_if (\<not> py_eq (dget ''merged_main_sha'' m) merged) ''Post-merge CI must bind the exact merged-main SHA'' @
           err_if (\<not> truthy (dget ''post_merge_ci_run_id'' m)) ''Post-merge CI requires post_merge_ci_run_id''
         else [])))"

definition validate_staging_metadata :: "pyval \<Rightarrow> pyval \<Rightarrow> pyval \<Rightarrow> string list" where
  "validate_staging_metadata metadata head artifact =
     (let m = as_dict metadata in
      sorted_set (
        err_if (\<not> py_eq (dget ''candidate_head_sha'' m) head) ''STAGING_PASS must bind the exact reviewed candidate SHA'' @
        err_if (\<not> py_eq (dget ''artifact_digest'' m) artifact) ''STAGING_PASS must bind the exact candidate artifact digest'' @
        err_if (\<not> py_eq (dget ''environment'' m) (PStr ''staging'')) ''STAGING_PASS requires a non-production staging environment'' @
        err_if (dget ''real_customer_pii'' m = PBool True \<or> dget ''real_financial_side_effects'' m = PBool True)
          ''STAGING_PASS forbids real customer PII and financial/legal side effects'' @
        concat (map (needs_true ''STAGING_PASS requires '' m)
          [''original_symptom_absent'', ''expected_behavior_present'', ''health_verified'', ''affected_workflow_verified''])))"

definition proven_preexisting :: "pyval \<Rightarrow> bool" where
  "proven_preexisting v \<longleftrightarrow> (case v of
     PDict d \<Rightarrow> py_eq (dget ''base_result'' d) (PStr ''FAIL'') \<and> py_eq (dget ''candidate_result'' d) (PStr ''FAIL'') \<and>
       truthy (dget ''oracle'' d)
   | _ \<Rightarrow> False)"

definition preexisting_errors :: "pyval \<Rightarrow> string list" where
  "preexisting_errors v =
     (if \<not> truthy v then []
      else if \<not> is_list v then [''preexisting_failures must be an array'']
      else concat (map (\<lambda>(i, x). err_if (\<not> proven_preexisting x)
        (''preexisting_failures/'' @ index_text i @ '' requires exact base and candidate proof'')) (enumerate_from 0 (as_list v))))"

definition validate_full_regression_metadata :: "pyval \<Rightarrow> pyval \<Rightarrow> pyval \<Rightarrow> string list" where
  "validate_full_regression_metadata metadata base candidate =
     (let m = as_dict metadata in
      sorted_set (
        err_if (\<not> py_eq (dget ''protected_base_sha'' m) base) ''Full regression evidence must bind the exact protected base SHA'' @
        err_if (\<not> py_eq (dget ''candidate_head_sha'' m) candidate) ''Full regression evidence must bind the exact candidate SHA'' @
        err_if (\<not> non_empty_list (py_or (dget ''test_layers'' m) (dget ''checks'' m))) ''Full regression evidence requires test_layers'' @
        err_if (str_upper (or_text (py_or (dget ''conclusion'' m) (dget ''result'' m))) \<notin> {''PASS'', ''PASSED'', ''SUCCESS''})
          ''Full regression evidence must have a passing conclusion'' @
        preexisting_errors (dget ''preexisting_failures'' m) @
        err_if (dget ''earlier_sha'' m \<noteq> PNone \<and> \<not> py_eq (dget ''earlier_sha'' m) candidate)
          ''Earlier-SHA regression evidence cannot satisfy final-candidate validation''))"

section \<open>Release and production\<close>

definition exposure_strategies :: "string list" where
  "exposure_strategies = [''FEATURE_FLAG'', ''BLUE_GREEN'', ''CANARY'', ''TENANT_LIMITED'', ''BRANCH_LIMITED'', ''READ_ONLY'',
     ''WRITE_GATE'']"

definition validate_progressive_exposure :: "pyval \<Rightarrow> pyval \<Rightarrow> string list res" where
  "validate_progressive_exposure metadata risk_class =
     (let m = as_dict metadata in
      bind_res (in_names risk_class [''HIGH'', ''CRITICAL'']) (\<lambda>high.
      if \<not> high then Inr []
      else bind_res (in_names (dget ''strategy'' m) exposure_strategies) (\<lambda>strategy. Inr (sorted_set (
        err_if (\<not> strategy) ''High-risk exposure requires an explicit progressive strategy'' @
        err_if (blank (dget ''rollback_trigger'' m)) ''High-risk exposure requires a rollback trigger'' @
        err_if (\<not> truthy (dget ''stop_conditions'' m)) ''High-risk exposure requires stop conditions'' @
        err_if (blank (dget ''scope_limit'' m)) ''High-risk exposure requires a bounded exposure scope'' @
        (if risk_class = PStr ''CRITICAL'' then
           err_if (dget ''write_gate'' m \<noteq> PBool True) ''Critical exposure requires an explicit write gate'' @
           err_if (blank (dget ''owner_stop_condition'' m)) ''Critical exposure requires an owner stop condition''
         else []) @
        err_if (truthy (dget ''rollback_trigger'' m) \<and> \<not> exact_digest (dget ''rollback_trigger_hash'' m))
          ''Progressive exposure rollback trigger requires a deterministic sha256 hash'')))))"

definition validate_production_release_metadata :: "pyval \<Rightarrow> pyval \<Rightarrow> pyval \<Rightarrow> pyval \<Rightarrow> pyval \<Rightarrow> string list" where
  "validate_production_release_metadata metadata head artifact merged pr_head =
     (let m = as_dict metadata; expected = py_or merged head; pre = ''Production release evidence requires '' in
      sorted_set (
        err_if (merged \<noteq> PNone \<and> \<not> truthy pr_head) ''Production release subject is missing the reviewed PR head'' @
        err_if (merged \<noteq> PNone \<and> \<not> py_eq (dget ''pr_head_sha'' m) pr_head)
          ''Production release must retain the exact reviewed PR head provenance'' @
        err_if (\<not> py_eq (dget ''reviewed_main_sha'' m) expected \<or> \<not> py_eq (dget ''deployed_revision'' m) expected)
          ''Production release must bind the exact merged-main revision; PR head and merged-main are not interchangeable'' @
        err_if (\<not> py_eq (dget ''artifact_digest'' m) artifact) ''Production release must bind the exact validated artifact digest'' @
        err_if (\<not> py_eq (dget ''environment'' m) (PStr ''production''))
          ''Production release evidence requires the production environment'' @
        concat (map (needs_field pre m) [''workflow_run_id'', ''deployment_receipt'', ''occurred_at'', ''production_release_id'']) @
        err_if (dget ''protected_workflow'' m \<noteq> PBool True) ''Production release evidence requires a protected workflow'' @
        concat (map (\<lambda>f. err_if (f \<in> set (dkeys m) \<and> \<not> truthy (dget f m)) (pre @ f @ '' when declared''))
          [''release_id'', ''receipt_hash''])))"

definition health_fields :: "string list" where
  "health_fields = [''error_rate'', ''latency'', ''api_errors'', ''queue_health'', ''database_health'', ''provider_health'',
     ''auth_health'', ''financial_anomalies'', ''zatca_anomalies'']"

definition verified_fields :: "string list" where
  "verified_fields = [''original_symptom_absent'', ''expected_behavior_present'', ''health_verified'',
     ''synthetic_transaction_safe'', ''observation_window_complete'']"

definition validate_post_deploy_metadata :: "pyval \<Rightarrow> pyval \<Rightarrow> pyval \<Rightarrow> string list" where
  "validate_post_deploy_metadata metadata artifact revision =
     (let m = as_dict metadata in
      sorted_set (
        err_if (\<not> py_eq (dget ''deployed_artifact_digest'' m) artifact)
          ''POST_DEPLOY_VERIFIED must bind the exact deployed artifact digest'' @
        err_if (revision \<noteq> PNone \<and> \<not> py_eq (dget ''deployed_revision'' m) revision)
          ''POST_DEPLOY_VERIFIED must bind the exact deployed revision'' @
        concat (map (needs_true ''POST_DEPLOY_VERIFIED requires '' m) verified_fields) @
        concat (map (\<lambda>f. err_if (f \<notin> set (dkeys m)) (''POST_DEPLOY_VERIFIED requires adjacent health field '' @ f)) health_fields) @
        err_if (dget ''safety_uncertain'' m = PBool True \<or> dget ''original_problem_persists'' m = PBool True)
          ''ROLLBACK_REQUIRED: production safety is not proven''))"

definition validate_synthetic_transaction_metadata :: "pyval \<Rightarrow> string list" where
  "validate_synthetic_transaction_metadata metadata =
     (let m = as_dict metadata in
      sorted_set (
        err_if (dget ''synthetic_transaction_safe'' m \<noteq> PBool True)
          ''SYNTHETIC_TRANSACTION requires synthetic_transaction_safe=true'' @
        concat (map (needs_text ''SYNTHETIC_TRANSACTION requires '' m)
          [''transaction_id'', ''environment'', ''side_effect_policy'', ''result_hash'']) @
        err_if (\<not> py_eq (dget ''environment'' m) (PStr ''production''))
          ''SYNTHETIC_TRANSACTION must identify the production environment''))"

definition validate_observation_window_metadata :: "pyval \<Rightarrow> string list" where
  "validate_observation_window_metadata metadata =
     (let m = as_dict metadata in
      sorted_set (
        err_if (dget ''observation_window_complete'' m \<noteq> PBool True)
          ''OBSERVATION_WINDOW requires observation_window_complete=true'' @
        concat (map (\<lambda>f. err_if (missing_value (dget f m) \<or>
            f \<in> {''duration_seconds'', ''sample_count''} \<and> below (dget f m) 1) (''OBSERVATION_WINDOW requires '' @ f))
          [''window_id'', ''started_at'', ''ended_at'', ''duration_seconds'', ''sample_count'', ''health_summary_hash''])))"

section \<open>Artifacts and packages\<close>

definition validate_artifact_chain :: "pyval \<Rightarrow> pyval \<Rightarrow> pyval \<Rightarrow> pyval \<Rightarrow> string list" where
  "validate_artifact_chain metadata head artifact merged =
     (let m = as_dict metadata in
      sorted_set (
        err_if (\<not> py_eq (dget ''source_sha'' m) (py_or merged head)) ''Artifact chain source SHA does not match the exact active subject'' @
        err_if (merged \<noteq> PNone \<and> \<not> py_eq (dget ''merged_main_sha'' m) merged)
          ''Artifact chain must bind merged_main_sha, not only the PR head'' @
        err_if (\<not> py_eq (dget ''artifact_digest'' m) artifact) ''Artifact chain digest does not match the lifecycle artifact'' @
        concat (map (\<lambda>f. err_if (\<not> exact_digest (dget f m)) (''Artifact chain requires '' @ f))
          [''release_fingerprint'', ''sbom_digest'', ''provenance_digest'', ''attestation_digest'']) @
        err_if (blank (dget ''artifact_identity'' m)) ''Artifact chain requires immutable artifact_identity'' @
        err_if (dget ''rebuilt_after_validation'' m = PBool True) ''Validated subject cannot be rebuilt into different bytes'' @
        err_if (dget ''mutable_tag_only'' m = PBool True) ''Mutable tag cannot be the sole artifact identity''))"

definition package_subject_errors :: "pyval \<Rightarrow> pyval \<Rightarrow> pyval \<Rightarrow> pyval \<Rightarrow> string list res" where
  "package_subject_errors metadata head artifact merged =
     (let m = as_dict metadata in
      bind_res (in_names (dget ''delivery_model'' m) [''PACKAGE_OR_PLUGIN'', ''HYBRID'']) (\<lambda>model.
      Inr (sorted_set (
        validate_artifact_chain metadata head artifact merged @
        err_if (\<not> exact_digest artifact) ''Package evidence requires an exact lifecycle artifact digest'' @
        err_if (\<not> exact_digest (dget ''artifact_digest'' m)) ''Package evidence requires an exact artifact digest'' @
        err_if (\<not> model) ''Package evidence must declare PACKAGE_OR_PLUGIN or HYBRID delivery'' @
        concat (map (needs_text ''Package evidence requires '' m) [''release_tag'', ''source_sha'', ''artifact_identity'']) @
        err_if (dget ''runtime_deployment'' m = PBool True) ''Package evidence cannot claim runtime deployment'' @
        err_if (truthy (dget ''production_release_id'' m) \<or> truthy (dget ''deployed_revision'' m))
          ''Package evidence cannot carry production identity fields''))))"

definition validate_package_release_metadata :: "pyval \<Rightarrow> pyval \<Rightarrow> pyval \<Rightarrow> pyval \<Rightarrow> string list res" where
  "validate_package_release_metadata = package_subject_errors"

text \<open>The digest test of a map reads \<open>str(digest)\<close>, so only exact digests pass.\<close>

definition digest_map_errors :: "string \<Rightarrow> pydict \<Rightarrow> string list" where
  "digest_map_errors e d = concat (map (\<lambda>(name, v). err_if (str_strip name = [] \<or> \<not> digest_text (py_str v)) e) d)"

definition validate_published_asset_metadata :: "pyval \<Rightarrow> pyval \<Rightarrow> pyval \<Rightarrow> pyval \<Rightarrow> string list res" where
  "validate_published_asset_metadata metadata head artifact merged =
     (let m = as_dict metadata; published = dget ''published_asset_digests'' m in
      bind_res (package_subject_errors metadata head artifact merged) (\<lambda>base.
      bind_res (if non_empty_dict published \<and> exact_digest artifact \<and> (\<exists>v \<in> snd ` set (as_dict published). \<not> hashable v)
        then Inl (TypeError ''unhashable type'') else Inr ()) (\<lambda>_.
      Inr (sorted_set (base @
        (if \<not> non_empty_dict published then [''Published asset verification requires a non-empty digest map'']
         else digest_map_errors ''Every published asset must have an exact SHA256 digest'' (as_dict published) @
           err_if (\<not> exact_digest artifact \<or> \<not> (\<exists>v \<in> snd ` set (as_dict published). py_eq artifact v))
             ''Published assets must include the exact lifecycle artifact digest'') @
        err_if (dget ''published_from_protected_build'' m \<noteq> PBool True)
          ''Published assets must come from the protected build without a rebuild'' @
        err_if (dget ''rebuild_after_validation'' m = PBool True)
          ''Published asset verification rejects a rebuild after validation'')))))"

definition archive_kinds :: "pyval \<Rightarrow> pyval" where
  "archive_kinds v = (case v of PStr s \<Rightarrow> PList [PStr s] | _ \<Rightarrow> v)"

definition consumer_flags :: "string list" where
  "consumer_flags = [''clean_environment'', ''source_checkout_leakage_absent'', ''version_verified'', ''install_success'',
     ''packaged_regressions_passed'', ''security_modules_present'', ''schemas_policies_included'']"

definition validate_consumer_validation_metadata :: "pyval \<Rightarrow> pyval \<Rightarrow> string list" where
  "validate_consumer_validation_metadata metadata artifact =
     (let m = as_dict metadata; kinds = archive_kinds (dget ''archive_kind'' m); digests = dget ''consumer_artifact_digests'' m in
      sorted_set (
        err_if (\<not> exact_digest artifact) ''Consumer validation requires an exact lifecycle artifact digest'' @
        err_if (\<not> exact_digest (dget ''artifact_digest'' m) \<or> \<not> py_eq (dget ''artifact_digest'' m) artifact)
          ''Consumer validation must bind the exact released artifact digest'' @
        err_if (\<not> non_empty_list kinds \<or> (\<exists>k \<in> set (as_list kinds). str_strip (py_str k) = []))
          ''Consumer validation requires the exact archive kind'' @
        concat (map (\<lambda>f. err_if (dget f m \<noteq> PBool True) (''Consumer validation requires '' @ f @ ''=true'')) consumer_flags) @
        (if \<not> non_empty_dict digests then [''Consumer validation requires exact consumer artifact digests'']
         else digest_map_errors ''Consumer artifact digests must be exact SHA256 values'' (as_dict digests)) @
        err_if (dget ''runtime_deployment'' m = PBool True \<or> dget ''production_health'' m = PBool True)
          ''Consumer package validation cannot claim runtime production evidence''))"

end
