(* ===== verification/Diff_Forensics.thy ===== *)
theory Diff_Forensics
  imports Bug_Policy
begin

text \<open>
  \<open>toolkit/ztad/diff_forensics.py\<close> and \<open>validate_diff_forensics\<close> of \<open>bug_protocol.py\<close>: the
  inventory of a change that Git reports, sealed by a hash, and the review record that has to agree
  with it file by file. Also \<open>safe_relative_path\<close> of \<open>util.py\<close>, the path check the inventory uses.
  Git is a parameter: revisions, changed paths and the bytes of a diff.
\<close>

section \<open>Relative paths\<close>

text \<open>The parts of a \<open>PurePosixPath\<close>: empty and \<open>.\<close> segments are dropped.\<close>

definition posix_parts :: "string \<Rightarrow> string list" where
  "posix_parts s = filter (\<lambda>p. p \<noteq> [] \<and> p \<noteq> ''.'') (split_on (CHR ''/'') s)"

definition as_posix :: "string list \<Rightarrow> string" where
  "as_posix parts = (if parts = [] then ''.'' else join_with ''/'' parts)"

definition is_letter :: "char \<Rightarrow> bool" where
  "is_letter c \<longleftrightarrow> (let n = (of_char (ascii_lower c) :: nat) in 97 \<le> n \<and> n \<le> 122)"

definition has_drive :: "string \<Rightarrow> bool" where
  "has_drive s \<longleftrightarrow> (case s of c # d # _ \<Rightarrow> is_letter c \<and> d = CHR '':'' | _ \<Rightarrow> False)"

definition safe_relative_path :: "string \<Rightarrow> string res" where
  "safe_relative_path raw =
     (let s = slashes raw in
      if CHR 0x00 \<in> set s then Inl (ValueError ''NUL byte in path'')
      else if starts_with ''/'' s \<or> has_drive s then Inl (ValueError (''Absolute path is not allowed: '' @ raw))
      else if ''..'' \<in> set (posix_parts s) then Inl (ValueError (''Unsafe path segment: '' @ raw))
      else Inr (as_posix (posix_parts s)))"

section \<open>Inventories\<close>

record changed_path =
  cp_path :: string
  cp_status :: string
  cp_old :: "string option"

record git_repository =
  gr_rev_parse :: "string \<Rightarrow> string res"
  gr_changed :: "string \<Rightarrow> string \<Rightarrow> changed_path list res"
  gr_diff :: "string \<Rightarrow> string \<Rightarrow> string res"

definition inventory_body :: "pyval \<Rightarrow> pyval \<Rightarrow> pyval \<Rightarrow> pyval \<Rightarrow> pydict" where
  "inventory_body base candidate diff_hash files =
     [(''base_sha'', base), (''candidate_sha'', candidate), (''diff_hash'', diff_hash), (''files'', files)]"

definition inventory_hash :: "(string \<Rightarrow> string) \<Rightarrow> pydict \<Rightarrow> string" where
  "inventory_hash sha d = sha256_json sha (PDict (inventory_body (dget ''base_sha'' d) (dget ''candidate_sha'' d)
     (dget ''diff_hash'' d) (dget ''files'' d)))"

definition file_entry :: "changed_path \<Rightarrow> pyval" where
  "file_entry p = PDict [(''path'', PStr (cp_path p)), (''status'', PStr (cp_status p)), (''old_path'', opt_str (cp_old p))]"

definition collect_git_diff_inventory ::
  "(string \<Rightarrow> string) \<Rightarrow> git_repository \<Rightarrow> string \<Rightarrow> string \<Rightarrow> pydict res" where
  "collect_git_diff_inventory sha repo base candidate =
     bind_res (gr_rev_parse repo base) (\<lambda>b.
     bind_res (gr_rev_parse repo candidate) (\<lambda>c.
     bind_res (gr_changed repo b c) (\<lambda>changed.
     bind_res (gr_diff repo b c) (\<lambda>diff.
       let body = inventory_body (PStr b) (PStr c) (PStr (sha256_bytes sha diff)) (PList (map file_entry changed)) in
       Inr (body @ [(''inventory_hash'', PStr (inventory_hash sha body))])))))"

definition unsafe_path :: "string \<Rightarrow> bool" where
  "unsafe_path p \<longleftrightarrow> \<not> ok (safe_relative_path p)"

definition old_path_errors :: "pyval \<Rightarrow> string list" where
  "old_path_errors v = err_if (v \<noteq> PNone \<and> unsafe_path (py_str v)) (''Git diff inventory old path is unsafe: '' @ py_str v)"

definition inventory_file :: "nat \<times> pyval \<Rightarrow> string list \<times> string list \<Rightarrow> string list \<times> string list" where
  "inventory_file entry st =
     (case (entry, st) of ((i, v), (seen, errors)) \<Rightarrow>
        (case v of
           PDict d \<Rightarrow>
             if \<not> truthy (dget ''path'' d) then (seen, errors @ [''Git diff inventory file '' @ index_text i @ '' is invalid''])
             else let path = py_str (dget ''path'' d) in
               (path # seen, errors @
                  err_if (unsafe_path path) (''Git diff inventory path is unsafe: '' @ path) @
                  err_if (path \<in> set seen) (''Git diff inventory contains a duplicate path: '' @ path) @
                  old_path_errors (dget ''old_path'' d) @
                  err_if (or_text (dget ''status'' d) = []) (''Git diff inventory status is required for '' @ path))
         | _ \<Rightarrow> (seen, errors @ [''Git diff inventory file '' @ index_text i @ '' is invalid''])))"

definition inventory_fields :: "string list" where
  "inventory_fields = [''base_sha'', ''candidate_sha'', ''diff_hash'', ''inventory_hash'', ''files'']"

definition validate_git_inventory :: "(string \<Rightarrow> string) \<Rightarrow> pyval \<Rightarrow> string list" where
  "validate_git_inventory sha inventory =
     (case inventory of
        PDict d \<Rightarrow>
          (let missing = concat (map (\<lambda>f. err_if (f \<notin> set (dkeys d)) (''Git diff inventory requires '' @ f)) inventory_fields) in
           case dget ''files'' d of
             PList files \<Rightarrow> sorted_set (missing @
               snd (fold inventory_file (enumerate_from 0 files) ([], [])) @
               err_if (\<not> py_eq (dget ''inventory_hash'' d) (PStr (inventory_hash sha d))) ''Git diff inventory hash is invalid'')
           | _ \<Rightarrow> sorted_set (missing @ [''Git diff inventory files must be an array'']))
      | _ \<Rightarrow> [''DIFF_FORENSICS_PASS requires a machine-generated Git inventory''])"

definition compare_git_inventory :: "(string \<Rightarrow> string) \<Rightarrow> pydict \<Rightarrow> pydict \<Rightarrow> string list" where
  "compare_git_inventory sha metadata actual =
     (let errors = validate_git_inventory sha (PDict actual) @ validate_git_inventory sha (dget ''git_inventory'' metadata) in
      if errors \<noteq> [] then sorted_set errors
      else err_if (\<not> py_eq (dget ''git_inventory'' metadata) (PDict actual))
        ''DIFF_FORENSICS_PASS metadata does not match the machine-generated Git inventory'')"

section \<open>The review of a diff\<close>

record forensics_subject =
  fs_planned :: pyval
  fs_diff_hash :: pyval
  fs_base :: pyval
  fs_candidate :: pyval
  fs_actual :: "pydict option"

definition file_fields :: "string list" where
  "file_fields = [''planned'', ''security_impact'', ''data_domain_impact'', ''generated'', ''category'']"

definition reviewed_file_errors :: "nat \<times> pyval \<Rightarrow> string list" where
  "reviewed_file_errors entry =
     (case entry of (i, v) \<Rightarrow>
        err_if (\<not> truthy (dget ''path'' (as_dict v)) \<or> \<not> truthy (dget ''justification'' (as_dict v)))
          (''DIFF_FORENSICS_PASS requires a justification for changed file '' @ index_text i) @
        (case v of
           PDict d \<Rightarrow>
             concat (map (\<lambda>f. err_if (f \<notin> set (dkeys d)) (''DIFF_FORENSICS_PASS requires '' @ f @ '' for '' @
               py_str (dget_default ''path'' (PInt (int i)) d))) file_fields) @
             err_if (dget ''unexpected'' d = PBool True)
               (''Unexpected changed file requires re-planning: '' @ py_str (dget ''path'' d))
         | _ \<Rightarrow> []))"

definition reviewed_files :: "pydict \<Rightarrow> pyval" where
  "reviewed_files m = py_or (dget ''files'' m) (dget ''changed_files'' m)"

definition forensics_shape_errors :: "pydict \<Rightarrow> string list" where
  "forensics_shape_errors m =
     (let files = reviewed_files m; domains = dget ''actual_domains'' m;
          unknown = minus_names (map (\<lambda>x. str_upper (py_str x)) (as_list domains)) known_domains in
      (case files of
         PNone \<Rightarrow> [''DIFF_FORENSICS_PASS requires the complete actual changed-file list'']
       | PList vs \<Rightarrow> concat (map reviewed_file_errors (enumerate_from 0 vs))
       | _ \<Rightarrow> [''diff forensics files must be an array'']) @
      err_if (dget ''complete_changed_file_list'' m \<noteq> PBool True) ''DIFF_FORENSICS_PASS requires complete_changed_file_list=true'' @
      err_if (\<not> is_list (dget ''actual_changed_files'' m)) ''DIFF_FORENSICS_PASS requires actual_changed_files'' @
      err_if (\<not> is_list (dget ''allowed_scope'' m)) ''DIFF_FORENSICS_PASS requires allowed_scope'' @
      err_if (\<not> known_risk (str_upper (or_text (dget ''actual_risk'' m)))) ''DIFF_FORENSICS_PASS requires a valid actual_risk classification'' @
      (if \<not> non_empty_list domains then [''DIFF_FORENSICS_PASS requires actual_domains'']
       else err_if (unknown \<noteq> []) (''DIFF_FORENSICS_PASS contains unknown actual domains: '' @ commas unknown)) @
      err_if (blank (dget ''analysis_method'' m)) ''DIFF_FORENSICS_PASS requires analysis_method'')"

definition strict_inventory :: "pydict \<Rightarrow> forensics_subject \<Rightarrow> bool" where
  "strict_inventory m s \<longleftrightarrow> fs_diff_hash s \<noteq> PNone \<or> dget ''require_git_inventory'' m = PBool True"

definition differs :: "pyval \<Rightarrow> pyval \<Rightarrow> bool" where
  "differs expected v \<longleftrightarrow> expected \<noteq> PNone \<and> \<not> py_eq v expected"

definition inventory_errors :: "(string \<Rightarrow> string) \<Rightarrow> pydict \<Rightarrow> forensics_subject \<Rightarrow> string list" where
  "inventory_errors sha m s =
     (let inventory = dget ''git_inventory'' m in
      if \<not> strict_inventory m s then []
      else validate_git_inventory sha inventory @
        (case fs_actual s of None \<Rightarrow> [] | Some a \<Rightarrow> err_if (\<not> py_eq inventory (PDict a))
           ''DIFF_FORENSICS_PASS metadata does not match the actual Git inventory'') @
        (case inventory of
           PDict d \<Rightarrow>
             err_if (differs (fs_base s) (dget ''base_sha'' d)) ''DIFF_FORENSICS_PASS must bind the exact protected base SHA'' @
             err_if (differs (fs_candidate s) (dget ''candidate_sha'' d)) ''DIFF_FORENSICS_PASS must bind the exact candidate SHA'' @
             err_if (differs (fs_diff_hash s) (dget ''diff_hash'' d)) ''DIFF_FORENSICS_PASS Git inventory diff hash mismatch''
         | _ \<Rightarrow> []))"

definition path_names :: "pyval list \<Rightarrow> string list" where
  "path_names vs = concat (map (\<lambda>v. case v of PDict d \<Rightarrow> if truthy (dget ''path'' d) then [py_str (dget ''path'' d)] else [] | _ \<Rightarrow> []) vs)"

definition scope_checks :: "pydict \<Rightarrow> forensics_subject \<Rightarrow> string list \<Rightarrow> string list \<Rightarrow> string list \<Rightarrow> string list \<Rightarrow> string list" where
  "scope_checks m s planned changed declared allowed =
     (let replanned = (dget ''scope_replanned'' m = PBool True) in
      err_if (set declared \<noteq> set changed)
        ''DIFF_FORENSICS_PASS actual_changed_files must exactly match the per-file forensic records'' @
      err_if (allowed \<noteq> [] \<and> \<not> set changed \<subseteq> set allowed \<and> \<not> replanned)
        ''DIFF_FORENSICS_PASS contains a file outside allowed_scope; replan is required'' @
      err_if (planned \<noteq> [] \<and> \<not> set changed \<subseteq> set planned \<and> \<not> replanned)
        ''Material diff scope expansion must return to CHANGE_PLANNED'' @
      (case dget ''files'' (as_dict (dget ''git_inventory'' m)) of
         PList fs \<Rightarrow> if strict_inventory m s then
             err_if (set changed \<noteq> set (path_names fs))
               ''DIFF_FORENSICS_PASS file records must exactly match Git's changed-file set'' @
             err_if (set declared \<noteq> set (path_names fs))
               ''DIFF_FORENSICS_PASS actual_changed_files must exactly match Git's changed-file set''
           else []
       | _ \<Rightarrow> []))"

definition blocking_flags :: "string list" where
  "blocking_flags = [''test_weakening'', ''secret_detected'', ''pii_logging'', ''fail_open'', ''tenant_scope_changed'',
     ''permission_changed_unplanned'', ''migration_unplanned'', ''debug_statements'', ''dependency_unplanned'',
     ''api_contract_changed_unplanned'']"

definition validate_diff_forensics :: "(string \<Rightarrow> string) \<Rightarrow> pyval \<Rightarrow> forensics_subject \<Rightarrow> string list res" where
  "validate_diff_forensics sha metadata s =
     (let m = as_dict metadata in
      bind_res (str_items (fs_planned s)) (\<lambda>planned.
      bind_res (py_list (or_list (reviewed_files m))) (\<lambda>files.
      bind_res (str_items (or_list (dget ''actual_changed_files'' m))) (\<lambda>declared.
      bind_res (str_items (or_list (dget ''allowed_scope'' m))) (\<lambda>allowed.
        Inr (sorted_set (
          forensics_shape_errors m @
          err_if (differs (fs_diff_hash s) (dget ''reviewed_diff_hash'' m)) ''DIFF_FORENSICS_PASS must bind the exact reviewed diff hash'' @
          inventory_errors sha m s @
          scope_checks m s planned (path_names files) declared allowed @
          concat (map (\<lambda>k. err_if (dget k m = PBool True) (''BLOCKED: DIFF_FORENSICS:'' @ k)) blocking_flags))))))))"

section \<open>Paths and inventories\<close>

lemma split_on_parts: "p \<in> set (posix_parts s) \<Longrightarrow> CHR ''/'' \<notin> set p \<and> p \<noteq> [] \<and> p \<noteq> ''.''"
  by (auto simp: posix_parts_def dest: split_on_notin)

lemma posix_parts_as_posix: "posix_parts (as_posix (posix_parts s)) = posix_parts s"
proof (cases "posix_parts s = []")
  case True
  have "posix_parts ''.'' = []" by (simp add: posix_parts_def)
  with True show ?thesis by (simp add: as_posix_def)
next
  case False
  have "\<forall>p \<in> set (posix_parts s). CHR ''/'' \<notin> set p" using split_on_parts by blast
  from split_join [OF False this]
  have "split_on (CHR ''/'') (join_with ''/'' (posix_parts s)) = posix_parts s" .
  moreover have "filter (\<lambda>p. p \<noteq> [] \<and> p \<noteq> ''.'') (posix_parts s) = posix_parts s"
    by (rule filter_True) (use split_on_parts in blast)
  ultimately show ?thesis using False by (simp add: as_posix_def posix_parts_def)
qed

lemma collected_valid_hash:
  assumes "collect_git_diff_inventory sha repo base candidate = Inr d"
  shows "dget ''inventory_hash'' d = PStr (inventory_hash sha d)"
  using assms by (auto simp: collect_git_diff_inventory_def bind_res_Inr Let_def inventory_body_def inventory_hash_def dkeys_def)

end
