(* ===== verification/Bug_Gates.thy ===== *)
theory Bug_Gates
  imports Bug_Evidence Diff_Forensics Problem_Handoff Life_Verify
begin

text \<open>
  The gates of \<open>toolkit/ztad/bug_lifecycle.py\<close>: what a transition of the bug lifecycle needs from the
  problem case, from the policy and from the metadata of the evidence, and
  \<open>evaluate_bug_transition\<close>, which puts these checks together with the evaluation of the required
  evidence. The lifecycle schema, the evidence schema, the repository at the given root and the
  directories of the host are parameters. Evidence types of a policy are texts.
\<close>

section \<open>Inputs\<close>

record repository_root =
  rr_tree :: "source_tree option"
  rr_git :: git_repository

record gate_inputs =
  gi_policy :: pydict
  gi_lifecycle_schema :: "pydict \<Rightarrow> string list res"
  gi_problem :: "pydict option"
  gi_records :: "pydict list"
  gi_schema :: "(pydict \<Rightarrow> string list) option"
  gi_roots :: "trust_value option"
  gi_root :: "repository_root option"
  gi_directory :: "string \<Rightarrow> source_tree option option"

definition problem_phases :: "(string \<times> int) list" where
  "problem_phases = [(''UNVERIFIED_REPORT'', 0), (''SOURCE_OF_TRUTH_RESOLVED'', 1), (''ISSUE_CLASSIFIED'', 2),
     (''BUG_REPRODUCED'', 3), (''ROOT_CAUSE_PROVEN'', 4), (''BLAST_RADIUS_MAPPED'', 5), (''CHANGE_PLANNED'', 6)]"

definition case_equivalents :: "(string \<times> int) list" where
  "case_equivalents = problem_phases @ [(''REGRESSION_BASELINE_PROVEN'', 6), (''HANDOFF_READY'', 6)]"

definition exposed_states :: "string list" where
  "exposed_states = [''PRODUCTION_RELEASED'', ''POST_DEPLOY_VERIFIED'', ''ROLLBACK_REQUIRED'']"

definition runtime_gate_states :: "string list" where
  "runtime_gate_states = [''STAGING_PASS'', ''READY_FOR_OWNER_RELEASE'', ''PRODUCTION_RELEASED'', ''POST_DEPLOY_VERIFIED'']"

definition class_rank :: "string \<Rightarrow> int" where
  "class_rank c = (case map_of risk_class_order c of Some n \<Rightarrow> n | None \<Rightarrow> -1)"

definition effective_problem_risk_class :: "pydict \<Rightarrow> pyval \<Rightarrow> pydict \<Rightarrow> string res" where
  "effective_problem_risk_class problem domains policy =
     bind_res (derive_risk_class (dget ''risk'' problem) domains [] [] (PDict policy)) (\<lambda>derived.
       let declared = dget ''risk_class'' problem; value = str_upper (py_str declared) in
       if declared = PNone then Inr derived
       else if value \<notin> set (map fst risk_class_order) then Inl (ValueError ''problem_case.risk_class is invalid'')
       else Inr (first_max class_rank derived [value]))"

definition logical_current :: "pydict \<Rightarrow> string" where
  "logical_current r = (if py_eq (dget ''state'' r) (PStr ''BLOCKED'')
     then py_str (py_or (dget ''resume_state'' r) (dget ''last_completed_state'' r)) else py_str (dget ''state'' r))"

definition delivery_of :: "pydict \<Rightarrow> string" where
  "delivery_of r = py_str (py_or (dget ''delivery_model'' r) (PStr ''HOSTED_RUNTIME_SERVICE''))"

definition class_of :: "pydict \<Rightarrow> pyval \<Rightarrow> string" where
  "class_of r level = (if truthy (dget ''risk_class'' r) then py_str (dget ''risk_class'' r)
     else case risk_class_for_level level of Some c \<Rightarrow> c | None \<Rightarrow> ''LOW'')"

text \<open>The subject the evidence of a record must be bound to, when the record names a complete and valid one.\<close>

definition candidate_fields :: "string list" where
  "candidate_fields = [''repository'', ''protected_base_sha'', ''pr_head_sha'', ''reviewed_diff_hash'',
     ''change_contract_hash'', ''policy_bundle_hash'', ''toolchain_hash'']"

definition gate_subject :: "(string \<Rightarrow> string) \<Rightarrow> pydict \<Rightarrow> pydict option res" where
  "gate_subject sha r =
     bind_res (subject_from_record r) (\<lambda>s.
       if \<exists>f \<in> set candidate_fields. \<not> truthy (dget f s) then Inr None
       else bind_res (validate_subject sha s (truthy (dget ''merged_main_sha'' s))) (\<lambda>(errors, _).
         Inr (if errors \<noteq> [] then None else Some (filter (\<lambda>(_, v). v \<noteq> PNone) s))))"

section \<open>The problem case\<close>

definition problem_phase_errors :: "pydict \<Rightarrow> string \<Rightarrow> pydict option \<Rightarrow> pydict \<Rightarrow> string list res" where
  "problem_phase_errors r target problem policy =
     (case (map_of problem_phases target, problem) of
        (None, _) \<Rightarrow> Inr []
      | (Some rank, None) \<Rightarrow> Inr [''problem_case is required for investigation lifecycle transitions'']
      | (Some rank, Some p) \<Rightarrow>
          (let actual = (case map_of case_equivalents (or_text (dget ''state'' p)) of Some n \<Rightarrow> n | None \<Rightarrow> -1) in
           sorted_errs
            [says (\<not> py_eq (dget ''case_id'' p) (dget ''case_id'' r)) ''problem case ID mismatch'',
             says (\<not> py_eq (dget ''repository'' p) (dget ''repository'' r)) ''problem case repository mismatch'',
             says (truthy (dget ''base_sha'' r) \<and> \<not> py_eq (dget ''base_sha'' p) (dget ''base_sha'' r))
               ''problem case protected base SHA mismatch'',
             says (actual < rank) (''problem case state '' @ py_repr (dget ''state'' p) @
               '' does not prove required lifecycle state '' @ target),
             semantic_errors (dset ''state'' (PStr target) p) (Some target) (PDict policy)]))"

section \<open>What the policy requires\<close>

type_synonym requirement = "string \<times> string list"

definition type_names :: "pyval \<Rightarrow> string list res" where
  "type_names v = bind_res (py_set v) (\<lambda>vs.
     if \<forall>x \<in> set vs. is_str x then Inr (map text_of vs) else Inl (TypeError ''texts expected''))"

definition trust_rank :: "string \<Rightarrow> int" where
  "trust_rank t = trust_or t (-1)"

definition raise_to :: "string \<Rightarrow> string \<Rightarrow> string" where
  "raise_to minimum other = first_max trust_rank minimum [other]"

text \<open>\<open>(v or \<open>{}\<close>).get(key)\<close> for a key of any type.\<close>

definition get_by :: "pyval \<Rightarrow> pyval \<Rightarrow> pyval res" where
  "get_by key v = (if \<not> hashable key then Inl (TypeError ''unhashable type'')
     else bind_res (dict_get (text_of key) (or_dict v)) (\<lambda>w. Inr (if is_str key then w else PNone)))"

definition base_requirement :: "pydict \<Rightarrow> string \<Rightarrow> pydict \<Rightarrow> requirement res" where
  "base_requirement gate target r =
     (let minimum = py_str (dget_default ''minimum_trust'' (PStr ''E2'') gate); model = delivery_of r;
          package_gate = (target \<in> set package_lifecycle_states \<or> target = ''CLOSED'') in
      bind_res (type_names (dget ''required_evidence'' gate)) (\<lambda>required.
      bind_res (sub_get model (dget ''by_delivery_model'' gate)) (\<lambda>delivery.
      case delivery of
        PDict d \<Rightarrow>
          (let own = py_str (dget_default ''minimum_trust'' (PStr minimum) d) in
           bind_res (type_names (dget ''required_evidence'' d)) (\<lambda>extra.
             Inr (if model = ''PACKAGE_OR_PLUGIN'' \<and> package_gate then (own, extra)
                  else (raise_to minimum own, required @ extra))))
      | _ \<Rightarrow> Inr (minimum, required))))"

definition risk_requirement :: "pydict \<Rightarrow> string \<Rightarrow> requirement \<Rightarrow> requirement res" where
  "risk_requirement gate key q =
     (case q of (minimum, required) \<Rightarrow>
        bind_res (sub_get key (dget ''by_risk'' gate)) (\<lambda>v.
        case or_list v of
          PDict d \<Rightarrow>
            bind_res (type_names (dget ''required_evidence'' d)) (\<lambda>a.
            bind_res (type_names (dget ''required'' d)) (\<lambda>b.
              Inr (raise_to minimum (py_str (dget_default ''minimum_trust'' (PStr minimum) d)), required @ a @ b)))
        | w \<Rightarrow> bind_res (py_list w) (\<lambda>_. bind_res (type_names w) (\<lambda>a. Inr (minimum, required @ a)))))"

definition profile_check_states :: "string list" where
  "profile_check_states = [''TARGETED_VALIDATION_PASS'', ''REGRESSION_VALIDATION_PASS'', ''STAGING_PASS'',
     ''READY_FOR_OWNER_RELEASE'', ''PRODUCTION_RELEASED'', ''POST_DEPLOY_VERIFIED'']"

definition profile_of :: "pydict \<Rightarrow> pyval \<Rightarrow> pydict res" where
  "profile_of policy domain = bind_res (get_by domain (dget ''domain_profiles'' policy)) (\<lambda>v.
     case or_dict v of PDict d \<Rightarrow> Inr d | _ \<Rightarrow> Inl (AttributeError ''get''))"

definition domain_requirement :: "pydict \<Rightarrow> pydict \<Rightarrow> string \<Rightarrow> pyval \<Rightarrow> requirement \<Rightarrow> requirement res" where
  "domain_requirement policy gate target domain q =
     (case q of (minimum, required) \<Rightarrow>
        bind_res (get_by domain (dget ''by_domain'' gate)) (\<lambda>v. bind_res (type_names v) (\<lambda>a.
        bind_res (profile_of policy domain) (\<lambda>profile.
        bind_res (if target \<in> set profile_check_states then type_names (dget ''required_checks'' profile) else Inr []) (\<lambda>b.
          let own = py_str (dget_default ''minimum_trust'' (PStr []) profile) in
          Inr (if own \<noteq> [] \<and> trust_rank own > trust_rank minimum then own else minimum, required @ a @ b))))))"

definition hotfix_checks :: "pydict \<Rightarrow> pydict \<Rightarrow> pyval list \<Rightarrow> string list res" where
  "hotfix_checks policy r domains =
     (if \<not> py_eq (dget ''mode'' r) (PStr ''HOTFIX'') then Inr []
      else bind_res (sub_get ''may_reduce_validation_breadth'' (dget ''hotfix'' policy)) (\<lambda>v.
        if v \<noteq> PBool False then Inr []
        else fold_res (\<lambda>d names. bind_res (profile_of policy d) (\<lambda>p.
          bind_res (type_names (dget ''required_checks'' p)) (\<lambda>a. Inr (names @ a)))) domains []))"

definition merged_gate_states :: "string list" where
  "merged_gate_states = runtime_gate_states @ package_lifecycle_states @ [''CLOSED'']"

definition exposure_requirement :: "pydict \<Rightarrow> string \<Rightarrow> string \<Rightarrow> string list res" where
  "exposure_requirement policy target class =
     (if target \<noteq> ''READY_FOR_OWNER_RELEASE'' \<or> class \<notin> {''HIGH'', ''CRITICAL''} then Inr []
      else bind_res (sub_get class (dget ''progressive_exposure'' policy)) (\<lambda>v.
        case or_list v of
          PDict d \<Rightarrow> type_names (dget ''required_evidence'' d)
        | w \<Rightarrow> bind_res (py_list w) (\<lambda>_. type_names w)))"

text \<open>The risk keys come in the order level, class.\<close>

definition bug_gate_requirements :: "pydict \<Rightarrow> string \<Rightarrow> pydict \<Rightarrow> requirement res" where
  "bug_gate_requirements policy target r =
     bind_res (sub_get target (dget ''gates'' policy)) (\<lambda>g.
     case or_dict g of
       PDict gate \<Rightarrow>
         (let risk = or_text (dget ''risk'' r); class = class_of r (PStr risk) in
          bind_res (base_requirement gate target r) (\<lambda>q0.
          bind_res (fold_res (risk_requirement gate) (uniq [risk, class]) q0) (\<lambda>q1.
          bind_res (py_list (or_list (dget ''domains'' r))) (\<lambda>domains.
          bind_res (fold_res (domain_requirement policy gate target) domains q1) (\<lambda>q2.
          bind_res (hotfix_checks policy r domains) (\<lambda>breadth.
          bind_res (exposure_requirement policy target class) (\<lambda>exposure.
            Inr (fst q2, sorted_set (snd q2 @ breadth @
              (if truthy (dget ''merged_main_sha'' r) \<and> target \<in> set merged_gate_states then [''POST_MERGE_CI_PROVEN''] else []) @
              exposure)))))))))
     | _ \<Rightarrow> Inl (AttributeError ''get''))"

section \<open>Reviews, approvals, profiles\<close>

definition of_type :: "string \<Rightarrow> pydict list \<Rightarrow> pydict list" where
  "of_type ty records = filter (\<lambda>r. py_eq (dget ''type'' r) (PStr ty)) records"

definition meta :: "pydict \<Rightarrow> pyval" where
  "meta r = dget ''metadata'' r"

definition red_green_errors :: "pydict \<Rightarrow> pydict list \<Rightarrow> string list" where
  "red_green_errors r records = sorted_set (concat (map (\<lambda>e.
     validate_red_green_evidence (PDict (as_dict (meta e))) (dget ''base_sha'' r) (dget ''head_sha'' r) @
     validate_test_integrity (PDict (as_dict (meta e)))) (of_type ''REGRESSION_RED_GREEN_PROVEN'' records)))"

definition review_errors :: "pydict \<Rightarrow> string list" where
  "review_errors e =
     (let m = as_dict (meta e); implementation = dget ''implementation_session_id'' m; review = dget ''review_session_id'' m in
      (if \<not> truthy implementation \<or> \<not> truthy review
       then [''Independent review evidence must identify implementation and review sessions'']
       else err_if (py_eq implementation review) ''Independent review cannot use the implementation reasoning session'') @
      err_if (\<not> py_eq (dget ''verdict'' m) (PStr ''PASS'')) ''Independent review verdict must be PASS'')"

definition independent_review_errors :: "pydict list \<Rightarrow> string list" where
  "independent_review_errors records = sorted_set (concat (map review_errors (of_type ''INDEPENDENT_REVIEW_COMPLETED'' records)))"

definition approval_producers :: "string list" where
  "approval_producers = [''controller:release'', ''platform:approval-controller'']"

definition approval_errors :: "string \<Rightarrow> pydict \<Rightarrow> string list" where
  "approval_errors label e =
     err_if (\<not> py_eq (dget ''trust_level'' e) (PStr ''E6'')) (label @ '' must be E6 protected-controller evidence'') @
     err_if (py_str (dget_default ''producer'' (PStr []) e) \<notin> set approval_producers)
       (label @ '' must be produced by a protected platform/controller'') @
     err_if (str_upper (py_str (dget_default ''status'' (PStr []) e)) \<noteq> ''APPROVED'') (label @ '' must be explicitly APPROVED'')"

definition protected_approval_errors :: "pydict list \<Rightarrow> string list \<Rightarrow> string \<Rightarrow> string \<Rightarrow> string list res" where
  "protected_approval_errors records valid_ids ty label =
     bind_res (fold_res (\<lambda>e es. bind_res (in_names (dget ''evidence_id'' e) valid_ids) (\<lambda>b.
       Inr (if b then es @ approval_errors label e else es))) (of_type ty records) []) (\<lambda>es. Inr (sorted_set es))"

definition active_profile :: "pydict \<Rightarrow> pydict \<Rightarrow> pydict res" where
  "active_profile policy r = bind_res (get_by (dget ''profile'' r) (dget ''profiles'' policy)) (\<lambda>v.
     case or_dict v of PDict d \<Rightarrow> Inr d | _ \<Rightarrow> Inl (AttributeError ''get''))"

definition chain_states :: "string list" where
  "chain_states = [''SOURCE_OF_TRUTH_RESOLVED'', ''READY_FOR_OWNER_RELEASE'', ''PRODUCTION_RELEASED'', ''POST_DEPLOY_VERIFIED'', ''CLOSED'']"

definition profile_errors :: "pydict \<Rightarrow> pydict \<Rightarrow> string \<Rightarrow> string list res" where
  "profile_errors r policy target =
     (if py_eq (dget ''profile'' r) (PStr ''generic'') then Inr []
      else if delivery_of r = ''PACKAGE_OR_PLUGIN'' then Inr
        (if target \<in> set runtime_gate_states then [''Package-only delivery cannot enter runtime deployment lifecycle states'']
         else if target \<in> set package_lifecycle_states \<or> target = ''CLOSED''
         then err_if (truthy (dget ''canonical_deployment_chain'' r)) ''Package-only delivery cannot carry a runtime deployment chain''
         else [])
      else bind_res (active_profile policy r) (\<lambda>profile.
        bind_res (py_list (or_list (dget ''canonical_deployment_chain'' profile))) (\<lambda>expected.
          Inr (err_if (target \<in> set chain_states \<and> \<not> py_eq (dget ''canonical_deployment_chain'' r) (PList expected))
            ''Canonical deployment chain differs from the active repository protocol profile''))))"

end
