(* ===== verification/Bug_Lifecycle.thy ===== *)
theory Bug_Lifecycle
  imports Bug_Gates
begin

text \<open>
  \<open>evaluate_bug_transition\<close>, \<open>advance_bug_lifecycle\<close> and \<open>commit_bug_lifecycle_transition\<close> of
  \<open>toolkit/ztad/bug_lifecycle.py\<close>, the creation of a lifecycle record and the operations that bind a
  candidate, a merge, a release and a production revision to it. The environment of the lifecycle
  store gives the digest, the clock and the key loader.
\<close>

section \<open>The evidence of a state\<close>

definition each :: "string list \<Rightarrow> pydict list \<Rightarrow> (pyval \<Rightarrow> string list res) \<Rightarrow> string list res list" where
  "each types records f = concat (map (\<lambda>ty. map (\<lambda>e. f (meta e)) (of_type ty records)) types)"

definition release_types :: "string list" where
  "release_types = [''RELEASE_FINGERPRINT_VERIFIED'', ''SIGNED_RELEASE_MANIFEST'', ''SBOM_VERIFIED'',
     ''ARTIFACT_ATTESTATION_VERIFIED'', ''BUILD_PROVENANCE_VERIFIED'']"

definition consumer_types :: "string list" where
  "consumer_types = [''CONSUMER_INSTALLATION_VALIDATED'', ''PACKAGED_REGRESSIONS_PASSED'', ''PACKAGE_CONTENT_SECURITY_VERIFIED'']"

definition asset_types :: "string list" where
  "asset_types = [''PUBLISHED_ASSET_DIGEST_VERIFIED'', ''PUBLISHED_ASSET_METADATA_VERIFIED'']"

definition package_checks :: "pydict \<Rightarrow> pydict list \<Rightarrow> string list res list" where
  "package_checks r records = each (''PROTECTED_PACKAGE_RELEASE'' # release_types) records
     (\<lambda>m. validate_package_release_metadata m (dget ''head_sha'' r) (dget ''artifact_digest'' r) (dget ''merged_main_sha'' r))"

definition asset_checks :: "pydict \<Rightarrow> pydict list \<Rightarrow> string list res list" where
  "asset_checks r records = each asset_types records
     (\<lambda>m. validate_published_asset_metadata m (dget ''head_sha'' r) (dget ''artifact_digest'' r) (dget ''merged_main_sha'' r))"

definition consumer_checks :: "pydict \<Rightarrow> pydict list \<Rightarrow> string list res list" where
  "consumer_checks r records = each consumer_types records
     (\<lambda>m. Inr (validate_consumer_validation_metadata m (dget ''artifact_digest'' r)))"

definition ci_checks :: "pydict \<Rightarrow> pydict list \<Rightarrow> string list \<Rightarrow> string list res list" where
  "ci_checks r records types = each types records
     (\<lambda>m. Inr (validate_ci_metadata m (dget ''head_sha'' r) (dget ''diff_hash'' r) (dget ''pr_head_sha'' r)
       (dget ''merged_main_sha'' r) (truthy (dget ''merged_main_sha'' r))))"

definition staging_checks :: "pydict \<Rightarrow> pydict list \<Rightarrow> string list res list" where
  "staging_checks r records =
     (if truthy (dget ''merged_main_sha'' r) then ci_checks r records [''POST_MERGE_CI_PROVEN''] else []) @
     each [''STAGING_SMOKE_PASSED'', ''ORIGINAL_PROBLEM_STAGING_VERIFIED''] records
       (\<lambda>m. Inr (validate_staging_metadata m (dget ''head_sha'' r) (dget ''artifact_digest'' r)))"

definition owner_release_checks :: "pydict \<Rightarrow> pydict list \<Rightarrow> string list res list" where
  "owner_release_checks r records =
     each release_types records
       (\<lambda>m. Inr (validate_artifact_chain m (dget ''head_sha'' r) (dget ''artifact_digest'' r) (dget ''merged_main_sha'' r))) @
     (if or_text (dget ''risk_class'' r) \<in> {''HIGH'', ''CRITICAL''}
      then each [''PROGRESSIVE_EXPOSURE_PLAN''] records (\<lambda>m. validate_progressive_exposure m (dget ''risk_class'' r)) else [])"

definition production_checks :: "pydict \<Rightarrow> pydict list \<Rightarrow> string list res list" where
  "production_checks r records =
     each [''PROTECTED_RELEASE_AUTHORIZATION''] records (\<lambda>m.
       let e = dget ''subject_epoch'' (as_dict m) in
       says (e \<noteq> PNone \<and> \<not> py_eq e (dget ''subject_epoch'' r)) ''Production authorization subject epoch is stale'') @
     each [''PRODUCTION_RELEASE_COMPLETED'', ''EXPECTED_DIGEST_RUNNING''] records
       (\<lambda>m. Inr (validate_production_release_metadata m (dget ''head_sha'' r) (dget ''artifact_digest'' r)
         (dget ''merged_main_sha'' r) (dget ''pr_head_sha'' r)))"

definition post_deploy_checks :: "pydict \<Rightarrow> pydict list \<Rightarrow> string list res list" where
  "post_deploy_checks r records =
     each [''ORIGINAL_PROBLEM_PRODUCTION_VERIFIED'', ''PRODUCTION_HEALTH''] records
       (\<lambda>m. Inr (validate_post_deploy_metadata m (dget ''artifact_digest'' r) (dget ''deployed_revision'' r))) @
     each [''SYNTHETIC_TRANSACTION''] records (\<lambda>m. Inr (validate_synthetic_transaction_metadata m)) @
     each [''OBSERVATION_WINDOW''] records (\<lambda>m. Inr (validate_observation_window_metadata m))"

definition rollback_checks :: "pydict \<Rightarrow> pydict list \<Rightarrow> pydict \<Rightarrow> string list res list" where
  "rollback_checks r records policy = each [''ROLLBACK_COMPLETED''] records
     (\<lambda>m. validate_rollback_closure m (or_list (dget ''domains'' r)) (PDict policy))"

definition regression_checks :: "pydict \<Rightarrow> pydict list \<Rightarrow> string list res list" where
  "regression_checks r records =
     [Inr (red_green_errors r records)] @
     (if py_str (dget ''classification'' r) = ''PERFORMANCE_REGRESSION''
      then each [''REGRESSION_RED_GREEN_PROVEN''] records (\<lambda>m. Inr (validate_performance_evidence m)) else [])"

definition actual_change_errors :: "pydict \<Rightarrow> pyval \<Rightarrow> string list res" where
  "actual_change_errors r m =
     (let actual = str_upper (or_text (dget ''actual_risk'' (as_dict m)));
          current = str_upper (py_str (py_or (dget ''risk'' r) (PStr ''R0''))) in
      bind_res (upper_items (or_list (dget ''actual_domains'' (as_dict m)))) (\<lambda>actual_domains.
      bind_res (upper_items (or_list (dget ''domains'' r))) (\<lambda>current_domains.
        let extra = minus_names actual_domains current_domains in
        Inr (err_if (known_risk actual \<and> known_risk current \<and> rank_of actual > rank_of current)
               ''DIFF_FORENSICS_PASS discovered a higher actual risk; lifecycle reclassification is required'' @
             err_if (extra \<noteq> []) (''DIFF_FORENSICS_PASS discovered domains absent from the lifecycle subject: '' @ commas extra)))))"

definition forensics_checks :: "(string \<Rightarrow> string) \<Rightarrow> pydict \<Rightarrow> pydict list \<Rightarrow> pydict option \<Rightarrow> pydict option \<Rightarrow> string list res list" where
  "forensics_checks sha r records problem inventory =
     [says (inventory = None) ''DIFF_FORENSICS_PASS requires an independently collected Git inventory''] @
     each [''DIFF_FORENSICS_PASSED''] records (\<lambda>m.
       bind_res (sub_get ''expected_files'' (dget ''change_plan'' (case problem of None \<Rightarrow> [] | Some p \<Rightarrow> p))) (\<lambda>planned.
       errs [validate_diff_forensics sha m \<lparr>fs_planned = or_list planned,
               fs_diff_hash = py_or (dget ''diff_hash'' r) (dget ''reviewed_diff_hash'' r),
               fs_base = py_or (dget ''protected_base_sha'' r) (dget ''base_sha'' r),
               fs_candidate = py_or (dget ''head_sha'' r) (dget ''pr_head_sha'' r), fs_actual = inventory\<rparr>,
             Inr (validate_test_integrity m), actual_change_errors r m]))"

definition source_errors :: "pydict \<Rightarrow> pydict \<Rightarrow> pydict \<Rightarrow> string list res" where
  "source_errors r policy p =
     bind_res (active_profile policy r) (\<lambda>profile.
       validate_authoritative_sources (or_list (dget ''authoritative_sources'' p)) (or_list (dget ''source_conflicts'' p))
         (or_list (dget ''deployment_source_hierarchy'' profile)) (or_list (dget ''authority_order'' policy)))"

definition case_checks :: "string \<Rightarrow> pydict \<Rightarrow> pydict \<Rightarrow> pydict \<Rightarrow> string list res list" where
  "case_checks target r policy p =
     (if target = ''BLAST_RADIUS_MAPPED'' then [validate_blast_radius (dget ''blast_radius'' p) (or_list (dget ''domains'' r))]
      else if target = ''CHANGE_PLANNED'' then
        [bind_res (sub_get ''database_release_sequence'' (dget ''change_plan'' p)) (\<lambda>s. Inr (validate_database_release_sequence s))]
      else if target = ''SOURCE_OF_TRUTH_RESOLVED'' then [source_errors r policy p] else [])"

definition state_checks ::
  "(string \<Rightarrow> string) \<Rightarrow> pydict \<Rightarrow> string \<Rightarrow> pydict list \<Rightarrow> pydict \<Rightarrow> pydict option \<Rightarrow> pydict option \<Rightarrow> string list res list" where
  "state_checks sha r target records policy problem inventory =
     (if target = ''REGRESSION_TEST_PROVEN'' then regression_checks r records
      else if target = ''TARGETED_VALIDATION_PASS'' then each [''TARGETED_VALIDATION_PASSED''] records
        (\<lambda>m. validate_targeted_validation m (dget ''risk_class'' r) (or_list (dget ''domains'' r)) [])
      else if target = ''DIFF_FORENSICS_PASS'' then forensics_checks sha r records problem inventory
      else if target = ''REGRESSION_VALIDATION_PASS'' then each [''FULL_REGRESSION_VALIDATION_PASSED''] records
        (\<lambda>m. Inr (validate_full_regression_metadata m (dget ''base_sha'' r) (dget ''head_sha'' r) @ validate_test_integrity m))
      else if target = ''CI_PASS'' then ci_checks r records [''PROTECTED_CI'', ''REQUIRED_CHECKS_VERIFIED'', ''POST_MERGE_CI_PROVEN'']
      else if target = ''STAGING_PASS'' then staging_checks r records
      else if target = ''READY_FOR_OWNER_RELEASE'' then owner_release_checks r records
      else if target = ''PACKAGE_RELEASED'' then package_checks r records
      else if target = ''RELEASE_ARTIFACT_VERIFIED'' then asset_checks r records
      else if target = ''CONSUMER_VALIDATION_PASS'' then consumer_checks r records
      else if target = ''PRODUCTION_RELEASED'' then production_checks r records
      else if target = ''POST_DEPLOY_VERIFIED'' then post_deploy_checks r records
      else if target = ''CLOSED'' \<and> delivery_of r = ''PACKAGE_OR_PLUGIN''
        then package_checks r records @ asset_checks r records @ consumer_checks r records
      else if target = ''CLOSED'' \<and> logical_current r = ''POST_DEPLOY_VERIFIED'' then post_deploy_checks r records
      else if target = ''ROLLBACK_REQUIRED'' \<or> target = ''CLOSED'' \<and> logical_current r = ''ROLLBACK_REQUIRED''
        then rollback_checks r records policy
      else [])"

definition protocol_gate_errors ::
  "(string \<Rightarrow> string) \<Rightarrow> pydict \<Rightarrow> string \<Rightarrow> pydict list \<Rightarrow> pydict \<Rightarrow> pydict option \<Rightarrow> pydict option \<Rightarrow> string list res" where
  "protocol_gate_errors sha r target records policy problem inventory =
     (let package = (delivery_of r = ''PACKAGE_OR_PLUGIN'') in
      if package \<and> target = ''STAGING_PASS'' then Inr [''Package-only delivery has no staging runtime state'']
      else sorted_errs
       ([says (package \<and> target \<in> set runtime_gate_states) ''Package-only delivery cannot claim runtime deployment evidence'',
         says (package \<and> target = ''ROLLBACK_REQUIRED'')
           ''Package-only delivery uses release revoke or replacement recovery, not runtime rollback''] @
        state_checks sha r target records policy problem inventory @
        (case problem of None \<Rightarrow> [] | Some p \<Rightarrow> case_checks target r policy p)))"

definition collect_inventory :: "(string \<Rightarrow> string) \<Rightarrow> pydict \<Rightarrow> repository_root option \<Rightarrow> pydict option" where
  "collect_inventory sha r root =
     (let base = py_or (dget ''protected_base_sha'' r) (dget ''base_sha'' r);
          candidate = py_or (dget ''head_sha'' r) (dget ''pr_head_sha'' r) in
      case root of
        None \<Rightarrow> None
      | Some rr \<Rightarrow> if \<not> truthy base \<or> \<not> truthy candidate then None
          else (case collect_git_diff_inventory sha (rr_git rr) (py_str base) (py_str candidate) of
                  Inl _ \<Rightarrow> None | Inr d \<Rightarrow> Some d))"

section \<open>Evaluating a transition\<close>

record bug_evaluation =
  be_allowed :: bool
  be_decision :: string
  be_target :: string
  be_reasons :: "string list"
  be_required :: "string list"
  be_missing :: "string list"
  be_valid :: "(string \<times> string list) list"
  be_invalid :: "(string \<times> string list) list"

definition refused :: "string \<Rightarrow> string list \<Rightarrow> bug_evaluation" where
  "refused target reasons = \<lparr>be_allowed = False, be_decision = ''BLOCKED'', be_target = target, be_reasons = reasons,
     be_required = [], be_missing = [], be_valid = [], be_invalid = []\<rparr>"

definition model_root :: "gate_inputs \<Rightarrow> pyval \<Rightarrow> source_tree option option" where
  "model_root g repository =
     (case gi_root g of
        Some rr \<Rightarrow> Some (rr_tree rr)
      | None \<Rightarrow> (case repository of PStr p \<Rightarrow> gi_directory g p | _ \<Rightarrow> None))"

definition conservative_default :: string where
  "conservative_default = ''source-tree-unavailable-conservative-hosted-default''"

definition model_reasons :: "(string \<Rightarrow> string) \<Rightarrow> gate_inputs \<Rightarrow> pydict \<Rightarrow> string list" where
  "model_reasons sha g r =
     (let model = dget ''delivery_model'' r; recorded = as_dict (dget ''delivery_model_proof'' r);
          legacy = (py_str model = ''HOSTED_RUNTIME_SERVICE'' \<and> py_eq (dget ''derivation'' recorded) (PStr conservative_default) \<and>
            dget ''delivery_model_proof_digest'' r = PNone) in
      if model = PNone \<or> legacy then []
      else validate_delivery_model sha (model_root g (dget ''repository'' r)) (Some (py_str model)) (Some recorded)
        (dget ''delivery_model_proof_digest'' r))"

definition history_reasons :: "pydict \<Rightarrow> string \<Rightarrow> string list res" where
  "history_reasons r class =
     bind_res (py_list (or_list (dget ''risk_history'' r))) (\<lambda>hs. Inr (concat (map (\<lambda>h. case h of
         PDict d \<Rightarrow> err_if (class_rank (py_str (dget ''risk_class'' d)) > class_rank class)
           ''Risk history is monotonic and cannot be lowered''
       | _ \<Rightarrow> []) hs)))"

definition class_reasons :: "pydict \<Rightarrow> gate_inputs \<Rightarrow> string list res" where
  "class_reasons r g =
     (let previous = class_of r (dget ''risk'' r) in
      bind_res (case gi_problem g of None \<Rightarrow> Inr previous
        | Some p \<Rightarrow> effective_problem_risk_class p (or_list (dget ''domains'' r)) (gi_policy g)) (\<lambda>requested.
      bind_res (history_reasons r requested) (\<lambda>hs.
        Inr (err_if (class_rank requested < class_rank previous) ''Effective risk downgrade is prohibited'' @ hs))))"

definition gate_check :: "life_env \<Rightarrow> gate_inputs \<Rightarrow> (pydict \<Rightarrow> string list) \<Rightarrow> pydict \<Rightarrow> string \<Rightarrow> evidence_check" where
  "gate_check env g schema subject minimum = \<lparr>ec_schema = Some schema, ec_subject = Some subject, ec_minimum = minimum,
     ec_roots = gi_roots g, ec_affirmative = True, ec_now = le_now env\<rparr>"

text \<open>The reasons and the report of the required evidence of a state.\<close>

definition report_reasons :: "pydict \<Rightarrow> string \<Rightarrow> pydict list \<Rightarrow> evidence_report \<Rightarrow> string list res" where
  "report_reasons r target records rep =
     (let complete = (ev_missing rep = []) in
      errs
       [says (\<not> complete) (''Missing evidence: '' @ commas (ev_missing rep)),
        says (ev_duplicates rep \<noteq> []) ''Duplicate evidence IDs are prohibited'',
        says (ev_duplicate_receipts rep \<noteq> []) ''Duplicate machine receipt IDs are prohibited'',
        guarded (target = ''REGRESSION_TEST_PROVEN'' \<and> complete) (Inr (red_green_errors r records)),
        guarded (target = ''INDEPENDENT_REVIEW_PASS'' \<and> complete) (Inr (independent_review_errors records)),
        guarded (target = ''READY_FOR_OWNER_RELEASE'' \<and> complete) (protected_approval_errors records
          (lookup_ids ''PROTECTED_SUPERVISOR_APPROVAL'' (ev_valid rep)) ''PROTECTED_SUPERVISOR_APPROVAL''
          ''Protected supervisor approval''),
        guarded (target = ''PRODUCTION_RELEASED'' \<and> complete) (protected_approval_errors records
          (lookup_ids ''PROTECTED_RELEASE_AUTHORIZATION'' (ev_valid rep)) ''PROTECTED_RELEASE_AUTHORIZATION''
          ''Production release authorization'')])"

definition required_report ::
  "life_env \<Rightarrow> gate_inputs \<Rightarrow> pydict \<Rightarrow> string \<Rightarrow> requirement \<Rightarrow> (string list \<times> evidence_report option) res" where
  "required_report env g r target q =
     (if snd q = [] then Inr ([], None)
      else bind_res (gate_subject (le_sha env) r) (\<lambda>subject.
        case (subject, gi_schema g) of
          (None, _) \<Rightarrow> Inr ([''Exact candidate evidence subject is incomplete''], None)
        | (Some s, None) \<Rightarrow> Inr ([''evidence_schema is required for evidence-bearing transitions''], None)
        | (Some s, Some schema) \<Rightarrow>
            if map_of trust_order (fst q) = None then Inl (KeyError (fst q))
            else bind_res (evaluate_required_evidence (le_sha env) (le_load env) (gate_check env g schema s (fst q))
                (gi_records g) (snd q)) (\<lambda>rep.
              bind_res (report_reasons r target (gi_records g) rep) (\<lambda>es. Inr (es, Some rep)))))"

definition candidate_states :: "string list" where
  "candidate_states = [''PATCH_IMPLEMENTED'', ''REGRESSION_TEST_PROVEN'', ''TARGETED_VALIDATION_PASS'', ''REGRESSION_VALIDATION_PASS'',
     ''DIFF_FORENSICS_PASS'', ''INDEPENDENT_REVIEW_PASS'', ''CI_PASS''] @ package_lifecycle_states @ runtime_gate_states @ [''CLOSED'']"

definition identity_reasons :: "pydict \<Rightarrow> string \<Rightarrow> gate_inputs \<Rightarrow> string list res" where
  "identity_reasons r target g =
     bind_res (if target = ''RESOLVED_NO_CODE'' then
         (case gi_problem g of None \<Rightarrow> Inr False | Some p \<Rightarrow> in_names (dget ''classification'' p) non_code_classifications)
       else Inr True) (\<lambda>no_code.
     Inr (err_if (target \<in> set candidate_states \<and> (\<not> truthy (dget ''head_sha'' r) \<or> \<not> truthy (dget ''diff_hash'' r) \<or>
            \<not> truthy (dget ''change_contract_hash'' r))) ''Exact candidate SHA, diff hash, and Change Contract hash are required'' @
          err_if (target \<in> set (package_lifecycle_states @ runtime_gate_states @ [''CLOSED'']) \<and> \<not> truthy (dget ''artifact_digest'' r))
            ''Exact tested artifact digest is required'' @
          err_if (\<not> no_code) ''RESOLVED_NO_CODE requires a proven non-code classification''))"

definition rollback_closure_reasons :: "life_env \<Rightarrow> gate_inputs \<Rightarrow> pydict \<Rightarrow> string list res" where
  "rollback_closure_reasons env g r =
     bind_res (bug_gate_requirements (gi_policy g) ''ROLLBACK_CLOSURE'' r) (\<lambda>q.
     bind_res (gate_subject (le_sha env) r) (\<lambda>subject.
       case (subject, gi_schema g) of
         (Some s, Some schema) \<Rightarrow>
           bind_res (evaluate_required_evidence (le_sha env) (le_load env) (gate_check env g schema s (fst q))
               (gi_records g) (snd q)) (\<lambda>rep.
             Inr (err_if (ev_missing rep \<noteq> []) (''Rollback closure missing evidence: '' @ commas (ev_missing rep))))
       | _ \<Rightarrow> Inr [''Rollback closure requires an exact evidence subject'']))"

definition closing_reasons :: "life_env \<Rightarrow> gate_inputs \<Rightarrow> pydict \<Rightarrow> string \<Rightarrow> string list res" where
  "closing_reasons env g r target =
     (let model = delivery_of r; logical = logical_current r in
      if target \<noteq> ''CLOSED'' then Inr []
      else if py_str (dget ''state'' r) = ''ROLLBACK_REQUIRED'' then rollback_closure_reasons env g r
      else Inr (if model = ''PACKAGE_OR_PLUGIN'' then err_if (logical \<noteq> ''CONSUMER_VALIDATION_PASS'')
             ''A package-only code-fix case cannot close before CONSUMER_VALIDATION_PASS''
           else if model = ''HYBRID'' then err_if (logical \<noteq> ''POST_DEPLOY_VERIFIED'')
             ''A hybrid code-fix case must complete package validation and the runtime post-deploy path before closing''
           else err_if (logical \<noteq> ''POST_DEPLOY_VERIFIED'') ''A hosted code-fix case cannot close before POST_DEPLOY_VERIFIED''))"

text \<open>The state whose outgoing transitions of the policy apply: a blocked case counts as the state it stopped at.\<close>

definition standing :: "pydict \<Rightarrow> string" where
  "standing r = (if py_str (dget ''state'' r) = ''BLOCKED'' then logical_current r else py_str (dget ''state'' r))"

definition transition_reasons :: "life_env \<Rightarrow> gate_inputs \<Rightarrow> pydict \<Rightarrow> string \<Rightarrow> string list res" where
  "transition_reasons env g r target =
     (let policy = gi_policy g; current = py_str (dget ''state'' r);
          inventory = (if target = ''DIFF_FORENSICS_PASS'' then collect_inventory (le_sha env) r (gi_root g) else None) in
      bind_res (declared_edge (or_dict (dget ''transitions'' policy)) current target) (\<lambda>_.
      bind_res (declared_edge (or_dict (dget ''transitions'' policy)) (standing r) target) (\<lambda>edge.
      errs
       [validate_policy_safety (PDict policy),
        says (delivery_of r = ''PACKAGE_OR_PLUGIN'' \<and> (target = ''ROLLBACK_REQUIRED'' \<or> current = ''ROLLBACK_REQUIRED''))
          ''Package-only delivery cannot use runtime rollback semantics'',
        Inr (model_reasons (le_sha env) g r),
        says (\<not> edge) (''Transition '' @ current @ '' -> '' @ target @ '' is not allowed''),
        class_reasons r g,
        profile_errors r policy target,
        problem_phase_errors r target (gi_problem g) policy,
        protocol_gate_errors (le_sha env) r target (gi_records g) policy (gi_problem g) inventory])))"

definition evaluate_bug_transition :: "life_env \<Rightarrow> gate_inputs \<Rightarrow> pydict \<Rightarrow> string \<Rightarrow> bug_evaluation res" where
  "evaluate_bug_transition env g r target =
     bind_res (validate_authoritative_lifecycle_policy (gi_policy g)) (\<lambda>policy_errors.
     if policy_errors \<noteq> [] then Inr (refused target policy_errors)
     else bind_res (gi_lifecycle_schema g r) (\<lambda>schema_errors.
     if schema_errors \<noteq> [] then Inr (refused target schema_errors)
     else bind_res (has_name target (dget ''states'' (gi_policy g))) (\<lambda>known.
     if \<not> known then Inr (refused target [''Unknown bug lifecycle state: '' @ target])
     else bind_res (transition_reasons env g r target) (\<lambda>first.
     bind_res (bug_gate_requirements (gi_policy g) target r) (\<lambda>q.
     bind_res (required_report env g r target q) (\<lambda>(second, rep).
     bind_res (identity_reasons r target g) (\<lambda>third.
     bind_res (closing_reasons env g r target) (\<lambda>fourth.
       let reasons = first @ second @ third @ fourth in
       Inr \<lparr>be_allowed = (reasons = []),
         be_decision = (if reasons = [] then ''PROCEED''
           else if logical_current r \<in> set exposed_states then ''ROLLBACK_REQUIRED'' else ''BLOCKED''),
         be_target = target, be_reasons = sorted_set reasons, be_required = snd q,
         be_missing = (case rep of None \<Rightarrow> [] | Some e \<Rightarrow> ev_missing e),
         be_valid = (case rep of None \<Rightarrow> [] | Some e \<Rightarrow> ev_valid e),
         be_invalid = (case rep of None \<Rightarrow> [] | Some e \<Rightarrow> ev_invalid e)\<rparr>))))))))"

end
