(* ===== verification/Bug_Commit.thy ===== *)
theory Bug_Commit
  imports Bug_Lifecycle
begin

text \<open>
  The operations of \<open>toolkit/ztad/bug_lifecycle.py\<close> that change a lifecycle record: opening it,
  binding the identities of a candidate, a merge, a release and a deployment to it, advancing it to
  a state, and committing an advance to the lifecycle store.
\<close>

section \<open>Opening a lifecycle\<close>

record lifecycle_profile =
  lp_name :: string
  lp_mode :: string
  lp_remote :: "string option"
  lp_domains :: pyval
  lp_root :: "source_tree option option"

text \<open>\<open>name in value\<close> for a name.\<close>

definition contains_name :: "string \<Rightarrow> pyval \<Rightarrow> bool res" where
  "contains_name name v =
     (case v of
        PDict d \<Rightarrow> Inr (name \<in> set (dkeys d))
      | PList vs \<Rightarrow> Inr (PStr name \<in> set vs)
      | PStr s \<Rightarrow> Inr (is_infix name s)
      | _ \<Rightarrow> Inl (TypeError ''argument is not iterable''))"

text \<open>The delivery model, its proof and the digest of the proof; a tree that decides nothing counts as hosted.\<close>

definition delivery_identity :: "(string \<Rightarrow> string) \<Rightarrow> source_tree option option \<Rightarrow> string \<times> pydict \<times> pyval" where
  "delivery_identity sha root =
     (let hosted = (''HOSTED_RUNTIME_SERVICE'',
            [(''derivation'', PStr conservative_default), (''source_tree_available'', PBool False)], PNone) in
      case root of
        None \<Rightarrow> hosted
      | Some tree \<Rightarrow> let d = derive_delivery_model sha tree in
          if dr_model d \<in> set delivery_model_names then (dr_model d, dr_proof d, PStr (dr_digest d)) else hosted)"

definition source_root :: "(string \<Rightarrow> source_tree option option) \<Rightarrow> source_tree option option \<Rightarrow> pydict \<Rightarrow> source_tree option option" where
  "source_root directory root problem =
     (if root \<noteq> None then root else case dget ''repository'' problem of PStr p \<Rightarrow> directory p | _ \<Rightarrow> None)"

definition deployment_chain :: "string \<Rightarrow> pyval \<Rightarrow> string \<Rightarrow> pyval list res" where
  "deployment_chain model profiles name =
     (if model = ''PACKAGE_OR_PLUGIN'' then Inr []
      else bind_res (dict_get name profiles) (\<lambda>p. bind_res (sub_get ''canonical_deployment_chain'' p) (\<lambda>c. py_list (or_list c))))"

definition new_lifecycle ::
  "(string \<Rightarrow> string) \<Rightarrow> pydict \<Rightarrow> pydict \<Rightarrow> lifecycle_profile \<Rightarrow> string \<times> pydict \<times> pyval \<Rightarrow> pyval list \<Rightarrow> string list \<Rightarrow> string \<Rightarrow>
   pyval \<Rightarrow> pyval \<Rightarrow> string \<Rightarrow> pydict" where
  "new_lifecycle sha problem policy lp identity chain domains class case_id repository fp =
     (let risk = dget ''risk'' problem in
      [(''schema_version'', PInt 2), (''protocol_version'', PStr (py_str (dget ''protocol'' policy))),
       (''profile'', PStr (lp_name lp)), (''mode'', PStr (lp_mode lp)), (''case_id'', case_id),
       (''state'', PStr ''UNVERIFIED_REPORT''), (''last_completed_state'', PStr ''UNVERIFIED_REPORT''), (''resume_state'', PNone),
       (''blocked_target'', PNone), (''blockers'', PList []), (''repository'', repository),
       (''delivery_model'', PStr (fst identity)), (''delivery_model_proof'', PDict (fst (snd identity))),
       (''delivery_model_proof_digest'', snd (snd identity)), (''remote_repository'', opt_str (lp_remote lp)),
       (''problem_case_fingerprint'', PStr (problem_case_fingerprint sha problem)),
       (''base_sha'', dget ''base_sha'' problem), (''protected_base_sha'', dget ''base_sha'' problem)] @
      map (\<lambda>f. (f, PNone)) [''head_sha'', ''pr_head_sha'', ''merged_main_sha'', ''reviewed_diff_hash'', ''merge_method'',
         ''merge_provenance'', ''post_merge_ci_run_id'', ''diff_hash'', ''artifact_digest''] @
      [(''risk'', risk), (''risk_class'', PStr class), (''domains'', texts_of domains),
       (''canonical_deployment_chain'', PList chain)] @
      map (\<lambda>f. (f, PNone)) [''change_contract_hash'', ''policy_bundle_hash'', ''toolchain_hash'', ''release_fingerprint'',
         ''sbom_digest'', ''provenance_digest'', ''attestation_digest'', ''production_release_id'', ''deployed_revision'',
         ''artifact_identity'', ''scheduler_state''] @
      [(''internal_execution_complete'', PBool False), (''authoritative_lifecycle'', PBool False), (''authority_store'', PNone),
       (''subject_epoch'', PInt 0), (''subject_version'', PInt 1), (''subject_fingerprint'', PStr fp),
       (''subject_mutations'', PList []), (''historical_evidence_refs'', PDict []),
       (''risk_history'', PList [PDict [(''risk'', risk), (''risk_class'', PStr class), (''reason'', PStr ''initialization'')]]),
       (''evidence_refs'', PDict []), (''final_state'', PNone), (''closure_class'', PNone)])"

definition initialize_bug_lifecycle ::
  "(string \<Rightarrow> string) \<Rightarrow> (string \<Rightarrow> source_tree option option) \<Rightarrow> pydict \<Rightarrow> pydict \<Rightarrow> lifecycle_profile \<Rightarrow> pydict res" where
  "initialize_bug_lifecycle sha directory problem policy lp =
     (let profiles = or_dict (dget ''profiles'' policy);
          identity = delivery_identity sha (source_root directory (lp_root lp) problem) in
      bind_res (if lp_name lp = ''generic'' then Inr True else contains_name (lp_name lp) profiles) (\<lambda>known.
      if \<not> known then Inl (ValueError (''Unknown bug protocol profile: '' @ lp_name lp))
      else if lp_mode lp \<notin> {''NORMAL'', ''HOTFIX''} then Inl (ValueError ''mode must be NORMAL or HOTFIX'')
      else bind_res (deployment_chain (fst identity) profiles (lp_name lp)) (\<lambda>chain.
      bind_res (infer_domains (PDict problem) (lp_domains lp)) (\<lambda>domains.
      bind_res (validate_policy_safety (PDict policy)) (\<lambda>errors.
      if errors \<noteq> [] then Inl (ValueError (''Unsafe authoritative bug policy: '' @ join_with ''; '' errors))
      else bind_res (effective_problem_risk_class problem (texts_of domains) policy) (\<lambda>class.
      bind_res (need ''case_id'' problem) (\<lambda>case_id.
      bind_res (need ''repository'' problem) (\<lambda>repository.
      bind_res (subject_fingerprint sha [(''repository'', repository), (''protected_base_sha'', dget ''base_sha'' problem),
          (''subject_epoch'', PInt 0), (''subject_version'', PInt 1)]) (\<lambda>fp.
        Inr (new_lifecycle sha problem policy lp identity chain domains class case_id repository fp))))))))))"

definition initialize_authoritative_bug_lifecycle ::
  "life_env \<Rightarrow> (string \<Rightarrow> source_tree option option) \<Rightarrow> pydict \<Rightarrow> pydict \<Rightarrow> lifecycle_profile \<Rightarrow> string option \<Rightarrow> life_db \<Rightarrow>
   life_db \<times> pydict res" where
  "initialize_authoritative_bug_lifecycle env directory problem policy lp actor db =
     (case initialize_bug_lifecycle (le_sha env) directory problem policy lp of
        Inl e \<Rightarrow> (db, Inl e)
      | Inr r \<Rightarrow> (case initialize env r actor None db of
            (db', Inl e) \<Rightarrow> (db', Inl e)
          | (db', Inr _) \<Rightarrow> (db', life_export env True (py_str (dget ''case_id'' r)) db')))"

section \<open>Binding identities\<close>

definition not_a_digest :: "string \<Rightarrow> py_exn" where
  "not_a_digest label = ValueError (label @ '' must be a sha256 digest'')"

definition needs_digests :: "(string \<times> string) list \<Rightarrow> unit res" where
  "needs_digests values = checks (map (\<lambda>(label, v). deny (\<not> digest_text v) (not_a_digest label)) values)"

definition unset :: "string list \<Rightarrow> pydict" where
  "unset names = map (\<lambda>f. (f, PNone)) names"

definition subject_update :: "life_env \<Rightarrow> pydict \<Rightarrow> pydict \<Rightarrow> string \<Rightarrow> pydict res" where
  "subject_update env r updates reason = apply_subject_update (le_sha env) (le_now_text env) r updates reason"

record candidate_binding =
  cb_contract :: string
  cb_head :: string
  cb_diff :: string
  cb_policy :: string
  cb_toolchain :: string
  cb_artifact :: "string option"

text \<open>\<open>cb_contract\<close> is the content of the file at \<open>contract_path\<close>.\<close>

definition bind_candidate :: "life_env \<Rightarrow> pydict \<Rightarrow> candidate_binding \<Rightarrow> pydict res" where
  "bind_candidate env r b =
     (if \<not> sha_text (cb_head b) then Inl (ValueError ''head_sha must be an exact lowercase hexadecimal revision'')
      else bind_res (needs_digests [(''diff_hash'', cb_diff b), (''policy_bundle_hash'', cb_policy b), (''toolchain_hash'', cb_toolchain b)]) (\<lambda>_.
      bind_res (case cb_artifact b of None \<Rightarrow> Inr () | Some a \<Rightarrow> needs_digests [(''artifact_digest'', a)]) (\<lambda>_.
      bind_res (subject_update env r
         ([(''change_contract_hash'', PStr (sha256_bytes (le_sha env) (cb_contract b))),
           (''protected_base_sha'', py_or (dget ''protected_base_sha'' r) (dget ''base_sha'' r)),
           (''pr_head_sha'', PStr (cb_head b)), (''reviewed_diff_hash'', PStr (cb_diff b))] @
          unset [''merged_main_sha'', ''merge_method'', ''merge_provenance'', ''post_merge_ci_run_id''] @
          [(''policy_bundle_hash'', PStr (cb_policy b)), (''toolchain_hash'', PStr (cb_toolchain b)),
           (''artifact_digest'', opt_str (cb_artifact b))] @
          unset [''release_fingerprint'', ''sbom_digest'', ''provenance_digest'', ''attestation_digest'',
            ''production_release_id'', ''deployed_revision'', ''artifact_identity'']) ''candidate_subject_bound'') (\<lambda>u.
        Inr (unsealed (dset ''diff_hash'' (dget ''reviewed_diff_hash'' u) (dset ''head_sha'' (dget ''pr_head_sha'' u)
          (dset ''base_sha'' (dget ''protected_base_sha'' u) u))))))))"

definition bind_artifact :: "life_env \<Rightarrow> pydict \<Rightarrow> string \<Rightarrow> pydict res" where
  "bind_artifact env r digest =
     bind_res (needs_digests [(''artifact_digest'', digest)]) (\<lambda>_.
     bind_res (subject_update env r [(''artifact_digest'', PStr digest)] ''artifact_identity_bound'') (\<lambda>u. Inr (unsealed u)))"

record merge_binding =
  mb_main :: string
  mb_method :: string
  mb_provenance :: pyval
  mb_run :: "string option"

definition proves_transformation :: "pydict \<Rightarrow> (string \<times> pyval) list \<Rightarrow> unit res" where
  "proves_transformation provenance expected = checks (map (\<lambda>(f, v).
     deny (\<not> truthy v \<or> \<not> py_eq (dget f provenance) v)
       (ValueError (''merge_provenance.'' @ f @ '' must prove the exact reviewed-to-main transformation''))) expected)"

definition bind_merge_subject :: "life_env \<Rightarrow> pydict \<Rightarrow> merge_binding \<Rightarrow> pydict res" where
  "bind_merge_subject env r b =
     (if \<not> sha_text (mb_main b) then Inl (ValueError ''merged_main_sha must be an exact lowercase hexadecimal revision'')
      else if mb_method b \<notin> set merge_methods then Inl (ValueError ''Unsupported merge_method'')
      else case mb_provenance b of
        PDict provenance \<Rightarrow>
          if (case mb_run b of None \<Rightarrow> True | Some run \<Rightarrow> str_strip run = [])
          then Inl (ValueError ''post_merge_ci_run_id is required when binding merged-main subject'')
          else bind_res (proves_transformation provenance
              [(''pr_head_sha'', py_or (dget ''pr_head_sha'' r) (dget ''head_sha'' r)),
               (''reviewed_diff_hash'', py_or (dget ''reviewed_diff_hash'' r) (dget ''diff_hash'' r)),
               (''merged_main_sha'', PStr (mb_main b))]) (\<lambda>_.
            if \<not> truthy (dget ''transformation'' provenance)
            then Inl (ValueError ''merge_provenance.transformation is required'')
            else bind_res (subject_update env r
                ([(''merged_main_sha'', PStr (mb_main b)), (''merge_method'', PStr (mb_method b)),
                  (''merge_provenance'', PDict provenance), (''post_merge_ci_run_id'', opt_str (mb_run b))] @
                 unset [''artifact_digest'', ''release_fingerprint'', ''sbom_digest'', ''provenance_digest'',
                   ''attestation_digest'', ''artifact_identity'', ''production_release_id'', ''deployed_revision''])
                ''pr_to_merged_main_subject_bound'') (\<lambda>u.
              Inr (unsealed (dset ''merged_main_sha'' (PStr (mb_main b)) (dset ''head_sha'' (PStr (mb_main b)) u)))))
      | _ \<Rightarrow> Inl (ValueError ''merge_provenance must be an object''))"

record release_binding =
  rb_fingerprint :: string
  rb_sbom :: string
  rb_provenance :: string
  rb_attestation :: string
  rb_identity :: string

definition bind_release_subject :: "life_env \<Rightarrow> pydict \<Rightarrow> release_binding \<Rightarrow> pydict res" where
  "bind_release_subject env r b =
     (let values = [(''release_fingerprint'', rb_fingerprint b), (''sbom_digest'', rb_sbom b),
        (''provenance_digest'', rb_provenance b), (''attestation_digest'', rb_attestation b)] in
      bind_res (needs_digests values) (\<lambda>_.
      if str_strip (rb_identity b) = [] then Inl (ValueError ''artifact_identity is required'')
      else bind_res (subject_update env r (map (\<lambda>(k, v). (k, PStr v)) values @ [(''artifact_identity'', PStr (rb_identity b))])
        ''release_subject_bound'') (\<lambda>u. Inr (unsealed u))))"

definition bind_production_subject :: "life_env \<Rightarrow> pydict \<Rightarrow> string \<Rightarrow> string \<Rightarrow> pydict res" where
  "bind_production_subject env r release_id revision =
     (if str_strip release_id = [] then Inl (ValueError ''production_release_id is required'')
      else if \<not> sha_text revision then Inl (ValueError ''deployed_revision must be an exact lowercase hexadecimal revision'')
      else bind_res (subject_update env r [(''production_release_id'', PStr release_id), (''deployed_revision'', PStr revision)]
        ''production_revision_bound'') (\<lambda>u. Inr (unsealed u)))"

definition stale_record :: "string list \<Rightarrow> int \<Rightarrow> pydict \<Rightarrow> pydict res" where
  "stale_record changed epoch r =
     bind_res (py_list (or_list (dget ''invalidated_by'' r))) (\<lambda>vs.
     bind_res (py_texts (PList (if PStr ''subject_changed'' \<in> set vs then vs else vs @ [PStr ''subject_changed'']))) (\<lambda>marks.
       Inr (dset ''invalidated_by'' (texts_of (sorted_set marks)) (dset ''invalidated_subject_epoch'' (PInt epoch)
         (dset ''invalidated_subject_fields'' (texts_of changed) r)))))"

fun all_res :: "('a \<Rightarrow> 'b res) \<Rightarrow> 'a list \<Rightarrow> 'b list res" where
  "all_res f [] = Inr []"
| "all_res f (x # xs) = bind_res (f x) (\<lambda>y. bind_res (all_res f xs) (\<lambda>ys. Inr (y # ys)))"

definition invalidate_evidence_for_subject_change :: "pydict list \<Rightarrow> pydict \<Rightarrow> pydict \<Rightarrow> pydict list res" where
  "invalidate_evidence_for_subject_change records old new =
     (if py_eq (PDict old) (PDict new) then Inr records
      else bind_res (material_subject_changes old new) (\<lambda>changes.
        if records = [] then Inr []
        else bind_res (py_int (py_or (dget ''subject_epoch'' new) (PInt 0))) (\<lambda>epoch.
          all_res (stale_record (sorted_set (dkeys changes)) epoch) records)))"

section \<open>Advancing\<close>

definition set_fields :: "pydict \<Rightarrow> pydict \<Rightarrow> pydict" where
  "set_fields entries r = foldl (\<lambda>d (k, v). dset k v d) r entries"

definition blocked_record :: "pydict \<Rightarrow> string \<Rightarrow> bug_evaluation \<Rightarrow> pydict" where
  "blocked_record r target e = unsealed (set_fields
     [(''state'', PStr (be_decision e)), (''resume_state'', PStr (logical_current r)), (''blocked_target'', PStr target),
      (''blockers'', texts_of (be_reasons e)), (''final_state'', PNone)] r)"

definition raised_risk :: "pydict \<Rightarrow> pydict \<Rightarrow> pydict \<Rightarrow> pydict res" where
  "raised_risk policy problem r =
     (if dget ''risk'' problem = PNone then Inr r
      else bind_res (effective_problem_risk_class problem (or_list (dget ''domains'' r)) policy) (\<lambda>class.
        Inr (if class_rank class \<ge> class_rank (class_of r (dget ''risk'' r))
             then set_fields [(''risk'', dget ''risk'' problem), (''risk_class'', PStr class)] r else r)))"

definition merge_refs :: "(string \<times> string list) \<Rightarrow> pydict \<Rightarrow> pydict res" where
  "merge_refs entry refs = (case entry of (ty, ids) \<Rightarrow>
     bind_res (py_texts (or_list (dget ty refs))) (\<lambda>old. Inr (dset ty (texts_of (sorted_set (old @ ids))) refs)))"

definition with_refs :: "(string \<times> string list) list \<Rightarrow> pydict \<Rightarrow> pydict res" where
  "with_refs valid r =
     (if valid = [] then Inr r
      else case or_dict (dget ''evidence_refs'' r) of
        PDict refs \<Rightarrow> bind_res (fold_res merge_refs valid refs) (\<lambda>refs'. Inr (dset ''evidence_refs'' (PDict refs') r))
      | _ \<Rightarrow> Inl (AttributeError ''get''))"

definition advanced_record :: "(string \<Rightarrow> string) \<Rightarrow> gate_inputs \<Rightarrow> pydict \<Rightarrow> string \<Rightarrow> bug_evaluation \<Rightarrow> pydict res" where
  "advanced_record sha g r target e =
     (let r1 = set_fields [(''state'', PStr target), (''last_completed_state'', PStr target), (''resume_state'', PNone),
        (''blocked_target'', PNone), (''blockers'', PList [])] r in
      bind_res (case gi_problem g of None \<Rightarrow> Inr r1
        | Some p \<Rightarrow> raised_risk (gi_policy g) p (dset ''problem_case_fingerprint'' (PStr (problem_case_fingerprint sha p)) r1)) (\<lambda>r2.
      bind_res (py_list (or_list (dget ''risk_history'' r2))) (\<lambda>history.
        let r3 = dset ''risk_history'' (PList (history @ [PDict [(''risk'', dget ''risk'' r2), (''risk_class'', dget ''risk_class'' r2),
              (''state'', PStr target)]])) r2 in
      bind_res (with_refs (be_valid e) r3) (\<lambda>r4.
        if target = ''CLOSED'' then Inl (NameError ''current'')
        else Inr (unsealed (set_fields
          (if target = ''RESOLVED_NO_CODE''
           then [(''final_state'', PStr ''RESOLVED_NO_CODE''), (''closure_class'', PStr ''RESOLVED_NO_CODE'')]
           else [(''final_state'', PNone), (''closure_class'', PNone)]) r4))))))"

text \<open>
  The closing branch reads \<open>current\<close>, which is a local name of \<open>evaluate_bug_transition\<close> and not
  of this function: Python raises \<open>NameError\<close> there, after the final state was set on the copy.
\<close>

definition advance_bug_lifecycle :: "life_env \<Rightarrow> gate_inputs \<Rightarrow> pydict \<Rightarrow> string \<Rightarrow> pydict res" where
  "advance_bug_lifecycle env g r target =
     bind_res (evaluate_bug_transition env g r target) (\<lambda>e.
       if \<not> be_allowed e then Inr (blocked_record r target e) else advanced_record (le_sha env) g r target e)"

section \<open>Committing\<close>

definition accepted_ids :: "bug_evaluation \<Rightarrow> string list" where
  "accepted_ids e = concat (map snd (be_valid e))"

definition commit_request ::
  "gate_inputs \<Rightarrow> pydict \<Rightarrow> pydict \<Rightarrow> string \<Rightarrow> bug_evaluation \<Rightarrow> string option \<Rightarrow> int \<Rightarrow> pydict option \<Rightarrow> life_request" where
  "commit_request g r updated target e actor expected auth =
     \<lparr>rq_actor = actor, rq_expected = expected, rq_requested = target,
      rq_decision = (if target = ''ROLLBACK_REQUIRED'' then ''ROLLBACK_REQUIRED''
        else if be_allowed e then ''PROCEED'' else be_decision e),
      rq_required = be_required e, rq_accepted = accepted_ids e,
      rq_records = map PDict (filter (\<lambda>i. or_text (dget ''evidence_id'' i) \<in> set (accepted_ids e)) (gi_records g)),
      rq_rejected = map fst (be_invalid e),
      rq_policy = (case dget ''policy_bundle_hash'' r of PStr s \<Rightarrow> Some s | _ \<Rightarrow> None),
      rq_toolchain = (case dget ''toolchain_hash'' r of PStr s \<Rightarrow> Some s | _ \<Rightarrow> None),
      rq_risk = Some [(''risk'', dget ''risk'' updated), (''risk_class'', dget ''risk_class'' updated)],
      rq_domain = Some [(''domains'', dget_default ''domains'' (PList []) updated)],
      rq_key = None, rq_auth = auth\<rparr>"

definition fresh_snapshot :: "life_env \<Rightarrow> pydict \<Rightarrow> int \<Rightarrow> life_db \<Rightarrow> unit res" where
  "fresh_snapshot env r expected db =
     bind_res (life_get env True (py_str (dget ''case_id'' r)) db) (\<lambda>authoritative.
     bind_res (py_int (dget_default ''store_version'' (PInt 0) authoritative)) (\<lambda>version.
       deny (expected \<noteq> version \<or> \<not> py_eq (dget ''store_record_hash'' r) (dget ''store_record_hash'' authoritative))
         (RuntimeError ''Caller lifecycle snapshot is stale or has been modified'')))"

text \<open>What is handed to the store: the evaluation, the new record and the request.\<close>

definition prepare_commit ::
  "life_env \<Rightarrow> gate_inputs \<Rightarrow> pydict \<Rightarrow> string \<Rightarrow> string option \<Rightarrow> int \<Rightarrow> pydict option \<Rightarrow> life_db \<Rightarrow>
   (bug_evaluation \<times> pydict \<times> life_request) res" where
  "prepare_commit env g r target actor expected auth db =
     bind_res (fresh_snapshot env r expected db) (\<lambda>_.
     bind_res (evaluate_bug_transition env g r target) (\<lambda>e.
     bind_res (advance_bug_lifecycle env g r target) (\<lambda>updated.
       Inr (e, updated, commit_request g r updated target e actor expected auth))))"

definition commit_bug_lifecycle_transition ::
  "life_env \<Rightarrow> gate_inputs \<Rightarrow> pydict \<Rightarrow> string \<Rightarrow> string option \<Rightarrow> int \<Rightarrow> pydict option \<Rightarrow> life_db \<Rightarrow>
   life_db \<times> (pydict \<times> bug_evaluation) res" where
  "commit_bug_lifecycle_transition env g r target actor expected auth db =
     (case prepare_commit env g r target actor expected auth db of
        Inl e \<Rightarrow> (db, Inl e)
      | Inr (e, updated, rq) \<Rightarrow>
          (case life_transition env (py_str (dget ''case_id'' r)) updated rq db of
             (db', Inl x) \<Rightarrow> (db', Inl x)
           | (db', Inr event) \<Rightarrow> (db', Inr (event, e))))"

end
