(* ===== verification/Bug_Facts.thy ===== *)
theory Bug_Facts
  imports Bug_Commit Evidence_Props Life_Honest
begin

text \<open>
  What the operations of the bug lifecycle do, fact by fact: what an allowed transition passed, which
  fields an advance keeps, and which fields the store lets a transition change.
\<close>

section \<open>An allowed transition\<close>

definition complete_evidence :: "life_env \<Rightarrow> gate_inputs \<Rightarrow> pydict \<Rightarrow> requirement \<Rightarrow> bool" where
  "complete_evidence env g r q \<longleftrightarrow> snd q = [] \<or>
     (\<exists>s schema. gate_subject (le_sha env) r = Inr (Some s) \<and> gi_schema g = Some schema \<and>
        (\<forall>ty \<in> set (snd q). \<exists>x \<in> set (gi_records g). py_str (dget ''type'' x) = ty \<and>
           accepts (le_sha env) (le_load env) (gate_check env g schema s (fst q)) x) \<and>
        distinct (map evidence_name (gi_records g)) \<and> distinct (receipts_of (gi_records g)))"

lemma passed_iff:
  assumes "evaluate_required_evidence sha load_pem c records required = Inr rep"
  shows "ev_passed rep \<longleftrightarrow> ev_missing rep = [] \<and> ev_duplicates rep = [] \<and> ev_duplicate_receipts rep = []"
  using assms by (auto simp: evaluate_required_evidence_def bind_res_Inr Let_def)

lemma required_report_passed:
  assumes "required_report env g r target q = Inr ([], rep)"
  shows "complete_evidence env g r q"
proof (cases "snd q = []")
  case False
  with assms obtain subject where s: "gate_subject (le_sha env) r = Inr subject"
    by (auto simp: required_report_def bind_res_Inr)
  with assms False obtain v schema where sub: "subject = Some v" and sch: "gi_schema g = Some schema"
    by (auto simp: required_report_def split: option.splits)
  let ?c = "gate_check env g schema v (fst q)"
  from assms False s sub sch obtain e where
    ev: "evaluate_required_evidence (le_sha env) (le_load env) ?c (gi_records g) (snd q) = Inr e"
    and reasons: "report_reasons r target (gi_records g) e = Inr []"
    by (auto simp: required_report_def bind_res_Inr split: if_splits)
  from reasons have "ev_passed e" unfolding report_reasons_def Let_def errs_Nil by (simp add: passed_iff [OF ev])
  then show ?thesis using required_evidence_iff [OF ev] s sub sch by (auto simp: complete_evidence_def)
qed (simp add: complete_evidence_def)

text \<open>What complete evidence shows of the records, from the checks each accepted record passed.\<close>

definition evidence_met :: "life_env \<Rightarrow> gate_inputs \<Rightarrow> pydict \<Rightarrow> requirement \<Rightarrow> bool" where
  "evidence_met env g r q \<longleftrightarrow> snd q = [] \<or>
     (\<exists>s schema. gate_subject (le_sha env) r = Inr (Some s) \<and> gi_schema g = Some schema \<and>
        (\<forall>ty \<in> set (snd q). \<exists>x \<in> set (gi_records g). py_str (dget ''type'' x) = ty \<and>
           acceptable (le_sha env) (le_load env) (gate_check env g schema s (fst q)) s x))"

lemma gate_subject_nonempty:
  assumes "gate_subject sha r = Inr (Some s)"
  shows "s \<noteq> []"
proof -
  from assms obtain t where t: "\<forall>f \<in> set candidate_fields. truthy (dget f t)" and s: "s = filter (\<lambda>(_, v). v \<noteq> PNone) t"
    by (auto simp: gate_subject_def bind_res_Inr split: if_splits)
  from t have "dget ''repository'' t \<noteq> PNone" by (auto simp: candidate_fields_def)
  then obtain v where "map_of t ''repository'' = Some v" "v \<noteq> PNone" by (auto simp: dget_def split: option.splits)
  then have "(''repository'', v) \<in> set s" unfolding s by (auto dest: map_of_SomeD)
  then show ?thesis by auto
qed

lemma complete_evidence_met:
  assumes "complete_evidence env g r q"
  shows "evidence_met env g r q"
proof (cases "snd q = []")
  case False
  with assms obtain s schema where s: "gate_subject (le_sha env) r = Inr (Some s)" "gi_schema g = Some schema"
    and all: "\<forall>ty \<in> set (snd q). \<exists>x \<in> set (gi_records g). py_str (dget ''type'' x) = ty \<and>
           accepts (le_sha env) (le_load env) (gate_check env g schema s (fst q)) x"
    unfolding complete_evidence_def by blast
  have "acceptable (le_sha env) (le_load env) (gate_check env g schema s (fst q)) s x"
    if "accepts (le_sha env) (le_load env) (gate_check env g schema s (fst q)) x" for x
    using accepts_acceptable [OF that _ gate_subject_nonempty [OF s(1)]] by (simp add: gate_check_def)
  with s all show ?thesis unfolding evidence_met_def by blast
qed (simp add: evidence_met_def)

lemma evaluation_cases:
  assumes "evaluate_bug_transition env g r target = Inr e"
  obtains (refused) reasons where "e = refused target reasons"
    | (judged) first q second rep third fourth where "gi_lifecycle_schema g r = Inr []"
      "transition_reasons env g r target = Inr first" "bug_gate_requirements (gi_policy g) target r = Inr q"
      "required_report env g r target q = Inr (second, rep)" "identity_reasons r target g = Inr third"
      "closing_reasons env g r target = Inr fourth"
      "be_allowed e \<longleftrightarrow> first @ second @ third @ fourth = []" "be_required e = snd q"
      "be_decision e = (if first @ second @ third @ fourth = [] then ''PROCEED''
        else if logical_current r \<in> set exposed_states then ''ROLLBACK_REQUIRED'' else ''BLOCKED'')"
proof -
  from assms obtain es where es: "validate_authoritative_lifecycle_policy (gi_policy g) = Inr es"
    unfolding evaluate_bug_transition_def bind_res_Inr by blast
  show ?thesis
  proof (cases "es = []")
    case False
    then show ?thesis using assms es refused [of es] unfolding evaluate_bug_transition_def by simp
  next
    case True
    with assms es obtain ss where ss: "gi_lifecycle_schema g r = Inr ss"
      by (cases "gi_lifecycle_schema g r") (simp_all add: evaluate_bug_transition_def)
    show ?thesis
    proof (cases "ss = []")
      case False
      then show ?thesis using assms es ss True refused [of ss] unfolding evaluate_bug_transition_def by simp
    next
      case nil: True
      with assms es ss True obtain known where k: "has_name target (dget ''states'' (gi_policy g)) = Inr known"
        by (cases "has_name target (dget ''states'' (gi_policy g))") (simp_all add: evaluate_bug_transition_def)
      show ?thesis
      proof (cases known)
        case False
        then show ?thesis using assms es ss True nil k refused [of "[''Unknown bug lifecycle state: '' @ target]"] unfolding evaluate_bug_transition_def by simp
      next
        case yes: True
        have "bind_res (transition_reasons env g r target) (\<lambda>first.
          bind_res (bug_gate_requirements (gi_policy g) target r) (\<lambda>q.
          bind_res (required_report env g r target q) (\<lambda>p.
          bind_res (identity_reasons r target g) (\<lambda>third.
          bind_res (closing_reasons env g r target) (\<lambda>fourth.
            Inr (be_allowed e, be_decision e, be_required e)))))) =
          Inr (be_allowed e, be_decision e, be_required e)"
          using assms es ss True nil k yes
          by (auto simp: evaluate_bug_transition_def bind_res_Inr Let_def split: prod.splits)
        then obtain first q p third fourth where parts: "transition_reasons env g r target = Inr first"
          "bug_gate_requirements (gi_policy g) target r = Inr q" "required_report env g r target q = Inr p"
          "identity_reasons r target g = Inr third" "closing_reasons env g r target = Inr fourth"
          unfolding bind_res_Inr by blast
        obtain second rep where p: "p = (second, rep)" by (cases p)
        show ?thesis
          by (rule judged [OF _ parts(1,2) parts(3) [unfolded p] parts(4,5)])
            (use assms es ss True nil k yes parts p in \<open>auto simp: evaluate_bug_transition_def Let_def\<close>)
      qed
    qed
  qed
qed

lemma refused_simps [simp]: "be_allowed (refused t es) = False" "be_decision (refused t es) = ''BLOCKED''"
  by (simp_all add: refused_def)

lemma allowed_parts:
  assumes "evaluate_bug_transition env g r target = Inr e" and "be_allowed e"
  obtains q rep where "transition_reasons env g r target = Inr []" and "bug_gate_requirements (gi_policy g) target r = Inr q"
    and "required_report env g r target q = Inr ([], rep)" and "identity_reasons r target g = Inr []"
    and "closing_reasons env g r target = Inr []" and "be_required e = snd q" and "be_decision e = ''PROCEED''"
    and "gi_lifecycle_schema g r = Inr []"
  using assms(1)
proof (cases rule: evaluation_cases)
  case (judged first q second rep third fourth)
  then show ?thesis using assms(2) that by simp
qed (use assms(2) in simp)

text \<open>An allowed evaluation from its parts.\<close>

lemma allowed_intro:
  assumes "validate_authoritative_lifecycle_policy (gi_policy g) = Inr []" and "validate_policy_safety (PDict (gi_policy g)) = Inr []"
    and "gi_lifecycle_schema g r = Inr []" and "has_name target (dget ''states'' (gi_policy g)) = Inr True"
    and "declared_edge (or_dict (dget ''transitions'' (gi_policy g))) (py_str (dget ''state'' r)) target = Inr b"
    and "declared_edge (or_dict (dget ''transitions'' (gi_policy g))) (standing r) target = Inr True"
    and "target \<noteq> ''DIFF_FORENSICS_PASS''"
    and "errs [says (delivery_of r = ''PACKAGE_OR_PLUGIN'' \<and> (target = ''ROLLBACK_REQUIRED'' \<or> py_str (dget ''state'' r) = ''ROLLBACK_REQUIRED''))
          ''Package-only delivery cannot use runtime rollback semantics'',
        Inr (model_reasons (le_sha env) g r), class_reasons r g, profile_errors r (gi_policy g) target,
        problem_phase_errors r target (gi_problem g) (gi_policy g),
        protocol_gate_errors (le_sha env) r target (gi_records g) (gi_policy g) (gi_problem g) None] = Inr []"
    and "bug_gate_requirements (gi_policy g) target r = Inr q" and "required_report env g r target q = Inr ([], rep)"
    and "identity_reasons r target g = Inr []" and "closing_reasons env g r target = Inr []"
  shows "evaluate_bug_transition env g r target = Inr \<lparr>be_allowed = True, be_decision = ''PROCEED'', be_target = target,
    be_reasons = [], be_required = snd q, be_missing = (case rep of None \<Rightarrow> [] | Some e \<Rightarrow> ev_missing e),
    be_valid = (case rep of None \<Rightarrow> [] | Some e \<Rightarrow> ev_valid e), be_invalid = (case rep of None \<Rightarrow> [] | Some e \<Rightarrow> ev_invalid e)\<rparr>"
proof -
  have "transition_reasons env g r target = Inr []"
    unfolding transition_reasons_def Let_def assms(5,6) bind_res_simps errs_Nil
    using assms(2,7) assms(8) [unfolded errs_Nil] by simp
  then show ?thesis
    using assms(1,3,4,9-12) by (simp add: evaluate_bug_transition_def)
qed

lemma transition_reasons_Nil:
  assumes "transition_reasons env g r target = Inr []"
  shows "validate_policy_safety (PDict (gi_policy g)) = Inr []"
    and "declared_edge (or_dict (dget ''transitions'' (gi_policy g))) (standing r) target = Inr True"
    and "model_reasons (le_sha env) g r = []" and "class_reasons r g = Inr []"
    and "problem_phase_errors r target (gi_problem g) (gi_policy g) = Inr []"
    and "profile_errors r (gi_policy g) target = Inr []"
    and "\<exists>inventory. protocol_gate_errors (le_sha env) r target (gi_records g) (gi_policy g) (gi_problem g) inventory = Inr []"
proof -
  from assms obtain edge inv where e: "declared_edge (or_dict (dget ''transitions'' (gi_policy g))) (standing r) target = Inr edge"
    and n: "\<forall>x \<in> set [validate_policy_safety (PDict (gi_policy g)),
        says (delivery_of r = ''PACKAGE_OR_PLUGIN'' \<and> (target = ''ROLLBACK_REQUIRED'' \<or> py_str (dget ''state'' r) = ''ROLLBACK_REQUIRED''))
          ''Package-only delivery cannot use runtime rollback semantics'',
        Inr (model_reasons (le_sha env) g r),
        says (\<not> edge) (''Transition '' @ py_str (dget ''state'' r) @ '' -> '' @ target @ '' is not allowed''),
        class_reasons r g,
        profile_errors r (gi_policy g) target,
        problem_phase_errors r target (gi_problem g) (gi_policy g),
        protocol_gate_errors (le_sha env) r target (gi_records g) (gi_policy g) (gi_problem g) inv]. x = Inr []"
    unfolding transition_reasons_def Let_def bind_res_Inr errs_Nil by blast
  then show "validate_policy_safety (PDict (gi_policy g)) = Inr []"
    and "declared_edge (or_dict (dget ''transitions'' (gi_policy g))) (standing r) target = Inr True"
    and "model_reasons (le_sha env) g r = []" and "class_reasons r g = Inr []"
    and "problem_phase_errors r target (gi_problem g) (gi_policy g) = Inr []"
    and "profile_errors r (gi_policy g) target = Inr []"
    and "\<exists>inventory. protocol_gate_errors (le_sha env) r target (gi_records g) (gi_policy g) (gi_problem g) inventory = Inr []"
    by auto
qed

lemma evaluation_decision:
  assumes "evaluate_bug_transition env g r target = Inr e"
  shows "be_decision e \<in> {''PROCEED'', ''BLOCKED'', ''ROLLBACK_REQUIRED''}" and "be_allowed e \<longleftrightarrow> be_decision e = ''PROCEED''"
  using assms by (cases rule: evaluation_cases; simp)+

section \<open>The record after an advance\<close>

lemma dget_set_fields: "k \<notin> set (dkeys es) \<Longrightarrow> dget k (set_fields es r) = dget k r"
  unfolding set_fields_def by (induction es arbitrary: r) (auto simp: dkeys_def split: prod.splits)

lemma set_fields_simps [simp]: "set_fields [] r = r" "set_fields ((k, v) # es) r = set_fields es (dset k v r)"
  by (simp_all add: set_fields_def)

definition sealed_fields :: "string list" where
  "sealed_fields = [''authoritative_lifecycle'', ''authority_store'', ''store_version'', ''store_record_hash'', ''store_binding'']"

definition advanced_fields :: "string list" where
  "advanced_fields = [''state'', ''last_completed_state'', ''resume_state'', ''blocked_target'', ''blockers'',
     ''problem_case_fingerprint'', ''risk'', ''risk_class'', ''risk_history'', ''evidence_refs'', ''final_state'', ''closure_class'']"

lemma unsealed_dget: "k \<notin> set sealed_fields \<Longrightarrow> dget k (unsealed r) = dget k r"
  by (simp add: unsealed_def sealed_fields_def)

lemma raised_risk_keeps: "raised_risk policy p r = Inr r' \<Longrightarrow> k \<notin> {''risk'', ''risk_class''} \<Longrightarrow> dget k r' = dget k r"
  by (auto simp: raised_risk_def bind_res_Inr split: if_splits)

lemma with_refs_keeps: "with_refs valid r = Inr r' \<Longrightarrow> k \<noteq> ''evidence_refs'' \<Longrightarrow> dget k r' = dget k r"
  by (auto simp: with_refs_def bind_res_Inr split: if_splits pyval.splits)

lemma advanced_record_Inr:
  assumes "advanced_record sha g r target e = Inr r'"
  shows "target \<noteq> ''CLOSED''" and "dget ''state'' r' = PStr target"
    and "\<And>k. k \<notin> set (advanced_fields @ sealed_fields) \<Longrightarrow> dget k r' = dget k r"
    and "dget ''problem_case_fingerprint'' r' = (case gi_problem g of None \<Rightarrow> dget ''problem_case_fingerprint'' r
      | Some p \<Rightarrow> PStr (problem_case_fingerprint sha p))"
proof -
  define r1 where "r1 = set_fields [(''state'', PStr target), (''last_completed_state'', PStr target), (''resume_state'', PNone),
        (''blocked_target'', PNone), (''blockers'', PList [])] r"
  from assms obtain r2 history r4 where
    r2: "(case gi_problem g of None \<Rightarrow> Inr r1
        | Some p \<Rightarrow> raised_risk (gi_policy g) p (dset ''problem_case_fingerprint'' (PStr (problem_case_fingerprint sha p)) r1)) = Inr r2"
    and r4: "with_refs (be_valid e) (dset ''risk_history'' (PList (history @ [PDict [(''risk'', dget ''risk'' r2),
      (''risk_class'', dget ''risk_class'' r2), (''state'', PStr target)]])) r2) = Inr r4"
    and t: "target \<noteq> ''CLOSED''"
    and r': "r' = unsealed (set_fields (if target = ''RESOLVED_NO_CODE''
           then [(''final_state'', PStr ''RESOLVED_NO_CODE''), (''closure_class'', PStr ''RESOLVED_NO_CODE'')]
           else [(''final_state'', PNone), (''closure_class'', PNone)]) r4)"
    unfolding advanced_record_def r1_def [symmetric] Let_def bind_res_Inr by (auto split: if_splits)
  have k2: "dget k r2 = dget k r1" if "k \<notin> {''risk'', ''risk_class'', ''problem_case_fingerprint''}" for k
  proof (cases "gi_problem g")
    case (Some p)
    then show ?thesis
      using r2 that raised_risk_keeps [of "gi_policy g" p "dset ''problem_case_fingerprint'' (PStr (problem_case_fingerprint sha p)) r1" r2 k]
      by simp
  qed (use r2 in simp)
  have k4: "dget k r4 = dget k r2" if "k \<notin> {''risk_history'', ''evidence_refs''}" for k
    using with_refs_keeps [OF r4, of k] that by simp
  have k': "dget k r' = dget k r4" if "k \<notin> {''final_state'', ''closure_class''}" "k \<notin> set sealed_fields" for k
    using that by (simp add: r' unsealed_dget)
  show "target \<noteq> ''CLOSED''" by (rule t)
  show "dget ''state'' r' = PStr target" by (simp add: k' k4 k2 sealed_fields_def) (simp add: r1_def)
  show "dget k r' = dget k r" if "k \<notin> set (advanced_fields @ sealed_fields)" for k
    using that by (simp add: advanced_fields_def k' k4 k2) (simp add: r1_def)
  show "dget ''problem_case_fingerprint'' r' = (case gi_problem g of None \<Rightarrow> dget ''problem_case_fingerprint'' r
      | Some p \<Rightarrow> PStr (problem_case_fingerprint sha p))"
  proof (cases "gi_problem g")
    case None
    then have "r2 = r1" using r2 by simp
    then show ?thesis using None by (simp add: k' k4 sealed_fields_def) (simp add: r1_def)
  next
    case (Some p)
    then show ?thesis
      using r2 raised_risk_keeps [of "gi_policy g" p _ r2 "''problem_case_fingerprint''"] by (simp add: k' k4 sealed_fields_def)
  qed
qed

lemma blocked_record_state: "dget ''state'' (blocked_record r target e) = PStr (be_decision e)"
  by (simp add: blocked_record_def unsealed_dget sealed_fields_def)

lemma advance_not_closed:
  assumes "advance_bug_lifecycle env g r target = Inr r'"
  shows "\<exists>s. dget ''state'' r' = PStr s \<and> s \<noteq> ''CLOSED''"
proof -
  from assms obtain e where e: "evaluate_bug_transition env g r target = Inr e"
    and r': "(if \<not> be_allowed e then Inr (blocked_record r target e) else advanced_record (le_sha env) g r target e) = Inr r'"
    by (auto simp: advance_bug_lifecycle_def bind_res_Inr)
  show ?thesis
  proof (cases "be_allowed e")
    case True
    then show ?thesis using r' advanced_record_Inr(1,2) [of "le_sha env" g r target e r'] by simp
  next
    case False
    then have "dget ''state'' r' = PStr (be_decision e)" using r' by (auto simp: blocked_record_state)
    then show ?thesis using evaluation_decision [OF e] by auto
  qed
qed

section \<open>What the store lets through\<close>

lemma unchanged_field:
  assumes "field_guards current d = Inr ()" and "k \<notin> set lifecycle_mutation_fields"
    and "k \<notin> {''authoritative_lifecycle'', ''authority_store'', ''store_version'', ''store_record_hash''}"
  shows "py_eq (dget k current) (dget k d)"
proof (rule ccontr)
  assume no: "\<not> py_eq (dget k current) (dget k d)"
  have "k \<in> set (dkeys current) \<or> k \<in> set (dkeys d)"
  proof (rule ccontr)
    assume "\<not> (k \<in> set (dkeys current) \<or> k \<in> set (dkeys d))"
    then have "dget k current = PNone" "dget k d = PNone"
      by (simp_all add: dget_def dkeys_def map_of_eq_None_iff [THEN iffD2])
    then show False using no by simp
  qed
  then have "k \<in> set (changed_keys current d)" using no by (auto simp: changed_keys_def)
  then show False using assms by (auto simp: field_guards_def deny_Inr filter_empty_conv Let_def)
qed

lemma guards_fields:
  assumes "transition_guards env current d rq = Inr ()" and "rq_decision rq \<notin> set binding_decisions"
  shows "field_guards current d = Inr ()"
  using assms by (auto simp: transition_guards_def bind_res_Inr Let_def)

lemma next_document_dget:
  assumes "next_document env state = Inr d"
    and "k \<notin> {''authority_store'', ''authoritative_lifecycle'', ''idempotent_replay'', ''last_completed_state'', ''subject_fingerprint''}"
  shows "dget k d = dget k state"
  using assms by (auto simp: next_document_def bind_res_Inr Let_def split: if_splits)

lemma prepare_commit_Inr:
  assumes "prepare_commit env g r target actor expected auth db = Inr (e, updated, rq)"
  shows "evaluate_bug_transition env g r target = Inr e" and "advance_bug_lifecycle env g r target = Inr updated"
    and "rq = commit_request g r updated target e actor expected auth"
  using assms by (auto simp: prepare_commit_def bind_res_Inr)

text \<open>A transition moves the one row of its case, to the state of the new document.\<close>

lemma written_rows:
  assumes "life_transition_tx env case_id state rq db = Inr (db', replay)" and "row \<in> set (ld_cases db')"
  shows "row \<in> set (ld_cases db) \<or> (\<exists>d. lc_state row = stored d \<and> dget ''state'' d = dget ''state'' state)"
proof (cases replay)
  case True
  then show ?thesis using assms transition_tx_replay [of env case_id state rq db db'] by simp
next
  case False
  with assms(1) have "life_transition_tx env case_id state rq db = Inr (db', False)" by simp
  then show ?thesis
  proof (rule transition_tx_Inr)
    fix actor d rw current records
    assume d: "next_document env state = Inr d"
      and c: "commit_transition env (parts_of case_id actor (transition_key case_id (life_hash env d) rq) current
        (life_hash env d) d records rq) (rq_expected rq) db = Inr db'"
    from c show ?thesis
    proof (rule commit_transition_Inr)
      fix t m epoch
      assume db': "db' = db\<lparr>ld_cases := tbl_upd (\<lambda>r. lc_id r = ep_case (parts_of case_id actor
          (transition_key case_id (life_hash env d) rq) current (life_hash env d) d records rq) \<and> lc_version r = rq_expected rq)
        (case_written env (rq_expected rq + 1) epoch (ep_state (parts_of case_id actor
          (transition_key case_id (life_hash env d) rq) current (life_hash env d) d records rq))
          (ep_hash (parts_of case_id actor (transition_key case_id (life_hash env d) rq) current (life_hash env d) d records rq)))
        (ld_cases db), ld_events := ld_events db @ [event_row_of env (next_sequence db) m]\<rparr>"
      show ?thesis
        using assms(2) next_document_keeps(2) [OF d] by (auto simp: db' tbl_upd_in case_written_def split: if_splits)
    qed
  qed
qed

section \<open>Committing\<close>

lemma advance_closed_raises:
  assumes "evaluate_bug_transition env g r ''CLOSED'' = Inr e" and "be_allowed e"
  shows "\<exists>x. advance_bug_lifecycle env g r ''CLOSED'' = Inl x"
proof (cases "advance_bug_lifecycle env g r ''CLOSED''")
  case (Inr r')
  then have "advanced_record (le_sha env) g r ''CLOSED'' e = Inr r'" using assms by (simp add: advance_bug_lifecycle_def)
  from advanced_record_Inr(1) [OF this] show ?thesis by simp
qed simp

lemma commit_Inl:
  assumes "prepare_commit env g r target actor expected auth db = Inl x"
  shows "commit_bug_lifecycle_transition env g r target actor expected auth db = (db, Inl x)"
  using assms by (simp add: commit_bug_lifecycle_transition_def)

lemma honest_transition_returns:
  assumes "life_wf (le_sha env) db" and "store_valid env db" and "canonical_request state rq"
    and "life_transition_tx env case_id state rq db = Inr (db', False)" and "honest_request state rq"
  shows "\<exists>event. life_transition env case_id state rq db = (db', Inr event)"
proof -
  obtain row where row: "tbl_get lc_id case_id (ld_cases db') = Some row" using transition_keeps_case [OF assms(4)] by blast
  have "store_valid env db'" using transition_verifies [OF assms(1-4)] assms(5) by blast
  from life_get_valid [OF life_wf_transition [OF assms(1) refl assms(4)] this row] show ?thesis
    by (auto simp: life_transition_def life_read_back_def assms(4))
qed

lemma commit_Inr:
  assumes "commit_bug_lifecycle_transition env g r target actor expected auth db = (db', Inr (event, e))"
  obtains updated replay where "prepare_commit env g r target actor expected auth db =
      Inr (e, updated, commit_request g r updated target e actor expected auth)"
    and "life_transition_tx env (py_str (dget ''case_id'' r)) updated (commit_request g r updated target e actor expected auth) db =
      Inr (db', replay)"
proof (cases "prepare_commit env g r target actor expected auth db")
  case (Inr p)
  obtain e' updated rq where p: "p = (e', updated, rq)" by (cases p)
  have rq: "rq = commit_request g r updated target e' actor expected auth"
    using prepare_commit_Inr(3) Inr p by blast
  show ?thesis
  proof (cases "life_transition_tx env (py_str (dget ''case_id'' r)) updated rq db")
    case (Inr q)
    with assms \<open>prepare_commit env g r target actor expected auth db = Inr p\<close> p rq that [of updated "snd q"] show ?thesis
      by (cases q) (auto simp: commit_bug_lifecycle_transition_def life_transition_def life_read_back_def split: prod.splits sum.splits)
  qed (use assms Inr p in \<open>simp add: commit_bug_lifecycle_transition_def life_transition_def\<close>)
qed (use assms in \<open>simp add: commit_bug_lifecycle_transition_def\<close>)

lemma commit_keeps_or_writes:
  "fst (commit_bug_lifecycle_transition env g r target actor expected auth db) = db \<or>
   (\<exists>e updated rq replay. prepare_commit env g r target actor expected auth db = Inr (e, updated, rq) \<and>
      life_transition_tx env (py_str (dget ''case_id'' r)) updated rq db =
        Inr (fst (commit_bug_lifecycle_transition env g r target actor expected auth db), replay))"
  by (auto simp: commit_bug_lifecycle_transition_def life_transition_def life_read_back_def split: sum.splits prod.splits)

definition row_state :: "life_case \<Rightarrow> pyval" where
  "row_state row = (case lc_state row of Some v \<Rightarrow> dget ''state'' (as_dict v) | None \<Rightarrow> PNone)"

definition closed_rows :: "life_db \<Rightarrow> life_case list" where
  "closed_rows db = filter (\<lambda>row. row_state row = PStr ''CLOSED'') (ld_cases db)"

lemma row_state_stored: "lc_state row = stored d \<Longrightarrow> row_state row = sort_keys (dget ''state'' d)"
  using dget_sorted [of "''state''" d] by (simp add: row_state_def stored_def)

text \<open>The row of the case after a commit, and what its document shares with the record of the caller.\<close>

lemma transition_row:
  assumes "life_transition_tx env case_id state rq db = Inr (db', False)"
  obtains row current d row' where "tbl_get lc_id case_id (ld_cases db) = Some row" and "life_snapshot row = Inr current"
    and "lc_version row = rq_expected rq" and "next_document env state = Inr d" and "transition_guards env current d rq = Inr ()"
    and "row' \<in> set (ld_cases db')" and "lc_id row' = case_id" and "lc_state row' = stored d" and "lc_version row' = rq_expected rq + 1"
  using assms
proof (rule transition_tx_Inr)
  fix actor d row current records
  assume d: "next_document env state = Inr d" and row: "tbl_get lc_id case_id (ld_cases db) = Some row"
    and current: "life_snapshot row = Inr current" and v: "lc_version row = rq_expected rq"
    and g: "transition_guards env current d rq = Inr ()"
    and c: "commit_transition env (parts_of case_id actor (transition_key case_id (life_hash env d) rq) current
      (life_hash env d) d records rq) (rq_expected rq) db = Inr db'"
  let ?p = "parts_of case_id actor (transition_key case_id (life_hash env d) rq) current (life_hash env d) d records rq"
  from c show ?thesis
  proof (rule commit_transition_Inr)
    fix t m epoch
    assume db': "db' = db\<lparr>ld_cases := tbl_upd (\<lambda>r. lc_id r = ep_case ?p \<and> lc_version r = rq_expected rq)
        (case_written env (rq_expected rq + 1) epoch (ep_state ?p) (ep_hash ?p)) (ld_cases db),
        ld_events := ld_events db @ [event_row_of env (next_sequence db) m]\<rparr>"
    have in_db: "row \<in> set (ld_cases db)" and key: "lc_id row = case_id" using row by (auto dest: tbl_get_Some_in)
    let ?w = "case_written env (rq_expected rq + 1) epoch d (life_hash env d) row"
    have "?w \<in> set (ld_cases db')"
      unfolding db' using in_db key v by (auto simp: tbl_upd_in intro!: bexI [of _ row])
    then show ?thesis using that [OF row current v d g, of ?w] key by (simp add: case_written_def)
  qed
qed


lemma commit_decision:
  "rq_decision (commit_request g r updated target e actor expected auth) =
     (if target = ''ROLLBACK_REQUIRED'' then ''ROLLBACK_REQUIRED'' else if be_allowed e then ''PROCEED'' else be_decision e)"
  "rq_expected (commit_request g r updated target e actor expected auth) = expected"
  "rq_requested (commit_request g r updated target e actor expected auth) = target"
  by (simp_all add: commit_request_def)

lemma order_of_guards:
  "transition_guards env current d rq = Inr () \<Longrightarrow> order_guards current d (rq_requested rq) (rq_decision rq) = Inr ()"
  by (auto simp: transition_guards_def bind_res_Inr Let_def)

lemma commit_written:
  assumes "commit_bug_lifecycle_transition env g r target actor expected auth db = (db', Inr (event, e))" and "db' \<noteq> db"
  obtains updated row current d row' where "evaluate_bug_transition env g r target = Inr e"
    and "advance_bug_lifecycle env g r target = Inr updated"
    and "tbl_get lc_id (py_str (dget ''case_id'' r)) (ld_cases db) = Some row" and "life_snapshot row = Inr current"
    and "lc_version row = expected" and "next_document env updated = Inr d" and "field_guards current d = Inr ()"
    and "order_guards current d target (rq_decision (commit_request g r updated target e actor expected auth)) = Inr ()"
    and "row' \<in> set (ld_cases db')" and "lc_id row' = py_str (dget ''case_id'' r)" and "lc_state row' = stored d"
    and "lc_version row' = expected + 1"
  using assms(1)
proof (rule commit_Inr)
  fix updated replay
  let ?rq = "commit_request g r updated target e actor expected auth"
  assume p: "prepare_commit env g r target actor expected auth db = Inr (e, updated, ?rq)"
    and tx: "life_transition_tx env (py_str (dget ''case_id'' r)) updated ?rq db = Inr (db', replay)"
  have "\<not> replay" using tx assms(2) transition_tx_replay [of env _ updated ?rq db db'] by (cases replay) auto
  with tx have tx: "life_transition_tx env (py_str (dget ''case_id'' r)) updated ?rq db = Inr (db', False)" by simp
  note e = prepare_commit_Inr(1) [OF p]
  from tx show ?thesis
  proof (rule transition_row)
    fix row current d row'
    assume r: "tbl_get lc_id (py_str (dget ''case_id'' r)) (ld_cases db) = Some row" "life_snapshot row = Inr current"
      "lc_version row = rq_expected ?rq" "next_document env updated = Inr d" and g: "transition_guards env current d ?rq = Inr ()"
      and w: "row' \<in> set (ld_cases db')" "lc_id row' = py_str (dget ''case_id'' r)" "lc_state row' = stored d"
        "lc_version row' = rq_expected ?rq + 1"
    have "rq_decision ?rq \<notin> set binding_decisions"
      using evaluation_decision(1) [OF e] by (auto simp: commit_decision binding_decisions_def)
    with guards_fields [OF g] have "field_guards current d = Inr ()" by simp
    moreover have "order_guards current d target (rq_decision ?rq) = Inr ()"
      using order_of_guards [OF g] by (simp only: commit_decision(3))
    ultimately show ?thesis
      using that [OF e prepare_commit_Inr(2) [OF p] r(1,2) _ r(4) _ _ w(1,2,3)] r(3) w(4) by (simp add: commit_decision(2))
  qed
qed

lemma allowed_advance:
  assumes "evaluate_bug_transition env g r target = Inr e" and "be_allowed e" and "advance_bug_lifecycle env g r target = Inr updated"
  shows "advanced_record (le_sha env) g r target e = Inr updated"
  using assms by (simp add: advance_bug_lifecycle_def)

lemma order_guards_allowed:
  assumes "order_guards current d requested ''PROCEED'' = Inr ()" and "state_name d \<in> set authoritative_states"
  shows "requested \<in> set (allowed_transitions (logical_state current))"
  using assms by (simp add: order_guards_def Let_def checks_passed binding_decisions_def del: checks.simps)

end
