(* ===== verification/Bug_Demo.thy ===== *)
theory Bug_Demo
  imports Bug_Facts Gate_Props Life_Demo
begin

text \<open>
  A policy that passes its validation, for the witnesses about the bug lifecycle.
\<close>

definition demo_transitions :: pydict where
  "demo_transitions = map (\<lambda>(a, b). (a, texts_of (permitted_next a b))) lifecycle_edges @
     [(''PACKAGE_RELEASED'', texts_of [''RELEASE_ARTIFACT_VERIFIED'']),
      (''RELEASE_ARTIFACT_VERIFIED'', texts_of [''CONSUMER_VALIDATION_PASS'']),
      (''CONSUMER_VALIDATION_PASS'', texts_of [''CLOSED'', ''STAGING_PASS'']), (''ROLLBACK_REQUIRED'', texts_of [''CLOSED''])]"

definition demo_profiles :: pydict where
  "demo_profiles = map (\<lambda>d. (d, PDict [(''minimum_risk_class'', PStr ''HIGH''), (''required_checks'', texts_of security_checks)]))
     high_risk_domains"

definition demo_gates :: pydict where
  "demo_gates = [(''ROLLBACK_CLOSURE'', PDict [(''by_domain'', PDict (map (\<lambda>d. (d, PList [])) high_risk_domains))]),
     (''PATCH_IMPLEMENTED'', PDict [(''minimum_trust'', PStr ''E4''), (''required_evidence'', texts_of [''ROLLBACK_PLAN''])])]"

definition safe_policy :: pydict where
  "safe_policy =
     [(''states'', texts_of (authoritative_lifecycle @ package_lifecycle_states @ [''BLOCKED'', ''ROLLBACK_REQUIRED'', ''RESOLVED_NO_CODE''])),
      (''transitions'', PDict demo_transitions),
      (''risk_classes'', PDict [(''HIGH'', texts_of [''R3'']), (''CRITICAL'', texts_of [''R4''])]),
      (''domain_profiles'', PDict demo_profiles), (''gates'', PDict demo_gates),
      (''hotfix'', PDict [(''may_reduce_validation_breadth'', PBool False), (''may_skip_states'', PBool False)]),
      (''artifact_chain'', PDict [(''build_once_promote_by_digest'', PBool True), (''mutable_tag_only'', PBool False),
         (''rebuild_after_validation'', PBool False)]),
      (''delivery_models'', PDict (map (\<lambda>m. (m, PDict ([(''lifecycle'', texts_of (delivery_lifecycle m))] @
         (if m = ''PACKAGE_OR_PLUGIN'' then [(''forbidden_states'', texts_of [''STAGING_PASS'', ''PRODUCTION_RELEASED'',
            ''POST_DEPLOY_VERIFIED'', ''ROLLBACK_REQUIRED''])] else [])))) delivery_model_names)),
      (''progressive_exposure'', PDict [(''HIGH'', texts_of [''PROGRESSIVE_EXPOSURE_PLAN'']),
         (''CRITICAL'', PDict [(''required_evidence'', texts_of [''PROGRESSIVE_EXPOSURE_PLAN'']),
            (''strategies'', texts_of [''WRITE_GATE'', ''OWNER_STOP_CONDITION''])])])]"

lemma safe_policy_lifecycle: "validate_authoritative_lifecycle_policy safe_policy = Inr []"
  by code_simp

lemma safe_policy_accepted: "validate_policy_safety (PDict safe_policy) = Inr []"
  by code_simp

section \<open>A record for the witnesses\<close>

definition bug_record :: pydict where
  "bug_record = demo_full_subject @ [(''case_id'', PStr ''c''), (''state'', PStr ''CHANGE_PLANNED''), (''profile'', PStr ''generic''),
     (''risk'', PStr ''R1''), (''domains'', texts_of [''GENERAL'']), (''base_sha'', dget ''protected_base_sha'' demo_full_subject),
     (''head_sha'', dget ''pr_head_sha'' demo_full_subject), (''diff_hash'', dget ''reviewed_diff_hash'' demo_full_subject)]"

definition patch_evidence :: pydict where
  "patch_evidence = demo_full_subject @ demo_evidence_of ''e1'' ''ROLLBACK_PLAN''"

definition bug_env :: life_env where
  "bug_env = demo_env\<lparr>le_sha := (\<lambda>_. ''h'')\<rparr>"

definition bug_inputs :: gate_inputs where
  "bug_inputs = \<lparr>gi_policy = safe_policy, gi_lifecycle_schema = (\<lambda>_. Inr []), gi_problem = None, gi_records = [patch_evidence],
     gi_schema = Some (\<lambda>_. []), gi_roots = Some demo_roots, gi_root = None, gi_directory = (\<lambda>_. None)\<rparr>"

text \<open>The checks of a transition other than those of the policy, on closed terms.\<close>

definition state_ok :: "life_env \<Rightarrow> gate_inputs \<Rightarrow> pydict \<Rightarrow> string \<Rightarrow> bool" where
  "state_ok env g r target \<longleftrightarrow>
     has_name target (dget ''states'' safe_policy) = Inr True \<and>
     ok (declared_edge (or_dict (dget ''transitions'' safe_policy)) (py_str (dget ''state'' r)) target) \<and>
     declared_edge (or_dict (dget ''transitions'' safe_policy)) (standing r) target = Inr True \<and>
     errs [says (delivery_of r = ''PACKAGE_OR_PLUGIN'' \<and> (target = ''ROLLBACK_REQUIRED'' \<or> py_str (dget ''state'' r) = ''ROLLBACK_REQUIRED''))
          ''Package-only delivery cannot use runtime rollback semantics'',
        Inr (model_reasons (le_sha env) g r), class_reasons r g, profile_errors r safe_policy target,
        problem_phase_errors r target (gi_problem g) safe_policy,
        protocol_gate_errors (le_sha env) r target (gi_records g) safe_policy (gi_problem g) None] = Inr []"

definition evidence_given :: "life_env \<Rightarrow> gate_inputs \<Rightarrow> pydict \<Rightarrow> string \<Rightarrow> bool" where
  "evidence_given env g r target \<longleftrightarrow>
     (case bug_gate_requirements safe_policy target r of
        Inr q \<Rightarrow> (case required_report env g r target q of Inr ([], _) \<Rightarrow> True | _ \<Rightarrow> False)
      | _ \<Rightarrow> False) \<and> identity_reasons r target g = Inr [] \<and> closing_reasons env g r target = Inr []"

lemma demo_allowed:
  assumes "gi_policy g = safe_policy" and "gi_lifecycle_schema g = (\<lambda>_. Inr [])" and "target \<noteq> ''DIFF_FORENSICS_PASS''"
    and "state_ok env g r target" and "evidence_given env g r target"
  obtains q rep where "bug_gate_requirements safe_policy target r = Inr q" and "required_report env g r target q = Inr ([], rep)"
    and "evaluate_bug_transition env g r target = Inr \<lparr>be_allowed = True, be_decision = ''PROCEED'', be_target = target,
      be_reasons = [], be_required = snd q, be_missing = (case rep of None \<Rightarrow> [] | Some e \<Rightarrow> ev_missing e),
      be_valid = (case rep of None \<Rightarrow> [] | Some e \<Rightarrow> ev_valid e), be_invalid = (case rep of None \<Rightarrow> [] | Some e \<Rightarrow> ev_invalid e)\<rparr>"
proof -
  from assms(5) obtain q rep where q: "bug_gate_requirements safe_policy target r = Inr q"
    and rep: "required_report env g r target q = Inr ([], rep)"
    and i: "identity_reasons r target g = Inr []" "closing_reasons env g r target = Inr []"
    unfolding evidence_given_def by (auto split: sum.splits prod.splits list.splits)
  from assms(4) obtain b where "declared_edge (or_dict (dget ''transitions'' safe_policy)) (py_str (dget ''state'' r)) target = Inr b"
    unfolding state_ok_def ok_iff by blast
  with assms(4) show ?thesis
    using that [OF q rep] allowed_intro [of g r target b env q rep, unfolded assms(1,2), OF safe_policy_lifecycle safe_policy_accepted refl]
      assms(3) q rep i unfolding state_ok_def by blast
qed

lemma patch_state_ok: "state_ok bug_env bug_inputs bug_record ''PATCH_IMPLEMENTED''"
  by code_simp

lemma patch_evidence_given: "evidence_given bug_env bug_inputs bug_record ''PATCH_IMPLEMENTED''"
  by code_simp

lemma patch_allowed:
  obtains e where "evaluate_bug_transition bug_env bug_inputs bug_record ''PATCH_IMPLEMENTED'' = Inr e" and "be_allowed e"
  by (rule demo_allowed [OF _ _ _ patch_state_ok patch_evidence_given]) (simp_all add: bug_inputs_def)

definition closing_record :: pydict where
  "closing_record = dset ''state'' (PStr ''POST_DEPLOY_VERIFIED'') (dset ''artifact_digest'' (PStr (''sha256:'' @ replicate 64 (CHR ''4''))) bug_record)"

lemma closing_state_ok: "state_ok bug_env bug_inputs closing_record ''CLOSED''"
  by code_simp

lemma closing_evidence_given: "evidence_given bug_env bug_inputs closing_record ''CLOSED''"
  by code_simp

lemma closing_allowed:
  obtains e where "evaluate_bug_transition bug_env bug_inputs closing_record ''CLOSED'' = Inr e" and "be_allowed e"
  by (rule demo_allowed [OF _ _ _ closing_state_ok closing_evidence_given]) (simp_all add: bug_inputs_def)

text \<open>A case whose sources are resolved, in a store of its own.\<close>

definition bug_problem :: pydict where
  "bug_problem = [(''case_id'', PStr ''c''), (''repository'', PStr ''r''), (''state'', PStr ''SOURCE_OF_TRUTH_RESOLVED''),
     (''base_sha'', PStr (replicate 40 (CHR ''a''))), (''protected_ref_resolved'', PBool True),
     (''authoritative_sources'', PList [PDict [(''source'', PStr ''spec''), (''authority'', PStr ''SPEC''),
        (''authority_reason'', PStr ''owner''), (''evidence_ref'', PStr ''e'')]]), (''risk'', PStr ''R1'')]"

definition bug_doc :: pydict where
  "bug_doc = [(''authoritative_lifecycle'', PBool True), (''authority_store'', PStr ''controller-owned-sqlite''),
     (''base_sha'', PStr (replicate 40 (CHR ''a''))), (''case_id'', PStr ''c''), (''closure_class'', PNone),
     (''domains'', PList [PStr ''GENERAL'']), (''final_state'', PNone), (''last_completed_state'', PStr ''UNVERIFIED_REPORT''),
     (''problem_case_fingerprint'', PStr ''sha256:0272''), (''profile'', PStr ''generic''), (''repository'', PStr ''r''),
     (''risk'', PStr ''R1''), (''risk_class'', PStr ''LOW''), (''state'', PStr ''UNVERIFIED_REPORT''), (''subject_epoch'', PInt 0),
     (''subject_fingerprint'', PStr ''sha256:0535''), (''subject_version'', PInt 1)]"

definition bug_opened_record :: pydict where
  "bug_opened_record = set_fields [(''current_record_hash'', PStr ''sha256:0460''),
     (''idempotency_key'', PStr ''initialize:c:sha256:0535''), (''state'', PDict bug_doc), (''subject_fingerprint'', PStr ''sha256:0535''),
     (''subject'', PDict (dset ''protected_base_sha'' (PStr (replicate 40 (CHR ''a''))) opened_subject))] opened_record"

definition bug_row :: life_case where
  "bug_row = \<lparr>lc_id = ''c'', lc_version = 1, lc_epoch = 0, lc_state = Some (PDict bug_doc), lc_hash = ''sha256:0460'',
     lc_updated = ''2026-01-02T03:04:05Z''\<rparr>"

definition bug_store :: life_db where
  "bug_store = \<lparr>ld_cases = [bug_row],
     ld_events = [\<lparr>lv_seq = 1, lv_scalars = map (\<lambda>f. (f, dget f bug_opened_record)) scalar_columns,
       lv_jsons = map (\<lambda>f. (f, Some (dget f bug_opened_record))) json_columns, lv_record = Some (PDict bug_opened_record),
       lv_hash = ''sha256:1889'', lv_mac = ''hmac-sha256:msha256:1889''\<rparr>],
     ld_binding = Some ''b''\<rparr>"

definition bug_gate :: gate_inputs where
  "bug_gate = bug_inputs\<lparr>gi_problem := Some bug_problem, gi_records := []\<rparr>"

definition bug_current :: pydict where
  "bug_current = bug_doc @ [(''store_version'', PInt 1), (''store_record_hash'', PStr ''sha256:0460'')]"

definition bug_eval :: bug_evaluation where
  "bug_eval = \<lparr>be_allowed = True, be_decision = ''PROCEED'', be_target = ''SOURCE_OF_TRUTH_RESOLVED'', be_reasons = [],
     be_required = [], be_missing = [], be_valid = [], be_invalid = []\<rparr>"

definition bug_updated :: pydict where
  "bug_updated = set_fields [(''authoritative_lifecycle'', PBool False), (''authority_store'', PNone),
     (''last_completed_state'', PStr ''SOURCE_OF_TRUTH_RESOLVED''), (''state'', PStr ''SOURCE_OF_TRUTH_RESOLVED''), (''resume_state'', PNone),
     (''blocked_target'', PNone), (''blockers'', PList []),
     (''risk_history'', PList [PDict [(''risk'', PStr ''R1''), (''risk_class'', PStr ''LOW''),
        (''state'', PStr ''SOURCE_OF_TRUTH_RESOLVED'')]])] bug_doc"

definition bug_request :: life_request where
  "bug_request = commit_request bug_gate bug_current bug_updated ''SOURCE_OF_TRUTH_RESOLVED'' bug_eval None 1 None"

definition bug_next :: pydict where
  "bug_next = set_fields [(''authoritative_lifecycle'', PBool True), (''authority_store'', PStr ''controller-owned-sqlite'')] bug_updated"

lemma bug_snapshot: "life_snapshot bug_row = Inr bug_current"
  by code_simp

lemma bug_wf: "life_wf (le_sha demo_env) bug_store"
proof -
  have "life_initialize demo_env bug_doc None None empty_store = Inr (bug_store, None)" by code_simp
  from life_wf_initialize [OF life_wf_empty refl, of demo_env bug_doc None None "Some ''b''"] this
  show ?thesis by (simp add: empty_store_def)
qed

lemma bug_valid: "store_valid demo_env bug_store"
proof -
  have "event_errors demo_env life_genesis 1 [] (hd (ld_events bug_store)) = Inr []" by code_simp
  moreover have "ld_events bug_store = [hd (ld_events bug_store)]" "ld_binding bug_store = Some (le_binding demo_env)"
    by (simp_all add: bug_store_def demo_env_def)
  ultimately show ?thesis
    unfolding store_valid_iff [OF bug_wf] using log_clean_snoc_iff [of demo_env "[]" "hd (ld_events bug_store)"]
    by (simp add: log_clean_def log_head_def)
qed

lemma bug_found: "tbl_get lc_id ''c'' (ld_cases bug_store) = Some bug_row"
  by (simp add: tbl_get_def bug_store_def bug_row_def)

lemma bug_get: "life_get demo_env True ''c'' bug_store = Inr bug_current"
  using life_get_valid [OF bug_wf bug_valid bug_found] bug_snapshot by auto

lemma bug_fresh: "fresh_snapshot demo_env bug_current 1 bug_store = Inr ()"
proof -
  have "py_str (dget ''case_id'' bug_current) = ''c''" "py_int (dget_default ''store_version'' (PInt 0) bug_current) = Inr 1" by code_simp+
  then show ?thesis by (simp add: fresh_snapshot_def bug_get deny_def)
qed

lemma bug_state_ok: "state_ok demo_env bug_gate bug_current ''SOURCE_OF_TRUTH_RESOLVED''"
  by code_simp

lemma bug_evidence_given: "evidence_given demo_env bug_gate bug_current ''SOURCE_OF_TRUTH_RESOLVED''"
  by code_simp

lemma bug_nothing_required: "bug_gate_requirements safe_policy ''SOURCE_OF_TRUTH_RESOLVED'' bug_current = Inr (''E2'', [])"
  by code_simp

lemma bug_evaluated: "evaluate_bug_transition demo_env bug_gate bug_current ''SOURCE_OF_TRUTH_RESOLVED'' = Inr bug_eval"
proof (rule demo_allowed [OF _ _ _ bug_state_ok bug_evidence_given])
  show "gi_policy bug_gate = safe_policy" "gi_lifecycle_schema bug_gate = (\<lambda>_. Inr [])" by (simp_all add: bug_gate_def bug_inputs_def)
  fix q rep
  assume q: "bug_gate_requirements safe_policy ''SOURCE_OF_TRUTH_RESOLVED'' bug_current = Inr q"
    and rep: "required_report demo_env bug_gate bug_current ''SOURCE_OF_TRUTH_RESOLVED'' q = Inr ([], rep)"
    and e: "evaluate_bug_transition demo_env bug_gate bug_current ''SOURCE_OF_TRUTH_RESOLVED'' =
      Inr \<lparr>be_allowed = True, be_decision = ''PROCEED'', be_target = ''SOURCE_OF_TRUTH_RESOLVED'', be_reasons = [], be_required = snd q,
        be_missing = (case rep of None \<Rightarrow> [] | Some e \<Rightarrow> ev_missing e),
        be_valid = (case rep of None \<Rightarrow> [] | Some e \<Rightarrow> ev_valid e), be_invalid = (case rep of None \<Rightarrow> [] | Some e \<Rightarrow> ev_invalid e)\<rparr>"
  have "snd q = []" using q bug_nothing_required by auto
  moreover from this rep have "rep = None" by (simp add: required_report_def)
  ultimately show ?thesis unfolding e bug_eval_def by simp
qed simp

lemma bug_advanced: "advanced_record (le_sha demo_env) bug_gate bug_current ''SOURCE_OF_TRUTH_RESOLVED'' bug_eval = Inr bug_updated"
  by code_simp

lemma bug_next_document: "next_document demo_env bug_updated = Inr bug_next"
  by code_simp

lemma bug_guards: "transition_guards demo_env bug_current bug_next bug_request = Inr ()"
  by code_simp

lemma bug_write:
  "let h = life_hash demo_env bug_next; key = transition_key ''c'' h bug_request in
   find (\<lambda>e. py_eq (event_key e) (PStr key)) (ld_events bug_store) = None \<and>
   ok (commit_transition demo_env (parts_of ''c'' lifecycle_controller_id key bug_current h bug_next [] bug_request) 1 bug_store)"
  by code_simp

lemma bug_transition:
  obtains db' event where "life_transition demo_env ''c'' bug_updated bug_request bug_store = (db', Inr event)" and "db' \<noteq> bug_store"
proof -
  let ?h = "life_hash demo_env bug_next"
  have rq: "rq_actor bug_request = None" "rq_expected bug_request = 1" "rq_records bug_request = []" "rq_auth bug_request = None"
    "rq_requested bug_request = ''SOURCE_OF_TRUTH_RESOLVED''"
    by (simp_all add: bug_request_def commit_request_def bug_gate_def)
  have cid: "py_eq (dget ''case_id'' bug_updated) (PStr ''c'')" and row: "lc_version bug_row = rq_expected bug_request"
    "life_hash demo_env (as_dict (the (lc_state bug_row))) = lc_hash bug_row"
    and open_state: "state_name bug_next \<notin> set protected_states" by code_simp+
  have "\<exists>db'. life_transition_tx demo_env ''c'' bug_updated bug_request bug_store = Inr (db', False)"
  proof (rule transition_tx_intro [OF _ cid bug_next_document refl refl bug_found bug_snapshot row bug_guards
      unprotected_guards [OF open_state]])
    show "resolve_actor demo_env (rq_actor bug_request) = Inr lifecycle_controller_id" using demo_actor by (simp only: rq)
    show "find (\<lambda>e. py_eq (event_key e) (PStr (transition_key ''c'' ?h bug_request))) (ld_events bug_store) = None"
      using bug_write by (simp only: Let_def)
    show "ok (commit_transition demo_env (parts_of ''c'' lifecycle_controller_id (transition_key ''c'' ?h bug_request) bug_current ?h
        bug_next [] bug_request) (rq_expected bug_request) bug_store)"
      using bug_write by (simp only: Let_def rq)
  qed
  then obtain db' where tx: "life_transition_tx demo_env ''c'' bug_updated bug_request bug_store = Inr (db', False)" by blast
  have honest: "honest_request bug_updated bug_request" unfolding honest_request_def rq by code_simp
  have canonical: "canonical_request bug_updated bug_request" unfolding canonical_request_def rq by code_simp
  from honest_transition_returns [OF bug_wf bug_valid canonical tx honest] obtain event where
    "life_transition demo_env ''c'' bug_updated bug_request bug_store = (db', Inr event)" by blast
  moreover have "db' \<noteq> bug_store"
    using tx by (rule transition_event) auto
  ultimately show ?thesis by (rule that)
qed

lemma bug_committed:
  obtains db' event where "commit_bug_lifecycle_transition demo_env bug_gate bug_current ''SOURCE_OF_TRUTH_RESOLVED'' None 1 None bug_store =
      (db', Inr (event, bug_eval))" and "db' \<noteq> bug_store"
proof -
  have "advance_bug_lifecycle demo_env bug_gate bug_current ''SOURCE_OF_TRUTH_RESOLVED'' = Inr bug_updated"
    using bug_advanced by (simp add: advance_bug_lifecycle_def bug_evaluated) (simp add: bug_eval_def)
  then have "prepare_commit demo_env bug_gate bug_current ''SOURCE_OF_TRUTH_RESOLVED'' None 1 None bug_store =
      Inr (bug_eval, bug_updated, bug_request)"
    by (simp add: prepare_commit_def bug_fresh bug_evaluated bug_request_def)
  moreover have "py_str (dget ''case_id'' bug_current) = ''c''" by code_simp
  moreover obtain db' event where "life_transition demo_env ''c'' bug_updated bug_request bug_store = (db', Inr event)" "db' \<noteq> bug_store"
    by (rule bug_transition)
  ultimately show ?thesis using that by (simp add: commit_bug_lifecycle_transition_def)
qed

end
