(* ===== verification/Bug_Props.thy ===== *)
theory Bug_Props
  imports Bug_Demo
begin

text \<open>
  The properties of the bug lifecycle: what an allowed transition and a committed transition have
  passed, in which order the states come, and what the store keeps of the record of the caller.
\<close>

section \<open>Evaluating\<close>

text \<open>
  C2. A transition of the bug lifecycle that evaluate_bug_transition allows satisfies its schema,
  is declared by the policy for the state the record stands at, under a policy that keeps every
  foundational invariant, and the problem case proves the phase. For each evidence type the policy
  requires (by state, delivery model, risk, domain, hotfix and exposure) there is an accepted
  record of that type: affirmative, of at least the minimum trust level, current and not
  invalidated; from its own level E3 on it is also signed by a key of the trust roots and bound to
  the exact subject of the candidate, while below E3 the gate asks for no signature. No evidence
  id and no receipt of a type is used twice.
\<close>

theorem allowed_transition_sound:
  assumes "evaluate_bug_transition env g r target = Inr e" and "be_allowed e"
  shows "gi_lifecycle_schema g r = Inr [] \<and> validate_policy_safety (PDict (gi_policy g)) = Inr [] \<and>
    declared_edge (or_dict (dget ''transitions'' (gi_policy g))) (standing r) target = Inr True \<and>
    problem_phase_errors r target (gi_problem g) (gi_policy g) = Inr [] \<and>
    (\<exists>q. bug_gate_requirements (gi_policy g) target r = Inr q \<and> complete_evidence env g r q \<and> evidence_met env g r q \<and>
      be_required e = snd q)"
  using assms
proof (rule allowed_parts)
  fix q rep
  assume t: "transition_reasons env g r target = Inr []" and q: "bug_gate_requirements (gi_policy g) target r = Inr q"
    and rep: "required_report env g r target q = Inr ([], rep)" and "be_required e = snd q" and "gi_lifecycle_schema g r = Inr []"
  then show ?thesis
    using transition_reasons_Nil(1,2,5) [OF t] required_report_passed [OF rep] complete_evidence_met by blast
qed

theorem allowed_transition_sound_witness:
  "\<exists>q. bug_gate_requirements safe_policy ''PATCH_IMPLEMENTED'' bug_record = Inr q \<and> complete_evidence bug_env bug_inputs bug_record q \<and>
    snd q = [''ROLLBACK_PLAN'']"
proof -
  obtain e where "evaluate_bug_transition bug_env bug_inputs bug_record ''PATCH_IMPLEMENTED'' = Inr e" "be_allowed e"
    by (rule patch_allowed)
  from allowed_transition_sound [OF this] obtain q where
    "bug_gate_requirements safe_policy ''PATCH_IMPLEMENTED'' bug_record = Inr q" "complete_evidence bug_env bug_inputs bug_record q"
    by (auto simp: bug_inputs_def)
  moreover have "bug_gate_requirements safe_policy ''PATCH_IMPLEMENTED'' bug_record = Inr (''E4'', [''ROLLBACK_PLAN''])" by code_simp
  ultimately show ?thesis by auto
qed


section \<open>Closing\<close>

text \<open>
  C24. When every gate of CLOSED passes and the decision is PROCEED, advance_bug_lifecycle raises,
  and commit_bug_lifecycle_transition raises and leaves the store unchanged for every actor,
  version, authorization and store.
\<close>

theorem closing_never_commits:
  assumes "evaluate_bug_transition env g r ''CLOSED'' = Inr e" and "be_allowed e"
  shows "(\<exists>x. advance_bug_lifecycle env g r ''CLOSED'' = Inl x) \<and>
    (\<forall>actor expected auth db. \<exists>x. commit_bug_lifecycle_transition env g r ''CLOSED'' actor expected auth db = (db, Inl x))"
proof -
  obtain x where x: "advance_bug_lifecycle env g r ''CLOSED'' = Inl x" using advance_closed_raises [OF assms] by blast
  have "\<exists>y. prepare_commit env g r ''CLOSED'' actor expected auth db = Inl y" for actor expected auth db
    using x assms(1) by (cases "fresh_snapshot env r expected db") (simp_all add: prepare_commit_def)
  then show ?thesis using x commit_Inl by metis
qed

theorem closing_never_commits_witness:
  "(\<exists>e. evaluate_bug_transition bug_env bug_inputs closing_record ''CLOSED'' = Inr e \<and> be_allowed e \<and> be_decision e = ''PROCEED'') \<and>
   (\<exists>x. commit_bug_lifecycle_transition bug_env bug_inputs closing_record ''CLOSED'' None 1 None opened = (opened, Inl x))"
proof -
  obtain e where e: "evaluate_bug_transition bug_env bug_inputs closing_record ''CLOSED'' = Inr e" "be_allowed e"
    by (rule closing_allowed)
  with closing_never_commits [OF e] evaluation_decision(2) [OF e(1)] show ?thesis by blast
qed

section \<open>Committing\<close>

text \<open>
  C7. No call of commit_bug_lifecycle_transition adds a closed case to the store, whatever record,
  target, evidence, policy and authorization it is given: the closed rows afterwards are closed
  rows from before.
\<close>

theorem commit_closes_nothing:
  "set (closed_rows (fst (commit_bug_lifecycle_transition env g r target actor expected auth db))) \<subseteq> set (closed_rows db)"
proof (cases "fst (commit_bug_lifecycle_transition env g r target actor expected auth db) = db")
  case False
  let ?db = "fst (commit_bug_lifecycle_transition env g r target actor expected auth db)"
  from False commit_keeps_or_writes obtain e updated rq replay where
    p: "prepare_commit env g r target actor expected auth db = Inr (e, updated, rq)"
    and tx: "life_transition_tx env (py_str (dget ''case_id'' r)) updated rq db = Inr (?db, replay)" by meson
  obtain s where s: "dget ''state'' updated = PStr s" "s \<noteq> ''CLOSED''"
    using advance_not_closed [OF prepare_commit_Inr(2) [OF p]] by blast
  show ?thesis
  proof
    fix row
    assume "row \<in> set (closed_rows ?db)"
    then have row: "row \<in> set (ld_cases ?db)" "row_state row = PStr ''CLOSED''" by (simp_all add: closed_rows_def)
    have "row \<in> set (ld_cases db)"
    proof (rule ccontr)
      assume "row \<notin> set (ld_cases db)"
      with written_rows [OF tx row(1)] obtain d where d: "lc_state row = stored d" "dget ''state'' d = PStr s" using s(1) by auto
      from row_state_stored [OF d(1)] d(2) row(2) s(2) show False by simp
    qed
    then show "row \<in> set (closed_rows db)" using row(2) by (simp add: closed_rows_def)
  qed
qed simp


text \<open>
  C3. When commit_bug_lifecycle_transition writes an allowed transition to a state of the
  lifecycle, the stored record was at the expected version and the state follows its logical state
  in the order of the store; the identity of the candidate the evidence was judged for
  (repository, base, head, diff, contract, policy and toolchain) is that of the stored record and
  not only of the snapshot the caller passed; the policy keeps its invariants and the required
  evidence is complete; and the row of the case now has the state.
\<close>

theorem committed_transition_sound:
  assumes "commit_bug_lifecycle_transition env g r target actor expected auth db = (db', Inr (event, e))"
    and "db' \<noteq> db" and "be_allowed e" and "target \<in> set authoritative_states"
  shows "\<exists>row current row'. tbl_get lc_id (py_str (dget ''case_id'' r)) (ld_cases db) = Some row \<and> life_snapshot row = Inr current \<and>
    lc_version row = expected \<and> target \<in> set (allowed_transitions (logical_state current)) \<and>
    row' \<in> set (ld_cases db') \<and> lc_id row' = py_str (dget ''case_id'' r) \<and> row_state row' = PStr target \<and>
    (\<forall>f \<in> set candidate_fields. py_eq (dget f current) (dget f r)) \<and>
    validate_policy_safety (PDict (gi_policy g)) = Inr [] \<and>
    (\<exists>q. bug_gate_requirements (gi_policy g) target r = Inr q \<and> complete_evidence env g r q)"
  using assms(1,2)
proof (rule commit_written)
  fix updated row current d row'
  assume e: "evaluate_bug_transition env g r target = Inr e" and u: "advance_bug_lifecycle env g r target = Inr updated"
    and row: "tbl_get lc_id (py_str (dget ''case_id'' r)) (ld_cases db) = Some row" "life_snapshot row = Inr current" "lc_version row = expected"
    and d: "next_document env updated = Inr d" and f: "field_guards current d = Inr ()"
    and o: "order_guards current d target (rq_decision (commit_request g r updated target e actor expected auth)) = Inr ()"
    and w: "row' \<in> set (ld_cases db')" "lc_id row' = py_str (dget ''case_id'' r)" "lc_state row' = stored d"
  note adv = advanced_record_Inr [OF allowed_advance [OF e assms(3) u]]
  have state: "dget ''state'' d = PStr target" using next_document_keeps(2) [OF d] adv(2) by simp
  have "state_name d = target" using state assms(4) by (auto simp: state_name_def str_or_empty_def py_or_def authoritative_states_def)
  moreover have "target \<noteq> ''ROLLBACK_REQUIRED''" using assms(4) by (auto simp: authoritative_states_def code_lifecycle_def package_states_def)
  ultimately have "target \<in> set (allowed_transitions (logical_state current))"
    using order_guards_allowed [of current d target] o assms(3,4) by (simp add: commit_decision(1))
  moreover have "py_eq (dget k current) (dget k r)" if "k \<in> set candidate_fields" for k
  proof -
    have k: "k \<notin> set (advanced_fields @ sealed_fields)" "k \<notin> set lifecycle_mutation_fields"
      "k \<notin> {''authority_store'', ''authoritative_lifecycle'', ''idempotent_replay'', ''last_completed_state'', ''subject_fingerprint''}"
      "k \<notin> {''authoritative_lifecycle'', ''authority_store'', ''store_version'', ''store_record_hash''}"
      using that by (auto simp: candidate_fields_def advanced_fields_def sealed_fields_def lifecycle_mutation_fields_def)
    show ?thesis using unchanged_field [OF f k(2,4)] next_document_dget [OF d k(3)] adv(3) [OF k(1)] by simp
  qed
  moreover have "row_state row' = PStr target" using row_state_stored [OF w(3)] state by simp
  moreover from e assms(3) obtain q rep where "transition_reasons env g r target = Inr []"
    "bug_gate_requirements (gi_policy g) target r = Inr q" "required_report env g r target q = Inr ([], rep)"
    by (rule allowed_parts)
  ultimately show ?thesis
    using row w(1,2) transition_reasons_Nil(1) [of env g r target] required_report_passed by blast
qed

theorem committed_transition_sound_witness:
  "(\<exists>db' event. commit_bug_lifecycle_transition demo_env bug_gate bug_current ''SOURCE_OF_TRUTH_RESOLVED'' None 1 None bug_store =
      (db', Inr (event, bug_eval)) \<and> (\<exists>row' \<in> set (ld_cases db'). row_state row' = PStr ''SOURCE_OF_TRUTH_RESOLVED'')) \<and>
   (\<exists>q. bug_gate_requirements safe_policy ''SOURCE_OF_TRUTH_RESOLVED'' bug_current = Inr q \<and> complete_evidence demo_env bug_gate bug_current q)"
proof -
  obtain db' event where c: "commit_bug_lifecycle_transition demo_env bug_gate bug_current ''SOURCE_OF_TRUTH_RESOLVED'' None 1 None bug_store =
      (db', Inr (event, bug_eval))" "db' \<noteq> bug_store" by (rule bug_committed)
  have "be_allowed bug_eval" "''SOURCE_OF_TRUTH_RESOLVED'' \<in> set authoritative_states" "gi_policy bug_gate = safe_policy"
    by (simp_all add: bug_eval_def authoritative_states_def code_lifecycle_def bug_gate_def bug_inputs_def)
  with committed_transition_sound [OF c this(1,2)] c(1) show ?thesis by (simp only:) blast
qed

text \<open>
  C25. An allowed transition that is committed with a problem case leaves the fingerprint of the
  case as stored: the store refuses to bind a problem case that differs from the one the lifecycle
  was opened with.
\<close>

theorem problem_case_frozen:
  assumes "commit_bug_lifecycle_transition env g r target actor expected auth db = (db', Inr (event, e))"
    and "db' \<noteq> db" and "be_allowed e" and "gi_problem g = Some p"
  shows "\<exists>row current. tbl_get lc_id (py_str (dget ''case_id'' r)) (ld_cases db) = Some row \<and> life_snapshot row = Inr current \<and>
    py_eq (dget ''problem_case_fingerprint'' current) (PStr (problem_case_fingerprint (le_sha env) p))"
  using assms(1,2)
proof (rule commit_written)
  fix updated row current d row'
  assume e: "evaluate_bug_transition env g r target = Inr e" and u: "advance_bug_lifecycle env g r target = Inr updated"
    and row: "tbl_get lc_id (py_str (dget ''case_id'' r)) (ld_cases db) = Some row" "life_snapshot row = Inr current"
    and d: "next_document env updated = Inr d" and f: "field_guards current d = Inr ()"
  have "dget ''problem_case_fingerprint'' d = PStr (problem_case_fingerprint (le_sha env) p)"
    using next_document_dget [OF d, of "''problem_case_fingerprint''"] assms(4)
      advanced_record_Inr(4) [OF allowed_advance [OF e assms(3) u]] by simp
  then show ?thesis
    using row unchanged_field [OF f, of "''problem_case_fingerprint''"] by (simp add: lifecycle_mutation_fields_def)
qed


theorem problem_case_frozen_witness:
  "\<exists>row current. tbl_get lc_id ''c'' (ld_cases bug_store) = Some row \<and> life_snapshot row = Inr current \<and>
    py_eq (dget ''problem_case_fingerprint'' current) (PStr (problem_case_fingerprint (le_sha demo_env) bug_problem))"
proof -
  obtain db' event where c: "commit_bug_lifecycle_transition demo_env bug_gate bug_current ''SOURCE_OF_TRUTH_RESOLVED'' None 1 None bug_store =
      (db', Inr (event, bug_eval))" "db' \<noteq> bug_store" by (rule bug_committed)
  have "be_allowed bug_eval" "gi_problem bug_gate = Some bug_problem" by (simp_all add: bug_eval_def bug_gate_def)
  moreover have "py_str (dget ''case_id'' bug_current) = ''c''" by code_simp
  ultimately show ?thesis using problem_case_frozen [OF c] by simp
qed

end
