(* ===== verification/Bug_Order.thy ===== *)
theory Bug_Order
  imports Bug_Demo
begin

text \<open>
  The order of the states: under an accepted policy an allowed transition leads to the successor of
  a state or out of the lifecycle, so the states of a case come in the order of the lifecycle.
\<close>

section \<open>Accepted policies\<close>

lemma safe_policy_skips:
  assumes "validate_policy_safety (PDict policy) = Inr []"
  shows "\<forall>x \<in> set (skip_errors policy). x = Inr []"
    and "validate_authoritative_lifecycle_policy policy = Inr []"
proof -
  obtain base declared where "validate_authoritative_lifecycle_policy policy = Inr base"
    and "sorted_errs ([Inr base] @
              map (\<lambda>s. says (s \<notin> set declared) (''Policy is missing mandatory lifecycle state: '' @ s))
                (authoritative_lifecycle @ [''BLOCKED'', ''ROLLBACK_REQUIRED'', ''RESOLVED_NO_CODE'']) @
              map (\<lambda>s. says (s \<notin> set declared) (''Policy is missing mandatory package lifecycle state: '' @ s))
                package_lifecycle_states @
              class_errors policy @ domain_errors policy @ hotfix_errors policy @ skip_errors policy @
              model_errors policy @ exposure_errors policy) = Inr []"
    using assms unfolding validate_policy_safety_def pyval.case bind_res_Inr by blast
  then show "\<forall>x \<in> set (skip_errors policy). x = Inr []" and "validate_authoritative_lifecycle_policy policy = Inr []"
    unfolding sorted_errs_Nil by auto
qed

lemma or_dict_entry:
  assumes "declared_edge (or_dict v) a t = Inr True"
  obtains xs where "py_set (dget a (as_dict v)) = Inr xs" and "PStr t \<in> set xs"
proof (cases "truthy v")
  case True
  then show ?thesis using assms that
    by (cases v) (auto simp: declared_edge_def or_dict_def py_or_def dict_get_def has_name_def bind_res_Inr)
next
  case False
  then show ?thesis using assms that
    by (cases v) (auto simp: declared_edge_def or_dict_def py_or_def dict_get_def has_name_def bind_res_Inr)
qed

lemma safe_edge:
  assumes "validate_policy_safety (PDict policy) = Inr []" and "(a, b) \<in> set lifecycle_edges"
    and "declared_edge (or_dict (dget ''transitions'' policy)) a t = Inr True"
  shows "t \<in> set (permitted_next a b)"
proof -
  from assms(3) obtain xs where xs: "py_set (dget a (as_dict (dget ''transitions'' policy))) = Inr xs" "PStr t \<in> set xs"
    by (rule or_dict_entry)
  have "bind_res (py_set (dget a (as_dict (dget ''transitions'' policy)))) (\<lambda>actual.
      Inr (err_if (\<not> within actual (permitted_next a b)) (''Policy permits a lifecycle skip from '' @ a))) \<in> set (skip_errors policy)"
    using assms(2) unfolding skip_errors_def Let_def by force
  then have "within xs (permitted_next a b)"
    using safe_policy_skips(1) [OF assms(1)] xs(1) by (auto simp: bind_res_Inr)
  then show ?thesis using xs(2) by (auto simp: within_def)
qed

lemma closed_is_final:
  assumes "validate_policy_safety (PDict policy) = Inr []"
  shows "declared_edge (or_dict (dget ''transitions'' policy)) ''CLOSED'' t \<noteq> Inr True"
proof
  let ?v = "dget ''transitions'' policy"
  assume e: "declared_edge (or_dict ?v) ''CLOSED'' t = Inr True"
  have "says_res (bind_res (dict_get ''CLOSED'' (or_dict ?v)) (\<lambda>v. bind_res (py_set v) (\<lambda>xs. Inr (xs \<noteq> []))))
      ''CLOSED must have no outgoing authoritative lifecycle transition'' = Inr []"
    using safe_policy_skips(2) [OF assms]
    unfolding validate_authoritative_lifecycle_policy_def bind_res_Inr Let_def sorted_errs_Nil by auto
  then show False using e by (auto simp: declared_edge_def has_name_def bind_res_Inr)
qed

section \<open>The order of the states\<close>

lemma allowed_edge:
  assumes "evaluate_bug_transition env g r target = Inr e" and "be_allowed e"
  shows "validate_policy_safety (PDict (gi_policy g)) = Inr []"
    and "declared_edge (or_dict (dget ''transitions'' (gi_policy g))) (standing r) target = Inr True"
  using assms by (rule allowed_parts; use transition_reasons_Nil(1,2) in blast)+

text \<open>A run of allowed advances, with the inputs of every step.\<close>

fun advances :: "life_env \<Rightarrow> (gate_inputs \<times> string) list \<Rightarrow> pydict \<Rightarrow> pydict \<Rightarrow> bool" where
  "advances env [] r r' \<longleftrightarrow> r' = r"
| "advances env ((g, t) # steps) r r' \<longleftrightarrow> (\<exists>e r1. evaluate_bug_transition env g r t = Inr e \<and> be_allowed e \<and>
     advance_bug_lifecycle env g r t = Inr r1 \<and> advances env steps r1 r')"

lemma lifecycle_length: "length authoritative_lifecycle = 19"
  by (simp add: authoritative_lifecycle_def)

lemma lifecycle_edge_at:
  assumes "n < 18"
  shows "(authoritative_lifecycle ! n, authoritative_lifecycle ! Suc n) \<in> set lifecycle_edges"
  unfolding lifecycle_edges_def in_set_zip using assms lifecycle_length by (intro exI [of _ n]) (simp add: nth_tl)

lemma permitted_in_lifecycle:
  "(a, b) \<in> set lifecycle_edges \<Longrightarrow> t \<in> set (permitted_next a b) \<Longrightarrow> t \<in> set authoritative_lifecycle \<Longrightarrow> t = b"
  by (auto simp: lifecycle_edges_def permitted_next_def authoritative_lifecycle_def split: if_splits)

lemma standing_state: "dget ''state'' r = PStr s \<Longrightarrow> s \<noteq> ''BLOCKED'' \<Longrightarrow> standing r = s"
  by (simp add: standing_def)

lemma advances_in_order:
  assumes "advances env steps r r'" and "n < 18" and "dget ''state'' r = PStr (authoritative_lifecycle ! n)"
    and "set (map snd steps) \<subseteq> set authoritative_lifecycle"
  shows "n + length steps < 18 \<and> map snd steps = take (length steps) (drop (Suc n) authoritative_lifecycle) \<and>
    dget ''state'' r' = PStr (authoritative_lifecycle ! (n + length steps))"
  using assms
proof (induction steps arbitrary: r n)
  case (Cons step steps)
  obtain g t where step: "step = (g, t)" by (cases step)
  with Cons.prems(1) obtain e r1 where e: "evaluate_bug_transition env g r t = Inr e" "be_allowed e"
    and adv: "advance_bug_lifecycle env g r t = Inr r1" and rest: "advances env steps r1 r'" by auto
  note len = lifecycle_length
  have "authoritative_lifecycle ! n \<noteq> ''BLOCKED''"
    using nth_mem [of n authoritative_lifecycle] Cons.prems(2) len by (auto simp: authoritative_lifecycle_def)
  with Cons.prems(3) have s: "standing r = authoritative_lifecycle ! n" by (rule standing_state)
  have edge: "(standing r, authoritative_lifecycle ! Suc n) \<in> set lifecycle_edges"
    unfolding s by (rule lifecycle_edge_at [OF Cons.prems(2)])
  have "t \<in> set authoritative_lifecycle" using Cons.prems(4) step by simp
  then have t: "t = authoritative_lifecycle ! Suc n"
    by (rule permitted_in_lifecycle [OF edge safe_edge [OF allowed_edge(1) [OF e] edge allowed_edge(2) [OF e]]])
  have r1: "t \<noteq> ''CLOSED''" "dget ''state'' r1 = PStr t" using advanced_record_Inr(1,2) [OF allowed_advance [OF e adv]] by simp_all
  have "Suc n \<noteq> 18" using r1(1) t by (auto simp: authoritative_lifecycle_def)
  then have "Suc n < 18" using Cons.prems(2) by simp
  from Cons.IH [OF rest this] r1(2) t Cons.prems(4)
  have ih: "Suc n + length steps < 18" "map snd steps = take (length steps) (drop (Suc (Suc n)) authoritative_lifecycle)"
    "dget ''state'' r' = PStr (authoritative_lifecycle ! (Suc n + length steps))" by auto
  have "drop (Suc n) authoritative_lifecycle = authoritative_lifecycle ! Suc n # drop (Suc (Suc n)) authoritative_lifecycle"
    using \<open>Suc n < 18\<close> len by (simp add: Cons_nth_drop_Suc)
  then show ?case using ih t by (simp add: step)
qed simp

text \<open>
  C4. Whatever policies, evidence and problem cases are passed at the single steps, a run of
  allowed advances from an unverified report through states of the authoritative lifecycle
  completes exactly an initial segment of it: no state is skipped, repeated or taken out of order.
\<close>

theorem completed_states_in_order:
  assumes "advances env steps r r'" and "dget ''state'' r = PStr ''UNVERIFIED_REPORT''"
    and "set (map snd steps) \<subseteq> set authoritative_lifecycle"
  shows "length steps < 18 \<and> map snd steps = take (length steps) (tl authoritative_lifecycle) \<and>
    dget ''state'' r' = PStr (authoritative_lifecycle ! length steps)"
proof -
  have "authoritative_lifecycle ! 0 = ''UNVERIFIED_REPORT''" "drop (Suc 0) authoritative_lifecycle = tl authoritative_lifecycle"
    by (simp_all add: authoritative_lifecycle_def)
  with advances_in_order [OF assms(1), of 0] assms(2,3) show ?thesis by simp
qed

theorem completed_states_in_order_witness:
  "advances demo_env [(bug_gate, ''SOURCE_OF_TRUTH_RESOLVED'')] bug_current bug_updated \<and>
   dget ''state'' bug_updated = PStr (authoritative_lifecycle ! 1)"
proof -
  have "be_allowed bug_eval" by (simp add: bug_eval_def)
  then have a: "advances demo_env [(bug_gate, ''SOURCE_OF_TRUTH_RESOLVED'')] bug_current bug_updated"
    using bug_evaluated bug_advanced by (simp add: advance_bug_lifecycle_def)
  have "dget ''state'' bug_current = PStr ''UNVERIFIED_REPORT''"
    "set (map snd [(bug_gate, ''SOURCE_OF_TRUTH_RESOLVED'')]) \<subseteq> set authoritative_lifecycle"
    by (simp_all add: bug_current_def bug_doc_def authoritative_lifecycle_def)
  from completed_states_in_order [OF a this] a show ?thesis by simp
qed

end
