(* ===== verification/Handoff_Props.thy ===== *)
theory Handoff_Props
  imports Bug_Demo
begin

text \<open>
  What an investigation hands on: the derived risk class is at least the class of the requested
  level and of every high-risk domain, and the contract of a finished investigation passes the
  checks of the scheduler against the record of the owned store.
\<close>

section \<open>Risk\<close>

lemma effective_risk_Inr:
  assumes "effective_risk r = Inr l"
  shows "known_risk l" and "\<And>v. v \<in> set (source_levels r) \<Longrightarrow> known_risk v \<and> rank_of v \<le> rank_of l"
proof -
  let ?vs = "source_levels r"
  have ne: "hd ?vs # tl ?vs = ?vs" by (simp add: source_levels_def)
  from assms have known: "\<forall>v \<in> set ?vs. known_risk v" and l: "l = first_max rank_of (hd ?vs) (tl ?vs)"
    by (auto simp: effective_risk_def Let_def filter_empty_conv split: if_splits)
  have mem: "insert (hd ?vs) (set (tl ?vs)) = set ?vs" unfolding list.set(2) [symmetric] ne ..
  show "known_risk l" using known first_max_in [of rank_of "hd ?vs" "tl ?vs"] unfolding mem l by blast
  show "known_risk v \<and> rank_of v \<le> rank_of l" if "v \<in> set ?vs" for v
    using known that first_max_ge [of v "tl ?vs" rank_of "hd ?vs"] first_max_start [of rank_of "hd ?vs" "tl ?vs"]
    unfolding mem [symmetric] l by blast
qed

lemma class_monotone:
  assumes "known_risk a" and "known_risk b" and "rank_of a \<le> rank_of b"
  shows "class_rank (the (map_of risk_to_class a)) \<le> class_rank (the (map_of risk_to_class b))"
proof -
  from assms(1,2) obtain k l where names: "a = level_name k" "b = level_name l" by (auto simp: known_risk_level)
  then have le: "risk_rank k \<le> risk_rank l" using assms(3) by simp
  have r: "class_rank (the (map_of risk_to_class (level_name x))) = (if risk_rank x = 0 then 0 else risk_rank x - 1)" for x
    by (induction x) code_simp+
  show ?thesis unfolding names r using le by simp
qed

lemma configured_level_high: "configured_level policy d = Inr l \<Longrightarrow> 3 \<le> rank_of l"
  by (auto simp: configured_level_def bind_res_Inr Let_def rank_of_def risk_order_def split: if_splits)

lemma domain_fold_high:
  assumes "fold_res (\<lambda>d best. bind_res (configured_level policy d)
      (\<lambda>l. effective_risk (no_sources\<lparr>rs_requested := l, rs_domain := best\<rparr>))) ds b = Inr l"
  shows "rank_of b \<le> rank_of l \<and> (ds \<noteq> [] \<longrightarrow> 3 \<le> rank_of l)"
  using assms
proof (induction ds arbitrary: b)
  case (Cons d ds)
  from Cons.prems obtain c m where c: "configured_level policy d = Inr c"
    and m: "effective_risk (no_sources\<lparr>rs_requested := c, rs_domain := b\<rparr>) = Inr m"
    and rest: "fold_res (\<lambda>d best. bind_res (configured_level policy d)
      (\<lambda>l. effective_risk (no_sources\<lparr>rs_requested := l, rs_domain := best\<rparr>))) ds m = Inr l"
    by (auto simp: bind_res_Inr split: sum.splits)
  have "rank_of c \<le> rank_of m" "rank_of b \<le> rank_of m"
    using effective_risk_Inr(2) [OF m] by (simp_all add: source_levels_def)
  then show ?case using Cons.IH [OF rest] configured_level_high [OF c] by auto
qed simp

lemma derive_risk_class_Inr:
  assumes "derive_risk_class risk domains paths t policy = Inr c"
  obtains names l domain path op where "upper_items domains = Inr names" and "known_risk l" and "c = the (map_of risk_to_class l)"
    and "\<And>s. risk = PStr s \<Longrightarrow> known_risk (str_upper s) \<Longrightarrow> rank_of (str_upper s) \<le> rank_of l"
    and "\<And>d. d \<in> set names \<Longrightarrow> d \<in> set high_risk_domains \<Longrightarrow> 3 \<le> rank_of l"
proof -
  from assms obtain names domain path op l where names: "upper_items domains = Inr names"
    and domain: "fold_res (\<lambda>d best. bind_res (configured_level policy d)
        (\<lambda>l. effective_risk (no_sources\<lparr>rs_requested := l, rs_domain := best\<rparr>)))
        (filter (\<lambda>d. d \<in> set high_risk_domains) (uniq names)) ''R0'' = Inr domain"
    and l: "effective_risk (no_sources\<lparr>rs_requested := if known_risk (str_upper (py_str (py_or risk (PStr ''R0''))))
        then str_upper (py_str (py_or risk (PStr ''R0''))) else ''R0'', rs_path := path, rs_operation := op, rs_domain := domain\<rparr>) = Inr l"
    and c: "c = the (map_of risk_to_class l)"
    unfolding derive_risk_class_def bind_res_Inr Let_def by (auto simp: bind_res_Inr split: if_splits)
  note eff = effective_risk_Inr [OF l]
  have requested: "rank_of (str_upper s) \<le> rank_of l" if "risk = PStr s" "known_risk (str_upper s)" for s
  proof -
    have "s \<noteq> []" using that(2) by (auto simp: known_risk_def risk_order_def str_upper_def)
    then show ?thesis using eff(2) [of "str_upper s"] that by (simp add: source_levels_def py_or_def)
  qed
  moreover have "3 \<le> rank_of l" if "d \<in> set names" "d \<in> set high_risk_domains" for d
  proof -
    have "filter (\<lambda>d. d \<in> set high_risk_domains) (uniq names) \<noteq> []" using that by (auto simp: filter_empty_conv)
    with domain_fold_high [OF domain] have "3 \<le> rank_of domain" by blast
    then show ?thesis using eff(2) [of domain] by (simp add: source_levels_def)
  qed
  ultimately show ?thesis by (rule that [OF names eff(1) c])
qed

text \<open>
  C26. derive_risk_class never answers below the class of the risk level it is given, nor below
  HIGH when a high-risk domain is named, whatever the policy configures for the domain.
\<close>

theorem derived_class_floor:
  assumes "derive_risk_class risk domains paths t policy = Inr c"
  shows "(case risk of PStr s \<Rightarrow> known_risk (str_upper s) \<longrightarrow>
       class_rank (the (map_of risk_to_class (str_upper s))) \<le> class_rank c | _ \<Rightarrow> True) \<and>
    (\<forall>names. upper_items domains = Inr names \<longrightarrow> set names \<inter> set high_risk_domains \<noteq> {} \<longrightarrow> class_rank ''HIGH'' \<le> class_rank c)"
  using assms
proof (rule derive_risk_class_Inr)
  fix names l
  assume names: "upper_items domains = Inr names" and l: "known_risk l" and c: "c = the (map_of risk_to_class l)"
    and requested: "\<And>s. risk = PStr s \<Longrightarrow> known_risk (str_upper s) \<Longrightarrow> rank_of (str_upper s) \<le> rank_of l"
    and domain: "\<And>d. d \<in> set names \<Longrightarrow> d \<in> set high_risk_domains \<Longrightarrow> 3 \<le> rank_of l"
  have "class_rank ''HIGH'' \<le> class_rank c" if "3 \<le> rank_of l"
  proof -
    have "known_risk ''R3''" "rank_of ''R3'' = 3" "the (map_of risk_to_class ''R3'') = ''HIGH''"
      by (simp_all add: known_risk_def risk_order_def rank_of_def risk_to_class_def)
    with class_monotone [OF this(1) l] that show ?thesis by (simp add: c)
  qed
  then show ?thesis
    using names requested domain class_monotone [OF _ l] by (auto simp: c split: pyval.splits)
qed

theorem derived_class_floor_witness:
  "\<exists>c. derive_risk_class (PStr ''R1'') (PList [PStr ''database'']) [] [] (PDict safe_policy) = Inr c \<and>
    class_rank ''HIGH'' \<le> class_rank c"
proof -
  have d: "derive_risk_class (PStr ''R1'') (PList [PStr ''database'']) [] [] (PDict safe_policy) = Inr ''HIGH''" by code_simp
  have u: "upper_items (PList [PStr ''database'']) = Inr [''DATABASE'']" by code_simp
  from derived_class_floor [OF d] u d show ?thesis by (auto simp: high_risk_domains_def)
qed

section \<open>Handoff\<close>

lemma py_set_texts: "py_set (PList (map PStr xs)) = Inr (map PStr xs)"
  by (simp add: py_set_def)

lemma py_set_keys: "py_set (PDict (map (\<lambda>p. (p, f p)) xs)) = Inr (map PStr xs)"
  by (simp add: py_set_def comp_def)

lemma py_set_eq_refl: "py_set_eq xs xs"
  by (force simp: py_set_eq_def)

lemma need_Inr: "need k d = Inr v \<Longrightarrow> map_of d k = Some v"
  by (simp add: need_def split: option.splits)

lemma contract_of_Inr:
  assumes "contract_of sha c plan baseline = Inr contract"
  shows "\<exists>i v files f. map_of c ''case_id'' = Some i \<and> map_of c ''state'' = Some v \<and>
    dget ''origin'' contract = PStr ''REPORTED_DEFECT'' \<and> dget ''bug_lifecycle_case_id'' contract = i \<and>
    dget ''authoritative_lifecycle_handoff'' contract = PDict [(''case_id'', i), (''state'', v),
        (''problem_case_fingerprint'', PStr (problem_case_fingerprint sha c)), (''authority_store'', PStr ''controller-owned-sqlite'')] \<and>
    dget ''file_reasons'' (as_dict (dget ''scope'' contract)) = PDict (map (\<lambda>p. (p, f p)) files) \<and>
    dget ''expected_components'' (as_dict (dget ''scope'' contract)) = texts_of files"
  using assms unfolding contract_of_def Let_def bind_res_Inr
  apply (elim exE conjE)
  apply (drule Inr_inject)
  apply hypsubst
  apply (intro exI conjI)
  apply (erule need_Inr)
  apply (erule need_Inr)
  apply (simp_all add: dget_def scope_of_def)
  apply (rule ballI, rule refl)
  done

text \<open>
  C20. The change contract of a finished investigation passes the origin check of the scheduler
  against every authoritative lifecycle record of the same case and fingerprint that has reached
  the handoff, and is backed by it.
\<close>

theorem handoff_contract_accepted:
  assumes "problem_case_to_change_contract sha schema policy c = Inr contract" and "truthy (dget ''case_id'' c)"
    and "py_eq (dget ''case_id'' a) (dget ''case_id'' c)"
    and "py_eq (dget ''problem_case_fingerprint'' a) (PStr (problem_case_fingerprint sha c))"
    and "py_eq (dget ''authority_store'' a) (PStr owned_store)" and "dget ''authoritative_lifecycle'' a = PBool True"
    and "dget ''state'' a = PStr s" and "s \<in> set handoff_states"
  shows "validate_work_origin contract flag (Some a) = Inr [] \<and> backed_handoff contract (Some a)"
proof -
  from assms(1) obtain plan baseline where c: "contract_of sha c plan baseline = Inr contract"
    and ready: "py_eq (dget ''state'' c) (PStr ''HANDOFF_READY'')"
    unfolding problem_case_to_change_contract_def bind_res_Inr by (auto simp: bind_res_Inr split: if_splits)
  from contract_of_Inr [OF c] obtain i v files f where i: "map_of c ''case_id'' = Some i" and v: "map_of c ''state'' = Some v"
      and fields: "dget ''origin'' contract = PStr ''REPORTED_DEFECT''" "dget ''bug_lifecycle_case_id'' contract = i"
      and h: "dget ''authoritative_lifecycle_handoff'' contract = PDict [(''case_id'', i), (''state'', v),
        (''problem_case_fingerprint'', PStr (problem_case_fingerprint sha c)), (''authority_store'', PStr ''controller-owned-sqlite'')]"
      and scope: "dget ''file_reasons'' (as_dict (dget ''scope'' contract)) = PDict (map (\<lambda>p. (p, f p)) files)"
        "dget ''expected_components'' (as_dict (dget ''scope'' contract)) = texts_of files" by blast
    have case_id: "dget ''case_id'' c = i" and "v = PStr ''HANDOFF_READY''"
      using i v ready by (auto simp: dget_def py_eq_PStr)
    have fp: "problem_case_fingerprint sha c \<noteq> []" by (simp add: problem_case_fingerprint_def sha256_json_def sha256_bytes_def)
    have origin: "work_origin contract = ''REPORTED_DEFECT''" 
      unfolding work_origin_def py_or_def fields(1) by code_simp 
    have valid: "valid_handoff (dget ''authoritative_lifecycle_handoff'' contract) = Inr True"
      using assms(2) fp unfolding h case_id \<open>v = _\<close>
      by (simp add: valid_handoff_def in_names_def handoff_states_def owned_store_def)
    have authority: "authority_errors (as_dict (dget ''authoritative_lifecycle_handoff'' contract)) (Some a) = Inr []"
      using assms(3-8) unfolding h case_id by (simp add: authority_errors_def in_names_def)
    have scope_ok: "scope_errors contract = Inr []"
      unfolding scope_errors_def Let_def scope by (simp add: py_set_keys texts_of_def py_set_texts py_set_eq_refl)
    have accepted: "validate_work_origin contract flag (Some a) = Inr []"
      unfolding validate_work_origin_def Let_def origin valid authority bind_res_simps scope_ok
      using fields(2) h by (simp add: authority [unfolded h, simplified] scope_ok)
  then show ?thesis using accepted_defect_backed [OF accepted origin] by blast
qed

definition handed_case :: pydict where
  "handed_case =
    [(''case_id'', PStr ''CASE-1''),
     (''state'', PStr ''HANDOFF_READY''),
     (''origin'', PStr ''REPORTED_DEFECT''),
     (''base_sha'', PStr (replicate 40 (CHR ''a''))),
     (''protected_ref_resolved'', PBool True),
     (''expected_behavior'', PStr ''X must produce Z.''),
     (''authoritative_sources'', PList [PDict [(''source'', PStr ''app.py''), (''authority'', PStr ''EXECUTABLE_SOURCE''),
       (''authority_reason'', PStr ''local''), (''evidence_ref'', PStr ''ev'')]]),
     (''classification'', PStr ''CONFIRMED_BUG''),
     (''classification_evidence'', texts_of [''ev'']),
     (''classification_record'', PDict [(''evidence'', texts_of [''ev'']), (''reproduction_status'', PStr ''REPRODUCED''),
       (''authoritative_expected_behavior'', PStr ''Z''), (''competing_explanations_tested'', texts_of [''cache'']),
       (''environment_findings'', texts_of [''local'']), (''unresolved_ambiguities'', PList []),
       (''source_conflicts'', PList []), (''implementation_justified'', PBool True)]),
     (''reproduction'', PDict [(''preconditions'', texts_of [''base'']), (''action'', PStr ''run''),
       (''expected'', PStr ''Z''), (''actual'', PStr ''Y''), (''environment'', PStr ''local''),
       (''deterministic'', PBool True), (''affected_component'', PStr ''app.py''), (''evidence_refs'', texts_of [''ev''])]),
     (''root_cause'', PDict [(''trigger'', PStr ''X''), (''incorrect_state_or_assumption'', PStr ''wrong branch''),
       (''propagation'', texts_of [''app.py'']), (''observable_failure'', PStr ''Y''),
       (''affected_source'', texts_of [''app.py'']), (''evidence_refs'', texts_of [''ev''])]),
     (''hypothesis_tests'', PList [PDict [(''hypothesis'', PStr ''cache''), (''test'', PStr ''rerun''),
       (''result'', PStr ''rejected''), (''evidence_refs'', texts_of [''ev''])]]),
     (''blast_radius'', PDict [(''direct'', texts_of [''app.py'']),
       (''coverage'', PDict (map (\<lambda>f. (f, texts_of [''none''])) coverage_fields))]),
     (''invariants'', texts_of [''Unrelated behavior is unchanged.'']),
     (''risk'', PStr ''R1''),
     (''regression_baseline'', PDict [(''base_sha'', PStr (replicate 40 (CHR ''a''))),
       (''test_or_oracle'', PStr ''pytest''), (''bad_result'', PStr ''FAIL''), (''same_oracle'', PBool True),
       (''evidence_refs'', texts_of [''ev''])]),
     (''change_plan'', PDict [(''root_cause_summary'', PStr ''wrong branch''), (''intended_fix'', PStr ''correct it''),
       (''expected_files'', texts_of [''app.py'', ''tests/test_bug.py'']), (''tests'', texts_of [''pytest'']),
       (''forbidden_scope'', texts_of [''infra'']), (''database_impact'', PStr ''none''),
       (''external_side_effects'', PStr ''none''), (''rollback_or_containment'', PStr ''restore''),
       (''file_reasons'', PDict [(''app.py'', PDict [(''why'', PStr ''branch''),
       (''root_cause_mechanism'', PStr ''branch''), (''validation'', PStr ''oracle'')]),
       (''tests/test_bug.py'', PDict [(''why'', PStr ''oracle''), (''root_cause_mechanism'', PStr ''branch''),
       (''validation'', PStr ''oracle'')])])]),
     (''external_dependencies'', PList [])]"

definition handed_contract :: pydict where
  "handed_contract = (case problem_case_to_change_contract (\<lambda>t. replicate 64 (CHR ''0'')) (\<lambda>c. Inr []) (PDict safe_policy)
     handed_case of Inr contract \<Rightarrow> contract | Inl e \<Rightarrow> [])"

definition handed_record :: pydict where
  "handed_record = [(''case_id'', PStr ''CASE-1''), (''problem_case_fingerprint'', PStr (''sha256:'' @ replicate 64 (CHR ''0''))),
     (''authority_store'', PStr owned_store), (''authoritative_lifecycle'', PBool True), (''state'', PStr ''HANDOFF_READY'')]"

lemma ok_bindI: "ok r \<Longrightarrow> (\<And>x. ok (f x)) \<Longrightarrow> ok (bind_res r f)"
  by (cases r) simp_all

lemma handed_stages:
  "errs (source_checks handed_case) = Inr []" "validate_classification_record handed_case = Inr []"
  "errs (reproduction_checks handed_case) = Inr []" "errs (root_cause_checks handed_case) = Inr []"
  "errs (blast_checks (PDict safe_policy) handed_case) = Inr []" "errs (plan_checks handed_case) = Inr []"
  "errs (baseline_checks handed_case) = Inr []"
  by code_simp+

lemma handed_valid: "validate_problem_case (\<lambda>c. Inr []) (PDict safe_policy) handed_case = Inr []"
proof -
  have state: "or_text (dget ''state'' handed_case) = ''HANDOFF_READY''" "state_index ''HANDOFF_READY'' = 8"
    "''HANDOFF_READY'' \<in> set problem_states" "\<not> truthy (dget ''external_dependencies'' handed_case)" by code_simp+
  have "semantic_errors handed_case None (PDict safe_policy) = Inr []"
    unfolding semantic_errors_def Let_def option.case state(1)
    by (simp add: state(2-4) guarded_def handed_stages)
  then show ?thesis by (simp add: validate_problem_case_def)
qed

lemma handed_hex:
  "int_of_hex (take 12 (drop 7 (problem_case_fingerprint (\<lambda>t. replicate 64 (CHR ''0'')) handed_case))) = Inr 0"
proof -
  have "take 12 (drop 7 (''sha256:'' @ replicate 64 (CHR ''0''))) = ''000000000000''" by code_simp
  moreover have "int_of_hex ''000000000000'' = Inr 0"
    by (simp add: int_of_hex_def hex_val_def ascii_lower_def)
  ultimately show ?thesis by (simp only: problem_case_fingerprint_def sha256_json_def sha256_bytes_def)
qed

lemma handed_contract_ok: "ok (contract_of (\<lambda>t. replicate 64 (CHR ''0'')) handed_case
    (as_dict (dget ''change_plan'' handed_case)) (as_dict (dget ''regression_baseline'' handed_case)))"
  unfolding contract_of_def Let_def handed_hex bind_res_simps
proof (intro ok_bindI)
  show "ok (planned_files handed_case (as_dict (dget ''change_plan'' handed_case)))" by code_simp
  show "ok (plan_reasons (or_dict (dget ''file_reasons'' (as_dict (dget ''change_plan'' handed_case)))))" by code_simp
  have "ok (str_items (or_list (dget ''tests'' (as_dict (dget ''change_plan'' handed_case)))))" by code_simp
  then show "ok (if \<exists>f \<in> set files. \<not> truthy (dget f planned)
      then str_items (or_list (dget ''tests'' (as_dict (dget ''change_plan'' handed_case)))) else Inr [])" for files planned by simp
  show "ok (py_texts (py_or (dget ''invariants'' handed_case)
    (texts_of [''No unrelated behavior changes outside the bounded change plan.''])))" by code_simp
  show "ok (need ''case_id'' handed_case)" "ok (need ''risk'' handed_case)" "ok (need ''state'' handed_case)"
    "ok (need ''base_sha'' handed_case)" "ok (need ''test_or_oracle'' (as_dict (dget ''regression_baseline'' handed_case)))"
    "ok (py_list (or_list (dget ''forbidden_scope'' (as_dict (dget ''change_plan'' handed_case)))))"
    "ok (upper_items (or_list (dget ''domains'' handed_case)))" by code_simp+
qed simp

lemma handed_over:
  "problem_case_to_change_contract (\<lambda>t. replicate 64 (CHR ''0'')) (\<lambda>c. Inr []) (PDict safe_policy) handed_case = Inr handed_contract"
proof -
  let ?plan = "as_dict (dget ''change_plan'' handed_case)" and ?base = "as_dict (dget ''regression_baseline'' handed_case)"
  have parts: "py_eq (dget ''state'' handed_case) (PStr ''HANDOFF_READY'')"
    "in_names (dget ''classification'' handed_case) implementation_classifications = Inr True"
    "need_dict ''change_plan'' handed_case = Inr ?plan" "need_dict ''regression_baseline'' handed_case = Inr ?base" by code_simp+
  have "problem_case_to_change_contract (\<lambda>t. replicate 64 (CHR ''0'')) (\<lambda>c. Inr []) (PDict safe_policy) handed_case =
      contract_of (\<lambda>t. replicate 64 (CHR ''0'')) handed_case ?plan ?base"
    unfolding problem_case_to_change_contract_def handed_valid parts bind_res_simps by (simp add: parts)
  with handed_contract_ok show ?thesis by (auto simp: handed_contract_def ok_def split: sum.splits)
qed

theorem handoff_contract_accepted_witness:
  "validate_work_origin handed_contract True (Some handed_record) = Inr [] \<and> backed_handoff handed_contract (Some handed_record)"
proof (rule handoff_contract_accepted [OF handed_over])
  show "truthy (dget ''case_id'' handed_case)" by code_simp
  show "py_eq (dget ''case_id'' handed_record) (dget ''case_id'' handed_case)" by code_simp
  show "py_eq (dget ''problem_case_fingerprint'' handed_record)
    (PStr (problem_case_fingerprint (\<lambda>t. replicate 64 (CHR ''0'')) handed_case))"
    by (simp add: handed_record_def problem_case_fingerprint_def sha256_json_def sha256_bytes_def)
  show "py_eq (dget ''authority_store'' handed_record) (PStr owned_store)" by code_simp
  show "dget ''authoritative_lifecycle'' handed_record = PBool True" by code_simp
  show "dget ''state'' handed_record = PStr ''HANDOFF_READY''" by code_simp
  show "''HANDOFF_READY'' \<in> set handoff_states" by code_simp
qed

end
