(* ===== verification/Forensics_Props.thy ===== *)
theory Forensics_Props
  imports Diff_Forensics Delivery_Model Py_Canon
begin

text \<open>
  What the review of a diff guarantees about the files Git reports, how the path check normalises a
  path, and when the derived proof of a delivery model is accepted.
\<close>

section \<open>Paths\<close>

lemma split_on_chars: "w \<in> set (split_on d s) \<Longrightarrow> set w \<subseteq> set s"
proof (induction s arbitrary: w)
  case (Cons c cs)
  show ?case
  proof (cases "split_on d cs")
    case (Cons v vs)
    with Cons.prems Cons.IH [of v] Cons.IH [of w] show ?thesis by (auto split: if_splits)
  qed simp
qed simp

lemma posix_parts_chars: "p \<in> set (posix_parts s) \<Longrightarrow> set p \<subseteq> set s"
  using split_on_chars by (auto simp: posix_parts_def)

lemma join_chars: "set (join_with d ps) \<subseteq> set d \<union> \<Union> (set (map set ps))"
  by (induction d ps rule: join_with.induct) auto

lemma as_posix_chars: "set (as_posix (posix_parts s)) \<subseteq> {CHR ''/'', CHR ''.''} \<union> set s"
proof -
  have "\<Union> (set (map set (posix_parts s))) \<subseteq> set s" using posix_parts_chars by fastforce
  then have "set (join_with ''/'' (posix_parts s)) \<subseteq> {CHR ''/''} \<union> set s" using join_chars [of "''/''" "posix_parts s"] by fastforce
  then show ?thesis unfolding as_posix_def by (cases "posix_parts s = []") auto
qed

lemma join_relative: "(\<forall>p \<in> set ps. p \<noteq> [] \<and> CHR ''/'' \<notin> set p) \<Longrightarrow> \<not> starts_with ''/'' (join_with ''/'' ps)"
  by (induction "''/''" ps rule: join_with.induct) (auto simp: starts_with_iff neq_Nil_conv)

lemma as_posix_relative: "\<not> starts_with ''/'' (as_posix (posix_parts s))"
  using join_relative [of "posix_parts s"] split_on_parts [of _ s] by (auto simp: as_posix_def starts_with_iff)

lemma slashes_none: "CHR 0x5C \<notin> set s \<Longrightarrow> slashes s = s"
  by (rule replace_char_id)

lemma slashes_chars: "CHR 0x5C \<notin> set (slashes s)"
  by simp

text \<open>
  C33. A path that safe_relative_path returns has no parent segment, is not absolute and has no
  backslash and no NUL; it passes the check again unchanged exactly when it has no drive prefix.
\<close>

theorem safe_path_confined:
  assumes "safe_relative_path raw = Inr p"
  shows "''..'' \<notin> set (posix_parts p) \<and> \<not> starts_with ''/'' p \<and> CHR 0x5C \<notin> set p \<and> CHR 0x00 \<notin> set p \<and>
    (safe_relative_path p = Inr p \<longleftrightarrow> \<not> has_drive p)"
proof -
  let ?s = "slashes raw"
  from assms have p: "p = as_posix (posix_parts ?s)" and nul: "CHR 0x00 \<notin> set ?s" and dots: "''..'' \<notin> set (posix_parts ?s)"
    by (auto simp: safe_relative_path_def Let_def split: if_splits)
  have parts: "posix_parts p = posix_parts ?s" unfolding p by (rule posix_parts_as_posix)
  have bs: "CHR 0x5C \<notin> set p" using as_posix_chars [of ?s] slashes_chars [of raw] unfolding p by auto
  have "CHR 0x00 \<notin> set p" using as_posix_chars [of ?s] nul unfolding p by auto
  moreover have "\<not> starts_with ''/'' p" unfolding p by (rule as_posix_relative)
  ultimately show ?thesis
    using dots bs by (simp add: safe_relative_path_def Let_def parts slashes_none [OF bs] p [symmetric])
qed

theorem safe_path_confined_witness:
  "safe_relative_path ''src//./app.py'' = Inr ''src/app.py'' \<and> safe_relative_path ''src/app.py'' = Inr ''src/app.py'' \<and>
   safe_relative_path ''./C:/x'' = Inr ''C:/x'' \<and> \<not> safe_relative_path ''C:/x'' = Inr ''C:/x''"
proof -
  have "safe_relative_path ''src//./app.py'' = Inr ''src/app.py''" "safe_relative_path ''./C:/x'' = Inr ''C:/x''"
    "has_drive ''C:/x''" "\<not> has_drive ''src/app.py''" by code_simp+
  with safe_path_confined [OF this(1)] safe_path_confined [OF this(2)] show ?thesis by blast
qed

section \<open>The reviewed files\<close>

lemma inventory_file_step:
  assumes "inventory_file (i, v) (seen, errors) = (seen1, [])"
  shows "errors = [] \<and> seen1 = path_names [v] @ seen \<and> distinct (path_names [v]) \<and> set (path_names [v]) \<inter> set seen = {} \<and>
    (\<forall>p \<in> set (path_names [v]). ok (safe_relative_path p)) \<and> path_names [v] \<noteq> []"
  using assms by (auto simp: inventory_file_def path_names_def unsafe_path_def Let_def split: pyval.splits if_splits)

lemma path_names_Cons: "path_names (v # vs) = path_names [v] @ path_names vs"
  by (simp add: path_names_def)

lemma inventory_file_scan:
  "fold inventory_file xs (seen, errors) = (seen', []) \<Longrightarrow>
     errors = [] \<and> distinct (path_names (map snd xs)) \<and> set (path_names (map snd xs)) \<inter> set seen = {} \<and>
     (\<forall>p \<in> set (path_names (map snd xs)). ok (safe_relative_path p)) \<and> (\<forall>v \<in> set (map snd xs). path_names [v] \<noteq> [])"
proof (induction xs arbitrary: seen errors)
  case Nil
  then show ?case by (simp add: path_names_def)
next
  case (Cons x xs)
  obtain i v where x: "x = (i, v)" by (cases x)
  obtain seen1 errors1 where one: "inventory_file (i, v) (seen, errors) = (seen1, errors1)"
    by (cases "inventory_file (i, v) (seen, errors)")
  then have rest: "fold inventory_file xs (seen1, errors1) = (seen', [])" using Cons.prems by (simp add: x)
  note ih = Cons.IH [OF rest]
  with one have "inventory_file (i, v) (seen, errors) = (seen1, [])" by simp
  from inventory_file_step [OF this] ih
  have "errors = [] \<and> distinct (path_names [v] @ path_names (map snd xs)) \<and>
    set (path_names [v] @ path_names (map snd xs)) \<inter> set seen = {} \<and>
    (\<forall>p \<in> set (path_names [v] @ path_names (map snd xs)). ok (safe_relative_path p)) \<and>
    (\<forall>u \<in> insert v (set (map snd xs)). path_names [u] \<noteq> [])" by auto
  then show ?case unfolding x list.map list.set snd_conv path_names_Cons [of v "map snd xs"] .
qed

lemma enumerate_from_snd: "map snd (enumerate_from n xs) = xs"
  by (induction xs arbitrary: n) auto

lemma valid_inventory_files:
  assumes "validate_git_inventory sha v = []"
  obtains d fs where "v = PDict d" and "dget ''files'' d = PList fs" and "distinct (path_names fs)"
    and "\<forall>p \<in> set (path_names fs). ok (safe_relative_path p)" and "\<forall>v \<in> set fs. path_names [v] \<noteq> []"
    and "py_eq (dget ''inventory_hash'' d) (PStr (inventory_hash sha d))"
proof -
  from assms obtain d fs where d: "v = PDict d" "dget ''files'' d = PList fs"
    and errors: "snd (fold inventory_file (enumerate_from 0 fs) ([], [])) = []"
    and h: "py_eq (dget ''inventory_hash'' d) (PStr (inventory_hash sha d))"
    by (auto simp: validate_git_inventory_def Let_def split: pyval.splits)
  from errors obtain seen where "fold inventory_file (enumerate_from 0 fs) ([], []) = (seen, [])" by (metis prod.collapse)
  from inventory_file_scan [OF this] show ?thesis using that [OF d _ _ _ h] by (simp add: enumerate_from_snd)
qed

text \<open>Equal values have equal fields, and an inventory equal to the collected one has the paths of Git.\<close>

lemma dget_bool_as_int: "dget k (as_dict (bool_as_int (PDict d))) = bool_as_int (dget k d)"
  by (induction d) (auto simp: dget_def)

lemma py_eq_dget:
  assumes "py_eq (PDict d) (PDict d')"
  shows "py_eq (dget k d) (dget k d')"
proof -
  have "dget k (as_dict (bool_as_int (sort_keys (PDict e)))) = bool_as_int (sort_keys (dget k e))" for e
    using dget_bool_as_int [of k "as_dict (sort_keys (PDict e))"] dget_sorted [of k e] by simp
  then show ?thesis using assms unfolding py_eq_def by metis
qed

lemma py_eq_text: "py_eq v (PStr s) \<Longrightarrow> v = PStr s"
  by (cases v) (auto simp: py_eq_def)

lemma py_eq_swap: "py_eq v u \<Longrightarrow> py_eq v w \<Longrightarrow> py_eq u w"
  by (simp add: py_eq_def)

lemma py_eq_list:
  assumes "py_eq (PList vs) (PList ws)"
  shows "list_all2 py_eq vs ws"
proof -
  have "map (\<lambda>v. bool_as_int (sort_keys v)) vs = map (\<lambda>v. bool_as_int (sort_keys v)) ws"
    using assms by (simp add: py_eq_def comp_def)
  then show ?thesis by (induction vs arbitrary: ws) (auto simp: py_eq_def Cons_eq_map_conv)
qed

lemma entry_path:
  assumes "py_eq v (file_entry p)"
  shows "path_names [v] = (if cp_path p = [] then [] else [cp_path p])"
proof -
  from assms obtain d where v: "v = PDict d" by (cases v) (auto simp: py_eq_def file_entry_def)
  have "py_eq (dget ''path'' d) (PStr (cp_path p))"
    using py_eq_dget [of d _ "''path''"] assms unfolding v file_entry_def by (force simp: dget_def)
  from py_eq_text [OF this] show ?thesis by (simp add: v path_names_def)
qed

lemma entries_paths:
  assumes "list_all2 py_eq vs (map file_entry ps)" and "\<forall>v \<in> set vs. path_names [v] \<noteq> []"
  shows "path_names vs = map cp_path ps"
  using assms
proof (induction vs arbitrary: ps)
  case Nil
  then show ?case by (simp add: path_names_def)
next
  case (Cons v vs)
  from Cons.prems(1) obtain q qs where ps: "ps = q # qs" "py_eq v (file_entry q)" "list_all2 py_eq vs (map file_entry qs)"
    by (cases ps) auto
  have "path_names [v] = [cp_path q]" using entry_path [OF ps(2)] Cons.prems(2) by (auto split: if_splits)
  moreover have "path_names vs = map cp_path qs" using Cons.IH [OF ps(3)] Cons.prems(2) by simp
  ultimately show ?case by (simp only: ps(1) path_names_Cons [of v vs] list.map append.simps)
qed

lemma collected_inventory:
  assumes "collect_git_diff_inventory sha repo base candidate = Inr a"
  obtains b c changed diff where "gr_rev_parse repo base = Inr b" and "gr_rev_parse repo candidate = Inr c"
    and "gr_changed repo b c = Inr changed" and "gr_diff repo b c = Inr diff"
    and "dget ''files'' a = PList (map file_entry changed)" and "dget ''diff_hash'' a = PStr (sha256_bytes sha diff)"
    and "dget ''base_sha'' a = PStr b" and "dget ''candidate_sha'' a = PStr c"
  using assms by (auto simp: collect_git_diff_inventory_def bind_res_Inr Let_def inventory_body_def dget_def)

text \<open>
  C19. If validate_diff_forensics accepts a review, for an expected diff hash, against the
  inventory that collect_git_diff_inventory collects, then the recorded inventory equals the
  collected one; the reviewed files are exactly the paths Git reports as changed between the two
  revisions, distinct and safe; each of them is planned, unless the plan is empty or the record
  says the scope was replanned; the expected diff hash is that of Git's diff, and the expected
  base and candidate, where given, are the resolved revisions; and no blocking flag is set.
\<close>

theorem forensics_cover_the_diff:
  assumes "validate_diff_forensics sha (PDict m) s = Inr []" and "fs_diff_hash s \<noteq> PNone"
    and "collect_git_diff_inventory sha repo base candidate = Inr a" and "fs_actual s = Some a"
  shows "\<exists>files planned b c changed diff d. py_list (or_list (reviewed_files m)) = Inr files \<and> str_items (fs_planned s) = Inr planned \<and>
    gr_rev_parse repo base = Inr b \<and> gr_rev_parse repo candidate = Inr c \<and> gr_changed repo b c = Inr changed \<and>
    gr_diff repo b c = Inr diff \<and> dget ''git_inventory'' m = PDict d \<and> py_eq (PDict d) (PDict a) \<and>
    set (path_names files) = cp_path ` set changed \<and> distinct (map cp_path changed) \<and>
    (\<forall>p \<in> cp_path ` set changed. ok (safe_relative_path p)) \<and>
    (cp_path ` set changed \<subseteq> set planned \<or> planned = [] \<or> dget ''scope_replanned'' m = PBool True) \<and>
    py_eq (fs_diff_hash s) (PStr (sha256_bytes sha diff)) \<and>
    (fs_base s = PNone \<or> py_eq (fs_base s) (PStr b)) \<and> (fs_candidate s = PNone \<or> py_eq (fs_candidate s) (PStr c)) \<and>
    (\<forall>k \<in> set blocking_flags. dget k m \<noteq> PBool True)"
proof -
  from assms(1) obtain planned files declared allowed where p: "str_items (fs_planned s) = Inr planned"
    and f: "py_list (or_list (reviewed_files m)) = Inr files"
    and errors: "inventory_errors sha m s = []" "scope_checks m s planned (path_names files) declared allowed = []"
      "concat (map (\<lambda>k. err_if (dget k m = PBool True) (''BLOCKED: DIFF_FORENSICS:'' @ k)) blocking_flags) = []"
    unfolding validate_diff_forensics_def Let_def bind_res_Inr as_dict.simps by auto
  from collected_inventory [OF assms(3)] obtain b c changed diff where git: "gr_rev_parse repo base = Inr b"
    "gr_rev_parse repo candidate = Inr c" "gr_changed repo b c = Inr changed" "gr_diff repo b c = Inr diff"
    and a: "dget ''files'' a = PList (map file_entry changed)" "dget ''diff_hash'' a = PStr (sha256_bytes sha diff)"
      "dget ''base_sha'' a = PStr b" "dget ''candidate_sha'' a = PStr c" .
  have strict: "strict_inventory m s" using assms(2) by (simp add: strict_inventory_def)
  with errors(1) have "validate_git_inventory sha (dget ''git_inventory'' m) = []" by (simp add: inventory_errors_def Let_def)
  then obtain d fs where d: "dget ''git_inventory'' m = PDict d" "dget ''files'' d = PList fs" "distinct (path_names fs)"
    "\<forall>p \<in> set (path_names fs). ok (safe_relative_path p)" "\<forall>v \<in> set fs. path_names [v] \<noteq> []" by (rule valid_inventory_files)
  from errors(1) strict have eq: "py_eq (PDict d) (PDict a)" and h: "py_eq (dget ''diff_hash'' d) (fs_diff_hash s)"
    and bc: "fs_base s = PNone \<or> py_eq (dget ''base_sha'' d) (fs_base s)"
      "fs_candidate s = PNone \<or> py_eq (dget ''candidate_sha'' d) (fs_candidate s)"
    using assms(2,4) by (simp_all add: inventory_errors_def Let_def d(1) differs_def)
  note same_field = py_eq_dget [OF eq]
  have hash: "py_eq (fs_diff_hash s) (PStr (sha256_bytes sha diff))"
    by (rule py_eq_swap [OF h same_field [of "''diff_hash''", unfolded a]])
  have ends: "fs_base s = PNone \<or> py_eq (fs_base s) (PStr b)" "fs_candidate s = PNone \<or> py_eq (fs_candidate s) (PStr c)"
    using bc py_eq_swap [OF _ same_field [of "''base_sha''", unfolded a]] py_eq_swap [OF _ same_field [of "''candidate_sha''", unfolded a]]
    by blast+
  have paths: "path_names fs = map cp_path changed"
    using same_field [of "''files''"] entries_paths [OF py_eq_list d(5)] unfolding a d(2) by simp
  from errors(2) strict have same: "set (path_names files) = set (path_names fs)"
    and scope: "set (path_names files) \<subseteq> set planned \<or> planned = [] \<or> dget ''scope_replanned'' m = PBool True"
    by (auto simp: scope_checks_def Let_def d(1,2))
  have flags: "\<forall>k \<in> set blocking_flags. dget k m \<noteq> PBool True" using errors(3) by auto
  have covered: "set (path_names files) = cp_path ` set changed" using same by (simp add: paths)
  show ?thesis
    by (rule exI [of _ files], rule exI [of _ planned], rule exI [of _ b], rule exI [of _ c], rule exI [of _ changed],
      rule exI [of _ diff], rule exI [of _ d], intro conjI p f git d(1) eq covered hash ends flags)
      (use d(3,4) scope in \<open>simp_all add: paths covered\<close>)
qed

definition zero_hash :: "string \<Rightarrow> string" where
  "zero_hash t = replicate 64 (CHR ''0'')"

definition git_inventory :: pydict where
  "git_inventory =
     [(''base_sha'', PStr ''b''), (''candidate_sha'', PStr ''c''), (''diff_hash'', PStr (sha256_bytes zero_hash [])),
      (''files'', PList [PDict [(''path'', PStr ''src/app.py''), (''status'', PStr ''M''), (''old_path'', PNone)]]),
      (''inventory_hash'', PStr (sha256_bytes zero_hash []))]"

definition review_metadata :: pydict where
  "review_metadata =
     [(''files'', PList [PDict [(''path'', PStr ''src/app.py''), (''justification'', PStr ''fix''), (''planned'', PBool True),
         (''security_impact'', PStr ''none''), (''data_domain_impact'', PStr ''none''), (''generated'', PBool False),
         (''category'', PStr ''source'')]]),
      (''complete_changed_file_list'', PBool True), (''actual_changed_files'', PList [PStr ''src/app.py'']),
      (''allowed_scope'', PList [PStr ''src/app.py'']), (''actual_risk'', PStr ''R1''), (''actual_domains'', PList [PStr ''DATABASE'']),
      (''analysis_method'', PStr ''git''), (''reviewed_diff_hash'', PStr (sha256_bytes zero_hash [])), (''git_inventory'', PDict git_inventory)]"

definition review_subject :: forensics_subject where
  "review_subject = \<lparr>fs_planned = PList [PStr ''src/app.py''], fs_diff_hash = PStr (sha256_bytes zero_hash []), fs_base = PStr ''b'',
     fs_candidate = PStr ''c'', fs_actual = Some git_inventory\<rparr>"

definition review_repo :: git_repository where
  "review_repo = \<lparr>gr_rev_parse = (\<lambda>r. Inr r), gr_changed = (\<lambda>b c. Inr [\<lparr>cp_path = ''src/app.py'', cp_status = ''M'', cp_old = None\<rparr>]),
     gr_diff = (\<lambda>b c. Inr ''+x'')\<rparr>"

theorem forensics_cover_the_diff_witness:
  "\<exists>files changed. py_list (or_list (reviewed_files review_metadata)) = Inr files \<and> gr_changed review_repo ''b'' ''c'' = Inr changed \<and>
    changed \<noteq> [] \<and> set (path_names files) = cp_path ` set changed"
proof -
  have "validate_diff_forensics zero_hash (PDict review_metadata) review_subject = Inr []" by code_simp
  moreover have "fs_diff_hash review_subject \<noteq> PNone" "fs_actual review_subject = Some git_inventory"
    by (simp_all add: review_subject_def)
  moreover have "collect_git_diff_inventory zero_hash review_repo ''b'' ''c'' = Inr git_inventory" by code_simp
  ultimately show ?thesis
    using forensics_cover_the_diff [of zero_hash review_metadata review_subject review_repo "''b''" "''c''" git_inventory]
    by (force simp: review_repo_def)
qed

section \<open>Delivery proofs\<close>

lemma sorted_items [simp]: "str_items (or_list (PList (map PStr xs))) = Inr xs"
  by (cases xs) (simp_all add: str_items_def or_list_def py_or_def py_list_def comp_def)

lemma marker_digest_mem:
  "(m, v) \<in> set (marker_digests sha tree ms) \<longleftrightarrow> m \<in> set ms \<and> (\<exists>c. regular_file tree m = Some c \<and> v = PStr (sha256_bytes sha c))"
  unfolding marker_digests_def by (force split: option.splits)

lemma marker_digest_keys: "set (dkeys (marker_digests sha tree ms)) = {m \<in> set ms. regular_file tree m \<noteq> None}"
proof (rule set_eqI)
  fix m
  have "m \<in> set (dkeys (marker_digests sha tree ms)) \<longleftrightarrow> (\<exists>v. (m, v) \<in> set (marker_digests sha tree ms))"
    by (force simp: dkeys_def)
  then show "m \<in> set (dkeys (marker_digests sha tree ms)) \<longleftrightarrow> m \<in> {m \<in> set ms. regular_file tree m \<noteq> None}"
    by (auto simp: marker_digest_mem)
qed

lemma marker_digest_values:
  assumes "\<And>c. digest_text (sha256_bytes sha c)" and "(m, v) \<in> set (marker_digests sha tree ms)"
  shows "str_and digest_text v"
  using assms by (auto simp: marker_digest_mem str_and_def)

lemma dset_values: "(k, v) \<in> set (dset j w d) \<Longrightarrow> (k, v) \<in> set d \<or> v = w"
  by (induction j w d rule: dset.induct) (auto split: if_splits)

lemma merged_values: "(k, v) \<in> set (dict_merge d e) \<Longrightarrow> (k, v) \<in> set d \<or> (\<exists>j. (j, v) \<in> set e)"
  unfolding dict_merge_def
  by (induction e arbitrary: d) (auto dest!: dset_values split: prod.splits)

lemma proof_fields:
  "dget ''package_markers'' (marker_proof sha tree) = PList (map PStr (sort (found_package tree)))"
  "dget ''package_marker_digests'' (marker_proof sha tree) = PDict (marker_digests sha tree (found_package tree))"
  "dget ''runtime_markers'' (marker_proof sha tree) = PList (map PStr (sort (found_runtime tree)))"
  "dget ''runtime_marker_digests'' (marker_proof sha tree) = PDict (marker_digests sha tree (found_runtime tree))"
  "dget ''package_markers_complete'' (marker_proof sha tree) = PBool (set (found_package tree) = set package_markers)"
  "dget ''runtime_markers_present'' (marker_proof sha tree) = PBool (found_runtime tree \<noteq> [])"
  "dget ''derivation'' (marker_proof sha tree) = PStr proof_format"
  by (simp_all add: marker_proof_def dget_def)

lemma model_supported: "model_of_markers p r \<noteq> ''UNDETERMINED'' \<Longrightarrow> in_names (PStr (model_of_markers p r)) delivery_model_names = Inr True"
  by (cases p; cases r) (simp_all add: in_names_def delivery_model_names_def model_of_markers_def)

lemma marker_digests_good:
  assumes "\<And>c. digest_text (sha256_bytes sha c)"
  shows "bad_marker_digests (dict_merge (marker_digests sha tree xs) (marker_digests sha tree ys)) = []"
  using marker_digest_values [OF assms] by (fastforce simp: bad_marker_digests_def dest!: merged_values)

lemma found_markers: "set (found_package tree) \<subseteq> set package_markers" "set (found_runtime tree) \<subseteq> set runtime_markers"
  by (auto simp: found_package_def found_runtime_def)

lemma package_digest_keys: "set (dkeys (marker_digests sha tree (found_package tree))) = set (found_package tree)"
  by (auto simp: marker_digest_keys found_package_def)

lemma runtime_digest_keys:
  "set (dkeys (marker_digests sha tree (found_runtime tree))) = set (found_runtime tree) \<longleftrightarrow>
    (\<forall>m \<in> set runtime_markers. \<not> is_directory tree m)"
  by (auto simp: marker_digest_keys found_runtime_def is_directory_def regular_file_def split: option.splits tree_node.splits)

text \<open>
  C34. The proof that derive_delivery_model derives for a determined source tree passes
  validate_delivery_model_proof exactly when no runtime marker of the tree is a directory.
\<close>

theorem derived_proof_accepted:
  assumes "\<And>c. digest_text (sha256_bytes sha c)" and "dr_model (derive_delivery_model sha (Some tree)) \<noteq> ''UNDETERMINED''"
  shows "validate_delivery_model_proof sha (PStr (dr_model (derive_delivery_model sha (Some tree))))
      (PDict (dr_proof (derive_delivery_model sha (Some tree)))) (PStr (dr_digest (derive_delivery_model sha (Some tree)))) = Inr [] \<longleftrightarrow>
    (\<forall>m \<in> set runtime_markers. \<not> is_directory tree m)"
proof -
  let ?m = "model_of_markers (set (found_package tree) = set package_markers) (found_runtime tree \<noteq> [])"
  have d: "dr_model (derive_delivery_model sha (Some tree)) = ?m" "dr_proof (derive_delivery_model sha (Some tree)) = marker_proof sha tree"
    "dr_digest (derive_delivery_model sha (Some tree)) = sha256_json sha (PDict (marker_proof sha tree))"
    by (simp_all add: derive_delivery_model_def Let_def)
  have empty: "sort xs = [] \<longleftrightarrow> xs = []" for xs :: "string list" by (metis set_empty set_sort)
  have supported: "in_names (PStr ?m) delivery_model_names = Inr True" using assms(2) model_supported unfolding d by blast
  show ?thesis
    unfolding d validate_delivery_model_proof_def
    using found_markers [of tree]
    by (simp only: supported bind_res_simps not_True_eq_False if_False pyval.case proof_fields sorted_items Let_def as_dict.simps
        sum.inject sorted_set_eq_Nil set_sort empty package_digest_keys runtime_digest_keys marker_digests_good [OF assms(1)]
        append_is_Nil_conv err_if_Nil py_eq_refl) auto
qed

definition tree_with :: "string \<Rightarrow> tree_node \<Rightarrow> source_tree" where
  "tree_with path node p = (if p = path then Some node else None)"

theorem derived_proof_accepted_witness:
  "(let r = derive_delivery_model zero_hash (Some (tree_with ''Dockerfile'' (Regular ''FROM scratch'')))
    in validate_delivery_model_proof zero_hash (PStr (dr_model r)) (PDict (dr_proof r)) (PStr (dr_digest r)) = Inr []) \<and>
   (let r = derive_delivery_model zero_hash (Some (tree_with ''helm'' Directory))
    in validate_delivery_model_proof zero_hash (PStr (dr_model r)) (PDict (dr_proof r)) (PStr (dr_digest r)) \<noteq> Inr [])"
proof -
  have digest: "digest_text (sha256_bytes zero_hash c)" for c
  proof -
    have "digest_text (''sha256:'' @ replicate 64 (CHR ''0''))" by code_simp
    then show ?thesis by (simp only: sha256_bytes_def zero_hash_def)
  qed
  have "dr_model (derive_delivery_model zero_hash (Some (tree_with ''Dockerfile'' (Regular ''FROM scratch'')))) \<noteq> ''UNDETERMINED''"
    "dr_model (derive_delivery_model zero_hash (Some (tree_with ''helm'' Directory))) \<noteq> ''UNDETERMINED''" by code_simp+
  moreover have "\<forall>m \<in> set runtime_markers. \<not> is_directory (tree_with ''Dockerfile'' (Regular ''FROM scratch'')) m"
    "\<not> (\<forall>m \<in> set runtime_markers. \<not> is_directory (tree_with ''helm'' Directory) m)"
    by (simp_all add: is_directory_def tree_with_def runtime_markers_def)
  ultimately show ?thesis
    using derived_proof_accepted [OF digest, of "tree_with ''Dockerfile'' (Regular ''FROM scratch'')"]
      derived_proof_accepted [OF digest, of "tree_with ''helm'' Directory"] by (simp only: Let_def) blast
qed

end
