(* ===== verification/Spec2Isabelle.thy ===== *)
theory Spec2Isabelle
  imports Mesh_Props Subject_Props Gate_Props Scheduler_Props Delivery Ledger Life_Props Problem_Handoff Bug_Evidence Diff_Forensics Bug_Props Bug_Order Handoff_Props Forensics_Props
begin

text \<open>
  A model of the ZTAD toolkit (\<open>toolkit/ztad\<close>), a controller that lets agents change a repository
  only through states, evidence, leases and approvals that it can check afterwards.

  \<^bold>\<open>The program.\<close> A reported problem becomes a case that is investigated (\<open>problem.py\<close>), and the
  finished investigation becomes a change contract. A change contract opens a task
  (\<open>orchestrator.py\<close>) if its origin is backed (\<open>bug_protocol.py\<close>); the scheduler (\<open>scheduler.py\<close>) drives
  a task from state to state through the transition gate (\<open>state_machine.py\<close>), which asks for evidence
  (\<open>evidence.py\<close>, \<open>crypto.py\<close>, \<open>trust.py\<close>) about the exact subject (\<open>subject.py\<close>). The work of a change is
  a graph of nodes that agents lease (\<open>mesh_store.py\<close>), watched by the loop guard (\<open>loop_guard.py\<close>).
  A defect has a second, authoritative record, which \<open>bug_lifecycle.py\<close> advances under the policy of
  \<open>bug_protocol.py\<close> and commits to the lifecycle store (\<open>lifecycle_store.py\<close>) under an attested
  controller identity (\<open>controller_context.py\<close>). Releases go out step by step
  (\<open>progressive_delivery.py\<close>); \<open>ledger.py\<close> keeps a chained log with external checkpoints.

  \<^bold>\<open>Reading the model.\<close> A Python value is \<open>pyval\<close>, a dict the list of its items in insertion order
  (\<open>pydict\<close>). An exception is a value of \<open>py_exn\<close> and a fallible function returns a \<open>res\<close>, \<open>Inl\<close> the
  exception; \<open>bind_res\<close> is sequencing. A store is a record of tables, a table a list of rows, a
  transaction a function from the store to the new store and the result: a transaction that raises
  hands back the store it was given unless the code has committed before. Validators return their
  sorted lists of complaints, and every operation on a value of unknown type raises where Python
  raises (\<open>Py_Dyn\<close>). Integers are unbounded, as they are in Python.

  \<^bold>\<open>Theories and sources.\<close>
  \<^item> \<open>Py_Prelude\<close>, \<open>Py_Value\<close>, \<open>Py_Canon\<close>, \<open>Py_Dyn\<close>: exceptions, strings, tables, JSON-like values,
    \<open>canonical_json\<close> and the digests of \<open>util.py\<close>, with a decoder that shows the text determines the
    value; \<open>Hash_Chain\<close>: the locale of append-only hash-chained logs, interpreted for the task events,
    the lifecycle events and the ledger; \<open>Iso_Time\<close>: \<open>datetime.fromisoformat\<close>.
  \<^item> \<open>Loop_Guard\<close>, \<open>Mesh_Store\<close>, \<open>Mesh_Graph\<close>, \<open>Mesh_Locks\<close>, \<open>Mesh_Props\<close>: \<open>loop_guard.py\<close> and \<open>mesh_store.py\<close>
    (submission of a graph, readiness, leases, scope locks, retries, recovery). A step relation has
    one step per transaction under a clock that does not go back.
  \<^item> \<open>Work_Origin\<close>, \<open>Task_Store\<close>, \<open>Task_Inv\<close>, \<open>Task_Props\<close>: \<open>validate_work_origin\<close> and \<open>orchestrator.py\<close>.
  \<^item> \<open>Subject\<close>, \<open>Trust\<close>, \<open>Evidence\<close>, \<open>Gate\<close> and their \<open>_Props\<close>: \<open>subject.py\<close>, \<open>trust.py\<close>, \<open>crypto.py\<close>,
    \<open>evidence.py\<close>, \<open>state_machine.py\<close>.
  \<^item> \<open>Scheduler\<close>, \<open>Scheduler_Props\<close>: one tick of \<open>scheduler.py\<close>. \<open>Delivery\<close>: \<open>progressive_delivery.py\<close>.
    \<open>Ledger\<close>: \<open>ledger.py\<close>.
  \<^item> \<open>Controller\<close>, \<open>Risk\<close>, \<open>Life_Store\<close>, \<open>Life_Verify\<close>: \<open>controller_context.py\<close>, the levels of \<open>risk.py\<close>, and
    \<open>lifecycle_store.py\<close>; \<open>Life_Inv\<close>, \<open>Life_Wf\<close>, \<open>Life_Honest\<close>, \<open>Life_Steps\<close>: its invariants, the structure
    of the log, honest transitions, and runs; \<open>Life_Demo\<close>: a concrete run for the witnesses.
  \<^item> \<open>Delivery_Model\<close>: \<open>delivery_model.py\<close>. \<open>Bug_Policy\<close>, \<open>Bug_Case\<close>, \<open>Bug_Evidence\<close>: the validators of
    \<open>bug_protocol.py\<close>. \<open>Diff_Forensics\<close>: \<open>diff_forensics.py\<close> and \<open>safe_relative_path\<close>.
    \<open>Problem_Case\<close>, \<open>Problem_Handoff\<close>: \<open>problem.py\<close>.
  \<^item> \<open>Bug_Gates\<close>, \<open>Bug_Lifecycle\<close>, \<open>Bug_Commit\<close>: \<open>bug_lifecycle.py\<close>, in the order the code has its
    functions; \<open>Bug_Facts\<close>, \<open>Bug_Demo\<close>, \<open>Bug_Props\<close>, \<open>Bug_Order\<close>: what an allowed and what a committed
    transition have passed, a policy that passes its validation, and the order of the states.
  \<^item> \<open>Handoff_Props\<close>, \<open>Forensics_Props\<close>: what an investigation and a review of a diff hand on.

  \<^bold>\<open>What the lemmas show.\<close> Stores: invariants preserved by every operation, one transaction at a
  time and along runs (exclusive writers, acyclic graphs, typed rows, event logs that verify, a
  refinement of the lifecycle store to lists of documents). Gates: a decision to proceed holds
  exactly when the conditions of the policy and of the evidence hold. Records: a validator that
  accepts implies the facts it is asked about. Identity: digests of canonical texts determine the
  record. Errors: which operations raise, and that the store is unchanged when they do.

  \<^bold>\<open>Parameters.\<close> SHA-256 and HMAC (\<open>sha\<close>, \<open>le_hmac\<close>) are functions on texts; where a theorem concludes
  equality from equal digests it assumes that the function is injective, the usual idealisation, and
  where a digest is parsed again it assumes that the digest has the form of one. The Ed25519
  primitive and the loader of PEM keys are functions. JSON Schema validators are functions from a
  document to its errors. Clocks are arguments, one for every reading of the clock. The runner of the
  scheduler and the adapter of a rollout change the world, return or raise. Git and source trees are
  records of functions. An adapter gets the artifact, environment and stable artifact of the call and
  answers a dict, which the rollout returns; it checks the success of a deployment, not of a rollback.

  \<^bold>\<open>Bounds.\<close> The fuel of \<open>dependency_closure\<close> is the recursion limit of the interpreter: for a
  graph submitted to an empty store the number of dependency rows is enough, and after a second
  submission that closes a cycle no fuel is. The decoder of canonical texts has the length of the text. Other
  recursions are structural.

  \<^bold>\<open>Simplifications.\<close> Strings are ASCII; the arrow in the messages about red and green runs is written
  in ASCII. There are no floating point numbers: measured values are those of a linear order. JSON
  columns hold the parsed value, and documents that come back from a column are assumed to have
  sorted keys where a theorem needs it. Week dates are not parsed.
  The text of the clock of a mesh store is assumed not to go back in the order of texts, in which the
  code compares leases; \<open>isoformat\<close> leaves out a zero fraction, so within such a second the order of
  the texts can differ from that of the times (see the findings of the manifest). Sets are iterated in one fixed
  order where only the order of a message depends on it. The parameter
  \<open>require_authoritative_signature\<close> is read by no branch of the code and has no argument here.
  Elements of lists of evidence are taken to be texts where the schema of the record says so.

  \<^bold>\<open>Not modelled.\<close> The opening and migration of database files, process and network calls, archives,
  installers, argument parsing and printing; routing and benchmarks of models, whose scores are
  floating point numbers; scanners built on regular expressions over free text.
\<close>

end
